(* ===== verification/Prelude.thy ===== *)
theory Prelude
  imports Complex_Main "HOL-Library.AList" "HOL-Library.Sublist" "HOL-Library.Word"
begin

text \<open>
  Shared ground of the development: the collections the component proofs draw from, Python
  values (JSON data, insertion-ordered dictionaries, decimal, hexadecimal and UUID text) and
  the operations on texts the source uses.
\<close>

named_theorems wp \<open>rules for triples over the state-and-exception monad\<close>
named_theorems resp_rules \<open>rules for two-state relations over the monad\<close>
named_theorems monad_defs \<open>definitions of the monad's operations\<close>

section \<open>Python values\<close>

text \<open>
  JSON values as the code handles them. An object is an association list in insertion order,
  as a Python dict is; a float is the rational number it denotes (no NaN or infinity).
\<close>

datatype json = JNull | JBool bool | JInt int | JFloat rat | JStr string | JList "json list"
  | JObj "(string \<times> json) list"

type_synonym dict = "(string \<times> json) list"

abbreviation dict_get :: "(string \<times> 'v) list \<Rightarrow> string \<Rightarrow> 'v option" where
  "dict_get d k \<equiv> map_of d k"

abbreviation dict_set :: "string \<Rightarrow> 'v \<Rightarrow> (string \<times> 'v) list \<Rightarrow> (string \<times> 'v) list" where
  "dict_set k v d \<equiv> AList.update k v d"

definition dict_has :: "(string \<times> 'v) list \<Rightarrow> string \<Rightarrow> bool" where
  "dict_has d k = (map_of d k \<noteq> None)"

definition dict_setdefault :: "string \<Rightarrow> 'v \<Rightarrow> (string \<times> 'v) list \<Rightarrow> (string \<times> 'v) list" where
  "dict_setdefault k v d = (if dict_has d k then d else d @ [(k, v)])"

text \<open>\<open>{**d, **e}\<close>: the entries of the second dictionary overwrite, later keys are appended.\<close>

definition dict_merge :: "(string \<times> 'v) list \<Rightarrow> (string \<times> 'v) list \<Rightarrow> (string \<times> 'v) list" where
  "dict_merge d e = fold (\<lambda>(k, v) acc. dict_set k v acc) e d"

text \<open>Python's truth value of a JSON value.\<close>

fun truthy :: "json \<Rightarrow> bool" where
  "truthy JNull = False"
| "truthy (JBool b) = b"
| "truthy (JInt i) = (i \<noteq> 0)"
| "truthy (JFloat r) = (r \<noteq> 0)"
| "truthy (JStr s) = (s \<noteq> [])"
| "truthy (JList xs) = (xs \<noteq> [])"
| "truthy (JObj d) = (d \<noteq> [])"

lemma dict_get_set [simp]: "dict_get (dict_set k v d) k' = (if k' = k then Some v else dict_get d k')"
  by (simp add: update_conv')

lemma dict_has_set [simp]: "dict_has (dict_set k v d) k' = (k' = k \<or> dict_has d k')"
  by (auto simp: dict_has_def)

lemma dict_get_setdefault:
  "dict_get (dict_setdefault k v d) k' =
     (if k' = k \<and> \<not> dict_has d k then Some v else dict_get d k')"
  by (auto simp: dict_setdefault_def dict_has_def map_add_def split: option.splits)

lemma dict_get_merge:
  "dict_get (dict_merge d e) k =
     (if dict_has e k then Some (the (dict_get (rev e) k)) else dict_get d k)"
proof (induction e arbitrary: d)
  case Nil
  then show ?case by (simp add: dict_merge_def dict_has_def)
next
  case (Cons p e)
  obtain k0 v0 where p: "p = (k0, v0)" by (cases p)
  have step: "dict_merge d (p # e) = dict_merge (dict_set k0 v0 d) e"
    by (simp add: dict_merge_def p)
  have rev_dom: "dict_has e k = (dict_get (rev e) k \<noteq> None)"
    by (auto simp: dict_has_def map_of_eq_None_iff)
  show ?case
    using Cons.IH [of "dict_set k0 v0 d"] rev_dom
    by (auto simp: step [unfolded p] p dict_has_def map_add_def split: option.splits)
qed

subsection \<open>Decimal and hexadecimal text\<close>

fun str_of_nat :: "nat \<Rightarrow> string" where
  "str_of_nat n =
     (if n < 10 then [char_of (48 + n)] else str_of_nat (n div 10) @ [char_of (48 + n mod 10)])"

declare str_of_nat.simps [simp del]

definition str_of_int :: "int \<Rightarrow> string" where
  "str_of_int i = (if i < 0 then CHR ''-'' # str_of_nat (nat (- i)) else str_of_nat (nat i))"

definition nat_of_str :: "string \<Rightarrow> nat" where
  "nat_of_str s = foldl (\<lambda>a c. 10 * a + (of_char c - 48)) 0 s"

definition is_digit :: "char \<Rightarrow> bool" where
  "is_digit c = (48 \<le> (of_char c :: nat) \<and> (of_char c :: nat) \<le> 57)"

lemma of_char_digit: "n < 10 \<Longrightarrow> of_char (char_of (48 + n) :: char) = (48 + n :: nat)"
  by simp

lemma nat_of_str_of_nat [simp]: "nat_of_str (str_of_nat n) = n"
proof (induction n rule: str_of_nat.induct)
  case (1 n)
  show ?case
  proof (cases "n < 10")
    case True
    then show ?thesis
      by (subst str_of_nat.simps) (simp add: nat_of_str_def)
  next
    case False
    have d: "of_char (char_of (48 + n mod 10) :: char) = 48 + n mod 10"
      by (rule of_char_digit) simp
    have "nat_of_str (str_of_nat n) = 10 * nat_of_str (str_of_nat (n div 10)) + n mod 10"
      using False d by (subst str_of_nat.simps) (simp add: nat_of_str_def del: of_char_of)
    with 1 False show ?thesis by simp
  qed
qed

lemma str_of_nat_digits: "list_all is_digit (str_of_nat n)"
proof (induction n rule: str_of_nat.induct)
  case (1 n)
  have "\<And>m::nat. m < 10 \<Longrightarrow> is_digit (char_of (48 + m))"
    by (simp add: is_digit_def)
  with 1 show ?case
    by (subst str_of_nat.simps) (auto simp del: of_char_of)
qed

lemma str_of_nat_nonempty [simp]: "str_of_nat n \<noteq> []"
  by (subst str_of_nat.simps) simp

lemma str_of_nat_inject [simp]: "str_of_nat m = str_of_nat n \<longleftrightarrow> m = n"
  by (metis nat_of_str_of_nat)

lemma minus_not_digit: "\<not> is_digit CHR ''-''"
  by (simp add: is_digit_def)

lemma colon_not_digit: "\<not> is_digit CHR '':''"
  by (simp add: is_digit_def)

lemma str_of_nat_no_minus: "str_of_nat n \<noteq> CHR ''-'' # s"
  using str_of_nat_digits [of n] minus_not_digit by auto

lemma str_of_int_inject [simp]: "str_of_int i = str_of_int j \<longleftrightarrow> i = j"
  using str_of_nat_no_minus [of "nat i"] str_of_nat_no_minus [of "nat i", symmetric]
    str_of_nat_no_minus [of "nat j"] str_of_nat_no_minus [of "nat j", symmetric]
  by (auto simp: str_of_int_def split: if_splits)

lemma str_of_int_no_colon: "CHR '':'' \<notin> set (str_of_int i)"
proof -
  have "CHR '':'' \<notin> set (str_of_nat n)" for n
    using str_of_nat_digits [of n] colon_not_digit by (auto simp: list_all_iff)
  then show ?thesis by (simp add: str_of_int_def)
qed

text \<open>
  An identifier is a 128-bit UUID; \<open>str(uuid)\<close> prints its 32 hexadecimal digits in the
  8-4-4-4-12 grouping.
\<close>

type_synonym uuid = "128 word"

fun hex_digits :: "nat \<Rightarrow> nat \<Rightarrow> nat list" where
  "hex_digits 0 n = []"
| "hex_digits (Suc k) n = hex_digits k (n div 16) @ [n mod 16]"

definition hex_char :: "nat \<Rightarrow> char" where
  "hex_char d = char_of (if d < 10 then 48 + d else 87 + d)"

definition uuid_str :: "uuid \<Rightarrow> string" where
  "uuid_str u =
     (let h = map hex_char (hex_digits 32 (unat u)) in
      take 8 h @ ''-'' @ take 4 (drop 8 h) @ ''-'' @ take 4 (drop 12 h) @ ''-''
      @ take 4 (drop 16 h) @ ''-'' @ drop 20 h)"

lemma length_hex_digits [simp]: "length (hex_digits k n) = k"
  by (induction k arbitrary: n) auto

lemma hex_digits_bound: "d \<in> set (hex_digits k n) \<Longrightarrow> d < 16"
  by (induction k arbitrary: n) auto

lemma hex_digits_zero: "hex_digits k 0 = replicate k 0"
  by (induction k) (simp_all add: replicate_append_same)

text \<open>The code equation stops at zero, and on a number that is not yet known.\<close>

lemma hex_digits_code [code]:
  "hex_digits k n = (if n = 0 then replicate k 0
     else (case k of 0 \<Rightarrow> [] | Suc j \<Rightarrow> hex_digits j (n div 16) @ [n mod 16]))"
  by (cases k) (simp_all add: hex_digits_zero replicate_append_same)

lemma hex_digits_inject:
  "n < 16 ^ k \<Longrightarrow> m < 16 ^ k \<Longrightarrow> hex_digits k n = hex_digits k m \<Longrightarrow> n = m"
proof (induction k arbitrary: n m)
  case 0
  then show ?case by simp
next
  case (Suc k)
  then have "n div 16 = m div 16" and "n mod 16 = m mod 16"
    by (auto simp: less_mult_imp_div_less)
  then show ?case by (metis mult_div_mod_eq)
qed

lemma hex_char_code: "x < 16 \<Longrightarrow> (of_char (hex_char x) :: nat) = (if x < 10 then 48 + x else 87 + x)"
  by (simp add: hex_char_def)

lemma hex_char_inj: "inj_on hex_char {..<16}"
proof (rule inj_onI)
  fix a b
  assume ab: "a \<in> {..<16}" "b \<in> {..<16}" and eq: "hex_char a = hex_char b"
  have "(if a < 10 then 48 + a else 87 + a) = (if b < 10 then 48 + b else 87 + b)"
    using ab hex_char_code [of a] hex_char_code [of b] eq by simp
  with ab show "a = b" by (auto split: if_splits)
qed

lemma uuid_str_inject [simp]: "uuid_str u = uuid_str v \<longleftrightarrow> u = v"
proof
  assume "uuid_str u = uuid_str v"
  then have eq: "map hex_char (hex_digits 32 (unat u)) = map hex_char (hex_digits 32 (unat v))"
    (is "?h = ?k")
  proof -
    assume e: "uuid_str u = uuid_str v"
    define h k where "h = ?h" and "k = ?k"
    have len: "length h = 32" "length k = 32" by (simp_all add: h_def k_def)
    have split: "x = take 8 x @ take 4 (drop 8 x) @ take 4 (drop 12 x) @ take 4 (drop 16 x) @ drop 20 x"
      for x :: string
      using append_take_drop_id [of 8 x] append_take_drop_id [of 4 "drop 8 x"]
        append_take_drop_id [of 4 "drop 12 x"] append_take_drop_id [of 4 "drop 16 x"]
      by simp
    have "take 8 h = take 8 k" "take 4 (drop 8 h) = take 4 (drop 8 k)"
      "take 4 (drop 12 h) = take 4 (drop 12 k)" "take 4 (drop 16 h) = take 4 (drop 16 k)"
      "drop 20 h = drop 20 k"
      using e len by (simp_all add: uuid_str_def Let_def h_def k_def)
    with split [of h] split [of k] show "?h = ?k" unfolding h_def k_def by metis
  qed
  have "hex_digits 32 (unat u) = hex_digits 32 (unat v)"
    by (rule map_inj_on [OF eq]) (auto intro: inj_on_subset [OF hex_char_inj] dest: hex_digits_bound)
  then have "unat u = unat v"
    by (rule hex_digits_inject [rotated 2]) (use unsigned_less [of u] unsigned_less [of v] in simp_all)
  then show "u = v" by (simp add: unsigned_word_eqI)
qed simp

subsection \<open>String operations\<close>

text \<open>\<open>sep.join(parts)\<close>, \<open>s.lower()\<close> on ASCII letters, \<open>s.strip()\<close> and \<open>s.startswith(p)\<close>.\<close>

fun str_join :: "string \<Rightarrow> string list \<Rightarrow> string" where
  "str_join sep [] = []"
| "str_join sep [x] = x"
| "str_join sep (x # y # xs) = x @ sep @ str_join sep (y # xs)"

definition lower_char :: "char \<Rightarrow> char" where
  "lower_char c =
     (if 65 \<le> (of_char c :: nat) \<and> (of_char c :: nat) \<le> 90 then char_of (of_char c + 32 :: nat) else c)"

definition str_lower :: "string \<Rightarrow> string" where
  "str_lower s = map lower_char s"

definition is_space :: "char \<Rightarrow> bool" where
  "is_space c = ((of_char c :: nat) \<in> {9, 10, 11, 12, 13, 28, 29, 30, 31, 32, 133, 160})"

definition str_strip :: "string \<Rightarrow> string" where
  "str_strip s = rev (dropWhile is_space (rev (dropWhile is_space s)))"

definition str_startswith :: "string \<Rightarrow> string \<Rightarrow> bool" where
  "str_startswith s p = (take (length p) s = p)"

text \<open>\<open>needle in haystack\<close> on strings, and \<open>s.partition(c)[0]\<close> for a one-character separator.\<close>

fun str_contains :: "string \<Rightarrow> string \<Rightarrow> bool" where
  "str_contains needle [] = (needle = [])"
| "str_contains needle (c # cs) =
     (str_startswith (c # cs) needle \<or> str_contains needle cs)"

definition before_char :: "char \<Rightarrow> string \<Rightarrow> string" where
  "before_char c s = takeWhile (\<lambda>d. d \<noteq> c) s"

text \<open>\<open>repr\<close> of a string without quotes, backslashes or control characters, as the error messages use it.\<close>

definition str_repr :: "string \<Rightarrow> string" where
  "str_repr s = [CHR 0x27] @ s @ [CHR 0x27]"

lemma str_startswith_append [simp]: "str_startswith (p @ s) p"
  by (simp add: str_startswith_def)

lemma before_char_id: "c \<notin> set s \<Longrightarrow> before_char c s = s"
  by (induction s) (auto simp: before_char_def)

lemma length_str_join_le:
  "list_all (\<lambda>x. length x \<le> n) xs \<Longrightarrow> length (str_join sep xs) \<le> length xs * (n + length sep)"
  by (induction sep xs rule: str_join.induct) auto

end
