(* ===== verification/Effects.thy ===== *)
theory Effects
  imports Prelude
begin

text \<open>
  The state-and-exception monad. A program maps a state to an exception (\<open>Inl\<close>) or a result
  (\<open>Inr\<close>) together with the state it leaves: Python keeps the mutations made before a raise,
  so the state survives an exception. Triples have one postcondition for a normal return and
  one for a raise; \<open>resp R m\<close> says that every run of \<open>m\<close>, normal or not, relates
  its states by \<open>R\<close>.
\<close>

type_synonym ('s, 'e, 'a) prog = "'s \<Rightarrow> ('e + 'a) \<times> 's"

definition ret :: "'a \<Rightarrow> ('s, 'e, 'a) prog" where
  [monad_defs]: "ret a = (\<lambda>s. (Inr a, s))"

definition raise :: "'e \<Rightarrow> ('s, 'e, 'a) prog" where
  [monad_defs]: "raise e = (\<lambda>s. (Inl e, s))"

definition mbind :: "('s, 'e, 'a) prog \<Rightarrow> ('a \<Rightarrow> ('s, 'e, 'b) prog) \<Rightarrow> ('s, 'e, 'b) prog" where
  [monad_defs]: "mbind m f = (\<lambda>s. case m s of (Inl e, s') \<Rightarrow> (Inl e, s') | (Inr a, s') \<Rightarrow> f a s')"

abbreviation mseq :: "('s, 'e, unit) prog \<Rightarrow> ('s, 'e, 'b) prog \<Rightarrow> ('s, 'e, 'b) prog" where
  "mseq m n \<equiv> mbind m (\<lambda>_. n)"

definition mcatch :: "('s, 'e, 'a) prog \<Rightarrow> ('e \<Rightarrow> ('s, 'f, 'a) prog) \<Rightarrow> ('s, 'f, 'a) prog" where
  [monad_defs]: "mcatch m h = (\<lambda>s. case m s of (Inl e, s') \<Rightarrow> h e s' | (Inr a, s') \<Rightarrow> (Inr a, s'))"

definition gets :: "('s \<Rightarrow> 'a) \<Rightarrow> ('s, 'e, 'a) prog" where
  [monad_defs]: "gets f = (\<lambda>s. (Inr (f s), s))"

definition modify :: "('s \<Rightarrow> 's) \<Rightarrow> ('s, 'e, unit) prog" where
  [monad_defs]: "modify f = (\<lambda>s. (Inr (), f s))"

definition mwhen :: "bool \<Rightarrow> ('s, 'e, unit) prog \<Rightarrow> ('s, 'e, unit) prog" where
  [monad_defs]: "mwhen c m = (if c then m else ret ())"

fun for_each :: "'x list \<Rightarrow> ('x \<Rightarrow> ('s, 'e, unit) prog) \<Rightarrow> ('s, 'e, unit) prog" where
  "for_each [] f = ret ()"
| "for_each (x # xs) f = mseq (f x) (for_each xs f)"

fun map_each :: "('x \<Rightarrow> ('s, 'e, 'y) prog) \<Rightarrow> 'x list \<Rightarrow> ('s, 'e, 'y list) prog" where
  "map_each f [] = ret []"
| "map_each f (x # xs) = mbind (f x) (\<lambda>y. mbind (map_each f xs) (\<lambda>ys. ret (y # ys)))"

section \<open>Equations\<close>

lemma mbind_ret [simp]: "mbind (ret a) f = f a"
  by (simp add: monad_defs)

lemma mbind_raise [simp]: "mbind (raise e) f = raise e"
  by (simp add: monad_defs)

lemma mbind_ret_right [simp]: "mbind m ret = m"
  by (rule ext) (simp add: monad_defs split: prod.splits sum.splits)

lemma mbind_assoc: "mbind (mbind m f) g = mbind m (\<lambda>a. mbind (f a) g)"
  by (rule ext) (simp add: monad_defs split: prod.splits sum.splits)

lemma mcatch_ret [simp]: "mcatch (ret a) h = ret a"
  by (simp add: monad_defs)

lemma mcatch_raise [simp]: "mcatch (raise e) h = h e"
  by (simp add: monad_defs)

lemma run_ret [simp]: "ret a s = (Inr a, s)"
  by (simp add: monad_defs)

lemma run_raise [simp]: "raise e s = (Inl e, s)"
  by (simp add: monad_defs)

lemma run_gets [simp]: "gets f s = (Inr (f s), s)"
  by (simp add: monad_defs)

lemma run_modify [simp]: "modify f s = (Inr (), f s)"
  by (simp add: monad_defs)

lemma run_mbind_Inr [simp]: "m s = (Inr a, s') \<Longrightarrow> mbind m f s = f a s'"
  by (simp add: monad_defs)

lemma run_mbind_Inl [simp]: "m s = (Inl e, s') \<Longrightarrow> mbind m f s = (Inl e, s')"
  by (simp add: monad_defs)

lemma mbind_Inr_E:
  assumes "mbind m f s = (Inr b, t)"
  obtains a u where "m s = (Inr a, u)" and "f a u = (Inr b, t)"
  using assms by (auto simp: mbind_def split: prod.splits sum.splits)

section \<open>Triples\<close>

definition hoare ::
  "('s \<Rightarrow> bool) \<Rightarrow> ('s, 'e, 'a) prog \<Rightarrow> ('a \<Rightarrow> 's \<Rightarrow> bool) \<Rightarrow> ('e \<Rightarrow> 's \<Rightarrow> bool) \<Rightarrow> bool" where
  "hoare P m Q E \<longleftrightarrow>
     (\<forall>s. P s \<longrightarrow> (case m s of (Inl e, s') \<Rightarrow> E e s' | (Inr a, s') \<Rightarrow> Q a s'))"

lemma hoareD_Inr: "hoare P m Q E \<Longrightarrow> P s \<Longrightarrow> m s = (Inr a, s') \<Longrightarrow> Q a s'"
  by (force simp: hoare_def)

lemma hoareD_Inl: "hoare P m Q E \<Longrightarrow> P s \<Longrightarrow> m s = (Inl e, s') \<Longrightarrow> E e s'"
  by (force simp: hoare_def)

lemma hoareI:
  assumes "\<And>s a s'. P s \<Longrightarrow> m s = (Inr a, s') \<Longrightarrow> Q a s'"
    and "\<And>s e s'. P s \<Longrightarrow> m s = (Inl e, s') \<Longrightarrow> E e s'"
  shows "hoare P m Q E"
  using assms by (auto simp: hoare_def split: prod.splits sum.splits)

lemma hoare_weaken:
  assumes "hoare P' m Q' E'"
    and "\<And>s. P s \<Longrightarrow> P' s" and "\<And>a s. Q' a s \<Longrightarrow> Q a s" and "\<And>e s. E' e s \<Longrightarrow> E e s"
  shows "hoare P m Q E"
  using assms by (fastforce simp: hoare_def split: prod.splits sum.splits)

lemma hoare_pre: "hoare P' m Q E \<Longrightarrow> (\<And>s. P s \<Longrightarrow> P' s) \<Longrightarrow> hoare P m Q E"
  by (rule hoare_weaken)

lemma hoare_ret [wp]: "hoare (\<lambda>s. Q a s) (ret a) Q E"
  by (simp add: hoare_def)

lemma hoare_raise [wp]: "hoare (\<lambda>s. E e s) (raise e) Q E"
  by (simp add: hoare_def)

lemma hoare_gets [wp]: "hoare (\<lambda>s. Q (f s) s) (gets f) Q E"
  by (simp add: hoare_def)

lemma hoare_modify [wp]: "hoare (\<lambda>s. Q () (f s)) (modify f) Q E"
  by (simp add: hoare_def)

lemma hoare_mbind [wp]:
  assumes "\<And>a. hoare (B a) (f a) Q E" and "hoare P m B E"
  shows "hoare P (mbind m f) Q E"
  using assms by (fastforce simp: hoare_def mbind_def split: prod.splits sum.splits)

lemma hoare_mcatch [wp]:
  assumes "\<And>e. hoare (H e) (h e) Q E" and "hoare P m Q H"
  shows "hoare P (mcatch m h) Q E"
  using assms by (fastforce simp: hoare_def mcatch_def split: prod.splits sum.splits)

lemma hoare_mwhen [wp]:
  "hoare P m Q E \<Longrightarrow> hoare (\<lambda>s. if c then P s else Q () s) (mwhen c m) Q E"
  by (simp add: hoare_def mwhen_def)

lemma hoare_if [wp]:
  "hoare P m Q E \<Longrightarrow> hoare P' n Q E \<Longrightarrow> hoare (\<lambda>s. if c then P s else P' s) (if c then m else n) Q E"
  by (simp add: hoare_def)

lemma hoare_for_each:
  assumes "\<And>x. x \<in> set xs \<Longrightarrow> hoare I (f x) (\<lambda>_. I) E"
  shows "hoare I (for_each xs f) (\<lambda>_. I) E"
  using assms
proof (induction xs)
  case Nil
  then show ?case by (simp add: hoare_def)
next
  case (Cons x xs)
  then show ?case
    by (auto intro!: hoare_mbind [where B = "\<lambda>_. I"])
qed

section \<open>Two-state relations\<close>

definition resp :: "('s \<Rightarrow> 's \<Rightarrow> bool) \<Rightarrow> ('s, 'e, 'a) prog \<Rightarrow> bool" where
  "resp R m \<longleftrightarrow> (\<forall>s. R s (snd (m s)))"

lemma respI: "(\<And>s. R s (snd (m s))) \<Longrightarrow> resp R m"
  by (simp add: resp_def)

lemma respD: "resp R m \<Longrightarrow> m s = (r, s') \<Longrightarrow> R s s'"
  by (metis resp_def snd_conv)

lemma resp_mono: "resp R m \<Longrightarrow> (\<And>s s'. R s s' \<Longrightarrow> R' s s') \<Longrightarrow> resp R' m"
  by (simp add: resp_def)

text \<open>
  A relation that holds between the states before and after every operation of a component is
  a preorder in all the uses below: "the version never decreases", "a succeeded execution stays
  succeeded". The composition rules are proved once, for any preorder.
\<close>

locale state_preorder =
  fixes R :: "'s \<Rightarrow> 's \<Rightarrow> bool"
  assumes refl: "R s s"
    and trans: "R s t \<Longrightarrow> R t u \<Longrightarrow> R s u"
begin

lemma resp_ret: "resp R (ret a)"
  by (simp add: resp_def refl)

lemma resp_raise: "resp R (raise e)"
  by (simp add: resp_def refl)

lemma resp_gets: "resp R (gets f)"
  by (simp add: resp_def refl)

lemma resp_mbind:
  assumes "resp R m" and "\<And>a. resp R (f a)"
  shows "resp R (mbind m f)"
proof (rule respI)
  fix s
  have "R s (snd (m s))" and "\<And>a u. R u (snd (f a u))"
    using assms by (simp_all add: resp_def)
  then show "R s (snd (mbind m f s))"
    by (auto simp: mbind_def split: prod.splits sum.splits intro: trans)
qed

lemma resp_mcatch:
  assumes "resp R m" and "\<And>e. resp R (h e)"
  shows "resp R (mcatch m h)"
proof (rule respI)
  fix s
  have "R s (snd (m s))" and "\<And>e u. R u (snd (h e u))"
    using assms by (simp_all add: resp_def)
  then show "R s (snd (mcatch m h s))"
    by (auto simp: mcatch_def split: prod.splits sum.splits intro: trans)
qed

lemma resp_mwhen: "resp R m \<Longrightarrow> resp R (mwhen c m)"
  by (simp add: mwhen_def resp_ret)

lemma resp_if: "resp R m \<Longrightarrow> resp R n \<Longrightarrow> resp R (if c then m else n)"
  by simp

lemma resp_option: "resp R m \<Longrightarrow> (\<And>x. resp R (f x)) \<Longrightarrow> resp R (case z of None \<Rightarrow> m | Some x \<Rightarrow> f x)"
  by (cases z) auto

lemma resp_for_each: "(\<And>x. resp R (f x)) \<Longrightarrow> resp R (for_each xs f)"
  by (induction xs) (auto intro: resp_ret resp_mbind)

lemma resp_map_each: "(\<And>x. resp R (f x)) \<Longrightarrow> resp R (map_each f xs)"
  by (induction xs) (auto intro: resp_ret resp_mbind)

lemmas resp_intros = resp_ret resp_raise resp_gets resp_mbind resp_mcatch resp_mwhen
  resp_for_each resp_map_each

end

end
