(* ===== verification/Enums.thy ===== *)
theory Enums
  imports Effects
begin

text \<open>
  The enumerations of harness/db/enums.py with their string values, the run state machine of
  harness/runtime/state_machine.py, the exceptions the components raise, and the locale
  \<open>lifecycle\<close>: what every status graph of the program promises (a terminal status is
  never left), with what follows for a whole history.
\<close>

section \<open>Enumerations\<close>

datatype run_status = RS_pending | RS_running | RS_waiting_user_input | RS_waiting_approval
  | RS_completed | RS_failed | RS_cancelled | RS_timed_out

fun run_status_str :: "run_status \<Rightarrow> string" where
  "run_status_str RS_pending = ''pending''"
| "run_status_str RS_running = ''running''"
| "run_status_str RS_waiting_user_input = ''waiting_user_input''"
| "run_status_str RS_waiting_approval = ''waiting_approval''"
| "run_status_str RS_completed = ''completed''"
| "run_status_str RS_failed = ''failed''"
| "run_status_str RS_cancelled = ''cancelled''"
| "run_status_str RS_timed_out = ''timed_out''"

definition TERMINAL_RUN_STATUSES :: "run_status set" where
  "TERMINAL_RUN_STATUSES = {RS_completed, RS_failed, RS_cancelled, RS_timed_out}"

definition WAITING_RUN_STATUSES :: "run_status set" where
  "WAITING_RUN_STATUSES = {RS_waiting_user_input, RS_waiting_approval}"

datatype step_type = ST_llm_call | ST_tool_result | ST_summary

datatype message_role = MR_user | MR_assistant | MR_system | MR_tool

fun message_role_str :: "message_role \<Rightarrow> string" where
  "message_role_str MR_user = ''user''"
| "message_role_str MR_assistant = ''assistant''"
| "message_role_str MR_system = ''system''"
| "message_role_str MR_tool = ''tool''"

datatype tool_execution_status = TS_started | TS_succeeded | TS_failed | TS_unknown

fun tool_execution_status_str :: "tool_execution_status \<Rightarrow> string" where
  "tool_execution_status_str TS_started = ''started''"
| "tool_execution_status_str TS_succeeded = ''succeeded''"
| "tool_execution_status_str TS_failed = ''failed''"
| "tool_execution_status_str TS_unknown = ''unknown''"

datatype risk_tier = RT_read_only | RT_low_risk_write | RT_sensitive_write | RT_destructive

fun risk_tier_str :: "risk_tier \<Rightarrow> string" where
  "risk_tier_str RT_read_only = ''read_only''"
| "risk_tier_str RT_low_risk_write = ''low_risk_write''"
| "risk_tier_str RT_sensitive_write = ''sensitive_write''"
| "risk_tier_str RT_destructive = ''destructive''"

datatype user_role = UR_admin | UR_member

datatype channel = CH_api | CH_web | CH_slack | CH_schedule

datatype mcp_health_status = HS_unknown | HS_healthy | HS_unhealthy

datatype approval_status = AS_pending | AS_approved | AS_rejected | AS_expired

fun approval_status_str :: "approval_status \<Rightarrow> string" where
  "approval_status_str AS_pending = ''pending''"
| "approval_status_str AS_approved = ''approved''"
| "approval_status_str AS_rejected = ''rejected''"
| "approval_status_str AS_expired = ''expired''"

datatype skill_status = SS_draft | SS_approved | SS_published | SS_deprecated

fun skill_status_str :: "skill_status \<Rightarrow> string" where
  "skill_status_str SS_draft = ''draft''"
| "skill_status_str SS_approved = ''approved''"
| "skill_status_str SS_published = ''published''"
| "skill_status_str SS_deprecated = ''deprecated''"

datatype scheduled_job_status = JS_idle | JS_firing | JS_disabled

datatype llm_provider = LP_ollama_cloud | LP_openai | LP_openrouter

fun LLM_PROVIDER_DEFAULT_BASE_URLS :: "llm_provider \<Rightarrow> string" where
  "LLM_PROVIDER_DEFAULT_BASE_URLS LP_ollama_cloud = ''https://ollama.com/v1''"
| "LLM_PROVIDER_DEFAULT_BASE_URLS LP_openai = ''https://api.openai.com/v1''"
| "LLM_PROVIDER_DEFAULT_BASE_URLS LP_openrouter = ''https://openrouter.ai/api/v1''"

text \<open>
  The risk tiers are ordered by the harm a call can do; the order is the one of the enum's
  declaration.
\<close>

fun risk_rank :: "risk_tier \<Rightarrow> nat" where
  "risk_rank RT_read_only = 0"
| "risk_rank RT_low_risk_write = 1"
| "risk_rank RT_sensitive_write = 2"
| "risk_rank RT_destructive = 3"

lemma risk_rank_inject: "risk_rank a = risk_rank b \<longleftrightarrow> a = b"
  by (cases a; cases b) simp_all

instantiation risk_tier :: linorder
begin

definition less_eq_risk_tier :: "risk_tier \<Rightarrow> risk_tier \<Rightarrow> bool" where
  "less_eq_risk_tier a b = (risk_rank a \<le> risk_rank b)"

definition less_risk_tier :: "risk_tier \<Rightarrow> risk_tier \<Rightarrow> bool" where
  "less_risk_tier a b = (risk_rank a < risk_rank b)"

instance
  by standard (auto simp: less_eq_risk_tier_def less_risk_tier_def risk_rank_inject)

end

section \<open>Exceptions\<close>

text \<open>
  The exceptions the modelled code raises or handles. \<open>PyError name message\<close> is any other
  exception, by its type's name; \<open>HttpError\<close> is an \<open>HTTPException\<close> with its status code;
  \<open>IntegrityError\<close> is raised by a flush that violates a UNIQUE constraint.
\<close>

datatype exn =
    InvalidTransitionError string
  | StaleRunError string
  | GuardrailViolation string run_status
  | ToolArgumentError string string string
  | ToolRuntimeError string string bool
  | IntegrityError string
  | MultipleResultsFound
  | HttpError int string
  | LLMErr string
  | PyError string string

section \<open>The run state machine\<close>

fun ALLOWED_TRANSITIONS :: "run_status \<Rightarrow> run_status set" where
  "ALLOWED_TRANSITIONS RS_pending = {RS_running, RS_cancelled}"
| "ALLOWED_TRANSITIONS RS_running =
     {RS_running, RS_waiting_user_input, RS_waiting_approval, RS_completed, RS_failed,
      RS_cancelled, RS_timed_out}"
| "ALLOWED_TRANSITIONS RS_waiting_user_input = {RS_running, RS_cancelled, RS_timed_out}"
| "ALLOWED_TRANSITIONS RS_waiting_approval = {RS_running, RS_cancelled, RS_timed_out, RS_failed}"
| "ALLOWED_TRANSITIONS RS_completed = {}"
| "ALLOWED_TRANSITIONS RS_failed = {}"
| "ALLOWED_TRANSITIONS RS_cancelled = {}"
| "ALLOWED_TRANSITIONS RS_timed_out = {}"

definition assert_valid_transition :: "run_status \<Rightarrow> run_status \<Rightarrow> ('s, exn, unit) prog" where
  "assert_valid_transition current target =
     (if target = current then ret ()
      else if target \<notin> ALLOWED_TRANSITIONS current
      then raise (InvalidTransitionError
             (''cannot transition run from '' @ run_status_str current @ '' to ''
              @ run_status_str target))
      else ret ())"

definition valid_transition :: "run_status \<Rightarrow> run_status \<Rightarrow> bool" where
  "valid_transition current target \<longleftrightarrow> target = current \<or> target \<in> ALLOWED_TRANSITIONS current"

lemma assert_valid_transition_run:
  "assert_valid_transition c t s =
     (if valid_transition c t then (Inr (), s)
      else (Inl (InvalidTransitionError
             (''cannot transition run from '' @ run_status_str c @ '' to '' @ run_status_str t)), s))"
  by (simp add: assert_valid_transition_def valid_transition_def)

lemma valid_transition_refl [simp]: "valid_transition s s"
  by (simp add: valid_transition_def)

lemma valid_transition_from_running [simp]: "valid_transition RS_running s \<longleftrightarrow> s \<noteq> RS_pending"
  by (cases s) (simp_all add: valid_transition_def)

lemma valid_transition_from_pending [simp]:
  "valid_transition RS_pending s \<longleftrightarrow> s = RS_pending \<or> s = RS_running \<or> s = RS_cancelled"
  by (auto simp: valid_transition_def)

lemma valid_transition_from_terminal:
  "s \<in> TERMINAL_RUN_STATUSES \<Longrightarrow> valid_transition s t \<longleftrightarrow> t = s"
  by (cases s) (auto simp: valid_transition_def TERMINAL_RUN_STATUSES_def)

section \<open>Status graphs\<close>

text \<open>
  A status graph: which change of status is allowed, and which statuses are terminal. The law is
  that a terminal status has no way out; the lemmas follow a history of statuses, one entry per
  write.
\<close>

fun history :: "('s \<Rightarrow> 's \<Rightarrow> bool) \<Rightarrow> 's \<Rightarrow> 's list \<Rightarrow> bool" where
  "history change s [] = True"
| "history change s (t # ts) = (change s t \<and> history change t ts)"

lemma history_append:
  "history change s (xs @ ys) \<longleftrightarrow> history change s xs \<and> history change (last (s # xs)) ys"
  by (induction xs arbitrary: s) auto

locale lifecycle =
  fixes change :: "'s \<Rightarrow> 's \<Rightarrow> bool" and final :: "'s \<Rightarrow> bool"
  assumes stay: "change s s"
    and no_exit: "final s \<Longrightarrow> change s t \<Longrightarrow> t = s"
begin

lemma final_constant: "final s \<Longrightarrow> history change s ts \<Longrightarrow> set ts \<subseteq> {s}"
proof (induction ts)
  case Nil
  then show ?case by simp
next
  case (Cons t ts)
  then have "t = s" using no_exit by auto
  with Cons show ?case by auto
qed

lemma final_absorbs:
  assumes "history change s (xs @ t # ys)" and "final t"
  shows "last (t # ys) = t"
proof -
  have "history change t ys" using assms(1) by (simp add: history_append)
  with \<open>final t\<close> have "set ys \<subseteq> {t}" by (rule final_constant)
  then show ?thesis by (cases ys rule: rev_cases) auto
qed

lemma one_final:
  assumes "history change s (xs @ t # ys @ u # zs)" and "final t" and "final u"
  shows "t = u"
proof -
  have "history change t (ys @ u # zs)" using assms(1) by (simp add: history_append)
  with \<open>final t\<close> have "set (ys @ u # zs) \<subseteq> {t}" by (rule final_constant)
  then show ?thesis by auto
qed

end

interpretation run_life: lifecycle valid_transition "\<lambda>s. s \<in> TERMINAL_RUN_STATUSES"
  by unfold_locales (auto simp: valid_transition_from_terminal)

end
