(* ===== verification/Store.thy ===== *)
theory Store
  imports Config
begin

text \<open>
  The database rows of harness/db/models.py as records, one table per list in insertion order,
  and the session the runtime works through: \<open>rows\<close> is what the session sees (its flushed
  changes included), \<open>durable\<close> is what the last commit made permanent. A flush that would break
  a primary key or UNIQUE constraint raises \<open>IntegrityError\<close>. The identity map holds one run:
  \<open>cur\<close> is the \<open>AgentRun\<close> object the caller read, which only \<open>refresh\<close> brings up
  to date, so that optimistic locking can be stated. The outside (clock, \<open>uuid4\<close>, tools, models)
  is a function of an arbitrary world \<open>'w\<close>.
\<close>

section \<open>Rows\<close>

type_synonym datetime = int \<comment> \<open>microseconds\<close>

definition seconds :: "int \<Rightarrow> int" where
  "seconds n = n * 1000000"

record agent_run =
  run_id :: uuid
  run_tenant_id :: uuid
  run_created_by_user_id :: "uuid option"
  run_status :: run_status
  run_version :: int
  run_goal :: string
  run_channel :: channel
  run_channel_metadata :: dict
  run_current_step :: int
  run_max_steps :: int
  run_max_tool_calls :: int
  run_token_budget :: int
  run_timeout_seconds :: int
  run_tokens_used :: int
  run_tool_calls_used :: int
  run_active_skill_revision_id :: "uuid option"
  run_active_tool_names :: "string list"
  run_lease_owner :: "string option"
  run_lease_expires_at :: "datetime option"
  run_final_result :: "dict option"
  run_error :: "string option"
  run_cancel_requested :: bool
  run_created_at :: datetime
  run_updated_at :: datetime

record agent_message =
  msg_id :: uuid
  msg_run_id :: uuid
  msg_role :: message_role
  msg_content :: string
  msg_created_at :: datetime

record agent_step =
  step_id :: uuid
  step_run_id :: uuid
  step_step_no :: int
  step_type :: step_type
  step_payload :: dict
  step_token_usage :: dict
  step_created_at :: datetime

record tool_execution =
  ex_id :: uuid
  ex_run_id :: uuid
  ex_step_no :: int
  ex_call_index :: int
  ex_idempotency_key :: string
  ex_tool_name :: string
  ex_mcp_server_id :: "uuid option"
  ex_risk_tier :: risk_tier
  ex_idempotent :: bool
  ex_args :: json
  ex_status :: tool_execution_status
  ex_result :: "dict option"
  ex_error :: "string option"
  ex_started_at :: datetime
  ex_finished_at :: "datetime option"

record usage_record =
  us_id :: uuid
  us_tenant_id :: uuid
  us_run_id :: "uuid option"
  us_model :: string
  us_prompt_tokens :: int
  us_completion_tokens :: int
  us_total_tokens :: int
  us_created_at :: datetime

record skill =
  sk_id :: uuid
  sk_tenant_id :: uuid
  sk_name :: string
  sk_description :: string
  sk_status :: skill_status
  sk_active_revision_id :: "uuid option"
  sk_owner_user_id :: "uuid option"
  sk_created_at :: datetime

record skill_revision =
  rev_id :: uuid
  rev_skill_id :: uuid
  rev_version :: int
  rev_status :: skill_status
  rev_instruction :: string
  rev_manifest :: dict
  rev_input_schema :: dict
  rev_output_schema :: dict
  rev_required_tools :: "string list"
  rev_change_reason :: string
  rev_evaluation_status :: "string option"
  rev_evaluation_result :: "dict option"
  rev_created_from_run_id :: "uuid option"
  rev_created_at :: datetime

record skill_usage =
  su_id :: uuid
  su_tenant_id :: uuid
  su_revision_id :: uuid
  su_run_id :: uuid
  su_success :: "bool option"
  su_latency_ms :: "int option"
  su_token_usage :: dict
  su_feedback :: "dict option"
  su_created_at :: datetime

record tenant_quota =
  tq_tenant_id :: uuid
  tq_daily_token_quota :: int
  tq_max_active_runs :: int

record mcp_server =
  srv_id :: uuid
  srv_tenant_id :: uuid
  srv_name :: string
  srv_base_url :: string
  srv_default_risk_tier :: risk_tier
  srv_enabled :: bool
  srv_health_status :: mcp_health_status
  srv_last_error :: "string option"
  srv_auth_header_name :: "string option"
  srv_auth_header_value_encrypted :: "string option"
  srv_last_health_checked_at :: "datetime option"

record mcp_tool =
  mt_id :: uuid
  mt_mcp_server_id :: uuid
  mt_name :: string
  mt_description :: string
  mt_parameters :: dict
  mt_risk_tier :: risk_tier
  mt_enabled :: bool

record approval_request =
  ap_id :: uuid
  ap_tenant_id :: uuid
  ap_run_id :: uuid
  ap_step_no :: int
  ap_call_index :: int
  ap_tool_name :: string
  ap_risk_tier :: risk_tier
  ap_args :: dict
  ap_status :: approval_status
  ap_reason :: "string option"
  ap_decided_by_user_id :: "uuid option"
  ap_requested_at :: datetime
  ap_decided_at :: "datetime option"
  ap_expires_at :: datetime

record db =
  runs :: "agent_run list"
  messages :: "agent_message list"
  steps :: "agent_step list"
  execs :: "tool_execution list"
  approvals :: "approval_request list"
  usages :: "usage_record list"
  skills :: "skill list"
  revisions :: "skill_revision list"
  skill_usages :: "skill_usage list"
  quotas :: "tenant_quota list"
  servers :: "mcp_server list"
  mcp_tools :: "mcp_tool list"

section \<open>The session\<close>

text \<open>
  \<open>invoked\<close> is a ghost log: the idempotency key of every tool handler call, in order. No
  operation reads it; it records what was done to the outside world, which a crash does not undo.
\<close>

record 'w st =
  rows :: db
  durable :: db
  cur :: agent_run
  world :: 'w
  invoked :: "string list"

type_synonym ('w, 'a) op = "('w st, exn, 'a) prog"

text \<open>
  The outside: the clock, \<open>uuid4\<close>, the serializer \<open>orjson.dumps\<close>, \<open>str\<close> of a JSON value
  and the errors \<open>jsonschema\<close> reports (message and absolute path, sorted by path), with the
  settings.
\<close>

record 'w env =
  env_now :: "'w \<Rightarrow> datetime \<times> 'w"
  env_uuid4 :: "'w \<Rightarrow> uuid \<times> 'w"
  env_dumps :: "json \<Rightarrow> string"
  env_str :: "json \<Rightarrow> string"
  env_schema_errors :: "dict \<Rightarrow> dict \<Rightarrow> (string \<times> string) list"
  env_settings :: settings

definition now :: "'w env \<Rightarrow> ('w, datetime) op" where
  "now E = (\<lambda>s. let (t, w) = env_now E (world s) in (Inr t, s\<lparr>world := w\<rparr>))"

definition uuid4 :: "'w env \<Rightarrow> ('w, uuid) op" where
  "uuid4 E = (\<lambda>s. let (u, w) = env_uuid4 E (world s) in (Inr u, s\<lparr>world := w\<rparr>))"

definition commit :: "('w, unit) op" where
  "commit = modify (\<lambda>s. s\<lparr>durable := rows s\<rparr>)"

definition crash :: "'w st \<Rightarrow> 'w st" where
  "crash s = s\<lparr>rows := durable s\<rparr>"

text \<open>The query result's \<open>scalar_one_or_none\<close>.\<close>

fun scalar_one_or_none :: "'a list \<Rightarrow> ('s, exn, 'a option) prog" where
  "scalar_one_or_none [] = ret None"
| "scalar_one_or_none [x] = ret (Some x)"
| "scalar_one_or_none (x # y # zs) = raise MultipleResultsFound"

text \<open>
  INSERT: the primary key and the table's UNIQUE constraint are checked, as the flush does.
\<close>

definition insert_execution :: "tool_execution \<Rightarrow> ('w, unit) op" where
  "insert_execution e =
     (\<lambda>s. if \<exists>x \<in> set (execs (rows s)). ex_id x = ex_id e \<or> ex_idempotency_key x = ex_idempotency_key e
          then (Inl (IntegrityError ''tool_executions''), s)
          else (Inr (), s\<lparr>rows := (rows s)\<lparr>execs := execs (rows s) @ [e]\<rparr>\<rparr>))"

definition insert_approval :: "approval_request \<Rightarrow> ('w, unit) op" where
  "insert_approval a =
     (\<lambda>s. if \<exists>x \<in> set (approvals (rows s)). ap_id x = ap_id a \<or>
               (ap_run_id x = ap_run_id a \<and> ap_step_no x = ap_step_no a \<and> ap_call_index x = ap_call_index a)
          then (Inl (IntegrityError ''uq_approval_requests_run_step_call''), s)
          else (Inr (), s\<lparr>rows := (rows s)\<lparr>approvals := approvals (rows s) @ [a]\<rparr>\<rparr>))"

definition insert_step :: "agent_step \<Rightarrow> ('w, unit) op" where
  "insert_step p =
     (\<lambda>s. if \<exists>x \<in> set (steps (rows s)). step_id x = step_id p \<or>
               (step_run_id x = step_run_id p \<and> step_step_no x = step_step_no p)
          then (Inl (IntegrityError ''uq_agent_steps_run_step_no''), s)
          else (Inr (), s\<lparr>rows := (rows s)\<lparr>steps := steps (rows s) @ [p]\<rparr>\<rparr>))"

definition insert_message :: "agent_message \<Rightarrow> ('w, unit) op" where
  "insert_message m =
     (\<lambda>s. if \<exists>x \<in> set (messages (rows s)). msg_id x = msg_id m
          then (Inl (IntegrityError ''agent_messages''), s)
          else (Inr (), s\<lparr>rows := (rows s)\<lparr>messages := messages (rows s) @ [m]\<rparr>\<rparr>))"

definition insert_usage :: "usage_record \<Rightarrow> ('w, unit) op" where
  "insert_usage u =
     (\<lambda>s. if \<exists>x \<in> set (usages (rows s)). us_id x = us_id u
          then (Inl (IntegrityError ''usage_records''), s)
          else (Inr (), s\<lparr>rows := (rows s)\<lparr>usages := usages (rows s) @ [u]\<rparr>\<rparr>))"

definition insert_run :: "agent_run \<Rightarrow> ('w, unit) op" where
  "insert_run r =
     (\<lambda>s. if \<exists>x \<in> set (runs (rows s)). run_id x = run_id r
          then (Inl (IntegrityError ''agent_runs''), s)
          else (Inr (), s\<lparr>rows := (rows s)\<lparr>runs := runs (rows s) @ [r]\<rparr>\<rparr>))"

text \<open>An ORM attribute change, flushed: the row with the object's primary key is replaced.\<close>

definition save_execution :: "tool_execution \<Rightarrow> ('w, unit) op" where
  "save_execution e =
     modify (\<lambda>s. s\<lparr>rows := (rows s)\<lparr>execs :=
       map (\<lambda>x. if ex_id x = ex_id e then e else x) (execs (rows s))\<rparr>\<rparr>)"

definition save_approval :: "approval_request \<Rightarrow> ('w, unit) op" where
  "save_approval a =
     modify (\<lambda>s. s\<lparr>rows := (rows s)\<lparr>approvals :=
       map (\<lambda>x. if ap_id x = ap_id a then a else x) (approvals (rows s))\<rparr>\<rparr>)"

text \<open>\<open>Session.get(AgentRun, id)\<close>: the row with the primary key.\<close>

definition find_run :: "db \<Rightarrow> uuid \<Rightarrow> agent_run option" where
  "find_run d i = find (\<lambda>r. run_id r = i) (runs d)"

end
