(* ===== verification/Repository.thy ===== *)
theory Repository
  imports Store
begin

text \<open>
  harness/runtime/repository.py: creating runs, the versioned update that fences concurrent
  writers, checkpoints, leases, messages and steps. The locale \<open>fenced\<close> states what a store with
  a fencing token promises; it is interpreted on \<open>versioned_update\<close>.
\<close>

section \<open>Operations\<close>

definition int_or :: "int option \<Rightarrow> int \<Rightarrow> int" where
  "int_or x d = (case x of None \<Rightarrow> d | Some n \<Rightarrow> if n = 0 then d else n)"

definition create_run ::
  "'w env \<Rightarrow> uuid \<Rightarrow> string \<Rightarrow> channel \<Rightarrow> dict option \<Rightarrow> uuid option \<Rightarrow>
   int option \<Rightarrow> int option \<Rightarrow> int option \<Rightarrow> int option \<Rightarrow> ('w, agent_run) op" where
  "create_run E tenant goal ch metadata creator max_steps max_tool_calls token_budget timeout_seconds =
     mbind (uuid4 E) (\<lambda>i. mbind (now E) (\<lambda>t.
       let c = env_settings E;
           r = \<lparr>run_id = i, run_tenant_id = tenant, run_created_by_user_id = creator,
                run_status = RS_pending, run_version = 0, run_goal = goal, run_channel = ch,
                run_channel_metadata = (case metadata of None \<Rightarrow> [] | Some m \<Rightarrow> m),
                run_current_step = 0,
                run_max_steps = int_or max_steps (cfg_run_default_max_steps c),
                run_max_tool_calls = int_or max_tool_calls (cfg_run_default_max_tool_calls c),
                run_token_budget = int_or token_budget (cfg_run_default_token_budget c),
                run_timeout_seconds = int_or timeout_seconds (cfg_run_default_timeout_seconds c),
                run_tokens_used = 0, run_tool_calls_used = 0,
                run_active_skill_revision_id = None, run_active_tool_names = [],
                run_lease_owner = None, run_lease_expires_at = None, run_final_result = None,
                run_error = None, run_cancel_requested = False, run_created_at = t,
                run_updated_at = t\<rparr>
       in mseq (insert_run r) (ret r)))"

text \<open>The dictionary of column values of an UPDATE: a field that is \<open>None\<close> is not set.\<close>

record field_updates =
  fu_status :: "run_status option"
  fu_current_step :: "int option"
  fu_tokens_used :: "int option"
  fu_tool_calls_used :: "int option"
  fu_active_skill_revision_id :: "uuid option option"
  fu_active_tool_names :: "string list option"
  fu_lease_owner :: "string option option"
  fu_lease_expires_at :: "datetime option option"
  fu_final_result :: "dict option option"
  fu_error :: "string option option"
  fu_cancel_requested :: "bool option"

definition no_updates :: field_updates where
  "no_updates = \<lparr>fu_status = None, fu_current_step = None, fu_tokens_used = None,
     fu_tool_calls_used = None, fu_active_skill_revision_id = None, fu_active_tool_names = None,
     fu_lease_owner = None, fu_lease_expires_at = None, fu_final_result = None, fu_error = None,
     fu_cancel_requested = None\<rparr>"

definition set_or :: "'a option \<Rightarrow> 'a \<Rightarrow> 'a" where
  "set_or x a = (case x of None \<Rightarrow> a | Some b \<Rightarrow> b)"

lemma set_or_simps [simp]: "set_or None a = a" "set_or (Some b) a = b"
  by (simp_all add: set_or_def)

definition apply_updates :: "field_updates \<Rightarrow> agent_run \<Rightarrow> agent_run" where
  "apply_updates u r = r\<lparr>
     run_status := set_or (fu_status u) (run_status r),
     run_current_step := set_or (fu_current_step u) (run_current_step r),
     run_tokens_used := set_or (fu_tokens_used u) (run_tokens_used r),
     run_tool_calls_used := set_or (fu_tool_calls_used u) (run_tool_calls_used r),
     run_active_skill_revision_id :=
       set_or (fu_active_skill_revision_id u) (run_active_skill_revision_id r),
     run_active_tool_names := set_or (fu_active_tool_names u) (run_active_tool_names r),
     run_lease_owner := set_or (fu_lease_owner u) (run_lease_owner r),
     run_lease_expires_at := set_or (fu_lease_expires_at u) (run_lease_expires_at r),
     run_final_result := set_or (fu_final_result u) (run_final_result r),
     run_error := set_or (fu_error u) (run_error r),
     run_cancel_requested := set_or (fu_cancel_requested u) (run_cancel_requested r)\<rparr>"

text \<open>
  UPDATE ... WHERE id = and version = and extra: every matching row is changed, \<open>updated_at\<close> with
  it (\<open>onupdate\<close>); one changed row means success and a refresh of the caller's object.
\<close>

definition versioned_update ::
  "'w env \<Rightarrow> field_updates \<Rightarrow> (agent_run \<Rightarrow> bool) \<Rightarrow> ('w, bool) op" where
  "versioned_update E u extra_where =
     mbind (gets cur) (\<lambda>run. mbind (now E) (\<lambda>t. mbind (gets rows) (\<lambda>d.
       let expected_version = run_version run;
           hit = (\<lambda>r. run_id r = run_id run \<and> run_version r = expected_version \<and> extra_where r);
           set_row = (\<lambda>r. (apply_updates u r)\<lparr>run_version := expected_version + 1, run_updated_at := t\<rparr>);
           d' = d\<lparr>runs := map (\<lambda>r. if hit r then set_row r else r) (runs d)\<rparr>
       in mseq (modify (\<lambda>s. s\<lparr>rows := d'\<rparr>))
            (if length (filter hit (runs d)) \<noteq> 1 then ret False
             else mseq (modify (\<lambda>s. s\<lparr>cur := (case find_run (rows s) (run_id run) of
                                              None \<Rightarrow> cur s | Some r \<Rightarrow> r)\<rparr>))
                    (ret True)))))"

definition checkpoint :: "'w env \<Rightarrow> run_status option \<Rightarrow> field_updates \<Rightarrow> ('w, unit) op" where
  "checkpoint E status u =
     mbind (gets cur) (\<lambda>run.
     mseq (case status of None \<Rightarrow> ret () | Some t \<Rightarrow> assert_valid_transition (run_status run) t)
     (mbind (versioned_update E (case status of None \<Rightarrow> u | Some t \<Rightarrow> u\<lparr>fu_status := Some t\<rparr>) (\<lambda>_. True))
       (\<lambda>ok. if ok then ret ()
              else raise (StaleRunError (''run '' @ uuid_str (run_id run) @ '' was modified by another worker'')))))"

definition lease_free :: "datetime \<Rightarrow> agent_run \<Rightarrow> bool" where
  "lease_free t r =
     (run_lease_owner r = None \<or>
      (case run_lease_expires_at r of None \<Rightarrow> False | Some e \<Rightarrow> e < t))"

definition try_acquire_lease :: "'w env \<Rightarrow> string \<Rightarrow> int \<Rightarrow> ('w, bool) op" where
  "try_acquire_lease E owner ttl_seconds =
     mbind (now E) (\<lambda>t.
       versioned_update E
         (no_updates\<lparr>fu_lease_owner := Some (Some owner),
                     fu_lease_expires_at := Some (Some (t + seconds ttl_seconds))\<rparr>)
         (lease_free t))"

definition renew_lease_by_id :: "'w env \<Rightarrow> uuid \<Rightarrow> string \<Rightarrow> int \<Rightarrow> ('w, bool) op" where
  "renew_lease_by_id E i owner ttl_seconds =
     mbind (now E) (\<lambda>t. mbind (now E) (\<lambda>t'. mbind (gets rows) (\<lambda>d.
       let hit = (\<lambda>r. run_id r = i \<and> run_lease_owner r = Some owner);
           d' = d\<lparr>runs := map (\<lambda>r. if hit r
                     then r\<lparr>run_lease_expires_at := Some (t + seconds ttl_seconds), run_updated_at := t'\<rparr>
                     else r) (runs d)\<rparr>
       in mseq (modify (\<lambda>s. s\<lparr>rows := d'\<rparr>)) (mseq commit
            (ret (length (filter hit (runs d)) = 1))))))"

definition release_lease :: "'w env \<Rightarrow> ('w, bool) op" where
  "release_lease E =
     versioned_update E (no_updates\<lparr>fu_lease_owner := Some None, fu_lease_expires_at := Some None\<rparr>)
       (\<lambda>_. True)"

definition add_message :: "'w env \<Rightarrow> uuid \<Rightarrow> message_role \<Rightarrow> string \<Rightarrow> ('w, agent_message) op" where
  "add_message E i role content =
     mbind (uuid4 E) (\<lambda>k. mbind (now E) (\<lambda>t.
       let m = \<lparr>msg_id = k, msg_run_id = i, msg_role = role, msg_content = content, msg_created_at = t\<rparr>
       in mseq (insert_message m) (ret m)))"

definition add_step ::
  "'w env \<Rightarrow> uuid \<Rightarrow> int \<Rightarrow> step_type \<Rightarrow> dict \<Rightarrow> dict option \<Rightarrow> ('w, agent_step) op" where
  "add_step E i step_no ty payload token_usage =
     mbind (uuid4 E) (\<lambda>k. mbind (now E) (\<lambda>t.
       let p = \<lparr>step_id = k, step_run_id = i, step_step_no = step_no, step_type = ty,
                step_payload = payload,
                step_token_usage = (case token_usage of None \<Rightarrow> [] | Some u \<Rightarrow> u), step_created_at = t\<rparr>
       in mseq (insert_step p) (ret p)))"

section \<open>A store with a fencing token\<close>

text \<open>
  Attempts to write, each made against a version it read; a schedule runs them one after the
  other, whoever makes them, and returns who won.
\<close>

fun run_all :: "('p \<Rightarrow> 's \<Rightarrow> bool \<times> 's) \<Rightarrow> 'p list \<Rightarrow> 's \<Rightarrow> bool list \<times> 's" where
  "run_all attempt [] s = ([], s)"
| "run_all attempt (p # ps) s =
     (let (b, s1) = attempt p s; (bs, s2) = run_all attempt ps s1 in (b # bs, s2))"

lemma length_run_all [simp]: "length (fst (run_all attempt ps s)) = length ps"
proof (induction ps arbitrary: s)
  case (Cons p ps)
  show ?case using Cons [of "snd (attempt p s)"] by (simp add: Let_def split_beta)
qed simp

locale fenced =
  fixes attempt :: "'p \<Rightarrow> 's \<Rightarrow> bool \<times> 's"
    and key :: "'p \<Rightarrow> 'k"
    and base :: "'p \<Rightarrow> int"
    and ver :: "'s \<Rightarrow> 'k \<Rightarrow> int option"
    and sound :: "'s \<Rightarrow> bool"
  assumes wins: "sound s \<Longrightarrow> attempt p s = (True, s') \<Longrightarrow>
      ver s (key p) = Some (base p) \<and> ver s' (key p) = Some (base p + 1)"
    and loses: "sound s \<Longrightarrow> attempt p s = (False, s') \<Longrightarrow> ver s' (key p) = ver s (key p)"
    and frame: "sound s \<Longrightarrow> attempt p s = (b, s') \<Longrightarrow> k \<noteq> key p \<Longrightarrow> ver s' k = ver s k"
    and keeps: "sound s \<Longrightarrow> attempt p s = (b, s') \<Longrightarrow> sound s'"
begin

lemma write_version:
  assumes "sound s" and "attempt p s = (b, s')" and "ver s k = Some v"
  shows "ver s' k = Some (if b \<and> key p = k then v + 1 else v)"
  using assms wins [of s p s'] loses [of s p s'] frame [of s p b s' k] by (cases b; cases "key p = k") auto

text \<open>The version counts the successful writes.\<close>

lemma version_counts_wins:
  assumes "sound s" and "run_all attempt ps s = (bs, s')" and "ver s k = Some v"
  shows "ver s' k = Some (v + int (length (filter (\<lambda>(p, b). b \<and> key p = k) (zip ps bs))))"
  using assms
proof (induction ps arbitrary: s v bs)
  case Nil
  then show ?case by simp
next
  case (Cons p ps)
  obtain b s1 cs s2 where step: "attempt p s = (b, s1)" "run_all attempt ps s1 = (cs, s2)"
    by (metis surj_pair)
  with Cons.prems have res: "bs = b # cs" "s' = s2" by auto
  have "sound s1" using keeps step(1) Cons.prems(1) by blast
  moreover have "ver s1 k = Some (if b \<and> key p = k then v + 1 else v)"
    using write_version step(1) Cons.prems by blast
  ultimately show ?case
    using Cons.IH [of s1 cs] step(2) res by auto
qed

lemma late_loser:
  assumes "sound s" and "run_all attempt ps s = (bs, s')" and "ver s k = Some v"
    and "j < length ps" and "key (ps ! j) = k" and "base (ps ! j) < v"
  shows "\<not> bs ! j"
  using assms
proof (induction ps arbitrary: s v bs j)
  case Nil
  then show ?case by simp
next
  case (Cons p ps)
  obtain b s1 cs s2 where step: "attempt p s = (b, s1)" "run_all attempt ps s1 = (cs, s2)"
    by (metis surj_pair)
  with Cons.prems have res: "bs = b # cs" and "s2 = s'" by auto
  note step2 = step(2) [unfolded \<open>s2 = s'\<close>]
  have s1: "sound s1" using keeps step(1) Cons.prems(1) by blast
  have v1: "ver s1 k = Some (if b \<and> key p = k then v + 1 else v)"
    using write_version step(1) Cons.prems by blast
  show ?case
  proof (cases j)
    case 0
    then show ?thesis using wins [of s p s1] step(1) Cons.prems res by auto
  next
    case (Suc i)
    then show ?thesis using Cons.IH [OF s1 step2 v1, of i] Cons.prems res by auto
  qed
qed

text \<open>Of two attempts made against the same version of the same row, at most one succeeds.\<close>

lemma one_winner:
  assumes "sound s" and "run_all attempt ps s = (bs, s')"
    and "i < j" and "j < length ps" and "key (ps ! i) = key (ps ! j)"
    and "base (ps ! i) = base (ps ! j)" and "bs ! i"
  shows "\<not> bs ! j"
  using assms
proof (induction ps arbitrary: s bs i j)
  case Nil
  then show ?case by simp
next
  case (Cons p ps)
  obtain b s1 cs s2 where step: "attempt p s = (b, s1)" "run_all attempt ps s1 = (cs, s2)"
    by (metis surj_pair)
  with Cons.prems have res: "bs = b # cs" and "s2 = s'" by auto
  note step2 = step(2) [unfolded \<open>s2 = s'\<close>]
  have s1: "sound s1" using keeps step(1) Cons.prems(1) by blast
  obtain j' where j: "j = Suc j'" using Cons.prems by (cases j) auto
  show ?case
  proof (cases i)
    case 0
    then have "ver s1 (key p) = Some (base p + 1)"
      using wins [of s p s1] step(1) Cons.prems res by auto
    then show ?thesis
      using late_loser [OF s1 step2, of "key p" "base p + 1" j'] 0 j res Cons.prems by auto
  next
    case (Suc i')
    then show ?thesis using Cons.IH [OF s1 step2, of i' j'] j res Cons.prems by auto
  qed
qed

end

section \<open>What the versioned update does\<close>

definition run_ids_distinct :: "'w st \<Rightarrow> bool" where
  "run_ids_distinct s = distinct (map run_id (runs (rows s)))"

definition put_run :: "agent_run \<Rightarrow> db \<Rightarrow> db" where
  "put_run r d = d\<lparr>runs := map (\<lambda>x. if run_id x = run_id r then r else x) (runs d)\<rparr>"

lemma apply_updates_id [simp]: "run_id (apply_updates u r) = run_id r"
  by (simp add: apply_updates_def)

lemma apply_updates_version [simp]: "run_version (apply_updates u r) = run_version r"
  by (simp add: apply_updates_def)

lemma apply_updates_created_at [simp]: "run_created_at (apply_updates u r) = run_created_at r"
  by (simp add: apply_updates_def)

lemma apply_updates_status [simp]: "run_status (apply_updates u r) = set_or (fu_status u) (run_status r)"
  by (simp add: apply_updates_def)

lemma find_run_id: "find_run d i = Some r \<Longrightarrow> run_id r = i \<and> r \<in> set (runs d)"
  by (auto simp: find_run_def find_Some_iff)

lemma find_run_None: "find_run d i = None \<longleftrightarrow> (\<forall>r \<in> set (runs d). run_id r \<noteq> i)"
  by (auto simp: find_run_def find_None_iff)

lemma find_map_id:
  assumes "\<And>x. x \<in> set xs \<Longrightarrow> run_id (f x) = run_id x"
  shows "find (\<lambda>r. run_id r = i) (map f xs) = map_option f (find (\<lambda>r. run_id r = i) xs)"
  using assms by (induction xs) auto

lemma find_run_put:
  "find_run (put_run r d) i =
     (if i = run_id r then map_option (\<lambda>_. r) (find_run d i) else find_run d i)"
proof -
  have "find_run (put_run r d) i =
      map_option (\<lambda>x. if run_id x = run_id r then r else x) (find_run d i)"
    by (simp add: find_run_def put_run_def find_map_id)
  then show ?thesis by (cases "find_run d i") (auto dest: find_run_id)
qed

lemma put_run_ids [simp]: "map run_id (runs (put_run r d)) = map run_id (runs d)"
  by (simp add: put_run_def)

lemma put_run_other [simp]:
  "messages (put_run r d) = messages d" "steps (put_run r d) = steps d"
  "execs (put_run r d) = execs d" "approvals (put_run r d) = approvals d"
  "usages (put_run r d) = usages d" "skills (put_run r d) = skills d"
  "revisions (put_run r d) = revisions d" "skill_usages (put_run r d) = skill_usages d"
  "quotas (put_run r d) = quotas d" "servers (put_run r d) = servers d"
  "mcp_tools (put_run r d) = mcp_tools d"
  by (simp_all add: put_run_def)

text \<open>At most one row of a table with distinct keys matches a condition that fixes the key.\<close>

lemma filter_key_cases:
  assumes "distinct (map run_id xs)"
  shows "filter (\<lambda>r. run_id r = i \<and> P r) xs =
     (case find (\<lambda>r. run_id r = i) xs of None \<Rightarrow> [] | Some r \<Rightarrow> if P r then [r] else [])"
  using assms
proof (induction xs)
  case (Cons x xs)
  show ?case
  proof (cases "run_id x = i")
    case True
    then have "filter (\<lambda>r. run_id r = i \<and> P r) xs = []"
      using Cons.prems by (auto simp: filter_empty_conv image_iff)
    with True show ?thesis by simp
  next
    case False
    with Cons show ?thesis by simp
  qed
qed simp

lemma map_key_cases:
  assumes "distinct (map run_id xs)" and "find (\<lambda>r. run_id r = i) xs = Some r" and "P r"
    and "run_id (f r) = i"
  shows "map (\<lambda>x. if run_id x = i \<and> P x then f x else x) xs =
         map (\<lambda>x. if run_id x = run_id (f r) then f r else x) xs"
proof (rule map_cong [OF HOL.refl])
  fix x assume x: "x \<in> set xs"
  have "r \<in> set xs" "run_id r = i" using assms(2) by (auto simp: find_Some_iff)
  then have "run_id x = i \<Longrightarrow> x = r" using assms(1) x by (auto simp: distinct_map inj_on_def)
  with assms show "(if run_id x = i \<and> P x then f x else x) = (if run_id x = run_id (f r) then f r else x)"
    by auto
qed

lemma map_key_none:
  assumes "distinct (map run_id xs)"
    and "\<And>r. find (\<lambda>r. run_id r = i) xs = Some r \<Longrightarrow> \<not> P r"
  shows "map (\<lambda>x. if run_id x = i \<and> P x then f x else x) xs = xs"
proof (rule map_idI)
  fix x assume x: "x \<in> set xs"
  have "filter (\<lambda>r. run_id r = i \<and> P r) xs = []"
    using assms by (simp add: filter_key_cases split: option.splits)
  with x show "(if run_id x = i \<and> P x then f x else x) = x" by (auto simp: filter_empty_conv)
qed

definition updated_row :: "field_updates \<Rightarrow> datetime \<Rightarrow> agent_run \<Rightarrow> agent_run" where
  "updated_row u t r = (apply_updates u r)\<lparr>run_version := run_version r + 1, run_updated_at := t\<rparr>"

lemma updated_row_simps [simp]:
  "run_id (updated_row u t r) = run_id r"
  "run_version (updated_row u t r) = run_version r + 1"
  "run_updated_at (updated_row u t r) = t"
  "run_created_at (updated_row u t r) = run_created_at r"
  "run_status (updated_row u t r) = set_or (fu_status u) (run_status r)"
  "run_lease_owner (updated_row u t r) = set_or (fu_lease_owner u) (run_lease_owner r)"
  "run_lease_expires_at (updated_row u t r) = set_or (fu_lease_expires_at u) (run_lease_expires_at r)"
  by (simp_all add: updated_row_def apply_updates_def)

text \<open>The update in one equation: it hits when the row exists at the version read.\<close>

lemma versioned_update_eq:
  assumes "run_ids_distinct s" and "env_now E (world s) = (t, w)"
  shows "versioned_update E u x s =
     (case find_run (rows s) (run_id (cur s)) of
        Some r \<Rightarrow> if run_version r = run_version (cur s) \<and> x r
                  then (Inr True, s\<lparr>world := w, rows := put_run (updated_row u t r) (rows s),
                                    cur := updated_row u t r\<rparr>)
                  else (Inr False, s\<lparr>world := w\<rparr>)
      | None \<Rightarrow> (Inr False, s\<lparr>world := w\<rparr>))"
proof -
  let ?run = "cur s" let ?d = "rows s"
  let ?P = "\<lambda>r. run_version r = run_version ?run \<and> x r"
  let ?set = "\<lambda>r. (apply_updates u r)\<lparr>run_version := run_version ?run + 1, run_updated_at := t\<rparr>"
  let ?runs' = "map (\<lambda>r. if run_id r = run_id ?run \<and> ?P r then ?set r else r) (runs ?d)"
  let ?hits = "filter (\<lambda>r. run_id r = run_id ?run \<and> ?P r) (runs ?d)"
  have run: "versioned_update E u x s =
     (let s' = s\<lparr>world := w, rows := ?d\<lparr>runs := ?runs'\<rparr>\<rparr> in
      if length ?hits \<noteq> 1 then (Inr False, s')
      else (Inr True, s'\<lparr>cur := (case find_run (rows s') (run_id ?run) of None \<Rightarrow> cur s' | Some r \<Rightarrow> r)\<rparr>))"
    by (simp add: versioned_update_def now_def assms(2) mbind_def Let_def)
  have d: "distinct (map run_id (runs ?d))" using assms(1) by (simp add: run_ids_distinct_def)
  show ?thesis
  proof (cases "find_run ?d (run_id ?run)")
    case None
    then have "?runs' = runs ?d" using map_key_none [OF d, of "run_id ?run" ?P ?set]
      by (simp add: find_run_def)
    moreover have "?hits = []"
      using None filter_key_cases [OF d, of "run_id ?run" ?P] by (simp add: find_run_def)
    ultimately show ?thesis using None by (simp add: run Let_def)
  next
    case (Some r)
    show ?thesis
    proof (cases "?P r")
      case True
      then have eq: "?set r = updated_row u t r" by (simp add: updated_row_def)
      have "?runs' = runs (put_run (updated_row u t r) ?d)"
        using map_key_cases [OF d _, of "run_id ?run" r ?P ?set] Some True find_run_id [OF Some]
        by (simp add: find_run_def eq put_run_def)
      then have d': "?d\<lparr>runs := ?runs'\<rparr> = put_run (updated_row u t r) ?d"
        by (simp add: put_run_def)
      have "?hits = [r]"
        using Some True filter_key_cases [OF d, of "run_id ?run" ?P] by (simp add: find_run_def)
      then show ?thesis
        using Some True find_run_id [OF Some] by (simp add: run d' Let_def find_run_put)
    next
      case False
      then have "?runs' = runs ?d" using map_key_none [OF d, of "run_id ?run" ?P ?set] Some
        by (simp add: find_run_def)
      moreover have "?hits = []"
        using Some False filter_key_cases [OF d, of "run_id ?run" ?P] by (auto simp: find_run_def)
      ultimately show ?thesis using Some False by (auto simp: run Let_def)
    qed
  qed
qed

lemma versioned_update_keeps_ids:
  assumes "run_ids_distinct s" and "versioned_update E u x s = (b, s')"
  shows "run_ids_distinct s'"
  using assms versioned_update_eq [OF assms(1), of E "fst (env_now E (world s))" "snd (env_now E (world s))" u x]
  by (auto simp: run_ids_distinct_def split: option.splits if_splits)

section \<open>Fencing\<close>

text \<open>
  An attempt: the run object a writer holds, the values it sets and its extra condition. The
  writer's object becomes the session's while the update runs.
\<close>

type_synonym attempt = "agent_run \<times> field_updates \<times> (agent_run \<Rightarrow> bool)"

definition try_update :: "'w env \<Rightarrow> attempt \<Rightarrow> 'w st \<Rightarrow> bool \<times> 'w st" where
  "try_update E p s = (case p of (held, u, x) \<Rightarrow>
     (case versioned_update E u x (s\<lparr>cur := held\<rparr>) of (Inr b, s') \<Rightarrow> (b, s') | (Inl _, s') \<Rightarrow> (False, s')))"

definition held_id :: "attempt \<Rightarrow> uuid" where "held_id p = run_id (fst p)"

definition held_version :: "attempt \<Rightarrow> int" where "held_version p = run_version (fst p)"

definition row_version :: "'w st \<Rightarrow> uuid \<Rightarrow> int option" where
  "row_version s i = map_option run_version (find_run (rows s) i)"

lemma try_update_eq:
  assumes "run_ids_distinct s" and "env_now E (world s) = (t, w)"
  shows "try_update E (held, u, x) s =
     (case find_run (rows s) (run_id held) of
        Some r \<Rightarrow> if run_version r = run_version held \<and> x r
                  then (True, s\<lparr>world := w, rows := put_run (updated_row u t r) (rows s),
                               cur := updated_row u t r\<rparr>)
                  else (False, s\<lparr>cur := held, world := w\<rparr>)
      | None \<Rightarrow> (False, s\<lparr>cur := held, world := w\<rparr>))"
  using assms versioned_update_eq [of "s\<lparr>cur := held\<rparr>" E t w u x]
  by (auto simp: try_update_def run_ids_distinct_def split: option.splits)

lemma try_update_spec:
  assumes "run_ids_distinct s" and "try_update E p s = (b, s')"
  shows "run_ids_distinct s'"
    and "k \<noteq> held_id p \<Longrightarrow> row_version s' k = row_version s k"
    and "\<not> b \<Longrightarrow> row_version s' k = row_version s k"
    and "b \<Longrightarrow> row_version s (held_id p) = Some (held_version p)"
    and "b \<Longrightarrow> row_version s' (held_id p) = Some (held_version p + 1)"
proof -
  obtain held u x where p: "p = (held, u, x)" by (metis surj_pair)
  obtain t w where n: "env_now E (world s) = (t, w)" by fastforce
  note eq = try_update_eq [OF assms(1) n, of held u x]
  show "run_ids_distinct s'" "k \<noteq> held_id p \<Longrightarrow> row_version s' k = row_version s k"
    "\<not> b \<Longrightarrow> row_version s' k = row_version s k"
    "b \<Longrightarrow> row_version s (held_id p) = Some (held_version p)"
    "b \<Longrightarrow> row_version s' (held_id p) = Some (held_version p + 1)"
    using assms eq
    by (auto simp: p held_id_def held_version_def row_version_def run_ids_distinct_def find_run_put
        dest: find_run_id find_run_id [THEN conjunct1, symmetric] split: option.splits if_splits)
qed

interpretation run_fence: fenced "try_update E" held_id held_version row_version run_ids_distinct
  for E :: "'w env"
  by unfold_locales (auto dest: try_update_spec)

end
