(* ===== verification/Samples.thy ===== *)
theory Samples
  imports Store
begin

text \<open>
  A concrete outside for the witnesses: the world is a counter, the clock and \<open>uuid4\<close> read it
  and step it on, values are serialized as JSON text and every argument object conforms to its
  schema. One concrete run and an empty database.
\<close>

fun json_text :: "json \<Rightarrow> string" where
  "json_text JNull = ''null''"
| "json_text (JBool b) = (if b then ''true'' else ''false'')"
| "json_text (JInt i) = str_of_int i"
| "json_text (JFloat r) = str_of_int (floor r)"
| "json_text (JStr s) = [CHR 0x22] @ s @ [CHR 0x22]"
| "json_text (JList xs) = ''['' @ str_join '','' (map json_text xs) @ '']''"
| "json_text (JObj d) =
     ''{'' @ str_join '','' (map (\<lambda>(k, v). [CHR 0x22] @ k @ [CHR 0x22] @ '':'' @ json_text v) d) @ ''}''"

definition sample_env :: "nat env" where
  "sample_env = \<lparr>env_now = (\<lambda>w. (int w, Suc w)), env_uuid4 = (\<lambda>w. (of_nat w, Suc w)),
     env_dumps = json_text, env_str = json_text, env_schema_errors = (\<lambda>_ _. []),
     env_settings = default_settings\<rparr>"

definition sample_run :: agent_run where
  "sample_run = \<lparr>run_id = 7, run_tenant_id = 1, run_created_by_user_id = None,
     run_status = RS_running, run_version = 3, run_goal = ''goal'', run_channel = CH_api,
     run_channel_metadata = [], run_current_step = 0, run_max_steps = 25, run_max_tool_calls = 40,
     run_token_budget = 200000, run_timeout_seconds = 900, run_tokens_used = 0,
     run_tool_calls_used = 0, run_active_skill_revision_id = None, run_active_tool_names = [],
     run_lease_owner = None, run_lease_expires_at = None, run_final_result = None, run_error = None,
     run_cancel_requested = False, run_created_at = 0, run_updated_at = 0\<rparr>"

definition empty_db :: db where
  "empty_db = \<lparr>runs = [], messages = [], steps = [], execs = [], approvals = [], usages = [],
     skills = [], revisions = [], skill_usages = [], quotas = [], servers = [], mcp_tools = []\<rparr>"

definition state_of :: "agent_run \<Rightarrow> nat st" where
  "state_of r = \<lparr>rows = empty_db\<lparr>runs := [r]\<rparr>, durable = empty_db\<lparr>runs := [r]\<rparr>, cur = r,
     world = 100, invoked = []\<rparr>"

definition sample_st :: "nat st" where
  "sample_st = state_of sample_run"

lemmas sample_defs = sample_env_def sample_run_def empty_db_def state_of_def sample_st_def

end
