(* ===== verification/RunStore.thy ===== *)
theory RunStore
  imports Repository Samples
begin

text \<open>
  Workers sharing one run table: each holds a run object of its own, and the repository's
  operations interleave in any order. What the fencing token and the state machine give together:
  the statuses a run goes through form a history of the run state machine whoever writes them,
  and a lease excludes the other workers until it expires or is released.
\<close>

section \<open>Interleavings\<close>

datatype repo_op =
    Read_run nat uuid
  | Checkpoint_run nat "run_status option" field_updates
  | Acquire_lease nat string int
  | Renew_lease uuid string int
  | Release_lease nat

type_synonym 'w workers = "'w st \<times> (nat \<Rightarrow> agent_run)"

text \<open>Worker \<open>k\<close> runs an operation of the repository on the object it holds.\<close>

definition as_worker :: "nat \<Rightarrow> ('w, 'a) op \<Rightarrow> 'w workers \<Rightarrow> 'w workers" where
  "as_worker k m c =
     (let s' = snd (m ((fst c)\<lparr>cur := snd c k\<rparr>)) in (s', (snd c)(k := cur s')))"

fun repo_step :: "'w env \<Rightarrow> repo_op \<Rightarrow> 'w workers \<Rightarrow> 'w workers" where
  "repo_step E (Read_run k i) c =
     (case find_run (rows (fst c)) i of None \<Rightarrow> c | Some r \<Rightarrow> (fst c, (snd c)(k := r)))"
| "repo_step E (Checkpoint_run k status u) c = as_worker k (checkpoint E status (u\<lparr>fu_status := None\<rparr>)) c"
| "repo_step E (Acquire_lease k owner ttl) c = as_worker k (try_acquire_lease E owner ttl) c"
| "repo_step E (Renew_lease i owner ttl) c = (snd (renew_lease_by_id E i owner ttl (fst c)), snd c)"
| "repo_step E (Release_lease k) c = as_worker k (release_lease E) c"

definition repo_steps :: "'w env \<Rightarrow> repo_op list \<Rightarrow> 'w workers \<Rightarrow> 'w workers" where
  "repo_steps E ps c = fold (repo_step E) ps c"

definition row_status :: "'w workers \<Rightarrow> uuid \<Rightarrow> run_status option" where
  "row_status c i = map_option run_status (find_run (rows (fst c)) i)"

text \<open>The status of run \<open>i\<close> after each operation of a schedule.\<close>

fun status_trace :: "'w env \<Rightarrow> uuid \<Rightarrow> repo_op list \<Rightarrow> 'w workers \<Rightarrow> run_status list" where
  "status_trace E i [] c = []"
| "status_trace E i (p # ps) c =
     (case row_status (repo_step E p c) i of None \<Rightarrow> [] | Some t \<Rightarrow> [t])
     @ status_trace E i ps (repo_step E p c)"

text \<open>
  What a worker holds is a past state of the row: its version is not ahead of the row's, and at
  the same version it has the row's status.
\<close>

definition coherent :: "'w workers \<Rightarrow> bool" where
  "coherent c \<longleftrightarrow> run_ids_distinct (fst c) \<and>
     (\<forall>k r. find_run (rows (fst c)) (run_id (snd c k)) = Some r \<longrightarrow>
        run_version (snd c k) \<le> run_version r
        \<and> (run_version (snd c k) = run_version r \<longrightarrow> run_status (snd c k) = run_status r))"

lemma coherentD:
  "coherent c \<Longrightarrow> find_run (rows (fst c)) (run_id (snd c k)) = Some r \<Longrightarrow>
     run_version (snd c k) \<le> run_version r
     \<and> (run_version (snd c k) = run_version r \<longrightarrow> run_status (snd c k) = run_status r)"
  by (simp add: coherent_def)

section \<open>One operation\<close>

text \<open>A change of the table by one operation: at most one row changes, and as the versions say.\<close>

definition row_change :: "'w workers \<Rightarrow> 'w workers \<Rightarrow> bool" where
  "row_change c c' \<longleftrightarrow> coherent c' \<and>
     (\<forall>i r. find_run (rows (fst c)) i = Some r \<longrightarrow>
        (\<exists>r'. find_run (rows (fst c')) i = Some r' \<and> valid_transition (run_status r) (run_status r')
              \<and> run_version r \<le> run_version r'))
     \<and> (\<forall>i. find_run (rows (fst c)) i = None \<longrightarrow> find_run (rows (fst c')) i = None)"

lemma versioned_by_worker:
  assumes c: "coherent c"
    and st: "\<And>r. find_run (rows (fst c)) (run_id (snd c k)) = Some r \<Longrightarrow>
        run_version r = run_version (snd c k) \<Longrightarrow>
        valid_transition (run_status r) (set_or (fu_status u) (run_status r))"
    and c': "c' = (let s' = snd (versioned_update E u x ((fst c)\<lparr>cur := snd c k, world := w0\<rparr>)) in (s', (snd c)(k := cur s')))"
  shows "row_change c c'"
proof -
  let ?s = "(fst c)\<lparr>cur := snd c k, world := w0\<rparr>"
  obtain t w where n: "env_now E (world ?s) = (t, w)" by fastforce
  have d: "run_ids_distinct ?s" using c by (simp add: coherent_def run_ids_distinct_def)
  note eq = versioned_update_eq [OF d n, of u x]
  show ?thesis
  proof (cases "find_run (rows (fst c)) (run_id (snd c k))")
    case None
    then have "c' = (?s\<lparr>world := w\<rparr>, snd c)" using eq by (simp add: c' Let_def)
    with c show ?thesis by (auto simp: row_change_def coherent_def run_ids_distinct_def)
  next
    case (Some r)
    note id = find_run_id [OF Some, THEN conjunct1]
    show ?thesis
    proof (cases "run_version r = run_version (snd c k) \<and> x r")
      case False
      then have "c' = (?s\<lparr>world := w\<rparr>, snd c)" using eq Some by (auto simp: c' Let_def)
      with c show ?thesis by (auto simp: row_change_def coherent_def run_ids_distinct_def)
    next
      case True
      let ?r = "updated_row u t r"
      have c'': "c' = (?s\<lparr>world := w, rows := put_run ?r (rows (fst c)), cur := ?r\<rparr>, (snd c)(k := ?r))"
        using eq Some True by (simp add: c' Let_def)
      have "coherent c'"
        unfolding coherent_def c''
      proof (intro conjI allI impI, goal_cases)
        case 1
        then show ?case using c by (simp add: coherent_def run_ids_distinct_def)
      next
        case (2 j q)
        then show ?case using coherentD [OF c, of j] Some id
          by (cases "j = k"; cases "run_id (snd c j) = run_id r") (auto simp: find_run_put)
      next
        case (3 j q)
        then show ?case using coherentD [OF c, of j] Some id
          by (cases "j = k"; cases "run_id (snd c j) = run_id r") (auto simp: find_run_put)
      qed
      moreover have "valid_transition (run_status r) (run_status ?r)" using st [OF Some] True by simp
      ultimately show ?thesis
        unfolding row_change_def using Some id by (auto simp: c'' find_run_put)
    qed
  qed
qed

lemma row_change_refl: "coherent c \<Longrightarrow> row_change c c"
  by (simp add: row_change_def)

lemma checkpoint_row_change:
  assumes "coherent c"
  shows "row_change c (as_worker k (checkpoint E status (u\<lparr>fu_status := None\<rparr>)) c)"
proof -
  let ?s = "(fst c)\<lparr>cur := snd c k\<rparr>"
  let ?u = "case status of None \<Rightarrow> u\<lparr>fu_status := None\<rparr> | Some t \<Rightarrow> u\<lparr>fu_status := Some t\<rparr>"
  have u: "fu_status ?u = status" by (cases status) auto
  show ?thesis
  proof (cases "status = None \<or> valid_transition (run_status (snd c k)) (the status)")
    case True
    have "snd (checkpoint E status (u\<lparr>fu_status := None\<rparr>) ?s) = snd (versioned_update E ?u (\<lambda>_. True) ?s)"
      using True by (cases status)
        (auto simp: checkpoint_def mbind_def assert_valid_transition_run split: prod.splits sum.splits)
    moreover have "?s = (fst c)\<lparr>cur := snd c k, world := world (fst c)\<rparr>" by simp
    ultimately have "as_worker k (checkpoint E status (u\<lparr>fu_status := None\<rparr>)) c =
        (let s' = snd (versioned_update E ?u (\<lambda>_. True) ((fst c)\<lparr>cur := snd c k, world := world (fst c)\<rparr>))
         in (s', (snd c)(k := cur s')))"
      by (simp add: as_worker_def)
    moreover have "valid_transition (run_status r) (set_or (fu_status ?u) (run_status r))"
      if "find_run (rows (fst c)) (run_id (snd c k)) = Some r" "run_version r = run_version (snd c k)" for r
      using coherentD [OF assms that(1)] that(2) True unfolding u by (cases status) auto
    ultimately show ?thesis using versioned_by_worker [OF assms] by blast
  next
    case False
    then have "snd (checkpoint E status (u\<lparr>fu_status := None\<rparr>) ?s) = ?s"
      by (auto simp: checkpoint_def mbind_def assert_valid_transition_run)
    then have "as_worker k (checkpoint E status (u\<lparr>fu_status := None\<rparr>)) c = (?s, snd c)"
      by (simp add: as_worker_def)
    with assms show ?thesis by (auto simp: row_change_def coherent_def run_ids_distinct_def)
  qed
qed

lemma lease_updates_row_change:
  assumes "coherent c" and "fu_status u = None"
  shows "row_change c (as_worker k (versioned_update E u x) c)"
proof -
  have "as_worker k (versioned_update E u x) c =
    (let s' = snd (versioned_update E u x ((fst c)\<lparr>cur := snd c k, world := world (fst c)\<rparr>)) in (s', (snd c)(k := cur s')))"
    by (simp add: as_worker_def)
  then show ?thesis
    by (rule ssubst) (rule versioned_by_worker [OF assms(1) _ HOL.refl], simp add: assms(2))
qed

lemma acquire_row_change:
  assumes "coherent c"
  shows "row_change c (as_worker k (try_acquire_lease E owner ttl) c)"
proof -
  obtain t w where n: "env_now E (world (fst c)) = (t, w)" by fastforce
  let ?u = "no_updates\<lparr>fu_lease_owner := Some (Some owner), fu_lease_expires_at := Some (Some (t + seconds ttl))\<rparr>"
  have "as_worker k (try_acquire_lease E owner ttl) c =
    (let s' = snd (versioned_update E ?u (lease_free t) ((fst c)\<lparr>cur := snd c k, world := w\<rparr>)) in (s', (snd c)(k := cur s')))"
    by (simp add: as_worker_def try_acquire_lease_def now_def n mbind_def)
  then show ?thesis
    by (rule ssubst) (rule versioned_by_worker [OF assms _ HOL.refl], simp add: no_updates_def)
qed

lemma renew_row_change:
  assumes c: "coherent c"
  shows "row_change c (snd (renew_lease_by_id E i owner ttl (fst c)), snd c)"
proof -
  obtain t w where n: "env_now E (world (fst c)) = (t, w)" by fastforce
  obtain t' w' where n': "env_now E w = (t', w')" by fastforce
  let ?f = "\<lambda>r. if run_id r = i \<and> run_lease_owner r = Some owner
     then r\<lparr>run_lease_expires_at := Some (t + seconds ttl), run_updated_at := t'\<rparr> else r"
  let ?c' = "(snd (renew_lease_by_id E i owner ttl (fst c)), snd c)"
  have rows': "rows (fst ?c') = (rows (fst c))\<lparr>runs := map ?f (runs (rows (fst c)))\<rparr>"
    by (simp add: renew_lease_by_id_def now_def n n' mbind_def Let_def commit_def)
  have find': "find_run (rows (fst ?c')) j = map_option ?f (find_run (rows (fst c)) j)" for j
    unfolding rows' find_run_def by (simp add: find_map_id)
  have "map run_id (runs (rows (fst ?c'))) = map run_id (runs (rows (fst c)))"
    unfolding rows' by simp
  then have ids: "run_ids_distinct (fst ?c')"
    using c unfolding coherent_def run_ids_distinct_def by metis
  have same: "run_version (?f r) = run_version r" "run_status (?f r) = run_status r" for r
    by simp_all
  have "coherent ?c'"
    unfolding coherent_def find' using ids coherentD [OF c] by (fastforce simp: same simp del: if_split)
  then show ?thesis
    unfolding row_change_def find' by (auto simp: same simp del: if_split)
qed

lemma read_row_change:
  assumes c: "coherent c"
  shows "row_change c (repo_step E (Read_run k i) c)"
proof (cases "find_run (rows (fst c)) i")
  case None
  then show ?thesis using c by (simp add: row_change_refl)
next
  case (Some r)
  have "coherent (fst c, (snd c)(k := r))"
    using c Some find_run_id [OF Some] by (auto simp: coherent_def)
  with Some show ?thesis by (simp add: row_change_def)
qed

lemma repo_step_row_change: "coherent c \<Longrightarrow> row_change c (repo_step E p c)"
  by (cases p) (auto intro: checkpoint_row_change acquire_row_change lease_updates_row_change
      renew_row_change simp: release_lease_def no_updates_def simp del: repo_step.simps(1)
      simp flip: repo_step.simps(1) intro!: read_row_change)

section \<open>Schedules\<close>

lemma status_trace_history:
  assumes "coherent c" and "row_status c i = Some t"
  shows "history valid_transition t (status_trace E i ps c)
    \<and> row_status (repo_steps E ps c) i = Some (last (t # status_trace E i ps c))"
  using assms
proof (induction ps arbitrary: c t)
  case Nil
  then show ?case by (simp add: repo_steps_def)
next
  case (Cons p ps)
  have ch: "row_change c (repo_step E p c)" using Cons.prems(1) by (rule repo_step_row_change)
  then obtain t' where t': "row_status (repo_step E p c) i = Some t'" and v: "valid_transition t t'"
    using Cons.prems(2) by (fastforce simp: row_status_def row_change_def)
  have "coherent (repo_step E p c)" using ch by (simp add: row_change_def)
  from Cons.IH [OF this t'] v t' show ?case by (simp add: repo_steps_def)
qed

section \<open>Leases\<close>

text \<open>
  Operations that do not give the lease away: no release, no checkpoint that sets the lease
  columns, and renewals that reach at least to \<open>e\<close> when the clock reads \<open>t0\<close> or later.
\<close>

fun keeps_lease :: "datetime \<Rightarrow> datetime \<Rightarrow> repo_op \<Rightarrow> bool" where
  "keeps_lease t0 e (Read_run k i) = True"
| "keeps_lease t0 e (Checkpoint_run k status u) = (fu_lease_owner u = None \<and> fu_lease_expires_at u = None)"
| "keeps_lease t0 e (Acquire_lease k owner ttl) = True"
| "keeps_lease t0 e (Renew_lease i owner ttl) = (e \<le> t0 + seconds ttl)"
| "keeps_lease t0 e (Release_lease k) = False"

definition leased :: "uuid \<Rightarrow> string \<Rightarrow> datetime \<Rightarrow> 'w workers \<Rightarrow> bool" where
  "leased i owner e c \<longleftrightarrow>
     (case find_run (rows (fst c)) i of None \<Rightarrow> False
      | Some r \<Rightarrow> run_lease_owner r = Some owner \<and> (\<exists>x. run_lease_expires_at r = Some x \<and> e \<le> x))"

lemma leased_versioned:
  assumes c: "coherent c" and l: "leased i owner e c"
    and keep: "\<And>r. leased i owner e c \<Longrightarrow> x r \<Longrightarrow> run_lease_owner r = Some owner \<Longrightarrow>
        (\<exists>z. run_lease_expires_at r = Some z \<and> e \<le> z) \<Longrightarrow>
        fu_lease_owner u = None \<and> fu_lease_expires_at u = None"
  shows "leased i owner e
    (let s' = snd (versioned_update E u x ((fst c)\<lparr>cur := snd c k, world := w0\<rparr>)) in (s', (snd c)(k := cur s')))"
proof -
  let ?s = "(fst c)\<lparr>cur := snd c k, world := w0\<rparr>"
  obtain t w where n: "env_now E (world ?s) = (t, w)" by fastforce
  have d: "run_ids_distinct ?s" using c by (simp add: coherent_def run_ids_distinct_def)
  let ?c' = "let s' = snd (versioned_update E u x ?s) in (s', (snd c)(k := cur s'))"
  note eq = versioned_update_eq [OF d n, of u x]
  show ?thesis
  proof (cases "\<exists>r. find_run (rows (fst c)) (run_id (snd c k)) = Some r
      \<and> run_version r = run_version (snd c k) \<and> x r")
    case False
    then have "rows (fst ?c') = rows (fst c)"
      using eq by (auto simp: Let_def split: option.splits if_splits)
    with l show ?thesis by (simp add: leased_def)
  next
    case True
    then obtain r where r: "find_run (rows (fst c)) (run_id (snd c k)) = Some r" "x r"
      and v: "run_version r = run_version (snd c k)" by blast
    then have rows': "rows (fst ?c') = put_run (updated_row u t r) (rows (fst c))"
      using eq by (simp add: Let_def)
    note id = find_run_id [OF r(1), THEN conjunct1]
    show ?thesis
      using l keep [OF l r(2)] r(1) id
      by (cases "i = run_id r") (auto simp: leased_def rows' find_run_put split: option.splits)
  qed
qed

lemma leased_checkpoint:
  assumes c: "coherent c" and l: "leased i owner e c"
    and u: "fu_lease_owner u = None" "fu_lease_expires_at u = None"
  shows "leased i owner e (as_worker k (checkpoint E status (u\<lparr>fu_status := None\<rparr>)) c)"
proof -
  let ?s = "(fst c)\<lparr>cur := snd c k, world := world (fst c)\<rparr>"
  let ?u = "case status of None \<Rightarrow> u\<lparr>fu_status := None\<rparr> | Some t \<Rightarrow> u\<lparr>fu_status := Some t\<rparr>"
  have "fu_lease_owner ?u = None" "fu_lease_expires_at ?u = None" using u by (auto split: option.splits)
  then have v: "leased i owner e
      (let s' = snd (versioned_update E ?u (\<lambda>_. True) ?s) in (s', (snd c)(k := cur s')))"
    by (intro leased_versioned [OF c l]) simp
  have "snd (checkpoint E status (u\<lparr>fu_status := None\<rparr>) ?s) = snd (versioned_update E ?u (\<lambda>_. True) ?s)
      \<or> snd (checkpoint E status (u\<lparr>fu_status := None\<rparr>) ?s) = ?s"
    by (cases status)
      (auto simp: checkpoint_def mbind_def assert_valid_transition_run split: prod.splits sum.splits)
  with v l show ?thesis by (auto simp: as_worker_def leased_def Let_def)
qed

lemma leased_acquire:
  assumes c: "coherent c" and l: "leased i owner e c"
    and clock: "\<And>w. fst (env_now E w) \<le> e"
  shows "leased i owner e (as_worker k (try_acquire_lease E o' ttl) c)"
proof -
  obtain t w where n: "env_now E (world (fst c)) = (t, w)" by fastforce
  have "t \<le> e" using clock [of "world (fst c)"] n by simp
  let ?u = "no_updates\<lparr>fu_lease_owner := Some (Some o'), fu_lease_expires_at := Some (Some (t + seconds ttl))\<rparr>"
  have eq: "as_worker k (try_acquire_lease E o' ttl) c =
    (let s' = snd (versioned_update E ?u (lease_free t) ((fst c)\<lparr>cur := snd c k, world := w\<rparr>)) in (s', (snd c)(k := cur s')))"
    by (simp add: as_worker_def try_acquire_lease_def now_def n mbind_def)
  show ?thesis
    unfolding eq by (intro leased_versioned [OF c l]) (use \<open>t \<le> e\<close> in \<open>auto simp: lease_free_def\<close>)
qed

lemma leased_renew:
  assumes l: "leased i owner e c" and clock: "\<And>w. t0 \<le> fst (env_now E w)"
    and ttl: "e \<le> t0 + seconds ttl"
  shows "leased i owner e (snd (renew_lease_by_id E j o' ttl (fst c)), snd c)"
proof -
  obtain t w where n: "env_now E (world (fst c)) = (t, w)" by fastforce
  obtain t' w' where n': "env_now E w = (t', w')" by fastforce
  let ?f = "\<lambda>r. if run_id r = j \<and> run_lease_owner r = Some o'
     then r\<lparr>run_lease_expires_at := Some (t + seconds ttl), run_updated_at := t'\<rparr> else r"
  have "e \<le> t + seconds ttl" using clock [of "world (fst c)"] n ttl by simp
  moreover have "rows (snd (renew_lease_by_id E j o' ttl (fst c))) =
      (rows (fst c))\<lparr>runs := map ?f (runs (rows (fst c)))\<rparr>"
    by (simp add: renew_lease_by_id_def now_def n n' mbind_def Let_def commit_def)
  moreover have "find_run ((rows (fst c))\<lparr>runs := map ?f (runs (rows (fst c)))\<rparr>) i =
      map_option ?f (find_run (rows (fst c)) i)"
    unfolding find_run_def by (simp add: find_map_id)
  ultimately show ?thesis using l by (auto simp: leased_def split: option.splits)
qed

lemma leased_step:
  assumes "coherent c" and "leased i owner e c" and "keeps_lease t0 e p"
    and "\<And>w. t0 \<le> fst (env_now E w) \<and> fst (env_now E w) \<le> e"
  shows "leased i owner e (repo_step E p c)"
proof (cases p)
  case (Read_run k j)
  then show ?thesis using assms(2) by (auto simp: leased_def split: option.splits)
next
  case (Checkpoint_run k status u)
  then show ?thesis using assms(3) leased_checkpoint [OF assms(1,2)] by simp
next
  case (Acquire_lease k o' ttl)
  then show ?thesis using leased_acquire [OF assms(1,2)] assms(4) by simp
next
  case (Renew_lease j o' ttl)
  then show ?thesis using leased_renew [OF assms(2), where ?t0.0 = t0] assms(3,4) by simp
next
  case (Release_lease k)
  then show ?thesis using assms(3) by simp
qed

section \<open>Properties\<close>

text \<open>
  C3. Optimistic locking: in any schedule of versioned updates by any writers, of two attempts made
  on the same run at the same version only the first that matches can succeed, and the row's
  version grows by exactly the number of updates that succeeded on it.
\<close>

theorem versioned_update_fences:
  assumes "run_ids_distinct s" and "run_all (try_update E) ps s = (bs, s')"
    and "row_version s i = Some v"
  shows "(\<forall>a b. a < b \<and> b < length ps \<and> held_id (ps ! a) = held_id (ps ! b)
            \<and> held_version (ps ! a) = held_version (ps ! b) \<and> bs ! a \<longrightarrow> \<not> bs ! b)
    \<and> row_version s' i = Some (v + int (length (filter (\<lambda>(p, b). b \<and> held_id p = i) (zip ps bs))))"
  using run_fence.one_winner [OF assms(1,2)] run_fence.version_counts_wins [OF assms] by blast

text \<open>
  C5. Whatever workers read, checkpoint, acquire, renew and release in whatever order, the
  statuses a run goes through follow the run state machine, and once one of them is terminal
  every later one is the same.
\<close>

theorem run_statuses_follow_state_machine:
  assumes "coherent c" and "row_status c i = Some t"
  shows "history valid_transition t (status_trace E i ps c)
    \<and> (t \<in> TERMINAL_RUN_STATUSES \<longrightarrow> row_status (repo_steps E ps c) i = Some t)"
  using status_trace_history [OF assms] run_life.final_constant [of t "status_trace E i ps c"]
  by (fastforce dest: last_in_set)

text \<open>
  C13. While the clock has not passed a lease's expiry \<open>e\<close>, no schedule of reads, checkpoints,
  acquisitions by other workers and renewals takes the lease from its owner.
\<close>

theorem lease_excludes_others:
  assumes "coherent c" and "leased i owner e c" and "list_all (keeps_lease t0 e) ps"
    and "\<And>w. t0 \<le> fst (env_now E w) \<and> fst (env_now E w) \<le> e"
  shows "leased i owner e (repo_steps E ps c)"
  using assms(1-3)
proof (induction ps arbitrary: c)
  case Nil
  then show ?case by (simp add: repo_steps_def)
next
  case (Cons p ps)
  have "coherent (repo_step E p c)"
    using repo_step_row_change [OF Cons.prems(1)] by (simp add: row_change_def)
  moreover have "leased i owner e (repo_step E p c)"
    using leased_step [OF Cons.prems(1,2) _ assms(4)] Cons.prems(3) by simp
  ultimately show ?case using Cons.IH Cons.prems(3) by (simp add: repo_steps_def)
qed

section \<open>Witnesses\<close>

text \<open>Two workers that read the sample run at the same version both try to finish it.\<close>

definition sample_race :: "attempt list" where
  "sample_race = [(sample_run, no_updates\<lparr>fu_status := Some RS_completed\<rparr>, \<lambda>_. True),
                  (sample_run, no_updates\<lparr>fu_status := Some RS_failed\<rparr>, \<lambda>_. True)]"

lemma sample_st_distinct: "run_ids_distinct sample_st"
  by (simp add: run_ids_distinct_def sample_defs)

lemma sample_row: "find_run (rows sample_st) 7 = Some sample_run"
  by (simp add: find_run_def sample_defs)

lemma sample_race_result:
  "fst (run_all (try_update sample_env) sample_race sample_st) = [True, False]"
  by (simp add: sample_race_def try_update_def versioned_update_def now_def mbind_def find_run_def
      apply_updates_def no_updates_def sample_defs Let_def)

theorem versioned_update_fences_witness:
  "row_version (snd (run_all (try_update sample_env) sample_race sample_st)) 7 = Some 4"
proof -
  let ?r = "run_all (try_update sample_env) sample_race sample_st"
  have v: "row_version sample_st 7 = Some 3"
    by (simp add: row_version_def sample_row) (simp add: sample_run_def)
  have "?r = ([True, False], snd ?r)" by (metis sample_race_result prod.collapse)
  from versioned_update_fences [OF sample_st_distinct this v]
  show ?thesis by (simp add: sample_race_def held_id_def) (simp add: sample_run_def)
qed

definition sample_workers :: "nat workers" where
  "sample_workers = (sample_st, \<lambda>_. sample_run)"

lemma sample_workers_coherent: "coherent sample_workers"
  by (auto simp: coherent_def sample_workers_def sample_st_distinct sample_row)
    (simp_all add: sample_row [unfolded sample_run_def] find_run_def sample_defs split: if_splits)

theorem run_statuses_witness:
  "history valid_transition RS_running
     (status_trace sample_env 7
        [Checkpoint_run 0 (Some RS_completed) no_updates, Checkpoint_run 1 (Some RS_failed) no_updates,
         Read_run 1 7, Checkpoint_run 1 (Some RS_failed) no_updates] sample_workers)"
proof -
  have "row_status sample_workers 7 = Some RS_running"
    by (simp add: row_status_def sample_workers_def sample_row) (simp add: sample_run_def)
  from run_statuses_follow_state_machine [OF sample_workers_coherent this]
  show ?thesis by blast
qed

definition leased_workers :: "nat workers" where
  "leased_workers = (state_of (sample_run\<lparr>run_lease_owner := Some ''a'', run_lease_expires_at := Some 5\<rparr>),
     \<lambda>_. sample_run)"

definition stopped_env :: "nat env" where
  "stopped_env = sample_env\<lparr>env_now := \<lambda>w. (5, w)\<rparr>"

theorem lease_excludes_witness:
  "leased 7 ''a'' 5 (repo_steps stopped_env [Read_run 1 7, Acquire_lease 1 ''b'' 60] leased_workers)"
proof (rule lease_excludes_others [where ?t0.0 = 5])
  show "coherent leased_workers"
    by (auto simp: coherent_def run_ids_distinct_def leased_workers_def find_run_def sample_defs)
  show "leased 7 ''a'' 5 leased_workers"
    by (simp add: leased_def leased_workers_def find_run_def sample_defs)
qed (simp_all add: stopped_env_def sample_defs)

end
