(* ===== verification/Tools.thy ===== *)
theory Tools
  imports Samples
begin

text \<open>
  harness/runtime/tools.py, tool_validation.py and result_pipeline.py: the tool abstraction and its
  observations, the conservative argument coercion and the truncation of large results.
\<close>

section \<open>Tools and observations (tools.py)\<close>

datatype tool_error_code = INVALID_ARGUMENT | UNKNOWN_TOOL | APPROVAL_DENIED | EXECUTION_FAILED
  | OUTCOME_UNKNOWN | POLICY_DENIED

fun code_str :: "tool_error_code \<Rightarrow> string" where
  "code_str INVALID_ARGUMENT = ''INVALID_ARGUMENT''"
| "code_str UNKNOWN_TOOL = ''UNKNOWN_TOOL''"
| "code_str APPROVAL_DENIED = ''APPROVAL_DENIED''"
| "code_str EXECUTION_FAILED = ''EXECUTION_FAILED''"
| "code_str OUTCOME_UNKNOWN = ''OUTCOME_UNKNOWN''"
| "code_str POLICY_DENIED = ''POLICY_DENIED''"

text \<open>A handler maps its arguments and the world to a result or an exception, and the next world.\<close>

type_synonym 'w handler = "json \<Rightarrow> 'w \<Rightarrow> (exn + json) \<times> 'w"

record 'w tool =
  tl_name :: string
  tl_description :: string
  tl_parameters :: dict
  tl_handler :: "'w handler"
  tl_risk_tier :: risk_tier
  tl_idempotent :: bool
  tl_mutates_workspace :: bool
  tl_evidence_type :: "string option"
  tl_volatile :: bool
  tl_mcp_server_id :: "uuid option"

definition make_tool :: "string \<Rightarrow> string \<Rightarrow> dict \<Rightarrow> 'w handler \<Rightarrow> risk_tier \<Rightarrow> bool \<Rightarrow> 'w tool" where
  "make_tool name description parameters handler tier idem =
     \<lparr>tl_name = name, tl_description = description, tl_parameters = parameters, tl_handler = handler,
      tl_risk_tier = tier, tl_idempotent = idem, tl_mutates_workspace = False, tl_evidence_type = None,
      tl_volatile = False, tl_mcp_server_id = None\<rparr>"

lemma make_tool_simps [simp]:
  "tl_name (make_tool n d p h r i) = n" "tl_description (make_tool n d p h r i) = d"
  "tl_parameters (make_tool n d p h r i) = p" "tl_handler (make_tool n d p h r i) = h"
  "tl_risk_tier (make_tool n d p h r i) = r" "tl_idempotent (make_tool n d p h r i) = i"
  "tl_mcp_server_id (make_tool n d p h r i) = None"
  by (simp_all add: make_tool_def)

record execution_outcome =
  oc_observation :: dict
  oc_fatal :: bool
  oc_fatal_reason :: "string option"
  oc_needs_approval :: bool

definition outcome :: "dict \<Rightarrow> execution_outcome" where
  "outcome obs = \<lparr>oc_observation = obs, oc_fatal = False, oc_fatal_reason = None, oc_needs_approval = False\<rparr>"

lemma outcome_simps [simp]:
  "oc_observation (outcome obs) = obs" "\<not> oc_fatal (outcome obs)" "\<not> oc_needs_approval (outcome obs)"
  by (simp_all add: outcome_def)

definition error_observation :: "string \<Rightarrow> string \<Rightarrow> bool \<Rightarrow> uuid option \<Rightarrow> dict" where
  "error_observation message code retryable evidence_id =
     [(''status'', JStr ''error''), (''error'', JStr message), (''code'', JStr code),
      (''retryable'', JBool retryable)]
     @ (case evidence_id of None \<Rightarrow> [] | Some i \<Rightarrow> [(''evidence_id'', JStr (uuid_str i))])"

definition success_observation :: "dict \<Rightarrow> uuid \<Rightarrow> dict" where
  "success_observation result evidence_id =
     dict_set ''evidence_id'' (JStr (uuid_str evidence_id)) (dict_set ''status'' (JStr ''ok'') result)"

lemma error_observation_has_error [simp]: "dict_has (error_observation m c r i) ''error''"
  by (simp add: error_observation_def dict_has_def)

lemma error_observation_code [simp]: "dict_get (error_observation m c r i) ''code'' = Some (JStr c)"
  by (simp add: error_observation_def)

lemma success_observation_status [simp]: "dict_get (success_observation r i) ''status'' = Some (JStr ''ok'')"
  by (simp add: success_observation_def)

lemma success_observation_other:
  "k \<noteq> ''status'' \<Longrightarrow> k \<noteq> ''evidence_id'' \<Longrightarrow> dict_get (success_observation r i) k = dict_get r k"
  by (simp add: success_observation_def)

section \<open>Truncating results (result_pipeline.py)\<close>

text \<open>Python's slices \<open>s[:n]\<close> and \<open>s[n:]\<close> with an integer bound, negative bounds from the end.\<close>

definition slice_to :: "'a list \<Rightarrow> int \<Rightarrow> 'a list" where
  "slice_to s n = (if n \<ge> 0 then take (nat n) s else take (nat (int (length s) + n)) s)"

definition slice_from :: "'a list \<Rightarrow> int \<Rightarrow> 'a list" where
  "slice_from s n = (if n \<ge> 0 then drop (nat n) s else drop (nat (int (length s) + n)) s)"

definition truncate_result :: "(json \<Rightarrow> string) \<Rightarrow> json \<Rightarrow> int \<Rightarrow> dict" where
  "truncate_result dumps v max_chars =
     (let result = (case v of JObj d \<Rightarrow> d | _ \<Rightarrow> [(''value'', v)]);
          serialized = dumps (JObj result)
      in if int (length serialized) \<le> max_chars then result
         else
           let half = max_chars div 2;
               head = slice_to serialized half;
               tail = slice_from serialized (- half);
               omitted = int (length serialized) - int (length head) - int (length tail)
           in [(''_truncated'', JBool True), (''_original_length'', JInt (int (length serialized))),
               (''content'', JStr (head @ ''...[truncated '' @ str_of_int omitted @ '' chars]...'' @ tail))])"

section \<open>Argument coercion (tool_validation.py)\<close>

definition attribute_error :: exn where
  "attribute_error = PyError ''AttributeError'' ''object has no attribute get or items''"

text \<open>The three patterns: an integer, a decimal number, and their readings.\<close>

fun strip_sign :: "string \<Rightarrow> bool \<times> string" where
  "strip_sign [] = (False, [])"
| "strip_sign (c # cs) =
     (if c = CHR ''-'' then (True, cs) else if c = CHR ''+'' then (False, cs) else (False, c # cs))"

definition is_integer_text :: "string \<Rightarrow> bool" where
  "is_integer_text s = (let r = snd (strip_sign s) in r \<noteq> [] \<and> list_all is_digit r)"

definition int_of_text :: "string \<Rightarrow> int" where
  "int_of_text s = (let (neg, r) = strip_sign s; n = int (nat_of_str r) in if neg then - n else n)"

definition is_number_text :: "string \<Rightarrow> bool" where
  "is_number_text s =
     (let r = snd (strip_sign s); a = takeWhile is_digit r; b = dropWhile is_digit r in
      (a \<noteq> [] \<and> (b = [] \<or> (hd b = CHR ''.'' \<and> list_all is_digit (tl b))))
      \<or> (a = [] \<and> b \<noteq> [] \<and> hd b = CHR ''.'' \<and> tl b \<noteq> [] \<and> list_all is_digit (tl b)))"

definition rat_of_text :: "string \<Rightarrow> rat" where
  "rat_of_text s =
     (let (neg, r) = strip_sign s; a = takeWhile is_digit r; f = drop 1 (dropWhile is_digit r);
          n = of_nat (nat_of_str a) + of_nat (nat_of_str f) / 10 ^ length f
      in if neg then - n else n)"

definition coerce_scalar :: "json option \<Rightarrow> json \<Rightarrow> json" where
  "coerce_scalar expected v =
     (case v of
        JStr s \<Rightarrow>
          (let stripped = str_strip s in
           if expected = Some (JStr ''integer'') \<and> is_integer_text stripped then JInt (int_of_text stripped)
           else if expected = Some (JStr ''number'') \<and> is_number_text stripped then JFloat (rat_of_text stripped)
           else if expected = Some (JStr ''boolean'')
                \<and> (str_lower stripped = ''true'' \<or> str_lower stripped = ''false'')
           then JBool (str_lower stripped = ''true'')
           else v)
      | _ \<Rightarrow> v)"

text \<open>\<open>schema.get(k) or {}\<close>\<close>

definition get_or_empty :: "dict \<Rightarrow> string \<Rightarrow> json" where
  "get_or_empty d k = (case dict_get d k of None \<Rightarrow> JObj [] | Some v \<Rightarrow> if truthy v then v else JObj [])"

lemma size_dict_get: "dict_get d k = Some v \<Longrightarrow> size v < size (JObj d)"
  by (induction d) (auto split: if_splits)

lemma size_get_or_empty_less:
  assumes "dict_get d k' = Some x"
  shows "size (get_or_empty d k) < size (JObj d)"
proof -
  have "0 < size_list (size_prod (\<lambda>x. 0) size) d" using assms by (cases d) auto
  then show ?thesis
    using size_dict_get [of d k] by (auto simp: get_or_empty_def split: option.splits)
qed

function coerce_value :: "json \<Rightarrow> json \<Rightarrow> exn + json"
  and coerce_properties :: "dict \<Rightarrow> dict \<Rightarrow> exn + dict"
  and coerce_items :: "json \<Rightarrow> json list \<Rightarrow> exn + json list" where
  "coerce_value schema v =
     (case schema of
        JObj s \<Rightarrow>
          (let expected = dict_get s ''type'' in
           case v of
             JObj d \<Rightarrow>
               if expected = Some (JStr ''object'')
               then (case get_or_empty s ''properties'' of
                       JObj ps \<Rightarrow> (case coerce_properties ps d of Inl e \<Rightarrow> Inl e | Inr d' \<Rightarrow> Inr (JObj d'))
                     | _ \<Rightarrow> Inl attribute_error)
               else Inr v
           | JList xs \<Rightarrow>
               if expected = Some (JStr ''array'')
               then (case coerce_items (get_or_empty s ''items'') xs of Inl e \<Rightarrow> Inl e | Inr ys \<Rightarrow> Inr (JList ys))
               else Inr v
           | _ \<Rightarrow> Inr (coerce_scalar expected v))
      | _ \<Rightarrow> Inl attribute_error)"
| "coerce_properties [] d = Inr d"
| "coerce_properties ((name, child) # ps) d =
     (case dict_get d name of
        None \<Rightarrow> coerce_properties ps d
      | Some x \<Rightarrow>
          (case child of
             JObj cs \<Rightarrow> (case coerce_value (JObj cs) x of
                          Inl e \<Rightarrow> Inl e | Inr y \<Rightarrow> coerce_properties ps (dict_set name y d))
           | _ \<Rightarrow> coerce_properties ps d))"
| "coerce_items schema [] = Inr []"
| "coerce_items schema (x # xs) =
     (case coerce_value schema x of
        Inl e \<Rightarrow> Inl e
      | Inr y \<Rightarrow> (case coerce_items schema xs of Inl e \<Rightarrow> Inl e | Inr ys \<Rightarrow> Inr (y # ys)))"
  by pat_completeness auto

termination
  by (relation "measures
        [\<lambda>p. case p of Inl (s, v) \<Rightarrow> size s | Inr (Inl (ps, d)) \<Rightarrow> size (JObj ps) | Inr (Inr (s, xs)) \<Rightarrow> size s,
         \<lambda>p. case p of Inl (s, v) \<Rightarrow> 0 | Inr (Inl (ps, d)) \<Rightarrow> 0 | Inr (Inr (s, xs)) \<Rightarrow> Suc (length xs)]")
    (auto dest: size_get_or_empty_less [OF sym, where k = "''properties''"]
       size_get_or_empty_less [OF sym, where k = "''items''"])

declare coerce_value.simps [simp del]

definition coerce_object :: "dict \<Rightarrow> dict \<Rightarrow> exn + dict" where
  "coerce_object schema d =
     (case get_or_empty schema ''properties'' of
        JObj ps \<Rightarrow> coerce_properties ps d | _ \<Rightarrow> Inl attribute_error)"

definition normalize_and_validate_arguments :: "(dict \<Rightarrow> dict \<Rightarrow> (string \<times> string) list) \<Rightarrow> dict \<Rightarrow> json \<Rightarrow> exn + dict" where
  "normalize_and_validate_arguments schema_errors schema arguments =
     (case arguments of
        JObj args \<Rightarrow>
          (case coerce_object schema args of
             Inl e \<Rightarrow> Inl e
           | Inr normalized \<Rightarrow>
               (case schema_errors schema normalized of
                  [] \<Rightarrow> Inr normalized
                | (message, path) # _ \<Rightarrow> Inl (ToolArgumentError ''INVALID_ARGUMENT'' message path)))
      | _ \<Rightarrow> Inl (ToolArgumentError ''INVALID_ARGUMENT'' ''tool arguments must be an object'' []))"

text \<open>\<open>str(exc)\<close> of an exception.\<close>

fun exn_str :: "exn \<Rightarrow> string" where
  "exn_str (ToolArgumentError code message path) =
     code @ (if path \<noteq> [] then '' at '' @ path else []) @ '': '' @ message"
| "exn_str (InvalidTransitionError m) = m"
| "exn_str (StaleRunError m) = m"
| "exn_str (GuardrailViolation m status) = m"
| "exn_str (ToolRuntimeError m code retryable) = m"
| "exn_str (IntegrityError m) = m"
| "exn_str MultipleResultsFound = ''Multiple rows were found when one or none was required''"
| "exn_str (HttpError code m) = m"
| "exn_str (LLMErr m) = m"
| "exn_str (PyError name m) = m"

section \<open>Truncation\<close>

lemma slice_head_tail:
  assumes "0 < h" and "2 * h \<le> int (length s)"
  shows "s = slice_to s h @ drop (nat h) (take (length s - nat h) s) @ slice_from s (- h)"
    and "length (slice_to s h) = nat h" and "length (slice_from s (- h)) = nat h"
proof -
  have n: "nat (int (length s) - h) = length s - nat h" using assms by simp
  show "length (slice_to s h) = nat h" "length (slice_from s (- h)) = nat h"
    using assms by (auto simp: slice_to_def slice_from_def)
  have "s = take (length s - nat h) s @ drop (length s - nat h) s" by simp
  also have "take (length s - nat h) s = take (nat h) s @ drop (nat h) (take (length s - nat h) s)"
  proof -
    have "min (nat h) (length s - nat h) = nat h" using assms by simp
    then have "take (nat h) (take (length s - nat h) s) = take (nat h) s" by (simp add: take_take)
    then show ?thesis by (metis append_take_drop_id)
  qed
  finally show "s = slice_to s h @ drop (nat h) (take (length s - nat h) s) @ slice_from s (- h)"
    using assms n by (simp add: slice_to_def slice_from_def)
qed

definition as_result :: "json \<Rightarrow> dict" where
  "as_result v = (case v of JObj d \<Rightarrow> d | _ \<Rightarrow> [(''value'', v)])"

text \<open>
  A result whose serialization fits is passed on unchanged; a longer one becomes a digest that
  names its length and holds a head and a tail of the serialization, of half the limit each, with
  the exact number of characters left out between them (limits of at least 2).
\<close>

theorem truncate_result_digest:
  assumes "2 \<le> max_chars"
  shows "if int (length (dumps (JObj (as_result v)))) \<le> max_chars
    then truncate_result dumps v max_chars = as_result v
    else \<exists>head mid tail. dumps (JObj (as_result v)) = head @ mid @ tail
      \<and> length head = nat (max_chars div 2) \<and> length tail = nat (max_chars div 2)
      \<and> truncate_result dumps v max_chars =
          [(''_truncated'', JBool True),
           (''_original_length'', JInt (int (length (dumps (JObj (as_result v)))))),
           (''content'', JStr (head @ ''...[truncated '' @ str_of_int (int (length mid)) @ '' chars]...'' @ tail))]"
proof (cases "int (length (dumps (JObj (as_result v)))) \<le> max_chars")
  case True
  then show ?thesis by (simp add: truncate_result_def as_result_def Let_def)
next
  case False
  let ?s = "dumps (JObj (as_result v))" and ?h = "max_chars div 2"
  let ?mid = "drop (nat ?h) (take (length ?s - nat ?h) ?s)"
  have h: "0 < ?h" "2 * ?h \<le> int (length ?s)" using assms False by auto
  note parts = slice_head_tail [OF h]
  have mid: "int (length ?mid) = int (length ?s) - int (nat ?h) - int (nat ?h)" using h by simp
  have "truncate_result dumps v max_chars =
      [(''_truncated'', JBool True), (''_original_length'', JInt (int (length ?s))),
       (''content'', JStr (slice_to ?s ?h @ ''...[truncated '' @ str_of_int (int (length ?mid))
          @ '' chars]...'' @ slice_from ?s (- ?h)))]"
    using False unfolding truncate_result_def as_result_def [symmetric] Let_def mid parts(2,3) by simp
  then show ?thesis
    unfolding if_not_P [OF False] using parts by (intro exI conjI)
qed

theorem truncate_result_witness:
  "\<exists>head mid tail. json_text (JObj [(''value'', JStr ''abcdefgh'')]) = head @ mid @ tail
     \<and> length head = 3 \<and> length tail = 3
     \<and> dict_get (truncate_result json_text (JStr ''abcdefgh'') 6) ''content'' =
         Some (JStr (head @ ''...[truncated '' @ str_of_int (int (length mid)) @ '' chars]...'' @ tail))"
proof -
  have long: "\<not> int (length (json_text (JObj (as_result (JStr ''abcdefgh''))))) \<le> 6"
    by (simp add: as_result_def)
  have two: "(2::int) \<le> 6" by simp
  from truncate_result_digest [OF two, of json_text "JStr ''abcdefgh''", unfolded if_not_P [OF long]]
  obtain head mid tail where ht: "json_text (JObj (as_result (JStr ''abcdefgh''))) = head @ mid @ tail"
    "length head = nat (6 div 2)" "length tail = nat (6 div 2)"
    "truncate_result json_text (JStr ''abcdefgh'') 6 =
       [(''_truncated'', JBool True),
        (''_original_length'', JInt (int (length (json_text (JObj (as_result (JStr ''abcdefgh''))))))),
        (''content'', JStr (head @ ''...[truncated '' @ str_of_int (int (length mid)) @ '' chars]...'' @ tail))]"
    by blast
  have "dict_get (truncate_result json_text (JStr ''abcdefgh'') 6) ''content'' =
         Some (JStr (head @ ''...[truncated '' @ str_of_int (int (length mid)) @ '' chars]...'' @ tail))"
    unfolding ht(4) by simp
  moreover have "as_result (JStr ''abcdefgh'') = [(''value'', JStr ''abcdefgh'')]"
    by (simp add: as_result_def)
  ultimately show ?thesis using ht(1-3) by (intro exI [of _ head] exI [of _ mid] exI [of _ tail]) simp
qed

lemma str_of_int_zero: "str_of_int 0 = ''0''"
  by code_simp

text \<open>
  A limit of 0 or 1 is accepted by the settings, and then nothing is cut: the tail slice
  \<open>serialized[-0:]\<close> is the whole text.
\<close>

lemma truncate_result_zero:
  assumes "0 \<le> max_chars" and "max_chars \<le> 1" and "max_chars < int (length (dumps (JObj (as_result v))))"
  shows "dict_get (truncate_result dumps v max_chars) ''content'' =
    Some (JStr (''...[truncated 0 chars]...'' @ dumps (JObj (as_result v))))"
proof -
  have "max_chars div 2 = 0" using assms by simp
  then show ?thesis
    using assms by (simp add: truncate_result_def as_result_def [symmetric] Let_def slice_to_def
        slice_from_def str_of_int_zero)
qed

section \<open>Coercion is idempotent\<close>

fun wf_json :: "json \<Rightarrow> bool" where
  "wf_json (JObj d) = (distinct (map fst d) \<and> list_all (\<lambda>p. wf_json (snd p)) d)"
| "wf_json (JList xs) = list_all wf_json xs"
| "wf_json _ = True"

lemma wf_json_dict_get: "wf_json (JObj d) \<Longrightarrow> dict_get d k = Some v \<Longrightarrow> wf_json v"
  by (auto simp: list_all_iff dest!: map_of_SomeD)

lemma wf_json_get_or_empty: "wf_json (JObj d) \<Longrightarrow> wf_json (get_or_empty d k)"
  by (auto simp: get_or_empty_def wf_json_dict_get simp del: wf_json.simps(1) split: option.splits)
    (simp add: wf_json_dict_get)+

lemma coerce_scalar_idem [simp]: "coerce_scalar e (coerce_scalar e v) = coerce_scalar e v"
  by (auto simp: coerce_scalar_def Let_def split: json.splits)

lemma coerce_scalar_kind:
  "(\<And>d. v \<noteq> JObj d) \<Longrightarrow> (\<And>xs. v \<noteq> JList xs) \<Longrightarrow>
     (\<forall>d. coerce_scalar e v \<noteq> JObj d) \<and> (\<forall>xs. coerce_scalar e v \<noteq> JList xs)"
  by (cases v) (auto simp: coerce_scalar_def Let_def)

lemma coerce_value_scalar:
  "(\<And>d. v \<noteq> JObj d) \<Longrightarrow> (\<And>xs. v \<noteq> JList xs) \<Longrightarrow>
     coerce_value (JObj s) v = Inr (coerce_scalar (dict_get s ''type'') v)"
  by (cases v) (auto simp: coerce_value.simps)

lemma coerce_value_scalar_idem:
  assumes "\<And>d. v \<noteq> JObj d" and "\<And>xs. v \<noteq> JList xs" and "coerce_value (JObj s) v = Inr w"
  shows "coerce_value (JObj s) w = Inr w"
proof -
  have "w = coerce_scalar (dict_get s ''type'') v" using assms coerce_value_scalar [of v s] by simp
  then show ?thesis
    using coerce_value_scalar [of w s] coerce_scalar_kind [OF assms(1,2)] by simp
qed

lemma coerce_properties_fixed:
  assumes "\<And>k cs x. (k, JObj cs) \<in> set ps \<Longrightarrow> dict_get d k = Some x \<Longrightarrow> coerce_value (JObj cs) x = Inr x"
  shows "coerce_properties ps d = Inr d"
  using assms
proof (induction ps)
  case (Cons p ps)
  obtain k c where p: "p = (k, c)" by (cases p)
  have "coerce_properties ps d = Inr d" using Cons by (metis list.set_intros(2))
  then show ?case
    using Cons.prems [of k] by (auto simp: p update_triv split: option.splits json.splits)
qed simp

text \<open>What coercing the properties of an object leaves under each name.\<close>

lemma coerce_properties_get:
  assumes "coerce_properties ps d = Inr d'" and "distinct (map fst ps)"
  shows "(k \<notin> fst ` set ps \<longrightarrow> dict_get d' k = dict_get d k) \<and>
    (\<forall>cs x'. (k, JObj cs) \<in> set ps \<longrightarrow> dict_get d' k = Some x' \<longrightarrow>
       (\<exists>x. dict_get d k = Some x \<and> coerce_value (JObj cs) x = Inr x'))"
  using assms
proof (induction ps arbitrary: d)
  case (Cons p ps)
  obtain k0 c where p: "p = (k0, c)" by (cases p)
  show ?case
  proof (cases "\<exists>cs x. c = JObj cs \<and> dict_get d k0 = Some x")
    case True
    then obtain cs x where c: "c = JObj cs" "dict_get d k0 = Some x" by blast
    then obtain y where y: "coerce_value (JObj cs) x = Inr y"
      "coerce_properties ps (dict_set k0 y d) = Inr d'"
      using Cons.prems by (auto simp: p split: sum.splits)
    show ?thesis
      using Cons.IH [OF y(2)] Cons.prems(2) y(1) c
      by (cases "k = k0") (force simp: p image_iff)+
  next
    case False
    then have "coerce_properties ps d = Inr d'"
      using Cons.prems by (auto simp: p split: option.splits json.splits)
    with Cons.IH [OF this] Cons.prems(2) False show ?thesis by (auto simp: p image_iff)
  qed
qed simp

lemma coerce_idem:
  "wf_json schema \<Longrightarrow> coerce_value schema v = Inr w \<Longrightarrow> coerce_value schema w = Inr w"
  "wf_json (JObj ps) \<Longrightarrow> coerce_properties ps d = Inr d' \<Longrightarrow>
     (\<forall>k cs x. (k, JObj cs) \<in> set ps \<longrightarrow> dict_get d k = Some x \<longrightarrow>
        (\<forall>y. coerce_value (JObj cs) x = Inr y \<longrightarrow> coerce_value (JObj cs) y = Inr y))"
  "wf_json schema \<Longrightarrow> coerce_items schema xs = Inr ys \<Longrightarrow> coerce_items schema ys = Inr ys"
proof (induction schema v and ps d and schema xs arbitrary: w and d' and ys
    rule: coerce_value_coerce_properties_coerce_items.induct)
  case (1 schema v)
  obtain s where s: "schema = JObj s"
    using "1.prems"(2) by (cases schema) (auto simp: coerce_value.simps)
  show ?case
  proof (cases v)
    case (JObj d)
    show ?thesis
    proof (cases "dict_get s ''type'' = Some (JStr ''object'')")
      case True
      then obtain ps d' where ps: "get_or_empty s ''properties'' = JObj ps"
        and d': "coerce_properties ps d = Inr d'" and w: "w = JObj d'"
        using "1.prems"(2) s JObj by (auto simp: coerce_value.simps split: json.splits sum.splits)
      have wf: "wf_json (JObj ps)" using wf_json_get_or_empty "1.prems"(1) s ps by metis
      note IH = "1.IH"(2) [OF s HOL.refl JObj True ps wf d'] and get = coerce_properties_get [OF d']
      have "coerce_properties ps d' = Inr d'"
        by (rule coerce_properties_fixed) (use get IH wf in fastforce)
      with True ps s w show ?thesis by (simp add: coerce_value.simps)
    next
      case False
      then have "w = v" using "1.prems"(2) s JObj by (simp add: coerce_value.simps)
      with False s JObj show ?thesis by (simp add: coerce_value.simps)
    qed
  next
    case (JList xs)
    show ?thesis
    proof (cases "dict_get s ''type'' = Some (JStr ''array'')")
      case True
      then obtain ys where ys: "coerce_items (get_or_empty s ''items'') xs = Inr ys" and w: "w = JList ys"
        using "1.prems"(2) s JList by (auto simp: coerce_value.simps split: sum.splits)
      have "wf_json (get_or_empty s ''items'')" using wf_json_get_or_empty "1.prems"(1) s by metis
      from "1.IH"(1) [OF s HOL.refl JList True this ys] True s w show ?thesis by (simp add: coerce_value.simps)
    next
      case False
      then have "w = v" using "1.prems"(2) s JList by (simp add: coerce_value.simps)
      with False s JList show ?thesis by (simp add: coerce_value.simps)
    qed
  qed (use "1.prems"(2) s coerce_value_scalar_idem [of v s w] in simp_all)
next
  case (2 d)
  then show ?case by simp
next
  case (3 name child ps d)
  have wf: "wf_json (JObj ps)" "wf_json child" and new: "name \<notin> fst ` set ps" using "3.prems"(1) by auto
  show ?case
  proof (intro allI impI)
    fix k cs x y
    assume k: "(k, JObj cs) \<in> set ((name, child) # ps)" "dict_get d k = Some x" "coerce_value (JObj cs) x = Inr y"
    show "coerce_value (JObj cs) y = Inr y"
    proof (cases "dict_get d name")
      case None
      then have "coerce_properties ps d = Inr d'" using "3.prems"(2) by simp
      moreover have "(k, JObj cs) \<in> set ps" using k None by auto
      ultimately show ?thesis using "3.IH"(1) [OF None wf(1)] k(2,3) by blast
    next
      case (Some z)
      show ?thesis
      proof (cases "\<exists>ds. child = JObj ds")
        case True
        then obtain ds where ds: "child = JObj ds" by blast
        then obtain z' where z': "coerce_value (JObj ds) z = Inr z'"
          "coerce_properties ps (dict_set name z' d) = Inr d'"
          using "3.prems"(2) Some by (auto split: sum.splits)
        show ?thesis
        proof (cases "k = name")
          case True
          then have "cs = ds" "x = z" using k new Some ds by (auto simp: image_iff)
          then show ?thesis using "3.IH"(8) [OF Some ds] wf(2) ds k(3) by simp
        next
          case False
          then have "(k, JObj cs) \<in> set ps" "dict_get (dict_set name z' d) k = Some x" using k by auto
          then show ?thesis using "3.IH"(9) [OF Some ds z'(1) wf(1) z'(2)] k(3) by blast
        qed
      next
        case False
        then have eq: "coerce_properties ps d = Inr d'"
          using "3.prems"(2) Some by (cases child) auto
        have mem: "(k, JObj cs) \<in> set ps" using k False by auto
        show ?thesis
        proof (cases child)
          case JNull
          show ?thesis using "3.IH"(2) [OF Some JNull wf(1) eq] mem k(2,3) by blast
        next
          case (JBool b)
          show ?thesis using "3.IH"(3) [OF Some JBool wf(1) eq] mem k(2,3) by blast
        next
          case (JInt n)
          show ?thesis using "3.IH"(4) [OF Some JInt wf(1) eq] mem k(2,3) by blast
        next
          case (JFloat r)
          show ?thesis using "3.IH"(5) [OF Some JFloat wf(1) eq] mem k(2,3) by blast
        next
          case (JStr t)
          show ?thesis using "3.IH"(6) [OF Some JStr wf(1) eq] mem k(2,3) by blast
        next
          case (JList xs)
          show ?thesis using "3.IH"(7) [OF Some JList wf(1) eq] mem k(2,3) by blast
        next
          case (JObj ds)
          with False show ?thesis by blast
        qed
      qed
    qed
  qed
next
  case (4 schema)
  then show ?case by simp
next
  case (5 schema x xs)
  then show ?case by (auto split: sum.splits)
qed

text \<open>
  Coercing the arguments of a call is idempotent: what passes validation is validated
  unchanged a second time (the schema being a JSON value, without duplicate keys).
\<close>

theorem normalize_arguments_idempotent:
  assumes "wf_json (JObj schema)"
    and "normalize_and_validate_arguments errors schema args = Inr normalized"
  shows "normalize_and_validate_arguments errors schema (JObj normalized) = Inr normalized"
proof -
  obtain a where a: "args = JObj a" "coerce_object schema a = Inr normalized" "errors schema normalized = []"
    using assms(2) by (auto simp: normalize_and_validate_arguments_def split: json.splits sum.splits list.splits)
  then obtain ps where ps: "get_or_empty schema ''properties'' = JObj ps"
    "coerce_properties ps a = Inr normalized"
    by (auto simp: coerce_object_def split: json.splits)
  have wf: "wf_json (JObj ps)" using wf_json_get_or_empty [OF assms(1)] ps(1) by metis
  have "coerce_properties ps normalized = Inr normalized"
    by (rule coerce_properties_fixed)
      (use coerce_properties_get [OF ps(2)] coerce_idem(2) [OF wf ps(2)] wf in fastforce)
  with a ps show ?thesis by (simp add: normalize_and_validate_arguments_def coerce_object_def)
qed

text \<open>A schema with an integer and an array of booleans, and arguments given as text.\<close>

definition sample_schema :: dict where
  "sample_schema = [(''type'', JStr ''object''),
     (''properties'', JObj [(''n'', JObj [(''type'', JStr ''integer'')]),
        (''flags'', JObj [(''type'', JStr ''array''), (''items'', JObj [(''type'', JStr ''boolean'')])])])]"

theorem normalize_arguments_witness:
  "normalize_and_validate_arguments (\<lambda>_ _. []) sample_schema
     (JObj [(''n'', JInt (-42)), (''flags'', JList [JBool True, JStr ''no''])]) =
   Inr [(''n'', JInt (-42)), (''flags'', JList [JBool True, JStr ''no''])]"
proof (rule normalize_arguments_idempotent)
  show "wf_json (JObj sample_schema)" by (simp add: sample_schema_def)
  show "normalize_and_validate_arguments (\<lambda>_ _. []) sample_schema
      (JObj [(''n'', JStr '' -42 ''), (''flags'', JList [JStr ''TRUE'', JStr ''no''])]) =
    Inr [(''n'', JInt (-42)), (''flags'', JList [JBool True, JStr ''no''])]"
    by code_simp
qed

end
