(* ===== verification/Guardrails.thy ===== *)
theory Guardrails
  imports Tools
begin

text \<open>
  harness/runtime/guardrails.py: the limits a run is checked against before a step and before a
  batch of calls, and the two loop detectors over the run's latest tool executions.
\<close>

definition REPEATED_CALL_WINDOW :: nat where
  "REPEATED_CALL_WINDOW = 3"

definition APPROVAL_REQUIRED_TIERS :: "risk_tier set" where
  "APPROVAL_REQUIRED_TIERS = {RT_sensitive_write, RT_destructive}"

definition requires_approval :: "risk_tier \<Rightarrow> bool" where
  "requires_approval tier \<longleftrightarrow> tier \<in> APPROVAL_REQUIRED_TIERS"

lemma requires_approval_iff: "requires_approval t \<longleftrightarrow> RT_sensitive_write \<le> t"
  by (cases t) (simp_all add: requires_approval_def APPROVAL_REQUIRED_TIERS_def less_eq_risk_tier_def)

lemma requires_approval_simps [simp]:
  "requires_approval RT_sensitive_write" "requires_approval RT_destructive"
  "\<not> requires_approval RT_read_only" "\<not> requires_approval RT_low_risk_write"
  by (simp_all add: requires_approval_def APPROVAL_REQUIRED_TIERS_def)

definition check_before_step :: "'w env \<Rightarrow> ('w, unit) op" where
  "check_before_step E =
     mbind (gets cur) (\<lambda>run.
       if run_cancel_requested run
       then raise (GuardrailViolation ''run was cancelled'' RS_cancelled)
       else if run_max_steps run \<le> run_current_step run
       then raise (GuardrailViolation (''exceeded max_steps ('' @ str_of_int (run_max_steps run) @ '')'') RS_timed_out)
       else mbind (now E) (\<lambda>t.
         if seconds (run_timeout_seconds run) < t - run_created_at run
         then raise (GuardrailViolation
                (''exceeded timeout_seconds ('' @ str_of_int (run_timeout_seconds run) @ '')'') RS_timed_out)
         else ret ()))"

definition token_budget_exceeded :: "agent_run \<Rightarrow> int \<Rightarrow> bool" where
  "token_budget_exceeded run tokens_used \<longleftrightarrow> run_token_budget run < tokens_used"

definition check_tool_call_budget :: "agent_run \<Rightarrow> int \<Rightarrow> ('w, unit) op" where
  "check_tool_call_budget run incoming_call_count =
     (if run_max_tool_calls run < run_tool_calls_used run + incoming_call_count
      then raise (GuardrailViolation
             (''exceeded max_tool_calls ('' @ str_of_int (run_max_tool_calls run) @ '')'') RS_timed_out)
      else ret ())"

text \<open>
  ORDER BY started_at DESC LIMIT n over the run's executions; rows with equal timestamps come
  latest inserted first.
\<close>

definition latest_executions :: "db \<Rightarrow> uuid \<Rightarrow> nat \<Rightarrow> tool_execution list" where
  "latest_executions d i n =
     take n (rev (sort_key ex_started_at (filter (\<lambda>e. ex_run_id e = i) (execs d))))"

text \<open>
  Python's \<open>==\<close> on JSON data: numbers by value whatever their type, \<open>True\<close> being 1, and
  objects whatever the order of their keys.
\<close>

fun num_of :: "json \<Rightarrow> rat option" where
  "num_of (JBool b) = Some (if b then 1 else 0)"
| "num_of (JInt i) = Some (of_int i)"
| "num_of (JFloat r) = Some r"
| "num_of _ = None"

function py_eq :: "json \<Rightarrow> json \<Rightarrow> bool" and py_eq_list :: "json list \<Rightarrow> json list \<Rightarrow> bool"
  and py_eq_items :: "dict \<Rightarrow> dict \<Rightarrow> bool" where
  "py_eq v w =
     (case v of
        JNull \<Rightarrow> w = JNull
      | JStr s \<Rightarrow> w = JStr s
      | JList xs \<Rightarrow> (case w of JList ys \<Rightarrow> py_eq_list xs ys | _ \<Rightarrow> False)
      | JObj d \<Rightarrow> (case w of JObj e \<Rightarrow> length d = length e \<and> py_eq_items d e | _ \<Rightarrow> False)
      | _ \<Rightarrow> num_of w = num_of v)"
| "py_eq_list [] ys = (ys = [])"
| "py_eq_list (x # xs) ys = (case ys of [] \<Rightarrow> False | y # zs \<Rightarrow> py_eq x y \<and> py_eq_list xs zs)"
| "py_eq_items [] e = True"
| "py_eq_items ((k, v) # d) e =
     ((case dict_get e k of None \<Rightarrow> False | Some w \<Rightarrow> py_eq v w) \<and> py_eq_items d e)"
  by pat_completeness auto

termination
  by (relation "measure (\<lambda>p. case p of Inl (v, w) \<Rightarrow> size v
      | Inr (Inl (xs, ys)) \<Rightarrow> size_list size xs
      | Inr (Inr (d, e)) \<Rightarrow> size_list (size_prod (\<lambda>x. 0) size) d)") auto

definition check_repeated_calls :: "uuid \<Rightarrow> string \<Rightarrow> json \<Rightarrow> nat \<Rightarrow> ('w, unit) op" where
  "check_repeated_calls i tool_name arguments window =
     mbind (gets rows) (\<lambda>d.
       let found = latest_executions d i (window - 1) in
       if length found < window - 1 then ret ()
       else if list_all (\<lambda>e. ex_tool_name e = tool_name \<and> py_eq (ex_args e) arguments) found
       then raise (GuardrailViolation
              (''tool '' @ str_repr tool_name @ '' called with identical arguments ''
               @ str_of_int (int window) @ '' times in a row'') RS_failed)
       else ret ())"

text \<open>The signature of an execution; two signatures are equal as Python tuples are.\<close>

definition error_class :: "tool_execution \<Rightarrow> string" where
  "error_class e = before_char (CHR '':'') (case ex_error e of None \<Rightarrow> [] | Some m \<Rightarrow> m)"

definition same_signature :: "tool_execution \<Rightarrow> tool_execution \<Rightarrow> bool" where
  "same_signature e f \<longleftrightarrow> ex_tool_name e = ex_tool_name f \<and> ex_status e = ex_status f
     \<and> error_class e = error_class f
     \<and> (case (ex_result e, ex_result f) of
           (None, None) \<Rightarrow> True | (Some a, Some b) \<Rightarrow> py_eq (JObj a) (JObj b) | _ \<Rightarrow> False)"

definition check_no_progress :: "uuid \<Rightarrow> nat \<Rightarrow> ('w, unit) op" where
  "check_no_progress i window =
     mbind (gets rows) (\<lambda>d.
       case latest_executions d i window of
         [] \<Rightarrow> ret ()
       | first # rest \<Rightarrow>
           if length (first # rest) < window then ret ()
           else if list_all (\<lambda>e. same_signature e first) rest
           then raise (GuardrailViolation
                  (''no progress after '' @ str_of_int (int window) @ '' calls to ''
                   @ str_repr (ex_tool_name first)) RS_failed)
           else ret ())"

section \<open>What the guardrails keep\<close>

text \<open>The guardrails read the database and may raise; they change nothing but the world's clock.\<close>

definition same_store :: "'w st \<Rightarrow> 'w st \<Rightarrow> bool" where
  "same_store s t \<longleftrightarrow> rows t = rows s \<and> durable t = durable s \<and> cur t = cur s \<and> invoked t = invoked s"

interpretation same_store: state_preorder same_store
  by unfold_locales (auto simp: same_store_def)

lemma check_before_step_store: "resp same_store (check_before_step E)"
  by (rule respI) (auto simp: check_before_step_def mbind_def same_store_def now_def split: prod.splits)

lemma check_before_step_cases:
  assumes "env_now E (world s) = (t, w)"
  shows "check_before_step E s =
    (let r = cur s in
     if run_cancel_requested r then (Inl (GuardrailViolation ''run was cancelled'' RS_cancelled), s)
     else if run_max_steps r \<le> run_current_step r
     then (Inl (GuardrailViolation (''exceeded max_steps ('' @ str_of_int (run_max_steps r) @ '')'') RS_timed_out), s)
     else if seconds (run_timeout_seconds r) < t - run_created_at r
     then (Inl (GuardrailViolation (''exceeded timeout_seconds ('' @ str_of_int (run_timeout_seconds r) @ '')'')
             RS_timed_out), s\<lparr>world := w\<rparr>)
     else (Inr (), s\<lparr>world := w\<rparr>))"
  by (simp add: check_before_step_def mbind_def now_def assms Let_def)

lemma check_before_step_ok:
  "check_before_step E s = (Inr (), s') \<Longrightarrow>
     \<not> run_cancel_requested (cur s) \<and> run_current_step (cur s) < run_max_steps (cur s)"
  by (auto simp: check_before_step_cases [OF surjective_pairing] Let_def split: if_splits)

lemma check_tool_call_budget_run:
  "check_tool_call_budget r n s =
     (if run_max_tool_calls r < run_tool_calls_used r + n
      then (Inl (GuardrailViolation (''exceeded max_tool_calls ('' @ str_of_int (run_max_tool_calls r) @ '')'')
              RS_timed_out), s)
      else (Inr (), s))"
  by (simp add: check_tool_call_budget_def)

lemma check_repeated_calls_store: "snd (check_repeated_calls i n a w s) = s"
  by (simp add: check_repeated_calls_def Let_def mbind_def)

lemma check_no_progress_store: "snd (check_no_progress i w s) = s"
  by (simp add: check_no_progress_def mbind_def split: list.splits)

lemma check_repeated_calls_raises:
  "check_repeated_calls i n a w s = (Inl e, s') \<Longrightarrow> \<exists>m. e = GuardrailViolation m RS_failed"
  by (auto simp: check_repeated_calls_def Let_def mbind_def split: if_splits)

lemma check_no_progress_raises:
  "check_no_progress i w s = (Inl e, s') \<Longrightarrow> \<exists>m. e = GuardrailViolation m RS_failed"
  by (auto simp: check_no_progress_def mbind_def split: if_splits list.splits)

end
