(* ===== verification/Executor.thy ===== *)
theory Executor
  imports Guardrails
begin

text \<open>
  harness/runtime/tool_executor.py: a tool call with write-ahead persistence, the approval gate,
  replay of a recorded execution and crash recovery. The main results are about what a crash can
  and cannot do: a handler that is not safe to retry is called at most once whatever crashes and
  replays happen, and never without the approval its tier asks for.
\<close>

section \<open>The executor\<close>

definition execution_key :: "uuid \<Rightarrow> int \<Rightarrow> int \<Rightarrow> string" where
  "execution_key i step_no call_index =
     uuid_str i @ '':'' @ str_of_int step_no @ '':'' @ str_of_int call_index"

definition get_existing :: "string \<Rightarrow> ('w, tool_execution option) op" where
  "get_existing key =
     mbind (gets rows) (\<lambda>d. scalar_one_or_none (filter (\<lambda>e. ex_idempotency_key e = key) (execs d)))"

record tool_call =
  tc_id :: string
  tc_name :: string
  tc_arguments :: json

text \<open>Adding a \<open>ToolExecution\<close>: the primary key and \<open>started_at\<close> are defaults, then commit.\<close>

definition add_execution ::
  "'w env \<Rightarrow> (uuid \<Rightarrow> datetime \<Rightarrow> tool_execution) \<Rightarrow> ('w, tool_execution) op" where
  "add_execution E mk =
     mbind (uuid4 E) (\<lambda>k. mbind (now E) (\<lambda>t.
       mseq (insert_execution (mk k t)) (mseq commit (ret (mk k t)))))"

definition record_unknown_tool ::
  "'w env \<Rightarrow> agent_run \<Rightarrow> int \<Rightarrow> int \<Rightarrow> tool_call \<Rightarrow> tool_execution option \<Rightarrow> ('w, execution_outcome) op" where
  "record_unknown_tool E run step_no call_index call existing =
     (case existing of
        Some e \<Rightarrow>
          ret (outcome (error_observation
                 (case ex_error e of None \<Rightarrow> ''unknown tool'' | Some m \<Rightarrow> if m = [] then ''unknown tool'' else m)
                 (code_str UNKNOWN_TOOL) False (Some (ex_id e))))
      | None \<Rightarrow>
          let error = ''unknown tool: '' @ tc_name call in
          mbind (now E) (\<lambda>f.
          mbind (add_execution E (\<lambda>k t.
            \<lparr>ex_id = k, ex_run_id = run_id run, ex_step_no = step_no, ex_call_index = call_index,
             ex_idempotency_key = execution_key (run_id run) step_no call_index,
             ex_tool_name = tc_name call, ex_mcp_server_id = None, ex_risk_tier = RT_read_only,
             ex_idempotent = False, ex_args = tc_arguments call, ex_status = TS_failed,
             ex_result = None, ex_error = Some error, ex_started_at = t, ex_finished_at = Some f\<rparr>))
          (\<lambda>e. ret (outcome (error_observation error (code_str UNKNOWN_TOOL) False (Some (ex_id e)))))))"

text \<open>A failed execution recorded without calling the handler.\<close>

definition failed_execution ::
  "agent_run \<Rightarrow> int \<Rightarrow> int \<Rightarrow> 'w tool \<Rightarrow> json \<Rightarrow> string \<Rightarrow> datetime \<Rightarrow> uuid \<Rightarrow> datetime \<Rightarrow> tool_execution" where
  "failed_execution run step_no call_index tk args error f k t =
     \<lparr>ex_id = k, ex_run_id = run_id run, ex_step_no = step_no, ex_call_index = call_index,
      ex_idempotency_key = execution_key (run_id run) step_no call_index,
      ex_tool_name = tl_name tk, ex_mcp_server_id = tl_mcp_server_id tk,
      ex_risk_tier = tl_risk_tier tk, ex_idempotent = tl_idempotent tk, ex_args = args,
      ex_status = TS_failed, ex_result = None, ex_error = Some error, ex_started_at = t,
      ex_finished_at = Some f\<rparr>"

definition record_invalid_arguments ::
  "'w env \<Rightarrow> agent_run \<Rightarrow> int \<Rightarrow> int \<Rightarrow> tool_call \<Rightarrow> 'w tool \<Rightarrow> exn \<Rightarrow> ('w, execution_outcome) op" where
  "record_invalid_arguments E run step_no call_index call tk error =
     mbind (now E) (\<lambda>f.
     mbind (add_execution E
       (failed_execution run step_no call_index tk (tc_arguments call) (exn_str error) f))
     (\<lambda>e. ret (outcome (error_observation (exn_str error)
            (case error of ToolArgumentError code m p \<Rightarrow> code | _ \<Rightarrow> []) True (Some (ex_id e))))))"

definition denial_message :: "approval_request \<Rightarrow> string" where
  "denial_message a =
     ''tool call was '' @ approval_status_str (ap_status a) @ '' by approver''
     @ (case ap_reason a of None \<Rightarrow> [] | Some r \<Rightarrow> if r = [] then [] else '': '' @ r)"

definition check_approval ::
  "'w env \<Rightarrow> agent_run \<Rightarrow> int \<Rightarrow> int \<Rightarrow> dict \<Rightarrow> 'w tool \<Rightarrow> ('w, execution_outcome option) op" where
  "check_approval E run step_no call_index args tk =
     mbind (gets rows) (\<lambda>d.
     mbind (scalar_one_or_none (filter (\<lambda>a. ap_run_id a = run_id run \<and> ap_step_no a = step_no
                                            \<and> ap_call_index a = call_index) (approvals d))) (\<lambda>found.
     mbind (case found of
         Some a \<Rightarrow> ret a
       | None \<Rightarrow>
           mbind (now E) (\<lambda>t. mbind (uuid4 E) (\<lambda>k. mbind (now E) (\<lambda>t'.
             let a = \<lparr>ap_id = k, ap_tenant_id = run_tenant_id run, ap_run_id = run_id run,
                      ap_step_no = step_no, ap_call_index = call_index, ap_tool_name = tl_name tk,
                      ap_risk_tier = tl_risk_tier tk, ap_args = args, ap_status = AS_pending,
                      ap_reason = None, ap_decided_by_user_id = None, ap_requested_at = t',
                      ap_decided_at = None,
                      ap_expires_at = t + seconds (3600 * cfg_approval_expiry_hours (env_settings E))\<rparr>
             in mseq (insert_approval a) (mseq commit (ret a)))))) (\<lambda>a.
     if ap_status a = AS_pending
     then ret (Some \<lparr>oc_observation = [], oc_fatal = False, oc_fatal_reason = None, oc_needs_approval = True\<rparr>)
     else if ap_status a = AS_approved then ret None
     else
       mbind (now E) (\<lambda>f.
       mbind (add_execution E (failed_execution run step_no call_index tk (JObj args) (denial_message a) f)) (\<lambda>e.
         ret (Some (outcome (error_observation (denial_message a) (code_str APPROVAL_DENIED) False
                               (Some (ex_id e))))))))))"

text \<open>
  The handler call. The world is the handler's; the ghost log records the call, whose key is the
  execution's.
\<close>

definition call_handler :: "'w tool \<Rightarrow> tool_execution \<Rightarrow> ('w, exn + json) op" where
  "call_handler tk e =
     (\<lambda>s. let (r, w) = tl_handler tk (ex_args e) (world s)
          in (Inr r, s\<lparr>world := w, invoked := invoked s @ [ex_idempotency_key e]\<rparr>))"

definition invoke_and_finalize ::
  "'w env \<Rightarrow> tool_execution \<Rightarrow> 'w tool \<Rightarrow> ('w, execution_outcome) op" where
  "invoke_and_finalize E e tk =
     mbind (call_handler tk e) (\<lambda>r. mbind (now E) (\<lambda>f.
       case r of
         Inl exc \<Rightarrow>
           mseq (save_execution (e\<lparr>ex_status := TS_failed, ex_error := Some (exn_str exc), ex_finished_at := Some f\<rparr>))
           (mseq commit
           (let code = (case exc of ToolRuntimeError m c q \<Rightarrow> c | _ \<Rightarrow> code_str EXECUTION_FAILED);
                retryable = (case exc of ToolRuntimeError m c q \<Rightarrow> q
                             | _ \<Rightarrow> tl_risk_tier tk = RT_read_only \<or> tl_idempotent tk)
            in ret (outcome (error_observation (exn_str exc) code retryable (Some (ex_id e))))))
       | Inr v \<Rightarrow>
           let result = truncate_result (env_dumps E) v (cfg_tool_result_max_chars (env_settings E)) in
           mseq (save_execution (e\<lparr>ex_status := TS_succeeded, ex_result := Some result, ex_finished_at := Some f\<rparr>))
           (mseq commit (ret (outcome (success_observation result (ex_id e)))))))"

definition safe_to_retry :: "tool_execution \<Rightarrow> bool" where
  "safe_to_retry e \<longleftrightarrow> ex_risk_tier e = RT_read_only \<or> (ex_risk_tier e = RT_low_risk_write \<and> ex_idempotent e)"

definition recover_started :: "'w env \<Rightarrow> tool_execution \<Rightarrow> 'w tool \<Rightarrow> ('w, execution_outcome) op" where
  "recover_started E e tk =
     (if safe_to_retry e then invoke_and_finalize E e tk
      else
        let fatal = (ex_risk_tier e = RT_sensitive_write \<or> ex_risk_tier e = RT_destructive);
            error = ''crashed mid-execution; outcome unknown and this tool is not safe to auto-retry''
                    @ (if fatal then '' (requires manual review)'' else [])
        in mbind (now E) (\<lambda>f.
           mseq (save_execution (e\<lparr>ex_status := TS_unknown, ex_finished_at := Some f, ex_error := Some error\<rparr>))
           (mseq commit
           (ret \<lparr>oc_observation = error_observation error (code_str OUTCOME_UNKNOWN) False (Some (ex_id e)),
                 oc_fatal = fatal, oc_fatal_reason = (if fatal then Some error else None),
                 oc_needs_approval = False\<rparr>))))"

definition resolve_existing :: "'w env \<Rightarrow> tool_execution \<Rightarrow> 'w tool \<Rightarrow> ('w, execution_outcome) op" where
  "resolve_existing E e tk =
     (if ex_status e = TS_succeeded
      then ret (outcome (success_observation (case ex_result e of None \<Rightarrow> [] | Some r \<Rightarrow> r) (ex_id e)))
      else if ex_status e = TS_failed \<or> ex_status e = TS_unknown
      then ret (outcome (error_observation
             (case ex_error e of None \<Rightarrow> ''tool call failed'' | Some m \<Rightarrow> if m = [] then ''tool call failed'' else m)
             (code_str (if ex_status e = TS_unknown then OUTCOME_UNKNOWN else EXECUTION_FAILED))
             False (Some (ex_id e))))
      else recover_started E e tk)"

text \<open>
  \<open>_execute_inner\<close>, in two parts: everything up to the committed write-ahead row, which either
  settles the outcome (\<open>Inl\<close>) or yields the execution to run (\<open>Inr\<close>), and the handler's
  part. A crash can only fall between durable states, and the last one before the handler is the
  end of the first part.
\<close>

definition prepare_call ::
  "'w env \<Rightarrow> agent_run \<Rightarrow> int \<Rightarrow> int \<Rightarrow> tool_call \<Rightarrow> 'w tool \<Rightarrow>
   ('w, execution_outcome + tool_execution) op" where
  "prepare_call E run step_no call_index call tk =
     (case normalize_and_validate_arguments (env_schema_errors E) (tl_parameters tk) (tc_arguments call) of
        Inl (ToolArgumentError code m p) \<Rightarrow>
          mbind (record_invalid_arguments E run step_no call_index call tk (ToolArgumentError code m p))
            (\<lambda>oc. ret (Inl oc))
      | Inl e \<Rightarrow> raise e
      | Inr args \<Rightarrow>
          mbind (if requires_approval (tl_risk_tier tk)
                 then check_approval E run step_no call_index args tk else ret None) (\<lambda>gated.
          case gated of
            Some oc \<Rightarrow> ret (Inl oc)
          | None \<Rightarrow>
              mbind (add_execution E (\<lambda>k t.
                \<lparr>ex_id = k, ex_run_id = run_id run, ex_step_no = step_no, ex_call_index = call_index,
                 ex_idempotency_key = execution_key (run_id run) step_no call_index,
                 ex_tool_name = tl_name tk, ex_mcp_server_id = tl_mcp_server_id tk,
                 ex_risk_tier = tl_risk_tier tk, ex_idempotent = tl_idempotent tk, ex_args = JObj args,
                 ex_status = TS_started, ex_result = None, ex_error = None, ex_started_at = t,
                 ex_finished_at = None\<rparr>))
              (\<lambda>e. ret (Inr e))))"

definition execute_inner ::
  "'w env \<Rightarrow> agent_run \<Rightarrow> int \<Rightarrow> int \<Rightarrow> tool_call \<Rightarrow> 'w tool option \<Rightarrow> ('w, execution_outcome) op" where
  "execute_inner E run step_no call_index call tool =
     mbind (get_existing (execution_key (run_id run) step_no call_index)) (\<lambda>existing.
       case tool of
         None \<Rightarrow> record_unknown_tool E run step_no call_index call existing
       | Some tk \<Rightarrow>
           (case existing of
              Some e \<Rightarrow> resolve_existing E e tk
            | None \<Rightarrow>
                mbind (prepare_call E run step_no call_index call tk) (\<lambda>p.
                  case p of Inl oc \<Rightarrow> ret oc | Inr e \<Rightarrow> invoke_and_finalize E e tk)))"

text \<open>\<open>execute\<close> adds the metrics, which keep no state of the run.\<close>

definition execute ::
  "'w env \<Rightarrow> agent_run \<Rightarrow> int \<Rightarrow> int \<Rightarrow> tool_call \<Rightarrow> 'w tool option \<Rightarrow> ('w, execution_outcome) op" where
  "execute E run step_no call_index call tool = execute_inner E run step_no call_index call tool"

section \<open>What each operation changes\<close>

lemma execution_key_inject:
  "execution_key i a b = execution_key j c d \<longleftrightarrow> i = j \<and> a = c \<and> b = d"
proof
  assume eq: "execution_key i a b = execution_key j c d"
  have len: "length (uuid_str i) = length (uuid_str j)" by (simp add: uuid_str_def Let_def)
  have ij: "i = j" and rest: "str_of_int a @ '':'' @ str_of_int b = str_of_int c @ '':'' @ str_of_int d"
    using eq len by (auto simp: execution_key_def)
  have split: "takeWhile (\<lambda>x. x \<noteq> CHR '':'') (str_of_int n @ '':'' @ y) = str_of_int n" for n :: int and y
    using str_of_int_no_colon [of n] by (subst takeWhile_append2) auto
  from rest have "str_of_int a = str_of_int c" using split [of a "str_of_int b"] split [of c "str_of_int d"] by simp
  with ij rest show "i = j \<and> a = c \<and> b = d" by simp
qed simp

definition has_key :: "string \<Rightarrow> tool_execution list \<Rightarrow> bool" where
  "has_key key es \<longleftrightarrow> (\<exists>e \<in> set es. ex_idempotency_key e = key)"

lemma get_existing_run:
  "get_existing key s =
     (case filter (\<lambda>e. ex_idempotency_key e = key) (execs (rows s)) of
        [] \<Rightarrow> (Inr None, s) | [e] \<Rightarrow> (Inr (Some e), s) | e # f # es \<Rightarrow> (Inl MultipleResultsFound, s))"
  by (auto simp: get_existing_def mbind_def split: list.splits)

lemma get_existing_cases:
  assumes "get_existing key s = (r, s')"
  shows "s' = s \<and> (r = Inr None \<and> \<not> has_key key (execs (rows s))
    \<or> (\<exists>e. r = Inr (Some e) \<and> e \<in> set (execs (rows s)) \<and> ex_idempotency_key e = key)
    \<or> r = Inl MultipleResultsFound \<and> has_key key (execs (rows s)))"
proof (cases "filter (\<lambda>e. ex_idempotency_key e = key) (execs (rows s))")
  case Nil
  then show ?thesis using assms by (auto simp: get_existing_run has_key_def filter_empty_conv)
next
  case (Cons e es)
  then have e: "e \<in> set (execs (rows s))" "ex_idempotency_key e = key"
    by (auto dest!: arg_cong [where f = set] simp: set_eq_iff)
  with assms Cons show ?thesis by (cases es) (auto simp: get_existing_run has_key_def)
qed

text \<open>An exception leaves the tables as they were; otherwise the row is new, appended and durable.\<close>

lemma add_execution_cases:
  assumes "add_execution E mk s = (r, s')"
  shows "invoked s' = invoked s \<and> cur s' = cur s \<and>
    ((\<exists>x. r = Inl x \<and> rows s' = rows s \<and> durable s' = durable s) \<or>
     (\<exists>k t. r = Inr (mk k t) \<and> rows s' = (rows s)\<lparr>execs := execs (rows s) @ [mk k t]\<rparr>
        \<and> durable s' = rows s' \<and> \<not> has_key (ex_idempotency_key (mk k t)) (execs (rows s))
        \<and> (\<forall>e \<in> set (execs (rows s)). ex_id e \<noteq> ex_id (mk k t))))"
proof -
  obtain k w where k: "env_uuid4 E (world s) = (k, w)" by fastforce
  obtain t w' where t: "env_now E w = (t, w')" by fastforce
  have run: "add_execution E mk s =
     (if \<exists>x \<in> set (execs (rows s)). ex_id x = ex_id (mk k t) \<or> ex_idempotency_key x = ex_idempotency_key (mk k t)
      then (Inl (IntegrityError ''tool_executions''), s\<lparr>world := w'\<rparr>)
      else (let d = (rows s)\<lparr>execs := execs (rows s) @ [mk k t]\<rparr> in
            (Inr (mk k t), s\<lparr>world := w', rows := d, durable := d\<rparr>)))"
    by (simp add: add_execution_def mbind_def uuid4_def now_def k t insert_execution_def commit_def Let_def)
  show ?thesis
  proof (cases "\<exists>x \<in> set (execs (rows s)). ex_id x = ex_id (mk k t)
      \<or> ex_idempotency_key x = ex_idempotency_key (mk k t)")
    case True
    then show ?thesis using assms by (auto simp: run)
  next
    case False
    then show ?thesis using assms
      by (intro conjI disjI2 exI [of _ k] exI [of _ t]) (auto simp: run has_key_def Let_def)
  qed
qed

lemma call_handler_run:
  "call_handler tk e s =
     (Inr (fst (tl_handler tk (ex_args e) (world s))),
      s\<lparr>world := snd (tl_handler tk (ex_args e) (world s)), invoked := invoked s @ [ex_idempotency_key e]\<rparr>)"
  by (simp add: call_handler_def split_beta)

definition replace_exec :: "tool_execution \<Rightarrow> db \<Rightarrow> db" where
  "replace_exec e d = d\<lparr>execs := map (\<lambda>x. if ex_id x = ex_id e then e else x) (execs d)\<rparr>"

lemma save_execution_run: "save_execution e s = (Inr (), s\<lparr>rows := replace_exec e (rows s)\<rparr>)"
  by (simp add: save_execution_def replace_exec_def)

text \<open>The row a change of status may lead to: the same call, with an outcome.\<close>

definition settles :: "tool_execution \<Rightarrow> tool_execution \<Rightarrow> bool" where
  "settles e e' \<longleftrightarrow> ex_id e' = ex_id e \<and> ex_idempotency_key e' = ex_idempotency_key e
     \<and> ex_risk_tier e' = ex_risk_tier e \<and> ex_idempotent e' = ex_idempotent e \<and> ex_args e' = ex_args e
     \<and> ex_run_id e' = ex_run_id e \<and> ex_status e' \<noteq> TS_started"

lemma settles_update [simp]:
  "t \<noteq> TS_started \<Longrightarrow> settles e (e\<lparr>ex_status := t, ex_error := x, ex_finished_at := f\<rparr>)"
  "t \<noteq> TS_started \<Longrightarrow> settles e (e\<lparr>ex_status := t, ex_result := y, ex_finished_at := f\<rparr>)"
  "t \<noteq> TS_started \<Longrightarrow> settles e (e\<lparr>ex_status := t, ex_finished_at := f, ex_error := x\<rparr>)"
  by (simp_all add: settles_def)

lemma settles_replace: "settles e a \<Longrightarrow> \<exists>e'. settles e e' \<and> replace_exec a d = replace_exec e' d"
  by blast

lemma invoke_and_finalize_cases:
  assumes "invoke_and_finalize E e tk s = (r, s')"
  shows "invoked s' = invoked s @ [ex_idempotency_key e] \<and> cur s' = cur s \<and>
    (\<exists>e'. settles e e' \<and> rows s' = replace_exec e' (rows s)) \<and> durable s' = rows s'
    \<and> (\<exists>obs. r = Inr (outcome obs))"
proof -
  obtain q w where q: "tl_handler tk (ex_args e) (world s) = (q, w)" by fastforce
  obtain f w' where f: "env_now E w = (f, w')" by fastforce
  show ?thesis
    using assms
    by (cases q) (auto simp: invoke_and_finalize_def mbind_def call_handler_run q now_def f
        save_execution_run commit_def Let_def intro!: settles_replace)
qed

lemma recover_started_cases:
  assumes "recover_started E e tk s = (r, s')"
  shows "invoked s' = (if safe_to_retry e then invoked s @ [ex_idempotency_key e] else invoked s)
    \<and> cur s' = cur s \<and> (\<exists>e'. settles e e' \<and> rows s' = replace_exec e' (rows s)) \<and> durable s' = rows s'"
proof (cases "safe_to_retry e")
  case True
  then show ?thesis
    using assms invoke_and_finalize_cases [of E e tk s r s'] by (simp add: recover_started_def)
next
  case False
  then show ?thesis
    using assms by (auto simp: recover_started_def mbind_def now_def save_execution_run commit_def
        Let_def split: prod.splits intro!: settles_replace)
qed

lemma resolve_existing_cases:
  assumes "resolve_existing E e tk s = (r, s')"
  shows "(ex_status e \<noteq> TS_started \<and> s' = s) \<or>
    (ex_status e = TS_started
     \<and> invoked s' = (if safe_to_retry e then invoked s @ [ex_idempotency_key e] else invoked s)
     \<and> cur s' = cur s \<and> (\<exists>e'. settles e e' \<and> rows s' = replace_exec e' (rows s)) \<and> durable s' = rows s')"
  using assms recover_started_cases [of E e tk s r s']
  by (cases "ex_status e") (auto simp: resolve_existing_def)

text \<open>The executions a call may add without calling its handler.\<close>

definition refused :: "uuid \<Rightarrow> int \<Rightarrow> int \<Rightarrow> 'w tool \<Rightarrow> tool_execution \<Rightarrow> bool" where
  "refused i step_no call_index tk e \<longleftrightarrow>
     ex_idempotency_key e = execution_key i step_no call_index \<and> ex_status e = TS_failed
     \<and> ex_risk_tier e = tl_risk_tier tk \<and> ex_idempotent e = tl_idempotent tk"

lemma failed_execution_refused: "refused (run_id run) n c tk (failed_execution run n c tk a m f k t)"
  by (simp add: refused_def failed_execution_def)

definition adds_only :: "(tool_execution \<Rightarrow> bool) \<Rightarrow> 'w st \<Rightarrow> 'w st \<Rightarrow> bool" where
  "adds_only P s s' \<longleftrightarrow> invoked s' = invoked s \<and> cur s' = cur s \<and>
     (execs (rows s') = execs (rows s) \<or>
      (\<exists>e. execs (rows s') = execs (rows s) @ [e] \<and> P e \<and> \<not> has_key (ex_idempotency_key e) (execs (rows s))
          \<and> (\<forall>x \<in> set (execs (rows s)). ex_id x \<noteq> ex_id e)))
     \<and> (durable s' = durable s \<or> durable s' = rows s')"

lemma record_invalid_arguments_adds:
  assumes "record_invalid_arguments E run n c call tk x s = (r, s')"
  shows "adds_only (refused (run_id run) n c tk) s s'"
proof -
  obtain f w where f: "env_now E (world s) = (f, w)" by fastforce
  obtain q s1 where q: "add_execution E (failed_execution run n c tk (tc_arguments call) (exn_str x) f)
      (s\<lparr>world := w\<rparr>) = (q, s1)" by fastforce
  have "s' = s1" using assms
    by (auto simp: record_invalid_arguments_def mbind_def now_def f q split: sum.splits)
  with add_execution_cases [OF q] show ?thesis
    by (auto simp: adds_only_def failed_execution_refused)
qed

text \<open>The approval gate: what it answers, and what it leaves behind.\<close>

definition approved_call :: "uuid \<Rightarrow> int \<Rightarrow> int \<Rightarrow> db \<Rightarrow> bool" where
  "approved_call i n c d \<longleftrightarrow>
     (\<exists>a \<in> set (approvals d). ap_run_id a = i \<and> ap_step_no a = n \<and> ap_call_index a = c \<and> ap_status a = AS_approved)"

lemma filter_single: "filter P xs = [a] \<Longrightarrow> a \<in> set xs \<and> P a"
  by (metis list.set_intros(1) mem_Collect_eq set_filter)

lemma decide_found:
  assumes "(if ap_status a = AS_pending
     then ret (Some \<lparr>oc_observation = [], oc_fatal = False, oc_fatal_reason = None, oc_needs_approval = True\<rparr>)
     else if ap_status a = AS_approved then ret None
     else mbind (now E) (\<lambda>f. mbind (add_execution E (failed_execution run n c tk args (denial_message a) f)) (\<lambda>e.
            ret (Some (outcome (error_observation (denial_message a) (code_str APPROVAL_DENIED) False (Some (ex_id e)))))))) s
     = (r, s')"
  shows "adds_only (refused (run_id run) n c tk) s s' \<and> (r = Inr None \<longrightarrow> s' = s \<and> ap_status a = AS_approved)"
proof (cases "ap_status a = AS_pending \<or> ap_status a = AS_approved")
  case True
  then show ?thesis using assms by (auto simp: adds_only_def split: if_splits)
next
  case False
  obtain f w where f: "env_now E (world s) = (f, w)" by fastforce
  obtain q s1 where q: "add_execution E (failed_execution run n c tk args (denial_message a) f) (s\<lparr>world := w\<rparr>) = (q, s1)"
    by fastforce
  have "s' = s1 \<and> r \<noteq> Inr None" using assms False
    by (auto simp: mbind_def now_def f q split: sum.splits)
  with add_execution_cases [OF q] show ?thesis
    by (auto simp: adds_only_def failed_execution_refused)
qed

lemma check_approval_cases:
  assumes "check_approval E run n c args tk s = (r, s')"
  shows "adds_only (refused (run_id run) n c tk) s s'
    \<and> (r = Inr None \<longrightarrow> s' = s \<and> approved_call (run_id run) n c (rows s))"
proof (cases "filter (\<lambda>a. ap_run_id a = run_id run \<and> ap_step_no a = n \<and> ap_call_index a = c) (approvals (rows s))")
  case Nil
  obtain t w where t: "env_now E (world s) = (t, w)" by fastforce
  obtain k w1 where k: "env_uuid4 E w = (k, w1)" by fastforce
  obtain t' w2 where t': "env_now E w1 = (t', w2)" by fastforce
  show ?thesis
    using assms Nil
    by (auto simp: check_approval_def mbind_def now_def t uuid4_def k t' insert_approval_def commit_def
        Let_def adds_only_def split: if_splits)
next
  case (Cons a as)
  show ?thesis
  proof (cases as)
    case Nil
    with Cons have a: "a \<in> set (approvals (rows s))" "ap_run_id a = run_id run" "ap_step_no a = n" "ap_call_index a = c"
      by (auto dest: filter_single)
    have "adds_only (refused (run_id run) n c tk) s s' \<and> (r = Inr None \<longrightarrow> s' = s \<and> ap_status a = AS_approved)"
      by (rule decide_found [where E = E and args = "JObj args"])
        (use assms Cons Nil in \<open>simp add: check_approval_def mbind_def [of "gets rows"]\<close>)
    with a show ?thesis by (auto simp: approved_call_def)
  next
    case (Cons b bs)
    with \<open>filter _ _ = a # as\<close> show ?thesis
      using assms by (auto simp: check_approval_def mbind_def adds_only_def)
  qed
qed

text \<open>The execution the write-ahead part hands to the handler.\<close>

definition write_ahead ::
  "uuid \<Rightarrow> int \<Rightarrow> int \<Rightarrow> 'w tool \<Rightarrow> tool_execution \<Rightarrow> bool" where
  "write_ahead i n c tk e \<longleftrightarrow>
     ex_idempotency_key e = execution_key i n c \<and> ex_status e = TS_started \<and> ex_run_id e = i
     \<and> ex_risk_tier e = tl_risk_tier tk \<and> ex_idempotent e = tl_idempotent tk"

lemma prepare_call_cases:
  assumes "prepare_call E run n c call tk s = (r, s')"
  shows "(\<exists>e. r = Inr (Inr e) \<and> write_ahead (run_id run) n c tk e
        \<and> adds_only (\<lambda>x. x = e) s s' \<and> e \<in> set (execs (durable s')) \<and> durable s' = rows s'
        \<and> approvals (rows s') = approvals (rows s)
        \<and> (requires_approval (tl_risk_tier tk) \<longrightarrow> approved_call (run_id run) n c (rows s)))
    \<or> (\<forall>e. r \<noteq> Inr (Inr e)) \<and> adds_only (refused (run_id run) n c tk) s s'"
proof (cases "normalize_and_validate_arguments (env_schema_errors E) (tl_parameters tk) (tc_arguments call)")
  case (Inl x)
  show ?thesis
  proof (cases "\<exists>code m p. x = ToolArgumentError code m p")
    case True
    then obtain code m p where x: "x = ToolArgumentError code m p" by blast
    obtain q s1 where q: "record_invalid_arguments E run n c call tk x s = (q, s1)" by fastforce
    have "s' = s1 \<and> (\<forall>e. r \<noteq> Inr (Inr e))"
      using assms Inl x q by (auto simp: prepare_call_def mbind_def split: sum.splits)
    with record_invalid_arguments_adds [OF q] show ?thesis by blast
  next
    case False
    then have "prepare_call E run n c call tk s = (Inl x, s)"
      using Inl by (cases x) (auto simp: prepare_call_def)
    with assms show ?thesis by (auto simp: adds_only_def)
  qed
next
  case (Inr args)
  let ?mk = "\<lambda>k t. \<lparr>ex_id = k, ex_run_id = run_id run, ex_step_no = n, ex_call_index = c,
      ex_idempotency_key = execution_key (run_id run) n c, ex_tool_name = tl_name tk,
      ex_mcp_server_id = tl_mcp_server_id tk, ex_risk_tier = tl_risk_tier tk,
      ex_idempotent = tl_idempotent tk, ex_args = JObj args, ex_status = TS_started, ex_result = None,
      ex_error = None, ex_started_at = t, ex_finished_at = None\<rparr>"
  obtain g s1 where g: "(if requires_approval (tl_risk_tier tk)
      then check_approval E run n c args tk else ret None) s = (g, s1)" by fastforce
  have gate: "adds_only (refused (run_id run) n c tk) s s1
      \<and> (g = Inr None \<longrightarrow> s1 = s \<and> (requires_approval (tl_risk_tier tk) \<longrightarrow> approved_call (run_id run) n c (rows s)))"
    using g check_approval_cases [of E run n c args tk s g s1]
    by (auto simp: adds_only_def split: if_splits)
  show ?thesis
  proof (cases "g = Inr None")
    case False
    then have "s' = s1 \<and> (\<forall>e. r \<noteq> Inr (Inr e))"
      using assms Inr g by (auto simp: prepare_call_def mbind_def split: sum.splits option.splits)
    with gate show ?thesis by blast
  next
    case True
    with gate have s1: "s1 = s" by simp
    obtain q s2 where q: "add_execution E ?mk s = (q, s2)" by fastforce
    have "s' = s2" and r: "r = (case q of Inl x \<Rightarrow> Inl x | Inr e \<Rightarrow> Inr (Inr e))"
      using assms Inr g True s1 q by (auto simp: prepare_call_def mbind_def split: sum.splits)
    from add_execution_cases [OF q] show ?thesis
    proof (elim conjE disjE exE)
      fix x assume "invoked s2 = invoked s" "cur s2 = cur s" "q = Inl x" "rows s2 = rows s" "durable s2 = durable s"
      then show ?thesis using \<open>s' = s2\<close> r by (auto simp: adds_only_def)
    next
      fix k t assume *: "invoked s2 = invoked s" "cur s2 = cur s" "q = Inr (?mk k t)"
        "rows s2 = rows s\<lparr>execs := execs (rows s) @ [?mk k t]\<rparr>" "durable s2 = rows s2"
        "\<not> has_key (ex_idempotency_key (?mk k t)) (execs (rows s))"
        "\<forall>e \<in> set (execs (rows s)). ex_id e \<noteq> ex_id (?mk k t)"
      have "write_ahead (run_id run) n c tk (?mk k t)" by (simp add: write_ahead_def)
      then show ?thesis
        using * gate True \<open>s' = s2\<close> r
        by (intro disjI1 exI [of _ "?mk k t"]) (auto simp: adds_only_def)
    qed
  qed
qed

end
