(* ===== verification/Recovery.thy ===== *)
theory Recovery
  imports Executor
begin

text \<open>
  What the executor guarantees across crashes and replays. An attempt at a call is a whole run of
  \<open>execute\<close>, a run cut by a crash at one of the points where the durable state differs, or
  anything the rest of the program does meanwhile to other rows; a sequence of attempts is the
  life of one tool call.
\<close>

section \<open>Attempts\<close>

definition key_rows :: "string \<Rightarrow> db \<Rightarrow> tool_execution list" where
  "key_rows key d = filter (\<lambda>e. ex_idempotency_key e = key) (execs d)"

definition times_invoked :: "string \<Rightarrow> 'w st \<Rightarrow> nat" where
  "times_invoked key s = length (filter (\<lambda>k. k = key) (invoked s))"

inductive attempt_call ::
  "'w env \<Rightarrow> uuid \<Rightarrow> int \<Rightarrow> int \<Rightarrow> 'w tool \<Rightarrow> 'w st \<Rightarrow> 'w st \<Rightarrow> bool"
  for E i n c tk where
  whole: "run_id run = i \<Longrightarrow> execute E run n c call (Some tk) s = (r, s') \<Longrightarrow> attempt_call E i n c tk s s'"
| crash_idle: "attempt_call E i n c tk s (crash s)"
| crash_prepared: "run_id run = i \<Longrightarrow> get_existing (execution_key i n c) s = (Inr None, s) \<Longrightarrow>
    prepare_call E run n c call tk s = (Inr (Inr e), s1) \<Longrightarrow> attempt_call E i n c tk s (crash s1)"
| crash_handling: "run_id run = i \<Longrightarrow> get_existing (execution_key i n c) s = (Inr None, s) \<Longrightarrow>
    prepare_call E run n c call tk s = (Inr (Inr e), s1) \<Longrightarrow> call_handler tk e s1 = (r, s2) \<Longrightarrow>
    attempt_call E i n c tk s (crash s2)"
| crash_recovering: "get_existing (execution_key i n c) s = (Inr (Some e), s) \<Longrightarrow>
    ex_status e = TS_started \<Longrightarrow> safe_to_retry e \<Longrightarrow> call_handler tk e s = (r, s2) \<Longrightarrow>
    attempt_call E i n c tk s (crash s2)"
| elsewhere: "key_rows (execution_key i n c) (rows s') = key_rows (execution_key i n c) (rows s) \<Longrightarrow>
    key_rows (execution_key i n c) (durable s') = key_rows (execution_key i n c) (durable s)
      \<or> key_rows (execution_key i n c) (durable s') = key_rows (execution_key i n c) (rows s') \<Longrightarrow>
    times_invoked (execution_key i n c) s' = times_invoked (execution_key i n c) s \<Longrightarrow>
    attempt_call E i n c tk s s'"

definition safe_tool :: "'w tool \<Rightarrow> bool" where
  "safe_tool tk \<longleftrightarrow> tl_risk_tier tk = RT_read_only \<or> (tl_risk_tier tk = RT_low_risk_write \<and> tl_idempotent tk)"

lemma gated_tool_unsafe: "requires_approval (tl_risk_tier tk) \<Longrightarrow> \<not> safe_tool tk"
  by (cases "tl_risk_tier tk") (simp_all add: safe_tool_def)

lemma write_ahead_unsafe: "write_ahead i n c tk e \<Longrightarrow> \<not> safe_tool tk \<Longrightarrow> \<not> safe_to_retry e"
  by (simp add: write_ahead_def safe_tool_def safe_to_retry_def)

lemma refused_unsafe: "refused i n c tk e \<Longrightarrow> \<not> safe_tool tk \<Longrightarrow> \<not> safe_to_retry e"
  by (simp add: refused_def safe_tool_def safe_to_retry_def)

lemma settles_unsafe: "settles e e' \<Longrightarrow> safe_to_retry e' = safe_to_retry e"
  by (simp add: settles_def safe_to_retry_def)

section \<open>One run of the executor\<close>

text \<open>The four ways a run of \<open>execute\<close> can go.\<close>

lemma execute_cases:
  assumes "execute E run n c call (Some tk) s = (r, s')"
  obtains (refused) "\<not> has_key (execution_key (run_id run) n c) (execs (rows s))"
      "adds_only (refused (run_id run) n c tk) s s'"
      "\<forall>e. fst (prepare_call E run n c call tk s) \<noteq> Inr (Inr e)"
  | (called) e s1 where "\<not> has_key (execution_key (run_id run) n c) (execs (rows s))"
      "get_existing (execution_key (run_id run) n c) s = (Inr None, s)"
      "prepare_call E run n c call tk s = (Inr (Inr e), s1)"
      "write_ahead (run_id run) n c tk e" "invoke_and_finalize E e tk s1 = (r, s')"
  | (replayed) e where "e \<in> set (execs (rows s))" "ex_idempotency_key e = execution_key (run_id run) n c"
      "get_existing (execution_key (run_id run) n c) s = (Inr (Some e), s)"
      "resolve_existing E e tk s = (r, s')"
  | (broken) "has_key (execution_key (run_id run) n c) (execs (rows s))" "s' = s" "r = Inl MultipleResultsFound"
proof -
  let ?K = "execution_key (run_id run) n c"
  obtain q s0 where q: "get_existing ?K s = (q, s0)" by fastforce
  note ge = get_existing_cases [OF q]
  consider "q = Inr None" "\<not> has_key ?K (execs (rows s))"
    | e where "q = Inr (Some e)" "e \<in> set (execs (rows s))" "ex_idempotency_key e = ?K"
    | "q = Inl MultipleResultsFound" "has_key ?K (execs (rows s))"
    using ge by blast
  then show thesis
  proof cases
    case 1
    obtain p s1 where p: "prepare_call E run n c call tk s = (p, s1)" by fastforce
    show thesis
    proof (cases "\<exists>e. p = Inr (Inr e)")
      case True
      then obtain e where e: "p = Inr (Inr e)" by blast
      have "write_ahead (run_id run) n c tk e" using prepare_call_cases [OF p] e by auto
      moreover have "invoke_and_finalize E e tk s1 = (r, s')"
        using assms 1 q ge p e by (simp add: execute_def execute_inner_def mbind_def)
      ultimately show thesis using called 1 q ge p e by blast
    next
      case False
      then have "s' = s1"
        using assms 1 q ge p by (auto simp: execute_def execute_inner_def mbind_def split: sum.splits)
      with prepare_call_cases [OF p] False 1 p show thesis by (intro refused) auto
    qed
  next
    case (2 e)
    then have "resolve_existing E e tk s = (r, s')"
      using assms q ge by (simp add: execute_def execute_inner_def mbind_def)
    with 2 q ge show thesis by (intro replayed) auto
  next
    case 3
    then have "s' = s \<and> r = Inl MultipleResultsFound"
      using assms q ge by (auto simp: execute_def execute_inner_def mbind_def)
    with 3 show thesis by (intro broken) auto
  qed
qed

section \<open>At most once\<close>

definition unsafe_rows :: "string \<Rightarrow> db \<Rightarrow> bool" where
  "unsafe_rows key d \<longleftrightarrow> (\<forall>e \<in> set (key_rows key d). \<not> safe_to_retry e)"

text \<open>
  The invariant: the call's rows are never safe to retry, and once the handler was called there is
  such a row in the session's view and in the durable state.
\<close>

definition once_inv :: "string \<Rightarrow> 'w st \<Rightarrow> bool" where
  "once_inv key s \<longleftrightarrow> unsafe_rows key (rows s) \<and> unsafe_rows key (durable s) \<and>
     (times_invoked key s = 0 \<or>
      times_invoked key s = 1 \<and> key_rows key (rows s) \<noteq> [] \<and> key_rows key (durable s) \<noteq> [])"

lemma has_key_rows: "has_key key (execs d) \<longleftrightarrow> key_rows key d \<noteq> []"
  by (auto simp: has_key_def key_rows_def filter_empty_conv)

lemma times_invoked_snoc:
  "invoked s' = invoked s @ [k] \<Longrightarrow> times_invoked key s' = times_invoked key s + (if k = key then 1 else 0)"
  by (simp add: times_invoked_def)

lemma once_inv_crash: "once_inv key s \<Longrightarrow> once_inv key (crash s)"
  by (auto simp: once_inv_def crash_def times_invoked_def)

lemma adds_only_once:
  assumes "once_inv key s" and "adds_only P s s'" and "\<And>e. P e \<Longrightarrow> \<not> safe_to_retry e"
  shows "once_inv key s'"
proof -
  have rows': "key_rows key (rows s') = key_rows key (rows s)
      \<or> (\<exists>e. key_rows key (rows s') = key_rows key (rows s) @ [e] \<and> \<not> safe_to_retry e)"
    using assms(2,3) by (auto simp: adds_only_def key_rows_def)
  have dur: "durable s' = durable s \<or> durable s' = rows s'" and "invoked s' = invoked s"
    using assms(2) by (auto simp: adds_only_def)
  then have "times_invoked key s' = times_invoked key s" by (simp add: times_invoked_def)
  with assms(1) rows' dur show ?thesis
    by (auto simp: once_inv_def unsafe_rows_def)
qed

lemma replace_key_rows:
  assumes "unsafe_rows key d" and "e \<in> set (execs d)" and "settles e e'" and "\<not> safe_to_retry e"
    and "ex_idempotency_key e = key"
  shows "unsafe_rows key (replace_exec e' d)" and "key_rows key (replace_exec e' d) \<noteq> []"
proof -
  have e': "\<not> safe_to_retry e'" "ex_idempotency_key e' = key" "ex_id e' = ex_id e"
    using assms by (auto simp: settles_unsafe) (auto simp: settles_def)
  then show "unsafe_rows key (replace_exec e' d)"
    using assms(1) by (auto simp: unsafe_rows_def key_rows_def replace_exec_def)
  have "e' \<in> set (execs (replace_exec e' d))"
    using assms(2) e' by (force simp: replace_exec_def)
  with e' show "key_rows key (replace_exec e' d) \<noteq> []"
    by (auto simp: key_rows_def filter_empty_conv)
qed

lemma execute_once:
  assumes inv: "once_inv K s" and K: "K = execution_key (run_id run) n c"
    and ex: "execute E run n c call (Some tk) s = (r, s')" and tk: "\<not> safe_tool tk"
  shows "once_inv K s'"
  using ex
proof (cases rule: execute_cases)
  case refused
  then show ?thesis using adds_only_once [OF inv] refused_unsafe tk by blast
next
  case (called e s1)
  have e: "\<not> safe_to_retry e" using called write_ahead_unsafe tk by blast
  have none: "times_invoked K s = 0" using inv called(1) K by (auto simp: once_inv_def has_key_rows)
  have p: "adds_only (\<lambda>x. x = e) s s1" "e \<in> set (execs (durable s1))" "durable s1 = rows s1"
    using prepare_call_cases [OF called(3)] by auto
  have inv1: "once_inv K s1" using adds_only_once [OF inv p(1)] e by blast
  have key: "ex_idempotency_key e = K" using called(4) K by (simp add: write_ahead_def)
  obtain e' where f: "invoked s' = invoked s1 @ [K]" "settles e e'" "rows s' = replace_exec e' (rows s1)"
    "durable s' = rows s'" using invoke_and_finalize_cases [OF called(5)] key by auto
  have "times_invoked K s1 = 0" using none p(1) by (simp add: adds_only_def times_invoked_def)
  moreover have "unsafe_rows K (rows s1)" using inv1 by (simp add: once_inv_def)
  ultimately show ?thesis
    using replace_key_rows [OF _ _ f(2) e key, of "rows s1"] p f(3,4) times_invoked_snoc [OF f(1), of K]
    by (simp add: once_inv_def)
next
  case (replayed e)
  have e: "\<not> safe_to_retry e"
    using inv replayed(1,2) K by (auto simp: once_inv_def unsafe_rows_def key_rows_def)
  from resolve_existing_cases [OF replayed(4)] show ?thesis
  proof (elim disjE conjE exE)
    assume "s' = s"
    with inv show ?thesis by simp
  next
    fix e' assume f: "invoked s' = (if safe_to_retry e then invoked s @ [ex_idempotency_key e] else invoked s)"
      "settles e e'" "rows s' = replace_exec e' (rows s)" "durable s' = rows s'"
    then have "times_invoked K s' = times_invoked K s" using e by (simp add: times_invoked_def)
    moreover have "unsafe_rows K (rows s)" using inv by (simp add: once_inv_def)
    ultimately show ?thesis
      using replace_key_rows [OF _ replayed(1) f(2) e, of K] replayed(2) K f(3,4) inv
      by (auto simp: once_inv_def)
  qed
next
  case broken
  with inv show ?thesis by simp
qed

lemma attempt_once:
  assumes "attempt_call E i n c tk s s'" and "once_inv (execution_key i n c) s" and tk: "\<not> safe_tool tk"
  shows "once_inv (execution_key i n c) s'"
  using assms(1)
proof cases
  case (whole run call r)
  then show ?thesis using execute_once [OF assms(2) _ _ tk] by blast
next
  case crash_idle
  then show ?thesis using once_inv_crash assms(2) by simp
next
  case (crash_prepared run call e s1)
  have p: "write_ahead (run_id run) n c tk e" "adds_only (\<lambda>x. x = e) s s1"
    using prepare_call_cases [OF crash_prepared(4)] by auto
  then have "once_inv (execution_key i n c) s1"
    using adds_only_once [OF assms(2) p(2)] write_ahead_unsafe tk by blast
  then show ?thesis using once_inv_crash crash_prepared(1) by simp
next
  case (crash_handling run call e s1 r s2)
  have p: "write_ahead (run_id run) n c tk e" "adds_only (\<lambda>x. x = e) s s1" "e \<in> set (execs (durable s1))"
    "durable s1 = rows s1"
    using prepare_call_cases [OF crash_handling(4)] by auto
  have inv1: "once_inv (execution_key i n c) s1"
    using adds_only_once [OF assms(2) p(2)] write_ahead_unsafe p(1) tk by blast
  have "\<not> has_key (execution_key i n c) (execs (rows s))"
    using get_existing_cases [OF crash_handling(3)] by simp
  then have "times_invoked (execution_key i n c) s1 = 0"
    using assms(2) p(2) by (auto simp: once_inv_def has_key_rows adds_only_def times_invoked_def)
  moreover have "key_rows (execution_key i n c) (durable s1) \<noteq> []"
    using p(1,3) crash_handling(2) by (auto simp: key_rows_def filter_empty_conv write_ahead_def)
  moreover have "s2 = s1\<lparr>world := world s2, invoked := invoked s1 @ [ex_idempotency_key e]\<rparr>"
    using crash_handling(5) by (auto simp: call_handler_run)
  then have "rows s2 = rows s1" "durable s2 = durable s1" "invoked s2 = invoked s1 @ [ex_idempotency_key e]"
    by (metis st.select_convs(1,2,5) st.surjective st.update_convs(4,5))+
  ultimately have "once_inv (execution_key i n c) s2"
    using inv1 p(4) times_invoked_snoc [of s2 s1 "ex_idempotency_key e" "execution_key i n c"]
    by (auto simp: once_inv_def)
  then show ?thesis using once_inv_crash crash_handling(1) by simp
next
  case (crash_recovering e r s2)
  then have "e \<in> set (execs (rows s)) \<and> ex_idempotency_key e = execution_key i n c"
    using get_existing_cases [OF crash_recovering(2)] by auto
  then have "\<not> safe_to_retry e"
    using assms(2) by (auto simp: once_inv_def unsafe_rows_def key_rows_def)
  with crash_recovering show ?thesis by simp
next
  case elsewhere
  then show ?thesis using assms(2) by (auto simp: once_inv_def unsafe_rows_def)
qed

lemma attempts_once:
  assumes "(attempt_call E i n c tk)\<^sup>*\<^sup>* s s'" and "once_inv (execution_key i n c) s" and "\<not> safe_tool tk"
  shows "once_inv (execution_key i n c) s'"
  using assms(1,2)
proof (induction rule: rtranclp_induct)
  case (step t u)
  then show ?case using attempt_once assms(3) by blast
qed simp

section \<open>Replay\<close>

lemma invoke_success:
  assumes "invoke_and_finalize E e tk s = (Inr oc, s')"
    and "dict_get (oc_observation oc) ''status'' = Some (JStr ''ok'')"
  shows "\<exists>res f. oc = outcome (success_observation res (ex_id e)) \<and> durable s' = rows s'
    \<and> rows s' = replace_exec (e\<lparr>ex_status := TS_succeeded, ex_result := Some res, ex_finished_at := Some f\<rparr>) (rows s)"
proof -
  obtain q w where q: "tl_handler tk (ex_args e) (world s) = (q, w)" by fastforce
  obtain f w' where f: "env_now E w = (f, w')" by fastforce
  show ?thesis
  proof (cases q)
    case (Inl x)
    then have "dict_get (oc_observation oc) ''status'' = Some (JStr ''error'')"
      using assms(1) by (auto simp: invoke_and_finalize_def mbind_def call_handler_run q now_def f
        save_execution_run commit_def Let_def error_observation_def)
    with assms(2) show ?thesis by simp
  next
    case (Inr v)
    let ?res = "truncate_result (env_dumps E) v (cfg_tool_result_max_chars (env_settings E))"
    show ?thesis
      by (rule exI [of _ ?res], rule exI [of _ f])
        (use assms(1) Inr in \<open>auto simp: invoke_and_finalize_def mbind_def call_handler_run q now_def f
          save_execution_run commit_def Let_def\<close>)
  qed
qed

lemma key_rows_replace_new:
  assumes "key_rows key d = []" and "ex_idempotency_key e = key"
    and "\<forall>x \<in> set (execs d). ex_id x \<noteq> ex_id e" and "execs d' = execs d @ [e]"
    and "ex_id e' = ex_id e" and "ex_idempotency_key e' = key"
  shows "key_rows key (replace_exec e' d') = [e']"
proof -
  have "map (\<lambda>x. if ex_id x = ex_id e' then e' else x) (execs d) = execs d"
    by (rule map_idI) (use assms(3,5) in auto)
  then show ?thesis using assms by (simp add: key_rows_def replace_exec_def)
qed

lemma execute_settled:
  assumes "key_rows (execution_key (run_id run) n c) (rows s) = [e]" and "ex_status e \<noteq> TS_started"
  shows "execute E run n c call (Some tk) s = (fst (resolve_existing E e tk s), s)"
proof -
  have "get_existing (execution_key (run_id run) n c) s = (Inr (Some e), s)"
    using assms(1) by (simp add: get_existing_run key_rows_def)
  then show ?thesis
    using assms(2) by (cases "ex_status e") (auto simp: execute_def execute_inner_def mbind_def resolve_existing_def)
qed

section \<open>Properties\<close>

text \<open>
  C2. A tool that is not safe to retry (neither read-only nor an idempotent low-risk write) has
  its handler called at most once for a given call of a given step, however often the call is
  replayed and wherever the attempts crash.
\<close>

theorem unsafe_tool_called_at_most_once:
  assumes "(attempt_call E i n c tk)\<^sup>*\<^sup>* s s'" and "\<not> safe_tool tk"
    and "times_invoked (execution_key i n c) s = 0"
    and "key_rows (execution_key i n c) (rows s) = []" and "key_rows (execution_key i n c) (durable s) = []"
  shows "times_invoked (execution_key i n c) s' \<le> 1"
proof -
  have "once_inv (execution_key i n c) s" using assms by (simp add: once_inv_def unsafe_rows_def)
  from attempts_once [OF assms(1) this assms(2)] show ?thesis by (auto simp: once_inv_def)
qed

text \<open>
  C1. No handler of a sensitive or destructive tool is ever called, in any life of the call with
  its crashes and replays, unless an approval request for exactly this run, step and call had been
  approved when the attempt began.
\<close>

theorem gated_call_needs_approval:
  assumes "(attempt_call E i n c tk)\<^sup>*\<^sup>* s s1" and "attempt_call E i n c tk s1 s2"
    and gated: "requires_approval (tl_risk_tier tk)"
    and "times_invoked (execution_key i n c) s = 0"
    and "key_rows (execution_key i n c) (rows s) = []" and "key_rows (execution_key i n c) (durable s) = []"
    and more: "times_invoked (execution_key i n c) s1 < times_invoked (execution_key i n c) s2"
  shows "approved_call i n c (rows s1)"
proof -
  have unsafe: "\<not> safe_tool tk" using gated by (rule gated_tool_unsafe)
  have "once_inv (execution_key i n c) s" using assms(4-6) by (simp add: once_inv_def unsafe_rows_def)
  then have inv: "once_inv (execution_key i n c) s1" by (rule attempts_once [OF assms(1) _ unsafe])
  from assms(2) show ?thesis
  proof cases
    case (whole run call r)
    from whole(2) show ?thesis
    proof (cases rule: execute_cases)
      case refused
      then show ?thesis using more by (simp add: adds_only_def times_invoked_def)
    next
      case (called e t)
      then show ?thesis using prepare_call_cases [OF called(3)] gated whole(1) by auto
    next
      case (replayed e)
      then have "\<not> safe_to_retry e" using inv whole(1) by (auto simp: once_inv_def unsafe_rows_def key_rows_def)
      then show ?thesis using resolve_existing_cases [OF replayed(4)] more by (auto simp: times_invoked_def)
    next
      case broken
      then show ?thesis using more by simp
    qed
  next
    case crash_idle
    then show ?thesis using more by (simp add: crash_def times_invoked_def)
  next
    case (crash_prepared run call e t)
    then show ?thesis using prepare_call_cases [OF crash_prepared(4)] gated by auto
  next
    case (crash_handling run call e t r u)
    then show ?thesis using prepare_call_cases [OF crash_handling(4)] gated by auto
  next
    case (crash_recovering e r t)
    have "e \<in> set (execs (rows s1)) \<and> ex_idempotency_key e = execution_key i n c"
      using get_existing_cases [OF crash_recovering(2)] by auto
    then have "\<not> safe_to_retry e" using inv by (auto simp: once_inv_def unsafe_rows_def key_rows_def)
    with crash_recovering show ?thesis by simp
  next
    case elsewhere
    then show ?thesis using more by simp
  qed
qed


text \<open>
  C12. A call that succeeded replays: executing it again, with whatever tool object, arguments and
  outside, and also after a crash, returns the same observation, calls no handler and changes
  nothing.
\<close>

theorem successful_call_replays:
  assumes "execute E run n c call (Some tk) s = (Inr oc, s1)"
    and "key_rows (execution_key (run_id run) n c) (rows s) = []" and "invoked s1 \<noteq> invoked s"
    and "dict_get (oc_observation oc) ''status'' = Some (JStr ''ok'')" and "run_id run' = run_id run"
  shows "execute E' run' n c call' (Some tk') s1 = (Inr oc, s1)
    \<and> execute E' run' n c call' (Some tk') (crash s1) = (Inr oc, s1)"
  using assms(1)
proof (cases rule: execute_cases)
  case refused
  with assms(3) show ?thesis by (simp add: adds_only_def)
next
  case (called e t)
  let ?K = "execution_key (run_id run) n c"
  obtain res f where oc: "oc = outcome (success_observation res (ex_id e))" and dur: "durable s1 = rows s1"
    and rows1: "rows s1 = replace_exec (e\<lparr>ex_status := TS_succeeded, ex_result := Some res, ex_finished_at := Some f\<rparr>) (rows t)"
    using invoke_success [OF called(5) assms(4)] by blast
  let ?e = "e\<lparr>ex_status := TS_succeeded, ex_result := Some res, ex_finished_at := Some f\<rparr>"
  have p: "adds_only (\<lambda>x. x = e) s t" "e \<in> set (execs (rows t))"
    using prepare_call_cases [OF called(3)] by auto
  have key: "ex_idempotency_key e = ?K" using called(4) by (simp add: write_ahead_def)
  have new: "execs (rows t) = execs (rows s) @ [e]" "\<forall>x \<in> set (execs (rows s)). ex_id x \<noteq> ex_id e"
    using p key assms(2) by (auto simp: adds_only_def key_rows_def filter_empty_conv)
  have "key_rows ?K (rows s1) = [?e]"
    unfolding rows1 by (rule key_rows_replace_new [OF assms(2) key new(2,1)]) (simp_all add: key)
  moreover have "crash s1 = s1" using dur by (simp add: crash_def)
  ultimately show ?thesis
    using execute_settled [of run' n c s1 ?e E' call' tk'] assms(5) by (simp add: resolve_existing_def oc)
next
  case (replayed e)
  then show ?thesis using assms(2) by (auto simp: key_rows_def filter_empty_conv)
next
  case broken
  then show ?thesis by simp
qed

text \<open>
  A recorded outcome is permanent: once the call's row is settled and durable, no attempt and
  no crash changes it or calls the handler again.
\<close>

theorem settled_outcome_permanent:
  assumes "(attempt_call E i n c tk)\<^sup>*\<^sup>* s s'"
    and "key_rows (execution_key i n c) (rows s) = [e]" and "key_rows (execution_key i n c) (durable s) = [e]"
    and "ex_status e \<noteq> TS_started"
  shows "key_rows (execution_key i n c) (rows s') = [e] \<and> key_rows (execution_key i n c) (durable s') = [e]
    \<and> times_invoked (execution_key i n c) s' = times_invoked (execution_key i n c) s"
  using assms(1)
proof (induction rule: rtranclp_induct)
  case base
  then show ?case using assms(2,3) by simp
next
  case (step t u)
  have ge: "get_existing (execution_key i n c) t = (Inr (Some e), t)"
    using step.IH by (simp add: get_existing_run key_rows_def)
  from step.hyps(2) show ?case
  proof cases
    case (whole run call r)
    then have "u = t" using execute_settled [of run n c t e] step.IH assms(4) by simp
    with step.IH show ?thesis by simp
  next
    case crash_idle
    with step.IH show ?thesis by (simp add: crash_def times_invoked_def)
  qed (use step.IH ge assms(4) in auto)
qed

section \<open>Witnesses\<close>

text \<open>A destructive tool that always returns its arguments, and a call whose approval was given.\<close>

definition sample_tool :: "risk_tier \<Rightarrow> nat tool" where
  "sample_tool tier = make_tool ''wipe'' ''d'' [] (\<lambda>a w. (Inr a, w)) tier False"

definition sample_call :: tool_call where
  "sample_call = \<lparr>tc_id = ''c1'', tc_name = ''wipe'', tc_arguments = JObj []\<rparr>"

definition sample_approval :: approval_request where
  "sample_approval = \<lparr>ap_id = 9, ap_tenant_id = 1, ap_run_id = 7, ap_step_no = 0, ap_call_index = 0,
     ap_tool_name = ''wipe'', ap_risk_tier = RT_destructive, ap_args = [], ap_status = AS_approved,
     ap_reason = None, ap_decided_by_user_id = None, ap_requested_at = 0, ap_decided_at = None,
     ap_expires_at = 100\<rparr>"

definition approved_st :: "nat st" where
  "approved_st = sample_st\<lparr>rows := (rows sample_st)\<lparr>approvals := [sample_approval]\<rparr>\<rparr>"

lemma sample_key: "execution_key (run_id sample_run) 0 0 = execution_key 7 0 0"
  by (simp add: sample_run_def)

lemma approved_st_no_rows: "key_rows key (rows approved_st) = []" "key_rows key (durable approved_st) = []"
  "times_invoked key approved_st = 0" "invoked approved_st = []"
  by (simp_all add: key_rows_def times_invoked_def approved_st_def sample_defs)

lemma wipe_normalize:
  "normalize_and_validate_arguments (env_schema_errors sample_env) (tl_parameters (sample_tool t)) (tc_arguments sample_call) = Inr []"
  by (simp add: normalize_and_validate_arguments_def sample_call_def coerce_object_def get_or_empty_def
      sample_tool_def sample_env_def)

lemma wipe_executed:
  "\<exists>oc s'. execute sample_env sample_run 0 0 sample_call (Some (sample_tool RT_destructive)) approved_st = (Inr oc, s')
     \<and> dict_get (oc_observation oc) ''status'' = Some (JStr ''ok'')
     \<and> invoked s' = [execution_key 7 0 0]"
proof -
  have ge: "get_existing k approved_st = (Inr None, approved_st)" for k
    by (simp add: get_existing_run approved_st_def sample_defs)
  have gate: "check_approval sample_env sample_run 0 0 [] (sample_tool RT_destructive) approved_st = (Inr None, approved_st)"
    by (simp add: check_approval_def mbind_def approved_st_def sample_defs sample_approval_def)
  have empty: "execs (rows approved_st) = []" "world approved_st = 100" "invoked approved_st = []"
    by (simp_all add: approved_st_def sample_defs)
  show ?thesis
    unfolding execute_def execute_inner_def
    by (simp add: mbind_def ge prepare_call_def wipe_normalize gate add_execution_def uuid4_def
        now_def insert_execution_def commit_def empty invoke_and_finalize_def call_handler_run
        save_execution_run Let_def sample_key)
      (simp add: sample_env_def sample_tool_def save_execution_run mbind_def commit_def Let_def empty)
qed

theorem unsafe_tool_witness:
  "\<exists>s'. (attempt_call sample_env 7 0 0 (sample_tool RT_destructive))\<^sup>*\<^sup>* approved_st s'
     \<and> times_invoked (execution_key 7 0 0) s' = 1"
proof -
  obtain oc s' where s': "execute sample_env sample_run 0 0 sample_call (Some (sample_tool RT_destructive)) approved_st = (Inr oc, s')"
    "invoked s' = [execution_key 7 0 0]" using wipe_executed by blast
  have "attempt_call sample_env 7 0 0 (sample_tool RT_destructive) approved_st s'"
    by (rule attempt_call.whole [OF _ s'(1)]) (simp add: sample_run_def)
  then have star: "(attempt_call sample_env 7 0 0 (sample_tool RT_destructive))\<^sup>*\<^sup>* approved_st s'" by blast
  have "times_invoked (execution_key 7 0 0) s' \<le> 1"
    by (rule unsafe_tool_called_at_most_once [OF star])
      (simp_all add: safe_tool_def sample_tool_def approved_st_no_rows)
  with star s'(2) show ?thesis by (auto simp: times_invoked_def)
qed

theorem gated_call_witness:
  "approved_call 7 0 0 (rows approved_st)"
proof -
  obtain oc s' where s': "execute sample_env sample_run 0 0 sample_call (Some (sample_tool RT_destructive)) approved_st = (Inr oc, s')"
    "invoked s' = [execution_key 7 0 0]" using wipe_executed by blast
  have step: "attempt_call sample_env 7 0 0 (sample_tool RT_destructive) approved_st s'"
    by (rule attempt_call.whole [OF _ s'(1)]) (simp add: sample_run_def)
  show ?thesis
    by (rule gated_call_needs_approval [OF rtranclp.rtrancl_refl step])
      (simp_all add: sample_tool_def approved_st_no_rows, simp add: times_invoked_def s')
qed


theorem replay_witness:
  "\<exists>oc s1. execute sample_env sample_run 0 0 sample_call (Some (sample_tool RT_destructive)) s1 = (Inr oc, s1)
     \<and> invoked s1 = [execution_key 7 0 0]"
proof -
  obtain oc s' where s': "execute sample_env sample_run 0 0 sample_call (Some (sample_tool RT_destructive)) approved_st = (Inr oc, s')"
    "dict_get (oc_observation oc) ''status'' = Some (JStr ''ok'')" "invoked s' = [execution_key 7 0 0]"
    using wipe_executed by blast
  have "invoked s' \<noteq> invoked approved_st" using s'(3) by (simp add: approved_st_no_rows)
  from successful_call_replays [OF s'(1) approved_st_no_rows(1) this s'(2) HOL.refl] s'(3)
  show ?thesis by blast
qed

definition done_execution :: tool_execution where
  "done_execution = \<lparr>ex_id = 5, ex_run_id = 7, ex_step_no = 0, ex_call_index = 0,
     ex_idempotency_key = execution_key 7 0 0, ex_tool_name = ''wipe'', ex_mcp_server_id = None,
     ex_risk_tier = RT_read_only, ex_idempotent = True, ex_args = JObj [], ex_status = TS_failed,
     ex_result = None, ex_error = Some ''boom'', ex_started_at = 0, ex_finished_at = Some 1\<rparr>"

definition done_st :: "nat st" where
  "done_st = sample_st\<lparr>rows := empty_db\<lparr>execs := [done_execution]\<rparr>, durable := empty_db\<lparr>execs := [done_execution]\<rparr>\<rparr>"

theorem settled_witness:
  "key_rows (execution_key 7 0 0) (rows (crash done_st)) = [done_execution]"
proof -
  have "(attempt_call sample_env 7 0 0 (sample_tool RT_read_only))\<^sup>*\<^sup>* done_st (crash done_st)"
    by (rule r_into_rtranclp) (rule attempt_call.crash_idle)
  from settled_outcome_permanent [OF this, of done_execution] show ?thesis
    by (simp add: key_rows_def done_st_def done_execution_def)
qed

end
