(* ===== verification/Skills.thy ===== *)
theory Skills
  imports Samples "HOL-Library.List_Lexorder" "HOL-Library.Char_ord"
begin

text \<open>
  harness/skills/registry.py and usage.py: the skill catalog with its revision lifecycle, and the
  usage rows of terminal runs. A flush of a changed revision passes the database trigger of
  harness/db/models.py, which refuses to update a published row. The properties are about what no
  sequence of registry operations can break.
\<close>

section \<open>Rows\<close>

definition skill_of :: "db \<Rightarrow> uuid \<Rightarrow> uuid \<Rightarrow> skill list" where
  "skill_of d tenant sid = filter (\<lambda>k. sk_id k = sid \<and> sk_tenant_id k = tenant) (skills d)"

text \<open>The flush of a changed revision: the trigger looks at the old row.\<close>

definition save_revision :: "skill_revision \<Rightarrow> ('w, unit) op" where
  "save_revision r =
     mbind (gets rows) (\<lambda>d.
       case find (\<lambda>x. rev_id x = rev_id r) (revisions d) of
         None \<Rightarrow> ret ()
       | Some old \<Rightarrow>
           if old = r then ret ()
           else if rev_status old = SS_published
           then raise (PyError ''DBAPIError'' ''published skill revisions are immutable'')
           else modify (\<lambda>s. s\<lparr>rows := (rows s)\<lparr>revisions :=
                  map (\<lambda>x. if rev_id x = rev_id r then r else x) (revisions (rows s))\<rparr>\<rparr>))"

definition save_skill :: "skill \<Rightarrow> ('w, unit) op" where
  "save_skill k =
     modify (\<lambda>s. s\<lparr>rows := (rows s)\<lparr>skills :=
       map (\<lambda>x. if sk_id x = sk_id k then k else x) (skills (rows s))\<rparr>\<rparr>)"

definition insert_skill :: "skill \<Rightarrow> ('w, unit) op" where
  "insert_skill k =
     (\<lambda>s. if \<exists>x \<in> set (skills (rows s)). sk_id x = sk_id k \<or>
               (sk_tenant_id x = sk_tenant_id k \<and> sk_name x = sk_name k)
          then (Inl (IntegrityError ''uq_skills_tenant_name''), s)
          else (Inr (), s\<lparr>rows := (rows s)\<lparr>skills := skills (rows s) @ [k]\<rparr>\<rparr>))"

definition insert_revision :: "skill_revision \<Rightarrow> ('w, unit) op" where
  "insert_revision r =
     (\<lambda>s. if \<exists>x \<in> set (revisions (rows s)). rev_id x = rev_id r \<or>
               (rev_skill_id x = rev_skill_id r \<and> rev_version x = rev_version r)
          then (Inl (IntegrityError ''uq_skill_revisions_skill_version''), s)
          else (Inr (), s\<lparr>rows := (rows s)\<lparr>revisions := revisions (rows s) @ [r]\<rparr>\<rparr>))"

section \<open>The registry\<close>

definition create_skill :: "'w env \<Rightarrow> uuid \<Rightarrow> string \<Rightarrow> string \<Rightarrow> uuid option \<Rightarrow> ('w, skill) op" where
  "create_skill E tenant name description owner =
     mbind (uuid4 E) (\<lambda>k. mbind (now E) (\<lambda>t.
       let sk = \<lparr>sk_id = k, sk_tenant_id = tenant, sk_name = name, sk_description = description,
                 sk_status = SS_draft, sk_active_revision_id = None, sk_owner_user_id = owner,
                 sk_created_at = t\<rparr>
       in mseq (insert_skill sk) (ret sk)))"

definition list_skills :: "db \<Rightarrow> uuid \<Rightarrow> skill list" where
  "list_skills d tenant = sort_key sk_name (filter (\<lambda>k. sk_tenant_id k = tenant) (skills d))"

definition list_published_skills :: "db \<Rightarrow> uuid \<Rightarrow> skill list" where
  "list_published_skills d tenant =
     sort_key sk_name (filter (\<lambda>k. sk_tenant_id k = tenant \<and> sk_status k = SS_published
                                   \<and> sk_active_revision_id k \<noteq> None) (skills d))"

definition get_skill :: "uuid \<Rightarrow> uuid \<Rightarrow> ('w, skill option) op" where
  "get_skill tenant sid = mbind (gets rows) (\<lambda>d. scalar_one_or_none (skill_of d tenant sid))"

definition get_revision :: "uuid \<Rightarrow> uuid \<Rightarrow> uuid \<Rightarrow> ('w, skill_revision option) op" where
  "get_revision tenant sid rid =
     mbind (gets rows) (\<lambda>d. scalar_one_or_none
       (concat (map (\<lambda>k. filter (\<lambda>r. rev_skill_id r = sk_id k \<and> rev_id r = rid) (revisions d))
                    (skill_of d tenant sid))))"

definition get_active_revision_by_skill_name ::
  "uuid \<Rightarrow> string \<Rightarrow> ('w, (skill \<times> skill_revision) option) op" where
  "get_active_revision_by_skill_name tenant name =
     mbind (gets rows) (\<lambda>d. scalar_one_or_none
       (concat (map (\<lambda>k. map (\<lambda>r. (k, r)) (filter (\<lambda>r. sk_active_revision_id k = Some (rev_id r)) (revisions d)))
         (filter (\<lambda>k. sk_tenant_id k = tenant \<and> sk_name k = name \<and> sk_status k = SS_published) (skills d)))))"

definition get_revision_by_id :: "uuid \<Rightarrow> uuid \<Rightarrow> ('w, (skill \<times> skill_revision) option) op" where
  "get_revision_by_id tenant rid =
     mbind (gets rows) (\<lambda>d. scalar_one_or_none
       (concat (map (\<lambda>k. map (\<lambda>r. (k, r)) (filter (\<lambda>r. rev_skill_id r = sk_id k \<and> rev_id r = rid) (revisions d)))
         (filter (\<lambda>k. sk_tenant_id k = tenant) (skills d)))))"

definition list_revisions :: "db \<Rightarrow> uuid \<Rightarrow> uuid \<Rightarrow> skill_revision list" where
  "list_revisions d tenant sid =
     sort_key rev_version (concat (map (\<lambda>k. filter (\<lambda>r. rev_skill_id r = sk_id k) (revisions d)) (skill_of d tenant sid)))"

definition max_version :: "db \<Rightarrow> uuid \<Rightarrow> int" where
  "max_version d sid =
     (case map rev_version (filter (\<lambda>r. rev_skill_id r = sid) (revisions d)) of
        [] \<Rightarrow> 0 | v # vs \<Rightarrow> foldl max v vs)"

definition create_revision ::
  "'w env \<Rightarrow> uuid \<Rightarrow> uuid \<Rightarrow> string \<Rightarrow> string \<Rightarrow> dict \<Rightarrow> dict \<Rightarrow> dict \<Rightarrow> string list \<Rightarrow> uuid option \<Rightarrow>
   ('w, skill_revision option) op" where
  "create_revision E tenant sid instruction change_reason manifest input_schema output_schema tools from_run =
     mbind (get_skill tenant sid) (\<lambda>k.
       case k of None \<Rightarrow> ret None
       | Some sk \<Rightarrow>
           if str_strip instruction = []
           then raise (PyError ''ValueError'' ''skill instruction must not be empty'')
           else if 100000 < length instruction
           then raise (PyError ''ValueError'' ''skill instruction exceeds the 100000 character limit'')
           else if 10000 < length (str_strip change_reason)
           then raise (PyError ''ValueError'' ''skill change_reason exceeds the 10000 character limit'')
           else if \<not> distinct tools
           then raise (PyError ''ValueError'' ''skill required_tools must not contain duplicates'')
           else
             mbind (get_skill tenant sid) (\<lambda>locked.
               case locked of None \<Rightarrow> ret None
               | Some sk' \<Rightarrow>
                   mbind (gets rows) (\<lambda>d. mbind (uuid4 E) (\<lambda>i. mbind (now E) (\<lambda>t.
                     let r = \<lparr>rev_id = i, rev_skill_id = sid, rev_version = max_version d sid + 1,
                              rev_status = SS_draft, rev_instruction = instruction, rev_manifest = manifest,
                              rev_input_schema = input_schema, rev_output_schema = output_schema,
                              rev_required_tools = tools, rev_change_reason = change_reason,
                              rev_evaluation_status = None, rev_evaluation_result = None,
                              rev_created_from_run_id = from_run, rev_created_at = t\<rparr>
                     in mseq (insert_revision r) (ret (Some r)))))))"

definition approve_revision :: "uuid \<Rightarrow> uuid \<Rightarrow> uuid \<Rightarrow> ('w, skill_revision option) op" where
  "approve_revision tenant sid rid =
     mbind (get_revision tenant sid rid) (\<lambda>x.
       case x of None \<Rightarrow> ret None
       | Some r \<Rightarrow>
           if rev_status r \<noteq> SS_draft then ret (Some r)
           else mseq (save_revision (r\<lparr>rev_status := SS_approved\<rparr>)) (ret (Some (r\<lparr>rev_status := SS_approved\<rparr>))))"

definition publish_revision :: "uuid \<Rightarrow> uuid \<Rightarrow> uuid \<Rightarrow> ('w, skill_revision option) op" where
  "publish_revision tenant sid rid =
     mbind (get_skill tenant sid) (\<lambda>k.
       case k of None \<Rightarrow> ret None
       | Some sk \<Rightarrow>
           mbind (get_revision tenant sid rid) (\<lambda>x.
             case x of None \<Rightarrow> ret None
             | Some r \<Rightarrow>
                 if rev_status r \<noteq> SS_approved \<and> rev_status r \<noteq> SS_published
                 then raise (PyError ''ValueError'' ''skill revision must be approved before publishing'')
                 else if rev_evaluation_status r \<noteq> Some ''passed''
                 then raise (PyError ''ValueError'' ''skill revision must pass evaluation before publishing'')
                 else
                   let r' = (if rev_status r = SS_approved then r\<lparr>rev_status := SS_published\<rparr> else r) in
                   mseq (save_revision r')
                   (mseq (save_skill (sk\<lparr>sk_active_revision_id := Some (rev_id r'), sk_status := SS_published\<rparr>))
                    (ret (Some r')))))"

definition record_evaluation ::
  "uuid \<Rightarrow> uuid \<Rightarrow> uuid \<Rightarrow> string \<Rightarrow> dict option \<Rightarrow> ('w, skill_revision option) op" where
  "record_evaluation tenant sid rid status result =
     mbind (get_revision tenant sid rid) (\<lambda>x.
       case x of None \<Rightarrow> ret None
       | Some r \<Rightarrow>
           let r' = r\<lparr>rev_evaluation_status := Some status,
                     rev_evaluation_result := Some (case result of None \<Rightarrow> [] | Some d \<Rightarrow> d)\<rparr>
           in mseq (save_revision r') (ret (Some r')))"

definition rollback_skill :: "uuid \<Rightarrow> uuid \<Rightarrow> uuid \<Rightarrow> ('w, skill_revision option) op" where
  "rollback_skill tenant sid rid = publish_revision tenant sid rid"

definition deprecate_skill :: "uuid \<Rightarrow> uuid \<Rightarrow> ('w, skill option) op" where
  "deprecate_skill tenant sid =
     mbind (get_skill tenant sid) (\<lambda>k.
       case k of None \<Rightarrow> ret None
       | Some sk \<Rightarrow>
           let sk' = sk\<lparr>sk_status := SS_deprecated, sk_active_revision_id := None\<rparr>
           in mseq (save_skill sk') (ret (Some sk')))"

section \<open>Usage of skills by terminal runs (usage.py)\<close>

definition TERMINAL_SUCCESS :: "run_status set" where "TERMINAL_SUCCESS = {RS_completed}"

definition TERMINAL_FAILURE :: "run_status set" where
  "TERMINAL_FAILURE = {RS_failed, RS_cancelled, RS_timed_out}"

definition latency_ms :: "agent_run \<Rightarrow> int" where
  "latency_ms r = max 0 ((run_updated_at r - run_created_at r) div 1000)"

definition token_usage :: "agent_run \<Rightarrow> dict" where
  "token_usage r = [(''tokens_used'', JInt (run_tokens_used r)), (''tool_calls_used'', JInt (run_tool_calls_used r))]"

text \<open>INSERT ... ON CONFLICT (revision_id, run_id) DO UPDATE.\<close>

definition record_skill_usage_for_run :: "'w env \<Rightarrow> ('w, unit) op" where
  "record_skill_usage_for_run E =
     mbind (gets cur) (\<lambda>run.
       case run_active_skill_revision_id run of None \<Rightarrow> ret ()
       | Some rid \<Rightarrow>
           if run_status run \<notin> TERMINAL_SUCCESS \<union> TERMINAL_FAILURE then ret ()
           else
             mbind (uuid4 E) (\<lambda>k. mbind (now E) (\<lambda>t.
               let success = (run_status run \<in> TERMINAL_SUCCESS) in
               modify (\<lambda>s. s\<lparr>rows := (rows s)\<lparr>skill_usages :=
                 (if \<exists>u \<in> set (skill_usages (rows s)). su_revision_id u = rid \<and> su_run_id u = run_id run
                  then map (\<lambda>u. if su_revision_id u = rid \<and> su_run_id u = run_id run
                                then u\<lparr>su_success := Some success, su_latency_ms := Some (latency_ms run),
                                       su_token_usage := token_usage run\<rparr>
                                else u) (skill_usages (rows s))
                  else skill_usages (rows s) @
                    [\<lparr>su_id = k, su_tenant_id = run_tenant_id run, su_revision_id = rid,
                      su_run_id = run_id run, su_success = Some success,
                      su_latency_ms = Some (latency_ms run), su_token_usage = token_usage run,
                      su_feedback = None, su_created_at = t\<rparr>])\<rparr>\<rparr>))))"

definition record_feedback_for_run ::
  "uuid \<Rightarrow> uuid \<Rightarrow> bool \<Rightarrow> string option \<Rightarrow> ('w, skill_usage option) op" where
  "record_feedback_for_run tenant rid thumbs_up comment =
     mbind (gets rows) (\<lambda>d.
     mbind (scalar_one_or_none (filter (\<lambda>u. su_run_id u = rid \<and>
              (\<exists>r \<in> set (runs d). run_id r = rid \<and> run_tenant_id r = tenant)) (skill_usages d))) (\<lambda>x.
       case x of None \<Rightarrow> ret None
       | Some u \<Rightarrow>
           let u' = u\<lparr>su_feedback := Some [(''thumbs_up'', JBool thumbs_up),
                      (''comment'', case comment of None \<Rightarrow> JNull | Some c \<Rightarrow> JStr c)]\<rparr>
           in mseq (modify (\<lambda>s. s\<lparr>rows := (rows s)\<lparr>skill_usages :=
                map (\<lambda>x. if su_id x = su_id u then u' else x) (skill_usages (rows s))\<rparr>\<rparr>))
              (ret (Some u'))))"

section \<open>The lifecycle as an abstract transition system\<close>

text \<open>
  What a registry operation of a tenant may do to the catalog: add a draft skill, add a revision to
  one of its skills, change a revision that is not published, publish a passed revision and point
  its skill at it, or deprecate a skill.
\<close>

definition put_skill :: "skill \<Rightarrow> db \<Rightarrow> db" where
  "put_skill k d = d\<lparr>skills := map (\<lambda>x. if sk_id x = sk_id k then k else x) (skills d)\<rparr>"

definition put_revision :: "skill_revision \<Rightarrow> db \<Rightarrow> db" where
  "put_revision r d = d\<lparr>revisions := map (\<lambda>x. if rev_id x = rev_id r then r else x) (revisions d)\<rparr>"

inductive skill_change :: "uuid \<Rightarrow> db \<Rightarrow> db \<Rightarrow> bool" for tenant where
  same: "skill_change tenant d d"
| add_skill: "sk_tenant_id k = tenant \<Longrightarrow> sk_active_revision_id k = None \<Longrightarrow> sk_status k = SS_draft \<Longrightarrow>
    sk_id k \<notin> sk_id ` set (skills d) \<Longrightarrow> skill_change tenant d (d\<lparr>skills := skills d @ [k]\<rparr>)"
| add_revision: "k \<in> set (skills d) \<Longrightarrow> sk_tenant_id k = tenant \<Longrightarrow> rev_skill_id r = sk_id k \<Longrightarrow>
    rev_status r = SS_draft \<Longrightarrow> rev_id r \<notin> rev_id ` set (revisions d) \<Longrightarrow>
    (\<forall>x \<in> set (revisions d). rev_skill_id x = sk_id k \<longrightarrow> rev_version x < rev_version r) \<Longrightarrow>
    skill_change tenant d (d\<lparr>revisions := revisions d @ [r]\<rparr>)"
| change_revision: "k \<in> set (skills d) \<Longrightarrow> sk_tenant_id k = tenant \<Longrightarrow> r \<in> set (revisions d) \<Longrightarrow>
    rev_skill_id r = sk_id k \<Longrightarrow> rev_status r \<noteq> SS_published \<Longrightarrow> rev_id r' = rev_id r \<Longrightarrow>
    rev_skill_id r' = rev_skill_id r \<Longrightarrow> rev_version r' = rev_version r \<Longrightarrow>
    skill_change tenant d (put_revision r' d)"
| publish: "k \<in> set (skills d) \<Longrightarrow> sk_tenant_id k = tenant \<Longrightarrow> r \<in> set (revisions d) \<Longrightarrow>
    rev_skill_id r = sk_id k \<Longrightarrow> rev_status r \<in> {SS_approved, SS_published} \<Longrightarrow>
    rev_evaluation_status r = Some ''passed'' \<Longrightarrow>
    skill_change tenant d (put_skill (k\<lparr>sk_active_revision_id := Some (rev_id r), sk_status := SS_published\<rparr>)
      (put_revision (r\<lparr>rev_status := SS_published\<rparr>) d))"
| deprecate: "k \<in> set (skills d) \<Longrightarrow> sk_tenant_id k = tenant \<Longrightarrow>
    skill_change tenant d (put_skill (k\<lparr>sk_status := SS_deprecated, sk_active_revision_id := None\<rparr>) d)"

inductive_cases skill_change_elim: "skill_change tenant d d'"

definition catalog_keys :: "db \<Rightarrow> bool" where
  "catalog_keys d \<longleftrightarrow> distinct (map sk_id (skills d)) \<and> distinct (map rev_id (revisions d))"

lemma same_key: "distinct (map f xs) \<Longrightarrow> x \<in> set xs \<Longrightarrow> y \<in> set xs \<Longrightarrow> f x = f y \<Longrightarrow> x = y"
  by (auto simp: distinct_map inj_on_def)

lemma put_same_key_map: "map f (map (\<lambda>x. if f x = f k then k else x) xs) = map f xs"
  by auto

lemma put_keys [simp]:
  "map sk_id (skills (put_skill k d)) = map sk_id (skills d)"
  "map rev_id (revisions (put_revision r d)) = map rev_id (revisions d)"
  "revisions (put_skill k d) = revisions d" "skills (put_revision r d) = skills d"
  by (simp_all add: put_skill_def put_revision_def)

lemma put_revision_same: "catalog_keys d \<Longrightarrow> r \<in> set (revisions d) \<Longrightarrow> put_revision r d = d"
  unfolding put_revision_def
  by (subst map_idI) (auto dest: same_key simp: catalog_keys_def)

lemma skill_change_keys: "skill_change t d d' \<Longrightarrow> catalog_keys d \<Longrightarrow> catalog_keys d'"
  by (erule skill_change_elim) (auto simp: catalog_keys_def simp del: map_map)

section \<open>The operations refine the transition system\<close>

lemma scalar_one_or_none_run:
  "scalar_one_or_none xs s = (case xs of [] \<Rightarrow> (Inr None, s) | [x] \<Rightarrow> (Inr (Some x), s)
     | x # y # zs \<Rightarrow> (Inl MultipleResultsFound, s))"
  by (auto split: list.splits)

lemma scalar_one_cases:
  assumes "scalar_one_or_none xs s = (r, s')"
  shows "s' = s \<and> (r = Inr None \<or> r = Inl MultipleResultsFound \<or> (\<exists>x \<in> set xs. r = Inr (Some x)))"
  using assms by (auto simp: scalar_one_or_none_run split: list.splits)

lemma get_skill_cases:
  assumes "get_skill t sid s = (r, s')"
  shows "s' = s \<and> (r = Inr None \<or> r = Inl MultipleResultsFound \<or>
    (\<exists>k. r = Inr (Some k) \<and> k \<in> set (skills (rows s)) \<and> sk_id k = sid \<and> sk_tenant_id k = t))"
  using assms scalar_one_cases [of "skill_of (rows s) t sid" s r s']
  by (auto simp: get_skill_def mbind_def skill_of_def)

lemma get_revision_cases:
  assumes "get_revision t sid rid s = (r, s')"
  shows "s' = s \<and> (r = Inr None \<or> r = Inl MultipleResultsFound \<or>
    (\<exists>k x. r = Inr (Some x) \<and> k \<in> set (skills (rows s)) \<and> sk_id k = sid \<and> sk_tenant_id k = t
       \<and> x \<in> set (revisions (rows s)) \<and> rev_skill_id x = sid \<and> rev_id x = rid))"
proof -
  have "scalar_one_or_none (concat (map (\<lambda>k. filter (\<lambda>r. rev_skill_id r = sk_id k \<and> rev_id r = rid)
      (revisions (rows s))) (skill_of (rows s) t sid))) s = (r, s')"
    using assms by (simp add: get_revision_def mbind_def)
  from scalar_one_cases [OF this] show ?thesis by (auto simp: skill_of_def split: if_splits)
qed

lemma find_key: "distinct (map f xs) \<Longrightarrow> x \<in> set xs \<Longrightarrow> find (\<lambda>y. f y = f x) xs = Some x"
  by (induction xs) auto

lemma save_revision_run:
  assumes "catalog_keys (rows s)" and "r \<in> set (revisions (rows s))" and "rev_id r' = rev_id r"
  shows "save_revision r' s =
    (if r = r' then (Inr (), s)
     else if rev_status r = SS_published
     then (Inl (PyError ''DBAPIError'' ''published skill revisions are immutable''), s)
     else (Inr (), s\<lparr>rows := put_revision r' (rows s)\<rparr>))"
  using find_key [of rev_id "revisions (rows s)" r] assms
  by (simp add: save_revision_def mbind_def catalog_keys_def put_revision_def)

lemma save_skill_run: "save_skill k s = (Inr (), s\<lparr>rows := put_skill k (rows s)\<rparr>)"
  by (simp add: save_skill_def put_skill_def)

lemma max_version_upper:
  assumes "r \<in> set (revisions d)" and "rev_skill_id r = sid"
  shows "rev_version r \<le> max_version d sid"
proof -
  have fold: "a \<le> foldl max a ys \<and> (\<forall>y \<in> set ys. y \<le> foldl max a ys)" for a :: int and ys
  proof (induction ys arbitrary: a)
    case (Cons y ys)
    show ?case using Cons [of "max a y"] by auto
  qed simp
  let ?vs = "map rev_version (filter (\<lambda>r. rev_skill_id r = sid) (revisions d))"
  have mem: "rev_version r \<in> set ?vs" using assms by auto
  then obtain v vs where vs: "?vs = v # vs" by (cases ?vs) auto
  then have "max_version d sid = foldl max v vs" by (simp add: max_version_def)
  moreover have "rev_version r \<in> set (v # vs)" using mem vs by simp
  ultimately show ?thesis using fold [of v vs] by auto
qed

datatype skill_op =
    Create_skill uuid string string "uuid option"
  | Create_revision uuid uuid string string dict dict dict "string list" "uuid option"
  | Approve_revision uuid uuid uuid
  | Publish_revision uuid uuid uuid
  | Rollback_skill uuid uuid uuid
  | Record_evaluation uuid uuid uuid string "dict option"
  | Deprecate_skill uuid uuid

fun op_tenant :: "skill_op \<Rightarrow> uuid" where
  "op_tenant (Create_skill t n de ow) = t"
| "op_tenant (Create_revision t sid i c m is os ts fr) = t"
| "op_tenant (Approve_revision t sid rid) = t"
| "op_tenant (Publish_revision t sid rid) = t"
| "op_tenant (Rollback_skill t sid rid) = t"
| "op_tenant (Record_evaluation t sid rid st re) = t"
| "op_tenant (Deprecate_skill t sid) = t"

fun skill_step :: "'w env \<Rightarrow> skill_op \<Rightarrow> 'w st \<Rightarrow> 'w st" where
  "skill_step E (Create_skill t n de ow) s = snd (create_skill E t n de ow s)"
| "skill_step E (Create_revision t sid i c m is os ts fr) s = snd (create_revision E t sid i c m is os ts fr s)"
| "skill_step E (Approve_revision t sid rid) s = snd (approve_revision t sid rid s)"
| "skill_step E (Publish_revision t sid rid) s = snd (publish_revision t sid rid s)"
| "skill_step E (Rollback_skill t sid rid) s = snd (rollback_skill t sid rid s)"
| "skill_step E (Record_evaluation t sid rid st re) s = snd (record_evaluation t sid rid st re s)"
| "skill_step E (Deprecate_skill t sid) s = snd (deprecate_skill t sid s)"

lemma create_skill_change: "skill_change t (rows s) (rows (snd (create_skill E t n de ow s)))"
proof -
  obtain k w where k: "env_uuid4 E (world s) = (k, w)" by fastforce
  obtain f w' where f: "env_now E w = (f, w')" by fastforce
  show ?thesis
    by (auto simp: create_skill_def mbind_def uuid4_def now_def k f insert_skill_def Let_def
        intro!: skill_change.same skill_change.add_skill)
qed

lemma create_revision_change: "skill_change t (rows s) (rows (snd (create_revision E t sid i c m is os ts fr s)))"
proof -
  obtain q s0 where q: "get_skill t sid s = (q, s0)" by fastforce
  note g = get_skill_cases [OF q]
  show ?thesis
  proof (cases "\<exists>k. q = Inr (Some k)")
    case False
    then show ?thesis using g q by (auto simp: create_revision_def mbind_def intro: skill_change.same)
  next
    case True
    then obtain k where k: "q = Inr (Some k)" "k \<in> set (skills (rows s))" "sk_id k = sid" "sk_tenant_id k = t"
      using g by auto
    obtain rid w where rid: "env_uuid4 E (world s) = (rid, w)" by fastforce
    obtain f w' where f: "env_now E w = (f, w')" by fastforce
    have upper: "\<forall>x \<in> set (revisions (rows s)). rev_skill_id x = sk_id k \<longrightarrow> rev_version x < max_version (rows s) sid + 1"
      using max_version_upper [of _ "rows s" sid] k(3) by fastforce
    show ?thesis
      using k g q upper
      by (auto simp: create_revision_def mbind_def uuid4_def now_def rid f insert_revision_def Let_def
          intro!: skill_change.same skill_change.add_revision [of k])
  qed
qed

lemma revision_update_change:
  assumes "catalog_keys (rows s)" and "k \<in> set (skills (rows s))" and "sk_tenant_id k = t"
    and "r \<in> set (revisions (rows s))" and "rev_skill_id r = sk_id k"
    and "rev_id r' = rev_id r" and "rev_skill_id r' = rev_skill_id r" and "rev_version r' = rev_version r"
  shows "skill_change t (rows s) (rows (snd (save_revision r' s)))"
  using assms
  by (auto simp: save_revision_run [OF assms(1,4,6)] intro: skill_change.same skill_change.change_revision)

lemma approve_revision_change:
  assumes "catalog_keys (rows s)"
  shows "skill_change t (rows s) (rows (snd (approve_revision t sid rid s)))"
proof -
  obtain q s0 where q: "get_revision t sid rid s = (q, s0)" by fastforce
  note g = get_revision_cases [OF q]
  show ?thesis
  proof (cases "\<exists>x. q = Inr (Some x) \<and> rev_status x = SS_draft")
    case False
    then show ?thesis using g q by (auto simp: approve_revision_def mbind_def intro: skill_change.same)
  next
    case True
    then obtain x k where x: "q = Inr (Some x)" "rev_status x = SS_draft" "k \<in> set (skills (rows s))"
      "sk_id k = sid" "sk_tenant_id k = t" "x \<in> set (revisions (rows s))" "rev_skill_id x = sid"
      using g by auto
    have "snd (approve_revision t sid rid s) = snd (save_revision (x\<lparr>rev_status := SS_approved\<rparr>) s)"
      using x g q by (auto simp: approve_revision_def mbind_def split: prod.splits sum.splits)
    then show ?thesis using revision_update_change [OF assms x(3,5,6)] x by simp
  qed
qed

lemma record_evaluation_change:
  assumes "catalog_keys (rows s)"
  shows "skill_change t (rows s) (rows (snd (record_evaluation t sid rid st re s)))"
proof -
  obtain q s0 where q: "get_revision t sid rid s = (q, s0)" by fastforce
  note g = get_revision_cases [OF q]
  show ?thesis
  proof (cases "\<exists>x. q = Inr (Some x)")
    case False
    then show ?thesis using g q by (auto simp: record_evaluation_def mbind_def intro: skill_change.same)
  next
    case True
    then obtain x k where x: "q = Inr (Some x)" "k \<in> set (skills (rows s))"
      "sk_id k = sid" "sk_tenant_id k = t" "x \<in> set (revisions (rows s))" "rev_skill_id x = sid"
      using g by auto
    let ?x = "x\<lparr>rev_evaluation_status := Some st,
      rev_evaluation_result := Some (case re of None \<Rightarrow> [] | Some d \<Rightarrow> d)\<rparr>"
    have "snd (record_evaluation t sid rid st re s) = snd (save_revision ?x s)"
      using x g q by (auto simp: record_evaluation_def mbind_def Let_def split: prod.splits sum.splits)
    then show ?thesis using revision_update_change [OF assms x(2,4,5), of ?x] x by simp
  qed
qed

lemma publish_revision_change:
  assumes keys: "catalog_keys (rows s)"
  shows "skill_change t (rows s) (rows (snd (publish_revision t sid rid s)))"
proof -
  obtain p s0 where p: "get_skill t sid s = (p, s0)" by fastforce
  obtain q s1 where q: "get_revision t sid rid s = (q, s1)" by fastforce
  note gp = get_skill_cases [OF p] and gq = get_revision_cases [OF q]
  show ?thesis
  proof (cases "\<exists>k x. p = Inr (Some k) \<and> q = Inr (Some x) \<and> rev_status x \<in> {SS_approved, SS_published}
      \<and> rev_evaluation_status x = Some ''passed''")
    case False
    have p': "get_skill t sid s = (p, s)" and q': "get_revision t sid rid s = (q, s)"
      using p q gp gq by auto
    have "snd (publish_revision t sid rid s) = s"
    proof -
      have "p = Inr None \<or> p = Inl MultipleResultsFound \<or> (\<exists>k. p = Inr (Some k))"
        "q = Inr None \<or> q = Inl MultipleResultsFound \<or> (\<exists>x. q = Inr (Some x))"
        using gp gq by blast+
      then show ?thesis using False by (auto simp: publish_revision_def mbind_def p' q')
    qed
    then show ?thesis by (simp add: skill_change.same)
  next
    case True
    then obtain k x where x: "p = Inr (Some k)" "q = Inr (Some x)" "rev_status x \<in> {SS_approved, SS_published}"
      "rev_evaluation_status x = Some ''passed''" by blast
    then have k: "k \<in> set (skills (rows s))" "sk_id k = sid" "sk_tenant_id k = t"
      and r: "x \<in> set (revisions (rows s))" "rev_skill_id x = sid" using gp gq by auto
    let ?x = "x\<lparr>rev_status := SS_published\<rparr>"
    let ?k = "k\<lparr>sk_active_revision_id := Some (rev_id x), sk_status := SS_published\<rparr>"
    have x': "(if rev_status x = SS_approved then ?x else x) = ?x" using x(3) by (cases x) auto
    have p': "get_skill t sid s = (Inr (Some k), s)" and q': "get_revision t sid rid s = (Inr (Some x), s)"
      using p q x gp gq by auto
    have "publish_revision t sid rid s = mseq (save_revision ?x) (mseq (save_skill ?k) (ret (Some ?x))) s"
      using x(3,4)
      by (auto simp: publish_revision_def mbind_def [of "get_skill t sid"] mbind_def [of "get_revision t sid rid"]
          p' q' x' Let_def)
    moreover have "save_revision ?x s = (Inr (), s\<lparr>rows := put_revision ?x (rows s)\<rparr>)"
      using put_revision_same [OF keys r(1)] x(3) by (auto simp: save_revision_run [OF keys r(1)])
    ultimately have "rows (snd (publish_revision t sid rid s)) = put_skill ?k (put_revision ?x (rows s))"
      by (simp add: mbind_def save_skill_run)
    then show ?thesis using skill_change.publish [OF k(1,3) r(1) _ x(3,4)] k r by simp
  qed
qed

lemma deprecate_skill_change: "skill_change t (rows s) (rows (snd (deprecate_skill t sid s)))"
proof -
  obtain p s0 where p: "get_skill t sid s = (p, s0)" by fastforce
  with get_skill_cases [OF p] show ?thesis
    by (auto simp: deprecate_skill_def mbind_def Let_def save_skill_run
        intro: skill_change.same skill_change.deprecate)
qed

lemma skill_step_change:
  "catalog_keys (rows s) \<Longrightarrow> skill_change (op_tenant p) (rows s) (rows (skill_step E p s))"
  by (cases p) (simp_all add: create_skill_change create_revision_change approve_revision_change
      publish_revision_change rollback_skill_def record_evaluation_change deprecate_skill_change)

section \<open>Properties\<close>

text \<open>A published skill points at a published revision of its own that passed its evaluation.\<close>

definition catalog_ok :: "db \<Rightarrow> bool" where
  "catalog_ok d \<longleftrightarrow> catalog_keys d \<and>
     (\<forall>k \<in> set (skills d). sk_status k = SS_published \<longleftrightarrow> sk_active_revision_id k \<noteq> None) \<and>
     (\<forall>k \<in> set (skills d). \<forall>i. sk_active_revision_id k = Some i \<longrightarrow>
        (\<exists>r \<in> set (revisions d). rev_id r = i \<and> rev_skill_id r = sk_id k \<and> rev_status r = SS_published
           \<and> rev_evaluation_status r = Some ''passed''))"

definition skill_steps :: "'w env \<Rightarrow> skill_op list \<Rightarrow> 'w st \<Rightarrow> 'w st" where
  "skill_steps E ps s = fold (skill_step E) ps s"

lemma published_kept:
  assumes "skill_change t d d'" and "catalog_keys d" and "r \<in> set (revisions d)" and "rev_status r = SS_published"
  shows "r \<in> set (revisions d')"
  using assms(1)
proof cases
  case (change_revision k x x')
  then have "rev_id r \<noteq> rev_id x'" using assms(2-4) same_key [of rev_id "revisions d" r x]
    by (auto simp: catalog_keys_def)
  then show ?thesis using change_revision(1) assms(3) by (force simp: put_revision_def)
next
  case (publish k x)
  have "x\<lparr>rev_status := SS_published\<rparr> = r" if "rev_id x = rev_id r"
    using that assms(2-4) publish(4) same_key [of rev_id "revisions d" x r] by (auto simp: catalog_keys_def)
  then show ?thesis using publish(1) assms(3) by (force simp: put_revision_def)
qed (use assms(3) in auto)

lemma skill_steps_kept:
  assumes "catalog_keys (rows s)"
  shows "catalog_keys (rows (skill_steps E ps s)) \<and>
    (\<forall>r \<in> set (revisions (rows s)). rev_status r = SS_published \<longrightarrow> r \<in> set (revisions (rows (skill_steps E ps s))))"
  using assms
proof (induction ps arbitrary: s)
  case Nil
  then show ?case by (simp add: skill_steps_def)
next
  case (Cons p ps)
  have ch: "skill_change (op_tenant p) (rows s) (rows (skill_step E p s))"
    using Cons.prems by (rule skill_step_change)
  with Cons.IH [OF skill_change_keys [OF ch Cons.prems]] published_kept [OF ch Cons.prems]
  show ?case by (simp add: skill_steps_def)
qed

lemma put_skill_member:
  "k' \<in> set (skills (put_skill k d)) \<Longrightarrow> k' = k \<or> (k' \<in> set (skills d) \<and> sk_id k' \<noteq> sk_id k)"
  by (auto simp: put_skill_def split: if_splits)

lemma put_revision_keeps_published:
  assumes "catalog_keys d" and "r \<in> set (revisions d)" and "rev_status r = SS_published"
    and "x \<in> set (revisions d)" and "rev_id x' = rev_id x" and "rev_status x \<noteq> SS_published \<or> x' = x"
  shows "r \<in> set (revisions (put_revision x' d))"
proof (cases "rev_id r = rev_id x'")
  case True
  then have "r = x" using same_key [of rev_id "revisions d" r x] assms by (auto simp: catalog_keys_def)
  with assms True show ?thesis by (force simp: put_revision_def)
next
  case False
  then show ?thesis using assms(2) by (force simp: put_revision_def)
qed

definition points_well :: "db \<Rightarrow> skill \<Rightarrow> bool" where
  "points_well d k \<longleftrightarrow> (sk_status k = SS_published \<longleftrightarrow> sk_active_revision_id k \<noteq> None) \<and>
     (\<forall>i. sk_active_revision_id k = Some i \<longrightarrow>
        (\<exists>r \<in> set (revisions d). rev_id r = i \<and> rev_skill_id r = sk_id k \<and> rev_status r = SS_published
           \<and> rev_evaluation_status r = Some ''passed''))"

lemma catalog_ok_iff: "catalog_ok d \<longleftrightarrow> catalog_keys d \<and> (\<forall>k \<in> set (skills d). points_well d k)"
  by (auto simp: catalog_ok_def points_well_def)

lemma points_well_kept:
  assumes "points_well d k"
    and "\<And>r. r \<in> set (revisions d) \<Longrightarrow> rev_status r = SS_published \<Longrightarrow> r \<in> set (revisions d')"
  shows "points_well d' k"
  using assms unfolding points_well_def by metis

lemma skill_change_ok:
  assumes ch: "skill_change t d d'" and ok: "catalog_ok d"
  shows "catalog_ok d'"
proof -
  have keys: "catalog_keys d" and well: "\<And>k. k \<in> set (skills d) \<Longrightarrow> points_well d k"
    using ok by (auto simp: catalog_ok_iff)
  have kept: "points_well d' k" if "k \<in> set (skills d)" for k
    using points_well_kept [OF well [OF that]] published_kept [OF ch keys] by blast
  have "points_well d' k" if k: "k \<in> set (skills d')" for k
    using ch
  proof cases
    case (publish k0 r)
    let ?r = "r\<lparr>rev_status := SS_published\<rparr>"
    let ?k = "k0\<lparr>sk_active_revision_id := Some (rev_id r), sk_status := SS_published\<rparr>"
    have "?r \<in> set (revisions d')" using publish(1,4) by (force simp: put_revision_def)
    then have "points_well d' ?k"
      unfolding points_well_def using publish(5,7) by (auto intro!: bexI [of _ ?r])
    then show ?thesis using k kept publish(1) by (auto dest!: put_skill_member)
  next
    case (deprecate k0)
    then have "points_well d' (k0\<lparr>sk_status := SS_deprecated, sk_active_revision_id := None\<rparr>)"
      by (simp add: points_well_def)
    then show ?thesis using k kept deprecate(1) by (auto dest!: put_skill_member)
  next
    case (add_skill k0)
    then have "points_well d' k0" by (simp add: points_well_def)
    then show ?thesis using k kept add_skill(1) by auto
  qed (use k kept in auto)
  then show ?thesis using skill_change_keys [OF ch keys] by (simp add: catalog_ok_iff)
qed

text \<open>
  C14. Whatever registry operations run, in whatever order and whether they succeed or raise, a
  skill is published exactly when it has an active revision, and that revision is one of its own,
  is published and passed its evaluation.
\<close>

theorem active_revision_is_published:
  assumes "catalog_ok (rows s)"
  shows "catalog_ok (rows (skill_steps E ps s))"
  using assms
proof (induction ps arbitrary: s)
  case Nil
  then show ?case by (simp add: skill_steps_def)
next
  case (Cons p ps)
  then have "catalog_keys (rows s)" by (simp add: catalog_ok_iff)
  from skill_change_ok [OF skill_step_change [OF this] Cons.prems] Cons.IH
  show ?case by (simp add: skill_steps_def)
qed

text \<open>
  A published revision is immutable: no sequence of registry operations changes or removes
  its row.
\<close>

theorem published_revision_immutable:
  assumes "catalog_keys (rows s)" and "r \<in> set (revisions (rows s))" and "rev_status r = SS_published"
  shows "r \<in> set (revisions (rows (skill_steps E ps s)))"
  using skill_steps_kept [OF assms(1)] assms(2,3) by blast

text \<open>The skills of a tenant.\<close>

definition tenant_skills :: "uuid \<Rightarrow> db \<Rightarrow> skill list" where
  "tenant_skills t d = filter (\<lambda>k. sk_tenant_id k = t) (skills d)"

lemma filter_map_id:
  assumes "\<And>x. x \<in> set xs \<Longrightarrow> P (f x) = P x" and "\<And>x. x \<in> set xs \<Longrightarrow> P x \<Longrightarrow> f x = x"
  shows "filter P (map f xs) = filter P xs"
  using assms by (induction xs) auto

lemma put_skill_tenant:
  assumes "catalog_keys d" and "k0 \<in> set (skills d)" and "sk_id k = sk_id k0" and "sk_tenant_id k = sk_tenant_id k0"
    and "sk_tenant_id k0 \<noteq> t"
  shows "tenant_skills t (put_skill k d) = tenant_skills t d"
proof -
  have same: "x = k0" if "x \<in> set (skills d)" "sk_id x = sk_id k0" for x
    using same_key [of sk_id "skills d" x k0] assms(1,2) that by (auto simp: catalog_keys_def)
  show ?thesis
    unfolding tenant_skills_def put_skill_def
    by simp (rule filter_map_id; use same assms(3-5) in auto)
qed

text \<open>C15. Tenants are isolated: an operation of one tenant leaves the skills of every other unchanged.\<close>

theorem skill_ops_tenant_isolated:
  assumes "catalog_keys (rows s)" and "t \<noteq> op_tenant p"
  shows "tenant_skills t (rows (skill_step E p s)) = tenant_skills t (rows s)"
  using skill_step_change [OF assms(1), of p E]
proof cases
  case (publish k r)
  have "tenant_skills t (put_skill (k\<lparr>sk_active_revision_id := Some (rev_id r), sk_status := SS_published\<rparr>) (rows s)) =
      tenant_skills t (rows s)"
    by (rule put_skill_tenant [OF assms(1) publish(2)]) (use publish(3) assms(2) in auto)
  then show ?thesis using publish(1) by (simp add: tenant_skills_def put_skill_def put_revision_def)
next
  case (deprecate k)
  show ?thesis
    unfolding deprecate(1)
    by (rule put_skill_tenant [OF assms(1) deprecate(2)]) (use deprecate(3) assms(2) in auto)
qed (use assms(2) in \<open>auto simp: tenant_skills_def put_revision_def\<close>)

section \<open>Witnesses\<close>

text \<open>One tenant, one published skill.\<close>

definition pub_skill :: skill where
  "pub_skill = \<lparr>sk_id = 21, sk_tenant_id = 1, sk_name = ''deploy'', sk_description = [],
     sk_status = SS_published, sk_active_revision_id = Some 31, sk_owner_user_id = None, sk_created_at = 0\<rparr>"

definition pub_revision :: skill_revision where
  "pub_revision = \<lparr>rev_id = 31, rev_skill_id = 21, rev_version = 1, rev_status = SS_published,
     rev_instruction = ''do'', rev_manifest = [], rev_input_schema = [], rev_output_schema = [],
     rev_required_tools = [], rev_change_reason = [], rev_evaluation_status = Some ''passed'',
     rev_evaluation_result = None, rev_created_from_run_id = None, rev_created_at = 0\<rparr>"

definition skill_st :: "nat st" where
  "skill_st = sample_st\<lparr>rows := empty_db\<lparr>skills := [pub_skill], revisions := [pub_revision]\<rparr>\<rparr>"

lemma skill_st_ok: "catalog_ok (rows skill_st)"
  by (simp add: catalog_ok_def catalog_keys_def skill_st_def pub_skill_def pub_revision_def)

lemma skill_st_keys: "catalog_keys (rows skill_st)"
  using skill_st_ok by (simp add: catalog_ok_def)

definition skill_session :: "skill_op list" where
  "skill_session = [Record_evaluation 1 21 31 ''failed'' None, Create_revision 1 21 ''better'' ''why'' [] [] [] [] None,
     Publish_revision 1 21 31, Deprecate_skill 1 21]"

theorem active_revision_witness: "catalog_ok (rows (skill_steps sample_env skill_session skill_st))"
  by (rule active_revision_is_published [OF skill_st_ok])

theorem published_revision_witness:
  "pub_revision \<in> set (revisions (rows (skill_steps sample_env skill_session skill_st)))"
  by (rule published_revision_immutable [OF skill_st_keys]) (simp_all add: skill_st_def pub_revision_def)

theorem tenant_isolated_witness:
  "tenant_skills 1 (rows (skill_step sample_env (Deprecate_skill 2 21) skill_st)) = [pub_skill]"
  using skill_ops_tenant_isolated [OF skill_st_keys, of 1 "Deprecate_skill 2 21" sample_env]
  by (simp add: tenant_skills_def skill_st_def pub_skill_def)

end
