(* ===== verification/Context.thy ===== *)
theory Context
  imports Executor Repository Skills
begin

text \<open>
  harness/llm/types.py and usage.py, harness/runtime/context.py and compaction.py: the messages a
  run sends to the model, built from its conversation, its steps and their recorded tool results,
  and the folding of old steps into a summary. The model itself is a parameter: a function of the
  messages, the tool specifications and the world, which answers or raises.
\<close>

section \<open>Messages (llm/types.py)\<close>

record tool_spec =
  ts_name :: string
  ts_description :: string
  ts_parameters :: dict

definition to_spec :: "'w tool \<Rightarrow> tool_spec" where
  "to_spec t = \<lparr>ts_name = tl_name t, ts_description = tl_description t, ts_parameters = tl_parameters t\<rparr>"

definition spec_to_openai :: "tool_spec \<Rightarrow> dict" where
  "spec_to_openai t =
     [(''type'', JStr ''function''),
      (''function'', JObj [(''name'', JStr (ts_name t)), (''description'', JStr (ts_description t)),
                           (''parameters'', JObj (ts_parameters t))])]"

record llm_message =
  lm_role :: message_role
  lm_content :: "string option"
  lm_tool_calls :: "tool_call list"
  lm_tool_call_id :: "string option"
  lm_name :: "string option"
  lm_provider_fields :: dict

definition message :: "message_role \<Rightarrow> string option \<Rightarrow> llm_message" where
  "message role content = \<lparr>lm_role = role, lm_content = content, lm_tool_calls = [], lm_tool_call_id = None,
     lm_name = None, lm_provider_fields = []\<rparr>"

definition PROVIDER_MESSAGE_FIELDS :: "string list" where
  "PROVIDER_MESSAGE_FIELDS = [''reasoning'', ''reasoning_content'', ''reasoning_details'']"

definition message_to_openai :: "(json \<Rightarrow> string) \<Rightarrow> string list option \<Rightarrow> llm_message \<Rightarrow> dict" where
  "message_to_openai dumps provider_fields m =
     (let base = [(''role'', JStr (message_role_str (lm_role m)))]
            @ (case lm_content m of None \<Rightarrow> [] | Some c \<Rightarrow> [(''content'', JStr c)])
            @ (if lm_tool_calls m = [] then []
               else [(''tool_calls'', JList (map (\<lambda>c. JObj
                  [(''id'', JStr (tc_id c)), (''type'', JStr ''function''),
                   (''function'', JObj [(''name'', JStr (tc_name c)),
                                        (''arguments'', JStr (dumps (tc_arguments c)))])]) (lm_tool_calls m)))])
            @ (case lm_tool_call_id m of None \<Rightarrow> [] | Some i \<Rightarrow> [(''tool_call_id'', JStr i)])
            @ (case lm_name m of None \<Rightarrow> [] | Some n \<Rightarrow> [(''name'', JStr n)]);
          allowed = (case provider_fields of None \<Rightarrow> PROVIDER_MESSAGE_FIELDS | Some a \<Rightarrow> a)
      in fold (\<lambda>(k, v) acc. if k \<in> set allowed then dict_set k v acc else acc) (lm_provider_fields m) base)"

datatype usage_source = US_provider | US_estimated

record usage =
  u_prompt_tokens :: int
  u_completion_tokens :: int
  u_total_tokens :: int
  u_source :: usage_source
  u_reasoning_tokens :: int

record llm_response =
  lr_content :: "string option"
  lr_tool_calls :: "tool_call list"
  lr_finish_reason :: string
  lr_usage :: usage
  lr_model :: string
  lr_provider_fields :: dict

type_synonym 'w llm = "llm_message list \<Rightarrow> tool_spec list option \<Rightarrow> 'w \<Rightarrow> (exn + llm_response) \<times> 'w"

definition llm_complete :: "'w llm \<Rightarrow> llm_message list \<Rightarrow> tool_spec list option \<Rightarrow> ('w, llm_response) op" where
  "llm_complete L ms tools = (\<lambda>s. let (r, w) = L ms tools (world s) in (r, s\<lparr>world := w\<rparr>))"

definition record_usage :: "'w env \<Rightarrow> uuid \<Rightarrow> uuid option \<Rightarrow> string \<Rightarrow> usage \<Rightarrow> ('w, unit) op" where
  "record_usage E tenant rid model u =
     mbind (uuid4 E) (\<lambda>k. mbind (now E) (\<lambda>t.
       insert_usage \<lparr>us_id = k, us_tenant_id = tenant, us_run_id = rid, us_model = model,
         us_prompt_tokens = u_prompt_tokens u, us_completion_tokens = u_completion_tokens u,
         us_total_tokens = u_total_tokens u, us_created_at = t\<rparr>))"

section \<open>Loading a run's history (runtime/context.py)\<close>

definition load_messages :: "db \<Rightarrow> uuid \<Rightarrow> agent_message list" where
  "load_messages d i = sort_key msg_created_at (filter (\<lambda>m. msg_run_id m = i) (messages d))"

definition load_steps :: "db \<Rightarrow> uuid \<Rightarrow> agent_step list" where
  "load_steps d i = sort_key step_step_no (filter (\<lambda>p. step_run_id p = i) (steps d))"

text \<open>The executions of a step of the run, by call index.\<close>

definition load_tool_executions_by_step :: "db \<Rightarrow> uuid \<Rightarrow> int \<Rightarrow> tool_execution list" where
  "load_tool_executions_by_step d i n =
     filter (\<lambda>e. ex_step_no e = n)
       (sort_key ex_step_no (sort_key ex_call_index (filter (\<lambda>e. ex_run_id e = i) (execs d))))"

definition covers :: "dict \<Rightarrow> int" where
  "covers payload = (case dict_get payload ''covers_up_to_step_no'' of Some (JInt n) \<Rightarrow> n | _ \<Rightarrow> -1)"

definition latest_covered_step_no :: "agent_step list \<Rightarrow> int" where
  "latest_covered_step_no ps =
     foldl (\<lambda>covered p. if step_type p = ST_summary then max covered (covers (step_payload p)) else covered) (-1) ps"

definition key_error :: "string \<Rightarrow> exn" where
  "key_error k = PyError ''KeyError'' k"

text \<open>A recorded tool call, and the calls a step's payload records.\<close>

definition call_of_json :: "json \<Rightarrow> exn + tool_call" where
  "call_of_json j =
     (case j of
        JObj d \<Rightarrow>
          (case dict_get d ''id'' of
             Some (JStr i) \<Rightarrow>
               (case dict_get d ''name'' of
                  Some (JStr n) \<Rightarrow>
                    (case dict_get d ''arguments'' of
                       Some a \<Rightarrow> Inr \<lparr>tc_id = i, tc_name = n, tc_arguments = a\<rparr>
                     | None \<Rightarrow> Inl (key_error ''arguments''))
                | _ \<Rightarrow> Inl (key_error ''name''))
           | _ \<Rightarrow> Inl (key_error ''id''))
      | _ \<Rightarrow> Inl (PyError ''TypeError'' ''not subscriptable''))"

definition json_of_call :: "tool_call \<Rightarrow> json" where
  "json_of_call c = JObj [(''id'', JStr (tc_id c)), (''name'', JStr (tc_name c)), (''arguments'', tc_arguments c)]"

fun calls_of :: "json list \<Rightarrow> exn + tool_call list" where
  "calls_of [] = Inr []"
| "calls_of (j # js) =
     (case call_of_json j of Inl e \<Rightarrow> Inl e
      | Inr c \<Rightarrow> (case calls_of js of Inl e \<Rightarrow> Inl e | Inr cs \<Rightarrow> Inr (c # cs)))"

definition payload_tool_calls :: "dict \<Rightarrow> json list" where
  "payload_tool_calls payload = (case dict_get payload ''tool_calls'' of Some (JList js) \<Rightarrow> js | _ \<Rightarrow> [])"

definition payload_content :: "dict \<Rightarrow> string option" where
  "payload_content payload = (case dict_get payload ''content'' of Some (JStr c) \<Rightarrow> Some c | _ \<Rightarrow> None)"

definition tool_result_content :: "tool_execution option \<Rightarrow> json" where
  "tool_result_content x =
     (case x of
        None \<Rightarrow> JObj [(''error'', JStr ''execution record missing'')]
      | Some e \<Rightarrow>
          if ex_status e = TS_succeeded
          then JObj (case ex_result e of None \<Rightarrow> [] | Some r \<Rightarrow> r)
          else JObj [(''error'', JStr (case ex_error e of None \<Rightarrow> ''unknown failure''
                                        | Some m \<Rightarrow> if m = [] then ''unknown failure'' else m))])"

text \<open>\<open>{e.call_index: e for e in executions}.get(index)\<close>: the last one with the index.\<close>

definition execution_at :: "tool_execution list \<Rightarrow> nat \<Rightarrow> tool_execution option" where
  "execution_at es n = find (\<lambda>e. ex_call_index e = int n) (rev es)"

definition llm_call_step_to_messages ::
  "'w env \<Rightarrow> agent_step \<Rightarrow> tool_execution list \<Rightarrow> exn + llm_message list" where
  "llm_call_step_to_messages E p es =
     (case calls_of (payload_tool_calls (step_payload p)) of
        Inl e \<Rightarrow> Inl e
      | Inr cs \<Rightarrow> Inr
          ((message MR_assistant (payload_content (step_payload p)))\<lparr>
             lm_tool_calls := cs,
             lm_provider_fields := (case dict_get (step_payload p) ''provider_fields'' of
                                      Some (JObj f) \<Rightarrow> f | _ \<Rightarrow> [])\<rparr>
           # map (\<lambda>(n, c). (message MR_tool (Some (env_dumps E (tool_result_content (execution_at es n)))))
                             \<lparr>lm_tool_call_id := Some (tc_id c)\<rparr>)
                 (enumerate 0 cs)))"

section \<open>Skills in the prompt\<close>

text \<open>\<open>re.findall(r"[a-z0-9_:-]{3,}", s)\<close>: the maximal runs of at least three word characters.\<close>

definition word_char :: "char \<Rightarrow> bool" where
  "word_char c = (let n = (of_char c :: nat) in
     (97 \<le> n \<and> n \<le> 122) \<or> (48 \<le> n \<and> n \<le> 57) \<or> n = 95 \<or> n = 58 \<or> n = 45)"

function find_words :: "string \<Rightarrow> string list" where
  "find_words [] = []"
| "find_words (c # cs) =
     (if word_char c
      then (let w = takeWhile word_char (c # cs); rest = dropWhile word_char cs in
            (if 3 \<le> length w then [w] else []) @ find_words rest)
      else find_words cs)"
  by pat_completeness auto

termination
  by (relation "measure length") (auto simp: le_imp_less_Suc length_dropWhile_le)

definition shared_words :: "string \<Rightarrow> string \<Rightarrow> nat" where
  "shared_words a b = length (remdups (filter (\<lambda>w. w \<in> set (find_words b)) (find_words a)))"

definition skill_text :: "skill \<Rightarrow> string" where
  "skill_text k = str_lower (sk_name k @ '' '' @ sk_description k)"

definition catalog_line :: "skill \<Rightarrow> string" where
  "catalog_line k = ''- '' @ sk_name k @ '': ''
     @ (if sk_description k = [] then ''(no description)'' else sk_description k)"

text \<open>Two line breaks, as the prompt's parts are separated.\<close>

definition nl :: string where "nl = [CHR 0x0A]"

definition build_skill_context :: "'w env \<Rightarrow> ('w, string \<times> string) op" where
  "build_skill_context E =
     mbind (gets cur) (\<lambda>run.
     mbind (case run_active_skill_revision_id run of
              None \<Rightarrow> ret []
            | Some rid \<Rightarrow>
                mbind (get_revision_by_id (run_tenant_id run) rid) (\<lambda>x. ret
                  (case x of None \<Rightarrow> []
                   | Some (k, r) \<Rightarrow> nl @ nl @ ''Active skill: '' @ sk_name k @ '' v'' @ str_of_int (rev_version r)
                                     @ nl @ rev_instruction r))) (\<lambda>active_skill.
     mbind (gets rows) (\<lambda>d.
       let published = list_published_skills d (run_tenant_id run) in
       if published = [] then ret ([], active_skill)
       else
         let goal = str_lower (run_goal run);
             ranked = take 20 (sort_key (\<lambda>k. - int (shared_words goal (skill_text k)))
                                (sort_key sk_name published))
         in ret (nl @ nl @ ''Published skill catalog:'' @ nl @ str_join nl (map catalog_line ranked) @ nl
                 @ ''If one of these skills is relevant, call `use_skill` with its exact name ''
                 @ ''before proceeding. If several are similarly relevant, do not guess: ''
                 @ ''ask the user or choose explicitly with `use_skill`.'', active_skill))))"

text \<open>The tenant's average success of a revision: SQL's \<open>AVG(CASE WHEN success THEN 1 ELSE 0)\<close>.\<close>

definition success_rate :: "db \<Rightarrow> uuid \<Rightarrow> uuid \<Rightarrow> rat" where
  "success_rate d tenant rid =
     (let us = filter (\<lambda>u. su_tenant_id u = tenant \<and> su_revision_id u = rid) (skill_usages d) in
      if us = [] then 0
      else of_nat (length (filter (\<lambda>u. su_success u = Some True) us)) / of_nat (length us))"

definition select_skill_candidate :: "('w, (skill \<times> skill_revision) option) op" where
  "select_skill_candidate =
     mbind (gets cur) (\<lambda>run. mbind (gets rows) (\<lambda>d.
       let goal = str_lower (run_goal run); tenant = run_tenant_id run in
       mbind (map_each (\<lambda>k.
           mbind (get_active_revision_by_skill_name tenant (sk_name k)) (\<lambda>x.
             ret (shared_words goal (skill_text k),
                  case x of None \<Rightarrow> 0 | Some (_, r) \<Rightarrow> success_rate d tenant (rev_id r), k)))
         (list_published_skills d tenant)) (\<lambda>scored0.
       let scored = sort_key (\<lambda>(l, q, k). - int l)
                      (sort_key (\<lambda>(l, q, k). - q) (sort_key (\<lambda>(l, q, k). sk_name k) scored0)) in
       case scored of
         [] \<Rightarrow> ret None
       | (l0, q0, k0) # rest \<Rightarrow>
           if l0 < 3 then ret None
           else if (case rest of [] \<Rightarrow> False
                    | (l1, q1, k1) # _ \<Rightarrow> int l0 - int l1 < 2 \<and> (l0 \<noteq> l1 \<or> q0 - q1 < 1 / 5))
           then ret None
           else get_active_revision_by_skill_name tenant (sk_name k0))))"

section \<open>The prompt\<close>

definition system_prompt :: "string \<Rightarrow> string \<Rightarrow> string \<Rightarrow> string" where
  "system_prompt goal skill_catalog active_skill =
     ''You are an autonomous agent working towards a goal on behalf of a user.'' @ nl @ nl
     @ ''Goal: '' @ goal @ nl @ nl
     @ ''Call the `finish` tool once the goal is achieved, passing your result. ''
     @ ''Call `ask_user` if you need clarification before continuing.''
     @ skill_catalog @ active_skill"

definition summary_text :: "dict \<Rightarrow> string" where
  "summary_text payload = (case dict_get payload ''summary'' of Some (JStr t) \<Rightarrow> t | _ \<Rightarrow> [])"

text \<open>A step's part of the timeline: its messages, or nothing when a summary covers it.\<close>

definition step_chunk ::
  "'w env \<Rightarrow> db \<Rightarrow> uuid \<Rightarrow> int \<Rightarrow> agent_step \<Rightarrow> exn + (datetime \<times> llm_message list) list" where
  "step_chunk E d i covered p =
     (if step_type p = ST_llm_call
      then (if step_step_no p \<le> covered then Inr []
            else (case llm_call_step_to_messages E p (load_tool_executions_by_step d i (step_step_no p)) of
                    Inl e \<Rightarrow> Inl e | Inr ms \<Rightarrow> Inr [(step_created_at p, ms)]))
      else if step_type p = ST_summary
      then Inr [(step_created_at p,
                 [message MR_system (Some (''[Earlier steps summarized]: '' @ summary_text (step_payload p)))])]
      else Inr [])"

fun concat_sum :: "('x \<Rightarrow> exn + 'y list) \<Rightarrow> 'x list \<Rightarrow> exn + 'y list" where
  "concat_sum f [] = Inr []"
| "concat_sum f (x # xs) =
     (case f x of Inl e \<Rightarrow> Inl e
      | Inr ys \<Rightarrow> (case concat_sum f xs of Inl e \<Rightarrow> Inl e | Inr zs \<Rightarrow> Inr (ys @ zs)))"

definition lift_sum :: "exn + 'a \<Rightarrow> ('s, exn, 'a) prog" where
  "lift_sum x = (case x of Inl e \<Rightarrow> raise e | Inr a \<Rightarrow> ret a)"

definition conversation_chunks :: "db \<Rightarrow> uuid \<Rightarrow> (datetime \<times> llm_message list) list" where
  "conversation_chunks d i =
     map (\<lambda>m. (msg_created_at m, [message (msg_role m) (Some (msg_content m))])) (load_messages d i)"

definition build_llm_messages :: "'w env \<Rightarrow> ('w, llm_message list) op" where
  "build_llm_messages E =
     mbind (gets cur) (\<lambda>run. mbind (gets rows) (\<lambda>d.
       let i = run_id run; ps = load_steps d i; covered = latest_covered_step_no ps in
       mbind (lift_sum (concat_sum (step_chunk E d i covered) ps)) (\<lambda>step_chunks.
         let timeline = sort_key fst (conversation_chunks d i @ step_chunks) in
         mbind (build_skill_context E) (\<lambda>(skill_catalog, active_skill).
           ret (message MR_system (Some (system_prompt (run_goal run) skill_catalog active_skill))
                # concat (map snd timeline))))))"

section \<open>Compaction (runtime/compaction.py)\<close>

definition KEEP_RECENT_STEPS :: nat where "KEEP_RECENT_STEPS = 10"

definition CHARS_PER_TOKEN_ESTIMATE :: int where "CHARS_PER_TOKEN_ESTIMATE = 4"

definition SUMMARIZE_INSTRUCTION :: string where
  "SUMMARIZE_INSTRUCTION =
     ''Summarize the tool calls, results, and reasoning above concisely, in a few ''
     @ ''sentences. Preserve concrete facts, findings, and conclusions that would be ''
     @ ''needed to continue the task. Do not include pleasantries.''"

definition estimate_tokens :: "(json \<Rightarrow> string) \<Rightarrow> llm_message list \<Rightarrow> int" where
  "estimate_tokens str ms =
     (\<Sum>m\<leftarrow>ms. int (length (case lm_content m of None \<Rightarrow> [] | Some c \<Rightarrow> c))
        + (\<Sum>c\<leftarrow>lm_tool_calls m. int (length (tc_name c)) + int (length (str (tc_arguments c)))))
     div CHARS_PER_TOKEN_ESTIMATE"

definition uncovered_steps :: "agent_step list \<Rightarrow> agent_step list" where
  "uncovered_steps ps =
     filter (\<lambda>p. step_type p = ST_llm_call \<and> latest_covered_step_no ps < step_step_no p) ps"

definition maybe_compact :: "'w env \<Rightarrow> 'w llm \<Rightarrow> int option \<Rightarrow> rat \<Rightarrow> ('w, usage option) op" where
  "maybe_compact E L context_window_tokens threshold_fraction =
     mbind (gets cur) (\<lambda>run. mbind (gets rows) (\<lambda>d.
       let i = run_id run;
           ps = load_steps d i;
           uncovered = uncovered_steps ps;
           messages_of = (\<lambda>qs. concat_sum (\<lambda>p. llm_call_step_to_messages E p
                            (load_tool_executions_by_step d i (step_step_no p))) qs)
       in if length uncovered \<le> KEEP_RECENT_STEPS then ret None
          else
            mbind (lift_sum (messages_of uncovered)) (\<lambda>uncovered_messages.
              let context_limit = (case context_window_tokens of None \<Rightarrow> run_token_budget run
                                   | Some n \<Rightarrow> if n = 0 then run_token_budget run else n) in
              if of_int (estimate_tokens (env_str E) uncovered_messages) < of_int context_limit * threshold_fraction
              then ret None
              else
                let to_summarize = take (length uncovered - KEEP_RECENT_STEPS) uncovered;
                    covers_up_to_step_no = step_step_no (last to_summarize)
                in mbind (lift_sum (messages_of to_summarize)) (\<lambda>ms.
                   mbind (llm_complete L (ms @ [message MR_user (Some SUMMARIZE_INSTRUCTION)]) None) (\<lambda>response.
                   mseq (record_usage E (run_tenant_id run) (Some i) (lr_model response) (lr_usage response))
                   (let existing_summary_count = length (filter (\<lambda>p. step_type p = ST_summary) ps);
                        summary_step_no = - (int existing_summary_count + 1)
                    in mbind (add_step E i summary_step_no ST_summary
                          [(''summary'', JStr (case lr_content response of None \<Rightarrow> [] | Some c \<Rightarrow> c)),
                           (''covers_up_to_step_no'', JInt covers_up_to_step_no)] None) (\<lambda>_.
                       mseq commit (ret (Some (lr_usage response))))))))))"

section \<open>The transcript protocol\<close>

text \<open>
  What a chat completion API accepts: a tool message only as the answer to a tool call of the
  assistant message before it, one answer per call, in order, before anything else. The first
  argument holds the calls still to be answered.
\<close>

fun transcript_ok :: "string list \<Rightarrow> llm_message list \<Rightarrow> bool" where
  "transcript_ok [] [] = True"
| "transcript_ok (i # ids) [] = False"
| "transcript_ok [] (m # ms) = (lm_role m \<noteq> MR_tool \<and> transcript_ok (map tc_id (lm_tool_calls m)) ms)"
| "transcript_ok (i # ids) (m # ms) =
     (lm_role m = MR_tool \<and> lm_tool_call_id m = Some i \<and> transcript_ok ids ms)"

lemma transcript_ok_append: "transcript_ok ids xs \<Longrightarrow> transcript_ok [] ys \<Longrightarrow> transcript_ok ids (xs @ ys)"
  by (induction ids xs rule: transcript_ok.induct) auto

lemma transcript_ok_concat: "(\<And>x. x \<in> set xs \<Longrightarrow> transcript_ok [] x) \<Longrightarrow> transcript_ok [] (concat xs)"
  by (induction xs) (auto intro: transcript_ok_append)

lemma message_simps [simp]:
  "lm_role (message r c) = r" "lm_content (message r c) = c" "lm_tool_calls (message r c) = []"
  "lm_tool_call_id (message r c) = None"
  by (simp_all add: message_def)

lemma transcript_ok_answers:
  "transcript_ok (map tc_id cs)
     (map (\<lambda>(n, c). (message MR_tool (g n))\<lparr>lm_tool_call_id := Some (tc_id c)\<rparr>) (enumerate k cs))"
  by (induction cs arbitrary: k) auto

lemma llm_call_step_transcript:
  "llm_call_step_to_messages E p es = Inr ms \<Longrightarrow> transcript_ok [] ms"
  by (auto simp: llm_call_step_to_messages_def transcript_ok_answers split: sum.splits)

lemma concat_sum_member:
  "concat_sum f xs = Inr ys \<Longrightarrow> y \<in> set ys \<Longrightarrow> \<exists>x \<in> set xs. \<exists>zs. f x = Inr zs \<and> y \<in> set zs"
  by (induction xs arbitrary: ys) (auto split: sum.splits)

lemma step_chunk_transcript:
  "step_chunk E d i c p = Inr cs \<Longrightarrow> x \<in> set cs \<Longrightarrow> transcript_ok [] (snd x)"
  by (auto simp: step_chunk_def split: if_splits sum.splits dest: llm_call_step_transcript)

lemma build_llm_messages_shape:
  assumes "build_llm_messages E s = (Inr ms, s')"
  obtains sys chunks where "ms = message MR_system (Some sys) # concat (map snd
      (sort_key fst (conversation_chunks (rows s) (run_id (cur s)) @ chunks)))"
    and "concat_sum (step_chunk E (rows s) (run_id (cur s))
          (latest_covered_step_no (load_steps (rows s) (run_id (cur s))))) (load_steps (rows s) (run_id (cur s))) = Inr chunks"
proof -
  let ?d = "rows s" and ?i = "run_id (cur s)"
  let ?ch = "concat_sum (step_chunk E ?d ?i (latest_covered_step_no (load_steps ?d ?i))) (load_steps ?d ?i)"
  from assms obtain chunks where ch: "?ch = Inr chunks"
    by (cases ?ch) (auto simp: build_llm_messages_def mbind_def lift_sum_def Let_def)
  obtain r t where r: "build_skill_context E s = (r, t)" by fastforce
  from assms ch r obtain a b where "r = Inr (a, b)"
    by (cases r) (auto simp: build_llm_messages_def mbind_def lift_sum_def Let_def)
  with assms ch r have "ms = message MR_system (Some (system_prompt (run_goal (cur s)) a b)) # concat (map snd
      (sort_key fst (conversation_chunks ?d ?i @ chunks)))"
    by (auto simp: build_llm_messages_def mbind_def lift_sum_def Let_def)
  then show thesis by (rule that [OF _ ch])
qed

text \<open>
  C16. The messages sent to the model are a valid transcript whatever was recorded: every tool call
  of every step is followed by exactly its answers, in order, also where an execution record is
  missing, and no tool message stands alone (the stored conversation holding no tool messages).
\<close>

theorem prompt_is_valid_transcript:
  assumes "build_llm_messages E s = (Inr ms, s')"
    and "\<And>m. m \<in> set (messages (rows s)) \<Longrightarrow> msg_role m \<noteq> MR_tool"
  shows "transcript_ok [] ms"
  using assms(1)
proof (cases rule: build_llm_messages_shape)
  case (1 sys chunks)
  have "transcript_ok [] (snd x)" if "x \<in> set (conversation_chunks (rows s) (run_id (cur s)) @ chunks)" for x
  proof -
    from that consider "x \<in> set (conversation_chunks (rows s) (run_id (cur s)))" | "x \<in> set chunks" by auto
    then show ?thesis
    proof cases
      case 1
      then show ?thesis using assms(2) by (auto simp: conversation_chunks_def load_messages_def)
    next
      case 2
      then show ?thesis using concat_sum_member [OF \<open>concat_sum _ _ = _\<close>] step_chunk_transcript by blast
    qed
  qed
  then have "transcript_ok [] (concat (map snd (sort_key fst (conversation_chunks (rows s) (run_id (cur s)) @ chunks))))"
    by (intro transcript_ok_concat) auto
  with 1(1) show ?thesis by simp
qed

section \<open>What compaction leaves\<close>

lemma latest_covered_fold:
  "foldl (\<lambda>covered p. if step_type p = ST_summary then max covered (covers (step_payload p)) else covered) a ps
   = fold max (map (\<lambda>p. covers (step_payload p)) (filter (\<lambda>p. step_type p = ST_summary) ps)) a"
  by (induction ps arbitrary: a) (auto simp: max.commute)

lemma latest_covered_Max:
  "latest_covered_step_no ps =
     Max (insert (-1) ((\<lambda>p. covers (step_payload p)) ` {p \<in> set ps. step_type p = ST_summary}))"
proof -
  have "latest_covered_step_no ps =
      fold max (map (\<lambda>p. covers (step_payload p)) (filter (\<lambda>p. step_type p = ST_summary) ps)) (-1)"
    unfolding latest_covered_step_no_def by (rule latest_covered_fold)
  also have "\<dots> = Max (set ((-1) # map (\<lambda>p. covers (step_payload p)) (filter (\<lambda>p. step_type p = ST_summary) ps)))"
    by (rule Max.set_eq_fold [symmetric])
  finally show ?thesis by (simp add: image_set)
qed

lemma load_steps_snoc:
  assumes "step_run_id p = i"
  shows "set (load_steps (d\<lparr>steps := steps d @ [p]\<rparr>) i) = insert p (set (load_steps d i))"
  using assms by (auto simp: load_steps_def)

lemma latest_covered_snoc:
  assumes "step_run_id p = i" and "step_type p = ST_summary"
  shows "latest_covered_step_no (load_steps (d\<lparr>steps := steps d @ [p]\<rparr>) i) =
    max (covers (step_payload p)) (latest_covered_step_no (load_steps d i))"
proof -
  let ?A = "(\<lambda>p. covers (step_payload p)) ` {q \<in> set (load_steps d i). step_type q = ST_summary}"
  have "(\<lambda>p. covers (step_payload p)) ` {q \<in> set (load_steps (d\<lparr>steps := steps d @ [p]\<rparr>) i). step_type q = ST_summary} =
      insert (covers (step_payload p)) ?A"
    using assms by (auto simp: load_steps_snoc)
  moreover have "Max (insert (-1) (insert (covers (step_payload p)) ?A)) =
      max (covers (step_payload p)) (Max (insert (-1) ?A))"
    by (subst insert_commute, subst Max_insert) auto
  ultimately show ?thesis by (simp add: latest_covered_Max)
qed

lemma filter_drop_sorted:
  assumes "sorted_wrt (<) (map f xs)" and "0 < n" and "n < length xs"
  shows "filter (\<lambda>x. f (last (take n xs)) < (f x :: int)) xs = drop n xs"
proof -
  have last: "last (take n xs) = xs ! (n - 1)" using assms(2,3) by (subst last_conv_nth) (auto simp: min_def)
  have "filter (\<lambda>x. f (xs ! (n - 1)) < f x) (take n xs) = []"
  proof (rule filter_False, rule ballI, rule notI)
    fix x assume "x \<in> set (take n xs)" and lt: "f (xs ! (n - 1)) < f x"
    then obtain k where k: "k < n" "x = xs ! k" using assms(3) by (auto simp: in_set_conv_nth)
    have "f (xs ! k) \<le> f (xs ! (n - 1))"
    proof (cases "k = n - 1")
      case False
      then have "k < n - 1" using k by simp
      moreover have "n - 1 < length xs" using assms by simp
      ultimately have "f (xs ! k) < f (xs ! (n - 1))"
        using sorted_wrt_nth_less [OF assms(1), of k "n - 1"] by simp
      then show ?thesis by simp
    qed simp
    with lt k show False by simp
  qed
  moreover have "filter (\<lambda>x. f (xs ! (n - 1)) < f x) (drop n xs) = drop n xs"
  proof (rule filter_True, rule ballI)
    fix x assume "x \<in> set (drop n xs)"
    then obtain k where k: "k < length xs - n" "x = xs ! (n + k)" by (auto simp: in_set_conv_nth)
    then show "f (xs ! (n - 1)) < f x"
      using assms sorted_wrt_nth_less [OF assms(1), of "n - 1" "n + k"] by auto
  qed
  ultimately show ?thesis
    unfolding last by (metis append_Nil append_take_drop_id filter_append)
qed

definition step_numbers_distinct :: "db \<Rightarrow> uuid \<Rightarrow> bool" where
  "step_numbers_distinct d i \<longleftrightarrow> distinct (map step_step_no (filter (\<lambda>p. step_run_id p = i) (steps d)))"

lemma uncovered_alt:
  "uncovered_steps (load_steps d i) =
     sort_key step_step_no (filter (\<lambda>p. step_type p = ST_llm_call \<and>
        latest_covered_step_no (load_steps d i) < step_step_no p) (filter (\<lambda>p. step_run_id p = i) (steps d)))"
  unfolding uncovered_steps_def by (subst (2) load_steps_def) (simp only: filter_sort)

lemma uncovered_strictly_sorted:
  assumes "step_numbers_distinct d i"
  shows "sorted_wrt (<) (map step_step_no (uncovered_steps (load_steps d i)))"
proof -
  let ?own = "filter (\<lambda>p. step_run_id p = i) (steps d)"
  have "distinct (map step_step_no (filter P ?own))" for P
    using assms unfolding step_numbers_distinct_def by (rule distinct_map_filter)
  then have "distinct (map step_step_no (uncovered_steps (load_steps d i)))"
    unfolding uncovered_alt distinct_map set_sort distinct_sort .
  moreover have "sorted (map step_step_no (uncovered_steps (load_steps d i)))"
    unfolding uncovered_alt by (rule sorted_sort_key)
  ultimately show ?thesis by (simp add: strict_sorted_iff)
qed

lemma uncovered_after_summary:
  assumes "step_numbers_distinct d i" and "step_run_id p = i" and "step_type p = ST_summary"
    and "un = uncovered_steps (load_steps d i)" and "n < length un" and "0 < n"
    and "covers (step_payload p) = step_step_no (last (take n un))"
  shows "uncovered_steps (load_steps (d\<lparr>steps := steps d @ [p]\<rparr>) i) = drop n un"
proof -
  let ?l = "latest_covered_step_no (load_steps d i)" and ?c = "step_step_no (last (take n un))"
  have "last (take n un) \<in> set un"
    using assms(5,6) by (metis last_in_set in_set_takeD take_eq_Nil not_less_zero length_0_conv less_nat_zero_code not_gr_zero)
  then have "?l < ?c" by (auto simp: assms(4) uncovered_steps_def)
  then have l': "latest_covered_step_no (load_steps (d\<lparr>steps := steps d @ [p]\<rparr>) i) = ?c"
    using latest_covered_snoc [OF assms(2,3), of d] assms(7) by simp
  have "uncovered_steps (load_steps (d\<lparr>steps := steps d @ [p]\<rparr>) i) =
      filter (\<lambda>q. ?c < step_step_no q) un"
    using \<open>?l < ?c\<close> assms(3)
    by (auto simp: uncovered_alt l' assms(4) filter_sort simp del: filter_filter intro!: arg_cong [where f = "sort_key step_step_no"])
      (auto simp: assms(2) intro!: filter_cong)
  also have "\<dots> = drop n un"
    using uncovered_strictly_sorted [OF assms(1)] filter_drop_sorted [of step_step_no un n] assms(4-6) by simp
  finally show ?thesis .
qed

text \<open>Recording usage and adding a step append one row to their table, or raise.\<close>

lemma record_usage_cases:
  assumes "record_usage E t i m u s = (r, s')"
  shows "durable s' = durable s \<and> cur s' = cur s \<and> invoked s' = invoked s \<and>
    (\<exists>us. rows s' = (rows s)\<lparr>usages := us\<rparr>) \<and> (\<forall>x. r = Inl x \<longrightarrow> rows s' = rows s)"
proof -
  obtain k w where k: "env_uuid4 E (world s) = (k, w)" by fastforce
  obtain f w' where f: "env_now E w = (f, w')" by fastforce
  have "\<exists>us. rows s = (rows s)\<lparr>usages := us\<rparr>" by (rule exI [of _ "usages (rows s)"]) simp
  then show ?thesis
    using assms by (auto simp: record_usage_def mbind_def uuid4_def now_def k f insert_usage_def split: if_splits)
qed

lemma add_step_cases:
  assumes "add_step E i n ty pl tu s = (r, s')"
  shows "durable s' = durable s \<and> cur s' = cur s \<and> invoked s' = invoked s \<and>
    ((\<exists>x. r = Inl x \<and> rows s' = rows s) \<or>
     (\<exists>p. r = Inr p \<and> rows s' = (rows s)\<lparr>steps := steps (rows s) @ [p]\<rparr> \<and> step_run_id p = i \<and> step_step_no p = n
        \<and> step_type p = ty \<and> step_payload p = pl))"
proof -
  obtain k w where k: "env_uuid4 E (world s) = (k, w)" by fastforce
  obtain f w' where f: "env_now E w = (f, w')" by fastforce
  show ?thesis
    using assms by (auto simp: add_step_def mbind_def uuid4_def now_def k f insert_step_def Let_def split: if_splits)
qed

lemma maybe_compact_Some:
  assumes "maybe_compact E L cw th s = (Inr (Some u), s')"
  obtains p us where "KEEP_RECENT_STEPS < length (uncovered_steps (load_steps (rows s) (run_id (cur s))))"
    and "rows s' = (rows s)\<lparr>usages := us, steps := steps (rows s) @ [p]\<rparr>" and "durable s' = rows s'"
    and "step_run_id p = run_id (cur s)" and "step_type p = ST_summary"
    and "covers (step_payload p) = step_step_no (last (take
          (length (uncovered_steps (load_steps (rows s) (run_id (cur s)))) - KEEP_RECENT_STEPS)
          (uncovered_steps (load_steps (rows s) (run_id (cur s))))))"
proof -
  let ?d = "rows s" and ?i = "run_id (cur s)"
  let ?un = "uncovered_steps (load_steps ?d ?i)"
  let ?msgs = "\<lambda>qs. concat_sum (\<lambda>p. llm_call_step_to_messages E p (load_tool_executions_by_step ?d ?i (step_step_no p))) qs"
  let ?ts = "take (length ?un - KEEP_RECENT_STEPS) ?un"
  have long: "KEEP_RECENT_STEPS < length ?un"
    using assms by (rule contrapos_pp) (simp add: maybe_compact_def mbind_def Let_def)
  obtain um where um: "?msgs ?un = Inr um"
    using assms long by (cases "?msgs ?un") (auto simp: maybe_compact_def mbind_def Let_def lift_sum_def)
  define small where "small \<longleftrightarrow> of_int (estimate_tokens (env_str E) um) < of_int (case cw of
      None \<Rightarrow> run_token_budget (cur s) | Some n \<Rightarrow> if n = 0 then run_token_budget (cur s) else n) * th"
  have "\<not> small"
    using assms long um by (auto simp: maybe_compact_def mbind_def Let_def lift_sum_def small_def)
  obtain ms where ms: "?msgs ?ts = Inr ms"
    using assms long um \<open>\<not> small\<close>
    by (cases "?msgs ?ts") (auto simp: maybe_compact_def mbind_def Let_def lift_sum_def small_def)
  obtain r1 s1 where r1: "llm_complete L (ms @ [message MR_user (Some SUMMARIZE_INSTRUCTION)]) None s = (r1, s1)"
    by fastforce
  have s1: "rows s1 = ?d" "cur s1 = cur s" using r1 by (auto simp: llm_complete_def split: prod.splits)
  obtain resp where resp: "r1 = Inr resp"
    using assms long um \<open>\<not> small\<close> ms r1
    by (cases r1) (auto simp: maybe_compact_def mbind_def Let_def lift_sum_def small_def)
  obtain r2 s2 where r2: "record_usage E (run_tenant_id (cur s)) (Some ?i) (lr_model resp) (lr_usage resp) s1 = (r2, s2)"
    by fastforce
  obtain us where us: "rows s2 = ?d\<lparr>usages := us\<rparr>" "cur s2 = cur s" using record_usage_cases [OF r2] s1 by auto
  obtain v where v: "r2 = Inr v"
    using assms long um \<open>\<not> small\<close> ms r1 resp r2
    by (cases r2) (auto simp: maybe_compact_def mbind_def Let_def lift_sum_def small_def)
  let ?pl = "[(''summary'', JStr (case lr_content resp of None \<Rightarrow> [] | Some c \<Rightarrow> c)),
      (''covers_up_to_step_no'', JInt (step_step_no (last ?ts)))]"
  let ?n = "- (int (length (filter (\<lambda>p. step_type p = ST_summary) (load_steps ?d ?i))) + 1)"
  obtain r3 s3 where r3: "add_step E ?i ?n ST_summary ?pl None s2 = (r3, s3)" by fastforce
  have "\<exists>p. r3 = Inr p \<and> s' = s3\<lparr>durable := rows s3\<rparr>"
    using assms long um \<open>\<not> small\<close> ms r1 resp r2 v r3
    by (cases r3) (auto simp: maybe_compact_def mbind_def Let_def lift_sum_def small_def commit_def)
  then obtain p where p: "rows s3 = (rows s2)\<lparr>steps := steps (rows s2) @ [p]\<rparr>" "step_run_id p = ?i"
    "step_type p = ST_summary" "step_payload p = ?pl" and s': "s' = s3\<lparr>durable := rows s3\<rparr>"
    using add_step_cases [OF r3] by auto
  show thesis
    by (rule that [OF long, of p us]) (simp_all add: s' p us covers_def)
qed

text \<open>
  C17. When compaction runs, the ten latest steps not yet summarized stay in the prompt verbatim and
  every older one is covered by the new summary; no step is deleted, and the summary is durable.
\<close>

theorem compaction_keeps_recent_steps:
  assumes "maybe_compact E L cw th s = (Inr (Some u), s')" and "step_numbers_distinct (rows s) (run_id (cur s))"
  shows "let old = uncovered_steps (load_steps (rows s) (run_id (cur s))) in
    uncovered_steps (load_steps (rows s') (run_id (cur s))) = drop (length old - 10) old
    \<and> 10 < length old \<and> (\<exists>p. steps (rows s') = steps (rows s) @ [p] \<and> step_type p = ST_summary)
    \<and> durable s' = rows s'"
  using assms(1)
proof (cases rule: maybe_compact_Some)
  case (1 p us)
  let ?old = "uncovered_steps (load_steps (rows s) (run_id (cur s)))"
  have "uncovered_steps (load_steps ((rows s)\<lparr>steps := steps (rows s) @ [p]\<rparr>) (run_id (cur s))) =
      drop (length ?old - KEEP_RECENT_STEPS) ?old"
    by (rule uncovered_after_summary [OF assms(2) 1(4,5) HOL.refl]) (use 1 in \<open>auto simp: KEEP_RECENT_STEPS_def\<close>)
  moreover have "load_steps (rows s') (run_id (cur s)) =
      load_steps ((rows s)\<lparr>steps := steps (rows s) @ [p]\<rparr>) (run_id (cur s))"
    using 1(2) by (simp add: load_steps_def)
  ultimately show ?thesis using 1 by (auto simp: Let_def KEEP_RECENT_STEPS_def)
qed

section \<open>Witnesses\<close>

text \<open>A run of eleven steps, each with one tool call whose execution record is missing.\<close>

definition sample_step :: "nat \<Rightarrow> agent_step" where
  "sample_step n = \<lparr>step_id = of_nat n, step_run_id = 7, step_step_no = int n, step_type = ST_llm_call,
     step_payload = [(''content'', JStr ''c''), (''tool_calls'', JList [JObj [(''id'', JStr ''x''),
        (''name'', JStr ''read''), (''arguments'', JObj [])]])],
     step_token_usage = [], step_created_at = int n\<rparr>"

definition long_st :: "nat st" where
  "long_st = sample_st\<lparr>rows := (rows sample_st)\<lparr>steps := map sample_step [0..<11]\<rparr>\<rparr>"

definition sample_llm :: "nat llm" where
  "sample_llm ms tools w = (Inr \<lparr>lr_content = Some ''ok'', lr_tool_calls = [], lr_finish_reason = ''stop'',
     lr_usage = \<lparr>u_prompt_tokens = 1, u_completion_tokens = 1, u_total_tokens = 2, u_source = US_provider,
                 u_reasoning_tokens = 0\<rparr>, lr_model = ''m'', lr_provider_fields = []\<rparr>, Suc w)"

definition is_Inr_Some :: "'e + 'a option \<Rightarrow> bool" where
  "is_Inr_Some x = (case x of Inr (Some _) \<Rightarrow> True | _ \<Rightarrow> False)"

definition is_Inr :: "'e + 'a \<Rightarrow> bool" where
  "is_Inr x = (case x of Inr _ \<Rightarrow> True | _ \<Rightarrow> False)"

lemma is_Inr_SomeE:
  assumes "is_Inr_Some (fst x)"
  obtains a t where "x = (Inr (Some a), t)"
  using assms by (cases x) (auto simp: is_Inr_Some_def split: sum.splits option.splits)

lemma is_InrE:
  assumes "is_Inr (fst x)"
  obtains a t where "x = (Inr a, t)"
  using assms by (cases x) (auto simp: is_Inr_def split: sum.splits)

lemma long_st_compacts: "is_Inr_Some (fst (maybe_compact sample_env sample_llm None 0 long_st))"
  by code_simp

lemma long_st_builds: "is_Inr (fst (build_llm_messages sample_env long_st))"
  by code_simp

theorem prompt_witness: "\<exists>ms. fst (build_llm_messages sample_env long_st) = Inr ms \<and> transcript_ok [] ms"
proof -
  obtain ms s' where b: "build_llm_messages sample_env long_st = (Inr ms, s')"
    by (rule is_InrE [OF long_st_builds])
  have "transcript_ok [] ms"
    by (rule prompt_is_valid_transcript [OF b]) (simp add: long_st_def sample_defs)
  with b show ?thesis by simp
qed

theorem compaction_witness:
  "\<exists>s'. length (uncovered_steps (load_steps (rows s') 7)) = 10 \<and> snd (maybe_compact sample_env sample_llm None 0 long_st) = s'"
proof -
  obtain u s' where m: "maybe_compact sample_env sample_llm None 0 long_st = (Inr (Some u), s')"
    by (rule is_Inr_SomeE [OF long_st_compacts])
  have d: "step_numbers_distinct (rows long_st) (run_id (cur long_st))"
    by (simp add: step_numbers_distinct_def long_st_def sample_defs sample_step_def upt_rec)
  have "run_id (cur long_st) = 7" by (simp add: long_st_def sample_defs)
  with compaction_keeps_recent_steps [OF m d] m show ?thesis by (auto simp: Let_def)
qed

end
