(* ===== verification/NativeTools.thy ===== *)
theory NativeTools
  imports Context
begin

text \<open>
  The control tools of harness/runtime/native_tools.py (finish, ask_user and the four meta-tools),
  the MCP tools of harness/mcp/tools.py with the tenant's registry of harness/mcp/registry.py, and
  the handlers the engine builds for the meta-tools. The transport to an MCP server is a parameter.
\<close>

section \<open>Control tools\<close>

definition FINISH_TOOL_NAME :: string where "FINISH_TOOL_NAME = ''finish''"
definition ASK_USER_TOOL_NAME :: string where "ASK_USER_TOOL_NAME = ''ask_user''"
definition LIST_TOOL_DOMAINS_NAME :: string where "LIST_TOOL_DOMAINS_NAME = ''list_tool_domains''"
definition LIST_DOMAIN_TOOLS_NAME :: string where "LIST_DOMAIN_TOOLS_NAME = ''list_domain_tools''"
definition LOAD_TOOL_NAME :: string where "LOAD_TOOL_NAME = ''load_tool''"
definition USE_SKILL_NAME :: string where "USE_SKILL_NAME = ''use_skill''"
definition BUILTIN_DOMAIN_NAME :: string where "BUILTIN_DOMAIN_NAME = ''builtin''"

lemmas control_names = FINISH_TOOL_NAME_def ASK_USER_TOOL_NAME_def LIST_TOOL_DOMAINS_NAME_def
  LIST_DOMAIN_TOOLS_NAME_def LOAD_TOOL_NAME_def USE_SKILL_NAME_def

text \<open>A schema's string property with its description.\<close>

definition string_property :: "string \<Rightarrow> json" where
  "string_property description = JObj [(''type'', JStr ''string''), (''description'', JStr description)]"

definition object_schema :: "dict \<Rightarrow> string list \<Rightarrow> dict" where
  "object_schema properties required =
     [(''type'', JStr ''object''), (''properties'', JObj properties), (''required'', JList (map JStr required))]"

definition FINISH_TOOL_SCHEMA :: dict where
  "FINISH_TOOL_SCHEMA = object_schema
     [(''result'', JObj [(''description'', JStr ''The final result or answer for the goal.'')]),
      (''summary'', string_property ''Brief summary of what was done.''),
      (''outcome'', JObj [(''type'', JStr ''string''),
         (''enum'', JList [JStr ''succeeded'', JStr ''failed'']),
         (''description'', JStr ''Whether the requested goal actually succeeded. Defaults to succeeded.'')])]
     [''result'']"

definition ASK_USER_TOOL_SCHEMA :: dict where
  "ASK_USER_TOOL_SCHEMA = object_schema
     [(''question'', string_property ''The question to ask the user.'')] [''question'']"

definition LIST_TOOL_DOMAINS_SCHEMA :: dict where
  "LIST_TOOL_DOMAINS_SCHEMA = object_schema [] []"

definition LIST_DOMAIN_TOOLS_SCHEMA :: dict where
  "LIST_DOMAIN_TOOLS_SCHEMA = object_schema
     [(''domain'', string_property ''A domain name returned by list_tool_domains.'')] [''domain'']"

definition LOAD_TOOL_SCHEMA :: dict where
  "LOAD_TOOL_SCHEMA = object_schema
     [(''name'', string_property ''A tool name returned by list_domain_tools.'')] [''name'']"

definition USE_SKILL_SCHEMA :: dict where
  "USE_SKILL_SCHEMA = object_schema
     [(''name'', string_property ''A skill name from the published skill catalog.'')] [''name'']"

definition json_get :: "json \<Rightarrow> string \<Rightarrow> json option" where
  "json_get a k = (case a of JObj d \<Rightarrow> dict_get d k | _ \<Rightarrow> None)"

definition finish_handler :: "'w handler" where
  "finish_handler args w =
     (if json_get args ''result'' = None
      then (Inl (PyError ''ValueError'' ''finish requires a 'result' field''), w) else (Inr args, w))"

definition ask_user_handler :: "'w handler" where
  "ask_user_handler args w =
     (if json_get args ''question'' = None
      then (Inl (PyError ''ValueError'' ''ask_user requires a 'question' field''), w) else (Inr args, w))"

definition build_finish_tool :: "'w tool" where
  "build_finish_tool = make_tool FINISH_TOOL_NAME
     (''Call this when the goal has been achieved. Pass the final result and a ''
      @ ''brief summary of what was done.'') FINISH_TOOL_SCHEMA finish_handler RT_read_only True"

definition build_ask_user_tool :: "'w tool" where
  "build_ask_user_tool = make_tool ASK_USER_TOOL_NAME
     ''Call this to ask the user a clarifying question before continuing.''
     ASK_USER_TOOL_SCHEMA ask_user_handler RT_read_only True"

definition build_list_tool_domains_tool :: "'w handler \<Rightarrow> 'w tool" where
  "build_list_tool_domains_tool h = make_tool LIST_TOOL_DOMAINS_NAME
     (''List the available tool domains (one per registered external system, ''
      @ ''e.g. an MCP server). Call this first to discover what capabilities ''
      @ ''exist before you know which tool you need.'') LIST_TOOL_DOMAINS_SCHEMA h RT_read_only True"

definition build_list_domain_tools_tool :: "'w handler \<Rightarrow> 'w tool" where
  "build_list_domain_tools_tool h = make_tool LIST_DOMAIN_TOOLS_NAME
     (''List the tools available within one domain: name and a short summary ''
      @ ''for each, without full parameter schemas. Call load_tool on one of ''
      @ ''them to get its schema before calling it.'') LIST_DOMAIN_TOOLS_SCHEMA h RT_read_only True"

definition build_load_tool_tool :: "'w handler \<Rightarrow> 'w tool" where
  "build_load_tool_tool h = make_tool LOAD_TOOL_NAME
     (''Unlock a specific tool by name: returns its full parameter schema and ''
      @ ''makes it callable starting next turn. You must call this before ''
      @ ''calling any tool other than finish, ask_user, or these meta-tools.'') LOAD_TOOL_SCHEMA h RT_read_only True"

definition build_use_skill_tool :: "'w handler \<Rightarrow> 'w tool" where
  "build_use_skill_tool h = make_tool USE_SKILL_NAME
     (''Load a published skill by name when it matches the user's request. ''
      @ ''This persists the skill revision for the run, injects its full ''
      @ ''instruction starting next turn, and unlocks the skill's required tools.'') USE_SKILL_SCHEMA h RT_read_only True"

lemma control_tool_tiers [simp]:
  "tl_risk_tier build_finish_tool = RT_read_only" "tl_risk_tier build_ask_user_tool = RT_read_only"
  "tl_risk_tier (build_list_tool_domains_tool h) = RT_read_only"
  "tl_risk_tier (build_list_domain_tools_tool h) = RT_read_only"
  "tl_risk_tier (build_load_tool_tool h) = RT_read_only"
  "tl_risk_tier (build_use_skill_tool h) = RT_read_only"
  by (simp_all add: build_finish_tool_def build_ask_user_tool_def build_list_tool_domains_tool_def
      build_list_domain_tools_tool_def build_load_tool_tool_def build_use_skill_tool_def)

section \<open>MCP tools\<close>

text \<open>\<open>str.isalnum\<close> on ASCII.\<close>

definition is_alnum :: "char \<Rightarrow> bool" where
  "is_alnum c = (let n = (of_char c :: nat) in
     (48 \<le> n \<and> n \<le> 57) \<or> (65 \<le> n \<and> n \<le> 90) \<or> (97 \<le> n \<and> n \<le> 122))"

definition canonical_tool_name :: "mcp_server \<Rightarrow> string \<Rightarrow> string" where
  "canonical_tool_name server tool_name =
     map (\<lambda>c. if is_alnum c \<or> c = CHR ''_'' \<or> c = CHR ''-'' then c else CHR ''_'') (srv_name server)
     @ ''__'' @ tool_name"

text \<open>The client's call of a server's tool: a dictionary, or \<open>McpError\<close> by its name.\<close>

type_synonym 'w mcp_call = "mcp_server \<Rightarrow> string \<Rightarrow> json \<Rightarrow> 'w \<Rightarrow> (exn + dict) \<times> 'w"

definition py_str :: "(json \<Rightarrow> string) \<Rightarrow> json \<Rightarrow> string" where
  "py_str str j = (case j of JStr s \<Rightarrow> s | _ \<Rightarrow> str j)"

definition truthy_get :: "dict \<Rightarrow> string \<Rightarrow> bool" where
  "truthy_get d k = (case dict_get d k of None \<Rightarrow> False | Some v \<Rightarrow> truthy v)"

definition build_mcp_tool ::
  "'w env \<Rightarrow> 'w mcp_call \<Rightarrow> mcp_server \<Rightarrow> mcp_tool \<Rightarrow> string \<Rightarrow> 'w tool" where
  "build_mcp_tool E call server t exposed_name =
     (make_tool (if exposed_name = [] then mt_name t else exposed_name) (mt_description t) (mt_parameters t)
       (\<lambda>args w. case call server (mt_name t) args w of
          (Inl e, w') \<Rightarrow>
            (case e of
               PyError n m \<Rightarrow> if n = ''McpError''
                 then (Inl (ToolRuntimeError m (code_str EXECUTION_FAILED) True), w') else (Inl e, w')
             | _ \<Rightarrow> (Inl e, w'))
        | (Inr result, w') \<Rightarrow>
            if truthy_get result ''is_error'' \<or> dict_has result ''error''
            then (Inl (ToolRuntimeError
                   (py_str (env_str E) (if truthy_get result ''error'' then the (dict_get result ''error'')
                      else if truthy_get result ''content'' then the (dict_get result ''content'')
                      else JStr ''MCP tool failed''))
                   (code_str EXECUTION_FAILED) True), w')
            else (Inr (JObj result), w'))
       (mt_risk_tier t) False)\<lparr>tl_mcp_server_id := Some (srv_id server)\<rparr>"

definition list_servers :: "db \<Rightarrow> uuid \<Rightarrow> mcp_server list" where
  "list_servers d tenant = sort_key srv_name (filter (\<lambda>s. srv_tenant_id s = tenant) (servers d))"

text \<open>The join of the tenant's enabled servers with their enabled tools, in table order.\<close>

definition list_tools :: "db \<Rightarrow> uuid \<Rightarrow> (mcp_server \<times> mcp_tool) list" where
  "list_tools d tenant =
     concat (map (\<lambda>s. map (\<lambda>t. (s, t)) (filter (\<lambda>t. mt_mcp_server_id t = srv_id s \<and> mt_enabled t) (mcp_tools d)))
       (filter (\<lambda>s. srv_tenant_id s = tenant \<and> srv_enabled s) (servers d)))"

definition count_name :: "(mcp_server \<times> mcp_tool) list \<Rightarrow> string \<Rightarrow> nat" where
  "count_name pairs n = length (filter (\<lambda>(s, t). mt_name t = n) pairs)"

definition exposed_name :: "(mcp_server \<times> mcp_tool) list \<Rightarrow> mcp_server \<Rightarrow> mcp_tool \<Rightarrow> string" where
  "exposed_name pairs s t =
     (if 1 < count_name pairs (mt_name t) then canonical_tool_name s (mt_name t) else mt_name t)"

type_synonym 'w toolbox = "(string \<times> 'w tool) list"

text \<open>\<open>_ensure_mcp_tools_loaded\<close>: merge the tenant's tools without overwriting a static one.\<close>

definition ensure_mcp_tools_loaded :: "'w env \<Rightarrow> 'w mcp_call \<Rightarrow> db \<Rightarrow> uuid \<Rightarrow> 'w toolbox \<Rightarrow> 'w toolbox" where
  "ensure_mcp_tools_loaded E call d tenant tools =
     (let pairs = list_tools d tenant in
      foldl (\<lambda>tools (s, t). dict_setdefault (exposed_name pairs s t)
               (build_mcp_tool E call s t (exposed_name pairs s t)) tools) tools pairs)"

section \<open>The meta-tools' handlers (engine.py)\<close>

definition builtin_tools :: "'w toolbox \<Rightarrow> 'w tool list" where
  "builtin_tools tools = filter (\<lambda>t. tl_mcp_server_id t = None) (map snd tools)"

definition list_domains_tool :: "db \<Rightarrow> uuid \<Rightarrow> 'w toolbox \<Rightarrow> 'w tool" where
  "list_domains_tool d tenant tools =
     build_list_tool_domains_tool (\<lambda>args w.
       let pairs = list_tools d tenant;
           domain = (\<lambda>n k. JObj [(''name'', JStr n), (''tool_count'', JInt (int k))]);
           domains = map (\<lambda>s. domain (srv_name s) (length (filter (\<lambda>(s', t). srv_name s' = srv_name s) pairs)))
                       (filter srv_enabled (list_servers d tenant));
           own = builtin_tools tools
       in (Inr (JObj [(''domains'', JList (domains
             @ (if own = [] then [] else [domain BUILTIN_DOMAIN_NAME (length own)])))]), w))"

definition unknown_name :: "'w env \<Rightarrow> string \<Rightarrow> json option \<Rightarrow> string" where
  "unknown_name E what requested =
     what @ (case requested of None \<Rightarrow> ''None'' | Some j \<Rightarrow> py_str (env_str E) j)"

definition list_domain_tools_tool :: "'w env \<Rightarrow> db \<Rightarrow> uuid \<Rightarrow> 'w toolbox \<Rightarrow> 'w tool" where
  "list_domain_tools_tool E d tenant tools =
     build_list_domain_tools_tool (\<lambda>args w.
       let domain = json_get args ''domain'';
           entry = (\<lambda>n summary. JObj [(''name'', JStr n), (''summary'', JStr (take 140 summary))])
       in if domain = Some (JStr BUILTIN_DOMAIN_NAME)
          then (Inr (JObj [(''tools'', JList (map (\<lambda>t. entry (tl_name t) (tl_description t)) (builtin_tools tools)))]), w)
          else if \<not> (\<exists>s \<in> set (list_servers d tenant). domain = Some (JStr (srv_name s)) \<and> srv_enabled s)
          then (Inr (JObj [(''error'', JStr (unknown_name E ''unknown domain: '' domain))]), w)
          else
            let pairs = list_tools d tenant in
            (Inr (JObj [(''tools'', JList (map (\<lambda>(s, t). entry (exposed_name pairs s t) (mt_description t))
                (filter (\<lambda>(s, t). domain = Some (JStr (srv_name s))) pairs)))]), w))"

definition load_tool_tool :: "'w env \<Rightarrow> 'w toolbox \<Rightarrow> 'w tool" where
  "load_tool_tool E tools =
     build_load_tool_tool (\<lambda>args w.
       let requested = json_get args ''name'';
           missing = (Inr (JObj [(''error'', JStr (unknown_name E ''unknown tool: '' requested))]), w)
       in case requested of
            Some (JStr n) \<Rightarrow>
              if n = [] then missing
              else (case dict_get tools n of
                      Some t \<Rightarrow> (Inr (JObj [(''name'', JStr (tl_name t)), (''schema'', JObj (tl_parameters t))]), w)
                    | None \<Rightarrow> missing)
          | _ \<Rightarrow> missing)"

definition use_skill_tool :: "'w env \<Rightarrow> db \<Rightarrow> uuid \<Rightarrow> 'w toolbox \<Rightarrow> 'w tool" where
  "use_skill_tool E d tenant tools =
     build_use_skill_tool (\<lambda>args w.
       let requested = json_get args ''name'';
           rows_of = (\<lambda>n. concat (map (\<lambda>k. map (\<lambda>r. (k, r))
                (filter (\<lambda>r. sk_active_revision_id k = Some (rev_id r)) (revisions d)))
              (filter (\<lambda>k. sk_tenant_id k = tenant \<and> sk_name k = n \<and> sk_status k = SS_published) (skills d))));
           missing = (Inr (JObj [(''error'', JStr (unknown_name E ''unknown published skill: '' requested))]), w)
       in case requested of
            Some (JStr n) \<Rightarrow>
              if n = [] then missing
              else (case rows_of n of
                      [] \<Rightarrow> missing
                    | [(k, r)] \<Rightarrow>
                        let absent = filter (\<lambda>m. \<not> dict_has tools m) (rev_required_tools r) in
                        if absent \<noteq> []
                        then (Inr (JObj [(''error'', JStr ''skill required tools are unavailable''),
                                         (''missing_tools'', JList (map JStr absent))]), w)
                        else (Inr (JObj [(''name'', JStr (sk_name k)), (''revision_id'', JStr (uuid_str (rev_id r))),
                                         (''version'', JInt (rev_version r)), (''instruction'', JStr (rev_instruction r)),
                                         (''required_tools'', JList (map JStr (rev_required_tools r)))]), w)
                    | _ \<Rightarrow> (Inl MultipleResultsFound, w))
          | _ \<Rightarrow> missing)"

end
