(* ===== verification/Engine.thy ===== *)
theory Engine
  imports NativeTools
begin

text \<open>
  harness/runtime/engine.py: the ReAct loop. A step checks the guardrails, calls the model (or takes
  a recorded step after a crash), plans which of its tool calls run now and which are deferred, runs
  them through the executor and checkpoints. The read-only calls of a step, which the code gathers,
  run here one after the other, each with its exception kept as a result.
\<close>

section \<open>Deferred and placeholder tools\<close>

definition build_deferred_tool :: "'w tool option \<Rightarrow> string \<Rightarrow> 'w tool" where
  "build_deferred_tool original error_message =
     make_tool (case original of None \<Rightarrow> ''unknown'' | Some t \<Rightarrow> tl_name t) ''Deferred batched tool call.''
       (case original of None \<Rightarrow> [(''type'', JStr ''object'')] | Some t \<Rightarrow> tl_parameters t)
       (\<lambda>args w. (Inl (ToolRuntimeError error_message (code_str POLICY_DENIED) True), w))
       (case original of None \<Rightarrow> RT_read_only | Some t \<Rightarrow> tl_risk_tier t) True"

definition not_loaded_handler :: "'w handler" where
  "not_loaded_handler args w =
     (Inr (JObj [(''error'', JStr ''tool is not loaded yet; call load_tool with its name first'')]), w)"

definition unused_meta_tool_handler :: "'w handler" where
  "unused_meta_tool_handler args w =
     (Inl (PyError ''AssertionError'' ''meta-tool placeholder handler invoked directly''), w)"

record 'w engine =
  eng_tools :: "'w toolbox"
  eng_mcp_loaded :: bool

text \<open>The constructor: the tools by name, and the built-in ones where no tool has the name.\<close>

definition make_engine :: "'w tool list \<Rightarrow> 'w tool list \<Rightarrow> 'w engine" where
  "make_engine tools builtins =
     \<lparr>eng_tools = foldl (\<lambda>box t. dict_setdefault (tl_name t) t box)
                   (foldl (\<lambda>box t. dict_set (tl_name t) t box) [] tools) builtins,
      eng_mcp_loaded = False\<rparr>"

section \<open>Planning a batch\<close>

definition raw_name :: "json \<Rightarrow> string" where
  "raw_name raw = (case json_get raw ''name'' of Some (JStr n) \<Rightarrow> n | _ \<Rightarrow> [])"

definition is_read_only :: "'w toolbox \<Rightarrow> json \<Rightarrow> bool" where
  "is_read_only tools raw =
     (case dict_get tools (raw_name raw) of None \<Rightarrow> False | Some t \<Rightarrow> tl_risk_tier t = RT_read_only)"

fun plan_loop ::
  "('c \<Rightarrow> bool) \<Rightarrow> nat \<Rightarrow> (nat \<times> 'c) list \<Rightarrow> nat \<Rightarrow> (nat \<times> 'c) list \<times> (nat \<times> 'c) list" where
  "plan_loop ro limit [] taken = ([], [])"
| "plan_loop ro limit ((i, c) # rest) taken =
     (if ro c \<and> taken < limit
      then (let (sel, def) = plan_loop ro limit rest (Suc taken) in ((i, c) # sel, def))
      else (let (sel, def) = plan_loop ro limit rest taken in (sel, (i, c) # def)))"

text \<open>The plan: the first call alone unless it is read-only, else the first read-only calls.\<close>

definition plan_calls :: "('c \<Rightarrow> bool) \<Rightarrow> nat \<Rightarrow> 'c list \<Rightarrow> (nat \<times> 'c) list \<times> (nat \<times> 'c) list" where
  "plan_calls ro limit calls =
     (case enumerate 0 calls of
        [] \<Rightarrow> ([], [])
      | (i, first) # rest \<Rightarrow>
          if \<not> ro first then ([(i, first)], rest) else plan_loop ro limit ((i, first) # rest) 0)"

definition plan_tool_calls :: "'w env \<Rightarrow> 'w toolbox \<Rightarrow> json list \<Rightarrow> (nat \<times> json) list \<times> (nat \<times> json) list" where
  "plan_tool_calls E tools payload =
     plan_calls (is_read_only tools) (nat (cfg_run_max_tool_calls_per_step (env_settings E))) payload"

section \<open>One tool call\<close>

type_synonym control = "(string \<times> dict) option"

definition CONTROL_TOOLS :: "string list" where
  "CONTROL_TOOLS = [FINISH_TOOL_NAME, ASK_USER_TOOL_NAME, LIST_TOOL_DOMAINS_NAME, LIST_DOMAIN_TOOLS_NAME,
     LOAD_TOOL_NAME, USE_SKILL_NAME]"

text \<open>The run's latest execution of a tool that is not a control tool, by step and call index.\<close>

definition latest_real_execution :: "db \<Rightarrow> uuid \<Rightarrow> tool_execution option" where
  "latest_real_execution d i =
     (case sort_key ex_step_no (sort_key ex_call_index
         (filter (\<lambda>e. ex_run_id e = i \<and> ex_tool_name e \<notin> set CONTROL_TOOLS) (execs d))) of
        [] \<Rightarrow> None | e # es \<Rightarrow> Some (last (e # es)))"

definition finish_evidence_error :: "json \<Rightarrow> ('w, string option) op" where
  "finish_evidence_error arguments =
     mbind (gets cur) (\<lambda>run. mbind (gets rows) (\<lambda>d.
       case arguments of
         JObj args \<Rightarrow>
           if dict_get args ''outcome'' = Some (JStr ''failed'') then ret None
           else (case latest_real_execution d (run_id run) of
                   None \<Rightarrow> ret None
                 | Some latest \<Rightarrow>
                     if ex_status latest \<noteq> TS_succeeded
                     then ret (Some (''finish blocked: latest tool '' @ str_repr (ex_tool_name latest)
                            @ '' has status '' @ tool_execution_status_str (ex_status latest)
                            @ ''; recover or finish with outcome='' @ str_repr ''failed''))
                     else ret None)
       | _ \<Rightarrow> raise attribute_error))"

text \<open>\<open>uuid.UUID(text)\<close>: the hexadecimal digits, the dashes left out.\<close>

definition hex_value :: "char \<Rightarrow> nat option" where
  "hex_value c = (let n = (of_char c :: nat) in
     if 48 \<le> n \<and> n \<le> 57 then Some (n - 48) else if 97 \<le> n \<and> n \<le> 102 then Some (n - 87)
     else if 65 \<le> n \<and> n \<le> 70 then Some (n - 55) else None)"

definition uuid_of_str :: "string \<Rightarrow> ('s, exn, uuid) prog" where
  "uuid_of_str s =
     (let h = filter (\<lambda>c. c \<noteq> CHR ''-'') s in
      if length h = 32 \<and> list_all (\<lambda>c. hex_value c \<noteq> None) h
      then ret (word_of_nat (foldl (\<lambda>a c. 16 * a + the (hex_value c)) 0 h))
      else raise (PyError ''ValueError'' ''badly formed hexadecimal UUID string''))"

definition invalid_argument_failures :: "db \<Rightarrow> uuid \<Rightarrow> string \<Rightarrow> nat" where
  "invalid_argument_failures d i name =
     length (filter (\<lambda>e. ex_run_id e = i \<and> ex_tool_name e = name
       \<and> (case ex_error e of None \<Rightarrow> False | Some m \<Rightarrow> str_startswith m ''INVALID_ARGUMENT'')) (execs d))"

definition json_strings :: "json option \<Rightarrow> string list" where
  "json_strings x = (case x of Some (JList js) \<Rightarrow>
     concat (map (\<lambda>j. case j of JStr s \<Rightarrow> [s] | _ \<Rightarrow> []) js) | _ \<Rightarrow> [])"

definition run_finish_call :: "'w env \<Rightarrow> int \<Rightarrow> int \<Rightarrow> tool_call \<Rightarrow> ('w, control) op" where
  "run_finish_call E step_no call_index call =
     mbind (gets cur) (\<lambda>run.
     mbind (finish_evidence_error (tc_arguments call)) (\<lambda>evidence_error.
       let finish_tool = (case evidence_error of
             None \<Rightarrow> build_finish_tool
           | Some m \<Rightarrow> make_tool (tl_name (build_finish_tool :: 'w tool)) (tl_description (build_finish_tool :: 'w tool))
               (tl_parameters (build_finish_tool :: 'w tool)) (\<lambda>args w. (Inl (PyError ''ValueError'' m), w))
               (tl_risk_tier (build_finish_tool :: 'w tool)) True)
       in mbind (execute E run step_no call_index call (Some finish_tool)) (\<lambda>oc.
            ret (if dict_has (oc_observation oc) ''error'' then None
                 else Some (''completed'', oc_observation oc)))))"

definition run_ask_user_call :: "'w env \<Rightarrow> int \<Rightarrow> int \<Rightarrow> tool_call \<Rightarrow> ('w, control) op" where
  "run_ask_user_call E step_no call_index call =
     mbind (gets cur) (\<lambda>run.
     mbind (execute E run step_no call_index call (Some build_ask_user_tool)) (\<lambda>oc.
       ret (if dict_has (oc_observation oc) ''error'' then None
            else Some (''waiting_user_input'', oc_observation oc))))"

definition run_load_tool_call :: "'w env \<Rightarrow> 'w toolbox \<Rightarrow> int \<Rightarrow> int \<Rightarrow> tool_call \<Rightarrow> ('w, control) op" where
  "run_load_tool_call E tools step_no call_index call =
     mbind (gets cur) (\<lambda>run.
     mbind (execute E run step_no call_index call (Some (load_tool_tool E tools))) (\<lambda>oc.
       case dict_get (oc_observation oc) ''name'' of
         Some (JStr loaded) \<Rightarrow>
           if loaded \<noteq> [] \<and> loaded \<notin> set (run_active_tool_names run)
           then mseq (checkpoint E None (no_updates\<lparr>fu_active_tool_names := Some (run_active_tool_names run @ [loaded])\<rparr>))
                  (ret None)
           else ret None
       | _ \<Rightarrow> ret None))"

definition run_use_skill_call :: "'w env \<Rightarrow> 'w toolbox \<Rightarrow> int \<Rightarrow> int \<Rightarrow> tool_call \<Rightarrow> ('w, control) op" where
  "run_use_skill_call E tools step_no call_index call =
     mbind (gets cur) (\<lambda>run. mbind (gets rows) (\<lambda>d.
     mbind (execute E run step_no call_index call (Some (use_skill_tool E d (run_tenant_id run) tools))) (\<lambda>oc.
       case dict_get (oc_observation oc) ''revision_id'' of
         Some (JStr rid) \<Rightarrow>
           if rid \<noteq> [] \<and> \<not> dict_has (oc_observation oc) ''error''
           then
             let active_tool_names = foldl (\<lambda>names n. if n \<in> set names then names else names @ [n])
                   (run_active_tool_names run) (json_strings (dict_get (oc_observation oc) ''required_tools''))
             in mbind (uuid_of_str rid) (\<lambda>u.
                mseq (checkpoint E None (no_updates\<lparr>fu_active_skill_revision_id := Some (Some u),
                                                   fu_active_tool_names := Some active_tool_names\<rparr>))
                  (ret None))
           else ret None
       | _ \<Rightarrow> ret None)))"

text \<open>A call of a real tool: the loop guards around the executor.\<close>

definition run_tool_call ::
  "'w env \<Rightarrow> 'w tool option \<Rightarrow> int \<Rightarrow> int \<Rightarrow> tool_call \<Rightarrow> ('w, control) op" where
  "run_tool_call E tool step_no call_index call =
     mbind (gets cur) (\<lambda>run.
     mbind (case tool of
              None \<Rightarrow> ret None
            | Some t \<Rightarrow>
                mcatch (mseq (check_repeated_calls (run_id run) (tl_name t) (tc_arguments call) REPEATED_CALL_WINDOW)
                             (ret None))
                  (\<lambda>e. case e of GuardrailViolation reason st \<Rightarrow> ret (Some (''failed'', [(''error'', JStr reason)]))
                              | _ \<Rightarrow> raise e)) (\<lambda>repeated.
     case repeated of Some c \<Rightarrow> ret (Some c)
     | None \<Rightarrow>
         mbind (execute E run step_no call_index call tool) (\<lambda>oc.
         if oc_needs_approval oc then ret (Some (''waiting_approval'', []))
         else if oc_fatal oc
         then ret (Some (''failed'', [(''error'', case oc_fatal_reason oc of None \<Rightarrow> JNull | Some m \<Rightarrow> JStr m)]))
         else
           mbind (gets rows) (\<lambda>d.
           let budget = cfg_run_max_argument_repairs (env_settings E) in
           if dict_get (oc_observation oc) ''code'' = Some (JStr ''INVALID_ARGUMENT'')
              \<and> budget < int (invalid_argument_failures d (run_id run) (tc_name call))
           then ret (Some (''failed'', [(''error'', JStr (''argument repair budget exhausted for ''
                  @ str_repr (tc_name call) @ '' ('' @ str_of_int budget @ '')''))]))
           else
             mcatch (mseq (check_no_progress (run_id run) REPEATED_CALL_WINDOW) (ret None))
               (\<lambda>e. case e of GuardrailViolation reason st \<Rightarrow> ret (Some (''failed'', [(''error'', JStr reason)]))
                           | _ \<Rightarrow> raise e)))))"

definition execute_single_tool_call ::
  "'w env \<Rightarrow> 'w toolbox \<Rightarrow> int \<Rightarrow> int \<Rightarrow> tool_call \<Rightarrow> ('w, control) op" where
  "execute_single_tool_call E tools step_no call_index call =
     mbind (gets cur) (\<lambda>run. mbind (gets rows) (\<lambda>d.
       if tc_name call = FINISH_TOOL_NAME then run_finish_call E step_no call_index call
       else if tc_name call = ASK_USER_TOOL_NAME then run_ask_user_call E step_no call_index call
       else if tc_name call = LIST_TOOL_DOMAINS_NAME
       then mbind (execute E run step_no call_index call (Some (list_domains_tool d (run_tenant_id run) tools)))
              (\<lambda>oc. ret None)
       else if tc_name call = LIST_DOMAIN_TOOLS_NAME
       then mbind (execute E run step_no call_index call (Some (list_domain_tools_tool E d (run_tenant_id run) tools)))
              (\<lambda>oc. ret None)
       else if tc_name call = LOAD_TOOL_NAME then run_load_tool_call E tools step_no call_index call
       else if tc_name call = USE_SKILL_NAME then run_use_skill_call E tools step_no call_index call
       else
         let tool = dict_get tools (tc_name call) in
         case tool of
           Some t \<Rightarrow>
             if tl_mcp_server_id t \<noteq> None \<and> tc_name call \<notin> set (run_active_tool_names run)
             then mbind (execute E run step_no call_index call
                    (Some (make_tool (tl_name t) (tl_description t) (tl_parameters t) not_loaded_handler RT_read_only False)))
                    (\<lambda>oc. ret None)
             else run_tool_call E tool step_no call_index call
         | None \<Rightarrow> run_tool_call E None step_no call_index call))"

section \<open>A batch of calls\<close>

definition deferred_message :: "'w env \<Rightarrow> 'w tool option \<Rightarrow> string" where
  "deferred_message E original =
     (if (case original of None \<Rightarrow> False | Some t \<Rightarrow> tl_risk_tier t = RT_read_only)
      then ''up to '' @ str_of_int (cfg_run_max_tool_calls_per_step (env_settings E))
           @ '' read-only tool calls are allowed per reasoning step''
      else ''only one mutation tool call is allowed per reasoning step; ''
           @ ''inspect its result before choosing the next action'')"

definition run_deferred_call :: "'w env \<Rightarrow> 'w toolbox \<Rightarrow> int \<Rightarrow> nat \<times> json \<Rightarrow> ('w, unit) op" where
  "run_deferred_call E tools step_no p =
     mbind (lift_sum (call_of_json (snd p))) (\<lambda>call. mbind (gets cur) (\<lambda>run.
       let original = dict_get tools (tc_name call) in
       mbind (execute E run step_no (int (fst p)) call
               (Some (build_deferred_tool original (deferred_message E original)))) (\<lambda>oc. ret ())))"

definition indexed_call :: "nat \<times> json \<Rightarrow> ('w, int \<times> tool_call) op" where
  "indexed_call p = mbind (lift_sum (call_of_json (snd p))) (\<lambda>call. ret (int (fst p), call))"

definition read_only_call :: "'w toolbox \<Rightarrow> int \<times> tool_call \<Rightarrow> bool" where
  "read_only_call tools p =
     (case dict_get tools (tc_name (snd p)) of None \<Rightarrow> False | Some t \<Rightarrow> tl_risk_tier t = RT_read_only)"

text \<open>One gathered call: an exception is a result (\<open>return_exceptions=True\<close>).\<close>

definition run_read_only :: "'w env \<Rightarrow> 'w toolbox \<Rightarrow> int \<Rightarrow> int \<times> tool_call \<Rightarrow> ('w, exn + control) op" where
  "run_read_only E tools step_no p =
     mcatch (mbind (execute_single_tool_call E tools step_no (fst p) (snd p)) (\<lambda>c. ret (Inr c)))
       (\<lambda>e. ret (Inl e))"

text \<open>
  The loop over the gathered results: exceptions are skipped, an approval wait stops it, anything
  else counts. The boolean says that a result asked to wait.
\<close>

fun fold_read_only :: "(exn + control) list \<Rightarrow> int \<Rightarrow> bool \<times> int" where
  "fold_read_only [] executed = (False, executed)"
| "fold_read_only (Inl e # rs) executed = fold_read_only rs executed"
| "fold_read_only (Inr c # rs) executed =
     (case c of Some (kind, args) \<Rightarrow> if kind = ''waiting_approval'' then (True, executed) else fold_read_only rs (executed + 1)
      | None \<Rightarrow> fold_read_only rs (executed + 1))"

definition waiting_result :: "int \<Rightarrow> control" where
  "waiting_result executed = Some (''waiting_approval'', [(''executed_count'', JInt executed)])"

fun run_sequential :: "'w env \<Rightarrow> 'w toolbox \<Rightarrow> int \<Rightarrow> (int \<times> tool_call) list \<Rightarrow> int \<Rightarrow> ('w, control) op" where
  "run_sequential E tools step_no [] executed = ret None"
| "run_sequential E tools step_no ((i, call) # rest) executed =
     mbind (execute_single_tool_call E tools step_no i call) (\<lambda>control.
       case control of
         Some (kind, args) \<Rightarrow>
           if kind = ''waiting_approval'' then ret (waiting_result executed)
           else ret (Some (kind, dict_set ''executed_count'' (JInt executed) args))
       | None \<Rightarrow> run_sequential E tools step_no rest (executed + 1))"

definition process_tool_calls :: "'w env \<Rightarrow> 'w toolbox \<Rightarrow> int \<Rightarrow> json list \<Rightarrow> ('w, control) op" where
  "process_tool_calls E tools step_no payload =
     (let (selected, deferred) = plan_tool_calls E tools payload in
      mseq (for_each deferred (run_deferred_call E tools step_no))
      (mbind (map_each indexed_call selected) (\<lambda>calls.
       mbind (map_each (run_read_only E tools step_no) (filter (read_only_call tools) calls)) (\<lambda>results.
         let (waiting, executed) = fold_read_only results 0 in
         if waiting then ret (waiting_result executed)
         else run_sequential E tools step_no (filter (\<lambda>c. \<not> read_only_call tools c) calls) executed))))"

section \<open>The model call\<close>

definition activate_skill_candidate :: "'w env \<Rightarrow> 'w toolbox \<Rightarrow> ('w, unit) op" where
  "activate_skill_candidate E tools =
     mbind (gets cur) (\<lambda>run.
       if run_active_skill_revision_id run \<noteq> None then ret ()
       else mbind select_skill_candidate (\<lambda>candidate.
         case candidate of
           None \<Rightarrow> ret ()
         | Some (sk, revision) \<Rightarrow>
             let available = filter (dict_has tools) (rev_required_tools revision) in
             if length available = length (rev_required_tools revision)
             then mseq (checkpoint E None (no_updates\<lparr>fu_active_skill_revision_id := Some (Some (rev_id revision)),
                                                     fu_active_tool_names := Some available\<rparr>)) commit
             else ret ()))"

definition tool_specs :: "'w toolbox \<Rightarrow> string list \<Rightarrow> tool_spec list" where
  "tool_specs tools active =
     map to_spec ([build_finish_tool, build_ask_user_tool, build_list_tool_domains_tool unused_meta_tool_handler,
        build_list_domain_tools_tool unused_meta_tool_handler, build_load_tool_tool unused_meta_tool_handler,
        build_use_skill_tool unused_meta_tool_handler]
       @ concat (map (\<lambda>n. case dict_get tools n of None \<Rightarrow> [] | Some t \<Rightarrow> [t]) active))"

definition json_str_or_null :: "string option \<Rightarrow> json" where
  "json_str_or_null x = (case x of None \<Rightarrow> JNull | Some t \<Rightarrow> JStr t)"

definition response_payload :: "llm_response \<Rightarrow> dict" where
  "response_payload r =
     [(''content'', json_str_or_null (lr_content r)),
      (''tool_calls'', JList (map json_of_call (lr_tool_calls r))),
      (''finish_reason'', JStr (lr_finish_reason r)), (''model'', JStr (lr_model r))]
     @ (if lr_provider_fields r = [] then [] else [(''provider_fields'', JObj (lr_provider_fields r))])"

definition usage_dict :: "usage \<Rightarrow> dict" where
  "usage_dict u = [(''prompt_tokens'', JInt (u_prompt_tokens u)), (''completion_tokens'', JInt (u_completion_tokens u)),
     (''total_tokens'', JInt (u_total_tokens u)), (''reasoning_tokens'', JInt (u_reasoning_tokens u))]"

text \<open>\<open>None\<close> when the model failed: the run has been checkpointed to failed and committed.\<close>

definition fail_llm_call :: "'w env \<Rightarrow> string \<Rightarrow> ('w, unit) op" where
  "fail_llm_call E error =
     mseq (checkpoint E (Some RS_failed) (no_updates\<lparr>fu_error := Some (Some error)\<rparr>))
       (mseq (record_skill_usage_for_run E) commit)"

definition call_llm ::
  "'w env \<Rightarrow> 'w llm \<Rightarrow> 'w toolbox \<Rightarrow> int \<Rightarrow> ('w, (json list \<times> string option \<times> int) option) op" where
  "call_llm E L tools step_no =
     mbind (maybe_compact E L (Some (cfg_run_context_window_tokens (env_settings E)))
              (of_int (cfg_run_compact_threshold_percent (env_settings E)) / 100)) (\<lambda>compact_usage.
     mseq (activate_skill_candidate E tools)
     (mbind (build_llm_messages E) (\<lambda>messages.
      mbind (gets cur) (\<lambda>run.
      mbind (mcatch (mbind (llm_complete L messages (Some (tool_specs tools (run_active_tool_names run))))
                           (\<lambda>r. ret (Some r)))
               (\<lambda>e. case e of LLMErr m \<Rightarrow> mseq (fail_llm_call E m) (ret None) | _ \<Rightarrow> raise e)) (\<lambda>answer.
      case answer of
        None \<Rightarrow> ret None
      | Some response \<Rightarrow>
          mbind (add_step E (run_id run) step_no ST_llm_call (response_payload response)
                   (Some (usage_dict (lr_usage response)))) (\<lambda>_.
          mseq (record_usage E (run_tenant_id run) (Some (run_id run)) (lr_model response) (lr_usage response))
          (ret (Some (map json_of_call (lr_tool_calls response), lr_content response,
             run_tokens_used run + (case compact_usage of None \<Rightarrow> 0 | Some u \<Rightarrow> u_total_tokens u)
               + u_total_tokens (lr_usage response)))))))))) "

section \<open>A step and the loop\<close>

definition get_step :: "uuid \<Rightarrow> int \<Rightarrow> ('w, agent_step option) op" where
  "get_step i n =
     mbind (gets rows) (\<lambda>d. scalar_one_or_none (filter (\<lambda>p. step_run_id p = i \<and> step_step_no p = n) (steps d)))"

text \<open>A checkpoint that ends the run: with the usage of its skill, committed.\<close>

definition end_run :: "'w env \<Rightarrow> run_status \<Rightarrow> field_updates \<Rightarrow> ('w, unit) op" where
  "end_run E status u =
     mseq (checkpoint E (Some status) u) (mseq (record_skill_usage_for_run E) commit)"

definition str_or :: "json option \<Rightarrow> string \<Rightarrow> string" where
  "str_or x d = (case x of Some (JStr t) \<Rightarrow> t | _ \<Rightarrow> d)"

definition error_field :: "dict \<Rightarrow> string option" where
  "error_field args = (case dict_get args ''error'' of None \<Rightarrow> Some ''unknown error'' | Some (JStr m) \<Rightarrow> Some m | _ \<Rightarrow> None)"

definition executed_count :: "dict \<Rightarrow> int" where
  "executed_count args = (case dict_get args ''executed_count'' of Some (JInt n) \<Rightarrow> n | _ \<Rightarrow> 0)"

text \<open>What a step does with the outcome of its batch of \<open>n\<close> calls.\<close>

definition finish_step :: "'w env \<Rightarrow> int \<Rightarrow> int \<Rightarrow> nat \<Rightarrow> control \<Rightarrow> ('w, unit) op" where
  "finish_step E step_no tokens_used n control =
     mbind (gets cur) (\<lambda>run.
       let u = no_updates\<lparr>fu_current_step := Some (step_no + 1), fu_tokens_used := Some tokens_used,
                          fu_tool_calls_used := Some (run_tool_calls_used run + int n)\<rparr>
       in case control of
            None \<Rightarrow> mseq (checkpoint E None u) commit
          | Some (kind, args) \<Rightarrow>
              if kind = ''waiting_approval''
              then mseq (checkpoint E (Some RS_waiting_approval)
                     (u\<lparr>fu_tool_calls_used := Some (run_tool_calls_used run + executed_count args),
                        fu_current_step := Some step_no\<rparr>)) commit
              else if kind = ''completed''
              then end_run E RS_completed (u\<lparr>fu_final_result := Some (Some args)\<rparr>)
              else if kind = ''waiting_user_input''
              then mbind (add_message E (run_id run) MR_assistant
                            (str_or (dict_get args ''question'') ''(no question provided)'')) (\<lambda>_.
                   mseq (checkpoint E (Some RS_waiting_user_input) u) commit)
              else if kind = ''failed''
              then end_run E RS_failed (u\<lparr>fu_error := Some (error_field args)\<rparr>)
              else raise (PyError ''AssertionError'' (''unhandled control result kind: '' @ kind)))"

definition run_step_calls :: "'w env \<Rightarrow> 'w toolbox \<Rightarrow> int \<Rightarrow> json list \<Rightarrow> string option \<Rightarrow> int \<Rightarrow> ('w, unit) op" where
  "run_step_calls E tools step_no payload plain_content tokens_used =
     mbind (gets cur) (\<lambda>run.
       let after = no_updates\<lparr>fu_current_step := Some (step_no + 1), fu_tokens_used := Some tokens_used\<rparr> in
       if token_budget_exceeded run tokens_used
       then end_run E RS_timed_out (after\<lparr>fu_error := Some (Some ''token budget exceeded'')\<rparr>)
       else if payload = []
       then mseq (case plain_content of
                    None \<Rightarrow> ret ()
                  | Some c \<Rightarrow> if c = [] then ret ()
                             else mbind (add_message E (run_id run) MR_assistant c) (\<lambda>_. ret ()))
              (mseq (checkpoint E (Some RS_waiting_user_input) after) commit)
       else
         mbind (mcatch (mseq (check_tool_call_budget run (int (length payload))) (ret None))
                  (\<lambda>e. case e of GuardrailViolation reason st \<Rightarrow> ret (Some (reason, st)) | _ \<Rightarrow> raise e)) (\<lambda>v.
         case v of
           Some (reason, st) \<Rightarrow> end_run E st (after\<lparr>fu_error := Some (Some reason)\<rparr>)
         | None \<Rightarrow>
             mbind (process_tool_calls E tools step_no payload)
               (finish_step E step_no tokens_used (length payload))))"

text \<open>
  A step. \<open>_call_llm\<close>'s \<open>None\<close> is followed by a read of the run, which the session already
  has up to date.
\<close>

definition load_mcp_tools :: "'w env \<Rightarrow> 'w mcp_call \<Rightarrow> 'w engine \<Rightarrow> db \<Rightarrow> uuid \<Rightarrow> 'w engine" where
  "load_mcp_tools E C g d tenant =
     (if eng_mcp_loaded g then g
      else \<lparr>eng_tools = ensure_mcp_tools_loaded E C d tenant (eng_tools g), eng_mcp_loaded = True\<rparr>)"

definition execute_step :: "'w env \<Rightarrow> 'w llm \<Rightarrow> 'w mcp_call \<Rightarrow> 'w engine \<Rightarrow> ('w, 'w engine) op" where
  "execute_step E L C g =
     mbind (mcatch (mseq (check_before_step E) (ret None))
              (\<lambda>e. case e of GuardrailViolation reason st \<Rightarrow> ret (Some (reason, st)) | _ \<Rightarrow> raise e)) (\<lambda>v.
     case v of
       Some (reason, st) \<Rightarrow> mseq (end_run E st (no_updates\<lparr>fu_error := Some (Some reason)\<rparr>)) (ret g)
     | None \<Rightarrow>
         mbind (gets cur) (\<lambda>run. mbind (gets rows) (\<lambda>d.
         let g' = load_mcp_tools E C g d (run_tenant_id run); step_no = run_current_step run in
         mbind (get_step (run_id run) step_no) (\<lambda>existing_step.
         mbind (case existing_step of
                  None \<Rightarrow> call_llm E L (eng_tools g') step_no
                | Some p \<Rightarrow> ret (Some (payload_tool_calls (step_payload p), payload_content (step_payload p),
                                      run_tokens_used run))) (\<lambda>outcome.
         case outcome of
           None \<Rightarrow> ret g'
         | Some (payload, plain_content, tokens_used) \<Rightarrow>
             mseq (run_step_calls E (eng_tools g') step_no payload plain_content tokens_used) (ret g'))))))"

text \<open>\<open>while run.status == running\<close>, with fuel: \<open>False\<close> is out of fuel.\<close>

fun run_loop :: "nat \<Rightarrow> 'w env \<Rightarrow> 'w llm \<Rightarrow> 'w mcp_call \<Rightarrow> 'w engine \<Rightarrow> ('w, bool) op" where
  "run_loop 0 E L C g = mbind (gets cur) (\<lambda>run. ret (run_status run \<noteq> RS_running))"
| "run_loop (Suc n) E L C g =
     mbind (gets cur) (\<lambda>run.
       if run_status run = RS_running
       then mbind (execute_step E L C g) (run_loop n E L C)
       else ret True)"

definition run_until_blocked ::
  "nat \<Rightarrow> 'w env \<Rightarrow> 'w llm \<Rightarrow> 'w mcp_call \<Rightarrow> 'w engine \<Rightarrow> uuid \<Rightarrow> ('w, bool) op" where
  "run_until_blocked fuel E L C g i =
     mbind (gets rows) (\<lambda>d.
       case find_run d i of
         None \<Rightarrow> raise (PyError ''ValueError'' (''run '' @ uuid_str i @ '' not found''))
       | Some r \<Rightarrow>
           mseq (modify (\<lambda>s. s\<lparr>cur := r\<rparr>))
           (mseq (if run_status r = RS_pending then mseq (checkpoint E (Some RS_running) no_updates) commit else ret ())
             (run_loop fuel E L C g)))"

end
