(* ===== verification/EngineRuns.thy ===== *)
theory EngineRuns
  imports Engine "HOL-Library.Multiset"
begin

text \<open>
  What the engine does to a run: which of its operations leave the run row alone, what one step may
  change, that the loop ends within its step budget, and what holds of the run when it stops.
\<close>

section \<open>Operations that leave the run alone\<close>

text \<open>
  The run rows and the caller's object stay; requests for approval and steps are never removed; a
  commit makes the run rows durable as they are.
\<close>

definition leaves_run :: "'w st \<Rightarrow> 'w st \<Rightarrow> bool" where
  "leaves_run s s' \<longleftrightarrow> runs (rows s') = runs (rows s) \<and> cur s' = cur s
     \<and> set (approvals (rows s)) \<subseteq> set (approvals (rows s')) \<and> set (steps (rows s)) \<subseteq> set (steps (rows s'))
     \<and> (durable s' = durable s \<or> runs (durable s') = runs (rows s))"

interpretation leaves: state_preorder leaves_run
  by unfold_locales (simp add: leaves_run_def, unfold leaves_run_def, metis subset_trans)

lemma leaves_now [resp_rules]: "resp leaves_run (now E)"
  by (rule respI) (auto simp: now_def leaves_run_def split: prod.splits)

lemma leaves_uuid4 [resp_rules]: "resp leaves_run (uuid4 E)"
  by (rule respI) (auto simp: uuid4_def leaves_run_def split: prod.splits)

lemma leaves_commit [resp_rules]: "resp leaves_run commit"
  by (rule respI) (auto simp: commit_def leaves_run_def)

lemma leaves_llm [resp_rules]: "resp leaves_run (llm_complete L ms ts)"
  by (rule respI) (auto simp: llm_complete_def leaves_run_def split: prod.splits)

lemma leaves_inserts [resp_rules]:
  "resp leaves_run (insert_execution e)" "resp leaves_run (insert_approval a)" "resp leaves_run (insert_step p)"
  "resp leaves_run (insert_message m)" "resp leaves_run (insert_usage u)" "resp leaves_run (save_execution e)"
  by (auto intro!: respI simp: insert_execution_def insert_approval_def insert_step_def insert_message_def
      insert_usage_def save_execution_def leaves_run_def)

lemma leaves_call_handler [resp_rules]: "resp leaves_run (call_handler tk e)"
  by (rule respI) (auto simp: call_handler_def leaves_run_def split: prod.splits)

lemma leaves_scalar [resp_rules]: "resp leaves_run (scalar_one_or_none xs)"
  by (cases xs rule: scalar_one_or_none.cases) (auto intro!: leaves.resp_intros)

lemma leaves_lift_sum [resp_rules]: "resp leaves_run (lift_sum x)"
  by (auto simp: lift_sum_def intro!: leaves.resp_intros split: sum.splits)

lemma leaves_add_execution [resp_rules]: "resp leaves_run (add_execution E mk)"
  by (auto simp: add_execution_def intro!: leaves.resp_intros resp_rules)

lemma leaves_get_existing [resp_rules]: "resp leaves_run (get_existing key)"
  by (auto simp: get_existing_def intro!: leaves.resp_intros resp_rules)

lemma leaves_record_unknown [resp_rules]: "resp leaves_run (record_unknown_tool E run n c call x)"
  by (auto simp: record_unknown_tool_def Let_def intro!: leaves.resp_intros resp_rules split: option.splits)

lemma leaves_record_invalid [resp_rules]: "resp leaves_run (record_invalid_arguments E run n c call tk x)"
  by (auto simp: record_invalid_arguments_def intro!: leaves.resp_intros resp_rules)

lemma leaves_check_approval [resp_rules]: "resp leaves_run (check_approval E run n c args tk)"
  unfolding check_approval_def Let_def
  by (intro leaves.resp_mbind resp_rules leaves.resp_option leaves.resp_if leaves.resp_gets leaves.resp_ret)

lemma leaves_invoke [resp_rules]: "resp leaves_run (invoke_and_finalize E e tk)"
  by (auto simp: invoke_and_finalize_def Let_def intro!: leaves.resp_intros resp_rules split: sum.splits)

lemma leaves_resolve [resp_rules]: "resp leaves_run (resolve_existing E e tk)"
  by (auto simp: resolve_existing_def recover_started_def Let_def intro!: leaves.resp_intros resp_rules)

lemma leaves_prepare [resp_rules]: "resp leaves_run (prepare_call E run n c call tk)"
  by (auto simp: prepare_call_def intro!: leaves.resp_intros resp_rules split: sum.splits exn.splits option.splits)

lemma leaves_execute [resp_rules]: "resp leaves_run (execute E run n c call tool)"
  by (auto simp: execute_def execute_inner_def intro!: leaves.resp_intros resp_rules
      split: sum.splits option.splits)

lemma leaves_guardrails [resp_rules]:
  "resp leaves_run (check_before_step E)" "resp leaves_run (check_repeated_calls i n a w)"
  "resp leaves_run (check_no_progress i w)" "resp leaves_run (check_tool_call_budget r m)"
  using check_before_step_store [THEN resp_mono, of leaves_run E]
  by (auto simp: same_store_def leaves_run_def check_repeated_calls_store check_no_progress_store
      check_tool_call_budget_def resp_def)

lemma leaves_add_message [resp_rules]: "resp leaves_run (add_message E i r t)"
  by (auto simp: add_message_def Let_def intro!: leaves.resp_intros resp_rules)

lemma leaves_add_step [resp_rules]: "resp leaves_run (add_step E i n ty pl tu)"
  by (auto simp: add_step_def Let_def intro!: leaves.resp_intros resp_rules)

lemma leaves_record_usage [resp_rules]: "resp leaves_run (record_usage E t i m u)"
  by (auto simp: record_usage_def intro!: leaves.resp_intros resp_rules)

lemma leaves_get_revision [resp_rules]:
  "resp leaves_run (get_revision_by_id t i)" "resp leaves_run (get_active_revision_by_skill_name t n)"
  by (auto simp: get_revision_by_id_def get_active_revision_by_skill_name_def intro!: leaves.resp_intros resp_rules)

lemma leaves_skill_context [resp_rules]: "resp leaves_run (build_skill_context E)"
  by (auto simp: build_skill_context_def Let_def intro!: leaves.resp_intros resp_rules split: option.splits)

lemma leaves_select_skill [resp_rules]: "resp leaves_run select_skill_candidate"
  by (auto simp: select_skill_candidate_def Let_def intro!: leaves.resp_intros resp_rules split: list.splits prod.splits)

lemma leaves_build_messages [resp_rules]: "resp leaves_run (build_llm_messages E)"
  by (auto simp: build_llm_messages_def Let_def intro!: leaves.resp_intros resp_rules split: prod.splits)

lemma leaves_maybe_compact [resp_rules]: "resp leaves_run (maybe_compact E L cw th)"
  by (auto simp: maybe_compact_def Let_def intro!: leaves.resp_intros resp_rules)

lemma leaves_record_skill_usage [resp_rules]: "resp leaves_run (record_skill_usage_for_run E)"
proof -
  have m: "resp leaves_run (modify (\<lambda>s. s\<lparr>rows := (rows s)\<lparr>skill_usages := f s\<rparr>\<rparr>))" for f
    by (rule respI) (simp add: leaves_run_def)
  show ?thesis
    by (auto simp: record_skill_usage_for_run_def Let_def intro!: leaves.resp_intros resp_rules m split: option.splits)
qed

lemma leaves_uuid_of_str [resp_rules]: "resp leaves_run (uuid_of_str t)"
  by (auto simp: uuid_of_str_def Let_def intro!: leaves.resp_intros)

lemma leaves_finish_evidence [resp_rules]: "resp leaves_run (finish_evidence_error a)"
  by (auto simp: finish_evidence_error_def intro!: leaves.resp_intros split: json.splits option.splits)

lemma leaves_get_step [resp_rules]: "resp leaves_run (get_step i n)"
  by (auto simp: get_step_def intro!: leaves.resp_intros resp_rules)

section \<open>Operations that keep the run's progress\<close>

text \<open>The session's run object is the row: what the engine holds has not been overtaken.\<close>

definition linked :: "'w st \<Rightarrow> bool" where
  "linked s \<longleftrightarrow> run_ids_distinct s \<and> find_run (rows s) (run_id (cur s)) = Some (cur s)"

text \<open>Loading a tool or a skill changes the run's tool names, its skill and the version only.\<close>

definition same_progress :: "agent_run \<Rightarrow> agent_run \<Rightarrow> bool" where
  "same_progress r r' \<longleftrightarrow> (\<exists>a b v t. r' = r\<lparr>run_active_skill_revision_id := a, run_active_tool_names := b,
     run_version := v, run_updated_at := t\<rparr>)"

lemma same_progress_refl [simp]: "same_progress r r"
  unfolding same_progress_def
  by (rule exI [of _ "run_active_skill_revision_id r"], rule exI [of _ "run_active_tool_names r"],
      rule exI [of _ "run_version r"], rule exI [of _ "run_updated_at r"]) simp

lemma same_progress_trans: "same_progress r r' \<Longrightarrow> same_progress r' r'' \<Longrightarrow> same_progress r r''"
  unfolding same_progress_def by (elim exE, simp) blast

lemma same_progressD:
  assumes "same_progress r r'"
  shows "run_id r' = run_id r" "run_status r' = run_status r" "run_current_step r' = run_current_step r"
    "run_max_steps r' = run_max_steps r" "run_max_tool_calls r' = run_max_tool_calls r"
    "run_token_budget r' = run_token_budget r" "run_tokens_used r' = run_tokens_used r"
    "run_tool_calls_used r' = run_tool_calls_used r" "run_tenant_id r' = run_tenant_id r"
    "run_final_result r' = run_final_result r" "run_error r' = run_error r"
  using assms by (auto simp: same_progress_def)

definition keeps_run :: "'w st \<Rightarrow> 'w st \<Rightarrow> bool" where
  "keeps_run s s' \<longleftrightarrow> (linked s \<longrightarrow> linked s' \<and> same_progress (cur s) (cur s')
     \<and> set (approvals (rows s)) \<subseteq> set (approvals (rows s')) \<and> set (steps (rows s)) \<subseteq> set (steps (rows s')))"

interpretation keeps: state_preorder keeps_run
  by unfold_locales (auto simp: keeps_run_def intro: same_progress_trans)

lemma leaves_linked: "leaves_run s s' \<Longrightarrow> linked s \<Longrightarrow> linked s'"
  by (simp add: leaves_run_def linked_def run_ids_distinct_def find_run_def)

lemma leaves_keeps: "leaves_run s s' \<Longrightarrow> keeps_run s s'"
  using leaves_linked [of s s'] by (auto simp: keeps_run_def leaves_run_def)

lemma resp_leaves_keeps: "resp leaves_run m \<Longrightarrow> resp keeps_run m"
  by (erule resp_mono) (rule leaves_keeps)

definition with_status :: "run_status option \<Rightarrow> field_updates \<Rightarrow> field_updates" where
  "with_status st u = (case st of None \<Rightarrow> u | Some t \<Rightarrow> u\<lparr>fu_status := Some t\<rparr>)"

text \<open>On a run that is not overtaken a checkpoint fails only on an invalid transition.\<close>

lemma checkpoint_linked:
  assumes "linked s" and "env_now E (world s) = (t, w)"
  shows "checkpoint E st u s =
    (if (case st of None \<Rightarrow> True | Some x \<Rightarrow> valid_transition (run_status (cur s)) x)
     then (Inr (), s\<lparr>world := w, rows := put_run (updated_row (with_status st u) t (cur s)) (rows s),
                    cur := updated_row (with_status st u) t (cur s)\<rparr>)
     else (Inl (InvalidTransitionError (''cannot transition run from '' @ run_status_str (run_status (cur s))
             @ '' to '' @ run_status_str (the st))), s))"
proof -
  have d: "run_ids_distinct s" and f: "find_run (rows s) (run_id (cur s)) = Some (cur s)"
    using assms(1) by (auto simp: linked_def)
  show ?thesis
    using versioned_update_eq [OF d assms(2), of "with_status st u" "\<lambda>_. True"] f
    by (cases st) (simp_all add: checkpoint_def mbind_def with_status_def assert_valid_transition_run)
qed

lemma linked_put:
  assumes "linked s" and "run_id r = run_id (cur s)"
  shows "linked (s\<lparr>world := w, rows := put_run r (rows s), cur := r\<rparr>)"
    and "linked (s\<lparr>world := w, rows := put_run r (rows s), cur := r, durable := d\<rparr>)"
  using assms by (auto simp: linked_def run_ids_distinct_def find_run_put)

text \<open>A checkpoint, whatever its outcome: the run keeps its identity and its limits.\<close>

lemma checkpoint_cases:
  assumes "linked s" and "checkpoint E st u s = (r, s')"
  obtains t where "r = Inr ()" and "case st of None \<Rightarrow> True | Some x \<Rightarrow> valid_transition (run_status (cur s)) x"
      and "cur s' = updated_row (with_status st u) t (cur s)"
      and "rows s' = put_run (cur s') (rows s)" and "linked s'"
  | m x where "r = Inl (InvalidTransitionError m)" and "s' = s" and "st = Some x"
      and "\<not> valid_transition (run_status (cur s)) x"
proof -
  obtain t w where n: "env_now E (world s) = (t, w)" by fastforce
  show thesis
    using checkpoint_linked [OF assms(1) n, of st u] assms that
    by (cases "case st of None \<Rightarrow> True | Some x \<Rightarrow> valid_transition (run_status (cur s)) x")
      (auto simp: linked_put split: option.splits)
qed

lemma keeps_checkpoint_names:
  "resp keeps_run (checkpoint E None (no_updates\<lparr>fu_active_tool_names := n\<rparr>))"
  "resp keeps_run (checkpoint E None (no_updates\<lparr>fu_active_skill_revision_id := k, fu_active_tool_names := n\<rparr>))"
proof -
  have "keeps_run s (snd (checkpoint E None (no_updates\<lparr>fu_active_skill_revision_id := k, fu_active_tool_names := n\<rparr>) s))"
    for s :: "'a st" and k and n :: "string list option"
  proof (cases "linked s")
    case True
    obtain t w where "env_now E (world s) = (t, w)" by fastforce
    with True show ?thesis
      by (auto simp: checkpoint_linked keeps_run_def with_status_def no_updates_def linked_put
          updated_row_def apply_updates_def same_progress_def)
  qed (simp add: keeps_run_def)
  from this [where k = None and n = n] this [where k = k and n = n] show
    "resp keeps_run (checkpoint E None (no_updates\<lparr>fu_active_tool_names := n\<rparr>))"
    "resp keeps_run (checkpoint E None (no_updates\<lparr>fu_active_skill_revision_id := k, fu_active_tool_names := n\<rparr>))"
    by (auto simp: resp_def no_updates_def)
qed

lemmas keeps_leaf = resp_rules [THEN resp_leaves_keeps]

lemma resp_keeps_Pair: "resp keeps_run (Pair x)"
  by (simp add: resp_def keeps.refl)

lemma keeps_execute: "resp keeps_run (execute E run n c call tool)"
  by (intro resp_leaves_keeps resp_rules)

lemma keeps_finish_call: "resp keeps_run (run_finish_call E n c call)"
  by (auto simp: run_finish_call_def Let_def intro!: keeps.resp_intros keeps_execute
      resp_leaves_keeps [OF leaves_finish_evidence] split: option.splits)

lemmas keeps_calls = keeps.resp_intros keeps_execute resp_keeps_Pair

lemma keeps_ask_user_call: "resp keeps_run (run_ask_user_call E n c call)"
  by (auto simp: run_ask_user_call_def intro!: keeps_calls)

lemma keeps_load_tool_call: "resp keeps_run (run_load_tool_call E tools n c call)"
  by (auto simp: run_load_tool_call_def intro!: keeps_calls keeps_checkpoint_names
      split: option.splits json.splits)

lemma keeps_use_skill_call: "resp keeps_run (run_use_skill_call E tools n c call)"
  by (auto simp: run_use_skill_call_def Let_def intro!: keeps_calls keeps_checkpoint_names
      resp_leaves_keeps [OF leaves_uuid_of_str] split: option.splits json.splits)

lemma keeps_tool_call: "resp keeps_run (run_tool_call E tool n c call)"
  by (auto simp: run_tool_call_def Let_def intro!: keeps_calls resp_leaves_keeps [OF leaves_guardrails(2)]
      resp_leaves_keeps [OF leaves_guardrails(3)] split: option.splits exn.splits)

lemma keeps_single_call: "resp keeps_run (execute_single_tool_call E tools n c call)"
  by (auto simp: execute_single_tool_call_def Let_def intro!: keeps_calls keeps_finish_call
      keeps_ask_user_call keeps_load_tool_call keeps_use_skill_call keeps_tool_call split: option.splits)

lemma keeps_sequential: "resp keeps_run (run_sequential E tools n calls k)"
  by (induction E tools n calls k rule: run_sequential.induct)
    (auto intro!: keeps_calls keeps_single_call split: option.splits prod.splits)

lemma keeps_process: "resp keeps_run (process_tool_calls E tools n payload)"
  by (auto simp: process_tool_calls_def run_deferred_call_def indexed_call_def run_read_only_def Let_def
      intro!: keeps_calls keeps_single_call keeps_sequential resp_leaves_keeps [OF leaves_lift_sum]
      split: prod.splits)

section \<open>What a batch of calls answers\<close>

definition returns :: "('a \<Rightarrow> 's \<Rightarrow> bool) \<Rightarrow> ('s, 'e, 'a) prog \<Rightarrow> bool" where
  "returns Q m \<longleftrightarrow> (\<forall>s a s'. m s = (Inr a, s') \<longrightarrow> Q a s')"

lemma returns_ret: "(\<And>s. Q a s) \<Longrightarrow> returns Q (ret a)"
  by (simp add: returns_def)

lemma returns_raise: "returns Q (raise e)"
  by (simp add: returns_def)

lemma returns_mbind: "(\<And>a. returns Q (f a)) \<Longrightarrow> returns Q (mbind m f)"
  by (auto simp: returns_def elim: mbind_Inr_E)

lemma returnsD: "returns Q m \<Longrightarrow> m s = (Inr a, s') \<Longrightarrow> Q a s'"
  by (simp add: returns_def)

lemma returns_Pair: "(\<And>s. Q a s) \<Longrightarrow> returns Q (Pair (Inr a))"
  by (simp add: returns_def)

lemmas returns_intros = returns_Pair returns_ret returns_raise returns_mbind

definition pending_request :: "uuid \<Rightarrow> int \<Rightarrow> 'w st \<Rightarrow> bool" where
  "pending_request i n s \<longleftrightarrow>
     (\<exists>a \<in> set (approvals (rows s)). ap_run_id a = i \<and> ap_step_no a = n \<and> ap_status a = AS_pending)"

definition outcome_ok :: "uuid \<Rightarrow> int \<Rightarrow> execution_outcome \<Rightarrow> 'w st \<Rightarrow> bool" where
  "outcome_ok i n oc s \<longleftrightarrow> (oc_needs_approval oc \<longrightarrow> pending_request i n s) \<and> (oc_fatal oc \<longrightarrow> oc_fatal_reason oc \<noteq> None)"

lemma outcome_ok_plain [simp]: "outcome_ok i n (outcome obs) s"
  by (simp add: outcome_ok_def)

lemma returns_invoke: "returns (outcome_ok i n) (invoke_and_finalize E e tk)"
  by (auto simp: invoke_and_finalize_def Let_def intro!: returns_intros split: sum.splits)

lemma returns_resolve: "returns (outcome_ok i n) (resolve_existing E e tk)"
  by (auto simp: resolve_existing_def recover_started_def Let_def returns_invoke intro!: returns_intros)
    (auto simp: outcome_ok_def)

lemma returns_unknown: "returns (outcome_ok i n) (record_unknown_tool E run m c call x)"
  by (auto simp: record_unknown_tool_def Let_def intro!: returns_intros split: option.splits)

text \<open>The gate asks to wait only while a request for the call is pending.\<close>

lemma returns_check_approval:
  "returns (\<lambda>x s. \<forall>oc. x = Some oc \<longrightarrow> outcome_ok (run_id run) n oc s) (check_approval E run n c args tk)"
  unfolding returns_def
proof (intro allI impI)
  fix s x s' oc
  assume ca: "check_approval E run n c args tk s = (Inr x, s')" and x: "x = Some oc"
  let ?hits = "filter (\<lambda>a. ap_run_id a = run_id run \<and> ap_step_no a = n \<and> ap_call_index a = c) (approvals (rows s))"
  show "outcome_ok (run_id run) n oc s'"
  proof (cases ?hits)
    case Nil
    obtain t w where t: "env_now E (world s) = (t, w)" by fastforce
    obtain k w1 where k: "env_uuid4 E w = (k, w1)" by fastforce
    obtain t' w2 where t': "env_now E w1 = (t', w2)" by fastforce
    show ?thesis
      using ca x Nil
      by (auto simp: check_approval_def mbind_def now_def t uuid4_def k t' insert_approval_def commit_def
          Let_def outcome_ok_def pending_request_def split: if_splits)
  next
    case (Cons a as)
    show ?thesis
    proof (cases as)
      case Nil
      with Cons have a: "a \<in> set (approvals (rows s))" "ap_run_id a = run_id run" "ap_step_no a = n"
        by (auto dest: filter_single)
      have run: "check_approval E run n c args tk s =
        (if ap_status a = AS_pending
         then (Inr (Some \<lparr>oc_observation = [], oc_fatal = False, oc_fatal_reason = None, oc_needs_approval = True\<rparr>), s)
         else if ap_status a = AS_approved then (Inr None, s)
         else mbind (now E) (\<lambda>f. mbind (add_execution E (failed_execution run n c tk (JObj args) (denial_message a) f)) (\<lambda>e.
            ret (Some (outcome (error_observation (denial_message a) (code_str APPROVAL_DENIED) False (Some (ex_id e))))))) s)"
        using Cons Nil by (simp add: check_approval_def mbind_def [of "gets rows"])
      show ?thesis
        using ca x a unfolding run
        by (auto simp: outcome_ok_def pending_request_def elim!: mbind_Inr_E split: if_splits)
    next
      case (Cons b bs)
      with \<open>?hits = a # as\<close> show ?thesis using ca by (simp add: check_approval_def mbind_def)
    qed
  qed
qed

lemma returns_prepare:
  "returns (\<lambda>p s. \<forall>oc. p = Inl oc \<longrightarrow> outcome_ok (run_id run) n oc s) (prepare_call E run n c call tk)"
proof (cases "normalize_and_validate_arguments (env_schema_errors E) (tl_parameters tk) (tc_arguments call)")
  case (Inl x)
  then show ?thesis
    by (cases x) (auto simp: prepare_call_def record_invalid_arguments_def mbind_assoc intro!: returns_intros)
next
  case (Inr args)
  show ?thesis
    unfolding returns_def
  proof (intro allI impI)
    fix s p s' oc
    assume pc: "prepare_call E run n c call tk s = (Inr p, s')" and p: "p = Inl oc"
    then obtain x u where x: "(if requires_approval (tl_risk_tier tk)
        then check_approval E run n c args tk else ret None) s = (Inr x, u)"
      by (auto simp: prepare_call_def Inr elim: mbind_Inr_E)
    with pc p Inr show "outcome_ok (run_id run) n oc s'"
      using returnsD [OF returns_check_approval, of E run n c args tk s x u]
      by (cases x) (auto simp: prepare_call_def split: if_splits elim!: mbind_Inr_E)
  qed
qed

lemma returns_execute: "returns (outcome_ok (run_id run) n) (execute E run n c call tool)"
proof -
  have "returns (outcome_ok (run_id run) n)
      (mbind (prepare_call E run n c call tk) (\<lambda>p. case p of Inl oc \<Rightarrow> ret oc | Inr e \<Rightarrow> invoke_and_finalize E e tk))" for tk
    unfolding returns_def
  proof (intro allI impI)
    fix s oc s'
    assume "mbind (prepare_call E run n c call tk) (\<lambda>p. case p of Inl oc \<Rightarrow> ret oc | Inr e \<Rightarrow> invoke_and_finalize E e tk) s = (Inr oc, s')"
    then show "outcome_ok (run_id run) n oc s'"
      by (elim mbind_Inr_E) (auto split: sum.splits dest: returnsD [OF returns_prepare] returnsD [OF returns_invoke])
  qed
  then show ?thesis
    by (auto simp: execute_def execute_inner_def returns_unknown returns_resolve intro!: returns_mbind split: option.splits)
qed

text \<open>
  A control result: the run is over, or it waits; a failure names its error, and a wait for an
  approval has a request pending at the step.
\<close>

definition control_ok :: "int \<Rightarrow> control \<Rightarrow> 'w st \<Rightarrow> bool" where
  "control_ok n c s \<longleftrightarrow> (\<forall>kind args. c = Some (kind, args) \<longrightarrow>
     kind = ''completed'' \<or> kind = ''waiting_user_input''
     \<or> (kind = ''failed'' \<and> (\<exists>m. dict_get args ''error'' = Some (JStr m)))
     \<or> (kind = ''waiting_approval'' \<and> pending_request (run_id (cur s)) n s))"

lemma control_ok_simps [simp]:
  "control_ok n None s"
  "control_ok n (Some (''completed'', args)) s"
  "control_ok n (Some (''waiting_user_input'', args)) s"
  "control_ok n (Some (''failed'', args)) s \<longleftrightarrow> (\<exists>m. dict_get args ''error'' = Some (JStr m))"
  "control_ok n (Some (''waiting_approval'', args)) s \<longleftrightarrow> pending_request (run_id (cur s)) n s"
  by (simp_all add: control_ok_def)

lemma execute_cur: "execute E run n c call tool s = (r, s') \<Longrightarrow> cur s' = cur s"
  using leaves_execute [of E run n c call tool] by (auto simp: leaves_run_def dest: respD)

lemma tool_call_control:
  assumes "run_tool_call E tool n c call s = (Inr x, s')"
  shows "control_ok n x s'"
proof -
  let ?chk = "case tool of None \<Rightarrow> ret None
    | Some t \<Rightarrow> mcatch (mseq (check_repeated_calls (run_id (cur s)) (tl_name t) (tc_arguments call) REPEATED_CALL_WINDOW) (ret None))
        (\<lambda>e. case e of GuardrailViolation reason st \<Rightarrow> ret (Some (''failed'', [(''error'', JStr reason)])) | _ \<Rightarrow> raise e)"
  obtain y s1 where y: "?chk s = (y, s1)" by fastforce
  have s1: "s1 = s"
    using y check_repeated_calls_store [of "run_id (cur s)" "tl_name (the tool)" "tc_arguments call" REPEATED_CALL_WINDOW s]
    by (cases tool) (auto simp: mcatch_def mbind_def split: prod.splits sum.splits exn.splits)
  have y': "control_ok n (Some z) s" if "y = Inr (Some z)" for z
    using y that by (cases tool) (auto simp: mcatch_def mbind_def split: prod.splits sum.splits exn.splits)
  show ?thesis
  proof (cases "y = Inr None")
    case False
    then obtain z where "y = Inr (Some z)" "x = Some z" "s' = s"
      using assms y s1 by (cases y) (auto simp: run_tool_call_def mbind_def [of "gets cur"] split: option.splits)
    with y' show ?thesis by simp
  next
    case True
    obtain q s2 where q: "execute E (cur s) n c call tool s = (q, s2)" by fastforce
    obtain oc where oc: "q = Inr oc"
      using assms y True s1 q by (cases q) (auto simp: run_tool_call_def mbind_def [of "gets cur"])
    have ok: "outcome_ok (run_id (cur s)) n oc s2" by (rule returnsD [OF returns_execute q [unfolded oc]])
    show ?thesis
      using assms y True s1 q oc ok execute_cur [OF q]
      by (auto simp: run_tool_call_def mbind_def [of "gets cur"] mbind_def [of "gets rows"] Let_def outcome_ok_def
          mcatch_def mbind_def [of "check_no_progress _ _"] split: if_splits option.splits sum.splits prod.splits exn.splits)
  qed
qed

lemma single_call_control:
  assumes "execute_single_tool_call E tools n c call s = (Inr x, s')"
  shows "control_ok n x s'"
proof -
  have f: "returns (control_ok n) (run_finish_call E n c call)" "returns (control_ok n) (run_ask_user_call E n c call)"
    "returns (control_ok n) (run_load_tool_call E tools n c call)" "returns (control_ok n) (run_use_skill_call E tools n c call)"
    by (auto simp: run_finish_call_def run_ask_user_call_def run_load_tool_call_def run_use_skill_call_def Let_def
        intro!: returns_intros split: option.splits json.splits)
  have t: "returns (control_ok n) (run_tool_call E tool n c call)" for tool
    using tool_call_control by (auto simp: returns_def)
  have "returns (control_ok n) (execute_single_tool_call E tools n c call)"
    by (auto simp: execute_single_tool_call_def Let_def intro!: returns_intros f t split: option.splits)
  with assms show ?thesis by (auto dest: returnsD)
qed

lemma pending_kept: "keeps_run s s' \<Longrightarrow> linked s \<Longrightarrow> pending_request (run_id (cur s)) n s \<Longrightarrow> pending_request (run_id (cur s')) n s'"
  using same_progressD(1) [of "cur s" "cur s'"] by (fastforce simp: keeps_run_def pending_request_def)

section \<open>The plan of a batch\<close>

lemma plan_loop_mset:
  "plan_loop ro k calls taken = (sel, def) \<Longrightarrow> mset sel + mset def = mset calls"
  by (induction ro k calls taken arbitrary: sel def rule: plan_loop.induct)
    (auto simp: Let_def split: if_splits prod.splits)

lemma plan_loop_subseq:
  "plan_loop ro k calls taken = (sel, def) \<Longrightarrow> subseq sel calls \<and> subseq def calls"
  by (induction ro k calls taken arbitrary: sel def rule: plan_loop.induct)
    (auto simp: Let_def split: if_splits prod.splits)

lemma plan_loop_bound:
  "plan_loop ro k calls taken = (sel, def) \<Longrightarrow> length sel \<le> k - taken \<and> (\<forall>p \<in> set sel. ro (snd p))"
  by (induction ro k calls taken arbitrary: sel def rule: plan_loop.induct)
    (fastforce simp: Let_def split: if_splits prod.splits)+

lemma plan_calls_cases:
  assumes "plan_calls ro k calls = (sel, def)"
  shows "mset sel + mset def = mset (enumerate 0 calls)" and "subseq sel (enumerate 0 calls)"
    and "subseq def (enumerate 0 calls)"
    and "(\<exists>c. sel = [(0, c)] \<and> \<not> ro c) \<or> (length sel \<le> k \<and> (\<forall>p \<in> set sel. ro (snd p)))"
    and "calls \<noteq> [] \<Longrightarrow> 0 < k \<Longrightarrow> (0, hd calls) \<in> set sel"
proof -
  let ?goal = "mset sel + mset def = mset (enumerate 0 calls) \<and> subseq sel (enumerate 0 calls)
    \<and> subseq def (enumerate 0 calls)
    \<and> ((\<exists>c. sel = [(0, c)] \<and> \<not> ro c) \<or> (length sel \<le> k \<and> (\<forall>p \<in> set sel. ro (snd p))))
    \<and> (calls \<noteq> [] \<longrightarrow> 0 < k \<longrightarrow> (0, hd calls) \<in> set sel)"
  have ?goal
  proof (cases calls)
    case Nil
    with assms show ?thesis by (simp add: plan_calls_def)
  next
    case (Cons c cs)
    show ?thesis
    proof (cases "ro c")
      case False
      with assms Cons have "sel = [(0, c)]" "def = enumerate 1 cs" by (simp_all add: plan_calls_def)
      moreover have "subseq (enumerate 1 cs) ((0, c) # enumerate 1 cs)"
        by (rule list_emb_Cons) simp
      ultimately show ?thesis using False Cons by simp
    next
      case True
      with assms Cons have pl: "plan_loop ro k (enumerate 0 calls) 0 = (sel, def)" by (simp add: plan_calls_def)
      have "0 < k \<longrightarrow> (0, c) \<in> set sel" using pl True Cons by (auto simp: Let_def split: prod.splits)
      with plan_loop_mset [OF pl] plan_loop_subseq [OF pl] plan_loop_bound [OF pl] Cons show ?thesis by simp
    qed
  qed
  then show "mset sel + mset def = mset (enumerate 0 calls)" "subseq sel (enumerate 0 calls)"
    "subseq def (enumerate 0 calls)"
    "(\<exists>c. sel = [(0, c)] \<and> \<not> ro c) \<or> (length sel \<le> k \<and> (\<forall>p \<in> set sel. ro (snd p)))"
    "calls \<noteq> [] \<Longrightarrow> 0 < k \<Longrightarrow> (0, hd calls) \<in> set sel" by blast+
qed

lemma plan_lengths:
  "plan_tool_calls E tools payload = (sel, def) \<Longrightarrow> length sel + length def = length payload"
  using plan_calls_cases(1) [of "is_read_only tools" _ payload sel def]
  by (metis length_enumerate plan_tool_calls_def size_mset size_union)

section \<open>The answer of a batch\<close>

lemma map_each_length: "map_each f xs s = (Inr ys, s') \<Longrightarrow> length ys = length xs"
  by (induction xs arbitrary: s ys) (auto elim!: mbind_Inr_E)

text \<open>What holds of one element's result, and is kept by the others, holds of all at the end.\<close>

lemma map_each_results:
  assumes "\<And>x s y s'. x \<in> set xs \<Longrightarrow> I s \<Longrightarrow> f x s = (Inr y, s') \<Longrightarrow> Q y s' \<and> I s'"
    and "\<And>x s r s' y. x \<in> set xs \<Longrightarrow> I s \<Longrightarrow> f x s = (r, s') \<Longrightarrow> Q y s \<Longrightarrow> Q y s'"
    and "I s" and "map_each f xs s = (Inr ys, s')"
  shows "I s' \<and> (\<forall>y \<in> set ys. Q y s') \<and> (\<forall>y. Q y s \<longrightarrow> Q y s')"
  using assms
proof (induction xs arbitrary: s ys)
  case Nil
  then show ?case by simp
next
  case (Cons x xs)
  from Cons.prems(4) obtain y s1 zs where 1: "f x s = (Inr y, s1)" "map_each f xs s1 = (Inr zs, s')" "ys = y # zs"
    by (auto elim!: mbind_Inr_E)
  have s1: "Q y s1 \<and> I s1" using Cons.prems(1) [OF _ Cons.prems(3) 1(1)] by simp
  have "I s' \<and> (\<forall>y \<in> set zs. Q y s') \<and> (\<forall>y. Q y s1 \<longrightarrow> Q y s')"
  proof (rule Cons.IH [OF _ _ _ 1(2)])
    show "Q y s' \<and> I s'" if "z \<in> set xs" "I u" "f z u = (Inr y, s')" for z u y s'
      using Cons.prems(1) [of z u y s'] that by simp
    show "Q y s'" if "z \<in> set xs" "I u" "f z u = (r, s')" "Q y u" for z u r y s'
      using Cons.prems(2) [of z u r s' y] that by simp
  qed (use s1 in simp)
  with s1 1(3) Cons.prems(2) [OF _ Cons.prems(3) 1(1)] show ?case by auto
qed

lemma fold_read_only_bounds:
  "fold_read_only rs k = (w, m) \<Longrightarrow> k \<le> m \<and> m \<le> k + int (length rs)
     \<and> (w \<longrightarrow> (\<exists>args. Inr (Some (''waiting_approval'', args)) \<in> set rs))"
  by (induction rs k rule: fold_read_only.induct) (fastforce split: option.splits prod.splits if_splits)+

definition counted :: "int \<Rightarrow> int \<Rightarrow> control \<Rightarrow> bool" where
  "counted lo hi c \<longleftrightarrow> (\<forall>kind args. c = Some (kind, args) \<longrightarrow> lo \<le> executed_count args \<and> executed_count args \<le> hi)"

lemma executed_count_set [simp]: "executed_count (dict_set ''executed_count'' (JInt k) args) = k"
  by (simp add: executed_count_def)

lemma executed_count_waiting [simp]: "executed_count [(''executed_count'', JInt k)] = k"
  by (simp add: executed_count_def)

lemma control_ok_count:
  "control_ok n (Some (kind, args)) s \<Longrightarrow> kind \<noteq> ''waiting_approval'' \<Longrightarrow>
     control_ok n (Some (kind, dict_set ''executed_count'' (JInt k) args)) s"
  by (auto simp: control_ok_def)

lemma sequential_control:
  assumes "run_sequential E tools n calls k s = (Inr c, s')"
  shows "control_ok n c s' \<and> counted k (k + int (length calls)) c"
  using assms
proof (induction calls arbitrary: k s)
  case Nil
  then show ?case by (simp add: counted_def)
next
  case (Cons p calls)
  obtain i call where p: "p = (i, call)" by (cases p)
  from Cons.prems obtain x s1 where 1: "execute_single_tool_call E tools n i call s = (Inr x, s1)"
    and 2: "(case x of Some (kind, args) \<Rightarrow> if kind = ''waiting_approval'' then ret (waiting_result k)
               else ret (Some (kind, dict_set ''executed_count'' (JInt k) args))
             | None \<Rightarrow> run_sequential E tools n calls (k + 1)) s1 = (Inr c, s')"
    by (auto simp: p elim!: mbind_Inr_E)
  have ok: "control_ok n x s1" by (rule single_call_control [OF 1])
  show ?case
  proof (cases x)
    case None
    with 2 Cons.IH [of "k + 1" s1] show ?thesis by (auto simp: counted_def)
  next
    case (Some q)
    obtain kind args where q: "q = (kind, args)" by (cases q)
    show ?thesis
    proof (cases "kind = ''waiting_approval''")
      case True
      with ok 2 Some q show ?thesis by (auto simp: waiting_result_def counted_def)
    next
      case False
      with 2 Some q have "c = Some (kind, dict_set ''executed_count'' (JInt k) args)" "s' = s1" by auto
      with ok False Some q show ?thesis by (auto simp: counted_def intro: control_ok_count)
    qed
  qed
qed

lemma keeps_run_read_only: "resp keeps_run (run_read_only E tools n x)"
  by (auto simp: run_read_only_def intro!: keeps_calls keeps_single_call)

text \<open>A gathered result that asks to wait has a pending request.\<close>

definition wait_ok :: "int \<Rightarrow> exn + control \<Rightarrow> 'w st \<Rightarrow> bool" where
  "wait_ok n y s \<longleftrightarrow> (\<forall>args. y = Inr (Some (''waiting_approval'', args)) \<longrightarrow> pending_request (run_id (cur s)) n s)"

lemma read_only_results:
  assumes "linked s" and "map_each (run_read_only E tools n) calls s = (Inr rs, s')"
    and "Inr (Some (''waiting_approval'', args)) \<in> set rs"
  shows "pending_request (run_id (cur s')) n s'"
proof -
  have "linked s' \<and> (\<forall>y \<in> set rs. wait_ok n y s') \<and> (\<forall>y. wait_ok n y s \<longrightarrow> wait_ok n y s')"
  proof (rule map_each_results [where I = linked and Q = "wait_ok n", OF _ _ assms(1,2)])
    fix x u y u'
    assume l: "linked u" and r: "run_read_only E tools n x u = (Inr y, u')"
    have "linked u'" using respD [OF keeps_run_read_only r] l by (simp add: keeps_run_def)
    moreover have "wait_ok n y u'"
      unfolding wait_ok_def
    proof (intro allI impI)
      fix args assume "y = Inr (Some (''waiting_approval'', args))"
      with r have "execute_single_tool_call E tools n (fst x) (snd x) u = (Inr (Some (''waiting_approval'', args)), u')"
        by (auto simp: run_read_only_def mcatch_def mbind_def split: prod.splits sum.splits)
      from single_call_control [OF this] show "pending_request (run_id (cur u')) n u'" by simp
    qed
    ultimately show "wait_ok n y u' \<and> linked u'" by simp
  next
    fix x u r u' y
    assume "linked u" and "run_read_only E tools n x u = (r, u')" and "wait_ok n y u"
    then show "wait_ok n y u'" using pending_kept [OF respD [OF keeps_run_read_only]] unfolding wait_ok_def by blast
  qed
  with assms(3) show ?thesis unfolding wait_ok_def by blast
qed

text \<open>The batch's answer, and where the run stands after it.\<close>

lemma process_control:
  assumes "linked s" and "process_tool_calls E tools n payload s = (Inr c, s')"
  shows "linked s' \<and> same_progress (cur s) (cur s') \<and> control_ok n c s' \<and> counted 0 (int (length payload)) c"
proof -
  obtain sel def where plan: "plan_tool_calls E tools payload = (sel, def)" by fastforce
  from assms(2) obtain s1 s2 s3 calls rs where
    1: "for_each def (run_deferred_call E tools n) s = (Inr (), s1)"
    and 2: "map_each indexed_call sel s1 = (Inr calls, s2)"
    and 3: "map_each (run_read_only E tools n) (filter (read_only_call tools) calls) s2 = (Inr rs, s3)"
    and 4: "(let (waiting, executed) = fold_read_only rs 0 in
         if waiting then ret (waiting_result executed)
         else run_sequential E tools n (filter (\<lambda>c. \<not> read_only_call tools c) calls) executed) s3 = (Inr c, s')"
    by (auto simp: process_tool_calls_def plan elim!: mbind_Inr_E)
  have k1: "resp keeps_run (for_each def (run_deferred_call E tools n))"
    by (auto simp: run_deferred_call_def Let_def intro!: keeps_calls resp_leaves_keeps [OF leaves_lift_sum])
  have k2: "resp keeps_run (map_each indexed_call sel)"
    by (auto simp: indexed_call_def intro!: keeps_calls resp_leaves_keeps [OF leaves_lift_sum])
  have s2: "linked s2"
    using assms(1) respD [where R = keeps_run, OF k1 1] respD [where R = keeps_run, OF k2 2] by (simp add: keeps_run_def)
  have len: "length calls \<le> length payload" using map_each_length [OF 2] plan_lengths [OF plan] by simp
  have parts: "length (filter (read_only_call tools) calls) + length (filter (\<lambda>c. \<not> read_only_call tools c) calls) = length calls"
    by (rule sum_length_filter_compl)
  have rs: "length rs = length (filter (read_only_call tools) calls)" by (rule map_each_length [OF 3])
  obtain w m where w: "fold_read_only rs 0 = (w, m)" by fastforce
  note fb = fold_read_only_bounds [OF w]
  have "control_ok n c s' \<and> counted 0 (int (length payload)) c"
  proof (cases w)
    case True
    with fb obtain args where "Inr (Some (''waiting_approval'', args)) \<in> set rs" by blast
    then have "pending_request (run_id (cur s3)) n s3" by (rule read_only_results [OF s2 3])
    then show ?thesis using 4 w True fb rs parts len by (auto simp: waiting_result_def counted_def)
  next
    case False
    then have "run_sequential E tools n (filter (\<lambda>c. \<not> read_only_call tools c) calls) m s3 = (Inr c, s')"
      using 4 w by simp
    from sequential_control [OF this] show ?thesis using fb rs parts len by (auto simp: counted_def)
  qed
  moreover have "linked s' \<and> same_progress (cur s) (cur s')"
    using respD [where R = keeps_run, OF keeps_process assms(2)] assms(1) by (simp add: keeps_run_def)
  ultimately show ?thesis by blast
qed

section \<open>What a step leaves\<close>

text \<open>The run after a checkpoint of the engine: an update of its fields, committed.\<close>

definition written :: "run_status option \<Rightarrow> field_updates \<Rightarrow> 'w st \<Rightarrow> 'w st \<Rightarrow> bool" where
  "written st u s s' \<longleftrightarrow> linked s' \<and> durable s' = rows s' \<and> (\<exists>t. cur s' = updated_row (with_status st u) t (cur s))
     \<and> set (approvals (rows s)) \<subseteq> set (approvals (rows s'))"

lemma checkpoint_commit_written:
  assumes "linked s" and "mbind (checkpoint E st u) (\<lambda>_. m) s = (Inr x, s')"
    and "resp leaves_run m" and "\<And>s x s'. m s = (Inr x, s') \<Longrightarrow> durable s' = rows s'"
  shows "written st u s s'"
proof -
  from assms(2) obtain y s1 where 1: "checkpoint E st u s = (Inr y, s1)" and 2: "m s1 = (Inr x, s')"
    by (rule mbind_Inr_E)
  from assms(1) 1 show ?thesis
  proof (cases rule: checkpoint_cases)
    case (1 t)
    with respD [where R = leaves_run, OF assms(3) 2] leaves_linked [of s1 s'] assms(4) [OF 2] show ?thesis
      by (auto simp: written_def leaves_run_def)
  qed simp
qed

lemma commit_written:
  assumes "linked s" and "mseq (checkpoint E st u) commit s = (Inr x, s')"
  shows "written st u s s'"
  by (rule checkpoint_commit_written [OF assms leaves_commit]) (auto simp: commit_def)

lemma end_run_written:
  assumes "linked s" and "end_run E st u s = (Inr x, s')"
  shows "written (Some st) u s s'"
proof (rule checkpoint_commit_written [OF assms [unfolded end_run_def]])
  show "resp leaves_run (mseq (record_skill_usage_for_run E) commit)"
    by (intro leaves.resp_mbind leaves_record_skill_usage leaves_commit)
qed (auto simp: commit_def elim!: mbind_Inr_E)

text \<open>A run that stopped says why.\<close>

definition explained :: "agent_run \<Rightarrow> bool" where
  "explained r \<longleftrightarrow> (run_status r = RS_completed \<longrightarrow> run_final_result r \<noteq> None)
     \<and> (run_status r \<in> {RS_failed, RS_timed_out, RS_cancelled} \<longrightarrow> run_error r \<noteq> None)"

definition same_limits :: "agent_run \<Rightarrow> agent_run \<Rightarrow> bool" where
  "same_limits r r' \<longleftrightarrow> run_id r' = run_id r \<and> run_tenant_id r' = run_tenant_id r \<and> run_max_steps r' = run_max_steps r
     \<and> run_max_tool_calls r' = run_max_tool_calls r \<and> run_token_budget r' = run_token_budget r"

lemma same_limits_trans: "same_limits r r' \<Longrightarrow> same_limits r' r'' \<Longrightarrow> same_limits r r''"
  by (simp add: same_limits_def)

lemma same_limits_updated [simp]: "same_limits r (updated_row u t r)"
  by (simp add: same_limits_def updated_row_def apply_updates_def)

lemma same_limits_progress: "same_progress r r' \<Longrightarrow> same_limits r r'"
  by (simp add: same_limits_def same_progressD)

text \<open>
  The run after a step: it goes on with the next step, within its limits, or it has stopped. The
  step number moves by at most one, and not at all while the run waits for an approval.
\<close>

definition step_done :: "agent_run \<Rightarrow> 'w st \<Rightarrow> bool" where
  "step_done r s' \<longleftrightarrow> (let r' = cur s' in
     linked s' \<and> durable s' = rows s' \<and> same_limits r r' \<and> explained r' \<and> run_status r' \<noteq> RS_pending
     \<and> (run_status r' = RS_running \<longrightarrow> run_current_step r' = run_current_step r + 1 \<and> run_tokens_used r' \<le> run_token_budget r)
     \<and> (run_current_step r' = run_current_step r
        \<or> run_current_step r' = run_current_step r + 1 \<and> run_current_step r < run_max_steps r)
     \<and> run_tool_calls_used r \<le> run_tool_calls_used r'
     \<and> run_tool_calls_used r' \<le> max (run_tool_calls_used r) (run_max_tool_calls r)
     \<and> (run_status r' = RS_waiting_approval \<longrightarrow> run_current_step r' = run_current_step r
        \<and> pending_request (run_id r') (run_current_step r') s'))"

lemma updated_row_fields [simp]:
  "run_current_step (updated_row u t r) = set_or (fu_current_step u) (run_current_step r)"
  "run_tokens_used (updated_row u t r) = set_or (fu_tokens_used u) (run_tokens_used r)"
  "run_tool_calls_used (updated_row u t r) = set_or (fu_tool_calls_used u) (run_tool_calls_used r)"
  "run_final_result (updated_row u t r) = set_or (fu_final_result u) (run_final_result r)"
  "run_error (updated_row u t r) = set_or (fu_error u) (run_error r)"
  by (simp_all add: updated_row_def apply_updates_def)

lemma updates_of_none [simp]:
  "fu_status no_updates = None" "fu_current_step no_updates = None" "fu_tokens_used no_updates = None"
  "fu_tool_calls_used no_updates = None" "fu_final_result no_updates = None" "fu_error no_updates = None"
  by (simp_all add: no_updates_def)

lemma error_field_Some: "dict_get args ''error'' = Some (JStr m) \<Longrightarrow> error_field args = Some m"
  by (simp add: error_field_def)

lemma finish_step_done:
  assumes "linked s" and "finish_step E n tk k c s = (Inr x, s')" and "control_ok n c s" and "counted 0 (int k) c"
    and "n = run_current_step (cur s)" and "n < run_max_steps (cur s)" and "tk \<le> run_token_budget (cur s)"
    and "run_tool_calls_used (cur s) + int k \<le> run_max_tool_calls (cur s)" and "run_status (cur s) = RS_running"
  shows "step_done (cur s) s'"
proof -
  let ?u = "no_updates\<lparr>fu_current_step := Some (n + 1), fu_tokens_used := Some tk,
      fu_tool_calls_used := Some (run_tool_calls_used (cur s) + int k)\<rparr>"
  show ?thesis
  proof (cases c)
    case None
    with assms(2) have "mseq (checkpoint E None ?u) commit s = (Inr x, s')"
      by (simp add: finish_step_def mbind_def [of "gets cur"] Let_def)
    from commit_written [OF assms(1) this] show ?thesis
      using assms by (auto simp: written_def step_done_def Let_def with_status_def explained_def)
  next
    case (Some q)
    obtain kind args where c: "c = Some (kind, args)" using Some by (cases q) auto
    from assms(3) c consider "kind = ''completed''" | "kind = ''waiting_user_input''"
      | m where "kind = ''failed''" "dict_get args ''error'' = Some (JStr m)"
      | "kind = ''waiting_approval''" "pending_request (run_id (cur s)) n s"
      by (auto simp: control_ok_def)
    then show ?thesis
    proof cases
      case 1
      with assms(2) c have "end_run E RS_completed (?u\<lparr>fu_final_result := Some (Some args)\<rparr>) s = (Inr x, s')"
        by (simp add: finish_step_def mbind_def [of "gets cur"] Let_def)
      from end_run_written [OF assms(1) this] show ?thesis
        using assms by (auto simp: written_def step_done_def Let_def with_status_def explained_def)
    next
      case 2
      with assms(2) c obtain msg s1 where
        "add_message E (run_id (cur s)) MR_assistant (str_or (dict_get args ''question'') ''(no question provided)'') s = (Inr msg, s1)"
        and s1: "mseq (checkpoint E (Some RS_waiting_user_input) ?u) commit s1 = (Inr x, s')"
        by (auto simp: finish_step_def mbind_def [of "gets cur"] Let_def elim: mbind_Inr_E)
      then have l: "leaves_run s s1" by (auto intro: respD leaves_add_message)
      have "linked s1" "cur s1 = cur s" "set (approvals (rows s)) \<subseteq> set (approvals (rows s1))"
        using leaves_linked [OF l assms(1)] l by (auto simp: leaves_run_def)
      with commit_written [OF this(1) s1] show ?thesis
        using assms by (auto simp: written_def step_done_def Let_def with_status_def explained_def)
    next
      case 3
      with assms(2) c have "end_run E RS_failed (?u\<lparr>fu_error := Some (Some m)\<rparr>) s = (Inr x, s')"
        by (simp add: finish_step_def mbind_def [of "gets cur"] Let_def error_field_Some)
      from end_run_written [OF assms(1) this] show ?thesis
        using assms by (auto simp: written_def step_done_def Let_def with_status_def explained_def)
    next
      case 4
      with assms(2) c have "mseq (checkpoint E (Some RS_waiting_approval) (?u\<lparr>fu_tool_calls_used :=
          Some (run_tool_calls_used (cur s) + executed_count args), fu_current_step := Some n\<rparr>)) commit s = (Inr x, s')"
        by (simp add: finish_step_def mbind_def [of "gets cur"] Let_def)
      from commit_written [OF assms(1) this] show ?thesis
        using assms 4 c by (fastforce simp: written_def step_done_def Let_def with_status_def explained_def
            pending_request_def counted_def)
    qed
  qed
qed

lemma step_done_progress: "same_progress r r1 \<Longrightarrow> step_done r1 s' \<Longrightarrow> step_done r s'"
  using same_progressD [of r r1] by (auto simp: step_done_def same_limits_def Let_def)

lemma end_run_done:
  assumes "linked s" and "end_run E st u s = (Inr x, s')" and "st \<in> {RS_failed, RS_timed_out, RS_cancelled}"
    and "fu_error u = Some (Some m)" and "fu_tool_calls_used u = None"
    and "fu_current_step u = None \<or> fu_current_step u = Some (run_current_step (cur s) + 1)
      \<and> run_current_step (cur s) < run_max_steps (cur s)"
  shows "step_done (cur s) s'"
  using end_run_written [OF assms(1,2)] assms(3-6)
  by (auto simp: written_def step_done_def Let_def with_status_def explained_def)

lemma run_step_calls_done:
  assumes "linked s" and "run_step_calls E tools n payload pc tk s = (Inr x, s')"
    and "n = run_current_step (cur s)" and "n < run_max_steps (cur s)" and "run_status (cur s) = RS_running"
  shows "step_done (cur s) s'"
proof -
  let ?after = "no_updates\<lparr>fu_current_step := Some (n + 1), fu_tokens_used := Some tk\<rparr>"
  consider "token_budget_exceeded (cur s) tk" | "\<not> token_budget_exceeded (cur s) tk" "payload = []"
    | "\<not> token_budget_exceeded (cur s) tk" "payload \<noteq> []"
      "run_max_tool_calls (cur s) < run_tool_calls_used (cur s) + int (length payload)"
    | "\<not> token_budget_exceeded (cur s) tk" "payload \<noteq> []"
      "run_tool_calls_used (cur s) + int (length payload) \<le> run_max_tool_calls (cur s)" by linarith
  then show ?thesis
  proof cases
    case 1
    with assms(2) have "end_run E RS_timed_out (?after\<lparr>fu_error := Some (Some ''token budget exceeded'')\<rparr>) s = (Inr x, s')"
      by (simp add: run_step_calls_def mbind_def [of "gets cur"] Let_def)
    from end_run_done [OF assms(1) this] assms show ?thesis by simp
  next
    case 2
    let ?say = "case pc of None \<Rightarrow> ret () | Some c \<Rightarrow> if c = [] then ret ()
        else mbind (add_message E (run_id (cur s)) MR_assistant c) (\<lambda>_. ret ())"
    from 2 assms(2) have "mseq ?say (mseq (checkpoint E (Some RS_waiting_user_input) ?after) commit) s = (Inr x, s')"
      by (simp add: run_step_calls_def mbind_def [of "gets cur"] Let_def)
    then obtain s1 where s1: "?say s = (Inr (), s1)"
      and w: "mseq (checkpoint E (Some RS_waiting_user_input) ?after) commit s1 = (Inr x, s')"
      by (auto elim: mbind_Inr_E)
    have "resp leaves_run ?say" by (auto intro!: leaves.resp_intros leaves_add_message split: option.splits)
    then have l: "leaves_run s s1" using s1 by (rule respD)
    then have "linked s1" "cur s1 = cur s" using leaves_linked [OF l assms(1)] by (auto simp: leaves_run_def)
    with commit_written [OF this(1) w] assms show ?thesis
      by (auto simp: written_def step_done_def Let_def with_status_def explained_def)
  next
    case 3
    then obtain m where "check_tool_call_budget (cur s) (int (length payload)) s = (Inl (GuardrailViolation m RS_timed_out), s)"
      by (simp add: check_tool_call_budget_run)
    with 3 assms(2) have "end_run E RS_timed_out (?after\<lparr>fu_error := Some (Some m)\<rparr>) s = (Inr x, s')"
      by (simp add: run_step_calls_def mbind_def [of "gets cur"] Let_def mcatch_def mbind_def)
    from end_run_done [OF assms(1) this] assms show ?thesis by simp
  next
    case 4
    then have "mcatch (mseq (check_tool_call_budget (cur s) (int (length payload))) (ret None))
        (\<lambda>e. case e of GuardrailViolation reason st \<Rightarrow> ret (Some (reason, st)) | _ \<Rightarrow> raise e) s = (Inr None, s)"
      by (simp add: check_tool_call_budget_run mcatch_def mbind_def)
    with 4 assms(2) have "mbind (process_tool_calls E tools n payload) (finish_step E n tk (length payload)) s = (Inr x, s')"
      by (simp add: run_step_calls_def mbind_def [of "gets cur"] Let_def)
    then obtain c s1 where 5: "process_tool_calls E tools n payload s = (Inr c, s1)"
      and 6: "finish_step E n tk (length payload) c s1 = (Inr x, s')" by (rule mbind_Inr_E)
    from process_control [OF assms(1) 5] have "linked s1" and pr: "same_progress (cur s) (cur s1)"
      and "control_ok n c s1" "counted 0 (int (length payload)) c" by auto
    with finish_step_done [OF this(1) 6] same_progressD [OF pr] assms 4 have "step_done (cur s1) s'"
      by (simp add: token_budget_exceeded_def)
    with pr show ?thesis by (rule step_done_progress)
  qed
qed

lemma keeps_activate_skill: "resp keeps_run (activate_skill_candidate E tools)"
  by (auto simp: activate_skill_candidate_def Let_def intro!: keeps_calls keeps_checkpoint_names
      resp_leaves_keeps [OF leaves_select_skill] resp_leaves_keeps [OF leaves_commit] split: option.splits prod.splits)

text \<open>The model call leaves the run in progress, or it has ended it as failed.\<close>

lemma call_llm_cases:
  assumes "linked s" and "call_llm E L tools n s = (Inr x, s')"
  shows "case x of None \<Rightarrow> step_done (cur s) s' | Some _ \<Rightarrow> linked s' \<and> same_progress (cur s) (cur s')"
proof -
  let ?catch = "\<lambda>ms r. mcatch (mbind (llm_complete L ms (Some (tool_specs tools (run_active_tool_names r)))) (\<lambda>r. ret (Some r)))
      (\<lambda>e. case e of LLMErr m \<Rightarrow> mseq (fail_llm_call E m) (ret None) | _ \<Rightarrow> raise e)"
  from assms(2) obtain cu s1 s2 ms s3 a s4 where
    1: "maybe_compact E L (Some (cfg_run_context_window_tokens (env_settings E)))
              (of_int (cfg_run_compact_threshold_percent (env_settings E)) / 100) s = (Inr cu, s1)"
    and 2: "activate_skill_candidate E tools s1 = (Inr (), s2)" and 3: "build_llm_messages E s2 = (Inr ms, s3)"
    and 4: "?catch ms (cur s3) s3 = (Inr a, s4)"
    and 5: "(case a of None \<Rightarrow> ret None | Some response \<Rightarrow>
          mbind (add_step E (run_id (cur s3)) n ST_llm_call (response_payload response)
                   (Some (usage_dict (lr_usage response)))) (\<lambda>_.
          mseq (record_usage E (run_tenant_id (cur s3)) (Some (run_id (cur s3))) (lr_model response) (lr_usage response))
          (ret (Some (map json_of_call (lr_tool_calls response), lr_content response,
             run_tokens_used (cur s3) + (case cu of None \<Rightarrow> 0 | Some u \<Rightarrow> u_total_tokens u)
               + u_total_tokens (lr_usage response)))))) s4 = (Inr x, s')"
    by (auto simp: call_llm_def mbind_def [of "gets cur"] elim!: mbind_Inr_E)
  have "keeps_run s s1" using respD [where R = keeps_run, OF resp_leaves_keeps [OF leaves_maybe_compact] 1] .
  moreover have "keeps_run s1 s2" using respD [where R = keeps_run, OF keeps_activate_skill 2] .
  moreover have "keeps_run s2 s3" using respD [where R = keeps_run, OF resp_leaves_keeps [OF leaves_build_messages] 3] .
  ultimately have k: "keeps_run s s3" by (meson keeps.trans)
  with assms(1) have l3: "linked s3" "same_progress (cur s) (cur s3)" by (auto simp: keeps_run_def)
  obtain q s5 where q: "llm_complete L ms (Some (tool_specs tools (run_active_tool_names (cur s3)))) s3 = (q, s5)"
    by fastforce
  have lv: "leaves_run s3 s5" using respD [where R = leaves_run, OF leaves_llm q] .
  have l5: "linked s5" "cur s5 = cur s3" using leaves_linked [OF lv l3(1)] lv by (auto simp: leaves_run_def)
  show ?thesis
  proof (cases a)
    case None
    with 4 q obtain m where "mseq (fail_llm_call E m) (ret (None :: llm_response option)) s5 = (Inr None, s4)"
      by (cases q) (auto simp: mcatch_def mbind_def [of "llm_complete _ _ _"] split: exn.splits)
    then have "end_run E RS_failed (no_updates\<lparr>fu_error := Some (Some m)\<rparr>) s5 = (Inr (), s4)"
      by (auto simp: fail_llm_call_def end_run_def elim: mbind_Inr_E)
    from end_run_done [OF l5(1) this] have "step_done (cur s3) s4" by (simp add: l5(2))
    moreover have "x = None" "s' = s4" using 5 None by auto
    ultimately show ?thesis using step_done_progress [OF l3(2)] by simp
  next
    case (Some r)
    with 4 q have "s4 = s5"
      by (cases q) (auto simp: mcatch_def mbind_def split: exn.splits prod.splits sum.splits)
    from 5 Some obtain p s6 s7 y where
      6: "add_step E (run_id (cur s3)) n ST_llm_call (response_payload r) (Some (usage_dict (lr_usage r))) s4 = (Inr p, s6)"
      and 7: "record_usage E (run_tenant_id (cur s3)) (Some (run_id (cur s3))) (lr_model r) (lr_usage r) s6 = (Inr (), s')"
      and "x = Some y"
      by (auto elim!: mbind_Inr_E)
    have "leaves_run s5 s6" using respD [where R = leaves_run, OF leaves_add_step 6] \<open>s4 = s5\<close> by simp
    moreover have "leaves_run s6 s'" using respD [where R = leaves_run, OF leaves_record_usage 7] .
    ultimately have "leaves_run s3 s'" using lv by (meson leaves.trans)
    then have "linked s'" "cur s' = cur s3" using leaves_linked l3(1) by (auto simp: leaves_run_def)
    with l3(2) \<open>x = Some y\<close> show ?thesis by simp
  qed
qed

lemma execute_step_done:
  assumes "linked s" and "run_status (cur s) = RS_running" and "execute_step E L C g s = (Inr g', s')"
  shows "step_done (cur s) s'"
proof -
  obtain b s1 where b: "check_before_step E s = (b, s1)" by fastforce
  have lv: "leaves_run s s1" using respD [where R = leaves_run, OF leaves_guardrails(1) b] .
  have l1: "linked s1" "cur s1 = cur s" using leaves_linked [OF lv assms(1)] lv by (auto simp: leaves_run_def)
  have ck: "(\<exists>m st. b = Inl (GuardrailViolation m st) \<and> st \<in> {RS_cancelled, RS_timed_out})
      \<or> b = Inr () \<and> run_current_step (cur s) < run_max_steps (cur s)"
    using b check_before_step_cases [OF surjective_pairing, of E s] by (auto simp: Let_def split: if_splits)
  then show ?thesis
  proof (elim disjE exE conjE)
    fix m st assume v: "b = Inl (GuardrailViolation m st)" and st: "st \<in> {RS_cancelled, RS_timed_out}"
    from assms(3) b v have "end_run E st (no_updates\<lparr>fu_error := Some (Some m)\<rparr>) s1 = (Inr (), s')"
      by (auto simp: execute_step_def mcatch_def mbind_def [of "check_before_step E"] elim: mbind_Inr_E)
    from end_run_done [OF l1(1) this] st show ?thesis by (auto simp: l1(2))
  next
    assume v: "b = Inr ()" and lt: "run_current_step (cur s) < run_max_steps (cur s)"
    let ?n = "run_current_step (cur s)"
    let ?tools = "eng_tools (load_mcp_tools E C g (rows s1) (run_tenant_id (cur s)))"
    from assms(3) b v obtain p s2 o3 s3 where 1: "get_step (run_id (cur s)) ?n s1 = (Inr p, s2)"
      and 2: "(case p of None \<Rightarrow> call_llm E L ?tools ?n
                | Some p \<Rightarrow> ret (Some (payload_tool_calls (step_payload p), payload_content (step_payload p),
                                      run_tokens_used (cur s)))) s2 = (Inr o3, s3)"
      and 3: "case o3 of None \<Rightarrow> s' = s3
         | Some (payload, pc, tk) \<Rightarrow> run_step_calls E ?tools ?n payload pc tk s3 = (Inr (), s')"
      by (auto simp: execute_step_def mcatch_def mbind_def [of "check_before_step E"] mbind_def [of "gets cur"]
          mbind_def [of "gets rows"] Let_def l1(2) elim!: mbind_Inr_E split: option.splits)
    have lv2: "leaves_run s1 s2" using respD [where R = leaves_run, OF leaves_get_step 1] .
    have l2: "linked s2" "cur s2 = cur s" using leaves_linked [OF lv2 l1(1)] lv2 l1(2) by (auto simp: leaves_run_def)
    have o3: "case o3 of None \<Rightarrow> step_done (cur s) s3 | Some _ \<Rightarrow> linked s3 \<and> same_progress (cur s) (cur s3)"
    proof (cases p)
      case None
      with 2 have "call_llm E L ?tools ?n s2 = (Inr o3, s3)" by simp
      from call_llm_cases [OF l2(1) this] l2(2) show ?thesis by (cases o3) simp_all
    next
      case (Some q)
      with 2 l2 show ?thesis by auto
    qed
    show ?thesis
    proof (cases o3)
      case None
      with o3 3 show ?thesis by simp
    next
      case (Some r)
      obtain payload pc tk where r: "r = (payload, pc, tk)" by (cases r)
      with Some o3 3 have l3: "linked s3" "same_progress (cur s) (cur s3)"
        and c: "run_step_calls E ?tools ?n payload pc tk s3 = (Inr (), s')" by auto
      have "step_done (cur s3) s'"
        by (rule run_step_calls_done [OF l3(1) c]) (use same_progressD [OF l3(2)] lt assms(2) in simp_all)
      with l3(2) show ?thesis by (rule step_done_progress)
    qed
  qed
qed

section \<open>The loop\<close>

text \<open>Where a run stands when the loop hands it back, having started at \<open>r\<close>.\<close>

definition run_stopped :: "agent_run \<Rightarrow> 'w st \<Rightarrow> bool" where
  "run_stopped r s' \<longleftrightarrow> (let r' = cur s' in
     linked s' \<and> durable s' = rows s' \<and> same_limits r r' \<and> explained r'
     \<and> run_status r' \<noteq> RS_pending \<and> run_status r' \<noteq> RS_running
     \<and> run_current_step r \<le> run_current_step r' \<and> run_current_step r' \<le> max (run_current_step r) (run_max_steps r)
     \<and> run_tool_calls_used r \<le> run_tool_calls_used r'
     \<and> run_tool_calls_used r' \<le> max (run_tool_calls_used r) (run_max_tool_calls r)
     \<and> (run_status r' = RS_waiting_approval \<longrightarrow> pending_request (run_id r') (run_current_step r') s'))"

lemma run_stopped_step:
  assumes "step_done r s1" and "run_stopped (cur s1) s'"
  shows "run_stopped r s'"
proof -
  let ?r1 = "cur s1" and ?r' = "cur s'"
  have lim: "same_limits r ?r1" using assms(1) by (simp add: step_done_def Let_def)
  have "same_limits r ?r'" using lim assms(2) same_limits_trans [of r ?r1 ?r'] by (simp add: run_stopped_def Let_def)
  moreover have "run_current_step r \<le> run_current_step ?r1" "run_current_step ?r1 \<le> max (run_current_step r) (run_max_steps r)"
    "run_tool_calls_used r \<le> run_tool_calls_used ?r1"
    "run_tool_calls_used ?r1 \<le> max (run_tool_calls_used r) (run_max_tool_calls r)"
    using assms(1) by (auto simp: step_done_def Let_def)
  ultimately show ?thesis using assms(2) lim unfolding run_stopped_def Let_def by (auto simp: same_limits_def)
qed

lemma step_done_stopped: "step_done r s' \<Longrightarrow> run_status (cur s') \<noteq> RS_running \<Longrightarrow> run_stopped r s'"
  by (auto simp: step_done_def run_stopped_def Let_def)

text \<open>With fuel for the steps left the loop ends, and stops the run.\<close>

lemma run_loop_ends:
  assumes "linked s" and "run_status (cur s) = RS_running"
    and "nat (run_max_steps (cur s) - run_current_step (cur s)) < n" and "run_loop n E L C g s = (r, s')"
  shows "r \<noteq> Inr False \<and> (r = Inr True \<longrightarrow> run_stopped (cur s) s')"
  using assms
proof (induction n arbitrary: s g)
  case 0
  then show ?case by simp
next
  case (Suc n)
  obtain q s1 where q: "execute_step E L C g s = (q, s1)" by fastforce
  show ?case
  proof (cases q)
    case (Inl e)
    with Suc.prems q show ?thesis by auto
  next
    case (Inr g')
    have after: "step_done (cur s) s1" by (rule execute_step_done [OF Suc.prems(1,2) q [unfolded Inr]])
    have rest: "run_loop n E L C g' s1 = (r, s')" using Suc.prems q Inr by simp
    show ?thesis
    proof (cases "run_status (cur s1) = RS_running")
      case True
      have "linked s1" and "run_current_step (cur s1) = run_current_step (cur s) + 1"
        and "run_current_step (cur s) < run_max_steps (cur s)" and "run_max_steps (cur s1) = run_max_steps (cur s)"
        using after True by (auto simp: step_done_def Let_def same_limits_def)
      with Suc.IH [OF _ True _ rest] Suc.prems(3) have "r \<noteq> Inr False \<and> (r = Inr True \<longrightarrow> run_stopped (cur s1) s')"
        by simp
      with run_stopped_step [OF after] show ?thesis by blast
    next
      case False
      with rest have "r = Inr True" "s' = s1" by (cases n; simp)+
      with step_done_stopped [OF after False] show ?thesis by simp
    qed
  qed
qed

lemma loop_of_stopped: "run_status (cur s) \<noteq> RS_running \<Longrightarrow> run_loop n E L C g s = (Inr True, s)"
  by (cases n) simp_all

lemma run_until_blocked_result:
  assumes "run_ids_distinct s" and "find_run (rows s) i = Some r"
    and "nat (run_max_steps r - run_current_step r) < n"
    and "run_until_blocked n E L C g i s = (res, s')"
  shows "res \<noteq> Inr False \<and> (res = Inr True \<longrightarrow> run_status r \<in> {RS_pending, RS_running} \<longrightarrow> run_stopped r s')"
proof -
  let ?s = "s\<lparr>cur := r\<rparr>"
  have l: "linked ?s" using assms(1) find_run_id [OF assms(2)] assms(2) by (auto simp: linked_def run_ids_distinct_def)
  consider (pending) "run_status r = RS_pending" | (running) "run_status r = RS_running"
    | (stopped) "run_status r \<noteq> RS_pending" "run_status r \<noteq> RS_running" by blast
  then show ?thesis
  proof cases
    case pending
    with assms(2,4) have u: "mseq (mseq (checkpoint E (Some RS_running) no_updates) commit) (run_loop n E L C g) ?s = (res, s')"
      by (simp add: run_until_blocked_def mbind_def [of "gets rows"] mbind_def [of "modify _"])
    obtain q s1 where q: "mseq (checkpoint E (Some RS_running) no_updates) commit ?s = (q, s1)" by fastforce
    show ?thesis
    proof (cases q)
      case (Inl e)
      with u q run_mbind_Inl [where f = "\<lambda>_. run_loop n E L C g" and m = "mseq (checkpoint E (Some RS_running) no_updates) commit"]
      show ?thesis by fastforce
    next
      case (Inr x)
      from commit_written [OF l q [unfolded Inr]] obtain t
        where w: "linked s1" "cur s1 = updated_row (with_status (Some RS_running) no_updates) t r"
        by (auto simp: written_def)
      have st: "run_status (cur s1) = RS_running" "run_max_steps (cur s1) = run_max_steps r"
        "run_current_step (cur s1) = run_current_step r" "run_tool_calls_used (cur s1) = run_tool_calls_used r"
        "same_limits r (cur s1)"
        by (simp_all add: w(2) with_status_def) (simp add: updated_row_def apply_updates_def)
      have "run_loop n E L C g s1 = (res, s')" using u q Inr by simp
      from run_loop_ends [OF w(1) st(1) _ this] have "res \<noteq> Inr False \<and> (res = Inr True \<longrightarrow> run_stopped (cur s1) s')"
        using assms(3) st by simp
      then show ?thesis using st same_limits_trans [OF st(5)] by (auto simp: run_stopped_def Let_def same_limits_def)
    qed
  next
    case running
    with assms(2,4) have "run_loop n E L C g ?s = (res, s')"
      by (simp add: run_until_blocked_def mbind_def [of "gets rows"] mbind_def [of "modify _"])
    from run_loop_ends [OF l _ _ this] running assms(3) show ?thesis by simp
  next
    case stopped
    with assms(2,4) have "run_loop n E L C g ?s = (res, s')"
      by (simp add: run_until_blocked_def mbind_def [of "gets rows"] mbind_def [of "modify _"])
    with stopped loop_of_stopped [of ?s] show ?thesis by auto
  qed
qed

section \<open>Properties\<close>

text \<open>
  C6. The engine's loop ends: with fuel for the steps the run has left it comes back (with the run
  or with an exception), whatever the model and the tools answer.
\<close>

theorem engine_terminates:
  assumes "run_ids_distinct s" and "find_run (rows s) i = Some r"
    and "nat (run_max_steps r - run_current_step r) < n"
  shows "fst (run_until_blocked n E L C g i s) \<noteq> Inr False"
  using run_until_blocked_result [OF assms] by (metis prod.collapse)

text \<open>
  C7. A run the engine hands back is neither pending nor running, its state is durable and it says
  why it stopped: a completed run has its result, a failed, timed out or cancelled one its error.
\<close>

theorem engine_stop_explained:
  assumes "run_ids_distinct s" and "find_run (rows s) i = Some r" and "run_status r \<in> {RS_pending, RS_running}"
    and "nat (run_max_steps r - run_current_step r) < n"
    and "run_until_blocked n E L C g i s = (Inr True, s')"
  shows "find_run (durable s') i = Some (cur s')
    \<and> (run_status (cur s') = RS_completed \<and> run_final_result (cur s') \<noteq> None
       \<or> run_status (cur s') \<in> {RS_failed, RS_timed_out, RS_cancelled} \<and> run_error (cur s') \<noteq> None
       \<or> run_status (cur s') \<in> {RS_waiting_user_input, RS_waiting_approval})"
proof -
  have "run_stopped r s'" using run_until_blocked_result [OF assms(1,2,4,5)] assms(3) by blast
  moreover have "run_id r = i" using find_run_id [OF assms(2)] by simp
  ultimately show ?thesis
    by (cases "run_status (cur s')") (auto simp: run_stopped_def Let_def linked_def explained_def same_limits_def)
qed

text \<open>
  C9. The budgets hold: when the engine hands a run back it has taken no step beyond
  \<open>max_steps\<close> and counted no tool call beyond \<open>max_tool_calls\<close>.
\<close>

theorem engine_within_budgets:
  assumes "run_ids_distinct s" and "find_run (rows s) i = Some r" and "run_status r \<in> {RS_pending, RS_running}"
    and "run_current_step r \<le> run_max_steps r" and "run_tool_calls_used r \<le> run_max_tool_calls r"
    and "nat (run_max_steps r - run_current_step r) < n"
    and "run_until_blocked n E L C g i s = (Inr True, s')"
  shows "run_current_step (cur s') \<le> run_max_steps r \<and> run_tool_calls_used (cur s') \<le> run_max_tool_calls r
    \<and> run_current_step r \<le> run_current_step (cur s') \<and> run_tool_calls_used r \<le> run_tool_calls_used (cur s')"
  using run_until_blocked_result [OF assms(1,2,6,7)] assms(3-5) by (auto simp: run_stopped_def Let_def)

text \<open>
  C8. A run never waits for an approval nobody can give: when it stops waiting for an approval, a
  pending request of the run is on record at the step that will be replayed.
\<close>

theorem approval_wait_has_request:
  assumes "run_ids_distinct s" and "find_run (rows s) i = Some r" and "run_status r \<in> {RS_pending, RS_running}"
    and "nat (run_max_steps r - run_current_step r) < n"
    and "run_until_blocked n E L C g i s = (Inr True, s')" and "run_status (cur s') = RS_waiting_approval"
  shows "\<exists>a \<in> set (approvals (durable s')). ap_run_id a = i \<and> ap_step_no a = run_current_step (cur s')
    \<and> ap_status a = AS_pending"
proof -
  have "run_stopped r s'" using run_until_blocked_result [OF assms(1,2,4,5)] assms(3) by blast
  then show ?thesis using assms(6) find_run_id [OF assms(2)]
    by (auto simp: run_stopped_def Let_def pending_request_def same_limits_def)
qed


text \<open>
  C10. A step on record is replayed, not asked for again: the model is not called, whichever model
  it is, so a run resumed after a crash or an approval continues with the calls it had planned.
\<close>

theorem recorded_step_not_asked_again:
  assumes "p \<in> set (steps (rows s))" and "step_run_id p = run_id (cur s)" and "step_step_no p = run_current_step (cur s)"
  shows "execute_step E L C g s = execute_step E L' C g s"
proof -
  obtain b s1 where b: "check_before_step E s = (b, s1)" by fastforce
  have lv: "leaves_run s s1" using respD [where R = leaves_run, OF leaves_guardrails(1) b] .
  then have s1: "cur s1 = cur s" "p \<in> set (steps (rows s1))" using assms(1) by (auto simp: leaves_run_def)
  let ?hits = "filter (\<lambda>p. step_run_id p = run_id (cur s) \<and> step_step_no p = run_current_step (cur s)) (steps (rows s1))"
  have "p \<in> set ?hits" using s1 assms by simp
  then obtain q qs where hits: "?hits = q # qs" by (cases ?hits) auto
  have "get_step (run_id (cur s)) (run_current_step (cur s)) s1 =
      (if qs = [] then (Inr (Some q), s1) else (Inl MultipleResultsFound, s1))"
    by (cases qs) (simp_all add: get_step_def mbind_def hits)
  then show ?thesis
    using b s1 by (cases b) (auto simp: execute_step_def mcatch_def mbind_def Let_def split: exn.splits)
qed

section \<open>Witnesses\<close>

text \<open>
  Evaluation unfolds an operation only where it has its state, so that the continuations of a
  program are not evaluated on a state that is not known yet.
\<close>

lemmas strict_code [code] =
  execute_def [THEN fun_cong] checkpoint_def [THEN fun_cong] execute_single_tool_call_def [THEN fun_cong]
  run_finish_call_def [THEN fun_cong] run_ask_user_call_def [THEN fun_cong]
  run_load_tool_call_def [THEN fun_cong] run_use_skill_call_def [THEN fun_cong]
  run_tool_call_def [THEN fun_cong] process_tool_calls_def [THEN fun_cong] call_llm_def [THEN fun_cong]
  finish_step_def [THEN fun_cong] run_step_calls_def [THEN fun_cong] execute_step_def [THEN fun_cong]
  end_run_def [THEN fun_cong] maybe_compact_def [THEN fun_cong] build_llm_messages_def [THEN fun_cong]
  activate_skill_candidate_def [THEN fun_cong] get_step_def [THEN fun_cong]
  run_deferred_call_def [THEN fun_cong] run_read_only_def [THEN fun_cong]
  indexed_call_def [THEN fun_cong] check_approval_def [THEN fun_cong] prepare_call_def [THEN fun_cong]
  invoke_and_finalize_def [THEN fun_cong] resolve_existing_def [THEN fun_cong]
  record_unknown_tool_def [THEN fun_cong] add_execution_def [THEN fun_cong] add_step_def [THEN fun_cong]
  record_usage_def [THEN fun_cong] record_skill_usage_for_run_def [THEN fun_cong]
  check_repeated_calls_def [THEN fun_cong] check_no_progress_def [THEN fun_cong]
  fail_llm_call_def [THEN fun_cong] add_message_def [THEN fun_cong]

text \<open>A model that answers in words, and one that asks for a destructive tool.\<close>

definition answer_with :: "string option \<Rightarrow> tool_call list \<Rightarrow> nat llm" where
  "answer_with content cs ms tools w = (Inr \<lparr>lr_content = content, lr_tool_calls = cs, lr_finish_reason = ''stop'',
     lr_usage = \<lparr>u_prompt_tokens = 1, u_completion_tokens = 1, u_total_tokens = 2, u_source = US_provider,
                 u_reasoning_tokens = 0\<rparr>, lr_model = ''m'', lr_provider_fields = []\<rparr>, Suc w)"

definition words_llm :: "nat llm" where
  "words_llm = answer_with (Some ''hello'') []"

definition pay_tool :: "nat tool" where
  "pay_tool = make_tool ''pay'' ''Pay.'' [(''type'', JStr ''object'')] (\<lambda>args w. (Inr (JObj []), Suc w)) RT_destructive False"

definition pay_llm :: "nat llm" where
  "pay_llm = answer_with None [\<lparr>tc_id = ''a'', tc_name = ''pay'', tc_arguments = JObj []\<rparr>]"

definition no_mcp :: "nat mcp_call" where
  "no_mcp srv n args w = (Inr [], w)"

definition sample_engine :: "nat engine" where
  "sample_engine = make_engine [pay_tool] []"

definition ran_to :: "run_status \<Rightarrow> (exn + bool) \<times> nat st \<Rightarrow> bool" where
  "ran_to st x = (case fst x of Inl e \<Rightarrow> False | Inr b \<Rightarrow> b \<and> run_status (cur (snd x)) = st)"

lemma ran_toE:
  assumes "ran_to st x"
  obtains s' where "x = (Inr True, s')" and "run_status (cur s') = st"
  using assms by (cases x) (auto simp: ran_to_def split: sum.splits)

lemma words_run: "ran_to RS_waiting_user_input (run_until_blocked 26 sample_env words_llm no_mcp sample_engine 7 sample_st)"
  by code_simp

lemma flagged_run: "ran_to RS_cancelled (run_until_blocked 26 sample_env words_llm no_mcp sample_engine 7
     (state_of (sample_run\<lparr>run_cancel_requested := True\<rparr>)))"
  by code_simp

lemma pay_run: "ran_to RS_waiting_approval (run_until_blocked 26 sample_env pay_llm no_mcp sample_engine 7 sample_st)"
  by code_simp

lemma sample_find: "find_run (rows sample_st) 7 = Some sample_run"
  by (simp add: sample_defs find_run_def)

lemma sample_ids: "run_ids_distinct sample_st"
  by (simp add: sample_defs run_ids_distinct_def)

lemma sample_fuel: "nat (run_max_steps sample_run - run_current_step sample_run) < 26"
  by (simp add: sample_defs)

theorem engine_terminates_witness:
  "fst (run_until_blocked 26 sample_env words_llm no_mcp sample_engine 7 sample_st) \<noteq> Inr False"
  by (rule engine_terminates [OF sample_ids sample_find sample_fuel])

theorem engine_stop_witness:
  "\<exists>s'. run_until_blocked 26 sample_env words_llm no_mcp sample_engine 7
         (state_of (sample_run\<lparr>run_cancel_requested := True\<rparr>)) = (Inr True, s') \<and> run_error (cur s') \<noteq> None"
proof -
  let ?r = "sample_run\<lparr>run_cancel_requested := True\<rparr>"
  obtain s' where r: "run_until_blocked 26 sample_env words_llm no_mcp sample_engine 7 (state_of ?r) = (Inr True, s')"
    and st: "run_status (cur s') = RS_cancelled" by (rule ran_toE [OF flagged_run])
  have "run_ids_distinct (state_of ?r)" and "find_run (rows (state_of ?r)) 7 = Some ?r"
    and "run_status ?r \<in> {RS_pending, RS_running}" and "nat (run_max_steps ?r - run_current_step ?r) < 26"
    by (simp_all add: sample_defs run_ids_distinct_def find_run_def)
  from engine_stop_explained [OF this r] r st show ?thesis by simp
qed

theorem engine_budgets_witness:
  "\<exists>s'. run_until_blocked 26 sample_env words_llm no_mcp sample_engine 7 sample_st = (Inr True, s')
     \<and> run_current_step (cur s') \<le> 25 \<and> run_tool_calls_used (cur s') \<le> 40"
proof -
  obtain s' where r: "run_until_blocked 26 sample_env words_llm no_mcp sample_engine 7 sample_st = (Inr True, s')"
    by (rule ran_toE [OF words_run])
  show ?thesis
    using engine_within_budgets [OF sample_ids sample_find _ _ _ sample_fuel r] r by (simp add: sample_defs)
qed

theorem approval_wait_witness:
  "\<exists>s'. run_until_blocked 26 sample_env pay_llm no_mcp sample_engine 7 sample_st = (Inr True, s')
     \<and> (\<exists>a \<in> set (approvals (durable s')). ap_run_id a = 7 \<and> ap_status a = AS_pending)"
proof -
  obtain s' where r: "run_until_blocked 26 sample_env pay_llm no_mcp sample_engine 7 sample_st = (Inr True, s')"
    and st: "run_status (cur s') = RS_waiting_approval" by (rule ran_toE [OF pay_run])
  show ?thesis
    using approval_wait_has_request [OF sample_ids sample_find _ sample_fuel r st] r by (auto simp: sample_defs)
qed


definition replay_st :: "nat st" where
  "replay_st = sample_st\<lparr>rows := (rows sample_st)\<lparr>steps := [sample_step 0]\<rparr>\<rparr>"

theorem replay_step_witness:
  "execute_step sample_env words_llm no_mcp sample_engine replay_st
     = execute_step sample_env pay_llm no_mcp sample_engine replay_st"
  by (rule recorded_step_not_asked_again [of "sample_step 0"])
    (simp_all add: replay_st_def sample_step_def sample_defs)

end
