(* ===== verification/Lifecycle.thy ===== *)
theory Lifecycle
  imports EngineRuns
begin

text \<open>
  What happens to a run outside the engine: harness/api/routes/runs.py and approvals.py (creating,
  messaging, cancelling, rating a run; deciding an approval), harness/runtime/quotas.py and
  harness/runtime/reaper.py. The message broker is a parameter: publishing a run is a function of
  the world that may raise.
\<close>

section \<open>Principals\<close>

record principal =
  pr_tenant :: uuid
  pr_user :: "(uuid \<times> user_role) option"

definition pr_role :: "principal \<Rightarrow> user_role" where
  "pr_role p = (case pr_user p of None \<Rightarrow> UR_admin | Some (u, r) \<Rightarrow> r)"

definition is_admin :: "principal \<Rightarrow> bool" where
  "is_admin p \<longleftrightarrow> pr_role p = UR_admin"

definition require_admin :: "principal \<Rightarrow> ('w, unit) op" where
  "require_admin p = (if \<not> is_admin p then raise (HttpError 403 ''admin role required'') else ret ())"

definition member_can_access_run :: "principal \<Rightarrow> agent_run \<Rightarrow> bool" where
  "member_can_access_run p r \<longleftrightarrow>
     is_admin p \<or> (case pr_user p of None \<Rightarrow> True | Some (u, _) \<Rightarrow> run_created_by_user_id r = Some u)"

type_synonym 'w broker = "uuid \<Rightarrow> uuid \<Rightarrow> 'w \<Rightarrow> (exn + unit) \<times> 'w"

definition publish :: "'w broker \<Rightarrow> uuid \<Rightarrow> uuid \<Rightarrow> ('w, unit) op" where
  "publish Q i tenant = (\<lambda>s. let (r, w) = Q i tenant (world s) in (r, s\<lparr>world := w\<rparr>))"

text \<open>\<open>RunRepository.get\<close>: the session's object for the row, if there is one.\<close>

definition repo_get :: "uuid \<Rightarrow> ('w, agent_run option) op" where
  "repo_get i =
     mbind (gets rows) (\<lambda>d.
       case find_run d i of None \<Rightarrow> ret None
       | Some r \<Rightarrow> mseq (modify (\<lambda>s. s\<lparr>cur := r\<rparr>)) (ret (Some r)))"

section \<open>Quotas (quotas.py)\<close>

definition get_quota :: "'w env \<Rightarrow> uuid \<Rightarrow> ('w, tenant_quota) op" where
  "get_quota E tenant =
     mbind (gets rows) (\<lambda>d.
       case find (\<lambda>q. tq_tenant_id q = tenant) (quotas d) of
         Some q \<Rightarrow> ret q
       | None \<Rightarrow>
           let q = \<lparr>tq_tenant_id = tenant,
                    tq_daily_token_quota = cfg_tenant_daily_token_quota_default (env_settings E),
                    tq_max_active_runs = cfg_tenant_max_active_runs_default (env_settings E)\<rparr>
           in mseq (modify (\<lambda>s. s\<lparr>rows := (rows s)\<lparr>quotas := quotas (rows s) @ [q]\<rparr>\<rparr>)) (ret q))"

definition active_runs :: "db \<Rightarrow> uuid \<Rightarrow> nat" where
  "active_runs d tenant =
     length (filter (\<lambda>r. run_tenant_id r = tenant \<and> run_status r \<notin> TERMINAL_RUN_STATUSES) (runs d))"

text \<open>Midnight UTC of a datetime.\<close>

definition start_of_day :: "datetime \<Rightarrow> datetime" where
  "start_of_day t = t div seconds 86400 * seconds 86400"

definition tokens_since :: "db \<Rightarrow> uuid \<Rightarrow> datetime \<Rightarrow> int" where
  "tokens_since d tenant t =
     (\<Sum>u\<leftarrow>filter (\<lambda>u. us_tenant_id u = tenant \<and> t \<le> us_created_at u) (usages d). us_total_tokens u)"

definition enforce_tenant_run_quota :: "'w env \<Rightarrow> uuid \<Rightarrow> ('w, unit) op" where
  "enforce_tenant_run_quota E tenant =
     mbind (get_quota E tenant) (\<lambda>q. mbind (gets rows) (\<lambda>d.
       if tq_max_active_runs q \<le> int (active_runs d tenant)
       then raise (HttpError 429 ''tenant active run quota exceeded'')
       else mbind (now E) (\<lambda>t.
         if tq_daily_token_quota q \<le> tokens_since d tenant (start_of_day t)
         then raise (HttpError 429 ''tenant daily token quota exceeded'')
         else ret ())))"

section \<open>Run routes (runs.py)\<close>

definition get_owned_run :: "uuid \<Rightarrow> uuid \<Rightarrow> ('w, agent_run) op" where
  "get_owned_run tenant i =
     mbind (repo_get i) (\<lambda>x.
       case x of None \<Rightarrow> raise (HttpError 404 ''run not found'')
       | Some r \<Rightarrow> if run_tenant_id r \<noteq> tenant then raise (HttpError 404 ''run not found'') else ret r)"

definition get_accessible_run :: "principal \<Rightarrow> uuid \<Rightarrow> ('w, agent_run) op" where
  "get_accessible_run p i =
     mbind (get_owned_run (pr_tenant p) i) (\<lambda>r.
       if \<not> member_can_access_run p r then raise (HttpError 404 ''run not found'') else ret r)"

record run_create =
  rc_goal :: string
  rc_channel :: channel
  rc_channel_metadata :: dict
  rc_max_steps :: "int option"
  rc_max_tool_calls :: "int option"
  rc_token_budget :: "int option"
  rc_timeout_seconds :: "int option"

definition create_run_route :: "'w env \<Rightarrow> 'w broker \<Rightarrow> principal \<Rightarrow> run_create \<Rightarrow> ('w, agent_run) op" where
  "create_run_route E Q p body =
     mseq (enforce_tenant_run_quota E (pr_tenant p))
     (mbind (create_run E (pr_tenant p) (rc_goal body) (rc_channel body) (Some (rc_channel_metadata body))
               (map_option fst (pr_user p)) (rc_max_steps body) (rc_max_tool_calls body)
               (rc_token_budget body) (rc_timeout_seconds body)) (\<lambda>run.
      mbind (add_message E (run_id run) MR_user (rc_goal body)) (\<lambda>_.
      mseq commit
      (mseq (publish Q (run_id run) (pr_tenant p)) (ret run)))))"

text \<open>
  The listing: the runs the principal may see, latest first (those of one instant in insertion
  order), and how many there are.
\<close>

definition visible_runs :: "db \<Rightarrow> principal \<Rightarrow> run_status option \<Rightarrow> agent_run list" where
  "visible_runs d p status =
     filter (\<lambda>r. run_tenant_id r = pr_tenant p
        \<and> (is_admin p \<or> (case pr_user p of None \<Rightarrow> True | Some (u, _) \<Rightarrow> run_created_by_user_id r = Some u))
        \<and> (case status of None \<Rightarrow> True | Some t \<Rightarrow> run_status r = t)) (runs d)"

definition list_runs :: "db \<Rightarrow> principal \<Rightarrow> run_status option \<Rightarrow> nat \<Rightarrow> nat \<Rightarrow> agent_run list \<times> nat" where
  "list_runs d p status limit offset =
     (let found = visible_runs d p status in
      (take limit (drop offset (sort_key (\<lambda>r. - run_created_at r) found)), length found))"

definition post_message :: "'w env \<Rightarrow> 'w broker \<Rightarrow> principal \<Rightarrow> uuid \<Rightarrow> string \<Rightarrow> ('w, agent_run) op" where
  "post_message E Q p i content =
     mbind (get_accessible_run p i) (\<lambda>run.
       if run_status run \<notin> WAITING_RUN_STATUSES
       then raise (HttpError 409 (''run is not waiting for input (status='' @ run_status_str (run_status run) @ '')''))
       else
         mbind (add_message E (run_id run) MR_user content) (\<lambda>_.
         mseq (checkpoint E (Some RS_running) no_updates)
         (mseq commit
         (mseq (publish Q (run_id run) (pr_tenant p)) (gets cur)))))"

definition cancel_run :: "'w env \<Rightarrow> principal \<Rightarrow> uuid \<Rightarrow> ('w, agent_run) op" where
  "cancel_run E p i =
     mbind (get_accessible_run p i) (\<lambda>run.
       if run_status run \<in> TERMINAL_RUN_STATUSES
       then raise (HttpError 409 (''run is already '' @ run_status_str (run_status run)))
       else
         mseq (if run_status run \<in> WAITING_RUN_STATUSES
               then mseq (checkpoint E (Some RS_cancelled) (no_updates\<lparr>fu_cancel_requested := Some True\<rparr>))
                      (record_skill_usage_for_run E)
               else checkpoint E None (no_updates\<lparr>fu_cancel_requested := Some True\<rparr>))
           (mseq commit (gets cur)))"

definition post_run_feedback ::
  "'w env \<Rightarrow> principal \<Rightarrow> uuid \<Rightarrow> bool \<Rightarrow> string option \<Rightarrow> ('w, skill_usage) op" where
  "post_run_feedback E p i thumbs_up comment =
     mbind (get_accessible_run p i) (\<lambda>run.
       if run_status run \<notin> TERMINAL_RUN_STATUSES
       then raise (HttpError 409 (''run is not terminal (status='' @ run_status_str (run_status run) @ '')''))
       else
         mseq (record_skill_usage_for_run E)
         (mbind (record_feedback_for_run (pr_tenant p) (run_id run) thumbs_up comment) (\<lambda>u.
            case u of
              None \<Rightarrow> raise (HttpError 404 ''run did not use a skill'')
            | Some usage \<Rightarrow> mseq commit (ret usage))))"

section \<open>Approvals (approvals.py)\<close>

definition list_approvals :: "db \<Rightarrow> principal \<Rightarrow> approval_status option \<Rightarrow> approval_request list" where
  "list_approvals d p status =
     sort_key (\<lambda>a. - ap_requested_at a)
       (filter (\<lambda>a. ap_tenant_id a = pr_tenant p \<and> (case status of None \<Rightarrow> True | Some t \<Rightarrow> ap_status a = t)) (approvals d))"

text \<open>A decided run resumes whatever the decision: the engine records the rejection as well.\<close>

definition resume_after_decision :: "'w env \<Rightarrow> 'w broker \<Rightarrow> uuid \<Rightarrow> ('w, unit) op" where
  "resume_after_decision E Q i =
     mbind (repo_get i) (\<lambda>x.
       if (case x of None \<Rightarrow> False | Some r \<Rightarrow> run_status r = RS_waiting_approval)
       then mseq (checkpoint E (Some RS_running) no_updates)
         (mseq commit (mbind (gets cur) (\<lambda>run. publish Q (run_id run) (run_tenant_id run))))
       else commit)"

text \<open>Who decided: the authenticated user, or what the request says when there is none.\<close>

definition deciding_user :: "principal \<Rightarrow> uuid option \<Rightarrow> ('w, uuid option) op" where
  "deciding_user p decided_by =
     (case pr_user p of
        None \<Rightarrow> ret decided_by
      | Some (u, _) \<Rightarrow>
          if decided_by \<noteq> None \<and> decided_by \<noteq> Some u
          then raise (HttpError 400 ''decided_by_user_id must match the authenticated user'')
          else ret (Some u))"

definition decide_approval ::
  "'w env \<Rightarrow> 'w broker \<Rightarrow> principal \<Rightarrow> uuid \<Rightarrow> approval_status \<Rightarrow> string option \<Rightarrow> uuid option \<Rightarrow>
   ('w, approval_request) op" where
  "decide_approval E Q p i decision reason decided_by =
     mseq (require_admin p)
     (if decision \<noteq> AS_approved \<and> decision \<noteq> AS_rejected
      then raise (HttpError 400 (''decision must be '' @ str_repr ''approved'' @ '' or '' @ str_repr ''rejected''))
      else mbind (gets rows) (\<lambda>d.
        mbind (scalar_one_or_none (filter (\<lambda>a. ap_id a = i \<and> ap_tenant_id a = pr_tenant p) (approvals d))) (\<lambda>found.
        case found of
          None \<Rightarrow> raise (HttpError 404 ''approval request not found'')
        | Some a \<Rightarrow>
            if ap_status a \<noteq> AS_pending
            then raise (HttpError 409 (''approval request already '' @ approval_status_str (ap_status a)))
            else
              mbind (deciding_user p decided_by) (\<lambda>by_user. mbind (now E) (\<lambda>t.
                let a' = a\<lparr>ap_decided_by_user_id := by_user, ap_status := decision, ap_reason := reason,
                           ap_decided_at := Some t\<rparr>
                in mseq (save_approval a') (mseq (resume_after_decision E Q (ap_run_id a)) (ret a')))))))"

section \<open>The reaper (reaper.py)\<close>

text \<open>One stale run: the object of the query, whose lease the reaper releases at its version.\<close>

fun reap_runs :: "'w env \<Rightarrow> (agent_run \<Rightarrow> ('w, unit) op) \<Rightarrow> agent_run list \<Rightarrow> int \<Rightarrow> ('w, int) op" where
  "reap_runs E on_stale [] reaped = ret reaped"
| "reap_runs E on_stale (run # rest) reaped =
     mseq (modify (\<lambda>s. s\<lparr>cur := run\<rparr>))
     (mbind (release_lease E) (\<lambda>released.
        if \<not> released then reap_runs E on_stale rest reaped
        else mbind (gets cur) (\<lambda>run'. mseq (on_stale run') (reap_runs E on_stale rest (reaped + 1)))))"

definition stale_run :: "datetime \<Rightarrow> agent_run \<Rightarrow> bool" where
  "stale_run t r \<longleftrightarrow> run_status r = RS_running \<and> run_lease_owner r \<noteq> None
     \<and> (case run_lease_expires_at r of None \<Rightarrow> False | Some e \<Rightarrow> e < t)"

definition reap_stale_runs :: "'w env \<Rightarrow> (agent_run \<Rightarrow> ('w, unit) op) \<Rightarrow> ('w, int) op" where
  "reap_stale_runs E on_stale =
     mbind (now E) (\<lambda>t. mbind (gets rows) (\<lambda>d. reap_runs E on_stale (filter (stale_run t) (runs d)) 0))"

definition expired_approval :: "datetime \<Rightarrow> approval_request \<Rightarrow> bool" where
  "expired_approval t a \<longleftrightarrow> ap_status a = AS_pending \<and> ap_expires_at a < t"

text \<open>One expired request: it is marked, and the run that still waits for it is timed out.\<close>

definition time_out_waiting_run :: "'w env \<Rightarrow> uuid \<Rightarrow> ('w, bool) op" where
  "time_out_waiting_run E i =
     mbind (repo_get i) (\<lambda>x.
       case x of
         None \<Rightarrow> ret False
       | Some run \<Rightarrow>
           if run_status run \<noteq> RS_waiting_approval then ret False
           else
             mcatch (mseq (checkpoint E (Some RS_timed_out)
                             (no_updates\<lparr>fu_error := Some (Some ''approval request expired'')\<rparr>))
                       (mseq commit (ret True)))
               (\<lambda>e. case e of StaleRunError m \<Rightarrow> ret False | _ \<Rightarrow> raise e))"

definition expire_approval :: "'w env \<Rightarrow> approval_request \<Rightarrow> ('w, bool) op" where
  "expire_approval E a =
     mbind (now E) (\<lambda>t.
     mseq (save_approval (a\<lparr>ap_status := AS_expired, ap_decided_at := Some t\<rparr>))
     (mseq commit (time_out_waiting_run E (ap_run_id a))))"

fun reap_approvals :: "'w env \<Rightarrow> approval_request list \<Rightarrow> int \<Rightarrow> ('w, int) op" where
  "reap_approvals E [] reaped = ret reaped"
| "reap_approvals E (a # rest) reaped =
     mbind (expire_approval E a) (\<lambda>ok. reap_approvals E rest (if ok then reaped + 1 else reaped))"

definition reap_expired_approvals :: "'w env \<Rightarrow> ('w, int) op" where
  "reap_expired_approvals E =
     mbind (now E) (\<lambda>t. mbind (gets rows) (\<lambda>d. reap_approvals E (filter (expired_approval t) (approvals d)) 0))"

end
