(* ===== verification/Approvals.thy ===== *)
theory Approvals
  imports Lifecycle Samples
begin

text \<open>
  The life of an approval request under the operations of Lifecycle.thy and the tool executor, each
  in a session of its own: what was not committed when the session closes is lost. The relation
  \<open>keeps_approvals\<close> says what one operation may do to the requests; every operation respects it,
  whether it returns or raises.
\<close>

section \<open>A decision is final\<close>

text \<open>The statuses an approval may go through.\<close>

definition approval_change :: "approval_status \<Rightarrow> approval_status \<Rightarrow> bool" where
  "approval_change x y \<longleftrightarrow> y = x \<or> x = AS_pending"

interpretation approval_life: lifecycle approval_change "\<lambda>x. x \<noteq> AS_pending"
  by unfold_locales (auto simp: approval_change_def)

definition same_request :: "approval_request \<Rightarrow> approval_request \<Rightarrow> bool" where
  "same_request a a' \<longleftrightarrow> ap_id a' = ap_id a \<and> ap_tenant_id a' = ap_tenant_id a \<and> ap_run_id a' = ap_run_id a
     \<and> ap_step_no a' = ap_step_no a \<and> ap_call_index a' = ap_call_index a \<and> ap_tool_name a' = ap_tool_name a
     \<and> ap_args a' = ap_args a"

lemma same_request_refl [simp]: "same_request a a"
  by (simp add: same_request_def)

lemma same_request_trans: "same_request a b \<Longrightarrow> same_request b c \<Longrightarrow> same_request a c"
  by (simp add: same_request_def)

definition approval_ids_distinct :: "db \<Rightarrow> bool" where
  "approval_ids_distinct d \<longleftrightarrow> distinct (map ap_id (approvals d))"

text \<open>Requests are kept, with the same call, and their status changes only from pending.\<close>

definition approvals_kept :: "db \<Rightarrow> db \<Rightarrow> bool" where
  "approvals_kept d d' \<longleftrightarrow> approval_ids_distinct d' \<and>
     (\<forall>a \<in> set (approvals d). \<exists>a' \<in> set (approvals d'). same_request a a' \<and> approval_change (ap_status a) (ap_status a'))"

definition keeps_approvals :: "'w st \<Rightarrow> 'w st \<Rightarrow> bool" where
  "keeps_approvals s s' \<longleftrightarrow> (approval_ids_distinct (rows s) \<longrightarrow> approvals_kept (rows s) (rows s')
     \<and> (durable s' = durable s \<or> approvals_kept (rows s) (durable s')))"

lemma approvals_kept_trans:
  assumes "approvals_kept d1 d2" and "approvals_kept d2 d3"
  shows "approvals_kept d1 d3"
  unfolding approvals_kept_def
proof (intro conjI ballI)
  show "approval_ids_distinct d3" using assms(2) by (simp add: approvals_kept_def)
  fix a assume "a \<in> set (approvals d1)"
  then obtain b where b: "b \<in> set (approvals d2)" "same_request a b" "approval_change (ap_status a) (ap_status b)"
    using assms(1) by (auto simp: approvals_kept_def)
  then obtain c where c: "c \<in> set (approvals d3)" "same_request b c" "approval_change (ap_status b) (ap_status c)"
    using assms(2) by (auto simp: approvals_kept_def)
  have "approval_change (ap_status a) (ap_status c)" using b(3) c(3) by (auto simp: approval_change_def)
  with c b show "\<exists>c \<in> set (approvals d3). same_request a c \<and> approval_change (ap_status a) (ap_status c)"
    using same_request_trans by blast
qed

lemma approvals_kept_refl: "approval_ids_distinct d \<Longrightarrow> approvals_kept d d"
  using approval_life.stay same_request_refl unfolding approvals_kept_def by blast

lemma approvals_kept_ids: "approvals_kept d d' \<Longrightarrow> approval_ids_distinct d'"
  unfolding approvals_kept_def by (rule conjunct1)

interpretation keeps_appr: state_preorder keeps_approvals
proof
  show "keeps_approvals s s" for s :: "'a st" by (simp add: keeps_approvals_def approvals_kept_refl)
  show "keeps_approvals s u" if "keeps_approvals s t" "keeps_approvals t u" for s t u :: "'a st"
    using that approvals_kept_trans [of "rows s" "rows t" "rows u"] approvals_kept_ids [of "rows s" "rows t"]
      approvals_kept_trans [of "rows s" "rows t" "durable u"]
    unfolding keeps_approvals_def by metis
qed

definition same_approvals :: "'w st \<Rightarrow> 'w st \<Rightarrow> bool" where
  "same_approvals s s' \<longleftrightarrow> approvals (rows s') = approvals (rows s)
     \<and> (durable s' = durable s \<or> approvals (durable s') = approvals (rows s))"

interpretation same_appr: state_preorder same_approvals
  by unfold_locales (simp add: same_approvals_def, unfold same_approvals_def, metis)

lemma same_approvals_kept: "resp same_approvals m \<Longrightarrow> resp keeps_approvals m"
proof (erule resp_mono)
  fix s s' :: "'a st" assume "same_approvals s s'"
  moreover have "approvals_kept (rows s) d" if "approvals d = approvals (rows s)" "approval_ids_distinct (rows s)" for d
    using that approvals_kept_refl [of "rows s"] by (simp add: approvals_kept_def approval_ids_distinct_def)
  ultimately show "keeps_approvals s s'" by (auto simp: same_approvals_def keeps_approvals_def)
qed

lemma same_approvals_now: "resp same_approvals (now E)"
  by (rule respI) (simp add: now_def same_approvals_def split_beta)

lemma same_approvals_uuid4: "resp same_approvals (uuid4 E)"
  by (rule respI) (simp add: uuid4_def same_approvals_def split_beta)

lemma same_approvals_commit: "resp same_approvals commit"
  by (rule respI) (simp add: commit_def same_approvals_def)

lemma same_approvals_publish: "resp same_approvals (publish Q i t)"
  by (rule respI) (simp add: publish_def same_approvals_def split_beta)

lemma same_approvals_repo_get: "resp same_approvals (repo_get i)"
  by (rule respI) (simp add: repo_get_def same_approvals_def mbind_def split: option.split)

lemma same_approvals_scalar: "resp same_approvals (scalar_one_or_none xs)"
  by (cases xs rule: scalar_one_or_none.cases) (auto intro: same_appr.resp_intros)

lemma same_approvals_admin: "resp same_approvals (require_admin p)"
  by (auto simp: require_admin_def intro: same_appr.resp_intros)

lemma same_approvals_versioned: "resp same_approvals (versioned_update E u x)"
  by (rule respI) (simp add: versioned_update_def mbind_def now_def same_approvals_def Let_def split_beta)

lemmas same_approvals_basic = same_approvals_now same_approvals_uuid4 same_approvals_commit same_approvals_publish
  same_approvals_repo_get same_approvals_scalar same_approvals_admin same_approvals_versioned

lemma same_approvals_checkpoint: "resp same_approvals (checkpoint E st u)"
  by (auto simp: checkpoint_def assert_valid_transition_def intro!: same_appr.resp_intros same_approvals_basic
      split: option.splits)

lemma set_save_approval:
  assumes "a \<in> set (approvals d)" and "approval_ids_distinct d" and "ap_id a' = ap_id a"
  shows "set (map (\<lambda>x. if ap_id x = ap_id a' then a' else x) (approvals d)) = insert a' (set (approvals d) - {a})"
proof -
  have "ap_id x = ap_id a \<longleftrightarrow> x = a" if "x \<in> set (approvals d)" for x
    using that assms(1,2) by (auto simp: approval_ids_distinct_def distinct_map inj_on_def)
  with assms show ?thesis by auto
qed

lemma save_approval_run:
  "save_approval a s = (Inr (), s\<lparr>rows := (rows s)\<lparr>approvals :=
     map (\<lambda>x. if ap_id x = ap_id a then a else x) (approvals (rows s))\<rparr>\<rparr>)"
  by (simp add: save_approval_def)

lemma save_then_run:
  "mseq (save_approval a) m s = m (s\<lparr>rows := (rows s)\<lparr>approvals :=
     map (\<lambda>x. if ap_id x = ap_id a then a else x) (approvals (rows s))\<rparr>\<rparr>)"
  by (simp add: mbind_def save_approval_run)

lemma map_if_id: "map ap_id (map (\<lambda>x. if ap_id x = ap_id a then a else x) xs) = map ap_id xs"
  by (induction xs) auto

lemma save_approval_kept:
  assumes "a \<in> set (approvals d)" and "approval_ids_distinct d" and "same_request a a'" and "ap_status a = AS_pending"
  shows "approvals_kept d (d\<lparr>approvals := map (\<lambda>x. if ap_id x = ap_id a' then a' else x) (approvals d)\<rparr>)"
proof -
  let ?xs = "map (\<lambda>x. if ap_id x = ap_id a' then a' else x) (approvals d)"
  have xs: "set ?xs = insert a' (set (approvals d) - {a})"
    using set_save_approval [OF assms(1,2), of a'] assms(3) by (simp add: same_request_def)
  have "\<exists>b' \<in> set ?xs. same_request b b' \<and> approval_change (ap_status b) (ap_status b')" if "b \<in> set (approvals d)" for b
  proof (cases "b = a")
    case True
    then show ?thesis using assms xs by (auto simp: approval_change_def)
  next
    case False
    then show ?thesis using that xs by (intro bexI [of _ b]) (auto simp: approval_change_def)
  qed
  then show ?thesis using assms(2) by (auto simp: approvals_kept_def approval_ids_distinct_def map_if_id simp del: map_map)
qed

lemma save_then_kept:
  assumes "a \<in> set (approvals (rows s))" and "same_request a a'" and "ap_status a = AS_pending"
    and "resp same_approvals m"
  shows "keeps_approvals s (snd (mseq (save_approval a') m s))"
proof -
  let ?s = "s\<lparr>rows := (rows s)\<lparr>approvals := map (\<lambda>x. if ap_id x = ap_id a' then a' else x) (approvals (rows s))\<rparr>\<rparr>"
  have "keeps_approvals s ?s" using save_approval_kept [OF assms(1) _ assms(2,3)] by (simp add: keeps_approvals_def)
  moreover have "keeps_approvals ?s (snd (m ?s))" using same_approvals_kept [OF assms(4)] by (simp add: resp_def)
  ultimately show ?thesis unfolding save_then_run by (rule keeps_appr.trans)
qed

lemma same_approvals_resume: "resp same_approvals (resume_after_decision E Q i)"
  by (auto simp: resume_after_decision_def intro!: same_appr.resp_intros same_approvals_basic same_approvals_checkpoint
      split: option.splits)

lemma decide_approval_kept: "resp keeps_approvals (decide_approval E Q p i decision reason by_user)"
proof (rule respI)
  fix s :: "'a st"
  let ?hits = "filter (\<lambda>a. ap_id a = i \<and> ap_tenant_id a = pr_tenant p) (approvals (rows s))"
  let ?b = "\<lambda>a t u. a\<lparr>ap_decided_by_user_id := u, ap_status := decision, ap_reason := reason, ap_decided_at := Some t\<rparr>"
  have same: "keeps_approvals s s" by (rule keeps_appr.refl)
  show "keeps_approvals s (snd (decide_approval E Q p i decision reason by_user s))"
  proof (cases "is_admin p \<and> (decision = AS_approved \<or> decision = AS_rejected) \<and> (\<exists>a. ?hits = [a] \<and> ap_status a = AS_pending)")
    case False
    then have "snd (decide_approval E Q p i decision reason by_user s) = s"
      by (cases ?hits rule: scalar_one_or_none.cases)
        (auto simp: decide_approval_def require_admin_def mbind_def)
    with same show ?thesis by simp
  next
    case True
    then obtain a where a: "?hits = [a]" "ap_status a = AS_pending" by blast
    then have mem: "a \<in> set (approvals (rows s))" by (auto dest: filter_single)
    obtain t w where t: "env_now E (world s) = (t, w)" by fastforce
    have "snd (deciding_user p by_user s) = s" by (auto simp: deciding_user_def split: option.splits)
    then obtain q where q: "deciding_user p by_user s = (q, s)" by (metis prod.collapse)
    show ?thesis
    proof (cases q)
      case (Inl e)
      with True a q have "snd (decide_approval E Q p i decision reason by_user s) = s"
        by (auto simp: decide_approval_def require_admin_def mbind_def)
      with same show ?thesis by simp
    next
      case (Inr u)
      let ?s = "s\<lparr>world := w\<rparr>"
      have "decide_approval E Q p i decision reason by_user s =
          mseq (save_approval (?b a t u)) (mseq (resume_after_decision E Q (ap_run_id a)) (ret (?b a t u))) ?s"
        using True a q Inr by (auto simp: decide_approval_def require_admin_def mbind_def now_def t Let_def)
      moreover have "keeps_approvals ?s (snd (mseq (save_approval (?b a t u))
          (mseq (resume_after_decision E Q (ap_run_id a)) (ret (?b a t u))) ?s))"
        by (rule save_then_kept [of a])
          (use mem a in \<open>auto simp: same_request_def intro!: same_appr.resp_intros same_approvals_resume\<close>)
      ultimately show ?thesis by (simp add: keeps_approvals_def)
    qed
  qed
qed

text \<open>The reaper's loop: its requests are pending when it gets to them.\<close>

lemma same_approvals_time_out: "resp same_approvals (mseq commit (time_out_waiting_run E i))"
  by (auto simp: time_out_waiting_run_def intro!: same_appr.resp_intros same_approvals_basic same_approvals_checkpoint
      split: option.splits exn.splits)

lemma expire_approval_run:
  assumes "env_now E (world s) = (t, w)"
  shows "expire_approval E a s = mseq (save_approval (a\<lparr>ap_status := AS_expired, ap_decided_at := Some t\<rparr>))
     (mseq commit (time_out_waiting_run E (ap_run_id a))) (s\<lparr>world := w\<rparr>)"
  by (simp add: expire_approval_def mbind_def [of "now E"] now_def assms)

lemma expire_approval_rows:
  assumes "env_now E (world s) = (t, w)" and "expire_approval E a s = (q, s1)"
  shows "approvals (rows s1) = map (\<lambda>x. if ap_id x = ap_id a
     then a\<lparr>ap_status := AS_expired, ap_decided_at := Some t\<rparr> else x) (approvals (rows s))"
proof -
  let ?a = "a\<lparr>ap_status := AS_expired, ap_decided_at := Some t\<rparr>"
  let ?s = "s\<lparr>world := w, rows := (rows s)\<lparr>approvals := map (\<lambda>x. if ap_id x = ap_id ?a then ?a else x) (approvals (rows s))\<rparr>\<rparr>"
  have "mseq commit (time_out_waiting_run E (ap_run_id a)) ?s = (q, s1)"
    using assms(2) by (simp add: expire_approval_run [OF assms(1)] save_then_run)
  from respD [where R = same_approvals, OF same_approvals_time_out this] show ?thesis by (simp add: same_approvals_def)
qed

lemma reap_approvals_kept:
  assumes "set rest \<subseteq> set (approvals (rows s))" and "distinct (map ap_id rest)"
    and "\<forall>a \<in> set rest. ap_status a = AS_pending"
  shows "keeps_approvals s (snd (reap_approvals E rest n s))"
  using assms
proof (induction rest arbitrary: s n)
  case Nil
  then show ?case by (simp add: keeps_appr.refl)
next
  case (Cons a rest)
  obtain t w where t: "env_now E (world s) = (t, w)" by fastforce
  let ?a = "a\<lparr>ap_status := AS_expired, ap_decided_at := Some t\<rparr>"
  obtain q s1 where q: "expire_approval E a s = (q, s1)" by fastforce
  have "keeps_approvals (s\<lparr>world := w\<rparr>) s1"
    using save_then_kept [OF _ _ _ same_approvals_time_out, of a "s\<lparr>world := w\<rparr>" ?a E "ap_run_id a"] q Cons.prems
    by (simp add: same_request_def expire_approval_run [OF t])
  then have k1: "keeps_approvals s s1" by (simp add: keeps_approvals_def)
  show ?case
  proof (cases q)
    case (Inl e)
    with q k1 show ?thesis by simp
  next
    case (Inr m)
    have "set rest \<subseteq> set (approvals (rows s1))"
    proof
      fix b assume "b \<in> set rest"
      then have "b \<in> set (approvals (rows s))" and "ap_id b \<noteq> ap_id a" using Cons.prems by (auto, metis imageI)
      then show "b \<in> set (approvals (rows s1))" unfolding expire_approval_rows [OF t q] by force
    qed
    with Cons.prems have "keeps_approvals s1 (snd (reap_approvals E rest k s1))" for k by (intro Cons.IH) auto
    with k1 show ?thesis using q Inr keeps_appr.trans [of s s1] by simp
  qed
qed

lemma reap_expired_kept: "resp keeps_approvals (reap_expired_approvals E)"
proof (rule respI)
  fix s :: "'a st"
  obtain t w where t: "env_now E (world s) = (t, w)" by fastforce
  let ?due = "filter (expired_approval t) (approvals (rows s))"
  have "keeps_approvals (s\<lparr>world := w\<rparr>) (snd (reap_approvals E ?due 0 (s\<lparr>world := w\<rparr>)))"
    if "approval_ids_distinct (rows s)"
    using that by (intro reap_approvals_kept) (auto simp: expired_approval_def approval_ids_distinct_def distinct_map_filter)
  then show "keeps_approvals s (snd (reap_expired_approvals E s))"
    by (simp add: reap_expired_approvals_def mbind_def now_def t keeps_approvals_def)
qed

text \<open>The executor only adds requests.\<close>

lemma insert_approval_kept: "resp keeps_approvals (insert_approval a)"
proof (rule respI)
  fix s :: "'a st"
  have "\<exists>x' \<in> insert a (set (approvals (rows s))). same_request x x' \<and> approval_change (ap_status x) (ap_status x')"
    if "x \<in> set (approvals (rows s))" for x
    using that by (intro bexI [of _ x]) (auto simp: approval_change_def)
  with approvals_kept_refl [of "rows s"] show "keeps_approvals s (snd (insert_approval a s))"
    by (auto simp: insert_approval_def keeps_approvals_def approvals_kept_def approval_ids_distinct_def)
qed

lemma same_approvals_add_execution: "resp same_approvals (add_execution E mk)"
proof (rule respI)
  fix s :: "'a st"
  show "same_approvals s (snd (add_execution E mk s))"
    using add_execution_cases [of E mk s "fst (add_execution E mk s)" "snd (add_execution E mk s)"]
    by (auto simp: same_approvals_def)
qed

lemma check_approval_kept: "resp keeps_approvals (check_approval E run n c args tk)"
proof -
  have k: "resp keeps_approvals (now E)" "resp keeps_approvals (uuid4 E)" "resp keeps_approvals commit"
    "resp keeps_approvals (add_execution E mk)" "resp keeps_approvals (scalar_one_or_none xs)" for E :: "'a env" and mk and xs :: "approval_request list"
    by (intro same_approvals_kept same_approvals_basic same_approvals_add_execution)+
  show ?thesis
    by (auto simp: check_approval_def Let_def intro!: keeps_appr.resp_intros k insert_approval_kept split: option.splits)
qed

lemma execute_kept: "resp keeps_approvals (execute E run n c call tool)"
proof -
  have inv: "resp same_approvals (invoke_and_finalize E e tk)" for e :: tool_execution and tk :: "'a tool"
  proof (rule respI)
    fix s :: "'a st"
    show "same_approvals s (snd (invoke_and_finalize E e tk s))"
      using invoke_and_finalize_cases [of E e tk s, OF surjective_pairing]
      by (auto simp: same_approvals_def replace_exec_def)
  qed
  have res: "resp same_approvals (resolve_existing E e tk)" for e :: tool_execution and tk :: "'a tool"
  proof (rule respI)
    fix s :: "'a st"
    show "same_approvals s (snd (resolve_existing E e tk s))"
      using resolve_existing_cases [of E e tk s, OF surjective_pairing]
      by (auto simp: same_approvals_def replace_exec_def)
  qed
  have "resp same_approvals (get_existing key)" "resp same_approvals (record_unknown_tool E run n c call x)"
    "resp same_approvals (record_invalid_arguments E run n c call tk y)" for key x y and tk :: "'a tool"
    by (auto simp: get_existing_def record_unknown_tool_def record_invalid_arguments_def Let_def
        intro!: same_appr.resp_intros same_approvals_basic same_approvals_add_execution split: option.splits)
  note base = this [THEN same_approvals_kept] same_approvals_add_execution [THEN same_approvals_kept]
    inv [THEN same_approvals_kept] res [THEN same_approvals_kept] check_approval_kept
  show ?thesis
    by (auto simp: execute_def execute_inner_def prepare_call_def intro!: keeps_appr.resp_intros base
        split: sum.splits exn.splits option.splits)
qed

section \<open>Histories of a request\<close>

text \<open>
  What administrators, the reaper and the workers do to the approvals. Each operation is a session
  of its own, opened on the durable state and closed at the end, however it ends.
\<close>

definition session :: "('w, 'a) op \<Rightarrow> 'w st \<Rightarrow> 'w st" where
  "session m s = crash (snd (m (crash s)))"

datatype 'w approval_op =
    Decide principal uuid approval_status "string option" "uuid option"
  | Reap_expired
  | Tool_call agent_run int int tool_call "'w tool option"

fun approval_step :: "'w env \<Rightarrow> 'w broker \<Rightarrow> 'w approval_op \<Rightarrow> 'w st \<Rightarrow> 'w st" where
  "approval_step E Q (Decide p i decision reason by_user) s = session (decide_approval E Q p i decision reason by_user) s"
| "approval_step E Q Reap_expired s = session (reap_expired_approvals E) s"
| "approval_step E Q (Tool_call run n c call tool) s = session (execute E run n c call tool) s"

definition approval_status_of :: "'w st \<Rightarrow> uuid \<Rightarrow> approval_status option" where
  "approval_status_of s i = map_option ap_status (find (\<lambda>a. ap_id a = i) (approvals (durable s)))"

fun approval_trace :: "'w env \<Rightarrow> 'w broker \<Rightarrow> uuid \<Rightarrow> 'w approval_op list \<Rightarrow> 'w st \<Rightarrow> approval_status option list" where
  "approval_trace E Q i [] s = []"
| "approval_trace E Q i (p # ps) s =
     (let s' = approval_step E Q p s in approval_status_of s' i # approval_trace E Q i ps s')"

lemma session_kept:
  assumes "resp keeps_approvals m" and "approval_ids_distinct (durable s)"
  shows "approvals_kept (durable s) (durable (session m s))"
proof -
  have "keeps_approvals (crash s) (snd (m (crash s)))" using assms(1) by (simp add: resp_def)
  with assms(2) show ?thesis
    using approvals_kept_refl [of "durable s"] by (auto simp: keeps_approvals_def session_def crash_def)
qed

lemma approval_step_kept:
  "approval_ids_distinct (durable s) \<Longrightarrow> approvals_kept (durable s) (durable (approval_step E Q p s))"
  by (cases p) (simp_all add: session_kept decide_approval_kept reap_expired_kept execute_kept)

lemma approval_status_of_kept:
  assumes "approvals_kept (durable s) (durable s')" and "a \<in> set (approvals (durable s))"
  obtains b where "b \<in> set (approvals (durable s'))" and "ap_id b = ap_id a"
    and "approval_change (ap_status a) (ap_status b)" and "approval_status_of s' (ap_id a) = Some (ap_status b)"
proof -
  obtain b where b: "b \<in> set (approvals (durable s'))" "same_request a b" "approval_change (ap_status a) (ap_status b)"
    using assms by (auto simp: approvals_kept_def)
  have "find (\<lambda>x. ap_id x = ap_id b) (approvals (durable s')) = Some b"
    using b(1) approvals_kept_ids [OF assms(1)] by (intro find_key) (auto simp: approval_ids_distinct_def)
  with b that show thesis by (auto simp: approval_status_of_def same_request_def)
qed

lemma approval_trace_history:
  assumes "approval_ids_distinct (durable s)" and "a \<in> set (approvals (durable s))"
  shows "\<exists>ts. approval_trace E Q (ap_id a) ops s = map Some ts \<and> history approval_change (ap_status a) ts"
  using assms
proof (induction ops arbitrary: s a)
  case Nil
  then show ?case by simp
next
  case (Cons p ps)
  let ?s = "approval_step E Q p s"
  have k: "approvals_kept (durable s) (durable ?s)" by (rule approval_step_kept [OF Cons.prems(1)])
  obtain b where b: "b \<in> set (approvals (durable ?s))" "ap_id b = ap_id a"
      "approval_change (ap_status a) (ap_status b)" "approval_status_of ?s (ap_id a) = Some (ap_status b)"
    by (rule approval_status_of_kept [OF k Cons.prems(2)])
  obtain ts where "approval_trace E Q (ap_id b) ps ?s = map Some ts" "history approval_change (ap_status b) ts"
    using Cons.IH [OF approvals_kept_ids [OF k] b(1)] by blast
  with b show ?case by (intro exI [of _ "ap_status b # ts"]) (simp add: Let_def)
qed


section \<open>An expiry that comes late\<close>

text \<open>
  The reaper marks the objects of its query without reading them again: a request that another
  session approved after the query is marked expired all the same, and durably so.
\<close>

lemma late_expiry_overwrites:
  assumes "approval_ids_distinct (rows s)" and "b \<in> set (approvals (rows s))" and "ap_id b = ap_id a"
    and "ap_status b = AS_approved"
  shows "approval_status_of (snd (expire_approval E a s)) (ap_id a) = Some AS_expired"
proof -
  obtain t w where t: "env_now E (world s) = (t, w)" by fastforce
  let ?a = "a\<lparr>ap_status := AS_expired, ap_decided_at := Some t\<rparr>"
  let ?xs = "map (\<lambda>x. if ap_id x = ap_id a then ?a else x) (approvals (rows s))"
  let ?s = "s\<lparr>world := w, rows := (rows s)\<lparr>approvals := ?xs\<rparr>, durable := (rows s)\<lparr>approvals := ?xs\<rparr>\<rparr>"
  have run: "expire_approval E a s = time_out_waiting_run E (ap_run_id a) ?s"
    by (simp add: expire_approval_run [OF t] save_then_run) (simp add: mbind_def commit_def)
  have "resp same_approvals (time_out_waiting_run E (ap_run_id a))"
    by (auto simp: time_out_waiting_run_def intro!: same_appr.resp_intros same_approvals_basic same_approvals_checkpoint
        split: option.splits exn.splits)
  then have "same_approvals ?s (snd (expire_approval E a s))" unfolding run by (simp add: resp_def)
  then have "approvals (durable (snd (expire_approval E a s))) = ?xs" by (auto simp: same_approvals_def)
  moreover have "distinct (map ap_id ?xs)"
    using assms(1) map_if_id [of ?a "approvals (rows s)"] by (simp add: approval_ids_distinct_def del: map_map)
  then have "find (\<lambda>x. ap_id x = ap_id ?a) ?xs = Some ?a"
    using assms(2,3) by (intro find_key) (auto simp: image_iff)
  ultimately show ?thesis by (simp add: approval_status_of_def)
qed

section \<open>Witness\<close>

definition admin_key :: principal where
  "admin_key = \<lparr>pr_tenant = 1, pr_user = None\<rparr>"

definition silent_broker :: "nat broker" where
  "silent_broker i tenant w = (Inr (), Suc w)"

definition open_request :: approval_request where
  "open_request = \<lparr>ap_id = 9, ap_tenant_id = 1, ap_run_id = 7, ap_step_no = 0, ap_call_index = 0,
     ap_tool_name = ''pay'', ap_risk_tier = RT_destructive, ap_args = [], ap_status = AS_pending,
     ap_reason = None, ap_decided_by_user_id = None, ap_requested_at = 0, ap_decided_at = None,
     ap_expires_at = 50\<rparr>"

definition asking_st :: "nat st" where
  "asking_st = (let d = empty_db\<lparr>runs := [sample_run\<lparr>run_status := RS_waiting_approval\<rparr>], approvals := [open_request]\<rparr>
     in (state_of sample_run)\<lparr>rows := d, durable := d\<rparr>)"

lemmas lifecycle_code [code] =
  cancel_run_def [THEN fun_cong] decide_approval_def [THEN fun_cong] resume_after_decision_def [THEN fun_cong]
  reap_expired_approvals_def [THEN fun_cong] expire_approval_def [THEN fun_cong]
  time_out_waiting_run_def [THEN fun_cong] create_run_route_def [THEN fun_cong] post_message_def [THEN fun_cong]
  enforce_tenant_run_quota_def [THEN fun_cong] get_quota_def [THEN fun_cong] create_run_def [THEN fun_cong]

lemma asking_trace:
  "approval_trace sample_env silent_broker 9
     [Decide admin_key 9 AS_rejected (Some ''no'') None, Reap_expired, Decide admin_key 9 AS_approved None None] asking_st
   = [] @ Some AS_rejected # [Some AS_rejected, Some AS_rejected]"
  by code_simp


end
