(* ===== verification/Worker.thy ===== *)
theory Worker
  imports Approvals
begin

text \<open>
  harness/workers/main.py: one queued run from its message to the release of its lease. The claim,
  the engine and the release each have a session of their own; the tenant's model, the heartbeat
  (Repository.thy has its operation) and the Slack notice are outside. The theorems compose the
  lease, the engine and the cancel route.
\<close>

section \<open>Handling a message\<close>

text \<open>Python's \<open>try ... finally\<close>: an exception of the second part replaces the outcome of the first.\<close>

definition mfinally :: "('s, 'e, 'a) prog \<Rightarrow> ('s, 'e, unit) prog \<Rightarrow> ('s, 'e, 'a) prog" where
  "mfinally m f = (\<lambda>s. let (r, s1) = m s; (q, s2) = f s1 in (case q of Inl e \<Rightarrow> (Inl e, s2) | Inr _ \<Rightarrow> (r, s2)))"

text \<open>Leaving a session's block closes it: what it did not commit is lost.\<close>

definition close_session :: "('w, unit) op" where
  "close_session = modify crash"

definition release_own_lease :: "'w env \<Rightarrow> string \<Rightarrow> uuid \<Rightarrow> ('w, unit) op" where
  "release_own_lease E owner i =
     mbind (repo_get i) (\<lambda>current.
       case current of
         None \<Rightarrow> ret ()
       | Some r \<Rightarrow> if run_lease_owner r = Some owner
                   then mbind (release_lease E) (\<lambda>_. commit) else ret ())"

text \<open>\<open>False\<close> is the engine's loop out of fuel.\<close>

definition process_message ::
  "nat \<Rightarrow> 'w env \<Rightarrow> 'w llm \<Rightarrow> 'w mcp_call \<Rightarrow> 'w engine \<Rightarrow> string \<Rightarrow> uuid \<Rightarrow> ('w, bool) op" where
  "process_message fuel E L C g owner i =
     mbind (repo_get i) (\<lambda>x.
       case x of
         None \<Rightarrow> ret True
       | Some run \<Rightarrow>
           mbind (try_acquire_lease E owner (cfg_run_lease_ttl_seconds (env_settings E))) (\<lambda>acquired.
           mseq commit
           (if \<not> acquired then ret True
            else mfinally (run_until_blocked fuel E L C g i)
                   (mseq close_session (release_own_lease E owner i)))))"

section \<open>The engine keeps the runs there are\<close>

definition same_runs :: "'w st \<Rightarrow> 'w st \<Rightarrow> bool" where
  "same_runs s s' \<longleftrightarrow> (run_ids_distinct s \<longrightarrow>
     map run_id (runs (rows s')) = map run_id (runs (rows s))
     \<and> (durable s' = durable s \<or> map run_id (runs (durable s')) = map run_id (runs (rows s))))"

interpretation same_runs: state_preorder same_runs
proof
  show "same_runs s s" for s :: "'a st" by (simp add: same_runs_def)
  show "same_runs s u" if "same_runs s t" "same_runs t u" for s t u :: "'a st"
    using that unfolding same_runs_def run_ids_distinct_def by metis
qed

lemma leaves_same_runs: "resp leaves_run m \<Longrightarrow> resp same_runs m"
  by (erule resp_mono) (auto simp: leaves_run_def same_runs_def)

lemma same_runs_versioned: "resp same_runs (versioned_update E u x)"
proof (rule respI)
  fix s :: "'a st"
  obtain t w where n: "env_now E (world s) = (t, w)" by fastforce
  show "same_runs s (snd (versioned_update E u x s))"
  proof (cases "run_ids_distinct s")
    case True
    then show ?thesis by (simp add: versioned_update_eq [OF True n] same_runs_def split: option.split)
  qed (simp add: same_runs_def)
qed

lemma same_runs_cur: "resp same_runs (modify (\<lambda>s. s\<lparr>cur := r\<rparr>))"
  by (rule respI) (simp add: same_runs_def)

lemma same_runs_checkpoint: "resp same_runs (checkpoint E st u)"
  by (auto simp: checkpoint_def assert_valid_transition_def intro!: same_runs.resp_intros same_runs_versioned
      split: option.splits)

lemmas same_runs_leaf = resp_rules [THEN leaves_same_runs]

lemmas same_runs_ops = same_runs.resp_intros same_runs_checkpoint same_runs_leaf

lemma same_runs_Pair: "resp same_runs (Pair x)"
  by (simp add: resp_def same_runs.refl)

lemma same_runs_end_run: "resp same_runs (end_run E st u)"
  by (auto simp: end_run_def intro!: same_runs_ops)


lemma same_runs_single_call: "resp same_runs (execute_single_tool_call E tools n c call)"
  by (auto simp: execute_single_tool_call_def run_finish_call_def run_ask_user_call_def run_load_tool_call_def
      run_use_skill_call_def run_tool_call_def Let_def intro!: same_runs_ops same_runs_Pair
      split: option.splits json.splits exn.splits)

lemma same_runs_sequential: "resp same_runs (run_sequential E tools n calls k)"
  by (induction E tools n calls k rule: run_sequential.induct)
    (auto intro!: same_runs_ops same_runs_single_call same_runs_Pair split: option.splits)

lemma same_runs_process: "resp same_runs (process_tool_calls E tools n payload)"
  by (auto simp: process_tool_calls_def run_deferred_call_def run_read_only_def indexed_call_def Let_def
      intro!: same_runs_ops same_runs_single_call same_runs_sequential split: prod.splits)

lemma same_runs_call_llm: "resp same_runs (call_llm E L tools n)"
  by (auto simp: call_llm_def activate_skill_candidate_def fail_llm_call_def Let_def intro!: same_runs_ops
      split: option.splits exn.splits prod.splits)

lemma same_runs_step_calls: "resp same_runs (run_step_calls E tools n payload pc tk)"
  by (auto simp: run_step_calls_def finish_step_def Let_def
      intro!: same_runs_ops same_runs_end_run same_runs_process split: option.splits exn.splits prod.splits)

lemma same_runs_execute_step: "resp same_runs (execute_step E L C g)"
  by (auto simp: execute_step_def Let_def intro!: same_runs_ops same_runs_end_run same_runs_call_llm same_runs_step_calls
      split: option.splits exn.splits prod.splits)

lemma same_runs_loop: "resp same_runs (run_loop n E L C g)"
  by (induction n arbitrary: g) (auto intro!: same_runs_ops same_runs_execute_step)

lemma same_runs_engine: "resp same_runs (run_until_blocked n E L C g i)"
  by (auto simp: run_until_blocked_def intro!: same_runs_ops same_runs_cur same_runs_loop split: option.splits)


section \<open>The lease\<close>

text \<open>The claim: the lease goes to the worker exactly when it is free.\<close>

lemma acquire_eq:
  assumes "run_ids_distinct s" and "find_run (rows s) i = Some r" and "env_now E (world s) = (t, w)"
  obtains t' w' where "try_acquire_lease E owner ttl (s\<lparr>cur := r\<rparr>) =
    (if lease_free t r
     then (let r' = updated_row (no_updates\<lparr>fu_lease_owner := Some (Some owner),
             fu_lease_expires_at := Some (Some (t + seconds ttl))\<rparr>) t' r
           in (Inr True, s\<lparr>world := w', rows := put_run r' (rows s), cur := r'\<rparr>))
     else (Inr False, s\<lparr>cur := r, world := w'\<rparr>))"
proof -
  obtain t' w' where t': "env_now E w = (t', w')" by fastforce
  have d: "run_ids_distinct (s\<lparr>cur := r, world := w\<rparr>)" using assms(1) by (simp add: run_ids_distinct_def)
  show thesis
    using versioned_update_eq [OF d, of E t' w'] t' find_run_id [OF assms(2)] assms(2,3)
    by (intro that [of t' w']) (simp add: try_acquire_lease_def mbind_def [of "now E"] now_def Let_def)
qed

lemma release_own_lease_free:
  assumes "distinct (map run_id (runs (rows s)))" and "release_own_lease E owner i s = (q, s')" and "rows s = durable s"
  shows "q = Inr () \<and> map run_id (runs (durable s')) = map run_id (runs (rows s))
    \<and> (\<forall>r. find_run (durable s') i = Some r \<longrightarrow> run_lease_owner r \<noteq> Some owner)"
proof (cases "find_run (rows s) i")
  case None
  with assms show ?thesis by (auto simp: release_own_lease_def repo_get_def mbind_def)
next
  case (Some r)
  have id: "run_id r = i" using find_run_id [OF Some] by simp
  show ?thesis
  proof (cases "run_lease_owner r = Some owner")
    case False
    with Some assms show ?thesis by (auto simp: release_own_lease_def repo_get_def mbind_def)
  next
    case True
    have d: "run_ids_distinct (s\<lparr>cur := r\<rparr>)" using assms(1) by (simp add: run_ids_distinct_def)
    obtain t w where n: "env_now E (world (s\<lparr>cur := r\<rparr>)) = (t, w)" by fastforce
    show ?thesis
      using versioned_update_eq [OF d n] Some True assms id
      by (auto simp: release_own_lease_def repo_get_def mbind_def release_lease_def commit_def find_run_put)
  qed
qed

text \<open>
  A message for a run that another worker holds is dropped: the engine does not start, no tool
  is called and the tables stay as they are.
\<close>

theorem busy_run_left_alone:
  assumes "run_ids_distinct s" and "find_run (rows s) i = Some r"
    and "run_lease_owner r \<noteq> None" and "run_lease_expires_at r = Some e" and "fst (env_now E (world s)) \<le> e"
  shows "\<exists>s'. process_message n E L C g owner i s = (Inr True, s')
    \<and> rows s' = rows s \<and> durable s' = rows s \<and> invoked s' = invoked s"
proof -
  obtain t w where n: "env_now E (world s) = (t, w)" by fastforce
  obtain t' w' where "try_acquire_lease E owner (cfg_run_lease_ttl_seconds (env_settings E)) (s\<lparr>cur := r\<rparr>)
      = (Inr False, s\<lparr>cur := r, world := w'\<rparr>)"
    using acquire_eq [OF assms(1,2) n, of owner "cfg_run_lease_ttl_seconds (env_settings E)"] assms(3-5) n
    by (auto simp: lease_free_def)
  with assms(2) show ?thesis by (simp add: process_message_def repo_get_def mbind_def commit_def)
qed

text \<open>
  A worker gives back what it claimed: when it is done with a message, however the engine
  ended (with an exception too), the worker does not hold the lease of a run it had claimed.
\<close>

theorem worker_releases_its_lease:
  assumes "run_ids_distinct s" and "find_run (rows s) i = Some r" and "lease_free (fst (env_now E (world s))) r"
    and "process_message n E L C g owner i s = (q, s')"
  shows "\<exists>r'. find_run (durable s') i = Some r' \<and> run_lease_owner r' \<noteq> Some owner"
proof -
  obtain t w where n: "env_now E (world s) = (t, w)" by fastforce
  let ?ttl = "cfg_run_lease_ttl_seconds (env_settings E)"
  let ?u = "no_updates\<lparr>fu_lease_owner := Some (Some owner), fu_lease_expires_at := Some (Some (t + seconds ?ttl))\<rparr>"
  obtain t' w' where a0: "try_acquire_lease E owner ?ttl (s\<lparr>cur := r\<rparr>) =
      (if lease_free t r then (let r' = updated_row ?u t' r
         in (Inr True, s\<lparr>world := w', rows := put_run r' (rows s), cur := r'\<rparr>))
       else (Inr False, s\<lparr>cur := r, world := w'\<rparr>))"
    by (rule acquire_eq [OF assms(1,2) n])
  define r1 where "r1 = updated_row ?u t' r"
  have a: "try_acquire_lease E owner ?ttl (s\<lparr>cur := r\<rparr>)
      = (Inr True, s\<lparr>world := w', rows := put_run r1 (rows s), cur := r1\<rparr>)"
    using a0 assms(3) n by (simp add: Let_def r1_def)
  let ?s1 = "s\<lparr>world := w', rows := put_run r1 (rows s), cur := r1, durable := put_run r1 (rows s)\<rparr>"
  obtain q2 s2 where e: "run_until_blocked n E L C g i ?s1 = (q2, s2)" by fastforce
  have "same_runs ?s1 s2" using respD [where R = same_runs, OF same_runs_engine e] .
  moreover have "run_ids_distinct ?s1" using assms(1) by (simp add: run_ids_distinct_def)
  ultimately have ids: "map run_id (runs (durable s2)) = map run_id (runs (rows s))" by (auto simp: same_runs_def)
  obtain q3 where rel: "release_own_lease E owner i (crash s2) = (q3, s')"
    using assms(2,4) a e by (auto simp: process_message_def repo_get_def mbind_def commit_def mfinally_def close_session_def
        split: prod.splits sum.splits)
  have "distinct (map run_id (runs (rows (crash s2))))"
    using ids assms(1) by (simp add: crash_def run_ids_distinct_def)
  from release_own_lease_free [OF this rel] have
    fin: "map run_id (runs (durable s')) = map run_id (runs (rows s))"
      "\<forall>r. find_run (durable s') i = Some r \<longrightarrow> run_lease_owner r \<noteq> Some owner"
    using ids by (auto simp: crash_def)
  have "i \<in> set (map run_id (runs (durable s')))" using find_run_id [OF assms(2)] by (auto simp: fin(1))
  then have "find_run (durable s') i \<noteq> None" by (auto simp: find_run_None)
  with fin(2) show ?thesis by blast
qed


section \<open>Cancelling\<close>

lemma accessible_run_eq:
  "get_accessible_run p i s =
     (case find_run (rows s) i of
        None \<Rightarrow> (Inl (HttpError 404 ''run not found''), s)
      | Some r \<Rightarrow> if run_tenant_id r = pr_tenant p \<and> member_can_access_run p r then (Inr r, s\<lparr>cur := r\<rparr>)
                  else (Inl (HttpError 404 ''run not found''), s\<lparr>cur := r\<rparr>))"
  by (simp add: get_accessible_run_def get_owned_run_def repo_get_def mbind_def split: option.split)

lemma linked_read: "run_ids_distinct s \<Longrightarrow> find_run (rows s) i = Some r \<Longrightarrow> linked (s\<lparr>cur := r\<rparr>)"
  using find_run_id [of "rows s" i r] by (auto simp: linked_def run_ids_distinct_def)

text \<open>A checkpoint leaves the ghost log alone; so does recording the usage of a skill.\<close>

lemma checkpoint_invoked:
  assumes "linked s" and "checkpoint E st u s = (q, s')"
  shows "invoked s' = invoked s"
proof -
  obtain t w where n: "env_now E (world s) = (t, w)" by fastforce
  show ?thesis using checkpoint_linked [OF assms(1) n, of st u] assms(2) by (auto split: if_splits)
qed

lemma skill_usage_returns:
  obtains s' where "record_skill_usage_for_run E s = (Inr (), s')" and "invoked s' = invoked s" and "leaves_run s s'"
proof -
  obtain q s' where q: "record_skill_usage_for_run E s = (q, s')" by fastforce
  have "q = Inr () \<and> invoked s' = invoked s"
    using q by (auto simp: record_skill_usage_for_run_def mbind_def uuid4_def now_def Let_def split_beta
        split: option.splits if_splits)
  moreover have "leaves_run s s'" using respD [where R = leaves_run, OF leaves_record_skill_usage q] .
  ultimately show thesis using q that by blast
qed

lemma end_run_returns:
  assumes "linked s" and "valid_transition (run_status (cur s)) st"
  obtains s' where "end_run E st u s = (Inr (), s')" and "written (Some st) u s s'" and "invoked s' = invoked s"
proof -
  obtain q s1 where c: "checkpoint E (Some st) u s = (q, s1)" by fastforce
  have q: "q = Inr ()" using assms(1) c by (cases rule: checkpoint_cases) (use assms(2) in auto)
  obtain s2 where s2: "record_skill_usage_for_run E s1 = (Inr (), s2)" "invoked s2 = invoked s1"
    by (rule skill_usage_returns)
  let ?s = "s2\<lparr>durable := rows s2\<rparr>"
  have run: "end_run E st u s = (Inr (), ?s)" using c q s2(1) by (simp add: end_run_def mbind_def commit_def)
  show thesis
    using that [OF run end_run_written [OF assms(1) run]] s2(2) checkpoint_invoked [OF assms(1) c] by simp
qed

lemma cancel_run_leaves:
  assumes "run_ids_distinct s" and "cancel_run E p i s = (Inr x, s1)"
  obtains r where "find_run (rows s) i = Some r" and "run_status r \<notin> TERMINAL_RUN_STATUSES"
    and "find_run (rows s1) i = Some (cur s1)" and "durable s1 = rows s1" and "run_ids_distinct s1"
    and "invoked s1 = invoked s" and "run_cancel_requested (cur s1)"
    and "run_status (cur s1) = (if run_status r \<in> WAITING_RUN_STATUSES then RS_cancelled else run_status r)"
    and "run_version (cur s1) = run_version r + 1"
    and "run_max_steps (cur s1) = run_max_steps r" and "run_current_step (cur s1) = run_current_step r"
proof -
  obtain r where r: "find_run (rows s) i = Some r" and live: "run_status r \<notin> TERMINAL_RUN_STATUSES"
    using assms(2) by (auto simp: cancel_run_def accessible_run_eq mbind_def [of "get_accessible_run p i"]
        split: option.splits if_splits)
  let ?s = "s\<lparr>cur := r\<rparr>" and ?u = "no_updates\<lparr>fu_cancel_requested := Some True\<rparr>"
  have l: "linked ?s" by (rule linked_read [OF assms(1) r])
  have id: "run_id r = i" using find_run_id [OF r] by simp
  obtain st s2 where w: "written st ?u ?s s2" "invoked s2 = invoked s" and s1: "s1 = s2"
    and st: "st = (if run_status r \<in> WAITING_RUN_STATUSES then Some RS_cancelled else None)"
  proof (cases "run_status r \<in> WAITING_RUN_STATUSES")
    case True
    then have v: "valid_transition (run_status (cur ?s)) RS_cancelled"
      by (auto simp: WAITING_RUN_STATUSES_def valid_transition_def)
    obtain s3 where s3: "end_run E RS_cancelled ?u ?s = (Inr (), s3)" "written (Some RS_cancelled) ?u ?s s3"
      "invoked s3 = invoked ?s" by (rule end_run_returns [OF l v])
    have "s1 = s3"
      using assms(2) True r live s3(1)
      by (auto simp: cancel_run_def accessible_run_eq mbind_def end_run_def commit_def split: if_splits prod.splits sum.splits)
    with that [of "Some RS_cancelled" s3] s3 True show thesis by simp
  next
    case False
    obtain q s3 where c: "checkpoint E None ?u ?s = (q, s3)" by fastforce
    have q: "q = Inr ()" using l c by (cases rule: checkpoint_cases) auto
    have m: "mseq (checkpoint E None ?u) commit ?s = (Inr (), s3\<lparr>durable := rows s3\<rparr>)"
      using c q by (simp add: mbind_def commit_def)
    have "s1 = s3\<lparr>durable := rows s3\<rparr>"
      using assms(2) False r live c q
      by (auto simp: cancel_run_def accessible_run_eq mbind_def commit_def split: if_splits prod.splits sum.splits)
    with that [OF commit_written [OF l m]] checkpoint_invoked [OF l c] False show thesis by simp
  qed
  have f: "linked s2" "durable s2 = rows s2" and "\<exists>t. cur s2 = updated_row (with_status st ?u) t r"
    using w(1) by (auto simp: written_def)
  then obtain t where c: "cur s2 = updated_row (with_status st ?u) t r" by blast
  have "run_cancel_requested (cur s2)" "run_version (cur s2) = run_version r + 1" "run_id (cur s2) = i"
    "run_max_steps (cur s2) = run_max_steps r" "run_current_step (cur s2) = run_current_step r"
    "run_status (cur s2) = (if run_status r \<in> WAITING_RUN_STATUSES then RS_cancelled else run_status r)"
    unfolding c st by (auto simp: updated_row_def apply_updates_def with_status_def no_updates_def id)
  with that [OF r live] f w(2) show thesis by (simp add: s1 linked_def)
qed


lemma cancelled_step:
  assumes "linked s" and "run_cancel_requested (cur s)" and "run_status (cur s) = RS_running"
  obtains s' where "execute_step E L C g s = (Inr g, s')" and "linked s'" and "durable s' = rows s'"
    and "run_status (cur s') = RS_cancelled" and "run_id (cur s') = run_id (cur s)" and "invoked s' = invoked s"
proof -
  obtain t w where n: "env_now E (world s) = (t, w)" by fastforce
  have ck: "check_before_step E s = (Inl (GuardrailViolation ''run was cancelled'' RS_cancelled), s)"
    using check_before_step_cases [OF n] assms(2) by (simp add: Let_def)
  have "valid_transition (run_status (cur s)) RS_cancelled" using assms(3) by (simp add: valid_transition_def)
  from end_run_returns [OF assms(1) this] obtain s' where
    s': "end_run E RS_cancelled (no_updates\<lparr>fu_error := Some (Some ''run was cancelled'')\<rparr>) s = (Inr (), s')"
      "written (Some RS_cancelled) (no_updates\<lparr>fu_error := Some (Some ''run was cancelled'')\<rparr>) s s'" "invoked s' = invoked s"
    by blast
  have "execute_step E L C g s = (Inr g, s')"
    using ck s'(1) by (simp add: execute_step_def mcatch_def mbind_def [of "check_before_step E"])
  with that [of s'] s'(2,3) show thesis by (auto simp: written_def with_status_def)
qed

text \<open>
  C19. A cancelled run takes no further step: when the cancel route has answered, whoever picks the
  run up next, with whatever model and tools, ends it as cancelled, durably, without asking the
  model or calling a tool.
\<close>

theorem cancelled_run_takes_no_step:
  assumes "run_ids_distinct s" and "cancel_run E p i s = (Inr x, s1)" and "0 < n"
  shows "\<exists>s2. run_until_blocked n E L C g i (crash s1) = (Inr True, s2) \<and> run_status (cur s2) = RS_cancelled
    \<and> find_run (rows s2) i = Some (cur s2) \<and> durable s2 = rows s2 \<and> invoked s2 = invoked s"
proof -
  obtain r where "find_run (rows s) i = Some r" and live: "run_status r \<notin> TERMINAL_RUN_STATUSES"
    and c: "find_run (rows s1) i = Some (cur s1)" "durable s1 = rows s1" "run_ids_distinct s1"
      "invoked s1 = invoked s" "run_cancel_requested (cur s1)"
    and st: "run_status (cur s1) = (if run_status r \<in> WAITING_RUN_STATUSES then RS_cancelled else run_status r)"
    by (rule cancel_run_leaves [OF assms(1,2)])
  obtain m where m: "n = Suc m" using assms(3) by (cases n) auto
  have crash: "crash s1 = s1" using c(2) by (simp add: crash_def)
  have l: "linked s1" and id: "run_id (cur s1) = i" using c find_run_id [OF c(1)] by (auto simp: linked_def)
  have loop: "\<exists>s2. run_loop n E L C g t = (Inr True, s2) \<and> run_status (cur s2) = RS_cancelled
      \<and> find_run (rows s2) i = Some (cur s2) \<and> durable s2 = rows s2 \<and> invoked s2 = invoked s"
    if t: "linked t" "run_id (cur t) = i" "run_cancel_requested (cur t)" "run_status (cur t) = RS_running"
      "invoked t = invoked s" for t
  proof -
    obtain s' where "execute_step E L C g t = (Inr g, s')" "linked s'" "durable s' = rows s'"
      "run_status (cur s') = RS_cancelled" "run_id (cur s') = i" "invoked s' = invoked s"
      by (rule cancelled_step [OF t(1,3,4)]) (use t in simp)
    then show ?thesis using t(4) by (simp add: m loop_of_stopped linked_def)
  qed
  consider "run_status (cur s1) = RS_cancelled" | "run_status (cur s1) = RS_running" | "run_status (cur s1) = RS_pending"
    using st live by (cases "run_status r") (auto simp: TERMINAL_RUN_STATUSES_def WAITING_RUN_STATUSES_def)
  then show ?thesis
  proof cases
    case 1
    with c m show ?thesis by (simp add: crash run_until_blocked_def mbind_def loop_of_stopped)
  next
    case 2
    have "run_until_blocked n E L C g i s1 = run_loop n E L C g s1"
      using c(1) 2 by (simp add: run_until_blocked_def mbind_def)
    with loop [OF l id c(5) 2 c(4)] show ?thesis by (simp add: crash)
  next
    case 3
    obtain q s3 where q: "checkpoint E (Some RS_running) no_updates s1 = (q, s3)" by fastforce
    have v: "valid_transition (run_status (cur s1)) RS_running" using 3 by (simp add: valid_transition_def)
    have ok: "q = Inr ()" using l q by (cases rule: checkpoint_cases) (use v in auto)
    let ?s = "s3\<lparr>durable := rows s3\<rparr>"
    have w: "mseq (checkpoint E (Some RS_running) no_updates) commit s1 = (Inr (), ?s)"
      using q ok by (simp add: mbind_def commit_def)
    from commit_written [OF l this] obtain t where t: "linked ?s" "cur ?s = updated_row (with_status (Some RS_running) no_updates) t (cur s1)"
      by (auto simp: written_def)
    have "run_id (cur ?s) = i" "run_cancel_requested (cur ?s)" "run_status (cur ?s) = RS_running" "invoked ?s = invoked s"
      using t(2) id c(4,5) checkpoint_invoked [OF l q]
      by (simp_all add: updated_row_def apply_updates_def with_status_def no_updates_def)
    from loop [OF t(1) this] show ?thesis
      using c(1) 3 run_mbind_Inr [where m = "mseq (checkpoint E (Some RS_running) no_updates) commit"
          and f = "\<lambda>_. run_loop n E L C g", OF w]
      by (simp add: crash run_until_blocked_def mbind_def [of "gets rows"] mbind_def [of "modify _"])
  qed
qed

text \<open>
  Unless a worker has the run in its hands: the flag bumps the version, so the object the worker
  holds is overtaken, and every checkpoint it tries, the one of the guardrail included, fails.
\<close>

lemma cancel_overtakes_worker:
  assumes "run_ids_distinct s" and "find_run (rows s) i = Some held" and "cancel_run E p i s = (Inr x, s1)"
    and "valid_transition (run_status held) st"
  shows "\<exists>m s2. checkpoint E (Some st) u (s1\<lparr>cur := held\<rparr>) = (Inl (StaleRunError m), s2) \<and> rows s2 = rows s1"
proof -
  obtain r where c: "find_run (rows s) i = Some r" and _: "run_status r \<notin> TERMINAL_RUN_STATUSES"
    and c2: "find_run (rows s1) i = Some (cur s1)" and _: "durable s1 = rows s1" and c3: "run_ids_distinct s1"
    and _: "invoked s1 = invoked s" "run_cancel_requested (cur s1)"
      "run_status (cur s1) = (if run_status r \<in> WAITING_RUN_STATUSES then RS_cancelled else run_status r)"
    and c4: "run_version (cur s1) = run_version r + 1"
    by (rule cancel_run_leaves [OF assms(1,3)])
  have d: "run_ids_distinct (s1\<lparr>cur := held\<rparr>)" using c3 by (simp add: run_ids_distinct_def)
  obtain t w where n: "env_now E (world (s1\<lparr>cur := held\<rparr>)) = (t, w)" by fastforce
  have "run_id held = i" using find_run_id [OF assms(2)] by simp
  then show ?thesis
    using versioned_update_eq [OF d n, of "u\<lparr>fu_status := Some st\<rparr>" "\<lambda>_. True"] c c2 c4 assms(2,4)
    by (simp add: checkpoint_def mbind_def assert_valid_transition_run)
qed


section \<open>Witnesses\<close>

definition leased_st :: "string \<Rightarrow> datetime \<Rightarrow> nat st" where
  "leased_st owner t = state_of (sample_run\<lparr>run_lease_owner := Some owner, run_lease_expires_at := Some t\<rparr>)"

lemma leased_st_facts:
  "run_ids_distinct (leased_st owner t)"
  "find_run (rows (leased_st owner t)) 7 = Some (sample_run\<lparr>run_lease_owner := Some owner, run_lease_expires_at := Some t\<rparr>)"
  "world (leased_st owner t) = 100" "env_now sample_env 100 = (100, 101)"
  by (simp_all add: leased_st_def sample_defs run_ids_distinct_def find_run_def)

theorem busy_run_witness:
  "\<exists>s'. process_message 26 sample_env pay_llm no_mcp sample_engine ''w2'' 7 (leased_st ''w1'' 500) = (Inr True, s')
     \<and> rows s' = rows (leased_st ''w1'' 500)"
  using busy_run_left_alone [OF leased_st_facts(1,2) [of "''w1''" 500], of 500 sample_env 26 pay_llm no_mcp sample_engine "''w2''"]
  by (auto simp: leased_st_facts(3,4))

theorem worker_release_witness:
  "\<exists>r'. find_run (durable (snd (process_message 26 sample_env pay_llm no_mcp sample_engine ''w2'' 7 (leased_st ''w1'' 50)))) 7
     = Some r' \<and> run_lease_owner r' \<noteq> Some ''w2''"
  by (rule worker_releases_its_lease [OF leased_st_facts(1,2) _ surjective_pairing])
    (simp add: leased_st_facts(3,4) lease_free_def)

lemma cancel_answer: "\<exists>x s1. cancel_run sample_env admin_key 7 (leased_st ''w1'' 500) = (Inr x, s1)"
proof -
  have "case fst (cancel_run sample_env admin_key 7 (leased_st ''w1'' 500)) of Inr _ \<Rightarrow> True | Inl _ \<Rightarrow> False" by code_simp
  then show ?thesis by (cases "cancel_run sample_env admin_key 7 (leased_st ''w1'' 500)") (auto split: sum.splits)
qed

theorem cancelled_run_witness:
  "\<exists>s1 s2. run_until_blocked 1 sample_env pay_llm no_mcp sample_engine 7 s1 = (Inr True, s2)
     \<and> run_status (cur s2) = RS_cancelled \<and> invoked s2 = []"
proof -
  obtain x s1 where c: "cancel_run sample_env admin_key 7 (leased_st ''w1'' 500) = (Inr x, s1)" using cancel_answer by blast
  have "invoked (leased_st ''w1'' 500) = []" by (simp add: leased_st_def sample_defs)
  with cancelled_run_takes_no_step [OF leased_st_facts(1) c, of 1 pay_llm no_mcp sample_engine] show ?thesis by auto
qed

text \<open>
  A worker that is asking its model when the run is cancelled: its step's checkpoint fails, it
  gives the lease back, and the run is left running, flagged and free, where the reaper, which
  looks for leases, does not find it.
\<close>

definition overtaken_st :: "nat st" where
  "overtaken_st = (let s = leased_st ''w1'' 500 in
     (snd (cancel_run sample_env admin_key 7 s))\<lparr>cur := cur s\<rparr>)"

definition after_stale :: "nat st" where
  "after_stale = snd (mseq close_session (release_own_lease sample_env ''w1'' 7)
     (snd (execute_step sample_env words_llm no_mcp sample_engine overtaken_st)))"

lemma cancelled_run_stranded:
  "(case find_run (durable after_stale) 7 of None \<Rightarrow> False
    | Some r \<Rightarrow> run_status r = RS_running \<and> run_cancel_requested r \<and> run_lease_owner r = None \<and> \<not> stale_run 1000000 r)"
  by code_simp

end
