(* ===== verification/Routes.thy ===== *)
theory Routes
  imports Worker
begin

text \<open>
  What the API promises of runs and approvals (the routes of Lifecycle.thy): isolation of tenants
  and members, the quota, that a waiting run that is answered goes on, and the pages of the listing.
\<close>

section \<open>Isolation\<close>

text \<open>
  C21. A run of another tenant, or of another member when the caller is not an administrator,
  cannot be told from one that does not exist: every route on it answers 404 with the same words,
  writes nothing and publishes nothing.
\<close>

theorem inaccessible_run_hidden:
  assumes "\<forall>r. find_run (rows s) i = Some r \<longrightarrow> run_tenant_id r \<noteq> pr_tenant p \<or> \<not> member_can_access_run p r"
  shows "\<exists>c. post_message E Q p i content s = (Inl (HttpError 404 ''run not found''), s\<lparr>cur := c\<rparr>)
    \<and> cancel_run E p i s = (Inl (HttpError 404 ''run not found''), s\<lparr>cur := c\<rparr>)
    \<and> post_run_feedback E p i up comment s = (Inl (HttpError 404 ''run not found''), s\<lparr>cur := c\<rparr>)"
proof -
  have "get_accessible_run p i s = (Inl (HttpError 404 ''run not found''),
      s\<lparr>cur := (case find_run (rows s) i of None \<Rightarrow> cur s | Some r \<Rightarrow> r)\<rparr>)"
    using assms by (auto simp: accessible_run_eq split: option.split)
  then show ?thesis by (auto simp: post_message_def cancel_run_def post_run_feedback_def)
qed

section \<open>The quota\<close>

lemma get_quota_run:
  obtains q where "get_quota E tenant s = (Inr q, s\<lparr>rows := (rows s)\<lparr>quotas := quotas (rows s) @
      (if find (\<lambda>q. tq_tenant_id q = tenant) (quotas (rows s)) = None then [q] else [])\<rparr>\<rparr>)"
    and "tq_tenant_id q = tenant"
    and "q \<in> set (quotas (rows s)) \<or> find (\<lambda>q. tq_tenant_id q = tenant) (quotas (rows s)) = None"
proof (cases "find (\<lambda>q. tq_tenant_id q = tenant) (quotas (rows s))")
  case None
  then show thesis by (intro that) (auto simp: get_quota_def mbind_def Let_def)
next
  case (Some q)
  then have "tq_tenant_id q = tenant" "q \<in> set (quotas (rows s))" by (auto simp: find_Some_iff)
  with Some show thesis by (intro that [of q]) (auto simp: get_quota_def mbind_def)
qed

lemma create_run_cases:
  assumes "create_run E tenant goal ch md creator a b c d s = (Inr run, s')"
  shows "rows s' = (rows s)\<lparr>runs := runs (rows s) @ [run]\<rparr> \<and> durable s' = durable s
    \<and> run_tenant_id run = tenant \<and> run_status run = RS_pending \<and> run_goal run = goal
    \<and> run_version run = 0 \<and> find_run (rows s) (run_id run) = None"
  using assms
  by (auto simp: create_run_def mbind_def uuid4_def now_def Let_def insert_run_def find_run_None split: prod.splits if_splits)

lemma add_message_cases:
  assumes "add_message E i role content s = (Inr m, s')"
  shows "rows s' = (rows s)\<lparr>messages := messages (rows s) @ [m]\<rparr> \<and> durable s' = durable s \<and> cur s' = cur s
    \<and> msg_run_id m = i \<and> msg_role m = role \<and> msg_content m = content"
  using assms
  by (auto simp: add_message_def mbind_def uuid4_def now_def Let_def insert_message_def split: prod.splits if_splits)

lemma publish_cases:
  assumes "publish Q i tenant s = (x, s')"
  obtains w where "Q i tenant (world s) = (x, w)" and "s' = s\<lparr>world := w\<rparr>"
  using assms by (auto simp: publish_def split: prod.splits)

text \<open>A quota check that passes.\<close>

lemma quota_passes:
  assumes "enforce_tenant_run_quota E tenant s = (Inr (), s')"
  shows "runs (rows s') = runs (rows s) \<and> (\<exists>q \<in> set (quotas (rows s')). tq_tenant_id q = tenant
    \<and> int (active_runs (rows s) tenant) < tq_max_active_runs q
    \<and> tokens_since (rows s) tenant (start_of_day (fst (env_now E (world s)))) < tq_daily_token_quota q)"
proof -
  obtain q where g: "get_quota E tenant s = (Inr q, s\<lparr>rows := (rows s)\<lparr>quotas := quotas (rows s) @
        (if find (\<lambda>q. tq_tenant_id q = tenant) (quotas (rows s)) = None then [q] else [])\<rparr>\<rparr>)"
    and q: "tq_tenant_id q = tenant"
      "q \<in> set (quotas (rows s)) \<or> find (\<lambda>q. tq_tenant_id q = tenant) (quotas (rows s)) = None"
    by (rule get_quota_run)
  let ?d = "(rows s)\<lparr>quotas := quotas (rows s) @
        (if find (\<lambda>q. tq_tenant_id q = tenant) (quotas (rows s)) = None then [q] else [])\<rparr>"
  have "active_runs ?d tenant = active_runs (rows s) tenant" "tokens_since ?d tenant t = tokens_since (rows s) tenant t" for t
    by (simp_all add: active_runs_def tokens_since_def)
  with assms g have "rows s' = ?d \<and> int (active_runs (rows s) tenant) < tq_max_active_runs q
      \<and> tokens_since (rows s) tenant (start_of_day (fst (env_now E (world s)))) < tq_daily_token_quota q"
    by (auto simp: enforce_tenant_run_quota_def mbind_def now_def not_le split: if_splits prod.splits)
  moreover have "q \<in> set (quotas ?d)" using q(2) by auto
  ultimately show ?thesis using q(1) by auto
qed

text \<open>
  C20. The quota holds: when a run is created, the tenant's active runs, the new one included, are
  within its quota and its tokens of the day below it; the run is durable, pending and the only
  change to the runs.
\<close>

theorem run_creation_within_quota:
  assumes "create_run_route E Q p body s = (Inr run, s')"
  shows "runs (durable s') = runs (rows s) @ [run] \<and> run_tenant_id run = pr_tenant p \<and> run_status run = RS_pending
    \<and> (\<exists>q \<in> set (quotas (durable s')). tq_tenant_id q = pr_tenant p
      \<and> int (active_runs (durable s') (pr_tenant p)) \<le> tq_max_active_runs q
      \<and> tokens_since (rows s) (pr_tenant p) (start_of_day (fst (env_now E (world s)))) < tq_daily_token_quota q)"
proof -
  from assms obtain s1 s2 m s3 s4 s5 where
    1: "enforce_tenant_run_quota E (pr_tenant p) s = (Inr (), s1)"
    and 2: "create_run E (pr_tenant p) (rc_goal body) (rc_channel body) (Some (rc_channel_metadata body))
      (map_option fst (pr_user p)) (rc_max_steps body) (rc_max_tool_calls body) (rc_token_budget body)
      (rc_timeout_seconds body) s1 = (Inr run, s2)"
    and 3: "add_message E (run_id run) MR_user (rc_goal body) s2 = (Inr m, s3)"
    and 4: "commit s3 = (Inr (), s4)" and 5: "publish Q (run_id run) (pr_tenant p) s4 = (Inr (), s5)" and "s' = s5"
    by (auto simp: create_run_route_def elim!: mbind_Inr_E)
  obtain w where w: "s' = s4\<lparr>world := w\<rparr>" using publish_cases [OF 5] \<open>s' = s5\<close> by blast
  have d: "durable s' = rows s3" using 4 w by (auto simp: commit_def)
  have r: "rows s3 = (rows s1)\<lparr>runs := runs (rows s1) @ [run], messages := messages (rows s2) @ [m]\<rparr>"
    using create_run_cases [OF 2] add_message_cases [OF 3] by simp
  have run: "run_tenant_id run = pr_tenant p" "run_status run = RS_pending" using create_run_cases [OF 2] by auto
  have "active_runs (durable s') (pr_tenant p) = Suc (active_runs (rows s) (pr_tenant p))"
    using quota_passes [OF 1] run by (simp add: d r active_runs_def TERMINAL_RUN_STATUSES_def)
  then show ?thesis using quota_passes [OF 1] run by (auto simp: d r intro!: bexI)
qed

section \<open>A waiting run that is answered goes on\<close>

lemma resume_checkpoint:
  assumes "linked s" and "run_status (cur s) \<in> WAITING_RUN_STATUSES"
    and "mseq (checkpoint E (Some RS_running) no_updates) commit s = (x, s')"
  shows "x = Inr () \<and> linked s' \<and> durable s' = rows s' \<and> rows s' = put_run (cur s') (rows s)
    \<and> run_status (cur s') = RS_running \<and> run_id (cur s') = run_id (cur s)
    \<and> run_tenant_id (cur s') = run_tenant_id (cur s) \<and> run_current_step (cur s') = run_current_step (cur s)"
proof -
  have v: "valid_transition (run_status (cur s)) RS_running"
    using assms(2) by (auto simp: WAITING_RUN_STATUSES_def valid_transition_def)
  obtain q s1 where c: "checkpoint E (Some RS_running) no_updates s = (q, s1)" by fastforce
  from assms(1) c show ?thesis
  proof (cases rule: checkpoint_cases)
    case (1 t)
    with assms(3) c show ?thesis
      by (auto simp: mbind_def commit_def with_status_def linked_def run_ids_distinct_def)
        (simp_all add: updated_row_def apply_updates_def)
  next
    case (2 m x)
    with v show ?thesis by simp
  qed
qed

text \<open>
  A message to a waiting run wakes it: the message and the running status are durable before
  the run is published, once, to the workers, and the step it stands at is the one it waited at.
\<close>

theorem answered_run_resumes:
  assumes "run_ids_distinct s" and "find_run (rows s) i = Some r" and "post_message E Q p i content s = (Inr r', s')"
  shows "run_status r \<in> WAITING_RUN_STATUSES \<and> find_run (durable s') i = Some r' \<and> run_status r' = RS_running
    \<and> run_current_step r' = run_current_step r
    \<and> (\<exists>m. messages (durable s') = messages (rows s) @ [m] \<and> msg_run_id m = i \<and> msg_role m = MR_user \<and> msg_content m = content)
    \<and> (\<exists>w. Q i (pr_tenant p) w = (Inr (), world s'))"
proof -
  have id: "run_id r = i" using find_run_id [OF assms(2)] by simp
  let ?s = "s\<lparr>cur := r\<rparr>"
  from assms(2,3) obtain m s1 y s2 z where wait: "run_status r \<in> WAITING_RUN_STATUSES"
    and 1: "add_message E i MR_user content ?s = (Inr m, s1)"
    and 2: "checkpoint E (Some RS_running) no_updates s1 = (Inr y, s2)"
    and 3: "publish Q i (pr_tenant p) (s2\<lparr>durable := rows s2\<rparr>) = (Inr z, s')" and r': "r' = cur s'"
    by (auto simp: post_message_def accessible_run_eq id mbind_def [of "get_accessible_run p i"] commit_def
        elim!: mbind_Inr_E split: if_splits)
  note m = add_message_cases [OF 1]
  have l: "linked s1" using linked_read [OF assms(1,2)] m by (simp add: linked_def run_ids_distinct_def find_run_def)
  have w: "run_status (cur s1) \<in> WAITING_RUN_STATUSES" "run_id (cur s1) = i" "run_current_step (cur s1) = run_current_step r"
    using m wait id by simp_all
  have "mseq (checkpoint E (Some RS_running) no_updates) commit s1 = (Inr (), s2\<lparr>durable := rows s2\<rparr>)"
    using 2 by (simp add: mbind_def commit_def)
  note c = resume_checkpoint [OF l w(1) this]
  obtain v where v: "Q i (pr_tenant p) (world s2) = (Inr z, v)" "s' = s2\<lparr>durable := rows s2, world := v\<rparr>"
    using publish_cases [OF 3] by auto
  have "linked (s2\<lparr>durable := rows s2\<rparr>)" using c by blast
  moreover have "run_id (cur s2) = i" using c w(2) by auto
  ultimately have "find_run (rows s2) i = Some (cur s2)" by (simp add: linked_def)
  moreover have "rows s2 = put_run (cur s2) (rows s1)" using c by simp
  then have "messages (rows s2) = messages (rows s1)" by (metis put_run_other(1))
  then have "messages (rows s2) = messages (rows s) @ [m]" using m by simp
  ultimately show ?thesis using c w m v wait by (auto simp: r')
qed


text \<open>
  A decision, either way, wakes the run that waits for it: the decided request and the
  running status are durable when the run is published, and the step to replay is the same.
\<close>

theorem decided_run_resumes:
  assumes "run_ids_distinct s" and "approval_ids_distinct (rows s)"
    and "a \<in> set (approvals (rows s))" and "ap_id a = i"
    and "find_run (rows s) (ap_run_id a) = Some r" and "run_status r = RS_waiting_approval"
    and "decide_approval E Q p i decision reason by_user s = (Inr a', s')"
  shows "same_request a a' \<and> ap_status a = AS_pending \<and> ap_status a' = decision \<and> a' \<in> set (approvals (durable s'))
    \<and> (\<exists>r'. find_run (durable s') (ap_run_id a) = Some r' \<and> run_status r' = RS_running
         \<and> run_current_step r' = run_current_step r)
    \<and> (\<exists>w. Q (ap_run_id a) (run_tenant_id r) w = (Inr (), world s'))"
proof -
  let ?hits = "filter (\<lambda>a. ap_id a = i \<and> ap_tenant_id a = pr_tenant p) (approvals (rows s))"
  have uniq: "b = a" if "b \<in> set ?hits" for b
    using that assms(2-4) by (auto simp: approval_ids_distinct_def distinct_map inj_on_def)
  have "distinct ?hits" using assms(2) by (simp add: approval_ids_distinct_def distinct_map)
  then have hits: "?hits = [] \<or> ?hits = [a]" using uniq by (cases ?hits rule: remdups_adj.cases) auto
  obtain t w where n: "env_now E (world s) = (t, w)" by fastforce
  have du: "snd (deciding_user p by_user s) = s" by (auto simp: deciding_user_def split: option.splits)
  from hits assms(7) obtain u where pend: "?hits = [a]" "ap_status a = AS_pending" and q: "deciding_user p by_user s = (Inr u, s)"
    using du
    by (cases "deciding_user p by_user s"; cases "fst (deciding_user p by_user s)")
      (auto simp: decide_approval_def require_admin_def mbind_def split: if_splits)
  define b where "b = a\<lparr>ap_decided_by_user_id := u, ap_status := decision, ap_reason := reason, ap_decided_at := Some t\<rparr>"
  let ?s = "s\<lparr>world := w, rows := (rows s)\<lparr>approvals := map (\<lambda>x. if ap_id x = ap_id b then b else x) (approvals (rows s))\<rparr>\<rparr>"
  from assms(7) pend q have ra: "mseq (resume_after_decision E Q (ap_run_id a)) (ret b) ?s = (Inr a', s')"
    unfolding b_def
    by (auto simp: decide_approval_def require_admin_def mbind_def [of "gets rows"] mbind_def [of "deciding_user p by_user"]
        mbind_def [of "now E"] now_def n Let_def save_then_run split: if_splits)
  have f: "find_run (rows ?s) (ap_run_id a) = Some r" using assms(5) by (simp add: find_run_def)
  have l: "linked (?s\<lparr>cur := r\<rparr>)" by (rule linked_read [OF _ f]) (use assms(1) in \<open>simp add: run_ids_distinct_def\<close>)
  have id: "run_id r = ap_run_id a" using find_run_id [OF f] by simp
  obtain y s2 where c: "mseq (checkpoint E (Some RS_running) no_updates) commit (?s\<lparr>cur := r\<rparr>) = (y, s2)" by fastforce
  note k = resume_checkpoint [OF l _ c]
  have k: "y = Inr () \<and> linked s2 \<and> durable s2 = rows s2 \<and> rows s2 = put_run (cur s2) (rows ?s)
    \<and> run_status (cur s2) = RS_running \<and> run_id (cur s2) = ap_run_id a
    \<and> run_tenant_id (cur s2) = run_tenant_id r \<and> run_current_step (cur s2) = run_current_step r"
    using k assms(6) id by (simp add: WAITING_RUN_STATUSES_def)
  have res: "resume_after_decision E Q (ap_run_id a) ?s
      = mseq (mseq (checkpoint E (Some RS_running) no_updates) commit)
          (mbind (gets cur) (\<lambda>run. publish Q (run_id run) (run_tenant_id run))) (?s\<lparr>cur := r\<rparr>)"
    using f assms(6) by (simp add: resume_after_decision_def repo_get_def mbind_assoc mbind_def [of "gets rows"]
        mbind_def [of "modify _"])
  have "y = Inr ()" "run_id (cur s2) = ap_run_id a" "run_tenant_id (cur s2) = run_tenant_id r" using k by blast+
  with res c have res2: "resume_after_decision E Q (ap_run_id a) ?s = publish Q (ap_run_id a) (run_tenant_id r) s2"
    by (simp add: mbind_def [of "mbind _ _"] mbind_def [of "gets cur"])
  then have "publish Q (ap_run_id a) (run_tenant_id r) s2 = (Inr (), s') \<and> a' = b"
    using ra by (auto elim!: mbind_Inr_E)
  then obtain v where v: "Q (ap_run_id a) (run_tenant_id r) (world s2) = (Inr (), v)" "s' = s2\<lparr>world := v\<rparr>" "a' = b"
    using publish_cases by metis
  have d: "durable s' = rows s2" "world s' = v" using k v(2) by simp_all
  have r2: "rows s2 = put_run (cur s2) (rows ?s)" and l2: "linked s2" using k by blast+
  have "b \<in> set (approvals (durable s'))" unfolding d r2 using assms(3) by (force simp: b_def)
  moreover have "find_run (durable s') (ap_run_id a) = Some (cur s2)"
    using l2 \<open>run_id (cur s2) = ap_run_id a\<close> by (simp add: d linked_def)
  moreover have "run_status (cur s2) = RS_running" "run_current_step (cur s2) = run_current_step r" using k by blast+
  ultimately show ?thesis using v(1,3) d(2) pend(2) by (auto simp: b_def same_request_def)
qed

section \<open>The pages of the listing\<close>

lemma concat_pages: "concat (map (\<lambda>k. take n (drop (k * n) xs)) [0..<m]) = take (m * n) xs"
proof (induction m)
  case (Suc m)
  then show ?case using take_add [of "m * n" n xs] by (simp add: add.commute)
qed simp

text \<open>
  The pages of the run listing, put together, are the runs the caller may see, each once and
  latest first, and every page tells how many there are.
\<close>

theorem list_runs_pages:
  assumes "0 < n" and "length (visible_runs d p st) \<le> m * n"
  shows "mset (concat (map (\<lambda>k. fst (list_runs d p st n (k * n))) [0..<m])) = mset (visible_runs d p st)
    \<and> sorted_wrt (\<lambda>x y. run_created_at y \<le> run_created_at x)
        (concat (map (\<lambda>k. fst (list_runs d p st n (k * n))) [0..<m]))
    \<and> snd (list_runs d p st n k) = length (visible_runs d p st)"
proof -
  let ?xs = "sort_key (\<lambda>r. - run_created_at r) (visible_runs d p st)"
  have "concat (map (\<lambda>k. fst (list_runs d p st n (k * n))) [0..<m]) = ?xs"
    using assms(2) by (simp add: list_runs_def Let_def concat_pages)
  moreover have "sorted_wrt (\<lambda>x y. run_created_at y \<le> run_created_at x) ?xs"
    using sorted_sort_key [of "\<lambda>r. - run_created_at r" "visible_runs d p st"] by (simp add: sorted_map)
  ultimately show ?thesis by (simp add: list_runs_def Let_def)
qed

section \<open>Witnesses\<close>

text \<open>A member of tenant 1, a run of tenant 2, and runs that wait.\<close>

definition member_of_1 :: principal where
  "member_of_1 = \<lparr>pr_tenant = 1, pr_user = Some (5, UR_member)\<rparr>"

definition foreign_st :: "nat st" where
  "foreign_st = state_of (sample_run\<lparr>run_tenant_id := 2\<rparr>)"

theorem inaccessible_run_witness:
  "\<exists>s'. cancel_run sample_env member_of_1 7 foreign_st = (Inl (HttpError 404 ''run not found''), s')"
proof -
  have "\<forall>r. find_run (rows foreign_st) 7 = Some r \<longrightarrow> run_tenant_id r \<noteq> pr_tenant member_of_1 \<or> \<not> member_can_access_run member_of_1 r"
    by (simp add: foreign_st_def member_of_1_def sample_defs find_run_def)
  from inaccessible_run_hidden [OF this] show ?thesis by blast
qed

definition hello_run :: run_create where
  "hello_run = \<lparr>rc_goal = ''hi'', rc_channel = CH_api, rc_channel_metadata = [], rc_max_steps = None,
     rc_max_tool_calls = None, rc_token_budget = None, rc_timeout_seconds = None\<rparr>"

definition answered :: "(exn + 'a) \<times> 's \<Rightarrow> bool" where
  "answered x = (case fst x of Inl e \<Rightarrow> False | Inr a \<Rightarrow> True)"

lemma answeredE: "answered x \<Longrightarrow> (\<And>a s. x = (Inr a, s) \<Longrightarrow> P) \<Longrightarrow> P"
  by (cases x) (auto simp: answered_def split: sum.splits)

lemma hello_created: "answered (create_run_route sample_env silent_broker admin_key hello_run sample_st)"
  by code_simp

lemma hello_answered: "answered (post_message sample_env silent_broker admin_key 7 ''hi'' (state_of (sample_run\<lparr>run_status := RS_waiting_user_input\<rparr>)))"
  by code_simp

lemma request_answered: "answered (decide_approval sample_env silent_broker admin_key 9 AS_approved None None asking_st)"
  by code_simp

theorem run_quota_witness:
  "\<exists>run s'. create_run_route sample_env silent_broker admin_key hello_run sample_st = (Inr run, s')
     \<and> runs (durable s') = [sample_run, run]"
proof (rule answeredE [OF hello_created])
  fix run s' assume r: "create_run_route sample_env silent_broker admin_key hello_run sample_st = (Inr run, s')"
  have "runs (rows sample_st) = [sample_run]" by (simp add: sample_defs)
  with run_creation_within_quota [OF r] r show ?thesis by auto
qed

theorem answered_run_witness:
  "\<exists>r' s'. post_message sample_env silent_broker admin_key 7 ''hi'' (state_of (sample_run\<lparr>run_status := RS_waiting_user_input\<rparr>)) = (Inr r', s')
     \<and> run_status r' = RS_running"
proof (rule answeredE [OF hello_answered])
  let ?r = "sample_run\<lparr>run_status := RS_waiting_user_input\<rparr>"
  fix r' s' assume r: "post_message sample_env silent_broker admin_key 7 ''hi'' (state_of ?r) = (Inr r', s')"
  have "run_ids_distinct (state_of ?r)" "find_run (rows (state_of ?r)) 7 = Some ?r"
    by (simp_all add: sample_defs run_ids_distinct_def find_run_def)
  from answered_run_resumes [OF this r] r show ?thesis by blast
qed

theorem decided_run_witness:
  "\<exists>a s'. decide_approval sample_env silent_broker admin_key 9 AS_approved None None asking_st = (Inr a, s')
     \<and> ap_status a = AS_approved"
proof (rule answeredE [OF request_answered])
  fix a s' assume r: "decide_approval sample_env silent_broker admin_key 9 AS_approved None None asking_st = (Inr a, s')"
  have "run_ids_distinct asking_st" "approval_ids_distinct (rows asking_st)" "open_request \<in> set (approvals (rows asking_st))"
    "ap_id open_request = 9"
    "find_run (rows asking_st) (ap_run_id open_request) = Some (sample_run\<lparr>run_status := RS_waiting_approval\<rparr>)"
    "run_status (sample_run\<lparr>run_status := RS_waiting_approval\<rparr>) = RS_waiting_approval"
    by (simp_all add: asking_st_def sample_defs run_ids_distinct_def approval_ids_distinct_def find_run_def open_request_def Let_def)
  from decided_run_resumes [OF this r] r show ?thesis by blast
qed

theorem list_runs_witness:
  "mset (concat (map (\<lambda>k. fst (list_runs (rows sample_st) admin_key None 1 (k * 1))) [0..<1])) = {#sample_run#}"
proof -
  have v: "visible_runs (rows sample_st) admin_key None = [sample_run]"
    by (simp add: visible_runs_def sample_defs admin_key_def is_admin_def pr_role_def)
  show ?thesis using list_runs_pages [of 1 "rows sample_st" admin_key None 1] by (simp add: v)
qed

end
