(* ===== verification/Accounts.thy ===== *)
theory Accounts
  imports Routes
begin

text \<open>
  The rows of harness/db/models.py that stand beside a run (tenants, users, API keys, Slack, jobs,
  settings), the session over both groups of tables, and who a request is: harness/auth.py,
  harness/api/deps.py and harness/api/routes/api_keys.py. The hash, the token generator, the
  encryption and the Redis counter are parameters. \<open>uuid.UUID\<close> and \<open>int\<close> of a text are
  Python's own.
\<close>

section \<open>Rows\<close>

record tenant_row =
  tn_id :: uuid
  tn_name :: string
  tn_created_at :: datetime

record user_row =
  ur_id :: uuid
  ur_tenant_id :: uuid
  ur_display_name :: string
  ur_role :: user_role
  ur_slack_user_id :: "string option"
  ur_created_at :: datetime

record api_key =
  ak_id :: uuid
  ak_tenant_id :: uuid
  ak_user_id :: uuid
  ak_name :: string
  ak_prefix :: string
  ak_key_hash :: string
  ak_enabled :: bool
  ak_last_used_at :: "datetime option"
  ak_created_at :: datetime

record slack_thread_mapping =
  sm_id :: uuid
  sm_tenant_id :: uuid
  sm_run_id :: uuid
  sm_channel_id :: string
  sm_thread_ts :: string
  sm_created_at :: datetime

record slack_event =
  se_id :: uuid
  se_event_id :: string
  se_tenant_id :: "uuid option"
  se_run_id :: "uuid option"
  se_payload :: dict
  se_created_at :: datetime

record scheduled_job =
  jb_id :: uuid
  jb_tenant_id :: uuid
  jb_name :: string
  jb_cron_expression :: string
  jb_goal :: string
  jb_channel :: channel
  jb_channel_metadata :: dict
  jb_enabled :: bool
  jb_status :: scheduled_job_status
  jb_last_run_at :: "datetime option"
  jb_next_run_at :: "datetime option"
  jb_last_run_id :: "uuid option"
  jb_created_at :: datetime

text \<open>The encrypted columns hold bytes, here a string.\<close>

record tenant_slack_setting =
  ts_tenant_id :: uuid
  ts_bot_token_encrypted :: string
  ts_signing_secret_encrypted :: string
  ts_updated_at :: datetime

record tenant_llm_setting =
  tl_tenant_id :: uuid
  tl_provider :: llm_provider
  tl_base_url :: string
  tl_model :: string
  tl_api_key_encrypted :: string
  tl_updated_at :: datetime

record side_tables =
  tenants :: "tenant_row list"
  users :: "user_row list"
  api_keys :: "api_key list"
  thread_mappings :: "slack_thread_mapping list"
  slack_events :: "slack_event list"
  jobs :: "scheduled_job list"
  slack_settings :: "tenant_slack_setting list"
  llm_settings :: "tenant_llm_setting list"

section \<open>The session over both groups of tables\<close>

record 'w site =
  core :: "'w st"
  side :: side_tables
  side_durable :: side_tables

type_synonym ('w, 'a) sop = "('w site, exn, 'a) prog"

text \<open>An operation of the runtime, as it acts on the larger session.\<close>

definition on_core :: "('w, 'a) op \<Rightarrow> ('w, 'a) sop" where
  "on_core m = (\<lambda>s. let (r, c) = m (core s) in (r, s\<lparr>core := c\<rparr>))"

definition outside :: "('w \<Rightarrow> (exn + 'a) \<times> 'w) \<Rightarrow> ('w, 'a) sop" where
  "outside f = on_core (\<lambda>c. let (r, w) = f (world c) in (r, c\<lparr>world := w\<rparr>))"

definition draw :: "('w \<Rightarrow> 'a \<times> 'w) \<Rightarrow> ('w, 'a) sop" where
  "draw f = outside (\<lambda>w. let (a, w') = f w in (Inr a, w'))"

definition clock :: "'w env \<Rightarrow> ('w, datetime) sop" where
  "clock E = on_core (now E)"

definition new_id :: "'w env \<Rightarrow> ('w, uuid) sop" where
  "new_id E = on_core (uuid4 E)"

definition commit_all :: "('w, unit) sop" where
  "commit_all = modify (\<lambda>s. s\<lparr>core := (core s)\<lparr>durable := rows (core s)\<rparr>, side_durable := side s\<rparr>)"

definition rollback_all :: "('w, unit) sop" where
  "rollback_all = modify (\<lambda>s. s\<lparr>core := crash (core s), side := side_durable s\<rparr>)"

text \<open>What the next request finds: what was not committed is gone.\<close>

definition next_session :: "'w site \<Rightarrow> 'w site" where
  "next_session s = s\<lparr>core := crash (core s), side := side_durable s\<rparr>"

definition edit :: "(side_tables \<Rightarrow> side_tables) \<Rightarrow> ('w, unit) sop" where
  "edit f = modify (\<lambda>s. s\<lparr>side := f (side s)\<rparr>)"

text \<open>INSERT into one of the side tables, refused by a row it clashes with.\<close>

definition insert_row ::
  "string \<Rightarrow> (side_tables \<Rightarrow> 'r list) \<Rightarrow> (('r list \<Rightarrow> 'r list) \<Rightarrow> side_tables \<Rightarrow> side_tables) \<Rightarrow>
   ('r \<Rightarrow> 'r \<Rightarrow> bool) \<Rightarrow> 'r \<Rightarrow> ('w, unit) sop" where
  "insert_row constraint_name table update clash r =
     (\<lambda>s. if list_ex (clash r) (table (side s)) then (Inl (IntegrityError constraint_name), s)
          else (Inr (), s\<lparr>side := update (\<lambda>rs. rs @ [r]) (side s)\<rparr>))"

text \<open>A text bound for a column: a value of another type or one that is too long is refused.\<close>

definition column_text :: "nat \<Rightarrow> json \<Rightarrow> ('w, string) sop" where
  "column_text n v =
     (case v of JStr t \<Rightarrow> if length t \<le> n then ret t else raise (PyError ''DBAPIError'' ''value too long'')
      | _ \<Rightarrow> raise (PyError ''DBAPIError'' ''invalid input for query argument''))"

section \<open>Python: numbers and identifiers from text\<close>

definition int_space :: "char \<Rightarrow> bool" where
  "int_space c = ((of_char c :: nat) \<in> {9, 10, 11, 12, 13, 32, 133, 160})"

definition digit_value :: "char \<Rightarrow> int option" where
  "digit_value c =
     (let n = of_char c :: int in
      if 48 \<le> n \<and> n \<le> 57 then Some (n - 48)
      else if 97 \<le> n \<and> n \<le> 122 then Some (n - 87)
      else if 65 \<le> n \<and> n \<le> 90 then Some (n - 55) else None)"

text \<open>Digits of a base, one underscore allowed before each but the first.\<close>

fun digits_value :: "int \<Rightarrow> int \<Rightarrow> bool \<Rightarrow> string \<Rightarrow> int option" where
  "digits_value b acc after_digit [] = (if after_digit then Some acc else None)"
| "digits_value b acc after_digit (c # cs) =
     (if c = CHR ''_'' then if after_digit then digits_value b acc False cs else None
      else case digit_value c of
             None \<Rightarrow> None
           | Some v \<Rightarrow> if v < b then digits_value b (b * acc + v) True cs else None)"

definition strip_by :: "(char \<Rightarrow> bool) \<Rightarrow> string \<Rightarrow> string" where
  "strip_by p s = rev (dropWhile p (rev (dropWhile p s)))"

text \<open>\<open>int(text, 10)\<close> and \<open>int(text, 16)\<close>; \<open>None\<close> is a \<open>ValueError\<close>.\<close>

definition int_of_text :: "int \<Rightarrow> string \<Rightarrow> int option" where
  "int_of_text b text =
     (let t = strip_by int_space text;
          negative = (t \<noteq> [] \<and> hd t = CHR ''-'');
          u = (if t \<noteq> [] \<and> hd t \<in> {CHR ''-'', CHR ''+''} then tl t else t);
          prefixed = (b = 16 \<and> take 2 u \<in> {''0x'', ''0X''});
          v = (if prefixed then drop (if take 1 (drop 2 u) = ''_'' then 3 else 2) u else u)
      in map_option (\<lambda>n. if negative then - n else n) (digits_value b 0 False v))"

text \<open>\<open>text.replace(part, "")\<close>.\<close>

function str_remove :: "string \<Rightarrow> string \<Rightarrow> string" where
  "str_remove part [] = []"
| "str_remove part (c # cs) =
     (if part \<noteq> [] \<and> str_startswith (c # cs) part then str_remove part (drop (length part) (c # cs))
      else c # str_remove part cs)"
  by pat_completeness auto
termination
  by (relation "measure (\<lambda>(part, s). length s)") auto

definition uuid_of_text :: "string \<Rightarrow> uuid option" where
  "uuid_of_text text =
     (let h = str_remove ''-'' (strip_by (\<lambda>c. c \<in> {CHR 0x7B, CHR 0x7D})
                (str_remove ''uuid:'' (str_remove ''urn:'' text)))
      in if length h \<noteq> 32 then None
         else (case int_of_text 16 h of
                 None \<Rightarrow> None
               | Some n \<Rightarrow> if 0 \<le> n \<and> n < 2 ^ 128 then Some (word_of_int n) else None))"

section \<open>API keys (auth.py)\<close>

record 'w vault =
  va_sha256 :: "string \<Rightarrow> string"
  va_token :: "'w \<Rightarrow> string \<times> 'w"
  va_incr :: "string \<Rightarrow> 'w \<Rightarrow> (exn + int) \<times> 'w"
  va_expire :: "string \<Rightarrow> int \<Rightarrow> 'w \<Rightarrow> (exn + unit) \<times> 'w"
  va_encrypt :: "string \<Rightarrow> 'w \<Rightarrow> string \<times> 'w"
  va_decrypt :: "string \<Rightarrow> exn + string"
  va_hmac :: "string \<Rightarrow> string \<Rightarrow> string"

definition KEY_PREFIX :: string where
  "KEY_PREFIX = ''hrn_''"

definition generate_api_key :: "'w vault \<Rightarrow> ('w, string) sop" where
  "generate_api_key V = mbind (draw (va_token V)) (\<lambda>t. ret (KEY_PREFIX @ t))"

definition hash_api_key :: "'w vault \<Rightarrow> string \<Rightarrow> string" where
  "hash_api_key V raw_key = va_sha256 V raw_key"

definition api_key_prefix :: "string \<Rightarrow> string" where
  "api_key_prefix raw_key = take 12 raw_key"

definition insert_api_key :: "api_key \<Rightarrow> ('w, unit) sop" where
  "insert_api_key = insert_row ''uq_api_keys_key_hash'' api_keys api_keys_update
     (\<lambda>k x. ak_id x = ak_id k \<or> ak_key_hash x = ak_key_hash k)"

definition save_api_key :: "api_key \<Rightarrow> ('w, unit) sop" where
  "save_api_key k = edit (api_keys_update (map (\<lambda>x. if ak_id x = ak_id k then k else x)))"

definition create_api_key ::
  "'w env \<Rightarrow> 'w vault \<Rightarrow> uuid \<Rightarrow> uuid \<Rightarrow> string \<Rightarrow> string option \<Rightarrow> ('w, api_key \<times> string) sop" where
  "create_api_key E V tenant user name raw_key =
     mbind (case raw_key of Some (c # cs) \<Rightarrow> ret (c # cs) | _ \<Rightarrow> generate_api_key V) (\<lambda>raw.
     mbind (new_id E) (\<lambda>i. mbind (clock E) (\<lambda>t.
       let key = \<lparr>ak_id = i, ak_tenant_id = tenant, ak_user_id = user, ak_name = name,
                  ak_prefix = api_key_prefix raw, ak_key_hash = hash_api_key V raw, ak_enabled = True,
                  ak_last_used_at = None, ak_created_at = t\<rparr>
       in mseq (insert_api_key key) (ret (key, raw)))))"

definition tenant_has_api_keys :: "uuid \<Rightarrow> side_tables \<Rightarrow> bool" where
  "tenant_has_api_keys tenant d \<longleftrightarrow> 0 < length (filter (\<lambda>k. ak_tenant_id k = tenant) (api_keys d))"

definition enforce_rate_limit :: "'w env \<Rightarrow> 'w vault \<Rightarrow> uuid \<Rightarrow> ('w, unit) sop" where
  "enforce_rate_limit E V key =
     (let limit = cfg_api_key_rate_limit_per_minute (env_settings E) in
      if limit \<le> 0 then ret ()
      else
        mbind (clock E) (\<lambda>t.
          let bucket = ''rate-limit:api-key:'' @ uuid_str key @ '':'' @ str_of_int (t div seconds 60) in
          mbind (outside (va_incr V bucket)) (\<lambda>count.
          mseq (mwhen (count = 1) (outside (va_expire V bucket 70)))
          (if limit < count then raise (HttpError 429 ''API key rate limit exceeded'') else ret ()))))"

text \<open>The join of keys, tenants and users on the hash of the raw key.\<close>

definition key_owners :: "'w vault \<Rightarrow> string \<Rightarrow> side_tables \<Rightarrow> (api_key \<times> tenant_row \<times> user_row) list" where
  "key_owners V raw_key d =
     concat (map (\<lambda>k. concat (map (\<lambda>t. map (\<lambda>u. (k, t, u)) (filter (\<lambda>u. ur_id u = ak_user_id k) (users d)))
                                (filter (\<lambda>t. tn_id t = ak_tenant_id k) (tenants d))))
       (filter (\<lambda>k. ak_key_hash k = hash_api_key V raw_key \<and> ak_enabled k) (api_keys d)))"

definition authenticate_api_key :: "'w env \<Rightarrow> 'w vault \<Rightarrow> string \<Rightarrow> ('w, principal) sop" where
  "authenticate_api_key E V raw_key =
     mbind (gets (\<lambda>s. key_owners V raw_key (side s))) (\<lambda>found.
     mbind (scalar_one_or_none found) (\<lambda>row.
     case row of
       None \<Rightarrow> raise (HttpError 401 ''invalid API key'')
     | Some (key, tenant, user) \<Rightarrow>
         mseq (enforce_rate_limit E V (ak_id key))
         (mbind (clock E) (\<lambda>t.
          mseq (save_api_key (key\<lparr>ak_last_used_at := Some t\<rparr>))
          (mseq commit_all
          (ret \<lparr>pr_tenant = tn_id tenant, pr_user = Some (ur_id user, ur_role user)\<rparr>))))))"

section \<open>Who a request is (deps.py)\<close>

record headers =
  hd_tenant_id :: "string option"
  hd_api_key :: "string option"
  hd_authorization :: "string option"

definition extract_bearer :: "string option \<Rightarrow> string option" where
  "extract_bearer authorization =
     (case authorization of
        None \<Rightarrow> None
      | Some a \<Rightarrow>
          let scheme = before_char CHR '' '' a; token = drop (Suc (length scheme)) a in
          if a = [] \<or> str_lower scheme \<noteq> ''bearer'' \<or> token = [] then None else Some token)"

definition request_key :: "headers \<Rightarrow> string option" where
  "request_key h =
     (case hd_api_key h of Some (c # cs) \<Rightarrow> Some (c # cs) | _ \<Rightarrow> extract_bearer (hd_authorization h))"

definition get_tenant :: "uuid \<Rightarrow> side_tables \<Rightarrow> tenant_row option" where
  "get_tenant i d = find (\<lambda>t. tn_id t = i) (tenants d)"

definition get_tenant_id :: "string \<Rightarrow> ('w, uuid) sop" where
  "get_tenant_id x_tenant_id =
     (case uuid_of_text x_tenant_id of
        None \<Rightarrow> raise (HttpError 400 ''X-Tenant-Id header must be a valid UUID'')
      | Some i \<Rightarrow> ret i)"

text \<open>The tenant's first user, by whom a request without a key acts.\<close>

definition first_user :: "uuid \<Rightarrow> side_tables \<Rightarrow> user_row option" where
  "first_user tenant d =
     (case sort_key ur_created_at (filter (\<lambda>u. ur_tenant_id u = tenant) (users d)) of
        [] \<Rightarrow> None | u # us \<Rightarrow> Some u)"

definition require_principal :: "'w env \<Rightarrow> 'w vault \<Rightarrow> headers \<Rightarrow> ('w, principal) sop" where
  "require_principal E V h =
     (case request_key h of
        Some raw_key \<Rightarrow> authenticate_api_key E V raw_key
      | None \<Rightarrow>
          if \<not> cfg_legacy_auth_enabled (env_settings E) then raise (HttpError 401 ''missing API key'')
          else case hd_tenant_id h of
            None \<Rightarrow> raise (HttpError 401 ''missing API key'')
          | Some text \<Rightarrow>
              (case uuid_of_text text of
                 None \<Rightarrow> raise (HttpError 400 ''X-Tenant-Id header must be a valid UUID'')
               | Some i \<Rightarrow>
                   mbind (gets side) (\<lambda>d.
                     if tenant_has_api_keys i d then raise (HttpError 401 ''missing API key'')
                     else case get_tenant i d of
                       None \<Rightarrow> raise (HttpError 404 ''tenant not found'')
                     | Some tenant \<Rightarrow>
                         ret \<lparr>pr_tenant = tn_id tenant,
                              pr_user = map_option (\<lambda>u. (ur_id u, ur_role u)) (first_user (tn_id tenant) d)\<rparr>)))"

section \<open>The routes of the keys (api_keys.py)\<close>

definition get_user :: "uuid \<Rightarrow> side_tables \<Rightarrow> user_row option" where
  "get_user i d = find (\<lambda>u. ur_id u = i) (users d)"

definition create_key ::
  "'w env \<Rightarrow> 'w vault \<Rightarrow> principal \<Rightarrow> uuid \<Rightarrow> string \<Rightarrow> ('w, api_key \<times> string) sop" where
  "create_key E V p user_id name =
     mseq (on_core (require_admin p))
     (mbind (gets (\<lambda>s. get_user user_id (side s))) (\<lambda>found.
      if (case found of None \<Rightarrow> True | Some u \<Rightarrow> ur_tenant_id u \<noteq> pr_tenant p)
      then raise (HttpError 404 ''user not found'')
      else mbind (create_api_key E V (pr_tenant p) user_id name None) (\<lambda>(key, raw).
        mseq commit_all (ret (key, raw)))))"

definition list_keys :: "principal \<Rightarrow> ('w, api_key list) sop" where
  "list_keys p =
     mseq (on_core (require_admin p))
     (gets (\<lambda>s. sort_key ak_created_at (filter (\<lambda>k. ak_tenant_id k = pr_tenant p) (api_keys (side s)))))"

definition disable_key :: "principal \<Rightarrow> uuid \<Rightarrow> ('w, api_key) sop" where
  "disable_key p key_id =
     mseq (on_core (require_admin p))
     (mbind (gets (\<lambda>s. filter (\<lambda>k. ak_id k = key_id \<and> ak_tenant_id k = pr_tenant p) (api_keys (side s)))) (\<lambda>found.
      mbind (scalar_one_or_none found) (\<lambda>key.
      case key of
        None \<Rightarrow> raise (HttpError 404 ''api key not found'')
      | Some k \<Rightarrow>
          mseq (save_api_key (k\<lparr>ak_enabled := False\<rparr>))
          (mseq commit_all (ret (k\<lparr>ak_enabled := False\<rparr>))))))"

end
