(* ===== verification/Slack.thy ===== *)
theory Slack
  imports Accounts
begin

text \<open>
  harness/slack: an event that Slack delivers starts a run or continues one (service.py), its
  signature (signing.py), the answer posted back (service.py, client.py), and the two route files
  slack.py and slack_settings.py. The HMAC, the encryption and Slack's endpoint are parameters. A
  payload is what \<open>orjson.loads\<close> gave; a field of another type than the code expects goes where
  Python sends it.
\<close>

section \<open>Texts\<close>

text \<open>A match of \<open><@[A-Z0-9]+>\s*\<close> at the start: what follows it.\<close>

definition upper_or_digit :: "char \<Rightarrow> bool" where
  "upper_or_digit c \<longleftrightarrow> is_digit c \<or> 65 \<le> (of_char c :: nat) \<and> (of_char c :: nat) \<le> 90"

definition mention_end :: "string \<Rightarrow> string option" where
  "mention_end s =
     (let name = takeWhile upper_or_digit (drop 2 s); rest = drop (length name + 2) s in
      if str_startswith s ''<@'' \<and> name \<noteq> [] \<and> rest \<noteq> [] \<and> hd rest = CHR ''>''
      then Some (dropWhile is_space (tl rest)) else None)"

lemma mention_end_shorter: "mention_end s = Some r \<Longrightarrow> length r < length s"
  using length_dropWhile_le [of is_space "tl (drop (length (takeWhile upper_or_digit (drop 2 s)) + 2) s)"]
  by (cases s) (auto simp: mention_end_def Let_def split: if_splits)

function without_mentions :: "string \<Rightarrow> string" where
  "without_mentions [] = []"
| "without_mentions (c # cs) =
     (case mention_end (c # cs) of Some rest \<Rightarrow> without_mentions rest | None \<Rightarrow> c # without_mentions cs)"
  by pat_completeness auto
termination
  by (relation "measure length") (auto dest: mention_end_shorter)

definition clean_slack_text :: "string \<Rightarrow> string" where
  "clean_slack_text text = str_strip (without_mentions text)"

section \<open>Signatures (signing.py)\<close>

text \<open>\<open>str.encode()\<close> of a header, whose characters are below 256.\<close>

definition utf8 :: "string \<Rightarrow> string" where
  "utf8 s = concat (map (\<lambda>c. let n = of_char c :: nat in
     if n < 128 then [c] else [char_of (192 + n div 64), char_of (128 + n mod 64)]) s)"

definition valid_signature :: "'w vault \<Rightarrow> string \<Rightarrow> int \<Rightarrow> string \<Rightarrow> string \<Rightarrow> string \<Rightarrow> int \<Rightarrow> exn + bool" where
  "valid_signature V signing_secret request_ts timestamp signature body current =
     (if 300 < \<bar>current - request_ts\<bar> then Inr False
      else if list_ex (\<lambda>c. 128 \<le> (of_char c :: nat)) signature
      then Inl (PyError ''TypeError'' ''comparing strings with non-ASCII characters is not supported'')
      else Inr (''v0='' @ va_hmac V signing_secret (''v0:'' @ utf8 timestamp @ '':'' @ body) = signature))"

definition is_valid_slack_signature ::
  "'w env \<Rightarrow> 'w vault \<Rightarrow> string \<Rightarrow> string option \<Rightarrow> string option \<Rightarrow> string \<Rightarrow> ('w, bool) sop" where
  "is_valid_slack_signature E V signing_secret timestamp signature body =
     (case (timestamp, signature) of
        (Some ts, Some sg) \<Rightarrow>
          if signing_secret = [] \<or> ts = [] \<or> sg = [] then ret False
          else (case int_of_text 10 ts of
                  None \<Rightarrow> ret False
                | Some request_ts \<Rightarrow>
                    mbind (clock E) (\<lambda>t.
                      case valid_signature V signing_secret request_ts ts sg body (t div seconds 1) of
                        Inl e \<Rightarrow> raise e | Inr b \<Rightarrow> ret b))
      | _ \<Rightarrow> ret False)"

text \<open>The secret of each tenant is tried in turn; the one that validates identifies the tenant.\<close>

fun try_secrets ::
  "'w env \<Rightarrow> 'w vault \<Rightarrow> string option \<Rightarrow> string option \<Rightarrow> string \<Rightarrow> tenant_slack_setting list \<Rightarrow>
   ('w, uuid option) sop" where
  "try_secrets E V timestamp signature body [] = ret None"
| "try_secrets E V timestamp signature body (x # xs) =
     (case va_decrypt V (ts_signing_secret_encrypted x) of
        Inl e \<Rightarrow> raise e
      | Inr secret \<Rightarrow>
          mbind (is_valid_slack_signature E V secret timestamp signature body) (\<lambda>ok.
            if ok then ret (Some (ts_tenant_id x)) else try_secrets E V timestamp signature body xs))"

definition verify_slack_signature_and_identify_tenant ::
  "'w env \<Rightarrow> 'w vault \<Rightarrow> string option \<Rightarrow> string option \<Rightarrow> string \<Rightarrow> ('w, bool \<times> tenant_row option) sop" where
  "verify_slack_signature_and_identify_tenant E V timestamp signature body =
     mbind (gets side) (\<lambda>d.
     mbind (try_secrets E V timestamp signature body (slack_settings d)) (\<lambda>found.
     case found of
       Some i \<Rightarrow> ret (True, get_tenant i d)
     | None \<Rightarrow>
         mbind (is_valid_slack_signature E V (cfg_slack_signing_secret (env_settings E)) timestamp signature body)
           (\<lambda>ok. ret (ok, None))))"

section \<open>Tenants, users, events and threads (service.py)\<close>

definition resolution_error :: "string \<Rightarrow> exn" where
  "resolution_error m = PyError ''SlackTenantResolutionError'' m"

definition resolve_slack_tenant :: "'w env \<Rightarrow> ('w, tenant_row) sop" where
  "resolve_slack_tenant E =
     (case cfg_slack_tenant_id (env_settings E) of
        Some (c # cs) \<Rightarrow>
          (case uuid_of_text (c # cs) of
             None \<Rightarrow> raise (PyError ''ValueError'' ''badly formed hexadecimal UUID string'')
           | Some i \<Rightarrow>
               mbind (gets side) (\<lambda>d.
                 case get_tenant i d of
                   None \<Rightarrow> raise (resolution_error ''configured Slack tenant not found'')
                 | Some tenant \<Rightarrow> ret tenant))
      | _ \<Rightarrow>
          mbind (gets (\<lambda>s. sort_key tn_created_at (tenants (side s)))) (\<lambda>found.
            case found of
              [tenant] \<Rightarrow> ret tenant
            | _ \<Rightarrow> raise (resolution_error ''set HARNESS_SLACK_TENANT_ID when multiple tenants exist'')))"

definition insert_user :: "user_row \<Rightarrow> ('w, unit) sop" where
  "insert_user = insert_row ''uq_users_tenant_slack_id'' users users_update
     (\<lambda>u x. ur_id x = ur_id u
        \<or> ur_tenant_id x = ur_tenant_id u \<and> ur_slack_user_id x = ur_slack_user_id u \<and> ur_slack_user_id u \<noteq> None)"

text \<open>A value compared with a text column: only a text can be.\<close>

definition query_text :: "json \<Rightarrow> ('w, string) sop" where
  "query_text v =
     (case v of JStr t \<Rightarrow> ret t | _ \<Rightarrow> raise (PyError ''DBAPIError'' ''invalid input for query argument''))"

definition get_or_create_slack_user :: "'w env \<Rightarrow> uuid \<Rightarrow> json \<Rightarrow> ('w, user_row) sop" where
  "get_or_create_slack_user E tenant slack_user_id =
     mbind (query_text slack_user_id) (\<lambda>name.
     mbind (gets (\<lambda>s. filter (\<lambda>u. ur_tenant_id u = tenant \<and> ur_slack_user_id u = Some name) (users (side s)))) (\<lambda>found.
     mbind (scalar_one_or_none found) (\<lambda>user.
     case user of
       Some u \<Rightarrow> ret u
     | None \<Rightarrow>
         mbind (column_text 64 slack_user_id) (\<lambda>_.
         mbind (new_id E) (\<lambda>i. mbind (clock E) (\<lambda>t.
           let u = \<lparr>ur_id = i, ur_tenant_id = tenant, ur_display_name = ''slack:'' @ name,
                    ur_role = UR_member, ur_slack_user_id = Some name, ur_created_at = t\<rparr>
           in mseq (insert_user u) (ret u)))))))"

definition insert_event :: "slack_event \<Rightarrow> ('w, unit) sop" where
  "insert_event = insert_row ''slack_events_event_id_key'' slack_events slack_events_update
     (\<lambda>e x. se_id x = se_id e \<or> se_event_id x = se_event_id e)"

text \<open>A second insert of one event id breaks the constraint: the session is rolled back.\<close>

definition record_slack_event ::
  "'w env \<Rightarrow> json \<Rightarrow> dict \<Rightarrow> uuid option \<Rightarrow> ('w, bool) sop" where
  "record_slack_event E event_id payload tenant =
     mbind (column_text 255 event_id) (\<lambda>name.
     mbind (new_id E) (\<lambda>i. mbind (clock E) (\<lambda>t.
       let e = \<lparr>se_id = i, se_event_id = name, se_tenant_id = tenant, se_run_id = None,
                se_payload = payload, se_created_at = t\<rparr>
       in mcatch (mseq (insert_event e) (ret True))
            (\<lambda>x. case x of IntegrityError m \<Rightarrow> mseq rollback_all (ret False) | _ \<Rightarrow> raise x))))"

definition attach_run_to_slack_event :: "json \<Rightarrow> uuid \<Rightarrow> ('w, unit) sop" where
  "attach_run_to_slack_event event_id run =
     mbind (query_text event_id) (\<lambda>name.
       edit (slack_events_update (map (\<lambda>e. if se_event_id e = name then e\<lparr>se_run_id := Some run\<rparr> else e))))"

definition get_thread_mapping :: "json \<Rightarrow> json \<Rightarrow> ('w, slack_thread_mapping option) sop" where
  "get_thread_mapping channel_id thread_ts =
     mbind (query_text channel_id) (\<lambda>ch. mbind (query_text thread_ts) (\<lambda>ts.
     mbind (gets (\<lambda>s. filter (\<lambda>m. sm_channel_id m = ch \<and> sm_thread_ts m = ts) (thread_mappings (side s))))
       scalar_one_or_none))"

definition insert_mapping :: "slack_thread_mapping \<Rightarrow> ('w, unit) sop" where
  "insert_mapping = insert_row ''uq_slack_thread_mappings'' thread_mappings thread_mappings_update
     (\<lambda>m x. sm_id x = sm_id m \<or> sm_run_id x = sm_run_id m
        \<or> sm_channel_id x = sm_channel_id m \<and> sm_thread_ts x = sm_thread_ts m)"

section \<open>An event (service.py)\<close>

text \<open>\<open>d.get(key)\<close>, whose default is \<open>None\<close>.\<close>

definition field :: "dict \<Rightarrow> string \<Rightarrow> json" where
  "field d key = (case dict_get d key of None \<Rightarrow> JNull | Some v \<Rightarrow> v)"

definition json_or :: "json \<Rightarrow> json \<Rightarrow> json" where
  "json_or v d = (if truthy v then v else d)"

text \<open>An event that starts nothing is recorded all the same.\<close>

definition ignore_event ::
  "'w env \<Rightarrow> json \<Rightarrow> dict \<Rightarrow> uuid option \<Rightarrow> json \<Rightarrow> ('w, dict) sop" where
  "ignore_event E event_id payload tenant reason =
     mbind (record_slack_event E event_id payload tenant) (\<lambda>created.
     mseq commit_all
     (ret [(''ok'', JBool True), (''ignored'', reason), (''deduped'', JBool (\<not> created))]))"

text \<open>A mention in a thread without a run: the run, its first message and the thread's mapping.\<close>

definition start_thread ::
  "'w env \<Rightarrow> tenant_row \<Rightarrow> user_row \<Rightarrow> string \<Rightarrow> json \<Rightarrow> json \<Rightarrow> json \<Rightarrow> ('w, agent_run) sop" where
  "start_thread E tenant user text channel_id thread_ts event_ts =
     mseq (on_core (enforce_tenant_run_quota E (tn_id tenant)))
     (mbind (on_core (create_run E (tn_id tenant) text CH_slack
               (Some [(''channel_id'', channel_id), (''thread_ts'', thread_ts), (''event_ts'', event_ts)])
               (Some (ur_id user)) None None None None)) (\<lambda>run.
      mbind (on_core (add_message E (run_id run) MR_user text)) (\<lambda>_.
      mbind (column_text 64 channel_id) (\<lambda>ch. mbind (column_text 64 thread_ts) (\<lambda>ts.
      mbind (new_id E) (\<lambda>i. mbind (clock E) (\<lambda>t.
      mseq (insert_mapping \<lparr>sm_id = i, sm_tenant_id = tn_id tenant, sm_run_id = run_id run,
                            sm_channel_id = ch, sm_thread_ts = ts, sm_created_at = t\<rparr>)
      (ret run))))))))"

text \<open>
  The run an event belongs to, and whether it goes on: \<open>Inl\<close> is an answer that stops here, all of
  whose branches commit first.
\<close>

definition run_for_event ::
  "'w env \<Rightarrow> json \<Rightarrow> json \<Rightarrow> tenant_row \<Rightarrow> user_row \<Rightarrow> string \<Rightarrow> json \<Rightarrow> json \<Rightarrow> json \<Rightarrow>
   ('w, dict + agent_run) sop" where
  "run_for_event E event_id event_type tenant user text channel_id thread_ts event_ts =
     mbind (get_thread_mapping channel_id thread_ts) (\<lambda>mapping.
     case mapping of
       None \<Rightarrow>
         if event_type \<noteq> JStr ''app_mention''
         then mseq commit_all (ret (Inl [(''ok'', JBool True), (''ignored'', JStr ''unmapped_thread'')]))
         else mbind (start_thread E tenant user text channel_id thread_ts event_ts) (\<lambda>run. ret (Inr run))
     | Some m \<Rightarrow>
         mbind (on_core (repo_get (sm_run_id m))) (\<lambda>loaded.
         case loaded of
           None \<Rightarrow> mseq commit_all (ret (Inl [(''ok'', JBool True), (''ignored'', JStr ''missing_run'')]))
         | Some run \<Rightarrow>
             if run_status run \<in> TERMINAL_RUN_STATUSES
             then mseq (attach_run_to_slack_event event_id (run_id run))
                  (mseq commit_all
                  (ret (Inl [(''ok'', JBool True), (''ignored'', JStr (''run_'' @ run_status_str (run_status run)))])))
             else
               mbind (on_core (add_message E (run_id run) MR_user text)) (\<lambda>_.
               mseq (mwhen (run_status run \<in> WAITING_RUN_STATUSES)
                       (on_core (checkpoint E (Some RS_running) no_updates)))
               (ret (Inr run)))))"

definition handle_user_event ::
  "'w env \<Rightarrow> 'w broker \<Rightarrow> json \<Rightarrow> dict \<Rightarrow> json \<Rightarrow> tenant_row \<Rightarrow> json \<Rightarrow> string \<Rightarrow> json \<Rightarrow> json \<Rightarrow> json \<Rightarrow>
   ('w, dict) sop" where
  "handle_user_event E Q event_id payload event_type tenant slack_user_id text channel_id thread_ts event_ts =
     mbind (record_slack_event E event_id payload (Some (tn_id tenant))) (\<lambda>claimed.
     if \<not> claimed then mseq commit_all (ret [(''ok'', JBool True), (''deduped'', JBool True)])
     else
       mbind (get_or_create_slack_user E (tn_id tenant) slack_user_id) (\<lambda>user.
       mbind (run_for_event E event_id event_type tenant user text channel_id thread_ts event_ts) (\<lambda>r.
       case r of
         Inl answer \<Rightarrow> ret answer
       | Inr run \<Rightarrow>
           mseq (attach_run_to_slack_event event_id (run_id run))
           (mseq commit_all
           (mseq (on_core (publish Q (run_id run) (tn_id tenant)))
           (ret [(''ok'', JBool True), (''run_id'', JStr (uuid_str (run_id run))), (''thread_ts'', thread_ts)]))))))"

text \<open>The event's text, which \<open>re.sub\<close> wants to be a string.\<close>

definition event_text :: "dict \<Rightarrow> ('w, string) sop" where
  "event_text event =
     (case dict_get event ''text'' of
        None \<Rightarrow> ret []
      | Some (JStr t) \<Rightarrow> ret (clean_slack_text t)
      | Some _ \<Rightarrow> raise (PyError ''TypeError'' ''expected string or bytes-like object''))"

definition handle_slack_event_callback ::
  "'w env \<Rightarrow> 'w broker \<Rightarrow> dict \<Rightarrow> tenant_row option \<Rightarrow> ('w, dict) sop" where
  "handle_slack_event_callback E Q payload known_tenant =
     (let event_id = field payload ''event_id'' in
      if \<not> truthy event_id then ret [(''ok'', JBool False), (''ignored'', JStr ''missing event_id'')]
      else case (case dict_get payload ''event'' of None \<Rightarrow> JObj [] | Some v \<Rightarrow> v) of
        JObj event \<Rightarrow>
          let event_type = field event ''type'' in
          if truthy (field event ''bot_id'') \<or> field event ''subtype'' = JStr ''bot_message''
          then ignore_event E event_id payload None (JStr ''bot_message'')
          else if (case event_type of JList _ \<Rightarrow> True | JObj _ \<Rightarrow> True | _ \<Rightarrow> False)
          then raise (PyError ''TypeError'' ''unhashable type'')
          else if event_type \<notin> {JStr ''app_mention'', JStr ''message''}
          then ignore_event E event_id payload None (json_or event_type (JStr ''unknown''))
          else
            mbind (case known_tenant of Some t \<Rightarrow> ret t | None \<Rightarrow> resolve_slack_tenant E) (\<lambda>tenant.
            let channel_id = field event ''channel''; slack_user_id = field event ''user'';
                event_ts = field event ''ts''; thread_ts = json_or (field event ''thread_ts'') event_ts
            in mbind (event_text event) (\<lambda>text.
               if \<not> truthy channel_id \<or> \<not> truthy thread_ts \<or> \<not> truthy event_ts \<or> text = []
                  \<or> \<not> truthy slack_user_id
               then ignore_event E event_id payload (Some (tn_id tenant)) (JStr ''missing channel/thread/text/user'')
               else handle_user_event E Q event_id payload event_type tenant slack_user_id text
                      channel_id thread_ts event_ts))
      | _ \<Rightarrow> raise (PyError ''AttributeError'' ''object has no attribute get''))"

section \<open>The route (routes/slack.py)\<close>

definition slack_events_route ::
  "'w env \<Rightarrow> 'w vault \<Rightarrow> 'w broker \<Rightarrow> (string \<Rightarrow> exn + json) \<Rightarrow> string option \<Rightarrow> string option \<Rightarrow> string \<Rightarrow>
   ('w, dict) sop" where
  "slack_events_route E V Q loads timestamp signature body =
     mbind (verify_slack_signature_and_identify_tenant E V timestamp signature body) (\<lambda>(valid, tenant).
     if \<not> valid then raise (HttpError 401 ''invalid Slack signature'')
     else case loads body of
       Inl e \<Rightarrow> raise e
     | Inr (JObj payload) \<Rightarrow>
         if field payload ''type'' = JStr ''url_verification''
         then ret [(''challenge'', field payload ''challenge'')]
         else if field payload ''type'' \<noteq> JStr ''event_callback''
         then ret [(''ok'', JBool True),
                   (''ignored'', case dict_get payload ''type'' of None \<Rightarrow> JStr ''unknown'' | Some v \<Rightarrow> v)]
         else mcatch (handle_slack_event_callback E Q payload tenant)
                (\<lambda>e. case e of
                       PyError name m \<Rightarrow>
                         if name = ''SlackTenantResolutionError'' then raise (HttpError 400 m) else raise e
                     | _ \<Rightarrow> raise e)
     | Inr _ \<Rightarrow> raise (PyError ''AttributeError'' ''object has no attribute get''))"

section \<open>Answers (service.py, client.py)\<close>

definition format_completed :: "'w env \<Rightarrow> dict option \<Rightarrow> string" where
  "format_completed E final_result =
     (case final_result of
        None \<Rightarrow> ''Done.''
      | Some [] \<Rightarrow> ''Done.''
      | Some d \<Rightarrow>
          (case dict_get d ''result'' of
             Some (JStr t) \<Rightarrow> t
           | Some JNull \<Rightarrow> env_str E (JObj d)
           | Some v \<Rightarrow> env_str E v
           | None \<Rightarrow> env_str E (JObj d)))"

definition latest_assistant_question :: "db \<Rightarrow> uuid \<Rightarrow> string" where
  "latest_assistant_question d i =
     (case sort_key (\<lambda>m. - msg_created_at m) (filter (\<lambda>m. msg_run_id m = i \<and> msg_role m = MR_assistant) (messages d)) of
        [] \<Rightarrow> ''I need more information before I can continue.''
      | m # ms \<Rightarrow> msg_content m)"

definition or_text :: "string option \<Rightarrow> string \<Rightarrow> string" where
  "or_text x standard = (case x of Some (c # cs) \<Rightarrow> c # cs | _ \<Rightarrow> standard)"

fun slack_text_for_status :: "'w env \<Rightarrow> db \<Rightarrow> agent_run \<Rightarrow> run_status \<Rightarrow> string option" where
  "slack_text_for_status E d run RS_completed = Some (format_completed E (run_final_result run))"
| "slack_text_for_status E d run RS_waiting_user_input = Some (latest_assistant_question d (run_id run))"
| "slack_text_for_status E d run RS_waiting_approval = Some ''Approval required before I can continue.''"
| "slack_text_for_status E d run RS_failed = Some (''Run failed: '' @ or_text (run_error run) ''unknown error'')"
| "slack_text_for_status E d run RS_cancelled = Some ''Run cancelled.''"
| "slack_text_for_status E d run RS_timed_out = Some (''Run timed out: '' @ or_text (run_error run) ''time limit reached'')"
| "slack_text_for_status E d run RS_pending = None"
| "slack_text_for_status E d run RS_running = None"

definition slack_text_for_run :: "'w env \<Rightarrow> db \<Rightarrow> agent_run \<Rightarrow> string option" where
  "slack_text_for_run E d run = slack_text_for_status E d run (run_status run)"

text \<open>POST /chat.postMessage with the token and the body, up to the decoded JSON of the response.\<close>

type_synonym 'w slack_api = "string \<Rightarrow> dict \<Rightarrow> 'w \<Rightarrow> (exn + json) \<times> 'w"

definition post_message_to_slack :: "'w env \<Rightarrow> 'w slack_api \<Rightarrow> string \<Rightarrow> string \<Rightarrow> string \<Rightarrow> string \<Rightarrow> ('w, dict) sop" where
  "post_message_to_slack E S bot_token channel thread_ts text =
     (if bot_token = [] then raise (PyError ''SlackClientError'' ''slack bot token is not configured'')
      else mbind (outside (S bot_token [(''channel'', JStr channel), (''thread_ts'', JStr thread_ts), (''text'', JStr text)]))
        (\<lambda>payload. case payload of
           JObj d \<Rightarrow>
             if \<not> truthy (field d ''ok'')
             then raise (PyError ''SlackClientError''
                    (case dict_get d ''error'' of None \<Rightarrow> ''slack api error'' | Some (JStr t) \<Rightarrow> t | Some v \<Rightarrow> env_str E v))
             else ret d
         | _ \<Rightarrow> raise (PyError ''AttributeError'' ''object has no attribute get'')))"

definition get_slack_setting :: "uuid \<Rightarrow> side_tables \<Rightarrow> tenant_slack_setting option" where
  "get_slack_setting tenant d = find (\<lambda>x. ts_tenant_id x = tenant) (slack_settings d)"

definition resolve_slack_bot_token :: "'w env \<Rightarrow> 'w vault \<Rightarrow> uuid \<Rightarrow> ('w, string) sop" where
  "resolve_slack_bot_token E V tenant =
     mbind (gets side) (\<lambda>d.
       case get_slack_setting tenant d of
         Some x \<Rightarrow> (case va_decrypt V (ts_bot_token_encrypted x) of Inl e \<Rightarrow> raise e | Inr t \<Rightarrow> ret t)
       | None \<Rightarrow> ret (cfg_slack_bot_token (env_settings E)))"

definition approval_notice :: "'w env \<Rightarrow> db \<Rightarrow> agent_run \<Rightarrow> string \<Rightarrow> string" where
  "approval_notice E d run text =
     (if run_status run \<noteq> RS_waiting_approval then text
      else case sort_key (\<lambda>a. - ap_requested_at a) (filter (\<lambda>a. ap_run_id a = run_id run) (approvals d)) of
        [] \<Rightarrow> text
      | a # as \<Rightarrow>
          ''Approval required before I can continue.'' @ [CHR 10]
          @ ''Tool: `'' @ ap_tool_name a @ ''` ('' @ risk_tier_str (ap_risk_tier a) @ '')'' @ [CHR 10]
          @ ''Review: '' @ cfg_web_base_url (env_settings E) @ ''/approvals/'' @ uuid_str (ap_id a))"

definition post_run_update_to_slack :: "'w env \<Rightarrow> 'w vault \<Rightarrow> 'w slack_api \<Rightarrow> agent_run \<Rightarrow> ('w, bool) sop" where
  "post_run_update_to_slack E V S run =
     mbind (gets (\<lambda>s. filter (\<lambda>m. sm_run_id m = run_id run) (thread_mappings (side s)))) (\<lambda>found.
     mbind (scalar_one_or_none found) (\<lambda>mapping.
     mbind (gets (\<lambda>s. rows (core s))) (\<lambda>d.
     case (mapping, slack_text_for_run E d run) of
       (Some m, Some text) \<Rightarrow>
         mbind (resolve_slack_bot_token E V (run_tenant_id run)) (\<lambda>token.
         mbind (post_message_to_slack E S token (sm_channel_id m) (sm_thread_ts m) (approval_notice E d run text))
           (\<lambda>_. ret True))
     | _ \<Rightarrow> ret False)))"

section \<open>The credentials of a tenant (routes/slack_settings.py)\<close>

record slack_settings_response =
  sr_has_bot_token :: bool
  sr_has_signing_secret :: bool
  sr_webhook_url :: string
  sr_updated_at :: datetime

definition slack_response :: "'w env \<Rightarrow> tenant_slack_setting \<Rightarrow> slack_settings_response" where
  "slack_response E x = \<lparr>sr_has_bot_token = True, sr_has_signing_secret = True,
     sr_webhook_url = cfg_web_base_url (env_settings E) @ ''/v1/slack/events'', sr_updated_at = ts_updated_at x\<rparr>"

definition get_slack_settings :: "'w env \<Rightarrow> principal \<Rightarrow> ('w, slack_settings_response option) sop" where
  "get_slack_settings E p =
     mseq (on_core (require_admin p))
     (gets (\<lambda>s. map_option (slack_response E) (get_slack_setting (pr_tenant p) (side s))))"

text \<open>An optional text that is given and not empty is encrypted; otherwise the old bytes stay.\<close>

definition encrypt_or_keep :: "'w vault \<Rightarrow> string option \<Rightarrow> string \<Rightarrow> ('w, string) sop" where
  "encrypt_or_keep V x kept =
     (case x of Some (c # cs) \<Rightarrow> draw (va_encrypt V (c # cs)) | _ \<Rightarrow> ret kept)"

definition save_slack_setting :: "tenant_slack_setting \<Rightarrow> ('w, unit) sop" where
  "save_slack_setting x =
     edit (slack_settings_update (map (\<lambda>y. if ts_tenant_id y = ts_tenant_id x then x else y)))"

definition upsert_slack_settings ::
  "'w env \<Rightarrow> 'w vault \<Rightarrow> principal \<Rightarrow> string option \<Rightarrow> string option \<Rightarrow> ('w, slack_settings_response) sop" where
  "upsert_slack_settings E V p bot_token signing_secret =
     mseq (on_core (require_admin p))
     (mbind (gets (\<lambda>s. get_slack_setting (pr_tenant p) (side s))) (\<lambda>found.
      mbind (if found = None \<and> (or_text bot_token [] = [] \<or> or_text signing_secret [] = [])
             then raise (HttpError 400 ''bot_token and signing_secret are required'')
             else mbind (encrypt_or_keep V bot_token (case found of None \<Rightarrow> [] | Some x \<Rightarrow> ts_bot_token_encrypted x)) (\<lambda>bot.
                  mbind (encrypt_or_keep V signing_secret (case found of None \<Rightarrow> [] | Some x \<Rightarrow> ts_signing_secret_encrypted x)) (\<lambda>sec.
                  mbind (clock E) (\<lambda>t.
                  ret \<lparr>ts_tenant_id = pr_tenant p, ts_bot_token_encrypted = bot,
                       ts_signing_secret_encrypted = sec, ts_updated_at = t\<rparr>)))) (\<lambda>x.
      mseq (if found = None then edit (slack_settings_update (\<lambda>xs. xs @ [x])) else save_slack_setting x)
      (mseq commit_all (ret (slack_response E x))))))"

definition delete_slack_settings :: "principal \<Rightarrow> ('w, unit) sop" where
  "delete_slack_settings p =
     mseq (on_core (require_admin p))
     (mbind (gets (\<lambda>s. get_slack_setting (pr_tenant p) (side s))) (\<lambda>found.
        if found = None then ret ()
        else mseq (edit (slack_settings_update (filter (\<lambda>x. ts_tenant_id x \<noteq> pr_tenant p)))) commit_all))"

end
