(* ===== verification/Access.thy ===== *)
theory Access
  imports Accounts
begin

text \<open>
  What authentication promises: a request acts for a tenant only on an enabled key of it or, while
  the tenant has none, on its identifier; a disabled key opens nothing; identifiers survive being
  printed and parsed.
\<close>

section \<open>Steps of the larger session\<close>

lemma run_on_core: "on_core m s = (r, s') \<longleftrightarrow> (\<exists>c. m (core s) = (r, c) \<and> s' = s\<lparr>core := c\<rparr>)"
  by (auto simp: on_core_def split: prod.splits)

lemma outside_state: "outside f s = (r, s') \<Longrightarrow> \<exists>w. s' = s\<lparr>core := (core s)\<lparr>world := w\<rparr>\<rparr>"
  by (auto simp: outside_def run_on_core split: prod.splits)

lemma clock_state:
  assumes "clock E s = (r, s')"
  obtains t w where "r = Inr t" and "s' = s\<lparr>core := (core s)\<lparr>world := w\<rparr>\<rparr>"
  using assms by (auto simp: clock_def run_on_core now_def split: prod.splits)

lemma new_id_state:
  assumes "new_id E s = (r, s')"
  obtains i w where "r = Inr i" and "s' = s\<lparr>core := (core s)\<lparr>world := w\<rparr>\<rparr>"
  using assms by (auto simp: new_id_def run_on_core uuid4_def split: prod.splits)

lemma run_commit_all [simp]:
  "commit_all s = (Inr (), s\<lparr>core := (core s)\<lparr>durable := rows (core s)\<rparr>, side_durable := side s\<rparr>)"
  by (simp add: commit_all_def)

lemma run_rollback_all [simp]: "rollback_all s = (Inr (), next_session s)"
  by (simp add: rollback_all_def next_session_def)

lemma run_edit [simp]: "edit f s = (Inr (), s\<lparr>side := f (side s)\<rparr>)"
  by (simp add: edit_def)

lemma scalar_Some [simp]: "scalar_one_or_none xs s = (Inr (Some x), s') \<longleftrightarrow> xs = [x] \<and> s' = s"
  by (cases xs rule: scalar_one_or_none.cases) auto

lemma scalar_None [simp]: "scalar_one_or_none xs s = (Inr None, s') \<longleftrightarrow> xs = [] \<and> s' = s"
  by (cases xs rule: scalar_one_or_none.cases) auto

lemma scalar_single [simp]: "length xs = 1 \<Longrightarrow> scalar_one_or_none xs s = (Inr (Some (hd xs)), s)"
  by (cases xs rule: scalar_one_or_none.cases) auto

lemma admin_run [simp]: "on_core (require_admin p) s = (Inr (), s') \<longleftrightarrow> is_admin p \<and> s' = s"
  by (auto simp: run_on_core require_admin_def)

text \<open>A relation of the states that the outside, the clock and new identifiers keep.\<close>

definition same_rows :: "'w site \<Rightarrow> 'w site \<Rightarrow> bool" where
  "same_rows s s' \<longleftrightarrow> rows (core s') = rows (core s) \<and> durable (core s') = durable (core s)
     \<and> side s' = side s \<and> side_durable s' = side_durable s"

interpretation same_rows: state_preorder "same_rows :: 'w site \<Rightarrow> 'w site \<Rightarrow> bool"
  by unfold_locales (auto simp: same_rows_def)

lemma same_rows_outside: "resp same_rows (outside f)"
  by (rule respI) (auto simp: outside_def on_core_def same_rows_def split: prod.splits)

lemma same_rows_clock: "resp same_rows (clock E)"
  by (rule respI) (auto simp: clock_def on_core_def now_def same_rows_def split: prod.splits)

lemma same_rows_new_id: "resp same_rows (new_id E)"
  by (rule respI) (auto simp: new_id_def on_core_def uuid4_def same_rows_def split: prod.splits)

lemma same_rows_rate_limit: "resp same_rows (enforce_rate_limit E V key)"
  unfolding enforce_rate_limit_def Let_def
  by (intro same_rows.resp_intros same_rows.resp_if same_rows_clock same_rows_outside)

section \<open>Identifiers\<close>

lemma below_16: "d < 16 \<longleftrightarrow> d \<in> {0, 1, 2, 3, 4, 5, 6, 7, 8, 9, 10, 11, 12, 13, 14, 15::nat}"
  by (simp only: insert_iff empty_iff) presburger

lemma hex_digit_value: "d < 16 \<Longrightarrow> digit_value (hex_char d) = Some (int d)"
  unfolding below_16 by (elim insertE emptyE; hypsubst; code_simp)

lemma hex_char_plain:
  "d < 16 \<Longrightarrow> hex_char d \<noteq> CHR ''_'' \<and> hex_char d \<noteq> CHR ''-'' \<and> hex_char d \<noteq> CHR ''+'' \<and> hex_char d \<noteq> CHR '':''
     \<and> hex_char d \<noteq> CHR ''x'' \<and> hex_char d \<noteq> CHR ''X'' \<and> hex_char d \<noteq> CHR 0x7B \<and> hex_char d \<noteq> CHR 0x7D
     \<and> \<not> int_space (hex_char d)"
  unfolding below_16 by (elim insertE emptyE; hypsubst; code_simp)

lemma digits_value_hex:
  "\<forall>d \<in> set ds. d < 16 \<Longrightarrow>
   digits_value 16 acc True (map hex_char ds) = Some (foldl (\<lambda>a d. 16 * a + int d) acc ds)"
  by (induction ds arbitrary: acc) (auto simp: hex_digit_value hex_char_plain)

lemma hex_digits_foldl:
  "foldl (\<lambda>a d. 16 * a + int d) acc (hex_digits k n) = 16 ^ k * acc + int (n mod 16 ^ k)"
proof (induction k arbitrary: n acc)
  case (Suc k)
  have "n mod (16 * 16 ^ k) = 16 * (n div 16 mod 16 ^ k) + n mod 16"
    by (simp add: mod_mult2_eq)
  with Suc [of acc "n div 16"] show ?case by (simp add: algebra_simps)
qed simp

lemma str_remove_none: "part \<noteq> [] \<Longrightarrow> last part \<notin> set s \<Longrightarrow> str_remove part s = s"
proof (induction part s rule: str_remove.induct)
  case (2 part c cs)
  have "\<not> str_startswith (c # cs) part"
    using 2(3,4) by (metis str_startswith_def last_in_set in_set_takeD)
  with 2 show ?case by simp
qed simp

lemma str_remove_char: "str_remove [x] s = filter (\<lambda>c. c \<noteq> x) s"
  by (induction "[x]" s rule: str_remove.induct) (auto simp: str_startswith_def)

lemma strip_by_none: "\<forall>c \<in> set s. \<not> p c \<Longrightarrow> strip_by p s = s"
  by (simp add: strip_by_def dropWhile_eq_self_iff)
    (metis dropWhile_eq_self_iff hd_in_set rev_rev_ident set_rev)

text \<open>What \<open>str\<close> printed, \<open>uuid.UUID\<close> reads back.\<close>

lemma uuid_of_text_uuid_str: "uuid_of_text (uuid_str u) = Some u"
proof -
  define h where "h = map hex_char (hex_digits 32 (unat u))"
  have len: "length h = 32" by (simp add: h_def)
  have small: "unat u < 2 ^ 128" using unsigned_less [of u, where 'a = nat] by simp
  have plain: "c \<noteq> CHR ''_'' \<and> c \<noteq> CHR ''-'' \<and> c \<noteq> CHR ''+'' \<and> c \<noteq> CHR '':'' \<and> c \<noteq> CHR ''x'' \<and> c \<noteq> CHR ''X''
      \<and> c \<noteq> CHR 0x7B \<and> c \<noteq> CHR 0x7D \<and> \<not> int_space c" if "c \<in> set h" for c
    using that hex_char_plain by (auto simp: h_def dest: hex_digits_bound)
  let ?t = "uuid_str u"
  have t: "?t = take 8 h @ ''-'' @ take 4 (drop 8 h) @ ''-'' @ take 4 (drop 12 h) @ ''-''
      @ take 4 (drop 16 h) @ ''-'' @ drop 20 h"
    by (simp add: uuid_str_def h_def Let_def)
  have sub: "set ?t \<subseteq> insert (CHR ''-'') (set h)"
    by (auto simp: t dest: in_set_takeD in_set_dropD)
  have 1: "str_remove ''uuid:'' (str_remove ''urn:'' ?t) = ?t"
    using sub plain by (subst str_remove_none; (subst str_remove_none)?) auto
  have 2: "strip_by (\<lambda>c. c \<in> {CHR 0x7B, CHR 0x7D}) ?t = ?t"
    using sub plain by (intro strip_by_none) auto
  have "filter (\<lambda>c. c \<noteq> CHR ''-'') (take a (drop b h)) = take a (drop b h)" for a b
    using plain by (auto simp: filter_id_conv dest!: in_set_takeD in_set_dropD)
  from this [of 8 0] this [of 4] this [of 12 20] have "str_remove ''-'' ?t = take 8 h @ take 4 (drop 8 h)
      @ take 4 (drop 12 h) @ take 4 (drop 16 h) @ drop 20 h"
    by (simp add: str_remove_char t len)
  also have "\<dots> = h"
    using append_take_drop_id [of 8 h] append_take_drop_id [of 4 "drop 8 h"]
      append_take_drop_id [of 4 "drop 12 h"] append_take_drop_id [of 4 "drop 16 h"] by simp
  finally have 3: "str_remove ''-'' ?t = h" .
  have "h \<noteq> []" using len by auto
  have "strip_by int_space h = h" using plain by (intro strip_by_none) auto
  moreover have "hd h \<in> set h" using \<open>h \<noteq> []\<close> by simp
  moreover have "take 2 h \<notin> {''0x'', ''0X''}"
  proof
    assume "take 2 h \<in> {''0x'', ''0X''}"
    then have "h ! 1 \<in> {CHR ''x'', CHR ''X''}" using len by (cases h rule: list.exhaust; cases "tl h") auto
    moreover have "h ! 1 \<in> set h" using len by simp
    ultimately show False using plain by blast
  qed
  moreover have "digits_value 16 0 False h = digits_value 16 0 True h"
    using \<open>h \<noteq> []\<close> plain [of "hd h"] by (cases h) auto
  moreover have "foldl (\<lambda>a d. 16 * a + int d) 0 (hex_digits 32 (unat u)) = int (unat u)"
  proof -
    have "unat u mod 16 ^ 32 = unat u" using small by simp
    then show ?thesis by (simp only: hex_digits_foldl mult_zero_right add_0)
  qed
  then have "digits_value 16 0 True h = Some (int (unat u))"
    using digits_value_hex [of "hex_digits 32 (unat u)" 0] by (auto simp: h_def dest: hex_digits_bound)
  ultimately have 4: "int_of_text 16 h = Some (int (unat u))"
    using plain by (simp add: int_of_text_def Let_def)
  have "uint u < 2 ^ 128" using unsigned_less [of u, where 'a = int] by simp
  then show ?thesis
    unfolding uuid_of_text_def 1 2 3 Let_def 4 using len by simp
qed


section \<open>Keys\<close>

lemma key_owners_member:
  assumes "key_owners V raw d = [(k, t, u)]"
  shows "k \<in> set (api_keys d) \<and> ak_enabled k \<and> ak_key_hash k = hash_api_key V raw \<and> t \<in> set (tenants d)
    \<and> tn_id t = ak_tenant_id k \<and> u \<in> set (users d) \<and> ur_id u = ak_user_id k"
proof -
  have "(k, t, u) \<in> set (key_owners V raw d)" by (simp add: assms)
  then show ?thesis by (auto simp: key_owners_def)
qed

lemma key_owners_none:
  "\<forall>k \<in> set (api_keys d). ak_enabled k \<longrightarrow> ak_key_hash k \<noteq> hash_api_key V raw \<Longrightarrow> key_owners V raw d = []"
  by (auto simp: key_owners_def filter_empty_conv)

lemma authenticate_cases:
  assumes "authenticate_api_key E V raw s = (Inr p, s')"
  obtains k t u where "key_owners V raw (side s) = [(k, t, u)]"
    and "p = \<lparr>pr_tenant = tn_id t, pr_user = Some (ur_id u, ur_role u)\<rparr>"
  using assms
  by (auto simp: authenticate_api_key_def save_api_key_def elim!: mbind_Inr_E split: option.splits)

text \<open>
  C38. Nobody acts without a credential: a request that is given a principal has an enabled API
  key, whose hash is that of the key it sent, and acts as that key's user and tenant; or it has
  none, legacy access is on, its header names the tenant it acts for, and this tenant has not
  created a key yet.
\<close>

theorem principal_has_credentials:
  assumes "require_principal E V h s = (Inr p, s')"
  shows "(\<exists>raw k t u. request_key h = Some raw \<and> k \<in> set (api_keys (side s)) \<and> ak_enabled k
            \<and> ak_key_hash k = hash_api_key V raw \<and> pr_tenant p = ak_tenant_id k
            \<and> t \<in> set (tenants (side s)) \<and> tn_id t = pr_tenant p
            \<and> u \<in> set (users (side s)) \<and> pr_user p = Some (ak_user_id k, ur_role u) \<and> ur_id u = ak_user_id k)
    \<or> (request_key h = None \<and> cfg_legacy_auth_enabled (env_settings E) \<and> s' = s
            \<and> (\<exists>text. hd_tenant_id h = Some text \<and> uuid_of_text text = Some (pr_tenant p))
            \<and> (\<forall>k \<in> set (api_keys (side s)). ak_tenant_id k \<noteq> pr_tenant p)
            \<and> (\<exists>t \<in> set (tenants (side s)). tn_id t = pr_tenant p))"
proof (cases "request_key h")
  case (Some raw)
  with assms obtain k t u where "key_owners V raw (side s) = [(k, t, u)]"
    and "p = \<lparr>pr_tenant = tn_id t, pr_user = Some (ur_id u, ur_role u)\<rparr>"
    by (auto simp: require_principal_def elim: authenticate_cases)
  with Some show ?thesis by (fastforce dest: key_owners_member)
next
  case None
  with assms show ?thesis
    by (auto simp: require_principal_def tenant_has_api_keys_def get_tenant_def filter_empty_conv find_Some_iff
        elim!: mbind_Inr_E split: option.splits if_splits)
qed

text \<open>
  A disabled key opens nothing: once the route has answered, a request that sends that key is
  refused, whatever else it says, and nothing is written for it.
\<close>

theorem disabled_key_rejected:
  assumes "distinct (map ak_key_hash (api_keys (side s)))" and "distinct (map ak_id (api_keys (side s)))"
    and "disable_key p i s = (Inr k, s')"
    and "request_key h = Some raw" and "hash_api_key V raw = ak_key_hash k"
  shows "require_principal E V h (next_session s') = (Inl (HttpError 401 ''invalid API key''), next_session s')"
proof -
  from assms(3) obtain k0 where k0: "filter (\<lambda>k. ak_id k = i \<and> ak_tenant_id k = pr_tenant p) (api_keys (side s)) = [k0]"
    and k: "k = k0\<lparr>ak_enabled := False\<rparr>"
    and s': "side_durable s' = (side s)\<lparr>api_keys := map (\<lambda>x. if ak_id x = ak_id k then k else x) (api_keys (side s))\<rparr>"
    by (auto simp: disable_key_def save_api_key_def elim!: mbind_Inr_E split: option.splits)
  have "k0 \<in> set (filter (\<lambda>k. ak_id k = i \<and> ak_tenant_id k = pr_tenant p) (api_keys (side s)))"
    by (simp add: k0)
  then have "k0 \<in> set (api_keys (side s))" by simp
  then have "x = k0" if "x \<in> set (api_keys (side s))" "ak_key_hash x = ak_key_hash k" for x
    using that assms(1) k by (auto simp: distinct_map dest: inj_onD)
  then have "key_owners V raw (side_durable s') = []"
    using k assms(5) by (intro key_owners_none) (auto simp: s')
  with assms(4) show ?thesis
    by (simp add: require_principal_def authenticate_api_key_def next_session_def)
qed

section \<open>Witnesses\<close>

definition sample_vault :: "nat vault" where
  "sample_vault = \<lparr>va_sha256 = (\<lambda>s. ''#'' @ s), va_token = (\<lambda>w. (str_of_nat w, Suc w)),
     va_incr = (\<lambda>_ w. (Inr 1, w)), va_expire = (\<lambda>_ _ w. (Inr (), w)),
     va_encrypt = (\<lambda>s w. (''!'' @ s, w)), va_decrypt = (\<lambda>s. Inr (tl s)), va_hmac = (\<lambda>k s. k)\<rparr>"

definition sample_side :: side_tables where
  "sample_side = \<lparr>tenants = [\<lparr>tn_id = 1, tn_name = ''acme'', tn_created_at = 0\<rparr>],
     users = [\<lparr>ur_id = 2, ur_tenant_id = 1, ur_display_name = ''ann'', ur_role = UR_admin,
               ur_slack_user_id = None, ur_created_at = 0\<rparr>],
     api_keys = [\<lparr>ak_id = 3, ak_tenant_id = 1, ak_user_id = 2, ak_name = ''ci'', ak_prefix = ''hrn_k'',
                  ak_key_hash = ''#hrn_k'', ak_enabled = True, ak_last_used_at = None, ak_created_at = 0\<rparr>],
     thread_mappings = [], slack_events = [], jobs = [], slack_settings = [], llm_settings = []\<rparr>"

definition sample_site :: "nat site" where
  "sample_site = \<lparr>core = sample_st, side = sample_side, side_durable = sample_side\<rparr>"

definition key_headers :: headers where
  "key_headers = \<lparr>hd_tenant_id = None, hd_api_key = None, hd_authorization = Some ''Bearer hrn_k''\<rparr>"

definition ann :: principal where
  "ann = \<lparr>pr_tenant = 1, pr_user = Some (2, UR_admin)\<rparr>"

lemma ann_authenticated: "fst (require_principal sample_env sample_vault key_headers sample_site) = Inr ann"
  by code_simp

lemma ann_disables: "fst (disable_key ann 3 sample_site) = Inr (hd (api_keys sample_side)\<lparr>ak_enabled := False\<rparr>)"
  by code_simp

lemma key_sent: "request_key key_headers = Some ''hrn_k''"
  by code_simp

theorem principal_witness:
  "\<exists>k. k \<in> set (api_keys (side sample_site)) \<and> ak_enabled k \<and> ak_key_hash k = hash_api_key sample_vault ''hrn_k''
    \<and> ak_tenant_id k = pr_tenant ann"
proof -
  obtain s' where "require_principal sample_env sample_vault key_headers sample_site = (Inr ann, s')"
    using ann_authenticated by (metis eq_fst_iff)
  from principal_has_credentials [OF this] show ?thesis by (auto simp: key_sent)
qed

lemma disabled_key_witness:
  "\<exists>s'. fst (disable_key ann 3 sample_site) = Inr (hd (api_keys sample_side)\<lparr>ak_enabled := False\<rparr>)
    \<and> fst (require_principal sample_env sample_vault key_headers (next_session s')) = Inl (HttpError 401 ''invalid API key'')"
proof -
  obtain s' where s': "disable_key ann 3 sample_site = (Inr (hd (api_keys sample_side)\<lparr>ak_enabled := False\<rparr>), s')"
    using ann_disables by (metis eq_fst_iff)
  have "distinct (map ak_key_hash (api_keys (side sample_site)))" "distinct (map ak_id (api_keys (side sample_site)))"
    and "hash_api_key sample_vault ''hrn_k'' = ak_key_hash (hd (api_keys sample_side)\<lparr>ak_enabled := False\<rparr>)"
    by (simp_all add: sample_site_def sample_side_def hash_api_key_def sample_vault_def)
  from disabled_key_rejected [OF this(1,2) s' key_sent this(3), of sample_env] s' show ?thesis
    by (intro exI [of _ s']) simp
qed

end
