(* ===== verification/SlackRuns.thy ===== *)
theory SlackRuns
  imports Slack Access
begin

text \<open>
  What the Slack channel promises: however often Slack delivers an event, it creates at most one
  run. A delivery works on a session of its own, which sees what is durable.
\<close>

section \<open>Deliveries\<close>

fun deliver_all :: "'w env \<Rightarrow> 'w broker \<Rightarrow> (dict \<times> tenant_row option) list \<Rightarrow> 'w site \<Rightarrow> 'w site" where
  "deliver_all E Q [] s = s"
| "deliver_all E Q ((payload, tenant) # rest) s =
     deliver_all E Q rest (next_session (snd (handle_slack_event_callback E Q payload tenant s)))"

definition event_ids :: "side_tables \<Rightarrow> string set" where
  "event_ids d = set (map se_event_id (slack_events d))"

section \<open>What leaves runs and events as they are\<close>

definition quiet :: "'w site \<Rightarrow> 'w site \<Rightarrow> bool" where
  "quiet s s' \<longleftrightarrow> length (runs (rows (core s'))) = length (runs (rows (core s)))
     \<and> durable (core s') = durable (core s) \<and> event_ids (side s') = event_ids (side s)
     \<and> side_durable s' = side_durable s"

interpretation quiet: state_preorder "quiet :: 'w site \<Rightarrow> 'w site \<Rightarrow> bool"
  by unfold_locales (auto simp: quiet_def)

lemma quiet_same_rows: "resp same_rows m \<Longrightarrow> resp quiet m"
  by (erule resp_mono) (simp add: same_rows_def quiet_def)

lemmas quiet_basic [intro!] = quiet.resp_intros quiet.resp_if quiet.resp_option
  quiet_same_rows [OF same_rows_clock] quiet_same_rows [OF same_rows_new_id]

lemma quiet_core:
  "(\<And>c. length (runs (rows (snd (m c)))) = length (runs (rows c)) \<and> durable (snd (m c)) = durable c) \<Longrightarrow>
   resp quiet (on_core m)"
  by (rule respI) (simp add: on_core_def quiet_def split_beta)

lemma quiet_edit: "(\<And>d. event_ids (f d) = event_ids d) \<Longrightarrow> resp quiet (edit f)"
  by (rule respI) (simp add: quiet_def)

lemma quiet_insert:
  "(\<And>d r. event_ids (upd (\<lambda>rs. rs @ [r]) d) = event_ids d) \<Longrightarrow> resp quiet (insert_row c tab upd clash r)"
  by (rule respI) (simp add: insert_row_def quiet_def)

lemma quiet_scalar [intro!]: "resp quiet (scalar_one_or_none xs)"
  by (cases xs rule: scalar_one_or_none.cases) auto

lemma quiet_text [intro!]: "resp quiet (query_text v)" "resp quiet (column_text n v)"
  by (auto simp: query_text_def column_text_def split: json.split)

lemma quiet_repo_get [intro!]: "resp quiet (on_core (repo_get i))"
  by (rule quiet_core) (auto simp: repo_get_def mbind_def split: option.splits)

lemma quiet_add_message [intro!]: "resp quiet (on_core (add_message E i role t))"
  by (rule quiet_core)
    (auto simp: add_message_def mbind_def uuid4_def now_def insert_message_def Let_def split: prod.splits)

lemma quiet_publish [intro!]: "resp quiet (on_core (publish Q i t))"
  by (rule quiet_core) (auto simp: publish_def split: prod.splits)

lemma quiet_checkpoint [intro!]: "resp quiet (on_core (checkpoint E st u))"
  by (rule quiet_core)
    (auto simp: checkpoint_def versioned_update_def assert_valid_transition_def mbind_def now_def Let_def
      split: prod.splits option.splits sum.splits)

lemma quiet_quota [intro!]: "resp quiet (on_core (enforce_tenant_run_quota E t))"
  by (rule quiet_core)
    (auto simp: enforce_tenant_run_quota_def get_quota_def mbind_def now_def Let_def split: prod.splits option.splits)

lemma quiet_user [intro!]: "resp quiet (get_or_create_slack_user E t v)"
  by (auto simp: get_or_create_slack_user_def insert_user_def Let_def event_ids_def intro!: quiet_insert)

lemma quiet_mapping [intro!]: "resp quiet (get_thread_mapping c t)" "resp quiet (insert_mapping m)"
  by (auto simp: get_thread_mapping_def insert_mapping_def event_ids_def intro!: quiet_insert)

lemma quiet_attach [intro!]: "resp quiet (attach_run_to_slack_event v i)"
  by (auto simp: attach_run_to_slack_event_def event_ids_def intro!: quiet_edit)

lemma quiet_resolve [intro!]: "resp quiet (resolve_slack_tenant E)"
  by (auto simp: resolve_slack_tenant_def split: option.split list.split)

lemma quiet_event_text [intro!]: "resp quiet (event_text e)"
  by (auto simp: event_text_def split: option.split json.split)

section \<open>One delivery\<close>

text \<open>
  Before the commit: \<open>n\<close> runs and the events \<open>I\<close> are durable, \<open>k\<close> more runs and
  the events \<open>X\<close> are in the session only.
\<close>

definition phase :: "nat \<Rightarrow> string set \<Rightarrow> nat \<Rightarrow> string set \<Rightarrow> 'w site \<Rightarrow> bool" where
  "phase n I k X s \<longleftrightarrow> length (runs (durable (core s))) = n \<and> event_ids (side_durable s) = I
     \<and> length (runs (rows (core s))) = n + k \<and> event_ids (side s) = I \<union> X"

text \<open>After it: no new run, or one together with the event that was new.\<close>

definition delivered :: "nat \<Rightarrow> string set \<Rightarrow> json \<Rightarrow> 'w site \<Rightarrow> bool" where
  "delivered n I v s \<longleftrightarrow> I \<subseteq> event_ids (side_durable s) \<and> (length (runs (durable (core s))) = n
     \<or> length (runs (durable (core s))) = Suc n \<and> (\<exists>e. v = JStr e \<and> e \<notin> I \<and> e \<in> event_ids (side_durable s)))"

lemma phase_delivered: "phase n I k X s \<Longrightarrow> delivered n I v s"
  by (simp add: phase_def delivered_def)

lemma quiet_phase: "resp quiet m \<Longrightarrow> hoare (phase n I k X) m (\<lambda>_. phase n I k X) (\<lambda>_. phase n I k X)"
  by (rule hoareI; drule (1) respD) (simp_all add: phase_def quiet_def)

lemma quiet_phase_then: "resp quiet m \<Longrightarrow> hoare (phase n I k X) m (\<lambda>_. phase n I k X) (\<lambda>_. delivered n I v)"
  by (rule hoare_weaken [OF quiet_phase [where n = n and I = I and k = k and X = X]]) (simp_all add: phase_delivered)

lemma quiet_delivered: "resp quiet m \<Longrightarrow> hoare (delivered n I v) m (\<lambda>_. delivered n I v) (\<lambda>_. delivered n I v)"
  by (rule hoareI; drule (1) respD) (simp_all add: delivered_def quiet_def)

lemma commit_without_run: "hoare (phase n I 0 X) commit_all (\<lambda>_. delivered n I v) E"
  by (simp add: hoare_def phase_def delivered_def)

lemma commit_with_event:
  "e \<notin> I \<Longrightarrow> hoare (\<lambda>s. phase n I 0 {e} s \<or> phase n I 1 {e} s) commit_all (\<lambda>_. delivered n I (JStr e)) E"
  by (auto simp: hoare_def phase_def delivered_def)

text \<open>The claim on an event succeeds at most once.\<close>

lemma event_ids_snoc [simp]: "event_ids (slack_events_update (\<lambda>rs. rs @ [r]) d) = insert (se_event_id r) (event_ids d)"
  by (auto simp: event_ids_def)

lemma insert_event_run:
  "insert_event e s =
     (if \<exists>x \<in> set (slack_events (side s)). se_id x = se_id e \<or> se_event_id x = se_event_id e
      then (Inl (IntegrityError ''slack_events_event_id_key''), s)
      else (Inr (), s\<lparr>side := slack_events_update (\<lambda>rs. rs @ [e]) (side s)\<rparr>))"
  by (simp add: insert_event_def insert_row_def list_ex_iff)

lemma claim_phase:
  assumes "phase n I 0 {} s" and "v = JStr (se_event_id e)"
    and "mcatch (mseq (insert_event e) (ret True))
           (\<lambda>x. case x of IntegrityError m \<Rightarrow> mseq rollback_all (ret False) | _ \<Rightarrow> raise x) s = (r, s')"
  shows "r = Inr True \<and> se_event_id e \<notin> I \<and> phase n I 0 {se_event_id e} s' \<or> r = Inr False \<and> phase n I 0 {} s'"
proof (cases "\<exists>x \<in> set (slack_events (side s)). se_id x = se_id e \<or> se_event_id x = se_event_id e")
  case True
  with assms(3) have "r = Inr False" and "s' = next_session s"
    by (simp_all add: mcatch_def mbind_def insert_event_run)
  with assms(1) show ?thesis by (simp add: phase_def next_session_def crash_def)
next
  case False
  then have new: "se_event_id e \<notin> event_ids (side s)" by (force simp: event_ids_def)
  from False assms(3) have "r = Inr True" and "s' = s\<lparr>side := slack_events_update (\<lambda>rs. rs @ [e]) (side s)\<rparr>"
    by (simp_all add: mcatch_def mbind_def insert_event_run del: bex_simps)
  with assms(1) new show ?thesis by (simp add: phase_def)
qed

lemma hoare_fact: "hoare P m Q E \<Longrightarrow> hoare (\<lambda>s. c \<and> P s) m (\<lambda>a s. c \<and> Q a s) E"
  by (cases c) (simp_all add: hoare_def)

lemma record_phase:
  "hoare (phase n I 0 {}) (record_slack_event E v payload t)
     (\<lambda>b s. if b then \<exists>e. v = JStr e \<and> e \<notin> I \<and> phase n I 0 {e} s else phase n I 0 {} s)
     (\<lambda>_. phase n I 0 {})"
proof -
  let ?at = "\<lambda>name s. v = JStr name \<and> phase n I 0 {} s"
  have named: "hoare (phase n I 0 {}) (column_text 255 v) ?at (\<lambda>_. phase n I 0 {})"
    by (auto simp: hoare_def column_text_def split: json.split)
  have id: "hoare (?at name) (new_id E) (\<lambda>_. ?at name) (\<lambda>_. phase n I 0 {})"
    and clk: "hoare (?at name) (clock E) (\<lambda>_. ?at name) (\<lambda>_. phase n I 0 {})" for name
    by (intro hoare_fact quiet_phase quiet_same_rows same_rows_new_id same_rows_clock)+
  show ?thesis
    unfolding record_slack_event_def Let_def
  proof (rule hoare_mbind [OF _ named], rule hoare_mbind [OF _ id], rule hoare_mbind [OF _ clk])
    fix name i t
    show "hoare (?at name)
        (mcatch (mseq (insert_event \<lparr>se_id = i, se_event_id = name, se_tenant_id = t', se_run_id = None,
             se_payload = payload, se_created_at = t\<rparr>) (ret True))
           (\<lambda>x. case x of IntegrityError m \<Rightarrow> mseq rollback_all (ret False) | _ \<Rightarrow> raise x))
        (\<lambda>b s. if b then \<exists>e. v = JStr e \<and> e \<notin> I \<and> phase n I 0 {e} s else phase n I 0 {} s)
        (\<lambda>_. phase n I 0 {})" for t'
    proof (rule hoareI, goal_cases)
      case (1 s b s')
      from claim_phase [OF _ _ 1(2)] 1(1) show ?case by auto
    next
      case (2 s x s')
      from claim_phase [OF _ _ 2(2)] 2(1) show ?case by auto
    qed
  qed
qed

lemma create_phase:
  "hoare (phase n I 0 X) (on_core (create_run E t g c m u a b d e)) (\<lambda>_. phase n I 1 X) (\<lambda>_. phase n I 0 X)"
  by (rule hoareI)
    (auto simp: run_on_core create_run_def mbind_def uuid4_def now_def insert_run_def Let_def phase_def
      split: prod.splits if_splits)

definition started :: "nat \<Rightarrow> string set \<Rightarrow> string \<Rightarrow> 'w site \<Rightarrow> bool" where
  "started n I e s \<longleftrightarrow> phase n I 0 {e} s \<or> phase n I 1 {e} s"

lemma started_delivered: "started n I e s \<Longrightarrow> delivered n I v s"
  by (auto simp: started_def intro: phase_delivered)

lemma quiet_started: "resp quiet m \<Longrightarrow> hoare (started n I e) m (\<lambda>_. started n I e) (\<lambda>_. delivered n I v)"
  by (rule hoareI; drule (1) respD) (auto simp: started_def delivered_def phase_def quiet_def)

lemma start_thread_phase:
  "hoare (phase n I 0 {e}) (start_thread E tenant u t c th ts) (\<lambda>_. started n I e) (\<lambda>_. delivered n I v)"
proof -
  have create: "hoare (phase n I 0 {e}) (on_core (create_run E t g c m u a b d f)) (\<lambda>_. started n I e) (\<lambda>_. delivered n I v)"
    for t g c m u a b d f
    by (rule hoare_weaken [OF create_phase]) (auto simp: started_def intro: phase_delivered)
  show ?thesis
    unfolding start_thread_def
    by (rule hoare_mbind [OF _ quiet_phase_then [OF quiet_quota]], rule hoare_mbind [OF _ create])
      (auto intro!: quiet_started)
qed

lemma run_for_event_phase:
  assumes "e \<notin> I"
  shows "hoare (phase n I 0 {e}) (run_for_event E v w tenant u t c th ts)
     (\<lambda>r s. case r of Inl answer \<Rightarrow> delivered n I (JStr e) s | Inr run \<Rightarrow> started n I e s) (\<lambda>_. delivered n I (JStr e))"
    (is "hoare _ _ ?post _")
proof -
  have stop: "hoare (phase n I 0 {e}) (mseq commit_all (ret (Inl d))) ?post (\<lambda>_. delivered n I (JStr e))" for d
    by (rule hoare_mbind [OF _ commit_without_run [where v = "JStr e"]]) (simp add: hoare_def)
  have go: "hoare (started n I e) (ret (Inr run)) ?post (\<lambda>_. delivered n I (JStr e))" for run
    by (simp add: hoare_def)
  have on: "hoare (phase n I 0 {e}) m (\<lambda>_. started n I e) (\<lambda>_. delivered n I (JStr e))" if "resp quiet m"
    for m :: "('a, 'c) sop"
    by (rule hoare_weaken [OF quiet_phase_then [OF that]]) (auto simp: started_def)
  show ?thesis
    unfolding run_for_event_def
    by (rule hoare_mbind [OF _ quiet_phase_then [OF quiet_mapping(1)]])
      (auto intro!: hoare_mbind [OF stop quiet_phase_then] hoare_mbind [OF go] start_thread_phase stop
        hoare_mbind [OF _ quiet_phase_then [OF quiet_repo_get]] hoare_mbind [OF stop quiet_phase_then [OF quiet_attach]]
        hoare_mbind [OF _ on [OF quiet_add_message]] quiet_started simp del: mbind_ret_right split: option.split)
qed

lemma ignore_delivered:
  "hoare (phase n I 0 {}) (ignore_event E v payload t reason) (\<lambda>_. delivered n I v) (\<lambda>_. delivered n I v)"
proof -
  have "hoare (\<lambda>s. if b then \<exists>e. v = JStr e \<and> e \<notin> I \<and> phase n I 0 {e} s else phase n I 0 {} s)
      commit_all (\<lambda>_. delivered n I v) (\<lambda>_. delivered n I v)" for b
    by (cases b) (auto simp: hoare_def phase_def delivered_def)
  then have "hoare (\<lambda>s. if b then \<exists>e. v = JStr e \<and> e \<notin> I \<and> phase n I 0 {e} s else phase n I 0 {} s)
      (mseq commit_all (ret d)) (\<lambda>_. delivered n I v) (\<lambda>_. delivered n I v)" for b d
    by (rule hoare_mbind [OF quiet_delivered [OF quiet.resp_ret]])
  then show ?thesis
    unfolding ignore_event_def
    by (rule hoare_mbind) (rule hoare_weaken [OF record_phase], auto intro: phase_delivered)
qed

lemma handle_user_event_delivered:
  "hoare (phase n I 0 {}) (handle_user_event E Q v payload w tenant su t c th ts)
     (\<lambda>_. delivered n I v) (\<lambda>_. delivered n I v)"
proof -
  let ?claimed = "\<lambda>b s. if b then \<exists>e. v = JStr e \<and> e \<notin> I \<and> phase n I 0 {e} s else phase n I 0 {} s"
  have finish: "hoare (started n I e) (mseq (attach_run_to_slack_event v i) (mseq commit_all (mseq (on_core (publish Q i j)) (ret d))))
      (\<lambda>_. delivered n I (JStr e)) (\<lambda>_. delivered n I (JStr e))" if "e \<notin> I" for e i j d
    by (rule hoare_mbind [OF _ quiet_started [OF quiet_attach]],
        rule hoare_mbind [OF _ commit_with_event [OF that, folded started_def]])
      (intro quiet_delivered quiet.resp_intros quiet_publish)
  have goes_on: "hoare (phase n I 0 {e}) (mbind (get_or_create_slack_user E (tn_id tenant) su) (\<lambda>user.
       mbind (run_for_event E v w tenant user t c th ts) (\<lambda>r.
       case r of
         Inl answer \<Rightarrow> ret answer
       | Inr run \<Rightarrow>
           mseq (attach_run_to_slack_event v (run_id run))
           (mseq commit_all
           (mseq (on_core (publish Q (run_id run) (tn_id tenant)))
           (ret [(''ok'', JBool True), (''run_id'', JStr (uuid_str (run_id run))), (''thread_ts'', th)]))))))
      (\<lambda>_. delivered n I (JStr e)) (\<lambda>_. delivered n I (JStr e))" if "e \<notin> I" for e
    by (rule hoare_mbind [OF _ quiet_phase_then [OF quiet_user]],
        rule hoare_mbind [OF _ run_for_event_phase [OF that]])
      (auto split: sum.split intro: finish [OF that] quiet_delivered quiet.resp_ret)
  show ?thesis
    unfolding handle_user_event_def
  proof (rule hoare_mbind [OF _ hoare_weaken [OF record_phase]])
    fix claimed
    show "hoare (?claimed claimed) (if \<not> claimed then mseq commit_all (ret [(''ok'', JBool True), (''deduped'', JBool True)])
      else mbind (get_or_create_slack_user E (tn_id tenant) su) (\<lambda>user.
       mbind (run_for_event E v w tenant user t c th ts) (\<lambda>r.
       case r of
         Inl answer \<Rightarrow> ret answer
       | Inr run \<Rightarrow>
           mseq (attach_run_to_slack_event v (run_id run))
           (mseq commit_all
           (mseq (on_core (publish Q (run_id run) (tn_id tenant)))
           (ret [(''ok'', JBool True), (''run_id'', JStr (uuid_str (run_id run))), (''thread_ts'', th)]))))))
      (\<lambda>_. delivered n I v) (\<lambda>_. delivered n I v)"
    proof (cases claimed)
      case True
      then show ?thesis using goes_on by (fastforce simp: hoare_def)
    next
      case False
      then show ?thesis
        using hoare_mbind [OF quiet_delivered [OF quiet.resp_ret] commit_without_run] by simp
    qed
  qed (auto intro: phase_delivered)
qed

theorem one_delivery:
  assumes "next_session s = s"
  shows "delivered (length (runs (rows (core s)))) (event_ids (side s)) (field payload ''event_id'')
     (snd (handle_slack_event_callback E Q payload known s))"
proof -
  define n I v where "n = length (runs (rows (core s)))" and "I = event_ids (side s)" and "v = field payload ''event_id''"
  have fresh: "durable (core s) = rows (core s) \<and> side_durable s = side s"
    using arg_cong [OF assms, of side] arg_cong [OF assms, of "\<lambda>x. rows (core x)"]
    by (simp add: next_session_def crash_def)
  then have start: "phase n I 0 {} s" by (simp add: phase_def n_def I_def)
  have "hoare (phase n I 0 {}) (handle_slack_event_callback E Q payload known)
      (\<lambda>_. delivered n I v) (\<lambda>_. delivered n I v)"
  proof -
    have still: "hoare (phase n I 0 {}) m (\<lambda>_. delivered n I v) (\<lambda>_. delivered n I v)" if "resp quiet m" for m :: "('a, 'c) sop"
      by (rule hoare_weaken [OF quiet_phase [OF that]]) (auto intro: phase_delivered)
    show ?thesis
      unfolding handle_slack_event_callback_def Let_def v_def [symmetric]
      by (auto intro!: still [OF quiet.resp_ret] still [OF quiet.resp_raise] ignore_delivered handle_user_event_delivered hoare_mbind [OF _ quiet_phase_then [OF quiet_event_text]]
          hoare_mbind [OF _ quiet_phase_then [OF quiet_resolve]] hoare_mbind [OF _ quiet_phase_then [OF quiet.resp_ret]]
          split: json.split option.split)
  qed
  then show ?thesis
    unfolding n_def [symmetric] I_def [symmetric] v_def [symmetric]
    using start by (cases "handle_slack_event_callback E Q payload known s") (auto simp: hoare_def split: sum.splits)
qed

section \<open>Any number of deliveries\<close>

definition event_names :: "(dict \<times> tenant_row option) list \<Rightarrow> string set" where
  "event_names ds = {e. \<exists>d \<in> set ds. field (fst d) ''event_id'' = JStr e}"

lemma event_names_Cons:
  "event_names (d # ds) = (case field (fst d) ''event_id'' of JStr e \<Rightarrow> {e} | _ \<Rightarrow> {}) \<union> event_names ds"
  by (auto simp: event_names_def split: json.splits)

lemma finite_event_names: "finite (event_names ds)"
proof (induction ds)
  case Nil
  show ?case by (simp add: event_names_def)
next
  case (Cons d ds)
  then show ?case by (simp add: event_names_Cons split: json.split)
qed

lemma next_session_twice [simp]: "next_session (next_session s) = next_session s"
  by (simp add: next_session_def crash_def)

lemma next_session_fields [simp]:
  "rows (core (next_session s)) = durable (core s)" "durable (core (next_session s)) = durable (core s)"
  "side (next_session s) = side_durable s" "side_durable (next_session s) = side_durable s"
  by (simp_all add: next_session_def crash_def)

text \<open>
  C39. One event starts at most one run, and a recorded event none: however often, in whatever
  order and with whatever errors Slack's events are delivered, the runs created are at most as many
  as there are different event ids among them that were not on record before; and no event is
  ever forgotten.
\<close>

theorem slack_event_starts_one_run:
  assumes "next_session s = s"
  shows "length (runs (durable (core (deliver_all E Q ds s))))
      \<le> length (runs (durable (core s))) + card (event_names ds - event_ids (side s))
    \<and> event_ids (side s) \<subseteq> event_ids (side (deliver_all E Q ds s))"
  using assms
proof (induction ds arbitrary: s)
  case Nil
  then show ?case by simp
next
  case (Cons d ds)
  obtain payload tenant where d: "d = (payload, tenant)" by fastforce
  let ?t = "next_session (snd (handle_slack_event_callback E Q payload tenant s))"
  let ?new = "event_names (d # ds) - event_ids (side s)"
  have fin: "finite ?new" "finite (event_names ds - event_ids (side ?t))" by (simp_all add: finite_event_names)
  have rows: "rows (core s) = durable (core s)" using Cons.prems by (metis next_session_fields(1))
  note IH = Cons.IH [of ?t, OF next_session_twice]
  note one = one_delivery [OF Cons.prems, of payload E Q tenant, unfolded delivered_def rows]
  have sub: "event_names ds - event_ids (side ?t) \<subseteq> ?new"
    using one by (auto simp: event_names_Cons)
  consider (no_run) "length (runs (durable (core ?t))) = length (runs (durable (core s)))"
    | (run) e where "length (runs (durable (core ?t))) = Suc (length (runs (durable (core s))))"
      and "field payload ''event_id'' = JStr e" and "e \<notin> event_ids (side s)" and "e \<in> event_ids (side ?t)"
    using one by auto
  then have "length (runs (durable (core ?t))) + card (event_names ds - event_ids (side ?t))
      \<le> length (runs (durable (core s))) + card ?new"
  proof cases
    case no_run
    with card_mono [OF fin(1) sub] show ?thesis by simp
  next
    case (run e)
    then have "insert e (event_names ds - event_ids (side ?t)) \<subseteq> ?new"
      using sub by (auto simp: event_names_Cons d)
    from card_mono [OF fin(1) this] run fin(2) show ?thesis by simp
  qed
  with IH one show ?case by (auto simp: d)
qed

section \<open>What the channel does not check\<close>

definition asking_run :: agent_run where
  "asking_run = sample_run\<lparr>run_status := RS_waiting_user_input\<rparr>"

definition two_tenants :: side_tables where
  "two_tenants = sample_side\<lparr>
     tenants := [\<lparr>tn_id = 1, tn_name = ''acme'', tn_created_at = 0\<rparr>, \<lparr>tn_id = 9, tn_name = ''other'', tn_created_at = 1\<rparr>],
     thread_mappings := [\<lparr>sm_id = 20, sm_tenant_id = 1, sm_run_id = 7, sm_channel_id = ''C1'', sm_thread_ts = ''5.0'',
                           sm_created_at = 0\<rparr>]\<rparr>"

definition shared_site :: "nat site" where
  "shared_site = \<lparr>core = state_of asking_run, side = two_tenants, side_durable = two_tenants\<rparr>"

definition reply_event :: "string \<Rightarrow> string \<Rightarrow> dict" where
  "reply_event event_id kind =
     [(''event_id'', JStr event_id),
      (''event'', JObj [(''type'', JStr kind), (''channel'', JStr ''C1''), (''user'', JStr ''U5''),
                        (''ts'', JStr ''6.0''), (''thread_ts'', JStr ''5.0''), (''text'', JStr ''do it'')])]"

definition busy_broker :: "nat broker" where
  "busy_broker = (\<lambda>i t w. (Inl (PyError ''ConnectionError'' ''no broker''), w))"

definition open_broker :: "nat broker" where
  "open_broker = (\<lambda>i t w. (Inr (), w))"

text \<open>
  The thread is looked up by channel and timestamp only: an event signed with the secret of tenant 9
  reaches a run of tenant 1, adds its text and wakes the run.
\<close>

lemma slack_reaches_other_tenant:
  "map_option run_status (find_run (durable (core (snd (handle_slack_event_callback sample_env open_broker
       (reply_event ''E1'' ''message'') (Some \<lparr>tn_id = 9, tn_name = ''other'', tn_created_at = 1\<rparr>) shared_site)))) 7)
     = Some RS_running"
  by code_simp

text \<open>
  A run whose publication fails after the commit is not published by a second delivery either: the
  event is on record.
\<close>

lemma failed_publish_not_repeated:
  "let s = next_session (snd (handle_slack_event_callback sample_env busy_broker (reply_event ''E1'' ''app_mention'') None sample_site)) in
   length (runs (rows (core s))) = 2
   \<and> fst (handle_slack_event_callback sample_env open_broker (reply_event ''E1'' ''app_mention'') None s)
       = Inr [(''ok'', JBool True), (''deduped'', JBool True)]"
  by code_simp

theorem slack_witness:
  "length (runs (durable (core (deliver_all sample_env open_broker
       [(reply_event ''E1'' ''app_mention'', None), (reply_event ''E1'' ''app_mention'', None)] sample_site)))) \<le> 2"
proof -
  have "next_session sample_site = sample_site"
    by (simp add: next_session_def crash_def sample_site_def sample_st_def state_of_def)
  moreover have "event_names [(reply_event ''E1'' ''app_mention'', None), (reply_event ''E1'' ''app_mention'', None)] = {''E1''}"
    by (simp add: event_names_Cons reply_event_def field_def) (simp add: event_names_def)
  moreover have "length (runs (durable (core sample_site))) = 1"
    by (simp add: sample_site_def sample_st_def state_of_def)
  moreover have "event_ids (side sample_site) = {}"
    by (simp add: sample_site_def sample_side_def event_ids_def)
  ultimately show ?thesis
    using slack_event_starts_one_run [of sample_site sample_env open_broker
        "[(reply_event ''E1'' ''app_mention'', None), (reply_event ''E1'' ''app_mention'', None)]"] by simp
qed

end
