(* ===== verification/Policy.thy ===== *)
theory Policy
  imports Guardrails "HOL-Library.Char_ord"
begin

text \<open>
  What the command line agent decides before it acts: marcus_code/runtime/modes.py (which tools a
  mode allows, which calls need the user's approval), task_contract.py (what a request asks for and
  what counts as verification), effort_router.py and todo_tracker.py, with the events of events.py
  and the bus of event_bus.py. Python's \<open>re.search\<close> for the patterns of commands is modelled by
  the set of positions a pattern can end at; the bilingual patterns that classify a request are a
  parameter, a search function per pattern.
\<close>

section \<open>Regular expressions\<close>

datatype regex = RClass "char \<Rightarrow> bool" | RBound | RStart | REnd | RSeq "regex list" | RAlt "regex list" | RStar regex

definition is_word :: "char \<Rightarrow> bool" where
  "is_word c = (let n = (of_char c :: nat) in
     48 \<le> n \<and> n \<le> 57 \<or> 65 \<le> n \<and> n \<le> 90 \<or> n = 95 \<or> 97 \<le> n \<and> n \<le> 122
     \<or> n \<in> {170, 178, 179, 181, 185, 186, 188, 189, 190} \<or> 192 \<le> n \<and> n \<noteq> 215 \<and> n \<noteq> 247)"

definition at_boundary :: "string \<Rightarrow> nat \<Rightarrow> bool" where
  "at_boundary t i =
     ((0 < i \<and> i \<le> length t \<and> is_word (t ! (i - 1))) \<noteq> (i < length t \<and> is_word (t ! i)))"

text \<open>The positions where a match that starts at one of the given positions can end.\<close>

fun grow :: "(nat list \<Rightarrow> nat list) \<Rightarrow> nat \<Rightarrow> nat list \<Rightarrow> nat list" where
  "grow f 0 ps = ps"
| "grow f (Suc n) ps =
     (let new = filter (\<lambda>p. p \<notin> set ps) (f ps) in if new = [] then ps else grow f n (remdups (ps @ new)))"

fun ends :: "regex \<Rightarrow> string \<Rightarrow> nat list \<Rightarrow> nat list"
  and ends_seq :: "regex list \<Rightarrow> string \<Rightarrow> nat list \<Rightarrow> nat list"
  and ends_alt :: "regex list \<Rightarrow> string \<Rightarrow> nat list \<Rightarrow> nat list" where
  "ends (RClass P) t ps = map Suc (filter (\<lambda>p. p < length t \<and> P (t ! p)) ps)"
| "ends RBound t ps = filter (at_boundary t) ps"
| "ends RStart t ps = filter (\<lambda>p. p = 0) ps"
| "ends REnd t ps = filter (\<lambda>p. p = length t \<or> Suc p = length t \<and> t ! p = CHR 10) ps"
| "ends (RSeq rs) t ps = ends_seq rs t ps"
| "ends (RAlt rs) t ps = ends_alt rs t ps"
| "ends (RStar r) t ps = grow (ends r t) (Suc (length t)) ps"
| "ends_seq [] t ps = ps"
| "ends_seq (r # rs) t ps = ends_seq rs t (ends r t ps)"
| "ends_alt [] t ps = []"
| "ends_alt (r # rs) t ps = remdups (ends r t ps @ ends_alt rs t ps)"

definition re_search :: "regex \<Rightarrow> string \<Rightarrow> bool" where
  "re_search r t = (ends r t [0..<Suc (length t)] \<noteq> [])"

definition lit :: "string \<Rightarrow> regex" where
  "lit s = RSeq (map (\<lambda>c. RClass ((=) c)) s)"

definition any_char :: regex where
  "any_char = RClass (\<lambda>c. c \<noteq> CHR 10)"

definition spaces1 :: regex where
  "spaces1 = RSeq [RClass is_space, RStar (RClass is_space)]"

section \<open>Modes (modes.py)\<close>

datatype agent_mode = AM_ask | AM_agent | AM_auto | AM_yolo

definition DANGEROUS_COMMAND_PATTERNS :: "regex list" where
  "DANGEROUS_COMMAND_PATTERNS =
     [RSeq [lit ''git'', spaces1, lit ''push'', RBound],
      RSeq [lit ''git'', spaces1, lit ''reset'', RBound, RStar any_char, lit ''--hard''],
      RSeq [lit ''git'', spaces1, lit ''clean'', RBound, RStar any_char, lit ''-'',
            RStar (RClass (\<lambda>c. \<not> is_space c)), RAlt [lit ''f'', lit ''d'']],
      RSeq [RBound, RAlt [lit ''rm'', lit ''rmdir'', lit ''remove-item''], RBound, RStar any_char,
            RAlt [lit ''-r'', lit ''-recurse'', lit ''/s'', lit ''--force'']],
      RSeq [RBound, RAlt [lit ''drop'', lit ''truncate''], spaces1, RAlt [lit ''table'', lit ''database''], RBound],
      RSeq [RBound, lit ''delete'', spaces1, lit ''from'', RBound],
      RSeq [RBound, RAlt [lit ''shutdown'', lit ''reboot'', lit ''restart-computer'', lit ''stop-computer''], RBound]]"

definition command_requires_approval :: "string \<Rightarrow> bool" where
  "command_requires_approval command =
     list_ex (\<lambda>r. re_search r (str_lower command)) DANGEROUS_COMMAND_PATTERNS"

definition tool_is_allowed :: "agent_mode \<Rightarrow> risk_tier \<Rightarrow> bool" where
  "tool_is_allowed mode tier \<longleftrightarrow> mode \<noteq> AM_ask \<or> tier = RT_read_only"

text \<open>\<open>str\<close> of the command argument, which is a text when there is none.\<close>

definition str_arg :: "'w env \<Rightarrow> dict \<Rightarrow> string \<Rightarrow> string" where
  "str_arg E args key =
     (case dict_get args key of None \<Rightarrow> [] | Some (JStr t) \<Rightarrow> t | Some v \<Rightarrow> env_str E v)"

definition tool_requires_approval :: "'w env \<Rightarrow> agent_mode \<Rightarrow> string \<Rightarrow> risk_tier \<Rightarrow> dict \<Rightarrow> bool" where
  "tool_requires_approval E mode tool_name tier args =
     (if mode \<in> {AM_ask, AM_yolo} then False
      else if mode = AM_agent then tier \<in> {RT_sensitive_write, RT_destructive}
      else if tool_name \<in> {''run_cli'', ''start_process''}
      then command_requires_approval (str_arg E args ''command'')
      else False)"

section \<open>What a request asks for (task_contract.py)\<close>

datatype task_kind = TK_explain | TK_change | TK_operate
datatype response_mode = RM_direct | RM_agentic
datatype capability = CP_workspace_read | CP_workspace_write | CP_command | CP_process | CP_web
datatype verification_policy = VP_none | VP_requested | VP_after_mutation

record task_contract =
  tk_kind :: task_kind
  tk_response_mode :: response_mode
  tk_capabilities :: "capability list"
  tk_requires_plan :: bool
  tk_verification_policy :: verification_policy

definition requires_verification :: "task_contract \<Rightarrow> bool" where
  "requires_verification c \<longleftrightarrow> tk_verification_policy c \<noteq> VP_none"

definition allows_mutation :: "task_contract \<Rightarrow> bool" where
  "allows_mutation c \<longleftrightarrow> CP_workspace_write \<in> set (tk_capabilities c)"

definition missing_evidence_hint :: "task_contract \<Rightarrow> bool \<Rightarrow> string" where
  "missing_evidence_hint c verification_succeeded =
     (if \<not> requires_verification c then ''this task does not require verification''
      else if verification_succeeded
      then ''a verification tool returned success, but the final answer ''
           @ ''must explicitly summarize the verification result''
      else ''no successful verification from the current workspace revision exists; ''
           @ ''run an available test, build, lint, HTTP, or health-check tool and report its result'')"

text \<open>The patterns, each searched for in the text, and the two whose matches are blanked out.\<close>

datatype intent = IN_change | IN_operate | IN_process | IN_verify | IN_analyze | IN_workspace
  | IN_deictic_workspace | IN_informational | IN_web

record intents =
  in_search :: "intent \<Rightarrow> string \<Rightarrow> bool"
  in_blank_negated_change :: "string \<Rightarrow> string"
  in_blank_plan_only_change :: "string \<Rightarrow> string"

definition affirmative_text :: "intents \<Rightarrow> string \<Rightarrow> string" where
  "affirmative_text R t = in_blank_plan_only_change R (in_blank_negated_change R t)"

definition derive_task_contract :: "intents \<Rightarrow> string \<Rightarrow> task_contract" where
  "derive_task_contract R t =
     (let informational = in_search R IN_informational t;
          wants_change = in_search R IN_change (affirmative_text R t) \<and> \<not> informational;
          wants_operation = in_search R IN_operate t \<and> \<not> informational;
          wants_verification = in_search R IN_verify t \<and> \<not> informational;
          repository_analysis = in_search R IN_analyze t \<and> in_search R IN_workspace t;
          capabilities = remdups
            ((if repository_analysis \<or> in_search R IN_deictic_workspace t \<or> wants_change \<or> wants_operation
                 \<or> wants_verification then [CP_workspace_read] else [])
             @ (if wants_change then [CP_workspace_write, CP_command] else [])
             @ (if wants_operation \<or> wants_verification then [CP_command] else [])
             @ (if in_search R IN_process t then [CP_process] else [])
             @ (if in_search R IN_web t then [CP_web] else []));
          response_mode = (if capabilities \<noteq> [] then RM_agentic else RM_direct)
      in \<lparr>tk_kind = (if wants_change then TK_change
                     else if wants_operation \<or> wants_verification then TK_operate else TK_explain),
          tk_response_mode = response_mode, tk_capabilities = capabilities,
          tk_requires_plan = (response_mode = RM_agentic),
          tk_verification_policy = (if wants_change then VP_after_mutation
                                    else if wants_verification then VP_requested else VP_none)\<rparr>)"

text \<open>A command that verifies: a test, lint, build or curl word, \<open>dotnet run\<close> or \<open>npm test\<close>.\<close>

definition not_word :: regex where
  "not_word = RClass (\<lambda>c. \<not> is_word c)"

definition run_cli_verifies :: "string \<Rightarrow> bool" where
  "run_cli_verifies command =
     re_search (RAlt
       [RSeq [RAlt [RStart, not_word], RAlt (map lit [''pytest'', ''test'', ''tests'', ''lint'', ''build'', ''curl'']),
              RAlt [REnd, not_word]],
        RSeq [lit ''dotnet'', spaces1, lit ''run''], RSeq [lit ''npm'', spaces1, lit ''test'']]) (str_lower command)"

definition is_verification_attempt :: "'w env \<Rightarrow> string \<Rightarrow> dict \<Rightarrow> bool" where
  "is_verification_attempt E tool_name args =
     (if tool_name \<in> {''run_tests'', ''wait_for_http'', ''check_url_health''} then True
      else if tool_name = ''run_cli'' then run_cli_verifies (str_arg E args ''command'')
      else False)"

definition http_ok :: "json option \<Rightarrow> bool" where
  "http_ok status = (case status of Some (JInt n) \<Rightarrow> 200 \<le> n \<and> n < 400 | _ \<Rightarrow> False)"

definition observed_truthy :: "dict \<Rightarrow> string \<Rightarrow> bool" where
  "observed_truthy d key = (case dict_get d key of None \<Rightarrow> False | Some v \<Rightarrow> truthy v)"

definition exited_zero :: "dict \<Rightarrow> bool" where
  "exited_zero d = (case dict_get d ''exit_code'' of None \<Rightarrow> False | Some v \<Rightarrow> py_eq v (JInt 0))"

definition is_verification_evidence :: "'w env \<Rightarrow> string \<Rightarrow> dict \<Rightarrow> dict \<Rightarrow> bool" where
  "is_verification_evidence E tool_name args observation =
     (if dict_has observation ''error'' then False
      else if tool_name = ''run_tests'' then exited_zero observation
      else if tool_name = ''wait_for_http''
      then observed_truthy observation ''ready'' \<or> http_ok (dict_get observation ''status'')
      else if tool_name = ''check_url_health''
      then observed_truthy observation ''healthy''
           \<and> (dict_get observation ''status'' \<in> {None, Some JNull} \<or> http_ok (dict_get observation ''status''))
      else if tool_name = ''run_cli'' then exited_zero observation \<and> is_verification_attempt E tool_name args
      else False)"

section \<open>Reasoning effort (effort_router.py)\<close>

datatype effort = EF_auto | EF_off | EF_low | EF_medium | EF_high

definition LOW_BUDGET_RATIO :: rat where
  "LOW_BUDGET_RATIO = 1 / 5"

fun step_down :: "effort \<Rightarrow> effort" where
  "step_down EF_high = EF_medium"
| "step_down EF_medium = EF_low"
| "step_down e = EF_low"

definition base_effort :: "task_contract \<Rightarrow> effort" where
  "base_effort c =
     (if tk_response_mode c = RM_direct then EF_low
      else if tk_kind c \<in> {TK_change, TK_operate} then EF_high else EF_medium)"

definition route_reasoning_effort :: "task_contract \<Rightarrow> rat option \<Rightarrow> effort" where
  "route_reasoning_effort c budget_remaining_ratio =
     (case budget_remaining_ratio of
        None \<Rightarrow> base_effort c
      | Some r \<Rightarrow> if r < LOW_BUDGET_RATIO then step_down (base_effort c) else base_effort c)"

section \<open>The workflow tracker (todo_tracker.py)\<close>

datatype phase = PH_receive | PH_analyze | PH_plan | PH_implement | PH_validate | PH_deliver

definition phases :: "phase list" where
  "phases = [PH_receive, PH_analyze, PH_plan, PH_implement, PH_validate, PH_deliver]"

fun phase_index :: "phase \<Rightarrow> nat" where
  "phase_index PH_receive = 0"
| "phase_index PH_analyze = 1"
| "phase_index PH_plan = 2"
| "phase_index PH_implement = 3"
| "phase_index PH_validate = 4"
| "phase_index PH_deliver = 5"

fun phase_label :: "phase \<Rightarrow> string" where
  "phase_label PH_receive = ''Receive''"
| "phase_label PH_analyze = ''Analyze requirements''"
| "phase_label PH_plan = ''Plan''"
| "phase_label PH_implement = ''Implement''"
| "phase_label PH_validate = ''Validate''"
| "phase_label PH_deliver = ''Deliver / summarize''"

record tracker =
  tr_current :: phase
  tr_steps :: "(phase \<times> string) list"
  tr_finished :: bool

definition new_tracker :: tracker where
  "new_tracker = \<lparr>tr_current = PH_receive, tr_steps = [], tr_finished = False\<rparr>"

definition advance :: "phase \<Rightarrow> string \<Rightarrow> tracker \<Rightarrow> tracker" where
  "advance p note t =
     (if p = tr_current t \<and> note = [] then t
      else t\<lparr>tr_current := p, tr_steps := tr_steps t @ [(p, note)]\<rparr>)"

definition finish_tracker :: "string \<Rightarrow> tracker \<Rightarrow> tracker" where
  "finish_tracker note t =
     (advance PH_deliver (if note = [] then ''Deliver / summarize'' else note) t)\<lparr>tr_finished := True\<rparr>"

definition is_active :: "phase \<Rightarrow> tracker \<Rightarrow> bool" where
  "is_active p t \<longleftrightarrow> \<not> tr_finished t \<and> tr_current t = p"

definition is_done :: "phase \<Rightarrow> tracker \<Rightarrow> bool" where
  "is_done p t \<longleftrightarrow> tr_finished t \<or> phase_index p \<le> phase_index (tr_current t)"

definition reset_tracker :: "tracker \<Rightarrow> tracker" where
  "reset_tracker t = new_tracker"

lemma phases_index: "p \<in> set phases \<and> phases ! phase_index p = p"
  by (cases p) (simp_all add: phases_def)

lemma finished_is_done: "is_done p (finish_tracker note t) \<and> \<not> is_active p (finish_tracker note t)"
  by (simp add: is_done_def is_active_def finish_tracker_def)

section \<open>Events (events.py, event_bus.py)\<close>

text \<open>The notices of a turn; the payload that is only drawn (a tracker, elapsed seconds) is left out.\<close>

datatype event = TurnStarted | TurnFinished bool | TodoUpdated | ThinkingStarted | ThinkingStopped
  | StreamStarted | StreamDelta string | StreamEnded | AssistantMessage string | FinalAnswer string
  | ToolCallStarted string dict | ToolCallCompleted string dict | ToolCallFailed string string
  | ToolCallDeclined string | Recovery string | GuardrailStop string | Interrupted

type_synonym 'w subscriber = "event \<Rightarrow> 'w \<Rightarrow> (exn + unit) \<times> 'w"

fun bus_emit :: "'w subscriber list \<Rightarrow> event \<Rightarrow> 'w \<Rightarrow> 'w" where
  "bus_emit [] e w = w"
| "bus_emit (h # hs) e w = bus_emit hs e (snd (h e w))"

text \<open>Every subscriber hears every event, in the order of subscription, whatever the others raise.\<close>

lemma bus_emit_all: "bus_emit (hs @ [h]) e w = snd (h e (bus_emit hs e w))"
  by (induction hs arbitrary: w) simp_all

end
