(* ===== verification/Redact.thy ===== *)
theory Redact
  imports Policy Tools
begin

text \<open>
  harness/runtime/redaction.py (credentials taken out of file contents) and command_policy.py (what
  a shell command is refused for). The two patterns of redaction.py match in one way only at a
  position, so a match is computed: its text up to the value, and what follows it. Texts are read
  as Latin-1.
\<close>

section \<open>Redaction (redaction.py)\<close>

fun split_on :: "char \<Rightarrow> string \<Rightarrow> string list" where
  "split_on c [] = [[]]"
| "split_on c (d # ds) =
     (if d = c then [] # split_on c ds
      else case split_on c ds of [] \<Rightarrow> [[d]] | x # xs \<Rightarrow> (d # x) # xs)"

text \<open>\<open>Path(p).name\<close>.\<close>

definition path_name :: "string \<Rightarrow> string" where
  "path_name p =
     (let parts = filter (\<lambda>c. c \<noteq> [] \<and> c \<noteq> ''.'') (split_on CHR ''/'' p) in if parts = [] then [] else last parts)"

definition SECRET_FILE_NAMES :: "string list" where
  "SECRET_FILE_NAMES = [''.env'', ''.env.local'', ''.env.production'', ''credentials.json'']"

definition str_endswith :: "string \<Rightarrow> string \<Rightarrow> bool" where
  "str_endswith s p = str_startswith (rev s) (rev p)"

definition is_secret_file :: "string \<Rightarrow> bool" where
  "is_secret_file path =
     (let name = str_lower (path_name path) in
      name \<in> set SECRET_FILE_NAMES \<or> str_endswith name ''.pem'' \<or> str_endswith name ''.key'')"

text \<open>A private key: the header's capitals and spaces end in \<open>PRIVATE KEY\<close>, as do the footer's.\<close>

definition key_mark :: "string \<Rightarrow> string \<Rightarrow> string option" where
  "key_mark start s =
     (let t = drop (length start) s; run = takeWhile (\<lambda>c. c = CHR '' '' \<or> c \<in> set ''ABCDEFGHIJKLMNOPQRSTUVWXYZ'') t;
          u = drop (length run) t
      in if str_startswith s start \<and> str_endswith run ''PRIVATE KEY'' \<and> str_startswith u ''-----''
         then Some (drop 5 u) else None)"

fun after_footer :: "string \<Rightarrow> string option" where
  "after_footer [] = None"
| "after_footer (c # cs) =
     (case key_mark ''-----END '' (c # cs) of Some rest \<Rightarrow> Some rest | None \<Rightarrow> after_footer cs)"

definition match_private_key :: "string \<Rightarrow> (string \<times> string) option" where
  "match_private_key s =
     (case key_mark ''-----BEGIN '' s of
        None \<Rightarrow> None
      | Some t \<Rightarrow> map_option (Pair ''[REDACTED PRIVATE KEY]'') (after_footer t))"

text \<open>A credential: a keyword in any case, a colon or an equals sign, a value with or without quotes.\<close>

definition starts_ci :: "string \<Rightarrow> string \<Rightarrow> bool" where
  "starts_ci s p = str_startswith (str_lower s) p"

definition keyword_length :: "string \<Rightarrow> nat option" where
  "keyword_length s =
     (if starts_ci s ''apikey'' then Some 6
      else if starts_ci s ''api_key'' \<or> starts_ci s ''api-key'' then Some 7
      else if starts_ci s ''secret'' then Some 6
      else if starts_ci s ''password'' then Some 8
      else if starts_ci s ''token'' then Some 5
      else if starts_ci s ''authorization'' then Some 13
      else None)"

definition is_quote :: "char \<Rightarrow> bool" where
  "is_quote c = (c = CHR 0x27 \<or> c = CHR 0x22)"

definition plain_value :: "char \<Rightarrow> bool" where
  "plain_value c = (\<not> is_space c \<and> \<not> is_quote c)"

fun after_value :: "string \<Rightarrow> string option" where
  "after_value [] = None"
| "after_value (c # cs) =
     (if is_quote c
      then (case dropWhile plain_value cs of
              d # ds \<Rightarrow> if d = c \<and> takeWhile plain_value cs \<noteq> [] then Some ds else None
            | [] \<Rightarrow> None)
      else if plain_value c then Some (dropWhile plain_value cs) else None)"

definition match_credential :: "string \<Rightarrow> (string \<times> string) option" where
  "match_credential s =
     (case keyword_length s of
        None \<Rightarrow> None
      | Some k \<Rightarrow>
          (case dropWhile is_space (drop k s) of
             [] \<Rightarrow> None
           | c # v \<Rightarrow>
               if c \<noteq> CHR '':'' \<and> c \<noteq> CHR ''='' then None
               else let w = dropWhile is_space v in
                    map_option (Pair (take (length s - length w) s @ ''[REDACTED]'')) (after_value w)))"

text \<open>\<open>subn\<close>: from left to right, each match replaced; a match is never empty.\<close>

function subn :: "(string \<Rightarrow> (string \<times> string) option) \<Rightarrow> string \<Rightarrow> string \<times> nat" where
  "subn f [] = ([], 0)"
| "subn f (c # cs) =
     (case f (c # cs) of
        Some (new, rest) \<Rightarrow>
          if length rest < length (c # cs) then (let (r, n) = subn f rest in (new @ r, Suc n))
          else (let (r, n) = subn f cs in (c # r, n))
      | None \<Rightarrow> (let (r, n) = subn f cs in (c # r, n)))"
  by pat_completeness auto

termination
  by (relation "measure (\<lambda>(f, s). length s)") auto

definition redact_secrets :: "string \<Rightarrow> string \<Rightarrow> string \<times> nat" where
  "redact_secrets path content =
     (if is_secret_file path then (''[REDACTED SENSITIVE FILE CONTENT]'', 1)
      else
        let (t, private_keys) = subn match_private_key content; (u, credentials) = subn match_credential t
        in (u, private_keys + credentials))"

section \<open>Shell commands (command_policy.py)\<close>

definition spaces :: regex where
  "spaces = RStar (RClass is_space)"

definition in_command :: regex where
  "in_command = RStar (RClass (\<lambda>c. c \<notin> set '';&|''))"

definition SECRET_DUMP :: regex where
  "SECRET_DUMP = RAlt
     [RSeq [RAlt [RStart, RSeq [RClass (\<lambda>c. c \<in> set '';&|''), spaces]],
            RAlt (map lit [''env'', ''printenv'', ''set'']), RAlt [RClass is_space, REnd]],
      RSeq [RAlt (map lit [''get-childitem'', ''gci'', ''dir'']), spaces1, lit ''env:''],
      RSeq [RAlt (map lit [''cat'', ''type'', ''get-content'', ''gc'']), spaces1, in_command,
            RAlt [RSeq [lit ''.env'', RAlt [lit ''.'', RClass is_space, REnd]],
                  lit ''credentials.json'', lit ''.pem'', lit ''.key'']]]"

fun words_from :: "string \<Rightarrow> string \<Rightarrow> string list" where
  "words_from w [] = (if w = [] then [] else [rev w])"
| "words_from w (c # cs) =
     (if is_space c then (if w = [] then words_from [] cs else rev w # words_from [] cs)
      else words_from (c # w) cs)"

definition str_split :: "string \<Rightarrow> string list" where
  "str_split s = words_from [] s"

record command_metadata =
  cm_executable :: string
  cm_category :: string
  cm_command_hash :: string

definition metadata_dict :: "command_metadata \<Rightarrow> dict" where
  "metadata_dict m = [(''executable'', JStr (cm_executable m)), (''category'', JStr (cm_category m)),
     (''command_hash'', JStr (cm_command_hash m))]"

definition classify :: "string \<Rightarrow> string \<Rightarrow> string" where
  "classify command executable =
     (if list_ex (\<lambda>m. str_contains m command) ['' test'', ''pytest'', ''npm test'', ''dotnet test''] then ''test''
      else if list_ex (\<lambda>m. str_contains m command) ['' build'', ''dotnet build'', ''npm run build''] then ''build''
      else if executable \<in> {''curl'', ''wget'', ''irm'', ''invoke-webrequest''} then ''network''
      else if executable = ''git'' then ''git''
      else if executable \<in> {''npm'', ''pnpm'', ''yarn'', ''pip'', ''uv'', ''dotnet''} then ''package''
      else ''shell'')"

definition strip_quotes :: "string \<Rightarrow> string" where
  "strip_quotes s = rev (dropWhile is_quote (rev (dropWhile is_quote s)))"

definition normalized_command :: "string \<Rightarrow> string" where
  "normalized_command command = str_join '' '' (str_split (str_strip command))"

text \<open>The hash of the normalized text is a parameter.\<close>

definition inspect_shell_command :: "(string \<Rightarrow> string) \<Rightarrow> string \<Rightarrow> exn + command_metadata" where
  "inspect_shell_command sha256 command =
     (let normalized = normalized_command command in
      if normalized = [] then Inl (ToolRuntimeError ''command is empty'' (code_str INVALID_ARGUMENT) False)
      else if re_search SECRET_DUMP (str_lower normalized)
      then Inl (ToolRuntimeError ''command blocked because it may expose environment variables or secret files''
                  (code_str POLICY_DENIED) False)
      else
        let executable = str_lower (strip_quotes (hd (str_split normalized)))
        in Inr \<lparr>cm_executable = executable, cm_category = classify (str_lower normalized) executable,
                cm_command_hash = sha256 normalized\<rparr>)"

section \<open>What they guarantee\<close>

lemma dropWhile_shorter: "length (dropWhile P xs) \<le> length xs"
  by (simp add: dropWhile_eq_drop)

lemma key_mark_shorter: "key_mark start s = Some t \<Longrightarrow> length t \<le> length s - 5"
  by (auto simp: key_mark_def Let_def split: if_splits)

lemma after_footer_shorter: "after_footer s = Some t \<Longrightarrow> length t < length s"
  by (induction s rule: after_footer.induct)
    (fastforce dest: key_mark_shorter split: option.splits)+

lemma after_value_shorter: "after_value s = Some t \<Longrightarrow> length t < length s"
  using dropWhile_shorter [of plain_value "tl s"]
  by (cases s) (auto split: if_splits list.splits)

text \<open>A match is never empty, so the guard of \<open>subn\<close> always holds.\<close>

lemma match_shorter:
  "match_private_key s = Some (new, rest) \<Longrightarrow> length rest < length s"
  "match_credential s = Some (new, rest) \<Longrightarrow> length rest < length s"
proof -
  show "match_private_key s = Some (new, rest) \<Longrightarrow> length rest < length s"
    by (auto simp: match_private_key_def split: option.splits dest!: key_mark_shorter after_footer_shorter)
  assume "match_credential s = Some (new, rest)"
  then obtain k c v where "dropWhile is_space (drop k s) = c # v" "after_value (dropWhile is_space v) = Some rest"
    by (auto simp: match_credential_def Let_def split: option.splits list.splits if_splits)
  then have "length rest < length v" "length v < length (drop k s)"
    using dropWhile_shorter [of is_space v] dropWhile_shorter [of is_space "drop k s"] after_value_shorter
    by fastforce+
  then show "length rest < length s" by simp
qed

text \<open>A quoted key, as JSON writes it, hides its value from the pattern, and a bearer token is the
  second word after its keyword: both stay in the text.\<close>

lemma json_credential_kept:
  "redact_secrets ''a.json'' (''{'' @ [CHR 0x22] @ ''password'' @ [CHR 0x22] @ '': '' @ [CHR 0x22] @ ''hunter2'' @ [CHR 0x22] @ ''}'')
   = (''{'' @ [CHR 0x22] @ ''password'' @ [CHR 0x22] @ '': '' @ [CHR 0x22] @ ''hunter2'' @ [CHR 0x22] @ ''}'', 0)"
  by code_simp

lemma bearer_token_kept:
  "redact_secrets ''a.txt'' ''Authorization: Bearer s3cret'' = (''Authorization: [REDACTED] s3cret'', 1)"
  by code_simp

end
