(* ===== verification/Scheduler.thy ===== *)
theory Scheduler
  imports Accounts Redact "HOL-Library.List_Lexorder"
begin

text \<open>
  harness/scheduler.py and harness/api/routes/scheduled_jobs.py: jobs with a cron expression that
  create runs. APScheduler's trigger is a parameter: a crontab gives a function from a moment to
  the next fire time. The Redis lease of the leader is a function of the world.
\<close>

record 'w timer =
  tm_from_crontab :: "string \<Rightarrow> exn + (datetime \<Rightarrow> datetime option)"
  tm_set_leader :: "int \<Rightarrow> 'w \<Rightarrow> (exn + bool) \<times> 'w"

definition of_sum :: "exn + 'a \<Rightarrow> ('w, 'a) sop" where
  "of_sum r = (case r of Inl e \<Rightarrow> raise e | Inr a \<Rightarrow> ret a)"

definition validate_cron :: "'w timer \<Rightarrow> string \<Rightarrow> exn + (datetime \<Rightarrow> datetime option)" where
  "validate_cron X expression =
     (if length (str_split expression) \<noteq> 5
      then Inl (PyError ''ValueError'' ''cron expression must have 5 fields'')
      else tm_from_crontab X expression)"

definition next_run_time :: "'w timer \<Rightarrow> string \<Rightarrow> datetime \<Rightarrow> exn + datetime option" where
  "next_run_time X expression t = map_sum id (\<lambda>trigger. trigger t) (validate_cron X expression)"

definition resting_status :: "scheduled_job \<Rightarrow> scheduled_job_status" where
  "resting_status job = (if jb_enabled job then JS_idle else JS_disabled)"

definition refresh_job_next_run :: "'w env \<Rightarrow> 'w timer \<Rightarrow> scheduled_job \<Rightarrow> ('w, scheduled_job) sop" where
  "refresh_job_next_run E X job =
     mbind (if jb_enabled job
            then mbind (clock E) (\<lambda>t. of_sum (next_run_time X (jb_cron_expression job) t))
            else ret None) (\<lambda>next_run.
     ret (job\<lparr>jb_next_run_at := next_run, jb_status := resting_status job\<rparr>))"

definition is_due :: "datetime \<Rightarrow> scheduled_job \<Rightarrow> bool" where
  "is_due t job \<longleftrightarrow> jb_enabled job \<and> (case jb_next_run_at job of None \<Rightarrow> False | Some n \<Rightarrow> n \<le> t)"

definition list_due_jobs :: "side_tables \<Rightarrow> datetime \<Rightarrow> scheduled_job list" where
  "list_due_jobs d t = sort_key (\<lambda>job. the (jb_next_run_at job)) (filter (is_due t) (jobs d))"

definition save_job :: "scheduled_job \<Rightarrow> ('w, unit) sop" where
  "save_job job = edit (jobs_update (map (\<lambda>x. if jb_id x = jb_id job then job else x)))"

section \<open>Firing\<close>

definition job_metadata :: "scheduled_job \<Rightarrow> dict" where
  "job_metadata job = dict_merge (jb_channel_metadata job)
     [(''scheduled_job_id'', JStr (uuid_str (jb_id job))), (''scheduled_job_name'', JStr (jb_name job))]"

text \<open>The status goes back to rest whether or not the run could be published.\<close>

definition finish_firing :: "scheduled_job \<Rightarrow> ('w, unit) sop" where
  "finish_firing job = mseq (save_job (job\<lparr>jb_status := resting_status job\<rparr>)) commit_all"

definition fire_scheduled_job ::
  "'w env \<Rightarrow> 'w timer \<Rightarrow> 'w broker \<Rightarrow> scheduled_job \<Rightarrow> ('w, agent_run) sop" where
  "fire_scheduled_job E X Q job =
     mseq (on_core (enforce_tenant_run_quota E (jb_tenant_id job)))
     (mbind (on_core (create_run E (jb_tenant_id job) (jb_goal job) (jb_channel job)
               (Some (job_metadata job)) None None None None None)) (\<lambda>run.
      mbind (clock E) (\<lambda>t.
        let firing = job\<lparr>jb_status := JS_firing, jb_last_run_at := Some t, jb_last_run_id := Some (run_id run)\<rparr>
        in mseq (save_job firing)
           (mbind (of_sum (next_run_time X (jb_cron_expression job) t)) (\<lambda>next_run.
              let fired = firing\<lparr>jb_next_run_at := next_run\<rparr>
              in mseq (save_job fired)
                 (mseq commit_all
                 (mseq (mcatch (on_core (publish Q (run_id run) (jb_tenant_id job)))
                          (\<lambda>e. mseq (finish_firing fired) (raise e)))
                 (mseq (finish_firing fired)
                 (ret run)))))))))"

text \<open>What goes wrong is logged and the next job is fired.\<close>

definition fire_and_log :: "'w env \<Rightarrow> 'w timer \<Rightarrow> 'w broker \<Rightarrow> scheduled_job \<Rightarrow> ('w, unit) sop" where
  "fire_and_log E X Q job = mcatch (mbind (fire_scheduled_job E X Q job) (\<lambda>_. ret ())) (\<lambda>e. ret ())"

text \<open>
  One round of the loop: the leader fires the due jobs one after the other on one session, logging
  what fails; what is left uncommitted is gone when the session closes.
\<close>

definition scheduler_round :: "'w env \<Rightarrow> 'w timer \<Rightarrow> 'w broker \<Rightarrow> ('w, unit) sop" where
  "scheduler_round E X Q =
     mbind (outside (tm_set_leader X (cfg_scheduler_lease_ttl_seconds (env_settings E)))) (\<lambda>acquired.
       mwhen acquired
         (mbind (clock E) (\<lambda>t. mbind (gets side) (\<lambda>d.
            mseq (for_each (list_due_jobs d t) (fire_and_log E X Q)) rollback_all))))"

section \<open>The routes\<close>

record job_create =
  jc_name :: string
  jc_cron_expression :: string
  jc_goal :: string
  jc_channel :: channel
  jc_channel_metadata :: dict
  jc_enabled :: bool

record job_update =
  ju_cron_expression :: "string option"
  ju_goal :: "string option"
  ju_channel :: "channel option"
  ju_channel_metadata :: "dict option"
  ju_enabled :: "bool option"

text \<open>A \<open>ValueError\<close> of the expression is the client's fault.\<close>

definition check_cron :: "'w timer \<Rightarrow> string \<Rightarrow> ('w, unit) sop" where
  "check_cron X expression =
     (case validate_cron X expression of
        Inr trigger \<Rightarrow> ret ()
      | Inl e \<Rightarrow> (case e of PyError name m \<Rightarrow> if name = ''ValueError'' then raise (HttpError 400 m) else raise e
                | _ \<Rightarrow> raise e))"

definition insert_job :: "scheduled_job \<Rightarrow> ('w, unit) sop" where
  "insert_job = insert_row ''uq_scheduled_jobs_tenant_name'' jobs jobs_update
     (\<lambda>j x. jb_id x = jb_id j \<or> jb_tenant_id x = jb_tenant_id j \<and> jb_name x = jb_name j)"

definition create_scheduled_job ::
  "'w env \<Rightarrow> 'w timer \<Rightarrow> principal \<Rightarrow> job_create \<Rightarrow> ('w, scheduled_job) sop" where
  "create_scheduled_job E X p body =
     mseq (on_core (require_admin p))
     (mseq (check_cron X (jc_cron_expression body))
     (mbind (new_id E) (\<lambda>i. mbind (clock E) (\<lambda>t.
       let job = \<lparr>jb_id = i, jb_tenant_id = pr_tenant p, jb_name = jc_name body,
                  jb_cron_expression = jc_cron_expression body, jb_goal = jc_goal body,
                  jb_channel = jc_channel body, jb_channel_metadata = jc_channel_metadata body,
                  jb_enabled = jc_enabled body, jb_status = JS_idle, jb_last_run_at = None,
                  jb_next_run_at = None, jb_last_run_id = None, jb_created_at = t\<rparr>
       in mbind (refresh_job_next_run E X job) (\<lambda>job'.
          mseq (insert_job job') (mseq commit_all (ret job')))))))"

definition list_scheduled_jobs :: "principal \<Rightarrow> ('w, scheduled_job list) sop" where
  "list_scheduled_jobs p =
     mseq (on_core (require_admin p))
     (gets (\<lambda>s. sort_key jb_name (filter (\<lambda>j. jb_tenant_id j = pr_tenant p) (jobs (side s)))))"

definition changed_job :: "job_update \<Rightarrow> scheduled_job \<Rightarrow> scheduled_job" where
  "changed_job body job = job\<lparr>
     jb_cron_expression := set_or (ju_cron_expression body) (jb_cron_expression job),
     jb_goal := set_or (ju_goal body) (jb_goal job),
     jb_channel := set_or (ju_channel body) (jb_channel job),
     jb_channel_metadata := set_or (ju_channel_metadata body) (jb_channel_metadata job),
     jb_enabled := set_or (ju_enabled body) (jb_enabled job)\<rparr>"

definition update_scheduled_job ::
  "'w env \<Rightarrow> 'w timer \<Rightarrow> principal \<Rightarrow> uuid \<Rightarrow> job_update \<Rightarrow> ('w, scheduled_job) sop" where
  "update_scheduled_job E X p job_id body =
     mseq (on_core (require_admin p))
     (mbind (gets (\<lambda>s. filter (\<lambda>j. jb_id j = job_id \<and> jb_tenant_id j = pr_tenant p) (jobs (side s)))) (\<lambda>found.
      mbind (scalar_one_or_none found) (\<lambda>x.
      case x of
        None \<Rightarrow> raise (HttpError 404 ''scheduled job not found'')
      | Some job \<Rightarrow>
          mseq (case ju_cron_expression body of None \<Rightarrow> ret () | Some expression \<Rightarrow> check_cron X expression)
          (mbind (refresh_job_next_run E X (changed_job body job)) (\<lambda>job'.
           mseq (save_job job') (mseq commit_all (ret job')))))))"

end
