(* ===== verification/SchedulerRuns.thy ===== *)
theory SchedulerRuns
  imports Scheduler Access
begin

text \<open>
  What the scheduler promises: a round creates runs for due jobs only, at most one for each, and a
  job that was fired rests until its next time.
\<close>

section \<open>One firing\<close>

definition run_of_job :: "agent_run \<Rightarrow> scheduled_job \<Rightarrow> bool" where
  "run_of_job run job \<longleftrightarrow> run_tenant_id run = jb_tenant_id job \<and> run_goal run = jb_goal job
     \<and> run_channel run = jb_channel job \<and> run_channel_metadata run = job_metadata job
     \<and> run_created_by_user_id run = None \<and> run_status run = RS_pending"

lemma of_sum_run [simp]: "of_sum (Inl e) = raise e" "of_sum (Inr a) = ret a"
  by (simp_all add: of_sum_def)

lemma of_sum_state: "of_sum x s = (r, s') \<Longrightarrow> s' = s"
  by (cases x) auto

lemma run_save_job [simp]:
  "save_job job s = (Inr (), s\<lparr>side := jobs_update (map (\<lambda>x. if jb_id x = jb_id job then job else x)) (side s)\<rparr>)"
  by (simp add: save_job_def)

lemma save_twice:
  assumes "jb_id a = i"
  shows "jobs_update (map (\<lambda>x. if jb_id x = i then b else x)) (jobs_update (map (\<lambda>x. if jb_id x = i then a else x)) d)
    = jobs_update (map (\<lambda>x. if jb_id x = i then b else x)) d"
  using assms by (cases d) (auto simp: o_def)

lemma create_run_job:
  assumes "create_run E t g c md u a b d e s = (Inr run, s')"
  shows "run_channel run = c \<and> run_channel_metadata run = (case md of None \<Rightarrow> [] | Some m \<Rightarrow> m)
    \<and> run_created_by_user_id run = u"
  using assms
  by (auto simp: create_run_def mbind_def uuid4_def now_def Let_def insert_run_def split: prod.splits if_splits)

lemma create_run_fails:
  assumes "create_run E t g c md u a b d e s = (Inl x, s')"
  shows "runs (rows s') = runs (rows s) \<and> durable s' = durable s"
  using assms
  by (auto simp: create_run_def mbind_def uuid4_def now_def Let_def insert_run_def split: prod.splits if_splits)

lemma quota_keeps:
  assumes "enforce_tenant_run_quota E t s = (r, s')"
  shows "runs (rows s') = runs (rows s) \<and> durable s' = durable s"
  using assms
  by (auto simp: enforce_tenant_run_quota_def get_quota_def mbind_def now_def Let_def split: prod.splits option.splits if_splits)

lemma finish_firing_run:
  "finish_firing job s = (Inr (), s\<lparr>core := (core s)\<lparr>durable := rows (core s)\<rparr>,
     side := jobs_update (map (\<lambda>x. if jb_id x = jb_id job then job\<lparr>jb_status := resting_status job\<rparr> else x)) (side s),
     side_durable := jobs_update (map (\<lambda>x. if jb_id x = jb_id job then job\<lparr>jb_status := resting_status job\<rparr> else x)) (side s)\<rparr>)"
  by (simp add: finish_firing_def mbind_def)

definition fired_fields :: "agent_run \<Rightarrow> datetime \<Rightarrow> datetime option \<Rightarrow> scheduled_job \<Rightarrow> scheduled_job" where
  "fired_fields run t n job = job\<lparr>jb_status := resting_status job, jb_last_run_at := Some t,
     jb_last_run_id := Some (run_id run), jb_next_run_at := n\<rparr>"

text \<open>How a firing ends: refused, broken off before the commit, or committed.\<close>

lemma fire_cases:
  assumes "fire_scheduled_job E X Q job s = (r, s')"
  obtains (refused) e where "r = Inl e" and "runs (rows (core s')) = runs (rows (core s))"
      and "durable (core s') = durable (core s)" and "side s' = side s" and "side_durable s' = side_durable s"
  | (broken) e run where "r = Inl e" and "run_of_job run job" and "runs (rows (core s')) = runs (rows (core s)) @ [run]"
      and "durable (core s') = durable (core s)" and "side_durable s' = side_durable s"
  | (fired) run t n w where "r = Inr run \<or> (\<exists>e. r = Inl e \<and> Q (run_id run) (jb_tenant_id job) w = (Inl e, world (core s')))"
      and "run_of_job run job" and "runs (rows (core s')) = runs (rows (core s)) @ [run]"
      and "durable (core s') = rows (core s')" and "side_durable s' = side s'"
      and "next_run_time X (jb_cron_expression job) t = Inr n"
      and "side s' = jobs_update (map (\<lambda>x. if jb_id x = jb_id job then fired_fields run t n job else x)) (side s)"
      and "r = Inr run \<longrightarrow> Q (run_id run) (jb_tenant_id job) w = (Inr (), world (core s'))"
proof -
  obtain q s1 where q: "on_core (enforce_tenant_run_quota E (jb_tenant_id job)) s = (q, s1)" by fastforce
  then have q': "runs (rows (core s1)) = runs (rows (core s))" "durable (core s1) = durable (core s)"
    "side s1 = side s" "side_durable s1 = side_durable s"
    by (auto simp: run_on_core dest: quota_keeps)
  show thesis
  proof (cases q)
    case (Inl e)
    with q assms have "r = Inl e" "s' = s1" by (simp_all add: fire_scheduled_job_def)
    with q' refused show thesis by blast
  next
    case (Inr u)
    obtain c s2 where c: "on_core (create_run E (jb_tenant_id job) (jb_goal job) (jb_channel job)
        (Some (job_metadata job)) None None None None None) s1 = (c, s2)" by fastforce
    show thesis
    proof (cases c)
      case (Inl e)
      with c q \<open>q = Inr u\<close> assms have "r = Inl e" "s' = s2" by (simp_all add: fire_scheduled_job_def)
      moreover have "runs (rows (core s2)) = runs (rows (core s1))" "durable (core s2) = durable (core s1)"
        "side s2 = side s1" "side_durable s2 = side_durable s1"
        using c Inl by (auto simp: run_on_core dest: create_run_fails)
      ultimately show thesis using q' refused by metis
    next
      case (Inr run)
      have run: "run_of_job run job" and s2: "runs (rows (core s2)) = runs (rows (core s)) @ [run]"
        "durable (core s2) = durable (core s)" "side s2 = side s" "side_durable s2 = side_durable s"
        using c Inr q' by (auto simp: run_on_core run_of_job_def dest: create_run_cases create_run_job)
      obtain t w where clk: "clock E s2 = (Inr t, s2\<lparr>core := (core s2)\<lparr>world := w\<rparr>\<rparr>)"
        by (metis clock_state surj_pair)
      show thesis
      proof (cases "next_run_time X (jb_cron_expression job) t")
        case (Inl e)
        with clk c q \<open>q = Inr u\<close> \<open>c = Inr run\<close> assms
        obtain d where "r = Inl e" "s' = (s2\<lparr>core := (core s2)\<lparr>world := w\<rparr>\<rparr>)\<lparr>side := d\<rparr>"
          by (auto simp: fire_scheduled_job_def Let_def mbind_def)
        with run s2 show thesis by (intro broken [of e run]) simp_all
      next
        case (Inr n)
        let ?done = "fired_fields run t n job"
        obtain x v where x: "Q (run_id run) (jb_tenant_id job) w = (x, v)" by fastforce
        from x Inr clk c q \<open>q = Inr u\<close> \<open>c = Inr run\<close> assms
        have "r = (case x of Inl e \<Rightarrow> Inl e | Inr _ \<Rightarrow> Inr run)"
          and "core s' = (core s2)\<lparr>world := v, durable := rows (core s2)\<rparr>" and "side_durable s' = side s'"
          and "side s' = jobs_update (map (\<lambda>y. if jb_id y = jb_id job then ?done else y)) (side s2)"
          by (auto simp: fire_scheduled_job_def Let_def mbind_def mcatch_def on_core_def publish_def finish_firing_run
              save_twice fired_fields_def resting_status_def split: sum.splits)
        with x run s2 Inr show thesis by (intro fired [of run w t n]) (auto split: sum.splits)
      qed
    qed
  qed
qed

section \<open>A round\<close>

text \<open>The runs created so far belong, in order, to some of the jobs taken so far.\<close>

definition from_jobs :: "agent_run list \<Rightarrow> scheduled_job list \<Rightarrow> agent_run list \<Rightarrow> bool" where
  "from_jobs before taken after \<longleftrightarrow>
     (\<exists>news js. after = before @ news \<and> subseq js taken \<and> list_all2 run_of_job news js)"

lemma from_jobs_start: "from_jobs before [] before"
  by (auto simp: from_jobs_def)

lemma from_jobs_skip: "from_jobs before taken after \<Longrightarrow> from_jobs before (taken @ [job]) after"
  by (auto simp: from_jobs_def intro: subseq_rev_drop_many)

lemma from_jobs_take:
  "from_jobs before taken after \<Longrightarrow> run_of_job run job \<Longrightarrow> from_jobs before (taken @ [job]) (after @ [run])"
  unfolding from_jobs_def
  by (metis append.assoc list_all2_Cons list_all2_Nil list_all2_appendI list_emb_append_mono subseq_order.order_refl)

lemma fire_from_jobs:
  assumes "fire_scheduled_job E X Q job s = (r, s')"
    and "from_jobs before taken (runs (rows (core s)))" and "from_jobs before taken (runs (durable (core s)))"
  shows "from_jobs before (taken @ [job]) (runs (rows (core s')))"
    and "from_jobs before (taken @ [job]) (runs (durable (core s')))"
  using assms(1)
  by (cases rule: fire_cases; simp add: assms(2,3) from_jobs_skip from_jobs_take)+

lemma round_from_jobs:
  assumes "for_each due (fire_and_log E X Q) s = (r, s')"
    and "from_jobs before taken (runs (rows (core s)))" and "from_jobs before taken (runs (durable (core s)))"
  shows "r = Inr () \<and> from_jobs before (taken @ due) (runs (durable (core s')))"
  using assms
proof (induction due arbitrary: s taken)
  case Nil
  then show ?case by simp
next
  case (Cons job due)
  obtain x s1 where f: "fire_scheduled_job E X Q job s = (x, s1)" by fastforce
  then have "fire_and_log E X Q job s = (Inr (), s1)"
    by (cases x) (simp_all add: fire_and_log_def mcatch_def)
  with Cons.prems(1) have "for_each due (fire_and_log E X Q) s1 = (r, s')"
    by simp
  from Cons.IH [OF this fire_from_jobs [OF f Cons.prems(2,3)]] show ?case by simp
qed

text \<open>
  C40. A round fires each due job at most once: the runs it leaves belong, one by one and in order,
  to jobs that were enabled and due at the time it read, with their tenant, goal, channel and name,
  whatever fails in between; and there are none unless this scheduler is the leader.
\<close>

theorem scheduler_round_fires_due_once:
  assumes "next_session s = s" and "scheduler_round E X Q s = (r, s')"
    and "tm_set_leader X (cfg_scheduler_lease_ttl_seconds (env_settings E)) (world (core s)) = (acquired, w)"
  shows "\<exists>news js. runs (durable (core s')) = runs (durable (core s)) @ news \<and> list_all2 run_of_job news js
    \<and> subseq js (list_due_jobs (side s) (fst (env_now E w)))
    \<and> (\<forall>j \<in> set js. j \<in> set (jobs (side s)) \<and> is_due (fst (env_now E w)) j)
    \<and> (acquired \<noteq> Inr True \<longrightarrow> news = [])"
proof (cases "acquired = Inr True")
  case False
  with assms(2,3) have "durable (core s') = durable (core s)"
    by (auto simp: scheduler_round_def mbind_def outside_def on_core_def mwhen_def split: sum.splits if_splits)
  then show ?thesis by (intro exI [of _ "[]"]) simp
next
  case True
  let ?due = "list_due_jobs (side s) (fst (env_now E w))"
  let ?s = "s\<lparr>core := (core s)\<lparr>world := snd (env_now E w)\<rparr>\<rparr>"
  obtain x s1 where f: "for_each ?due (fire_and_log E X Q) ?s = (x, s1)"
    by fastforce
  have "rows (core s) = durable (core s)" using arg_cong [OF assms(1), of "\<lambda>x. rows (core x)"] by (simp add: next_session_def crash_def)
  with round_from_jobs [OF f, of "runs (durable (core s))" "[]"] have "x = Inr ()"
    and made: "from_jobs (runs (durable (core s))) ?due (runs (durable (core s1)))"
    by (simp_all add: from_jobs_start)
  have lead: "outside (tm_set_leader X (cfg_scheduler_lease_ttl_seconds (env_settings E))) s
      = (Inr True, s\<lparr>core := (core s)\<lparr>world := w\<rparr>\<rparr>)"
    using assms(3) True by (simp add: outside_def on_core_def)
  moreover have "clock E (s\<lparr>core := (core s)\<lparr>world := w\<rparr>\<rparr>) = (Inr (fst (env_now E w)), ?s)"
    by (simp add: clock_def on_core_def now_def split_beta)
  ultimately have "s' = next_session s1"
    using assms(2) f \<open>x = Inr ()\<close> by (simp add: scheduler_round_def mwhen_def)
  with made obtain news js where "runs (durable (core s')) = runs (durable (core s)) @ news"
    and "subseq js ?due" and "list_all2 run_of_job news js"
    by (auto simp: from_jobs_def next_session_def crash_def)
  moreover have "j \<in> set (jobs (side s)) \<and> is_due (fst (env_now E w)) j" if "j \<in> set js" for j
    using that list_emb_set [OF \<open>subseq js ?due\<close> that] by (auto simp: list_due_jobs_def)
  ultimately show ?thesis using True by blast
qed

text \<open>
  A fired job rests: its run is durable and handed to the workers, and the job's row holds this run,
  the moment of the firing and the time its expression gives from that moment on.
\<close>

theorem fired_job_rests:
  assumes "fire_scheduled_job E X Q job s = (Inr run, s')" and "job \<in> set (jobs (side s))"
  shows "run \<in> set (runs (durable (core s'))) \<and> run_of_job run job
    \<and> (\<exists>w. Q (run_id run) (jb_tenant_id job) w = (Inr (), world (core s')))
    \<and> (\<exists>t n. next_run_time X (jb_cron_expression job) t = Inr n
         \<and> fired_fields run t n job \<in> set (jobs (side_durable s')))"
  using assms(1)
proof (cases rule: fire_cases)
  case (fired run' t n w)
  then have "run' = run" by simp
  moreover have "fired_fields run t n job \<in> set (jobs (side s'))"
    using fired(7) assms(2) \<open>run' = run\<close> by (cases "side s") force
  ultimately show ?thesis using fired by auto
qed simp_all

section \<open>Witnesses and what goes wrong\<close>

definition sample_job :: scheduled_job where
  "sample_job = \<lparr>jb_id = 30, jb_tenant_id = 1, jb_name = ''daily'', jb_cron_expression = ''0 9 * * *'',
     jb_goal = ''report'', jb_channel = CH_schedule, jb_channel_metadata = [], jb_enabled = True,
     jb_status = JS_idle, jb_last_run_at = None, jb_next_run_at = Some 90, jb_last_run_id = None,
     jb_created_at = 0\<rparr>"

definition sample_timer :: "nat timer" where
  "sample_timer = \<lparr>tm_from_crontab = (\<lambda>_. Inr (\<lambda>t. Some (t + 1000))), tm_set_leader = (\<lambda>_ w. (Inr True, w))\<rparr>"

definition job_site :: "nat site" where
  "job_site = sample_site\<lparr>side := sample_side\<lparr>jobs := [sample_job]\<rparr>, side_durable := sample_side\<lparr>jobs := [sample_job]\<rparr>\<rparr>"

definition ready_broker :: "nat broker" where
  "ready_broker = (\<lambda>i t w. (Inr (), w))"

definition lost_broker :: "nat broker" where
  "lost_broker = (\<lambda>i t w. (Inl (PyError ''ConnectionError'' ''no broker''), w))"

lemma one_round: "length (runs (durable (core (snd (scheduler_round sample_env sample_timer ready_broker job_site))))) = 2"
  by code_simp

theorem scheduler_witness:
  "\<exists>run. runs (durable (core (snd (scheduler_round sample_env sample_timer ready_broker job_site)))) = [sample_run, run]
    \<and> run_of_job run sample_job"
proof -
  obtain r s' where run: "scheduler_round sample_env sample_timer ready_broker job_site = (r, s')" by fastforce
  have "next_session job_site = job_site" "runs (durable (core job_site)) = [sample_run]" "jobs (side job_site) = [sample_job]"
    by (simp_all add: next_session_def crash_def job_site_def sample_site_def sample_st_def state_of_def)
  moreover have "tm_set_leader sample_timer (cfg_scheduler_lease_ttl_seconds (env_settings sample_env)) (world (core job_site))
      = (Inr True, world (core job_site))"
    by (simp add: sample_timer_def)
  ultimately obtain news js where "runs (durable (core s')) = sample_run # news" "list_all2 run_of_job news js"
    and "\<forall>j \<in> set js. j = sample_job"
    using scheduler_round_fires_due_once [OF _ run] by auto
  then show ?thesis using one_round run by (cases news; cases js) auto
qed

text \<open>A run that cannot be published stays behind, while its job has moved on: it is never tried again.\<close>

lemma unpublished_firing_moves_on:
  "let s = snd (scheduler_round sample_env sample_timer lost_broker job_site) in
   length (runs (durable (core s))) = 2 \<and> map jb_status (jobs (side_durable s)) = [JS_idle]
   \<and> list_due_jobs (side_durable s) 1000 = []"
  by code_simp

text \<open>
  Nothing ties a firing to the row it was read from: a scheduler whose lease ran out in a long round
  and its successor, both of which have read the job as due, fire it twice.
\<close>

lemma overlapping_schedulers_fire_twice:
  "let s = next_session (snd (fire_scheduled_job sample_env sample_timer ready_broker sample_job job_site));
       t = snd (fire_scheduled_job sample_env sample_timer ready_broker sample_job s)
   in length (runs (durable (core t))) = 3"
  by code_simp

end
