(* ===== verification/Trim.thy ===== *)
theory Trim
  imports Context Guardrails Samples "HOL-Library.Product_Lexorder" "HOL-Library.Multiset"
begin

text \<open>
  marcus_code/runtime/token_utils.py: the size estimate of a message, its importance, and the two
  trims of the retained history, by number of messages and by tokens. Token ratios are exact
  rationals; \<open>orjson.loads\<close> is a parameter. The locale \<open>trimming\<close> has what any trim by a
  size of messages promises; it is interpreted on both.
\<close>

section \<open>Estimates and scores\<close>

definition code_chars :: string where
  "code_chars = ''{}[]()=;|&<>!+-*/%:'' @ [CHR 0x5C, CHR 0x5C, CHR 0x27, CHR 0x22]"

definition is_mostly_code :: "string \<Rightarrow> bool" where
  "is_mostly_code t =
     (if t = [] then False
      else 3 * max 1 (length t) < 100 * length (filter (\<lambda>c. c \<in> set code_chars) t))"

text \<open>The text a message is measured by: its content, its calls as JSON, its name and call id.\<close>

definition measured_text :: "'w env \<Rightarrow> llm_message \<Rightarrow> string" where
  "measured_text E m =
     (case lm_content m of None \<Rightarrow> [] | Some c \<Rightarrow> c)
     @ (if lm_tool_calls m = [] then []
        else env_dumps E (JList (map (\<lambda>c. JObj
          [(''id'', JStr (tc_id c)), (''type'', JStr ''function''),
           (''function'', JObj [(''name'', JStr (tc_name c)),
                                (''arguments'', JStr (env_dumps E (tc_arguments c)))])]) (lm_tool_calls m))))
     @ (case lm_name m of None \<Rightarrow> [] | Some n \<Rightarrow> if n = [] then [] else [CHR 10] @ ''['' @ n @ '']'')
     @ (case lm_tool_call_id m of None \<Rightarrow> [] | Some i \<Rightarrow> if i = [] then [] else [CHR 10] @ ''(id: '' @ i @ '')'')"

text \<open>3.5 characters per token for code, 4 for prose, and 4 tokens of overhead.\<close>

definition estimate_message_tokens :: "'w env \<Rightarrow> llm_message \<Rightarrow> int" where
  "estimate_message_tokens E m =
     (let t = measured_text E m; n = int (length t)
      in max 1 (4 + (if is_mostly_code t then n * 2 div 7 else n div 4)))"

definition role_score :: "message_role \<Rightarrow> int" where
  "role_score r = (case r of MR_system \<Rightarrow> 1000 | MR_user \<Rightarrow> 500 | MR_assistant \<Rightarrow> 300 | MR_tool \<Rightarrow> 100)"

definition result_score :: "'w env \<Rightarrow> json option \<Rightarrow> int" where
  "result_score E data =
     (case data of
        Some (JObj d) \<Rightarrow>
          (if \<not> py_eq (case dict_get d ''exit_code'' of None \<Rightarrow> JInt 0 | Some v \<Rightarrow> v) (JInt 0) \<or> dict_has d ''error''
           then 150 else 0)
          + (if dict_get d ''status'' = Some (JStr ''ok'') \<and> str_contains ''verification'' (str_lower (env_str E (JObj d)))
             then 100 else 0)
      | _ \<Rightarrow> 0)"

definition importance :: "'w env \<Rightarrow> (string \<Rightarrow> json option) \<Rightarrow> llm_message \<Rightarrow> int" where
  "importance E loads m =
     role_score (lm_role m)
     + (case lm_content m of
          Some c \<Rightarrow> if lm_role m = MR_tool \<and> c \<noteq> [] then result_score E (loads c) else 0
        | None \<Rightarrow> 0)"

definition rank_message_importance :: "'w env \<Rightarrow> (string \<Rightarrow> json option) \<Rightarrow> llm_message list \<Rightarrow> (nat \<times> int) list" where
  "rank_message_importance E loads ms = map (\<lambda>(i, m). (i, importance E loads m)) (enumerate 0 ms)"

section \<open>Groups\<close>

text \<open>A request for tools with the results that follow it is one group of indices.\<close>

definition is_tool :: "llm_message \<Rightarrow> bool" where
  "is_tool m \<longleftrightarrow> lm_role m = MR_tool"

definition results_after :: "llm_message list \<Rightarrow> nat \<Rightarrow> nat" where
  "results_after ms i =
     (if lm_role (ms ! i) = MR_assistant \<and> lm_tool_calls (ms ! i) \<noteq> []
      then length (takeWhile is_tool (drop (Suc i) ms)) else 0)"

function groups_from :: "llm_message list \<Rightarrow> nat \<Rightarrow> nat list list" where
  "groups_from ms i =
     (if i < length ms
      then [i ..< Suc i + results_after ms i] # groups_from ms (Suc i + results_after ms i)
      else [])"
  by pat_completeness auto

termination
  by (relation "measure (\<lambda>(ms, i). length ms - i)") auto

declare groups_from.simps [simp del]

definition atomic_message_groups :: "llm_message list \<Rightarrow> nat list list" where
  "atomic_message_groups ms = groups_from ms 0"

section \<open>Trimming\<close>

definition protected :: "llm_message list \<Rightarrow> bool \<Rightarrow> bool \<Rightarrow> nat set" where
  "protected ms preserve_system preserve_latest_user =
     (if preserve_system then set (filter (\<lambda>i. lm_role (ms ! i) = MR_system) [0..<length ms]) else {})
     \<union> (if preserve_latest_user
        then (case find (\<lambda>i. lm_role (ms ! i) = MR_user) (rev [0..<length ms]) of None \<Rightarrow> {} | Some i \<Rightarrow> {i})
        else {})"

text \<open>The order in which groups are given up: least important first, then oldest first.\<close>

definition candidates :: "(nat \<times> int) list \<Rightarrow> nat list list \<Rightarrow> nat list" where
  "candidates scores gs =
     sort_key (\<lambda>g. (Max ((\<lambda>i. the (map_of scores i)) ` set (gs ! g)), g)) [0..<length gs]"

fun drop_groups :: "(nat list \<Rightarrow> int) \<Rightarrow> nat set \<Rightarrow> int \<Rightarrow> nat list list \<Rightarrow> nat list \<Rightarrow> nat set \<Rightarrow> int \<Rightarrow> nat set" where
  "drop_groups weight prot limit gs [] keep current = keep"
| "drop_groups weight prot limit gs (g # rest) keep current =
     (if (\<exists>i \<in> set (gs ! g). i \<in> prot) \<or> g \<notin> keep then drop_groups weight prot limit gs rest keep current
      else
        let keep' = keep - {g}; current' = current - weight (gs ! g) in
        if current' \<le> limit then keep' else drop_groups weight prot limit gs rest keep' current')"

definition kept_messages :: "llm_message list \<Rightarrow> nat list list \<Rightarrow> nat set \<Rightarrow> llm_message list" where
  "kept_messages ms gs keep =
     (let kept = \<Union>g \<in> keep. set (gs ! g) in map snd (filter (\<lambda>(i, m). i \<in> kept) (enumerate 0 ms)))"

definition trim_messages_to_count ::
  "'w env \<Rightarrow> (string \<Rightarrow> json option) \<Rightarrow> llm_message list \<Rightarrow> int \<Rightarrow> bool \<Rightarrow> bool \<Rightarrow> llm_message list" where
  "trim_messages_to_count E loads ms max_messages preserve_system preserve_latest_user =
     (if int (length ms) \<le> max_messages then ms
      else
        let gs = atomic_message_groups ms;
            keep = drop_groups (\<lambda>g. int (length g)) (protected ms preserve_system preserve_latest_user) max_messages gs
                     (candidates (rank_message_importance E loads ms) gs) (set [0..<length gs]) (int (length ms))
        in kept_messages ms gs keep)"

definition trim_messages_to_budget ::
  "'w env \<Rightarrow> (string \<Rightarrow> json option) \<Rightarrow> llm_message list \<Rightarrow> int \<Rightarrow> bool \<Rightarrow> bool \<Rightarrow> llm_message list" where
  "trim_messages_to_budget E loads ms token_budget preserve_system preserve_latest_user =
     (if ms = [] then []
      else
        let gs = atomic_message_groups ms; current = (\<Sum>m\<leftarrow>ms. estimate_message_tokens E m) in
        if current \<le> token_budget then ms
        else
          let keep = drop_groups (\<lambda>g. \<Sum>i\<leftarrow>g. estimate_message_tokens E (ms ! i))
                       (protected ms preserve_system preserve_latest_user) token_budget gs
                       (candidates (rank_message_importance E loads ms) gs) (set [0..<length gs]) current
          in kept_messages ms gs keep)"

section \<open>The groups are consecutive\<close>

lemma results_after_bound: "i < length ms \<Longrightarrow> Suc i + results_after ms i \<le> length ms"
  using length_takeWhile_le [of is_tool "drop (Suc i) ms"] by (auto simp: results_after_def)

lemma groups_from_concat: "i \<le> length ms \<Longrightarrow> concat (groups_from ms i) = [i..<length ms]"
proof (induction ms i rule: groups_from.induct)
  case (1 ms i)
  show ?case
  proof (cases "i < length ms")
    case True
    note b = results_after_bound [OF True]
    have "concat (groups_from ms i) = [i ..< Suc i + results_after ms i] @ [Suc i + results_after ms i ..< length ms]"
      using 1 True b by (subst groups_from.simps) simp
    also have "\<dots> = [i..<length ms]" 
    proof (rule nth_equalityI)
      fix k assume "k < length ([i ..< Suc i + results_after ms i] @ [Suc i + results_after ms i ..< length ms])"
      then show "([i ..< Suc i + results_after ms i] @ [Suc i + results_after ms i ..< length ms]) ! k = [i..<length ms] ! k"
        using b by (auto simp: nth_append simp del: upt_Suc)
    qed (use b in simp)
    finally show ?thesis .
  next
    case False
    with 1 show ?thesis by (subst groups_from.simps) simp
  qed
qed

lemma groups_concat: "concat (atomic_message_groups ms) = [0..<length ms]"
  using groups_from_concat [of 0 ms] by (simp add: atomic_message_groups_def)

lemma concat_disjoint:
  "distinct (concat xss) \<Longrightarrow> g < length xss \<Longrightarrow> h < length xss \<Longrightarrow> g \<noteq> h \<Longrightarrow> set (xss ! g) \<inter> set (xss ! h) = {}"
proof (induction xss arbitrary: g h)
  case (Cons x xss)
  have "set (xss ! k) \<subseteq> set (concat xss)" if "k < length xss" for k using nth_mem [OF that] by auto
  then have "set x \<inter> set (xss ! k) = {}" if "k < length xss" for k using that Cons.prems(1) by fastforce
  with Cons show ?case by (cases g; cases h) auto
qed simp

lemma groups_disjoint:
  assumes "g < length (atomic_message_groups ms)" and "h < length (atomic_message_groups ms)"
    and "i \<in> set (atomic_message_groups ms ! g)" and "i \<in> set (atomic_message_groups ms ! h)"
  shows "g = h"
  using concat_disjoint [of "atomic_message_groups ms" g h] assms by (auto simp: groups_concat)

text \<open>The messages that are kept are those of the groups that are kept, group after group.\<close>

definition group_messages :: "llm_message list \<Rightarrow> nat \<Rightarrow> llm_message list" where
  "group_messages ms g = map ((!) ms) (atomic_message_groups ms ! g)"

lemma filter_of_concat: "filter P (concat xss) = concat (map (filter P) xss)"
  by (induction xss) auto

lemma enumerate_map: "enumerate 0 xs = map (\<lambda>i. (i, xs ! i)) [0..<length xs]"
  by (rule nth_equalityI) (auto simp: nth_enumerate_eq)

lemma concat_map_if: "concat (map (\<lambda>x. if P x then f x else []) xs) = concat (map f (filter P xs))"
  by (induction xs) auto

lemma kept_messages_concat:
  assumes "keep \<subseteq> {..<length (atomic_message_groups ms)}"
  shows "kept_messages ms (atomic_message_groups ms) keep
    = concat (map (group_messages ms) (filter (\<lambda>g. g \<in> keep) [0..<length (atomic_message_groups ms)]))"
proof -
  let ?gs = "atomic_message_groups ms" and ?kept = "\<Union>g \<in> keep. set (atomic_message_groups ms ! g)"
  have "kept_messages ms ?gs keep = map ((!) ms) (filter (\<lambda>i. i \<in> ?kept) [0..<length ms])"
    by (simp add: kept_messages_def Let_def enumerate_map filter_map o_def)
  also have "\<dots> = map ((!) ms) (concat (map (filter (\<lambda>i. i \<in> ?kept)) ?gs))"
    unfolding groups_concat [symmetric] filter_of_concat ..
  also have "map (filter (\<lambda>i. i \<in> ?kept)) ?gs = map (\<lambda>g. if g \<in> keep then ?gs ! g else []) [0..<length ?gs]"
  proof (rule nth_equalityI)
    fix g assume "g < length (map (filter (\<lambda>i. i \<in> ?kept)) ?gs)"
    then have g: "g < length ?gs" by simp
    have "i \<in> ?kept \<longleftrightarrow> g \<in> keep" if "i \<in> set (?gs ! g)" for i
      using groups_disjoint [OF g _ that] that assms by fastforce
    with g show "map (filter (\<lambda>i. i \<in> ?kept)) ?gs ! g = map (\<lambda>g. if g \<in> keep then ?gs ! g else []) [0..<length ?gs] ! g"
      by (auto intro: filter_True filter_False)
  qed simp
  also have "map ((!) ms) (concat \<dots>) = concat (map (\<lambda>g. if g \<in> keep then group_messages ms g else []) [0..<length ?gs])"
    by (simp add: map_concat o_def group_messages_def if_distrib cong: if_cong)
  finally show ?thesis by (simp add: concat_map_if)
qed

lemma all_groups: "concat (map (group_messages ms) [0..<length (atomic_message_groups ms)]) = ms"
proof -
  have "concat (map (group_messages ms) [0..<length (atomic_message_groups ms)])
      = map ((!) ms) (concat (map ((!) (atomic_message_groups ms)) [0..<length (atomic_message_groups ms)]))"
    by (simp add: map_concat o_def group_messages_def [abs_def])
  then show ?thesis by (simp add: map_nth groups_concat)
qed

lemma kept_subseq: "subseq (kept_messages ms gs keep) ms"
proof -
  have "subseq (map snd (filter (\<lambda>(i, m). i \<in> (\<Union>g \<in> keep. set (gs ! g))) (enumerate 0 ms))) (map snd (enumerate 0 ms))"
    by (intro subseq_map subseq_filter_left)
  then show ?thesis by (simp add: kept_messages_def Let_def)
qed

section \<open>What a trim promises\<close>

definition touches :: "nat set \<Rightarrow> nat list \<Rightarrow> bool" where
  "touches prot g \<longleftrightarrow> (\<exists>i \<in> set g. i \<in> prot)"

lemma drop_groups_subset: "drop_groups weight prot limit gs cands keep current \<subseteq> keep"
proof (induction cands arbitrary: keep current)
  case (Cons c cands)
  have "drop_groups weight prot limit gs cands (keep - {c}) k \<subseteq> keep" for k using Cons [of "keep - {c}" k] by blast
  with Cons [of keep current] show ?case by (simp add: Let_def)
qed simp

lemma drop_groups_protects:
  assumes "g \<in> keep" and "touches prot (gs ! g)"
  shows "g \<in> drop_groups weight prot limit gs cands keep current"
  using assms(1)
proof (induction cands arbitrary: keep current)
  case (Cons c cands)
  show ?case
  proof (cases "touches prot (gs ! c) \<or> c \<notin> keep")
    case True
    with Cons show ?thesis by (simp add: touches_def)
  next
    case False
    with assms(2) Cons.prems have "g \<in> keep - {c}" by auto
    with Cons.IH [OF this] False show ?thesis by (simp add: Let_def touches_def)
  qed
qed simp

text \<open>The total that is compared with the limit is the weight of what is kept.\<close>

lemma drop_groups_limit:
  assumes "drop_groups weight prot limit gs cands keep current = kept" and "finite keep"
    and "current = (\<Sum>g \<in> keep. weight (gs ! g))"
  shows "(\<Sum>g \<in> kept. weight (gs ! g)) \<le> limit
    \<or> (\<forall>g \<in> set cands. g \<in> kept \<longrightarrow> touches prot (gs ! g))"
  using assms
proof (induction cands arbitrary: keep current)
  case (Cons c cands)
  show ?case
  proof (cases "touches prot (gs ! c) \<or> c \<notin> keep")
    case True
    with Cons.prems have d: "drop_groups weight prot limit gs cands keep current = kept"
      by (simp add: touches_def split: if_splits)
    have "c \<notin> keep \<Longrightarrow> c \<notin> kept" using drop_groups_subset [of weight prot limit gs cands] d by blast
    with Cons.IH [OF d Cons.prems(2,3)] True show ?thesis by auto
  next
    case False
    let ?keep = "keep - {c}"
    have cur: "current - weight (gs ! c) = (\<Sum>g \<in> ?keep. weight (gs ! g))"
      using False Cons.prems(2,3) by (simp add: sum_diff1)
    show ?thesis
    proof (cases "current - weight (gs ! c) \<le> limit")
      case True
      with False Cons.prems(1) have "kept = ?keep" by (simp add: touches_def Let_def)
      with True cur show ?thesis by simp
    next
      case over: False
      with False Cons.prems(1) have d: "drop_groups weight prot limit gs cands ?keep (current - weight (gs ! c)) = kept"
        by (simp add: touches_def Let_def)
      have "c \<notin> kept" using drop_groups_subset [of weight prot limit gs cands] d by blast
      with Cons.IH [OF d _ cur] Cons.prems(2) show ?thesis by auto
    qed
  qed
qed simp

lemma sum_list_of_concat: "(\<Sum>x\<leftarrow>concat (map f ys). g x) = (\<Sum>y\<leftarrow>ys. \<Sum>x\<leftarrow>f y. g x)"
  by (induction ys) auto

lemma set_candidates [simp]: "set (candidates scores gs) = {..<length gs}"
  by (auto simp: candidates_def)

text \<open>
  A trim by a cost of messages: \<open>trimmed\<close> is what is left of \<open>ms\<close> when groups are given up,
  in some order of all of them, until the costs are within the limit.
\<close>

definition trimmed :: "(llm_message \<Rightarrow> int) \<Rightarrow> nat set \<Rightarrow> int \<Rightarrow> llm_message list \<Rightarrow> nat list \<Rightarrow> llm_message list" where
  "trimmed cost prot limit ms cands =
     (let gs = atomic_message_groups ms in
      kept_messages ms gs (drop_groups (\<lambda>g. \<Sum>i\<leftarrow>g. cost (ms ! i)) prot limit gs cands (set [0..<length gs])
        (\<Sum>m\<leftarrow>ms. cost m)))"

locale trimming =
  fixes cost :: "llm_message \<Rightarrow> int"
    and trim :: "llm_message list \<Rightarrow> int \<Rightarrow> llm_message list"
    and prot :: "llm_message list \<Rightarrow> nat set"
    and order :: "llm_message list \<Rightarrow> nat list"
  assumes cost_nonneg: "0 \<le> cost m"
    and order_all: "set (order ms) = {..<length (atomic_message_groups ms)}"
    and trim_eq: "trim ms limit =
      (if (\<Sum>m\<leftarrow>ms. cost m) \<le> limit then ms else trimmed cost (prot ms) limit ms (order ms))"
begin

definition kept_groups :: "llm_message list \<Rightarrow> int \<Rightarrow> nat set" where
  "kept_groups ms limit =
     (if (\<Sum>m\<leftarrow>ms. cost m) \<le> limit then {..<length (atomic_message_groups ms)}
      else drop_groups (\<lambda>g. \<Sum>i\<leftarrow>g. cost (ms ! i)) (prot ms) limit (atomic_message_groups ms) (order ms)
             (set [0..<length (atomic_message_groups ms)]) (\<Sum>m\<leftarrow>ms. cost m))"

lemma kept_groups_bound: "kept_groups ms limit \<subseteq> {..<length (atomic_message_groups ms)}"
  using drop_groups_subset [of "\<lambda>g. \<Sum>i\<leftarrow>g. cost (ms ! i)" "prot ms" limit "atomic_message_groups ms" "order ms"
      "set [0..<length (atomic_message_groups ms)]"]
  by (simp add: kept_groups_def atLeast0LessThan)

lemma trim_groups:
  "trim ms limit = concat (map (group_messages ms)
     (filter (\<lambda>g. g \<in> kept_groups ms limit) [0..<length (atomic_message_groups ms)]))"
proof (cases "(\<Sum>m\<leftarrow>ms. cost m) \<le> limit")
  case True
  then show ?thesis using all_groups [of ms] by (simp add: trim_eq kept_groups_def)
next
  case False
  with kept_messages_concat [OF kept_groups_bound [of ms limit]] show ?thesis
    by (simp add: trim_eq trimmed_def Let_def kept_groups_def)
qed

lemma trim_subseq: "subseq (trim ms limit) ms"
  by (simp add: trim_eq trimmed_def Let_def kept_subseq)

lemma trim_keeps_protected:
  assumes "i \<in> prot ms" and "i < length ms"
  shows "ms ! i \<in> set (trim ms limit)"
proof -
  have "i \<in> set (concat (atomic_message_groups ms))" using assms(2) by (simp add: groups_concat)
  then obtain g where g: "g < length (atomic_message_groups ms)" "i \<in> set (atomic_message_groups ms ! g)"
    by (auto simp: in_set_conv_nth [of _ "atomic_message_groups ms"])
  have "touches (prot ms) (atomic_message_groups ms ! g)" using assms(1) g(2) by (auto simp: touches_def)
  then have "g \<in> kept_groups ms limit"
    using g(1) by (auto simp: kept_groups_def intro: drop_groups_protects)
  then show ?thesis using g by (auto simp: trim_groups group_messages_def)
qed

text \<open>What is left is within the limit, or nothing that is left may be given up.\<close>

lemma trim_limit:
  "(\<Sum>m\<leftarrow>trim ms limit. cost m) \<le> limit
   \<or> (\<forall>g \<in> kept_groups ms limit. touches (prot ms) (atomic_message_groups ms ! g))"
proof (cases "(\<Sum>m\<leftarrow>ms. cost m) \<le> limit")
  case True
  then show ?thesis by (simp add: trim_eq)
next
  case False
  let ?gs = "atomic_message_groups ms" and ?w = "\<lambda>g. \<Sum>i\<leftarrow>g. cost (ms ! i)"
  have w: "?w (?gs ! g) = (\<Sum>m\<leftarrow>group_messages ms g. cost m)" for g by (simp add: group_messages_def o_def)
  have sum: "(\<Sum>g \<in> K. ?w (?gs ! g)) = (\<Sum>m\<leftarrow>concat (map (group_messages ms) (filter (\<lambda>g. g \<in> K) [0..<length ?gs])). cost m)"
    if "K \<subseteq> {..<length ?gs}" for K
  proof -
    have "set (filter (\<lambda>g. g \<in> K) [0..<length ?gs]) = K" using that by auto
    then have "(\<Sum>g \<in> K. ?w (?gs ! g)) = (\<Sum>g\<leftarrow>filter (\<lambda>g. g \<in> K) [0..<length ?gs]. ?w (?gs ! g))"
      using sum_list_distinct_conv_sum_set [of "filter (\<lambda>g. g \<in> K) [0..<length ?gs]" "\<lambda>g. ?w (?gs ! g)"] by simp
    then show ?thesis by (simp add: sum_list_of_concat w)
  qed
  have "(\<Sum>m\<leftarrow>ms. cost m) = (\<Sum>g \<in> set [0..<length ?gs]. ?w (?gs ! g))"
    using sum [of "{..<length ?gs}"] all_groups [of ms] by (simp add: atLeast0LessThan)
  moreover have "drop_groups (\<lambda>g. \<Sum>i\<leftarrow>g. cost (ms ! i)) (prot ms) limit ?gs (order ms) (set [0..<length ?gs])
      (\<Sum>m\<leftarrow>ms. cost m) = kept_groups ms limit"
    using False by (simp add: kept_groups_def)
  ultimately have "(\<Sum>g \<in> kept_groups ms limit. ?w (?gs ! g)) \<le> limit
      \<or> (\<forall>g \<in> set (order ms). g \<in> kept_groups ms limit \<longrightarrow> touches (prot ms) (?gs ! g))"
    by (intro drop_groups_limit) auto
  then show ?thesis
    using sum [OF kept_groups_bound [of ms limit]] kept_groups_bound [of ms limit] order_all
    by (auto simp: trim_groups)
qed

lemma trim_reaches:
  "\<exists>keep. trim ms limit = concat (map (group_messages ms) keep) \<and> subseq keep [0..<length (atomic_message_groups ms)]
    \<and> ((\<Sum>m\<leftarrow>trim ms limit. cost m) \<le> limit \<or> (\<forall>g \<in> set keep. touches (prot ms) (atomic_message_groups ms ! g)))"
  using trim_limit [of ms limit]
  by (intro exI [of _ "filter (\<lambda>g. g \<in> kept_groups ms limit) [0..<length (atomic_message_groups ms)]"])
    (auto simp: trim_groups)

end

section \<open>Requests and results stay together\<close>

text \<open>Only the assistant asks for tools.\<close>

definition asks_as_assistant :: "llm_message list \<Rightarrow> bool" where
  "asks_as_assistant ms \<longleftrightarrow> (\<forall>m \<in> set ms. lm_tool_calls m \<noteq> [] \<longrightarrow> lm_role m = MR_assistant)"

text \<open>
  A conversation: the results of a request follow it before anything else, one for each call, in
  whatever order.
\<close>

fun conversation_ok :: "string multiset \<Rightarrow> llm_message list \<Rightarrow> bool" where
  "conversation_ok ids [] = (ids = {#})"
| "conversation_ok ids (m # ms) =
     (if lm_role m = MR_tool
      then (case lm_tool_call_id m of
              None \<Rightarrow> False | Some i \<Rightarrow> i \<in># ids \<and> conversation_ok (ids - {#i#}) ms)
      else ids = {#} \<and> conversation_ok (mset (map tc_id (lm_tool_calls m))) ms)"

lemma transcript_conversation: "transcript_ok ids ms \<Longrightarrow> conversation_ok (mset ids) ms"
  by (induction ids ms rule: transcript_ok.induct) auto

lemma conversation_append: "conversation_ok ids xs \<Longrightarrow> conversation_ok {#} ys \<Longrightarrow> conversation_ok ids (xs @ ys)"
  by (induction xs arbitrary: ids) (auto split: option.splits)

lemma conversation_concat: "(\<And>x. x \<in> set xs \<Longrightarrow> conversation_ok {#} x) \<Longrightarrow> conversation_ok {#} (concat xs)"
  by (induction xs) (auto intro: conversation_append)

lemma conversation_answers:
  "conversation_ok ids ms \<Longrightarrow> length (takeWhile is_tool ms) = size ids
     \<and> conversation_ok ids (takeWhile is_tool ms) \<and> conversation_ok {#} (dropWhile is_tool ms)"
proof (induction ms arbitrary: ids)
  case (Cons m ms)
  show ?case
  proof (cases "lm_role m = MR_tool")
    case True
    with Cons.prems obtain i where i: "lm_tool_call_id m = Some i" "i \<in># ids" "conversation_ok (ids - {#i#}) ms"
      by (auto split: option.splits)
    have "Suc (size (ids - {#i#})) = size ids" using i(2) by (metis insert_DiffM size_add_mset)
    with Cons.IH [OF i(3)] i True show ?thesis by (simp add: is_tool_def)
  next
    case False
    with Cons.prems show ?thesis by (simp add: is_tool_def)
  qed
qed simp

lemma group_transcript:
  assumes "conversation_ok {#} (drop i ms)" and "i < length ms" and "asks_as_assistant ms"
  shows "conversation_ok {#} (map ((!) ms) [i ..< Suc i + results_after ms i])
    \<and> conversation_ok {#} (drop (Suc i + results_after ms i) ms)"
proof -
  let ?m = "ms ! i" and ?rest = "drop (Suc i) ms"
  let ?ids = "mset (map tc_id (lm_tool_calls (ms ! i)))"
  have d: "drop i ms = ?m # ?rest" using assms(2) by (rule Cons_nth_drop_Suc [symmetric])
  with assms(1) have m: "lm_role ?m \<noteq> MR_tool" "conversation_ok ?ids ?rest" by (auto split: if_splits option.splits)
  note a = conversation_answers [OF m(2)]
  have "?m \<in> set ms" using assms(2) by simp
  then have "lm_tool_calls ?m = [] \<or> lm_role ?m = MR_assistant" using assms(3) by (auto simp: asks_as_assistant_def)
  then have r: "results_after ms i = length (takeWhile is_tool ?rest)"
    using a unfolding results_after_def by auto
  have tk: "take (length (takeWhile is_tool xs)) xs = takeWhile is_tool xs"
    "drop (length (takeWhile is_tool xs)) xs = dropWhile is_tool xs" for xs
    by (simp_all add: takeWhile_eq_take [symmetric] dropWhile_eq_drop [symmetric])
  have "map ((!) ms) [i ..< Suc i + k] = ?m # take k ?rest" if "Suc i + k \<le> length ms" for k
    using that assms(2) d by (intro nth_equalityI) (auto simp: nth_Cons' simp del: upt_Suc)
  then have e: "map ((!) ms) [i ..< Suc i + results_after ms i] = ?m # takeWhile is_tool ?rest"
    using results_after_bound [OF assms(2)] by (simp only: r tk)
  have "drop (Suc i + results_after ms i) ms = dropWhile is_tool ?rest"
    using tk(2) [of ?rest] by (simp add: r add.commute)
  then show ?thesis unfolding e using a m(1) by simp
qed

lemma groups_transcript:
  assumes "conversation_ok {#} (drop i ms)" and "asks_as_assistant ms" and "g \<in> set (groups_from ms i)"
  shows "conversation_ok {#} (map ((!) ms) g)"
  using assms
proof (induction ms i rule: groups_from.induct)
  case (1 ms i)
  show ?case
  proof (cases "i < length ms")
    case True
    note gt = group_transcript [OF "1.prems"(1) True "1.prems"(2)]
    from "1.prems"(3) True have "g = [i ..< Suc i + results_after ms i] \<or> g \<in> set (groups_from ms (Suc i + results_after ms i))"
      by (subst (asm) groups_from.simps) auto
    with gt "1.IH" [OF True] "1.prems"(2) show ?thesis by blast
  next
    case False
    with "1.prems"(3) show ?thesis by (subst (asm) groups_from.simps) simp
  qed
qed

context trimming begin

lemma trim_transcript:
  assumes "conversation_ok {#} ms" and "asks_as_assistant ms"
  shows "conversation_ok {#} (trim ms limit)"
  unfolding trim_groups
proof (rule conversation_concat)
  fix x assume "x \<in> set (map (group_messages ms) (filter (\<lambda>g. g \<in> kept_groups ms limit) [0..<length (atomic_message_groups ms)]))"
  then obtain g where "g < length (atomic_message_groups ms)" "x = map ((!) ms) (atomic_message_groups ms ! g)"
    by (auto simp: group_messages_def)
  with groups_transcript [of 0 ms "atomic_message_groups ms ! g"] assms show "conversation_ok {#} x"
    by (simp add: atomic_message_groups_def)
qed

end

section \<open>The two trims\<close>

lemma sum_ones: "(\<Sum>m\<leftarrow>ms. 1) = int (length ms)"
  by (induction ms) auto

interpretation count_trim: trimming "\<lambda>_. 1" "\<lambda>ms n. trim_messages_to_count E loads ms n ps pu"
  "\<lambda>ms. protected ms ps pu" "\<lambda>ms. candidates (rank_message_importance E loads ms) (atomic_message_groups ms)"
  for E :: "'w env" and loads ps pu
  by unfold_locales (auto simp: trim_messages_to_count_def trimmed_def sum_ones Let_def)

interpretation budget_trim: trimming "estimate_message_tokens E" "\<lambda>ms n. trim_messages_to_budget E loads ms n ps pu"
  "\<lambda>ms. protected ms ps pu" "\<lambda>ms. candidates (rank_message_importance E loads ms) (atomic_message_groups ms)"
  for E :: "'w env" and loads ps pu
  by unfold_locales
    (auto simp: trim_messages_to_budget_def trimmed_def Let_def estimate_message_tokens_def kept_messages_def)

lemma protected_system: "i < length ms \<Longrightarrow> lm_role (ms ! i) = MR_system \<Longrightarrow> i \<in> protected ms True pu"
  by (simp add: protected_def)

lemma protected_latest_user:
  assumes "i < length ms" and "lm_role (ms ! i) = MR_user" and "\<forall>j. i < j \<longrightarrow> j < length ms \<longrightarrow> lm_role (ms ! j) \<noteq> MR_user"
  shows "i \<in> protected ms ps True"
proof -
  have "rev [0..<length ms] ! (length ms - Suc i) = i" using assms(1) by (simp add: rev_nth)
  moreover have "lm_role (ms ! (rev [0..<length ms] ! k)) \<noteq> MR_user" if "k < length ms - Suc i" for k
    using that assms(3) by (auto simp: rev_nth)
  ultimately have "find (\<lambda>i. lm_role (ms ! i) = MR_user) (rev [0..<length ms]) = Some i"
    using assms(1,2) by (auto simp: find_Some_iff intro!: exI [of _ "length ms - Suc i"])
  then show ?thesis by (simp add: protected_def)
qed

section \<open>Short results\<close>

definition truncated_mark :: string where
  "truncated_mark = ''... [truncated]''"

definition count_items :: "dict \<Rightarrow> string \<Rightarrow> dict \<Rightarrow> dict" where
  "count_items d key acc =
     (case dict_get d key of
        Some (JList xs) \<Rightarrow> dict_set key (JStr (str_of_int (int (length xs)) @ '' item(s)'')) acc
      | _ \<Rightarrow> acc)"

definition shorten_text :: "dict \<Rightarrow> string \<Rightarrow> dict \<Rightarrow> dict" where
  "shorten_text d key acc =
     (case dict_get d key of
        None \<Rightarrow> acc
      | Some (JStr t) \<Rightarrow> dict_set key (JStr (if 120 < length t then take 120 t @ truncated_mark else t)) acc
      | Some v \<Rightarrow> dict_set key v acc)"

definition result_summary :: "dict \<Rightarrow> dict" where
  "result_summary d =
     (let kept = fold (\<lambda>key acc. case dict_get d key of None \<Rightarrow> acc | Some v \<Rightarrow> dict_set key v acc)
                  [''status'', ''exit_code'', ''error'', ''path'', ''url'', ''ready'', ''process_id'', ''command''] [];
          counted = fold (count_items d) [''files'', ''matches'', ''children'', ''results'', ''todos'', ''processes''] kept
      in fold (shorten_text d) [''content'', ''stdout'', ''stderr'', ''diff'', ''text'', ''snippet''] counted)"

definition summarize_tool_result :: "'w env \<Rightarrow> (string \<Rightarrow> json option) \<Rightarrow> string \<Rightarrow> nat \<Rightarrow> string" where
  "summarize_tool_result E loads content max_chars =
     (if length content \<le> max_chars then content
      else case loads content of
        Some (JObj d) \<Rightarrow>
          let t = env_dumps E (JObj (result_summary d)) in
          if length t \<le> max_chars then t else take max_chars t @ truncated_mark
      | _ \<Rightarrow> take max_chars content @ truncated_mark)"

lemma summarize_tool_result_bound:
  "length (summarize_tool_result E loads content n) \<le> n + length truncated_mark"
  by (auto simp: summarize_tool_result_def Let_def split: option.splits json.splits)

section \<open>Properties\<close>

text \<open>
  C26. Trimming the retained history, by number or by tokens, keeps it a conversation: what is left
  is part of it in its order, every tool request that is left has its results and every result its
  request, and the system messages and the latest user message are all there.
\<close>

theorem trim_keeps_conversation:
  assumes "conversation_ok {#} ms" and "asks_as_assistant ms"
    and "out = trim_messages_to_count E loads ms n True True \<or> out = trim_messages_to_budget E loads ms n True True"
  shows "subseq out ms \<and> conversation_ok {#} out
    \<and> (\<forall>i < length ms. lm_role (ms ! i) = MR_system \<longrightarrow> ms ! i \<in> set out)
    \<and> (\<forall>i < length ms. lm_role (ms ! i) = MR_user \<longrightarrow> (\<forall>j. i < j \<longrightarrow> j < length ms \<longrightarrow> lm_role (ms ! j) \<noteq> MR_user)
          \<longrightarrow> ms ! i \<in> set out)"
proof -
  have "subseq out ms \<and> conversation_ok {#} out \<and> (\<forall>i < length ms. i \<in> protected ms True True \<longrightarrow> ms ! i \<in> set out)"
    using assms(3)
  proof
    assume "out = trim_messages_to_count E loads ms n True True"
    then show ?thesis
      by (simp add: count_trim.trim_subseq count_trim.trim_transcript [OF assms(1,2)] count_trim.trim_keeps_protected)
  next
    assume "out = trim_messages_to_budget E loads ms n True True"
    then show ?thesis
      by (simp add: budget_trim.trim_subseq budget_trim.trim_transcript [OF assms(1,2)] budget_trim.trim_keeps_protected)
  qed
  then show ?thesis using protected_system [of _ ms True] protected_latest_user [of _ ms True] by blast
qed

text \<open>
  The trim by tokens reaches its budget unless all that is left is protected: the estimate of
  the retained messages is within the budget, or every group that is left holds a system message
  or the latest user message; and an estimate is never zero.
\<close>

theorem trim_reaches_budget:
  shows "\<exists>keep. trim_messages_to_budget E loads ms budget ps pu = concat (map (group_messages ms) keep)
      \<and> subseq keep [0..<length (atomic_message_groups ms)]
      \<and> ((\<Sum>m\<leftarrow>trim_messages_to_budget E loads ms budget ps pu. estimate_message_tokens E m) \<le> budget
         \<or> (\<forall>g \<in> set keep. \<exists>i \<in> set (atomic_message_groups ms ! g). i \<in> protected ms ps pu))
      \<and> (\<forall>m. 1 \<le> estimate_message_tokens E m)"
  using budget_trim.trim_reaches [of E loads ms budget ps pu]
  by (auto simp: touches_def estimate_message_tokens_def Let_def)

section \<open>Witness\<close>

definition sample_history :: "llm_message list" where
  "sample_history = [message MR_system (Some ''s''), message MR_user (Some ''u''),
     (message MR_assistant None)\<lparr>lm_tool_calls := [\<lparr>tc_id = ''a'', tc_name = ''grep'', tc_arguments = JObj []\<rparr>]\<rparr>,
     (message MR_tool (Some ''r''))\<lparr>lm_tool_call_id := Some ''a''\<rparr>]"

theorem trim_conversation_witness:
  "trim_messages_to_count sample_env (\<lambda>_. None) sample_history 2 True True
     = [message MR_system (Some ''s''), message MR_user (Some ''u'')]
   \<and> conversation_ok {#} (trim_messages_to_count sample_env (\<lambda>_. None) sample_history 2 True True)"
proof
  show "trim_messages_to_count sample_env (\<lambda>_. None) sample_history 2 True True
     = [message MR_system (Some ''s''), message MR_user (Some ''u'')]" by code_simp
  have "conversation_ok {#} sample_history" "asks_as_assistant sample_history"
    by (simp_all add: sample_history_def message_def asks_as_assistant_def)
  from trim_keeps_conversation [OF this, of _ sample_env "\<lambda>_. None" 2]
  show "conversation_ok {#} (trim_messages_to_count sample_env (\<lambda>_. None) sample_history 2 True True)" by blast
qed

theorem trim_budget_witness:
  "\<exists>keep. trim_messages_to_budget sample_env (\<lambda>_. None) sample_history 20 True True
     = concat (map (group_messages sample_history) keep)"
  using trim_reaches_budget [of sample_env "\<lambda>_. None" sample_history 20 True True] by blast

end
