(* ===== verification/CliLoop.thy ===== *)
theory CliLoop
  imports Trim Policy Tools "HOL-Library.List_Lexorder" "HOL-Library.Char_ord"
begin

text \<open>
  marcus_code/runtime/agent.py: one turn of the command line agent. The session's state is a record;
  the model (streamed, and plain as a fallback), the user who is asked to confirm a call, the tool
  handlers and the parsing of JSON texts are functions of the world. The terminal interface offers
  every notice the loop asks for, so each notice is an event. Texts outside ASCII are the bytes of
  their UTF-8 encoding; elapsed time is left out.
\<close>

section \<open>The session\<close>

record evidence =
  ev_tool_name :: string
  ev_workspace_revision :: int
  ev_summary :: string

record usage_stats =
  st_prompt_tokens :: int
  st_completion_tokens :: int
  st_total_tokens :: int
  st_llm_calls :: int
  st_last_prompt_tokens :: int
  st_last_completion_tokens :: int
  st_compactions :: int

definition record_stats :: "usage \<Rightarrow> usage_stats \<Rightarrow> usage_stats" where
  "record_stats u s = s\<lparr>st_prompt_tokens := st_prompt_tokens s + u_prompt_tokens u,
     st_completion_tokens := st_completion_tokens s + u_completion_tokens u,
     st_total_tokens := st_total_tokens s + u_total_tokens u, st_llm_calls := st_llm_calls s + 1,
     st_last_prompt_tokens := u_prompt_tokens u, st_last_completion_tokens := u_completion_tokens u\<rparr>"

text \<open>
  The trace is a ghost: what was asked of the model, the user and the tools, in order. No operation
  reads it.
\<close>

datatype action = Asked_model "llm_message list" | Confirmed string json string | Invoked string json

record 'w cli =
  cl_history :: "llm_message list"
  cl_always_allowed :: "string set"
  cl_last_turn_input :: "string option"
  cl_last_turn_guardrail :: "string option"
  cl_active_contract :: "task_contract option"
  cl_active_plan :: "string option"
  cl_active_phase :: phase
  cl_workspace_revision :: int
  cl_unverified_revision :: "int option"
  cl_verification_evidence :: "evidence option"
  cl_active_process_ids :: "string set"
  cl_tool_result_cache :: "((string \<times> string) \<times> dict) list"
  cl_usage :: usage_stats
  cl_events :: "event list"
  cl_trace :: "action list"
  cl_world :: 'w

type_synonym ('w, 'a) cmd = "('w cli, exn, 'a) prog"

text \<open>How a call of the model may end other than with an answer.\<close>

datatype llm_failure = Transient string | Failed string | Timed_out | Other exn

record llm_options =
  op_reasoning_effort :: effort
  op_thinking_enabled :: "bool option"
  op_max_completion_tokens :: "int option"
  op_reasoning_budget_tokens :: "int option"

type_synonym 'w plain_llm =
  "llm_message list \<Rightarrow> tool_spec list \<Rightarrow> llm_options \<Rightarrow> 'w \<Rightarrow> (llm_failure + llm_response) \<times> 'w"

type_synonym 'w stream_llm =
  "llm_message list \<Rightarrow> tool_spec list \<Rightarrow> llm_options \<Rightarrow> 'w \<Rightarrow> string list \<times> (llm_failure + llm_response) \<times> 'w"

record 'w loop =
  lp_env :: "'w env"
  lp_loads :: "string \<Rightarrow> json option"
  lp_dumps_sorted :: "json \<Rightarrow> string"
  lp_casefold :: "string \<Rightarrow> string"
  lp_is_structured_plan :: "string \<Rightarrow> bool"
  lp_intents :: intents
  lp_stream :: "'w stream_llm"
  lp_complete :: "'w plain_llm"
  lp_confirm :: "'w tool \<Rightarrow> dict \<Rightarrow> 'w \<Rightarrow> string \<times> 'w"
  lp_tools :: "(string \<times> 'w tool) list"
  lp_all_tool_specs :: "tool_spec list"
  lp_reasoning_effort :: effort
  lp_max_completion_tokens :: "int option"
  lp_reasoning_budget_tokens :: "int option"
  lp_max_steps :: nat
  lp_result_max_chars :: int
  lp_max_history_messages :: int
  lp_max_total_tokens :: "int option"
  lp_history_summary_enabled :: bool
  lp_mode :: agent_mode
  lp_context_window_tokens :: int
  lp_compact_threshold_percent :: int
  lp_compact_target_percent :: int
  lp_max_consecutive_tool_failures :: nat
  lp_max_safe_tool_retries :: nat
  lp_llm_recovery_timeout :: string
  lp_max_argument_repairs :: nat
  lp_max_finalization_repairs :: nat
  lp_max_parallel_read_only :: nat

definition emit :: "event \<Rightarrow> ('w, unit) cmd" where
  "emit e = modify (\<lambda>s. s\<lparr>cl_events := cl_events s @ [e]\<rparr>)"

definition log_action :: "action \<Rightarrow> ('w, unit) cmd" where
  "log_action a = modify (\<lambda>s. s\<lparr>cl_trace := cl_trace s @ [a]\<rparr>)"

definition append_history :: "llm_message \<Rightarrow> ('w, unit) cmd" where
  "append_history m = modify (\<lambda>s. s\<lparr>cl_history := cl_history s @ [m]\<rparr>)"

definition system_message :: "string \<Rightarrow> llm_message" where
  "system_message t = message MR_system (Some t)"

section \<open>The retained history\<close>

definition fact_lines :: "'w env \<Rightarrow> string option \<Rightarrow> dict \<Rightarrow> string list" where
  "fact_lines E name d =
     (let n = (case name of None \<Rightarrow> ''None'' | Some t \<Rightarrow> t);
          str = (\<lambda>v. case v of JStr t \<Rightarrow> t | _ \<Rightarrow> env_str E v);
          field = (\<lambda>k. case dict_get d k of None \<Rightarrow> [] | Some v \<Rightarrow> [n @ '': '' @ k @ ''='' @ str v]);
          count = (\<lambda>k verb noun. case dict_get d k of
                     Some (JList xs) \<Rightarrow> [n @ '': '' @ verb @ '' '' @ str_of_int (int (length xs)) @ '' '' @ noun]
                   | _ \<Rightarrow> [])
      in field ''exit_code'' @ field ''status''
         @ (if observed_truthy d ''ready'' then field ''ready'' else [])
         @ field ''process_id''
         @ count ''files'' ''listed'' ''file(s)'' @ count ''matches'' ''found'' ''match(es)'')"

definition extract_facts :: "'w loop \<Rightarrow> llm_message list \<Rightarrow> string list" where
  "extract_facts L ms =
     concat (map (\<lambda>m.
       case lm_content m of
         Some c \<Rightarrow>
           if lm_role m = MR_tool \<and> c \<noteq> []
           then (case lp_loads L c of Some (JObj d) \<Rightarrow> fact_lines (lp_env L) (lm_name m) d | _ \<Rightarrow> [])
           else []
       | None \<Rightarrow> []) ms)"

text \<open>The last six answers, oldest first, each cut to 240 characters.\<close>

definition prior_outcomes :: "llm_message list \<Rightarrow> string list" where
  "prior_outcomes ms =
     rev (take 6 (concat (map (\<lambda>m. case lm_content m of
       Some c \<Rightarrow> if lm_role m = MR_assistant \<and> c \<noteq> [] then [take 240 c] else [] | None \<Rightarrow> []) (rev ms))))"

definition nl :: string where
  "nl = [CHR 10]"

definition summarize_prior_turns :: "'w loop \<Rightarrow> llm_message list \<Rightarrow> llm_message option" where
  "summarize_prior_turns L ms =
     (if ms = [] \<or> \<not> lp_history_summary_enabled L then None
      else
        let facts = extract_facts L ms; outcomes = prior_outcomes ms;
            parts = (if outcomes = [] then []
                     else [''[Prior turns summarized]'' @ nl @ str_join nl (map (\<lambda>t. ''- '' @ t) outcomes)])
                  @ (if facts = [] then []
                     else [''[Preserved facts from earlier steps]'' @ nl @ str_join nl facts])
        in if parts = [] then None else Some (system_message (str_join (nl @ nl) parts)))"

text \<open>The turns before the latest user message become one summary behind a leading system message.\<close>

definition latest_user_index :: "llm_message list \<Rightarrow> nat option" where
  "latest_user_index ms = find (\<lambda>i. lm_role (ms ! i) = MR_user) (rev [0..<length ms])"

definition first_system :: "llm_message list \<Rightarrow> llm_message list" where
  "first_system ms = (case ms of [] \<Rightarrow> [] | m # _ \<Rightarrow> if lm_role m = MR_system then [m] else [])"

definition fold_prior_turns :: "'w loop \<Rightarrow> llm_message list \<Rightarrow> llm_message list" where
  "fold_prior_turns L ms =
     (case latest_user_index ms of
        None \<Rightarrow> ms
      | Some u \<Rightarrow>
          let k = length (first_system ms) in
          if u \<le> k + 1 then ms
          else case summarize_prior_turns L (drop k (take u ms)) of
                 None \<Rightarrow> ms
               | Some summary \<Rightarrow> first_system ms @ [summary] @ drop u ms)"

definition context_tokens :: "'w loop \<Rightarrow> llm_message list \<Rightarrow> int" where
  "context_tokens L ms = max 1 (\<Sum>m\<leftarrow>ms. estimate_message_tokens (lp_env L) m)"

definition context_percent :: "'w loop \<Rightarrow> llm_message list \<Rightarrow> rat" where
  "context_percent L ms =
     min 100 (of_int (context_tokens L ms * 100) / of_int (max 1 (lp_context_window_tokens L)))"

definition trim_history :: "'w loop \<Rightarrow> llm_message list \<Rightarrow> llm_message list" where
  "trim_history L ms =
     (if ms = [] then []
      else
        let h1 = (if lp_history_summary_enabled L \<and> lp_max_history_messages L < int (length ms)
                  then fold_prior_turns L ms else ms);
            h2 = (if lp_max_history_messages L < int (length h1)
                  then trim_messages_to_count (lp_env L) (lp_loads L) h1 (lp_max_history_messages L) True True else h1);
            budget = min (lp_context_window_tokens L)
                       (lp_context_window_tokens L * lp_compact_threshold_percent L div 100)
        in trim_messages_to_budget (lp_env L) (lp_loads L) h2 budget True True)"

text \<open>The second pass of a compaction: trim until the target is met or nothing more is gained.\<close>

function compact_loop :: "'w loop \<Rightarrow> int \<Rightarrow> llm_message list \<Rightarrow> llm_message list" where
  "compact_loop L target ms =
     (if target < context_tokens L ms \<and> 4 < length ms
      then let ms' = trim_messages_to_budget (lp_env L) (lp_loads L) ms target True True in
           if context_tokens L ms \<le> context_tokens L ms' then ms' else compact_loop L target ms'
      else ms)"
  by pat_completeness auto

termination
  by (relation "measure (\<lambda>(L, target, ms). nat (context_tokens L ms))") (auto simp: context_tokens_def)

declare compact_loop.simps [simp del]

definition compacted :: "'w loop \<Rightarrow> llm_message list \<Rightarrow> llm_message list" where
  "compacted L ms =
     compact_loop L (lp_context_window_tokens L * lp_compact_target_percent L div 100)
       (if lp_history_summary_enabled L \<and> 4 < length ms then fold_prior_turns L ms else ms)"

definition compact_history :: "'w loop \<Rightarrow> ('w, int \<times> int) cmd" where
  "compact_history L =
     mbind (gets cl_history) (\<lambda>ms.
       let ms' = compacted L ms; before = context_tokens L ms; after = context_tokens L ms' in
       mseq (modify (\<lambda>s. s\<lparr>cl_history := ms',
               cl_usage := (if after < before then (cl_usage s)\<lparr>st_compactions := st_compactions (cl_usage s) + 1\<rparr>
                            else cl_usage s)\<rparr>))
         (ret (before, after)))"

definition trim_session :: "'w loop \<Rightarrow> ('w, unit) cmd" where
  "trim_session L = modify (\<lambda>s. s\<lparr>cl_history := trim_history L (cl_history s)\<rparr>)"

definition clear_history :: "bool \<Rightarrow> ('w, unit) cmd" where
  "clear_history clear_all =
     modify (\<lambda>s. s\<lparr>cl_history := (case find (\<lambda>m. lm_role m = MR_system) (cl_history s) of
                                   None \<Rightarrow> [] | Some m \<Rightarrow> [m]),
                   cl_active_contract := None, cl_active_plan := None, cl_verification_evidence := None,
                   cl_unverified_revision := None, cl_tool_result_cache := [],
                   cl_always_allowed := (if clear_all then {} else cl_always_allowed s)\<rparr>)"

section \<open>Tools\<close>

definition COMMON_AGENTIC_TOOLS :: "string list" where
  "COMMON_AGENTIC_TOOLS = [''ask_user_choice'', ''load_skill'']"

fun TOOL_SETS_BY_CAPABILITY :: "capability \<Rightarrow> string list" where
  "TOOL_SETS_BY_CAPABILITY CP_workspace_read =
     [''read_file'', ''list_files'', ''grep'', ''git_status'', ''git_diff'', ''git_log'', ''read_directory_tree'',
      ''summarize_text'', ''compare_files'', ''memory_read'', ''todo_list'']"
| "TOOL_SETS_BY_CAPABILITY CP_workspace_write =
     [''write_file'', ''edit_file'', ''apply_diff'', ''memory_write'', ''todo_create'', ''todo_update'']"
| "TOOL_SETS_BY_CAPABILITY CP_command = [''run_tests'', ''execute_python'', ''run_cli'']"
| "TOOL_SETS_BY_CAPABILITY CP_process =
     [''start_process'', ''read_process_output'', ''stop_process'', ''wait_for_http'', ''list_processes'',
      ''kill_process'', ''check_url_health'']"
| "TOOL_SETS_BY_CAPABILITY CP_web = [''fetch_url'', ''search_web'']"

definition active_tool_specs :: "'w loop \<Rightarrow> task_contract \<Rightarrow> tool_spec list" where
  "active_tool_specs L c =
     (if tk_response_mode c = RM_direct then []
      else
        let allowed = set COMMON_AGENTIC_TOOLS \<union> (\<Union>x \<in> set (tk_capabilities c). set (TOOL_SETS_BY_CAPABILITY x))
        in filter (\<lambda>t. ts_name t \<in> allowed) (lp_all_tool_specs L))"

definition tool_tier :: "'w loop \<Rightarrow> string \<Rightarrow> risk_tier option" where
  "tool_tier L n = map_option tl_risk_tier (dict_get (lp_tools L) n)"

text \<open>Which calls of a response may run. The class's own tier, read-only, stands for an unknown first tool.\<close>

fun select_read_only :: "'w loop \<Rightarrow> (nat \<times> tool_call) list \<Rightarrow> nat \<Rightarrow> (nat \<times> tool_call) list \<times> (nat \<times> tool_call) list" where
  "select_read_only L [] n = ([], [])"
| "select_read_only L ((i, c) # cs) n =
     (if tool_tier L (tc_name c) = Some RT_read_only \<and> n < lp_max_parallel_read_only L
      then (let (sel, rej) = select_read_only L cs (Suc n) in ((i, c) # sel, rej))
      else (let (sel, rej) = select_read_only L cs n in (sel, (i, c) # rej)))"

definition plan_tool_calls_cli :: "'w loop \<Rightarrow> tool_call list \<Rightarrow> (nat \<times> tool_call) list \<times> (nat \<times> tool_call) list" where
  "plan_tool_calls_cli L calls =
     (case enumerate 0 calls of
        [] \<Rightarrow> ([], [])
      | first # rest \<Rightarrow>
          if (case tool_tier L (tc_name (snd first)) of None \<Rightarrow> RT_read_only | Some t \<Rightarrow> t) \<noteq> RT_read_only
          then ([first], rest)
          else select_read_only L (first # rest) 0)"

definition policy_reason_for_rejected :: "'w loop \<Rightarrow> tool_call \<Rightarrow> nat \<Rightarrow> string" where
  "policy_reason_for_rejected L c selected =
     (case tool_tier L (tc_name c) of
        None \<Rightarrow> ''unknown tool: '' @ tc_name c
      | Some t \<Rightarrow>
          if t \<noteq> RT_read_only
          then ''mutation tool calls run one at a time; '' @ ''inspect the result before the next write/execute action''
          else if lp_max_parallel_read_only L \<le> selected
          then ''only '' @ str_of_int (int (lp_max_parallel_read_only L)) @ '' read-only tool calls ''
               @ ''are allowed per reasoning step''
          else ''tool call rejected by per-step policy'')"

definition error_dict :: "string \<Rightarrow> dict" where
  "error_dict m = [(''error'', JStr m)]"

fun mode_str :: "agent_mode \<Rightarrow> string" where
  "mode_str AM_ask = ''ask''"
| "mode_str AM_agent = ''agent''"
| "mode_str AM_auto = ''auto''"
| "mode_str AM_yolo = ''yolo''"

text \<open>One call of the handler, logged in the trace.\<close>

definition handle :: "'w tool \<Rightarrow> string \<Rightarrow> dict \<Rightarrow> ('w, exn + json) cmd" where
  "handle tk n args =
     (\<lambda>s. let (r, w) = tl_handler tk (JObj args) (cl_world s)
          in (Inr r, s\<lparr>cl_world := w, cl_trace := cl_trace s @ [Invoked n (JObj args)]\<rparr>))"

text \<open>The attempts at a call: \<open>left\<close> is how many there are still, of \<open>tries\<close>.\<close>

fun attempts :: "'w tool \<Rightarrow> string \<Rightarrow> dict \<Rightarrow> nat \<Rightarrow> nat \<Rightarrow> ('w, exn + json) cmd" where
  "attempts tk n args tries 0 = ret (Inl (PyError ''UnboundLocalError'' ''result''))"
| "attempts tk n args tries (Suc left) =
     mbind (handle tk n args) (\<lambda>r.
       case r of
         Inr v \<Rightarrow> ret (Inr v)
       | Inl e \<Rightarrow>
           if left = 0 then ret (Inl e)
           else mseq (emit (Recovery (''Tool '' @ n @ '' failed; retrying safely (''
                        @ str_of_int (int (tries - left + 1)) @ ''/'' @ str_of_int (int tries) @ '').'')))
                  (attempts tk n args tries left))"

definition not_available :: "'w loop \<Rightarrow> string \<Rightarrow> string" where
  "not_available L n = ''tool '' @ str_repr n @ '' is not available in '' @ mode_str (lp_mode L) @ '' mode''"

definition fail_call :: "string \<Rightarrow> string \<Rightarrow> ('w, dict) cmd" where
  "fail_call n m = mseq (emit (ToolCallFailed n m)) (ret (error_dict m))"

definition invoke_tool_handler :: "'w loop \<Rightarrow> string \<Rightarrow> dict \<Rightarrow> ('w, dict) cmd" where
  "invoke_tool_handler L n args =
     (case dict_get (lp_tools L) n of
        None \<Rightarrow> fail_call n (''unknown tool: '' @ n)
      | Some tk \<Rightarrow>
          mseq (emit (ToolCallStarted n args))
          (if \<not> tool_is_allowed (lp_mode L) (tl_risk_tier tk) then fail_call n (not_available L n)
           else
             let retryable = (tl_risk_tier tk = RT_read_only \<or> tl_idempotent tk) \<and> n \<noteq> ''wait_for_http'';
                 tries = (if retryable then lp_max_safe_tool_retries L + 1 else 1)
             in mbind (attempts tk n args tries tries) (\<lambda>r.
                  case r of
                    Inl e \<Rightarrow> fail_call n (exn_str e)
                  | Inr v \<Rightarrow>
                      let observation = truncate_result (env_dumps (lp_env L)) v (lp_result_max_chars L)
                      in mseq (emit (ToolCallCompleted n observation)) (ret observation))))"

definition ask_user :: "'w loop \<Rightarrow> 'w tool \<Rightarrow> string \<Rightarrow> dict \<Rightarrow> ('w, string) cmd" where
  "ask_user L tk n args =
     (\<lambda>s. let (d, w) = lp_confirm L tk args (cl_world s)
          in (Inr d, s\<lparr>cl_world := w, cl_trace := cl_trace s @ [Confirmed n (JObj args) d]\<rparr>))"

definition invalid_arguments :: "string \<Rightarrow> string \<Rightarrow> dict" where
  "invalid_arguments m code = [(''error'', JStr m), (''code'', JStr code), (''retryable'', JBool True)]"

text \<open>The full path of one call, with the arguments it leaves in the call object.\<close>

definition process_tool_call :: "'w loop \<Rightarrow> tool_call \<Rightarrow> ('w, tool_call \<times> dict) cmd" where
  "process_tool_call L call =
     (let n = tc_name call in
      case dict_get (lp_tools L) n of
        None \<Rightarrow> mbind (fail_call n (''unknown tool: '' @ n)) (\<lambda>ob. ret (call, ob))
      | Some tk \<Rightarrow>
          (case normalize_and_validate_arguments (env_schema_errors (lp_env L)) (tl_parameters tk) (tc_arguments call) of
             Inl (ToolArgumentError code m path) \<Rightarrow>
               let e = exn_str (ToolArgumentError code m path) in
               mseq (emit (ToolCallFailed n e)) (ret (call, invalid_arguments e code))
           | Inl e \<Rightarrow> raise e
           | Inr args \<Rightarrow>
               let call' = call\<lparr>tc_arguments := JObj args\<rparr> in
               mseq (emit (ToolCallStarted n args))
               (if \<not> tool_is_allowed (lp_mode L) (tl_risk_tier tk)
                then mbind (fail_call n (not_available L n)) (\<lambda>ob. ret (call', ob))
                else
                  mbind (gets cl_always_allowed) (\<lambda>allowed.
                    if tool_requires_approval (lp_env L) (lp_mode L) n (tl_risk_tier tk) args \<and> n \<notin> allowed
                    then
                      mbind (ask_user L tk n args) (\<lambda>decision.
                        if decision = ''no''
                        then mseq (emit (ToolCallDeclined n)) (ret (call', error_dict ''user declined this tool call''))
                        else
                          mseq (mwhen (decision = ''always'')
                                  (modify (\<lambda>s. s\<lparr>cl_always_allowed := insert n (cl_always_allowed s)\<rparr>)))
                          (mbind (invoke_tool_handler L n args) (\<lambda>ob. ret (call', ob))))
                    else mbind (invoke_tool_handler L n args) (\<lambda>ob. ret (call', ob))))))"

section \<open>A batch of calls\<close>

definition is_read_only_call :: "'w loop \<Rightarrow> nat \<times> tool_call \<Rightarrow> bool" where
  "is_read_only_call L c \<longleftrightarrow> tool_tier L (tc_name (snd c)) = Some RT_read_only"

text \<open>The read-only calls are validated before any of them runs; a failure is a result already.\<close>

fun validate_calls :: "'w loop \<Rightarrow> (nat \<times> tool_call) list \<Rightarrow> (string \<times> dict) list
    \<Rightarrow> exn + (nat \<times> tool_call) list \<times> (string \<times> dict) list" where
  "validate_calls L [] results = Inr ([], results)"
| "validate_calls L ((i, c) # cs) results =
     (case dict_get (lp_tools L) (tc_name c) of
        None \<Rightarrow> (case validate_calls L cs results of Inl e \<Rightarrow> Inl e | Inr (ds, rs) \<Rightarrow> Inr ((i, c) # ds, rs))
      | Some tk \<Rightarrow>
          (case normalize_and_validate_arguments (env_schema_errors (lp_env L)) (tl_parameters tk) (tc_arguments c) of
             Inl (ToolArgumentError code m path) \<Rightarrow>
               (case validate_calls L cs
                       (dict_set (tc_id c) (invalid_arguments (exn_str (ToolArgumentError code m path)) code) results) of
                  Inl e \<Rightarrow> Inl e | Inr (ds, rs) \<Rightarrow> Inr ((i, c) # ds, rs))
           | Inl e \<Rightarrow> Inl e
           | Inr args \<Rightarrow>
               (case validate_calls L cs results of
                  Inl e \<Rightarrow> Inl e | Inr (ds, rs) \<Rightarrow> Inr ((i, c\<lparr>tc_arguments := JObj args\<rparr>) # ds, rs))))"

definition call_args :: "tool_call \<Rightarrow> dict" where
  "call_args c = (case tc_arguments c of JObj d \<Rightarrow> d | _ \<Rightarrow> [])"

definition run_read_only_call :: "'w loop \<Rightarrow> (string \<times> dict) list \<Rightarrow> tool_call \<Rightarrow> ('w, dict) cmd" where
  "run_read_only_call L results c =
     (case dict_get results (tc_id c) of
        Some ob \<Rightarrow> ret ob
      | None \<Rightarrow>
          let n = tc_name c;
              cached = (case dict_get (lp_tools L) n of
                          Some tk \<Rightarrow> tl_idempotent tk \<and> \<not> tl_volatile tk | None \<Rightarrow> False);
              key = (n, lp_dumps_sorted L (tc_arguments c))
          in mbind (gets cl_tool_result_cache) (\<lambda>cache.
               case (if cached then map_of cache key else None) of
                 Some ob \<Rightarrow> mseq (emit (ToolCallStarted n (call_args c)))
                              (mseq (emit (ToolCallCompleted n ob)) (ret ob))
               | None \<Rightarrow>
                   mbind (invoke_tool_handler L n (call_args c)) (\<lambda>ob.
                     mseq (mwhen (cached \<and> \<not> dict_has ob ''error'')
                             (modify (\<lambda>s. s\<lparr>cl_tool_result_cache :=
                                AList.update key ob (cl_tool_result_cache s)\<rparr>)))
                       (ret ob))))"

fun run_read_only_calls :: "'w loop \<Rightarrow> (string \<times> dict) list \<Rightarrow> (nat \<times> tool_call) list \<Rightarrow> ('w, (string \<times> dict) list) cmd" where
  "run_read_only_calls L results [] = ret []"
| "run_read_only_calls L results ((i, c) # cs) =
     mbind (run_read_only_call L results c) (\<lambda>ob.
     mbind (run_read_only_calls L results cs) (\<lambda>obs. ret ((tc_id c, ob) # obs)))"

fun run_mutation_calls :: "'w loop \<Rightarrow> (nat \<times> tool_call) list \<Rightarrow> ('w, ((nat \<times> tool_call) \<times> dict) list) cmd" where
  "run_mutation_calls L [] = ret []"
| "run_mutation_calls L ((i, c) # cs) =
     mbind (process_tool_call L c) (\<lambda>(c', ob).
     mbind (run_mutation_calls L cs) (\<lambda>rest. ret (((i, c'), ob) # rest)))"

text \<open>The call object of an index after the batch, which its validation may have changed.\<close>

definition updated_call :: "(nat \<times> tool_call) list \<Rightarrow> nat \<times> tool_call \<Rightarrow> tool_call" where
  "updated_call changed c = (case map_of changed (fst c) of None \<Rightarrow> snd c | Some c' \<Rightarrow> c')"

fun observe :: "(string \<times> dict) list \<Rightarrow> (nat \<times> tool_call) list \<Rightarrow> exn + (nat \<times> tool_call \<times> dict) list" where
  "observe results [] = Inr []"
| "observe results ((i, c) # cs) =
     (case dict_get results (tc_id c) of
        None \<Rightarrow> Inl (PyError ''KeyError'' (tc_id c))
      | Some ob \<Rightarrow> (case observe results cs of Inl e \<Rightarrow> Inl e | Inr obs \<Rightarrow> Inr ((i, c, ob) # obs)))"

definition lift_cmd :: "exn + 'a \<Rightarrow> ('w, 'a) cmd" where
  "lift_cmd x = (case x of Inl e \<Rightarrow> raise e | Inr a \<Rightarrow> ret a)"

definition execute_selected_calls :: "'w loop \<Rightarrow> (nat \<times> tool_call) list \<Rightarrow> ('w, (nat \<times> tool_call \<times> dict) list) cmd" where
  "execute_selected_calls L selected =
     mbind (lift_cmd (validate_calls L (filter (is_read_only_call L) selected) [])) (\<lambda>(read_only, results).
     mbind (run_read_only_calls L results read_only) (\<lambda>obs.
     mbind (run_mutation_calls L (filter (\<lambda>c. \<not> is_read_only_call L c) selected)) (\<lambda>mutated.
       let results1 = fold (\<lambda>(k, ob). dict_set k ob) obs results;
           results2 = fold (\<lambda>((i, c), ob). dict_set (tc_id c) ob) mutated results1;
           changed = read_only @ map fst mutated
       in lift_cmd (observe results2 (map (\<lambda>c. (fst c, updated_call changed c)) selected)))))"

section \<open>Asking the model\<close>

definition arrow :: string where
  "arrow = [CHR 0xE2, CHR 0x86, CHR 0x92]"

fun TASK_KIND_HINTS :: "task_kind \<Rightarrow> string" where
  "TASK_KIND_HINTS TK_explain = ''This request needs workspace evidence. Inspect only the relevant files, ''
     @ ''then answer from the gathered facts.''"
| "TASK_KIND_HINTS TK_change = ''This is a code-change request. Follow the active plan: explore '' @ arrow
     @ '' change '' @ arrow @ '' verify. '' @ ''Run verification after the most recent mutation before finishing.''"
| "TASK_KIND_HINTS TK_operate = ''This is an operation request. Use start_process '' @ arrow @ '' wait_for_http ''
     @ arrow @ '' run client commands '' @ arrow @ '' stop_process. Always stop background processes you start.''"

definition DIRECT_HINT :: string where
  "DIRECT_HINT = ''This is a direct-answer request. No external tools are needed or available for this turn. ''
     @ ''Answer the user's latest question immediately and concisely from existing knowledge.''"

definition PLAN_HINT :: string where
  "PLAN_HINT = ''Planning phase: return a concise, task-specific plan only. Include the goal, the evidence ''
     @ ''you need to inspect, the actions you may take, how you will verify the result, and the ''
     @ ''finish condition. Do not claim that any action has run yet.''"

fun effort_str :: "effort \<Rightarrow> string" where
  "effort_str EF_auto = ''auto''"
| "effort_str EF_off = ''off''"
| "effort_str EF_low = ''low''"
| "effort_str EF_medium = ''medium''"
| "effort_str EF_high = ''high''"

definition reasoning_effort_hint :: "effort \<Rightarrow> string option" where
  "reasoning_effort_hint e =
     (if e = EF_auto then None
      else if e = EF_off
      then Some (''Reasoning effort: off. Prefer a direct answer, keep internal reasoning brief, ''
                 @ ''and do not emit visible <think> traces.'')
      else Some (''Reasoning effort: '' @ effort_str e @ ''. Spend an amount of inference-time work appropriate ''
                 @ ''to that effort level, while keeping the final answer concise and evidence-based.''))"

definition budget_remaining_ratio :: "'w loop \<Rightarrow> 'w cli \<Rightarrow> rat option" where
  "budget_remaining_ratio L s =
     (case lp_max_total_tokens L of
        None \<Rightarrow> None
      | Some m \<Rightarrow> if m \<le> 0 then None
                  else Some (max 0 (of_int (m - st_total_tokens (cl_usage s)) / of_int m)))"

definition effective_reasoning_effort :: "'w loop \<Rightarrow> task_contract \<Rightarrow> 'w cli \<Rightarrow> effort" where
  "effective_reasoning_effort L c s =
     (if lp_reasoning_effort L \<noteq> EF_auto then lp_reasoning_effort L
      else route_reasoning_effort c (budget_remaining_ratio L s))"

definition current_evidence :: "'w cli \<Rightarrow> evidence option" where
  "current_evidence s =
     (case cl_verification_evidence s of
        Some e \<Rightarrow> if ev_workspace_revision e = cl_workspace_revision s then Some e else None
      | None \<Rightarrow> None)"

definition opt_messages :: "string option \<Rightarrow> llm_message list" where
  "opt_messages x = (case x of None \<Rightarrow> [] | Some t \<Rightarrow> if t = [] then [] else [system_message t])"

definition call_messages :: "'w loop \<Rightarrow> task_contract \<Rightarrow> bool \<Rightarrow> string option \<Rightarrow> 'w cli \<Rightarrow> llm_message list" where
  "call_messages L c planning finalization_hint s =
     cl_history s
     @ [system_message (if tk_response_mode c = RM_direct then DIRECT_HINT else TASK_KIND_HINTS (tk_kind c))]
     @ (if planning then [system_message PLAN_HINT]
        else case cl_active_plan s of
               None \<Rightarrow> []
             | Some p \<Rightarrow> if p = [] then [] else [system_message (''Active plan for this turn:'' @ nl @ p)])
     @ opt_messages finalization_hint
     @ (case current_evidence s of
          None \<Rightarrow> []
        | Some e \<Rightarrow> [system_message (''Current verification evidence that must be reported accurately: '' @ ev_summary e)])
     @ opt_messages (reasoning_effort_hint (effective_reasoning_effort L c s))"

definition call_options :: "'w loop \<Rightarrow> task_contract \<Rightarrow> 'w cli \<Rightarrow> llm_options" where
  "call_options L c s =
     (let e = effective_reasoning_effort L c s in
      \<lparr>op_reasoning_effort = e, op_thinking_enabled = (if e = EF_off then Some False else None),
       op_max_completion_tokens = lp_max_completion_tokens L,
       op_reasoning_budget_tokens = lp_reasoning_budget_tokens L\<rparr>)"

definition complete_stream :: "'w loop \<Rightarrow> llm_message list \<Rightarrow> tool_spec list \<Rightarrow> llm_options \<Rightarrow> ('w, llm_failure + llm_response) cmd" where
  "complete_stream L ms specs opts =
     (\<lambda>s. let (deltas, r, w) = lp_stream L ms specs opts (cl_world s)
          in (Inr r, s\<lparr>cl_world := w, cl_events := cl_events s @ map StreamDelta deltas,
                        cl_trace := cl_trace s @ [Asked_model ms]\<rparr>))"

definition complete_plain :: "'w loop \<Rightarrow> llm_message list \<Rightarrow> tool_spec list \<Rightarrow> llm_options \<Rightarrow> ('w, llm_failure + llm_response) cmd" where
  "complete_plain L ms specs opts =
     (\<lambda>s. let (r, w) = lp_complete L ms specs opts (cl_world s)
          in (Inr r, s\<lparr>cl_world := w, cl_trace := cl_trace s @ [Asked_model ms]\<rparr>))"

text \<open>A streamed request, and after a transient failure one standard request.\<close>

definition ask_model :: "'w loop \<Rightarrow> llm_message list \<Rightarrow> tool_spec list \<Rightarrow> llm_options \<Rightarrow> ('w, llm_failure + llm_response) cmd" where
  "ask_model L ms specs opts =
     mseq (emit StreamStarted)
     (mbind (complete_stream L ms specs opts) (\<lambda>r.
        case r of
          Inr a \<Rightarrow> mseq (emit StreamEnded) (ret (Inr a))
        | Inl (Transient m) \<Rightarrow>
            mseq (emit StreamEnded)
            (mseq (emit (Recovery ''Streaming failed; recovering with a standard request.''))
              (complete_plain L ms specs opts))
        | Inl f \<Rightarrow> ret (Inl f)))"

section \<open>Finishing\<close>

definition verification_tools :: "string list" where
  "verification_tools = [''run_tests'', ''run_cli'', ''wait_for_http'', ''check_url_health'']"

definition verification_is_impossible :: "'w loop \<Rightarrow> task_contract \<Rightarrow> tool_spec list \<Rightarrow> bool" where
  "verification_is_impossible L c active_specs =
     (if \<not> requires_verification c then False
      else
        let names = map ts_name active_specs;
            verifiers = filter (\<lambda>n. n \<in> set verification_tools
              \<or> (case dict_get (lp_tools L) n of
                    Some tk \<Rightarrow> (case tl_evidence_type tk of None \<Rightarrow> False | Some t \<Rightarrow> t \<noteq> []) | None \<Rightarrow> False)) names
        in if tk_verification_policy c = VP_requested then verifiers = []
           else list_ex (\<lambda>n. case dict_get (lp_tools L) n of Some tk \<Rightarrow> tl_mutates_workspace tk | None \<Rightarrow> False) names
                \<and> verifiers = [])"

definition default_plan :: "string \<Rightarrow> task_contract \<Rightarrow> string" where
  "default_plan user_input c =
     (let has = (\<lambda>x. x \<in> set (tk_capabilities c));
          steps = [''inspect the minimum relevant workspace evidence'']
            @ (if has CP_workspace_write then [''apply the requested change while preserving unrelated work''] else [])
            @ (if has CP_command then [''run the narrowest appropriate command or test''] else [])
            @ (if has CP_process then [''start, check, and stop any required background process''] else [])
            @ (if has CP_web then [''retrieve only the relevant current web information''] else []);
          numbered = str_join nl (map (\<lambda>(i, t). str_of_int (int i) @ ''. '' @ t) (enumerate 1 steps));
          verification = (if requires_verification c
            then ''Require successful evidence from the current workspace revision.''
            else ''Check that gathered evidence directly supports the answer.'')
      in ''Plan:'' @ nl @ ''Goal: '' @ str_strip user_input @ nl @ numbered @ nl
         @ ''Verification: '' @ verification @ nl @ ''Finish: report the outcome and concrete evidence.'')"

definition str_rstrip :: "string \<Rightarrow> string" where
  "str_rstrip t = rev (dropWhile is_space (rev t))"

definition final_with_evidence :: "'w loop \<Rightarrow> string \<Rightarrow> task_contract \<Rightarrow> 'w cli \<Rightarrow> string" where
  "final_with_evidence L content c s =
     (if \<not> requires_verification c then content
      else case current_evidence s of
             None \<Rightarrow> content
           | Some e \<Rightarrow> if str_contains (lp_casefold L (ev_summary e)) (lp_casefold L content) then content
                       else str_rstrip content @ nl @ nl @ ''Verification: '' @ ev_summary e)"

text \<open>The last non-empty output line of a test run, for the summary.\<close>

fun split_lines :: "string \<Rightarrow> string list" where
  "split_lines [] = []"
| "split_lines (c # cs) =
     (if (of_char c :: nat) \<in> {10, 11, 12, 28, 29, 30, 133} then [] # split_lines cs
      else if c = CHR 13 then (case cs of CHR 10 # ds \<Rightarrow> [] # split_lines ds | _ \<Rightarrow> [] # split_lines cs)
      else case split_lines cs of [] \<Rightarrow> [[c]] | l # ls \<Rightarrow> (c # l) # ls)"

definition output_text :: "'w env \<Rightarrow> dict \<Rightarrow> string" where
  "output_text E d =
     (let str = (\<lambda>v. case v of JStr t \<Rightarrow> t | _ \<Rightarrow> env_str E v);
          field = (\<lambda>k. case dict_get d k of Some v \<Rightarrow> if truthy v then Some (str v) else None | None \<Rightarrow> None)
      in case field ''stdout'' of Some t \<Rightarrow> t
         | None \<Rightarrow> (case field ''stderr'' of Some t \<Rightarrow> t | None \<Rightarrow> []))"

definition verification_summary :: "'w env \<Rightarrow> string \<Rightarrow> dict \<Rightarrow> string" where
  "verification_summary E tool_name d =
     (if tool_name \<in> {''run_tests'', ''run_cli''}
      then let output = str_strip (output_text E d);
               last_line = (if output = [] then ''exit code 0'' else last (split_lines output))
           in tool_name @ '': '' @ take 240 last_line
      else if tool_name \<in> {''wait_for_http'', ''check_url_health''}
      then (case dict_get d ''status'' of
              None \<Rightarrow> tool_name @ '': ready''
            | Some JNull \<Rightarrow> tool_name @ '': ready''
            | Some v \<Rightarrow> tool_name @ '': HTTP '' @ (case v of JStr t \<Rightarrow> t | _ \<Rightarrow> env_str E v))
      else tool_name @ '': succeeded'')"

section \<open>The turn\<close>

text \<open>The local variables of a turn.\<close>

record turn =
  tn_tracker :: tracker
  tn_recent_calls :: "(string \<times> json) list"
  tn_consecutive_tool_failures :: nat
  tn_argument_failures :: "(string \<times> nat) list"
  tn_plan_shown :: bool
  tn_finalization_repairs :: nat
  tn_finalization_hint :: "string option"
  tn_retried_after_timeout :: bool
  tn_outcome_fingerprints :: "(string \<times> string) list"
  tn_identical_attempts :: nat
  tn_identical_last_key :: "(string \<times> json) option"

text \<open>What a part of a step decides: the turn is over, or it goes on with these variables.\<close>

datatype 'a verdict = Stop | Go 'a

definition stop_turn :: "string \<Rightarrow> ('w, 'a verdict) cmd" where
  "stop_turn reason =
     mseq (modify (\<lambda>s. s\<lparr>cl_last_turn_guardrail := Some reason\<rparr>))
     (mseq (emit (GuardrailStop reason)) (ret Stop))"

definition enter_phase :: "phase \<Rightarrow> string \<Rightarrow> turn \<Rightarrow> ('w, turn) cmd" where
  "enter_phase p note t =
     mseq (modify (\<lambda>s. s\<lparr>cl_active_phase := p\<rparr>))
     (mseq (emit TodoUpdated) (ret (t\<lparr>tn_tracker := advance p note (tn_tracker t)\<rparr>)))"

text \<open>Before the model is asked: trims, the context window, the token budget.\<close>

definition prepare_context :: "'w loop \<Rightarrow> ('w, unit verdict) cmd" where
  "prepare_context L =
     mseq (trim_session L)
     (mbind (gets cl_history) (\<lambda>ms.
      mseq (if of_int (lp_compact_threshold_percent L) \<le> context_percent L ms
            then mbind (compact_history L) (\<lambda>_. ret ()) else ret ())
      (mbind (gets cl_history) (\<lambda>ms'. mbind (gets cl_usage) (\<lambda>u.
        if lp_context_window_tokens L \<le> context_tokens L ms'
        then mseq (emit (GuardrailStop ''retained context exceeds the configured context window; use /compact or /clear''))
               (ret Stop)
        else case lp_max_total_tokens L of
          Some m \<Rightarrow>
            if m \<le> st_total_tokens u
            then mseq (emit (GuardrailStop (''session token budget exceeded ('' @ str_of_int m @ '')''))) (ret Stop)
            else ret (Go ())
        | None \<Rightarrow> ret (Go ()))))))"

text \<open>\<open>Inr None\<close>: the step is over, the turn goes on; \<open>Inr (Some response)\<close>: an answer.\<close>

definition no_verifier :: string where
  "no_verifier = ''task requires verification, but no compatible verification tool is available''"

definition consult_model :: "'w loop \<Rightarrow> task_contract \<Rightarrow> bool \<Rightarrow> turn \<Rightarrow> ('w, (turn \<times> llm_response option) verdict) cmd" where
  "consult_model L c planning t =
     mseq (emit ThinkingStarted)
     (let active_specs = (if planning then [] else active_tool_specs L c) in
      if \<not> planning \<and> verification_is_impossible L c active_specs
      then mseq (modify (\<lambda>s. s\<lparr>cl_last_turn_guardrail := Some no_verifier\<rparr>))
           (mseq (emit ThinkingStopped) (mseq (emit (GuardrailStop no_verifier)) (ret Stop)))
      else
        mbind (gets (call_messages L c planning (tn_finalization_hint t))) (\<lambda>ms.
        mbind (gets (call_options L c)) (\<lambda>opts.
        mbind (ask_model L ms active_specs opts) (\<lambda>r.
        case r of
          Inr response \<Rightarrow>
            mseq (emit ThinkingStopped)
            (mseq (modify (\<lambda>s. s\<lparr>cl_usage := record_stats (lr_usage response) (cl_usage s)\<rparr>))
              (ret (Go (t, Some response))))
        | Inl Timed_out \<Rightarrow>
            mseq (emit StreamEnded)
            (mseq (emit ThinkingStopped)
            (if \<not> tn_retried_after_timeout t
             then mbind (compact_history L) (\<lambda>_.
                  mseq (emit (Recovery ''LLM timed out; retrying once with compacted context.''))
                    (ret (Go (t\<lparr>tn_retried_after_timeout := True\<rparr>, None))))
             else stop_turn (''LLM recovery timed out after '' @ lp_llm_recovery_timeout L @ ''s; returned control safely'')))
        | Inl (Other e) \<Rightarrow> raise e
        | Inl f \<Rightarrow>
            mseq (emit StreamEnded)
            (mseq (emit ThinkingStopped)
            (mseq (emit (GuardrailStop (''LLM call failed: '' @ (case f of Transient m \<Rightarrow> m | Failed m \<Rightarrow> m | _ \<Rightarrow> []))))
              (ret Stop)))))))"

text \<open>The answer of the planning phase becomes the plan.\<close>

definition set_last_content :: "string \<Rightarrow> llm_message list \<Rightarrow> llm_message list" where
  "set_last_content t ms = butlast ms @ [(last ms)\<lparr>lm_content := Some t\<rparr>]"

definition adopt_plan :: "'w loop \<Rightarrow> string \<Rightarrow> task_contract \<Rightarrow> llm_response \<Rightarrow> turn \<Rightarrow> ('w, turn) cmd" where
  "adopt_plan L user_input c response t =
     (let plan = (case lr_content response of
                    Some text \<Rightarrow> if lp_is_structured_plan L text then text else default_plan user_input c
                  | None \<Rightarrow> default_plan user_input c)
      in mseq (modify (\<lambda>s. s\<lparr>cl_active_plan := Some plan, cl_history := set_last_content plan (cl_history s)\<rparr>))
         (mseq (emit (AssistantMessage plan))
         (enter_phase PH_implement ''Execute the plan'' (t\<lparr>tn_plan_shown := True\<rparr>))))"

definition verification_required :: "task_contract \<Rightarrow> 'w cli \<Rightarrow> bool" where
  "verification_required c s \<longleftrightarrow> tk_verification_policy c = VP_requested
     \<or> tk_verification_policy c = VP_after_mutation \<and> cl_unverified_revision s \<noteq> None"

definition denied :: "'w loop \<Rightarrow> nat \<Rightarrow> string" where
  "denied L n = ''Finalization denied by runtime (repair '' @ str_of_int (int n) @ ''/''
     @ str_of_int (int (lp_max_finalization_repairs L)) @ ''): ''"

text \<open>A response with no calls: the turn is delivered, or sent back for what is missing.\<close>

definition finalize :: "'w loop \<Rightarrow> task_contract \<Rightarrow> llm_response \<Rightarrow> turn \<Rightarrow> ('w, turn verdict) cmd" where
  "finalize L c response t =
     mbind (gets id) (\<lambda>s.
       let repairs = Suc (tn_finalization_repairs t); may_repair = (tn_finalization_repairs t < lp_max_finalization_repairs L) in
       if cl_active_process_ids s \<noteq> {}
       then if may_repair
            then ret (Go (t\<lparr>tn_finalization_repairs := repairs,
                   tn_finalization_hint := Some (denied L repairs @ ''background processes are still '' @ ''active (''
                     @ str_join '', '' (sorted_list_of_set (cl_active_process_ids s))
                     @ ''). Stop every process you started before finishing.'')\<rparr>))
            else stop_turn ''final answer blocked: background processes started by this turn are still active''
       else
         let verified = (current_evidence s \<noteq> None) in
         if verification_required c s \<and> \<not> verified
         then if may_repair
              then mbind (enter_phase PH_validate ''Verification evidence from the current revision is required''
                     (t\<lparr>tn_finalization_repairs := repairs,
                        tn_finalization_hint := Some (denied L repairs @ missing_evidence_hint c verified
                          @ ''. Run one appropriate verification tool, then summarize its result.'')\<rparr>)) (\<lambda>t'. ret (Go t'))
              else stop_turn ''final answer blocked: requested verification has no successful evidence''
         else
           mseq (trim_session L)
           (mseq (modify (\<lambda>s. s\<lparr>cl_active_phase := PH_deliver\<rparr>))
           (mseq (emit TodoUpdated)
           (mseq (case lr_content response of
                    Some text \<Rightarrow> if text = [] then emit (TurnFinished True)
                                 else emit (FinalAnswer (final_with_evidence L text c s))
                  | None \<Rightarrow> emit (TurnFinished True))
             (ret Stop)))))"

section \<open>Recording a batch\<close>

text \<open>\<open>is_verification_attempt\<close> on a call: the arguments of a command must be an object.\<close>

definition verification_attempt :: "'w env \<Rightarrow> tool_call \<Rightarrow> exn + bool" where
  "verification_attempt E c =
     (case tc_arguments c of
        JObj d \<Rightarrow> Inr (is_verification_attempt E (tc_name c) d)
      | _ \<Rightarrow> if tc_name c = ''run_cli'' then Inl (PyError ''AttributeError'' ''get'')
             else Inr (is_verification_attempt E (tc_name c) []))"

fun all_verification_attempts :: "'w env \<Rightarrow> tool_call list \<Rightarrow> exn + bool" where
  "all_verification_attempts E [] = Inr True"
| "all_verification_attempts E (c # cs) =
     (case verification_attempt E c of
        Inl e \<Rightarrow> Inl e | Inr b \<Rightarrow> if b then all_verification_attempts E cs else Inr False)"

definition tool_message :: "'w env \<Rightarrow> tool_call \<Rightarrow> dict \<Rightarrow> llm_message" where
  "tool_message E c ob =
     (message MR_tool (Some (env_dumps E (JObj ob))))\<lparr>lm_tool_call_id := Some (tc_id c), lm_name := Some (tc_name c)\<rparr>"

definition policy_denial :: "string \<Rightarrow> dict" where
  "policy_denial reason = [(''status'', JStr ''error''), (''error'', JStr reason), (''code'', JStr ''POLICY_DENIED''),
     (''retryable'', JBool True)]"

definition reject_calls :: "'w loop \<Rightarrow> nat \<Rightarrow> (nat \<times> tool_call) list \<Rightarrow> ('w, unit) cmd" where
  "reject_calls L selected rejected =
     for_each rejected (\<lambda>(i, c).
       let reason = policy_reason_for_rejected L c selected in
       mseq (emit (ToolCallFailed (tc_name c) reason)) (append_history (tool_message (lp_env L) c (policy_denial reason))))"

text \<open>The call objects are shared with the assistant's message, which shows their new arguments.\<close>

definition sync_calls :: "(nat \<times> tool_call \<times> dict) list \<Rightarrow> llm_message list \<Rightarrow> llm_message list" where
  "sync_calls obs ms =
     (case find (\<lambda>i. lm_role (ms ! i) = MR_assistant) (rev [0..<length ms]) of
        None \<Rightarrow> ms
      | Some k \<Rightarrow>
          let changed = map (\<lambda>(i, c, ob). (i, c)) obs; m = ms ! k in
          ms[k := m\<lparr>lm_tool_calls := map (updated_call changed) (enumerate 0 (lm_tool_calls m))\<rparr>])"

definition process_id_text :: "'w env \<Rightarrow> dict \<Rightarrow> string option" where
  "process_id_text E d =
     (case dict_get d ''process_id'' of
        Some v \<Rightarrow> if truthy v then Some (case v of JStr t \<Rightarrow> t | _ \<Rightarrow> env_str E v) else None
      | None \<Rightarrow> None)"

text \<open>What an observation does to the session's books; the boolean asks to drop the finalization hint.\<close>

definition note_process :: "'w loop \<Rightarrow> tool_call \<Rightarrow> dict \<Rightarrow> ('w, bool) cmd" where
  "note_process L c ob =
     (let succeeded = (\<not> dict_has ob ''error'') in
      mseq (case (if succeeded \<and> tc_name c = ''start_process'' then process_id_text (lp_env L) ob else None) of
              Some i \<Rightarrow> modify (\<lambda>s. s\<lparr>cl_active_process_ids := insert i (cl_active_process_ids s)\<rparr>)
            | None \<Rightarrow> ret ())
      (case (if succeeded \<and> tc_name c = ''stop_process'' then process_id_text (lp_env L) (call_args c) else None) of
         Some i \<Rightarrow>
           mseq (modify (\<lambda>s. s\<lparr>cl_active_process_ids := cl_active_process_ids s - {i}\<rparr>))
             (gets (\<lambda>s. cl_active_process_ids s = {}))
       | None \<Rightarrow> ret False))"

definition note_mutation :: "'w loop \<Rightarrow> tool_call \<Rightarrow> dict \<Rightarrow> ('w, unit) cmd" where
  "note_mutation L c ob =
     mwhen (\<not> dict_has ob ''error''
            \<and> (case dict_get (lp_tools L) (tc_name c) of Some tk \<Rightarrow> tl_mutates_workspace tk | None \<Rightarrow> False))
       (modify (\<lambda>s. let r = cl_workspace_revision s + 1 in
          s\<lparr>cl_workspace_revision := r, cl_unverified_revision := Some r, cl_tool_result_cache := [],
            cl_verification_evidence := None\<rparr>))"

definition note_verification :: "'w loop \<Rightarrow> tool_call \<Rightarrow> dict \<Rightarrow> ('w, bool) cmd" where
  "note_verification L c ob =
     mbind (lift_cmd (verification_attempt (lp_env L) c)) (\<lambda>attempt.
       if \<not> attempt then ret False
       else if is_verification_evidence (lp_env L) (tc_name c) (call_args c) ob
       then mseq (modify (\<lambda>s. s\<lparr>cl_verification_evidence := Some \<lparr>ev_tool_name = tc_name c,
                       ev_workspace_revision = cl_workspace_revision s,
                       ev_summary = verification_summary (lp_env L) (tc_name c) ob\<rparr>,
                     cl_unverified_revision := None\<rparr>)) (ret True)
       else mseq (modify (\<lambda>s. s\<lparr>cl_verification_evidence := None\<rparr>)) (ret False))"

fun persist_observations :: "'w loop \<Rightarrow> (nat \<times> tool_call \<times> dict) list \<Rightarrow> turn \<Rightarrow> ('w, turn) cmd" where
  "persist_observations L [] t = ret t"
| "persist_observations L ((i, c, ob) # obs) t =
     mbind (note_process L c ob) (\<lambda>stopped.
     mseq (note_mutation L c ob)
     (mbind (note_verification L c ob) (\<lambda>verified.
      mseq (append_history (tool_message (lp_env L) c ob))
        (persist_observations L obs (if stopped \<or> verified then t\<lparr>tn_finalization_hint := None\<rparr> else t)))))"

section \<open>The guardrails of a batch\<close>

definition last_n :: "nat \<Rightarrow> 'a list \<Rightarrow> 'a list" where
  "last_n n xs = drop (length xs - n) xs"

definition same_key :: "string \<times> json \<Rightarrow> string \<times> json \<Rightarrow> bool" where
  "same_key k k' \<longleftrightarrow> fst k = fst k' \<and> py_eq (snd k) (snd k')"

definition fingerprint :: "'w loop \<Rightarrow> tool_call \<Rightarrow> dict \<Rightarrow> string \<times> string" where
  "fingerprint L c ob =
     (tc_name c,
      case dict_get ob ''code'' of
        Some v \<Rightarrow> if truthy v then (case v of JStr t \<Rightarrow> t | _ \<Rightarrow> env_str (lp_env L) v) else lp_dumps_sorted L (JObj ob)
      | None \<Rightarrow> lp_dumps_sorted L (JObj ob))"

definition repeated_message :: "tool_call \<Rightarrow> nat \<Rightarrow> string" where
  "repeated_message c n =
     ''Guardrail: tool '' @ str_repr (tc_name c) @ '' has been called with '' @ ''the same arguments ''
     @ str_of_int (int REPEATED_CALL_WINDOW) @ '' times in a row. '' @ ''You are now in recovery attempt ''
     @ str_of_int (int n) @ ''/2. '' @ ''Stop repeating that call; analyze the situation and choose a ''
     @ ''different tool or different arguments before proceeding.''"

definition repeated_calls :: "(string \<times> json) list \<Rightarrow> string \<times> json \<Rightarrow> bool" where
  "repeated_calls recent key \<longleftrightarrow>
     REPEATED_CALL_WINDOW \<le> length recent \<and> list_all (\<lambda>c. same_key c key) (last_n REPEATED_CALL_WINDOW recent)"

definition declined_or_ok :: "'w env \<Rightarrow> dict \<Rightarrow> bool" where
  "declined_or_ok E ob =
     (case dict_get ob ''error'' of
        None \<Rightarrow> True
      | Some v \<Rightarrow> str_contains ''declined'' (case v of JStr t \<Rightarrow> t | _ \<Rightarrow> env_str E v))"

text \<open>An identical call: two recoveries with a word to the model, then the turn stops.\<close>

definition recover_repeated :: "tool_call \<Rightarrow> string \<times> json \<Rightarrow> turn \<Rightarrow> ('w, turn verdict) cmd" where
  "recover_repeated c key t =
     (if tn_identical_attempts t < 2
      then
        let n = Suc (tn_identical_attempts t) in
        mseq (emit (Recovery (repeated_message c n)))
        (mseq (append_history (system_message (repeated_message c n)))
          (ret (Go (t\<lparr>tn_identical_attempts := n, tn_identical_last_key := Some key\<rparr>))))
      else stop_turn (''tool '' @ str_repr (tc_name c) @ '' called with identical arguments ''
             @ str_of_int (int REPEATED_CALL_WINDOW) @ '' times in a row; '' @ ''recovery budget exhausted (''
             @ str_of_int (int (tn_identical_attempts t)) @ ''/2)''))"

definition same_outcome :: "(string \<times> string) list \<Rightarrow> string \<times> string \<Rightarrow> bool" where
  "same_outcome fps fp \<longleftrightarrow> 3 \<le> length fps \<and> list_all (\<lambda>x. x = fp) (last_n 3 fps)"

fun check_observations :: "'w loop \<Rightarrow> (nat \<times> tool_call \<times> dict) list \<Rightarrow> turn \<Rightarrow> ('w, turn verdict) cmd" where
  "check_observations L [] t = ret (Go t)"
| "check_observations L ((i, c, ob) # obs) t =
     (let key = (tc_name c, tc_arguments c);
          t1 = t\<lparr>tn_recent_calls := tn_recent_calls t @ [key]\<rparr>
      in if repeated_calls (tn_recent_calls t1) key then recover_repeated c key t1
         else
           let fp = fingerprint L c ob; fps = tn_outcome_fingerprints t1 @ [fp];
               changed = (case tn_identical_last_key t1 of None \<Rightarrow> False | Some k \<Rightarrow> \<not> same_key key k)
           in if same_outcome fps fp \<and> \<not> changed
              then stop_turn (''no progress after 3 calls to '' @ str_repr (tc_name c) @ ''; stopped to prevent a loop'')
              else
                let t2 = t1\<lparr>tn_outcome_fingerprints := (if same_outcome fps fp then [fp] else fps)\<rparr>;
                    invalid = (dict_get ob ''code'' = Some (JStr ''INVALID_ARGUMENT''));
                    n = (case map_of (tn_argument_failures t2) (tc_name c) of None \<Rightarrow> 0 | Some k \<Rightarrow> k) + 1;
                    t3 = (if invalid then t2\<lparr>tn_argument_failures := AList.update (tc_name c) n (tn_argument_failures t2)\<rparr>
                          else t2)
                in if invalid \<and> lp_max_argument_repairs L < n
                   then stop_turn (''argument repair budget exhausted for '' @ str_repr (tc_name c) @ '' (''
                          @ str_of_int (int (lp_max_argument_repairs L)) @ '')'')
                   else
                     let failures = (if declined_or_ok (lp_env L) ob then 0 else tn_consecutive_tool_failures t3 + 1);
                         t4 = t3\<lparr>tn_consecutive_tool_failures := failures\<rparr>
                     in if lp_max_consecutive_tool_failures L \<le> failures
                        then stop_turn (''too many consecutive tool failures '' @ ''(''
                               @ str_of_int (int (lp_max_consecutive_tool_failures L))
                               @ ''); stopped to prevent a retry loop'')
                        else check_observations L obs t4)"

section \<open>A step and a turn\<close>

definition run_batch :: "'w loop \<Rightarrow> llm_response \<Rightarrow> turn \<Rightarrow> ('w, turn verdict) cmd" where
  "run_batch L response t =
     mbind (lift_cmd (all_verification_attempts (lp_env L) (lr_tool_calls response))) (\<lambda>validating.
     mbind (if validating then enter_phase PH_validate ''Run verification tools'' t
            else enter_phase PH_implement ''Call tools per the plan'' t) (\<lambda>t1.
     let (selected, rejected) = plan_tool_calls_cli L (lr_tool_calls response) in
     mseq (reject_calls L (length selected) rejected)
     (mbind (execute_selected_calls L selected) (\<lambda>obs.
      mseq (modify (\<lambda>s. s\<lparr>cl_history := sync_calls obs (cl_history s)\<rparr>))
      (mbind (persist_observations L obs t1) (\<lambda>t2.
       mseq (trim_session L) (check_observations L obs t2)))))))"

definition assistant_message :: "llm_response \<Rightarrow> llm_message" where
  "assistant_message r =
     (message MR_assistant (lr_content r))\<lparr>lm_tool_calls := lr_tool_calls r, lm_provider_fields := lr_provider_fields r\<rparr>"

definition turn_step :: "'w loop \<Rightarrow> string \<Rightarrow> task_contract \<Rightarrow> turn \<Rightarrow> ('w, turn verdict) cmd" where
  "turn_step L user_input c t =
     mbind (prepare_context L) (\<lambda>v.
       case v of
         Stop \<Rightarrow> ret Stop
       | Go _ \<Rightarrow>
           let planning = (tk_requires_plan c \<and> \<not> tn_plan_shown t) in
           mbind (consult_model L c planning t) (\<lambda>v.
             case v of
               Stop \<Rightarrow> ret Stop
             | Go (t1, None) \<Rightarrow> ret (Go t1)
             | Go (t1, Some response) \<Rightarrow>
                 mseq (append_history (assistant_message response))
                 (mbind (if planning then adopt_plan L user_input c response t1 else ret t1) (\<lambda>t2.
                    if lr_tool_calls response = []
                    then if planning then ret (Go t2) else finalize L c response t2
                    else
                      mseq (case lr_content response of
                              Some text \<Rightarrow> mwhen (text \<noteq> [] \<and> \<not> planning) (emit (AssistantMessage text))
                            | None \<Rightarrow> ret ())
                        (run_batch L response t2)))))"

fun turn_loop :: "nat \<Rightarrow> 'w loop \<Rightarrow> string \<Rightarrow> task_contract \<Rightarrow> turn \<Rightarrow> ('w, unit) cmd" where
  "turn_loop 0 L user_input c t =
     mseq (modify (\<lambda>s. s\<lparr>cl_last_turn_guardrail := Some (''exceeded max steps ('' @ str_of_int (int (lp_max_steps L)) @ '')'')\<rparr>))
       (emit (GuardrailStop (''exceeded max steps ('' @ str_of_int (int (lp_max_steps L)) @ '')'')))"
| "turn_loop (Suc n) L user_input c t =
     mbind (turn_step L user_input c t) (\<lambda>v. case v of Stop \<Rightarrow> ret () | Go t' \<Rightarrow> turn_loop n L user_input c t')"

definition first_turn :: "tracker \<Rightarrow> bool \<Rightarrow> turn" where
  "first_turn tr plan_shown =
     \<lparr>tn_tracker = tr, tn_recent_calls = [], tn_consecutive_tool_failures = 0, tn_argument_failures = [],
      tn_plan_shown = plan_shown, tn_finalization_repairs = 0, tn_finalization_hint = None,
      tn_retried_after_timeout = False, tn_outcome_fingerprints = [], tn_identical_attempts = 0,
      tn_identical_last_key = None\<rparr>"

definition run_turn :: "'w loop \<Rightarrow> string \<Rightarrow> task_contract option \<Rightarrow> ('w, unit) cmd" where
  "run_turn L user_input contract =
     (let c = (case contract of None \<Rightarrow> derive_task_contract (lp_intents L) user_input | Some c \<Rightarrow> c);
          continuing = (contract \<noteq> None);
          tr = advance PH_analyze ''Classify the request and tool scope'' new_tracker
      in mseq (emit TurnStarted) (mseq (emit TodoUpdated)
         (mseq (modify (\<lambda>s. s\<lparr>cl_active_phase := PH_analyze\<rparr>)) (mseq (emit TodoUpdated)
         (mseq (modify (\<lambda>s. s\<lparr>cl_tool_result_cache := [], cl_history := cl_history s @ [message MR_user (Some user_input)]\<rparr>))
         (mseq (mwhen (\<not> continuing) (modify (\<lambda>s. s\<lparr>cl_active_plan := None, cl_verification_evidence := None,
                  cl_last_turn_input := Some user_input\<rparr>)))
         (mseq (modify (\<lambda>s. s\<lparr>cl_active_contract := Some c, cl_last_turn_guardrail := None\<rparr>))
         (mbind (gets cl_active_plan) (\<lambda>plan.
            let plan_shown = (continuing \<and> plan \<noteq> None \<and> plan \<noteq> Some []);
                needs = (tk_requires_plan c \<and> \<not> plan_shown);
                tr' = (if needs then advance PH_plan ''Draft a plan before calling tools'' tr else tr)
            in mseq (mwhen needs (emit TodoUpdated))
                 (turn_loop (lp_max_steps L) L user_input c (first_turn tr' plan_shown)))))))))))"

end
