(* ===== verification/CliRuns.thy ===== *)
theory CliRuns
  imports CliLoop Samples
begin

text \<open>
  What a turn of the command line agent guarantees: an answer is delivered only with its evidence,
  tools run only as the mode and the user allow, the model is asked a bounded number of times, and
  the history stays a conversation. What every part of a turn may do is a relation between its
  states; the locales \<open>turn_frame\<close> and \<open>model_frame\<close> carry a relation from the single
  effects (a notice, a change of the books, a tool call, a request to the model) to a whole batch.
\<close>

section \<open>Frames\<close>

text \<open>The books: everything but the notices, the trace and the tools the user always allows.\<close>

definition books :: "('w cli \<Rightarrow> 'w cli) \<Rightarrow> bool" where
  "books f \<longleftrightarrow> (\<forall>s. cl_events (f s) = cl_events s \<and> cl_trace (f s) = cl_trace s
     \<and> cl_always_allowed (f s) = cl_always_allowed s)"

fun delivers :: "event \<Rightarrow> bool" where
  "delivers (FinalAnswer t) = True"
| "delivers (TurnFinished b) = b"
| "delivers _ = False"

lemma validate_calls_read_only:
  "validate_calls L cs rs = Inr (ds, rs') \<Longrightarrow> list_all (is_read_only_call L) cs
   \<Longrightarrow> list_all (is_read_only_call L) ds"
  by (induction L cs rs arbitrary: ds rs' rule: validate_calls.induct)
    (auto simp: is_read_only_call_def split: option.splits sum.splits exn.splits prod.splits)

text \<open>The calls of a batch.\<close>

locale calls_frame = state_preorder R for R :: "'w cli \<Rightarrow> 'w cli \<Rightarrow> bool" +
  fixes L :: "'w loop"
  assumes process_R: "R s (snd (process_tool_call L c s))"
    and read_only_R: "tool_tier L (tc_name c) = Some RT_read_only
      \<Longrightarrow> R s (snd (run_read_only_call L results c s))"
begin

lemma frame_Pair: "resp R (Pair x)"
  by (simp add: resp_def refl)

lemma frame_process: "resp R (process_tool_call L c)"
  by (simp add: resp_def process_R)

lemma frame_read_only: "is_read_only_call L (i, c) \<Longrightarrow> resp R (run_read_only_call L results c)"
  by (simp add: resp_def is_read_only_call_def read_only_R)

lemma frame_lift: "resp R (lift_cmd x)"
  by (auto simp: lift_cmd_def intro: resp_raise resp_ret split: sum.split)

lemma frame_read_only_calls:
  "list_all (is_read_only_call L) cs \<Longrightarrow> resp R (run_read_only_calls L results cs)"
proof (induction cs)
  case (Cons c cs)
  then show ?case by (cases c) (auto intro!: resp_mbind resp_ret frame_Pair intro: frame_read_only)
qed (simp add: resp_ret frame_Pair)

lemma frame_mutations: "resp R (run_mutation_calls L cs)"
proof (induction cs)
  case (Cons c cs)
  then show ?case by (cases c) (auto intro!: resp_mbind resp_ret frame_Pair frame_process)
qed (simp add: resp_ret frame_Pair)

lemma frame_execute: "resp R (execute_selected_calls L selected)"
proof -
  have "resp R (run_read_only_calls L (snd v) (fst v))"
    if "validate_calls L (filter (is_read_only_call L) selected) [] = Inr v" for v
    using validate_calls_read_only [of L "filter (is_read_only_call L) selected" "[]" "fst v" "snd v"] that
    by (intro frame_read_only_calls) (simp add: list.pred_set)
  then show ?thesis
    by (auto simp: execute_selected_calls_def lift_cmd_def Let_def
        intro!: resp_intros frame_Pair frame_lift frame_mutations split: sum.splits)
qed

end

locale turn_frame = calls_frame R L for R :: "'w cli \<Rightarrow> 'w cli \<Rightarrow> bool" and L :: "'w loop" +
  assumes books_R: "books f \<Longrightarrow> R s (f s)"
    and emit_R: "\<not> delivers e \<Longrightarrow> R s (s\<lparr>cl_events := cl_events s @ [e]\<rparr>)"
begin

lemma frame_books: "books f \<Longrightarrow> resp R (modify f)"
  by (simp add: resp_def books_R)

lemma frame_emit: "\<not> delivers e \<Longrightarrow> resp R (emit e)"
  by (simp add: resp_def emit_def emit_R)

lemma frame_append: "resp R (append_history m)"
  unfolding append_history_def by (rule frame_books) (simp add: books_def)

lemma frame_trim: "resp R (trim_session L)"
  unfolding trim_session_def by (rule frame_books) (simp add: books_def)

lemma frame_compact: "resp R (compact_history L)"
  unfolding compact_history_def Let_def
  by (intro resp_intros frame_books) (simp add: books_def)

lemmas frame_ops = resp_intros frame_Pair frame_emit frame_append frame_trim frame_lift frame_compact

lemma frame_stop: "resp R (stop_turn reason)"
  unfolding stop_turn_def by (intro frame_ops frame_books) (simp_all add: books_def)

lemma frame_phase: "resp R (enter_phase p note t)"
  unfolding enter_phase_def by (intro frame_ops frame_books) (simp_all add: books_def)

lemma frame_reject: "resp R (reject_calls L n rejected)"
  unfolding reject_calls_def by (auto simp: Let_def intro!: frame_ops)

lemma frame_persist: "resp R (persist_observations L obs t)"
proof (induction obs arbitrary: t)
  case (Cons c obs)
  have "resp R (note_process L d ob)" and "resp R (note_mutation L d ob)" for d ob
    by (auto simp: note_process_def note_mutation_def Let_def books_def
        intro!: frame_ops frame_books split: option.split)
  moreover have "resp R (note_verification L d ob)" for d ob
    by (auto simp: note_verification_def books_def intro!: frame_ops frame_books)
  ultimately show ?case
    using Cons by (cases c) (auto intro!: frame_ops)
qed (simp add: resp_ret frame_Pair)

lemma frame_check: "resp R (check_observations L obs t)"
proof (induction obs arbitrary: t)
  case (Cons c obs)
  have "resp R (recover_repeated d key t')" for d key and t' :: turn
    by (auto simp: recover_repeated_def Let_def intro!: frame_ops frame_stop)
  with Cons show ?case by (cases c) (auto simp: Let_def intro!: frame_stop)
qed (simp add: resp_ret frame_Pair)

lemma frame_batch: "resp R (run_batch L response t)"
  unfolding run_batch_def
  by (auto simp: books_def intro!: frame_ops frame_books frame_phase frame_reject frame_execute
      frame_persist frame_check split: prod.split)

lemma frame_prepare: "resp R (prepare_context L)"
  unfolding prepare_context_def
  by (auto intro!: frame_ops split: option.split)

lemma frame_adopt: "resp R (adopt_plan L u c response t)"
  unfolding adopt_plan_def Let_def
  by (intro frame_ops frame_books frame_phase) (simp_all add: books_def)

end

text \<open>The requests to the model.\<close>

locale model_frame = turn_frame R L for R :: "'w cli \<Rightarrow> 'w cli \<Rightarrow> bool" and L :: "'w loop" +
  assumes stream_R: "R s (snd (complete_stream L ms specs opts s))"
    and plain_R: "R s (snd (complete_plain L ms specs opts s))"
begin

lemma frame_ask: "resp R (ask_model L ms specs opts)"
proof -
  have "resp R (complete_stream L ms specs opts)" and "resp R (complete_plain L ms specs opts)"
    by (simp_all add: resp_def stream_R plain_R)
  then show ?thesis
    by (auto simp: ask_model_def intro!: frame_ops split: sum.split llm_failure.split)
qed

lemma frame_consult: "resp R (consult_model L c planning t)"
  unfolding consult_model_def
  by (auto simp: Let_def books_def intro!: frame_ops frame_books frame_ask frame_stop
      split: sum.split llm_failure.split)

end

text \<open>Any notice, an answer included.\<close>

locale loud_frame = turn_frame R L for R :: "'w cli \<Rightarrow> 'w cli \<Rightarrow> bool" and L :: "'w loop" +
  assumes loud_R: "R s (s\<lparr>cl_events := cl_events s @ [e]\<rparr>)"
begin

lemma frame_loud: "resp R (emit e)"
  by (simp add: resp_def emit_def loud_R)

lemma frame_finalize: "resp R (finalize L c response t)"
  unfolding finalize_def
  by (auto simp: Let_def books_def intro!: frame_ops frame_books frame_loud frame_phase frame_stop
      split: option.split)

end

locale whole_frame = model_frame R L + loud_frame R L for R :: "'w cli \<Rightarrow> 'w cli \<Rightarrow> bool" and L :: "'w loop"
begin

lemma frame_step: "resp R (turn_step L u c t)"
  unfolding turn_step_def
  by (auto simp: Let_def intro!: frame_ops frame_prepare frame_consult frame_adopt frame_batch frame_finalize
      split: verdict.split option.split prod.split)

lemma frame_loop: "resp R (turn_loop n L u c t)"
proof (induction n arbitrary: t)
  case 0
  show ?case unfolding turn_loop.simps by (intro resp_mbind frame_books frame_loud) (simp add: books_def)
next
  case (Suc n)
  then show ?case by (auto intro!: resp_mbind resp_ret frame_Pair frame_step split: verdict.split)
qed

end

section \<open>Single effects\<close>

text \<open>A relation that every single effect of a tool call keeps is kept by the whole call.\<close>

locale effect_frame = state_preorder R for R :: "'w cli \<Rightarrow> 'w cli \<Rightarrow> bool" +
  assumes effect_emit: "\<not> delivers e \<Longrightarrow> R s (s\<lparr>cl_events := cl_events s @ [e]\<rparr>)"
    and effect_handle: "R s (snd (handle tk n args s))"
    and effect_ask_user: "R s (snd (ask_user L tk n args s))"
    and effect_allow: "R s (s\<lparr>cl_always_allowed := A\<rparr>)"
    and effect_cache: "R s (s\<lparr>cl_tool_result_cache := C\<rparr>)"
begin

lemma effect_Pair: "resp R (Pair x)"
  by (simp add: resp_def refl)

lemma effect_emits: "\<not> delivers e \<Longrightarrow> resp R (emit e)"
  by (simp add: resp_def emit_def effect_emit)

lemma effect_handler: "resp R (handle tk n args)"
  by (simp add: resp_def effect_handle)

lemma effect_user: "resp R (ask_user L tk n args)"
  by (simp add: resp_def effect_ask_user)

lemma effect_always: "resp R (modify (\<lambda>s. s\<lparr>cl_always_allowed := insert n (cl_always_allowed s)\<rparr>))"
  by (simp add: resp_def effect_allow)

lemma effect_caches: "resp R (modify (\<lambda>s. s\<lparr>cl_tool_result_cache := f (cl_tool_result_cache s)\<rparr>))"
  by (simp add: resp_def effect_cache)

lemma effect_fail: "resp R (fail_call n m)"
  unfolding fail_call_def by (intro resp_intros effect_emits) simp

lemma effect_attempts: "resp R (attempts tk n args tries k)"
proof (induction k)
  case (Suc k)
  then show ?case
    by (auto intro!: resp_intros effect_Pair effect_emits effect_handler split: sum.split)
qed (simp add: effect_Pair)

lemma effect_invoke: "resp R (invoke_tool_handler L n args)"
  unfolding invoke_tool_handler_def
  by (auto simp: Let_def intro!: resp_intros effect_Pair effect_emits effect_fail effect_attempts effect_handler
      split: option.split sum.split)

lemma effect_process: "resp R (process_tool_call L c)"
  unfolding process_tool_call_def
  by (auto simp: Let_def intro!: resp_intros effect_Pair effect_emits effect_fail effect_user effect_always
      effect_invoke split: option.split sum.split exn.split)

lemma effect_read_only: "resp R (run_read_only_call L results c)"
  unfolding run_read_only_call_def
  by (auto simp: Let_def intro!: resp_intros effect_Pair effect_emits effect_caches effect_invoke
      split: option.split)

end

sublocale effect_frame \<subseteq> calls_frame R L for L
  using effect_process effect_read_only by unfold_locales (auto simp: resp_def)

locale books_frame = effect_frame R for R :: "'w cli \<Rightarrow> 'w cli \<Rightarrow> bool" +
  assumes effect_books: "books f \<Longrightarrow> R s (f s)"

sublocale books_frame \<subseteq> turn_frame R L for L
  by unfold_locales (auto simp: effect_books effect_emit)

section \<open>Answers\<close>

definition quiet :: "'w cli \<Rightarrow> 'w cli \<Rightarrow> bool" where
  "quiet s s' \<longleftrightarrow> (\<exists>es. cl_events s' = cl_events s @ es \<and> \<not> list_ex delivers es)"

definition asked :: "'w cli \<Rightarrow> nat" where
  "asked s = length (filter (\<lambda>a. case a of Asked_model _ \<Rightarrow> True | _ \<Rightarrow> False) (cl_trace s))"

definition same_asks :: "'w cli \<Rightarrow> 'w cli \<Rightarrow> bool" where
  "same_asks s s' \<longleftrightarrow> asked s' = asked s"

interpretation quiet: books_frame quiet
proof unfold_locales
  show "quiet s u" if "quiet s t" "quiet t u" for s t u :: "'w cli"
    using that by (fastforce simp: quiet_def)
qed (auto simp: quiet_def books_def handle_def ask_user_def split: prod.split)

interpretation quiet: model_frame quiet L for L :: "'w loop"
  by unfold_locales
    (auto simp: quiet_def complete_stream_def complete_plain_def list_ex_iff split: prod.split)

interpretation same_asks: books_frame same_asks
  by unfold_locales
    (auto simp: same_asks_def asked_def books_def handle_def ask_user_def split: prod.split)

subsection \<open>An answer has its evidence\<close>

definition settled :: "task_contract \<Rightarrow> 'w cli \<Rightarrow> bool" where
  "settled c s \<longleftrightarrow> cl_active_process_ids s = {} \<and> (verification_required c s \<longrightarrow> current_evidence s \<noteq> None)"

definition settles :: "task_contract \<Rightarrow> ('w, 'a verdict) cmd \<Rightarrow> bool" where
  "settles c m \<longleftrightarrow> (\<forall>s. \<not> quiet s (snd (m s)) \<longrightarrow> settled c (snd (m s)) \<and> fst (m s) = Inr Stop)"

lemma settles_quiet: "resp quiet m \<Longrightarrow> settles c m"
  by (simp add: settles_def resp_def)

lemma settles_mbind:
  assumes "resp quiet m" and "\<And>a. settles c (f a)"
  shows "settles c (mbind m f)"
proof -
  have "settled c (snd (mbind m f s)) \<and> fst (mbind m f s) = Inr Stop"
    if loud: "\<not> quiet s (snd (mbind m f s))" for s
  proof (cases "m s")
    case (Pair r u)
    with assms(1) have q: "quiet s u" by (rule respD)
    show ?thesis
    proof (cases r)
      case (Inl e)
      with Pair q loud show ?thesis by simp
    next
      case (Inr a)
      with Pair q loud have "\<not> quiet u (snd (f a u))" by (auto intro: quiet.trans)
      with assms(2) [of a] Inr Pair show ?thesis by (simp add: settles_def)
    qed
  qed
  then show ?thesis by (simp add: settles_def)
qed

lemma settled_history [simp]:
  "settled c (s\<lparr>cl_history := h\<rparr>) = settled c s"
  "settled c (s\<lparr>cl_active_phase := p\<rparr>) = settled c s"
  "settled c (s\<lparr>cl_events := es\<rparr>) = settled c s"
  by (simp_all add: settled_def verification_required_def current_evidence_def cong: option.case_cong if_cong)

lemma finalize_settles: "settles c (finalize L c response t)"
proof -
  have "settled c (snd (finalize L c response t s)) \<and> fst (finalize L c response t s) = Inr Stop"
    if s: "settled c s" for s
    using s by (auto simp: finalize_def Let_def trim_session_def emit_def settled_def [of c s]
        intro!: settled_history split: option.split)
  moreover have "quiet s (snd (finalize L c response t s))" if s: "\<not> settled c s" for s
  proof -
    note stop = quiet.frame_stop [unfolded resp_def, rule_format]
    have phase: "resp quiet (mbind (enter_phase p n t') (\<lambda>t. ret (Go t)))" for p n t'
      by (intro quiet.resp_mbind quiet.frame_phase quiet.resp_ret)
    show ?thesis
      using s phase
      by (auto simp: finalize_def Let_def settled_def stop quiet.refl resp_def)
  qed
  ultimately show ?thesis by (auto simp: settles_def)
qed

lemmas settles_rules = settles_mbind finalize_settles
  settles_quiet [OF quiet.resp_ret] settles_quiet [OF quiet.frame_Pair] settles_quiet [OF quiet.frame_batch]

lemma turn_step_settles: "settles c (turn_step L u c t)"
  unfolding turn_step_def
  by (auto simp: Let_def assistant_message_def intro!: settles_rules quiet.frame_ops
      quiet.frame_prepare quiet.frame_consult quiet.frame_adopt
      split: verdict.split option.split prod.split)

lemma turn_loop_settles:
  "quiet s (snd (turn_loop n L u c t s)) \<or> settled c (snd (turn_loop n L u c t s))"
proof (induction n arbitrary: t s)
  case 0
  show ?case by (auto simp: quiet_def emit_def)
next
  case (Suc n)
  obtain r s1 where step: "turn_step L u c t s = (r, s1)" by (cases "turn_step L u c t s")
  have settle: "quiet s s1 \<or> settled c s1 \<and> r = Inr Stop"
    using turn_step_settles [of c L u t] step unfolding settles_def by (metis fst_conv snd_conv)
  show ?case
  proof (cases r)
    case (Inl e)
    with step settle show ?thesis by (auto simp: mbind_def)
  next
    case (Inr v)
    with step settle Suc.IH [of s1] show ?thesis
      by (cases v) (auto simp: mbind_def intro: quiet.trans)
  qed
qed

definition turn_contract :: "'w loop \<Rightarrow> string \<Rightarrow> task_contract option \<Rightarrow> task_contract" where
  "turn_contract L user_input contract =
     (case contract of None \<Rightarrow> derive_task_contract (lp_intents L) user_input | Some c \<Rightarrow> c)"

lemma run_turn_starts:
  obtains t s1 where "run_turn L u contract s = turn_loop (lp_max_steps L) L u (turn_contract L u contract) t s1"
    and "quiet s s1" and "cl_trace s1 = cl_trace s" and "cl_always_allowed s1 = cl_always_allowed s"
    and "cl_history s1 = cl_history s @ [message MR_user (Some u)]"
proof -
  define c where "c = turn_contract L u contract"
  define plan where "plan = (if contract = None then None else cl_active_plan s)"
  define shown where "shown = (contract \<noteq> None \<and> plan \<noteq> None \<and> plan \<noteq> Some [])"
  define tr where "tr = (let tr = advance PH_analyze ''Classify the request and tool scope'' new_tracker in
    if tk_requires_plan c \<and> \<not> shown then advance PH_plan ''Draft a plan before calling tools'' tr else tr)"
  define s1 where "s1 = (let s1 = s\<lparr>cl_events := cl_events s @ [TurnStarted, TodoUpdated, TodoUpdated]
        @ (if tk_requires_plan c \<and> \<not> shown then [TodoUpdated] else []),
      cl_active_phase := PH_analyze, cl_tool_result_cache := [],
      cl_history := cl_history s @ [message MR_user (Some u)],
      cl_active_contract := Some c, cl_last_turn_guardrail := None\<rparr> in
    if contract = None
    then s1\<lparr>cl_active_plan := None, cl_verification_evidence := None, cl_last_turn_input := Some u\<rparr> else s1)"
  have "run_turn L u contract s = turn_loop (lp_max_steps L) L u c (first_turn tr shown) s1"
    by (cases s) (auto simp: run_turn_def Let_def turn_contract_def [symmetric] c_def [symmetric] emit_def mwhen_def s1_def
        tr_def plan_def shown_def mbind_def)
  with that [of "first_turn tr shown" s1] show thesis
    by (auto simp: c_def s1_def Let_def quiet_def split: if_splits)
qed


section \<open>Requests to the model\<close>

interpretation same_asks: loud_frame same_asks L for L :: "'w loop"
  by unfold_locales (simp add: same_asks_def asked_def)

definition asks :: "nat \<Rightarrow> ('w, 'a) cmd \<Rightarrow> bool" where
  "asks k m \<longleftrightarrow> (\<forall>s. asked (snd (m s)) \<le> asked s + k)"

lemma asks_none: "resp same_asks m \<Longrightarrow> asks k m"
  by (simp add: asks_def resp_def same_asks_def)

lemma asks_mbind:
  assumes "asks k m" and "\<And>a. asks k' (f a)" and "k + k' = n"
  shows "asks n (mbind m f)"
proof -
  have "asked (snd (mbind m f s)) \<le> asked s + n" for s
  proof (cases "m s")
    case (Pair r u)
    have "asked u \<le> asked s + k" using assms(1) Pair by (simp add: asks_def) (metis snd_conv)
    moreover have "asked (snd (f a u)) \<le> asked u + k'" for a using assms(2) by (simp add: asks_def)
    ultimately have "asked (snd (f a u)) \<le> asked s + n" for a using assms(3) by (metis add.assoc add_le_mono1 order_trans)
    with Pair \<open>asked u \<le> asked s + k\<close> assms(3) show ?thesis by (cases r) (auto simp: mbind_def)
  qed
  then show ?thesis by (simp add: asks_def)
qed

lemma asks_ret: "asks k (ret a)"
  by (simp add: asks_def)

lemma asks_seq: "resp same_asks m \<Longrightarrow> (\<And>a. asks k (f a)) \<Longrightarrow> asks k (mbind m f)"
  by (rule asks_mbind [where k = 0 and k' = k]) (simp_all add: asks_none)

lemma asks_then: "asks k m \<Longrightarrow> (\<And>a. resp same_asks (f a)) \<Longrightarrow> asks k (mbind m f)"
  by (rule asks_mbind [where k = k and k' = 0]) (simp_all add: asks_none)

lemma asks_stream: "asks (Suc 0) (complete_stream L ms specs opts)" "asks (Suc 0) (complete_plain L ms specs opts)"
  by (auto simp: asks_def complete_stream_def complete_plain_def asked_def split: prod.split)

lemma ask_model_asks: "asks 2 (ask_model L ms specs opts)"
  unfolding ask_model_def
  by (rule asks_seq, rule same_asks.frame_emit, simp, rule asks_mbind [where k = "Suc 0" and k' = "Suc 0"], rule asks_stream)
    (auto intro!: asks_seq asks_stream same_asks.frame_emit asks_ret
      split: sum.split llm_failure.split)

lemma consult_asks: "asks 2 (consult_model L c planning t)"
  unfolding consult_model_def
  by (auto simp: Let_def books_def intro!: asks_seq asks_then [OF ask_model_asks]
      same_asks.frame_ops same_asks.frame_books same_asks.frame_stop asks_ret
      split: sum.split llm_failure.split)

lemma turn_step_asks: "asks 2 (turn_step L u c t)"
  unfolding turn_step_def
  by (auto simp: Let_def intro!: asks_seq asks_then [OF consult_asks] same_asks.frame_ops same_asks.frame_prepare
      same_asks.frame_adopt same_asks.frame_batch same_asks.frame_finalize asks_ret
      split: verdict.split option.split prod.split)

lemma turn_loop_asks: "asks (2 * n) (turn_loop n L u c t)"
proof (induction n arbitrary: t)
  case 0
  show ?case
    unfolding turn_loop.simps
    by (intro asks_none same_asks.resp_mbind same_asks.frame_books same_asks.frame_loud) (simp add: books_def)
next
  case (Suc n)
  then show ?case
    by (auto intro!: asks_mbind [OF turn_step_asks, where k' = "2 * n"] asks_ret
        split: verdict.split)
qed


section \<open>Permission\<close>

text \<open>
  Replaying a trace: the tools that are always allowed, and the call the user has just confirmed
  (\<open>pending\<close>). A handler may be called when the mode allows its tool and, if the call needs
  approval, the tool is always allowed or this very call was confirmed.
\<close>

definition may_invoke :: "'w loop \<Rightarrow> string set \<Rightarrow> (string \<times> json) option \<Rightarrow> string \<Rightarrow> json \<Rightarrow> bool" where
  "may_invoke L A pending n args =
     (case (dict_get (lp_tools L) n, args) of
        (Some tk, JObj d) \<Rightarrow>
          tool_is_allowed (lp_mode L) (tl_risk_tier tk)
          \<and> (tool_requires_approval (lp_env L) (lp_mode L) n (tl_risk_tier tk) d
               \<longrightarrow> n \<in> A \<or> pending = Some (n, args))
      | _ \<Rightarrow> False)"

definition grant :: "string set \<Rightarrow> action \<Rightarrow> string set" where
  "grant A a = (case a of Confirmed n args d \<Rightarrow> if d = ''always'' then insert n A else A | _ \<Rightarrow> A)"

fun permitted :: "'w loop \<Rightarrow> string set \<Rightarrow> (string \<times> json) option \<Rightarrow> action list \<Rightarrow> bool" where
  "permitted L A pending [] = True"
| "permitted L A pending (Asked_model ms # tr) = permitted L A None tr"
| "permitted L A pending (Confirmed n args d # tr) =
     permitted L (grant A (Confirmed n args d)) (if d = ''no'' then None else Some (n, args)) tr"
| "permitted L A pending (Invoked n args # tr) \<longleftrightarrow> may_invoke L A pending n args \<and> permitted L A pending tr"

text \<open>No read-only tool runs commands: those two names are the ones a command's text decides on.\<close>

definition plain_readers :: "'w loop \<Rightarrow> bool" where
  "plain_readers L \<longleftrightarrow> (\<forall>n \<in> {''run_cli'', ''start_process''}. tool_tier L n \<noteq> Some RT_read_only)"

definition lawful :: "'w loop \<Rightarrow> 'w cli \<Rightarrow> 'w cli \<Rightarrow> bool" where
  "lawful L s s' \<longleftrightarrow> (plain_readers L \<longrightarrow>
     (\<exists>es. cl_trace s' = cl_trace s @ es \<and> cl_always_allowed s' = fold (\<lambda>a A. grant A a) es (cl_always_allowed s)
        \<and> permitted L (cl_always_allowed s) None es))"

lemma permitted_pending: "permitted L A None tr \<Longrightarrow> permitted L A pending tr"
proof (induction tr)
  case (Cons a tr)
  then show ?case by (cases a) (auto simp: may_invoke_def split: option.splits json.splits)
qed simp

lemma permitted_append:
  "permitted L A pending es \<Longrightarrow> permitted L (fold (\<lambda>a A. grant A a) es A) None fs
   \<Longrightarrow> permitted L A pending (es @ fs)"
  by (induction L A pending es rule: permitted.induct) (auto simp: grant_def permitted_pending)

lemma lawful_trans: "lawful L s t \<Longrightarrow> lawful L t u \<Longrightarrow> lawful L s u"
  by (fastforce simp: lawful_def intro: permitted_append)

lemma permitted_replicate:
  "may_invoke L A pending n args \<Longrightarrow> permitted L A pending (replicate k (Invoked n args))
     \<and> fold (\<lambda>a A. grant A a) (replicate k (Invoked n args)) A = A"
  by (induction k) (auto simp: grant_def)

text \<open>What the handler of one call does to the trace.\<close>

definition invokes :: "string \<Rightarrow> dict \<Rightarrow> 'w cli \<Rightarrow> 'w cli \<Rightarrow> bool" where
  "invokes n args s s' \<longleftrightarrow> cl_always_allowed s' = cl_always_allowed s
     \<and> (\<exists>k. cl_trace s' = cl_trace s @ replicate k (Invoked n (JObj args)))"

interpretation invokes: state_preorder "invokes n args" for n args
  by unfold_locales (auto simp: invokes_def replicate_add [symmetric] intro: exI [of _ 0])

lemma emit_invokes: "resp (invokes n args) (emit e)"
  by (simp add: resp_def emit_def invokes_def)

lemma handle_invokes: "resp (invokes n args) (handle tk n args)"
  by (auto simp: resp_def handle_def invokes_def split: prod.split intro: exI [of _ "Suc 0"])

lemma attempts_invokes: "resp (invokes n args) (attempts tk n args tries k)"
proof (induction k)
  case (Suc k)
  then show ?case
    by (auto intro!: invokes.resp_intros emit_invokes handle_invokes split: sum.split)
qed (simp add: resp_def invokes.refl)

lemma handler_invokes: "resp (invokes n args) (invoke_tool_handler L n args)"
  unfolding invoke_tool_handler_def fail_call_def
  by (auto simp: Let_def intro!: invokes.resp_intros emit_invokes attempts_invokes handle_invokes
      split: option.split sum.split)

lemma handler_unavailable:
  assumes "case dict_get (lp_tools L) n of None \<Rightarrow> True | Some tk \<Rightarrow> \<not> tool_is_allowed (lp_mode L) (tl_risk_tier tk)"
  shows "cl_trace (snd (invoke_tool_handler L n args s)) = cl_trace s"
  using assms
  by (auto simp: invoke_tool_handler_def fail_call_def emit_def mbind_def split: option.splits)

text \<open>A call that may run, after the user's answer if there was one.\<close>

lemma handler_lawful:
  assumes s': "s' = snd (invoke_tool_handler L n args s)"
    and start: "cl_trace s = tr @ es" "cl_always_allowed s = fold (\<lambda>a A. grant A a) es A"
      "permitted L A None es"
    and may: "es = [] \<and> pending = None \<or> (\<exists>d. es = [Confirmed n (JObj args) d] \<and> d \<noteq> ''no'' \<and> pending = Some (n, JObj args))"
    and allowed: "\<And>tk. dict_get (lp_tools L) n = Some tk \<Longrightarrow> tool_is_allowed (lp_mode L) (tl_risk_tier tk)
      \<Longrightarrow> may_invoke L (cl_always_allowed s) pending n (JObj args)"
  shows "\<exists>fs. cl_trace s' = tr @ fs \<and> cl_always_allowed s' = fold (\<lambda>a A. grant A a) fs A \<and> permitted L A None fs"
proof -
  have "invokes n args s s'" unfolding s' by (rule handler_invokes [unfolded resp_def, rule_format])
  then obtain k where k: "cl_trace s' = cl_trace s @ replicate k (Invoked n (JObj args))"
    and A: "cl_always_allowed s' = cl_always_allowed s" by (auto simp: invokes_def)
  show ?thesis
  proof (cases "\<exists>tk. dict_get (lp_tools L) n = Some tk \<and> tool_is_allowed (lp_mode L) (tl_risk_tier tk)")
    case True
    define rs where "rs = replicate k (Invoked n (JObj args))"
    from True allowed have p: "permitted L (cl_always_allowed s) pending rs"
      and g: "fold (\<lambda>a A. grant A a) rs (cl_always_allowed s) = cl_always_allowed s"
      unfolding rs_def by (blast dest: permitted_replicate)+
    have "permitted L A None (es @ rs)"
      using may p start(2) by (elim disjE exE conjE) simp_all
    moreover have "cl_trace s' = tr @ es @ rs" using k start(1) by (simp add: rs_def)
    moreover have "cl_always_allowed s' = fold (\<lambda>a A. grant A a) (es @ rs) A" using A start(2) g by simp
    ultimately show ?thesis by blast
  next
    case False
    then have "cl_trace s' = cl_trace s" unfolding s' by (intro handler_unavailable) (auto split: option.split)
    with start A show ?thesis by auto
  qed
qed

lemma read_only_lawful:
  assumes "tool_tier L (tc_name c) = Some RT_read_only"
  shows "lawful L s (snd (run_read_only_call L results c s))"
proof (cases "plain_readers L \<and> dict_get results (tc_id c) = None")
  case True
  define n where "n = tc_name c"
  have may: "may_invoke L (cl_always_allowed s) None n (JObj (call_args c))"
    if "dict_get (lp_tools L) n = Some tk" "tool_is_allowed (lp_mode L) (tl_risk_tier tk)" for tk
    using that assms True
    by (auto simp: may_invoke_def n_def tool_requires_approval_def tool_tier_def plain_readers_def split: if_splits)
  have "\<exists>es. cl_trace s' = cl_trace s @ es \<and> cl_always_allowed s' = fold (\<lambda>a A. grant A a) es (cl_always_allowed s)
      \<and> permitted L (cl_always_allowed s) None es"
    if "s' = snd (invoke_tool_handler L n (call_args c) s)" for s'
    using that by (rule handler_lawful [where es = "[]" and pending = None]) (auto intro: may)
  then show ?thesis
    using True
    by (auto simp: run_read_only_call_def lawful_def Let_def n_def [symmetric] mbind_def emit_def mwhen_def
        split: option.split prod.split sum.split)
next
  case False
  then show ?thesis by (auto simp: run_read_only_call_def lawful_def)
qed

text \<open>The part of a call after its arguments were found valid and its tool allowed.\<close>

definition consented_call :: "'w loop \<Rightarrow> 'w tool \<Rightarrow> string \<Rightarrow> dict \<Rightarrow> tool_call \<Rightarrow> ('w, tool_call \<times> dict) cmd" where
  "consented_call L tk n args call' =
     mbind (gets cl_always_allowed) (\<lambda>allowed.
       if tool_requires_approval (lp_env L) (lp_mode L) n (tl_risk_tier tk) args \<and> n \<notin> allowed
       then
         mbind (ask_user L tk n args) (\<lambda>decision.
           if decision = ''no''
           then mseq (emit (ToolCallDeclined n)) (ret (call', error_dict ''user declined this tool call''))
           else
             mseq (mwhen (decision = ''always'')
                     (modify (\<lambda>s. s\<lparr>cl_always_allowed := insert n (cl_always_allowed s)\<rparr>)))
             (mbind (invoke_tool_handler L n args) (\<lambda>ob. ret (call', ob))))
       else mbind (invoke_tool_handler L n args) (\<lambda>ob. ret (call', ob)))"

lemma snd_mbind_ret: "snd (mbind m (\<lambda>a. ret (f a)) s) = snd (m s)"
  by (auto simp: mbind_def split: prod.split sum.split)

lemma consented_lawful:
  assumes tk: "dict_get (lp_tools L) n = Some tk" and mode: "tool_is_allowed (lp_mode L) (tl_risk_tier tk)"
  shows "lawful L s (snd (consented_call L tk n args call' s))"
proof (cases "tool_requires_approval (lp_env L) (lp_mode L) n (tl_risk_tier tk) args \<and> n \<notin> cl_always_allowed s")
  case False
  then show ?thesis
    using tk mode handler_lawful [OF HOL.refl, of s "cl_trace s" "[]" "cl_always_allowed s" L None n args]
    by (auto simp: consented_call_def lawful_def snd_mbind_ret may_invoke_def)
next
  case True
  obtain d w where confirm: "lp_confirm L tk args (cl_world s) = (d, w)" by fastforce
  define s1 where "s1 = s\<lparr>cl_world := w, cl_trace := cl_trace s @ [Confirmed n (JObj args) d],
    cl_always_allowed := (if d = ''always'' then insert n (cl_always_allowed s) else cl_always_allowed s)\<rparr>"
  show ?thesis
  proof (cases "d = ''no''")
    case True
    with \<open>tool_requires_approval _ _ _ _ _ \<and> _\<close> confirm show ?thesis
      by (auto simp: consented_call_def lawful_def ask_user_def mbind_def emit_def grant_def)
  next
    case False
    have "snd (consented_call L tk n args call' s) = snd (invoke_tool_handler L n args s1)"
      using True confirm False
      by (auto simp: consented_call_def ask_user_def snd_mbind_ret mbind_def [of "ask_user L tk n args"]
          mwhen_def s1_def)
    moreover have "\<exists>fs. cl_trace s' = cl_trace s @ fs
        \<and> cl_always_allowed s' = fold (\<lambda>a A. grant A a) fs (cl_always_allowed s)
        \<and> permitted L (cl_always_allowed s) None fs"
      if "s' = snd (invoke_tool_handler L n args s1)" for s'
      using that tk mode False
      by (intro handler_lawful [where es = "[Confirmed n (JObj args) d]" and pending = "Some (n, JObj args)"])
        (auto simp: s1_def grant_def may_invoke_def)
    ultimately show ?thesis by (simp add: lawful_def)
  qed
qed

lemma process_lawful: "lawful L s (snd (process_tool_call L c s))"
proof -
  have refl: "lawful L s s" and emits: "\<And>es. lawful L s (s\<lparr>cl_events := es\<rparr>)"
    by (auto simp: lawful_def)
  show ?thesis
    by (auto simp: process_tool_call_def Let_def consented_call_def [symmetric] fail_call_def emit_def snd_mbind_ret
        refl emits split: option.split sum.split exn.split
        intro: lawful_trans [OF emits] consented_lawful)
qed

interpretation lawful: whole_frame "lawful L" L for L :: "'w loop"
proof unfold_locales
  show "lawful L s u" if "lawful L s t" "lawful L t u" for s t u :: "'w cli"
    using that by (rule lawful_trans)
  show "lawful L s (snd (process_tool_call L c s))" for s c by (rule process_lawful)
  show "lawful L s (snd (run_read_only_call L results c s))"
    if "tool_tier L (tc_name c) = Some RT_read_only" for s results c
    using that by (rule read_only_lawful)
qed (auto simp: lawful_def books_def complete_stream_def complete_plain_def grant_def split: prod.split)

text \<open>C22. Tools run only as the mode and the user allow: along a turn, every call of a handler is of
  a tool the mode allows, and a call that needs approval is of a tool the user always allows by
  then or is the very call, with the same arguments, that the user confirmed just before.\<close>

theorem tools_run_as_permitted:
  assumes "plain_readers L"
  shows "\<exists>es. cl_trace (snd (run_turn L user_input contract s)) = cl_trace s @ es
    \<and> permitted L (cl_always_allowed s) None es"
proof -
  obtain t s1 where turn: "run_turn L user_input contract s
      = turn_loop (lp_max_steps L) L user_input (turn_contract L user_input contract) t s1"
    and start: "cl_trace s1 = cl_trace s" "cl_always_allowed s1 = cl_always_allowed s"
    by (rule run_turn_starts)
  have "lawful L s1 (snd (run_turn L user_input contract s))"
    unfolding turn by (rule lawful.frame_loop [unfolded resp_def, rule_format])
  with assms start show ?thesis by (auto simp: lawful_def)
qed

end
