(* ===== verification/CliHistory.thy ===== *)
theory CliHistory
  imports CliRuns
begin

text \<open>
  The history of a session is a conversation at every turn's end: each call the model made has its
  answer right behind it, so that the provider accepts the transcript of the next request. Within a
  batch the history owes answers; the rejected calls and the observations pay them.
\<close>

section \<open>Conversations\<close>

definition conversing :: "llm_message list \<Rightarrow> bool" where
  "conversing ms \<longleftrightarrow> conversation_ok {#} ms \<and> asks_as_assistant ms"

lemma conversing_append: "conversing xs \<Longrightarrow> conversing ys \<Longrightarrow> conversing (xs @ ys)"
  by (auto simp: conversing_def asks_as_assistant_def intro: conversation_append)

lemma conversing_system [simp]: "conversing [system_message t]" "conversing [message MR_user x]" "conversing []"
  by (simp_all add: conversing_def asks_as_assistant_def system_message_def message_def)

lemma conversing_system_Cons: "lm_role m = MR_system \<Longrightarrow> conversing (m # ms) \<Longrightarrow> lm_tool_calls m = []"
  by (auto simp: conversing_def asks_as_assistant_def)

text \<open>Between a batch's assistant message and its answers the history ends with a suffix that is
  dropped as a whole: nothing but a tool result depends on what came before it.\<close>

lemma conversation_split:
  "conversation_ok ids (xs @ m # ys) \<Longrightarrow> lm_role m \<noteq> MR_tool \<Longrightarrow> conversation_ok {#} (m # ys)"
  by (induction xs arbitrary: ids) (auto split: if_splits option.splits)

lemma fold_conversing:
  assumes "conversing ms"
  shows "conversing (fold_prior_turns L ms)"
proof (cases "latest_user_index ms")
  case None
  with assms show ?thesis by (simp add: fold_prior_turns_def)
next
  case (Some u)
  then have u: "u < length ms" "lm_role (ms ! u) = MR_user"
    unfolding latest_user_index_def by (auto simp: find_Some_iff rev_nth)
  then have d: "drop u ms = ms ! u # drop (Suc u) ms" by (simp add: Cons_nth_drop_Suc)
  have "conversation_ok {#} (drop u ms)"
    using assms conversation_split [of "{#}" "take u ms" "ms ! u" "drop (Suc u) ms"] u
    by (simp add: conversing_def d [symmetric])
  then have tail: "conversing (drop u ms)"
    using assms by (auto simp: conversing_def asks_as_assistant_def dest: in_set_dropD)
  have head: "conversing (first_system ms)"
    using assms by (auto simp: first_system_def conversing_def asks_as_assistant_def split: list.split)
  have sum: "conversing [m]" if "summarize_prior_turns L xs = Some m" for xs m
    using that by (auto simp: summarize_prior_turns_def Let_def split: if_splits)
  show ?thesis
    using assms Some head tail
    by (auto simp: fold_prior_turns_def Let_def intro!: conversing_append [of _ "_ # _"] split: option.split)
      (metis append_Cons append_Nil conversing_append sum)
qed

lemma trimmed_set: "subseq xs ys \<Longrightarrow> set xs \<subseteq> set ys"
  by (induction rule: list_emb.induct) auto

lemma trim_conversing:
  assumes "conversing ms"
  shows "conversing (trim_messages_to_count E loads ms n True True)"
    and "conversing (trim_messages_to_budget E loads ms n True True)"
  using assms count_trim.trim_transcript [of ms E loads n True True] budget_trim.trim_transcript [of ms E loads n True True]
    count_trim.trim_subseq [of E loads ms n True True] budget_trim.trim_subseq [of E loads ms n True True]
  by (auto simp: conversing_def asks_as_assistant_def dest!: trimmed_set)

lemma trim_history_conversing: "conversing ms \<Longrightarrow> conversing (trim_history L ms)"
  by (auto simp: trim_history_def Let_def intro!: trim_conversing fold_conversing)

lemma compact_loop_conversing: "conversing ms \<Longrightarrow> conversing (compact_loop L target ms)"
proof (induction L target ms rule: compact_loop.induct)
  case (1 L target ms)
  then show ?case
    by (subst compact_loop.simps) (auto simp: Let_def intro!: trim_conversing)
qed

lemma compacted_conversing: "conversing ms \<Longrightarrow> conversing (compacted L ms)"
  by (auto simp: compacted_def intro!: compact_loop_conversing fold_conversing)

section \<open>The parts of a turn that keep a conversation\<close>

definition keeps_talk :: "'w cli \<Rightarrow> 'w cli \<Rightarrow> bool" where
  "keeps_talk s s' \<longleftrightarrow> (conversing (cl_history s) \<longrightarrow> conversing (cl_history s'))"

interpretation talk: state_preorder keeps_talk
  by unfold_locales (auto simp: keeps_talk_def)

lemma talk_Pair: "resp keeps_talk (Pair x)"
  by (simp add: resp_def talk.refl)

lemma talk_modify: "(\<And>s. cl_history (f s) = cl_history s) \<Longrightarrow> resp keeps_talk (modify f)"
  by (simp add: resp_def keeps_talk_def)

lemma talk_emit: "resp keeps_talk (emit e)"
  unfolding emit_def by (rule talk_modify) simp

lemma talk_system: "resp keeps_talk (append_history (system_message t))"
  by (simp add: resp_def append_history_def keeps_talk_def conversing_append)

lemma talk_trim: "resp keeps_talk (trim_session L)"
  by (simp add: resp_def trim_session_def keeps_talk_def trim_history_conversing)

lemma talk_compact: "resp keeps_talk (compact_history L)"
  by (simp add: resp_def compact_history_def keeps_talk_def compacted_conversing Let_def)

lemma talk_model:
  "resp keeps_talk (complete_stream L ms specs opts)" "resp keeps_talk (complete_plain L ms specs opts)"
  by (auto simp: resp_def complete_stream_def complete_plain_def keeps_talk_def split: prod.split)

lemmas talk_ops = talk.resp_intros talk_Pair talk_modify talk_emit talk_system talk_trim talk_compact talk_model

lemma talk_stop: "resp keeps_talk (stop_turn reason)"
  unfolding stop_turn_def by (intro talk_ops) simp_all

lemma talk_phase: "resp keeps_talk (enter_phase p note t)"
  unfolding enter_phase_def by (intro talk_ops) simp_all

lemma talk_prepare: "resp keeps_talk (prepare_context L)"
  unfolding prepare_context_def by (auto intro!: talk_ops split: option.split)

lemma talk_ask: "resp keeps_talk (ask_model L ms specs opts)"
  unfolding ask_model_def by (auto intro!: talk_ops split: sum.split llm_failure.split)

lemma talk_consult: "resp keeps_talk (consult_model L c planning t)"
  unfolding consult_model_def
  by (auto simp: Let_def intro!: talk_ops talk_ask talk_stop split: sum.split llm_failure.split)

lemma talk_finalize: "resp keeps_talk (finalize L c response t)"
  unfolding finalize_def
  by (auto simp: Let_def intro!: talk_ops talk_phase talk_stop split: option.split)

lemma talk_check: "resp keeps_talk (check_observations L obs t)"
proof (induction obs arbitrary: t)
  case (Cons c obs)
  have "resp keeps_talk (recover_repeated d key t')" for d key and t' :: turn
    by (auto simp: recover_repeated_def Let_def intro!: talk_ops talk_stop)
  with Cons show ?case by (cases c) (auto simp: Let_def intro!: talk_stop)
qed (simp add: talk.resp_ret talk_Pair)

section \<open>A batch\<close>

text \<open>The calls themselves leave the history alone.\<close>

definition same_history :: "'w cli \<Rightarrow> 'w cli \<Rightarrow> bool" where
  "same_history s s' \<longleftrightarrow> cl_history s' = cl_history s"

interpretation still: effect_frame same_history
  by unfold_locales (auto simp: same_history_def handle_def ask_user_def split: prod.split)

lemma execute_same_history: "cl_history (snd (execute_selected_calls L selected s)) = cl_history s"
  using still.frame_execute [of L selected] by (simp add: resp_def same_history_def)

lemma process_call_id: "process_tool_call L c s = (Inr (c', ob), s') \<Longrightarrow> tc_id c' = tc_id c"
  by (auto simp: process_tool_call_def Let_def fail_call_def mbind_def split: option.splits sum.splits exn.splits
      prod.splits if_splits)

lemma run_mutations_ids:
  "run_mutation_calls L cs s = (Inr rest, s')
   \<Longrightarrow> list_all2 (\<lambda>((i, c'), ob) (j, c). i = j \<and> tc_id c' = tc_id c) rest cs"
  by (induction L cs arbitrary: s rest rule: run_mutation_calls.induct)
    (fastforce elim!: mbind_Inr_E dest: process_call_id)+

lemma validate_calls_ids:
  "validate_calls L cs rs = Inr (ds, rs') \<Longrightarrow> list_all2 (\<lambda>(i, c') (j, c). i = j \<and> tc_id c' = tc_id c) ds cs"
  by (induction L cs rs arbitrary: ds rs' rule: validate_calls.induct)
    (auto split: option.splits sum.splits exn.splits prod.splits)

lemma observe_calls: "observe results cs = Inr obs \<Longrightarrow> map (\<lambda>(i, c, ob). (i, c)) obs = cs"
  by (induction results cs arbitrary: obs rule: observe.induct) (auto split: option.splits sum.splits)

definition indexed_id :: "nat \<times> tool_call \<Rightarrow> nat \<times> string" where
  "indexed_id c = (fst c, tc_id (snd c))"

lemma updated_call_id:
  assumes "indexed_id ` set changed \<subseteq> indexed_id ` S" and "inj_on fst S" and "c \<in> S"
  shows "tc_id (updated_call changed c) = tc_id (snd c)"
proof (cases "map_of changed (fst c)")
  case (Some c')
  then have "indexed_id (fst c, c') \<in> indexed_id ` S" using assms(1) by (auto dest: map_of_SomeD)
  then obtain d where "d \<in> S" "fst d = fst c" "tc_id (snd d) = tc_id c'" by (auto simp: indexed_id_def)
  moreover have "d = c" using calculation assms(2,3) by (auto dest: inj_onD)
  ultimately show ?thesis by (simp add: updated_call_def Some)
qed (simp add: updated_call_def)

lemma list_all2_ids:
  "list_all2 (\<lambda>(i, c') (j, c). i = j \<and> tc_id c' = tc_id c) xs ys \<Longrightarrow> indexed_id ` set xs = indexed_id ` set ys"
  by (induction rule: list_all2_induct) (auto simp: indexed_id_def)

lemma execute_ids:
  assumes "inj_on fst (set selected)" and "execute_selected_calls L selected s = (Inr obs, s')"
  shows "map (\<lambda>(i, c, ob). (i, tc_id c)) obs = map indexed_id selected"
proof -
  obtain ds rs mutated rs2 where
    ds: "validate_calls L (filter (is_read_only_call L) selected) [] = Inr (ds, rs)"
    and mutated: "\<exists>u u'. run_mutation_calls L (filter (\<lambda>c. \<not> is_read_only_call L c) selected) u = (Inr mutated, u')"
    and obs: "observe rs2 (map (\<lambda>c. (fst c, updated_call (ds @ map fst mutated) c)) selected) = Inr obs"
    using assms(2) unfolding execute_selected_calls_def lift_cmd_def Let_def
    by (fastforce elim!: mbind_Inr_E split: sum.splits prod.splits)
  have "list_all2 (\<lambda>(i, c') (j, c). i = j \<and> tc_id c' = tc_id c) (map fst mutated)
      (filter (\<lambda>c. \<not> is_read_only_call L c) selected)"
    using mutated by (auto dest!: run_mutations_ids simp: list_all2_map1 elim!: list_all2_mono)
  then have "indexed_id ` set (ds @ map fst mutated) \<subseteq> indexed_id ` set selected"
    using list_all2_ids [OF validate_calls_ids [OF ds]] list_all2_ids
    by (simp only: set_append image_Un) (simp only: Un_least image_mono filter_is_subset)
  then have "tc_id (updated_call (ds @ map fst mutated) c) = tc_id (snd c)" if "c \<in> set selected" for c
    using assms(1) that by (rule updated_call_id)
  then have "map indexed_id (map (\<lambda>c. (fst c, updated_call (ds @ map fst mutated) c)) selected) = map indexed_id selected"
    by (simp add: indexed_id_def)
  moreover have "map (\<lambda>(i, c, ob). (i, tc_id c)) obs = map indexed_id (map (\<lambda>(i, c, ob). (i, c)) obs)"
    by (auto simp: indexed_id_def)
  ultimately show ?thesis using observe_calls [OF obs] by simp
qed

lemma select_read_only_mset:
  "select_read_only L cs n = (sel, rej) \<Longrightarrow> mset sel + mset rej = mset cs"
  by (induction L cs n arbitrary: sel rej rule: select_read_only.induct) (auto split: if_splits prod.splits)

lemma plan_cli_mset: "plan_tool_calls_cli L calls = (sel, rej) \<Longrightarrow> mset sel + mset rej = mset (enumerate 0 calls)"
  by (auto simp: plan_tool_calls_cli_def dest: select_read_only_mset split: list.splits if_splits)

lemma inj_on_enumerate: "inj_on fst (set (enumerate 0 calls))"
  by (auto simp: in_set_enumerate_eq intro!: inj_onI)

lemma find_rev_last: "P k \<Longrightarrow> \<forall>x \<in> set b. \<not> P x \<Longrightarrow> find P (rev (a @ k # b)) = Some k"
  by (induction b rule: rev_induct) auto

lemma sync_calls_shape:
  assumes "lm_role m = MR_assistant" and "\<forall>t \<in> set ts. lm_role t = MR_tool"
  shows "sync_calls obs (pre @ m # ts)
    = pre @ m\<lparr>lm_tool_calls := map (updated_call (map (\<lambda>(i, c, ob). (i, c)) obs)) (enumerate 0 (lm_tool_calls m))\<rparr> # ts"
proof -
  have "find (\<lambda>i. lm_role ((pre @ m # ts) ! i) = MR_assistant) (rev [0..<length (pre @ m # ts)]) = Some (length pre)"
  proof -
    have "[0..<length (pre @ m # ts)] = [0..<length pre] @ length pre # [Suc (length pre)..<length (pre @ m # ts)]"
      using upt_add_eq_append [of 0 "length pre" "Suc (length ts)"] by (simp add: upt_conv_Cons del: upt_Suc)
    moreover have "lm_role ((pre @ m # ts) ! i) \<noteq> MR_assistant" if "i \<in> set [Suc (length pre)..<length (pre @ m # ts)]" for i
      using that assms(2) by (auto simp: nth_append nth_Cons')
    ultimately show ?thesis
      using find_rev_last [of "\<lambda>i. lm_role ((pre @ m # ts) ! i) = MR_assistant" "length pre"
          "[Suc (length pre)..<length (pre @ m # ts)]" "[0..<length pre]"] assms(1)
      by (metis nth_append_length)
  qed
  then show ?thesis by (simp add: sync_calls_def)
qed

lemma answers_conversing:
  assumes "\<forall>t \<in> set ts. lm_role t = MR_tool" and "M = mset ids" and "map lm_tool_call_id ts = map Some ids"
  shows "conversation_ok M ts"
  using assms by (induction ts arbitrary: M ids) (auto simp: Cons_eq_map_conv)

lemma reject_history:
  "reject_calls L k rej s = (r, s') \<Longrightarrow> cl_history s' = cl_history s
     @ map (\<lambda>(i, c). tool_message (lp_env L) c (policy_denial (policy_reason_for_rejected L c k))) rej"
  unfolding reject_calls_def
  by (induction rej arbitrary: s) (auto simp: Let_def emit_def append_history_def mbind_def)

lemma note_history:
  "resp same_history (note_process L c ob)" "resp same_history (note_mutation L c ob)"
  "resp same_history (note_verification L c ob)"
  by (auto simp: resp_def same_history_def note_process_def note_mutation_def note_verification_def lift_cmd_def
      mbind_def mwhen_def Let_def split: option.split sum.split)

lemma persist_history:
  "persist_observations L obs t s = (Inr t', s')
   \<Longrightarrow> cl_history s' = cl_history s @ map (\<lambda>(i, c, ob). tool_message (lp_env L) c ob) obs"
proof (induction obs arbitrary: t s)
  case (Cons x obs)
  obtain i c ob where x: "x = (i, c, ob)" by (cases x)
  from Cons.prems obtain stopped verified s1 s2 s3 where
    n: "note_process L c ob s = (Inr stopped, s1)" "note_mutation L c ob s1 = (Inr (), s2)"
      "note_verification L c ob s2 = (Inr verified, s3)"
    and rest: "\<exists>t1. persist_observations L obs t1 (s3\<lparr>cl_history := cl_history s3 @ [tool_message (lp_env L) c ob]\<rparr>)
      = (Inr t', s')"
    unfolding x persist_observations.simps append_history_def by (fastforce elim!: mbind_Inr_E)
  have "cl_history s3 = cl_history s"
    using respD [OF note_history(1) n(1)] respD [OF note_history(2) n(2)] respD [OF note_history(3) n(3)]
    by (simp add: same_history_def)
  with rest Cons.IH show ?case by (auto simp: x)
qed simp

lemma batch_conversing:
  assumes run: "run_batch L r t s = (Inr v, s')"
    and h: "cl_history s = pre @ [m]" "conversing pre" "lm_role m = MR_assistant" "lm_tool_calls m = lr_tool_calls r"
  shows "conversing (cl_history s')"
proof -
  obtain sel rej where plan: "plan_tool_calls_cli L (lr_tool_calls r) = (sel, rej)" by fastforce
  define rest where "rest t1 = mseq (reject_calls L (length sel) rej)
     (mbind (execute_selected_calls L sel) (\<lambda>obs.
      mseq (modify (\<lambda>s. s\<lparr>cl_history := sync_calls obs (cl_history s)\<rparr>))
      (mbind (persist_observations L obs t1) (\<lambda>t2.
       mseq (trim_session L) (check_observations L obs t2)))))" for t1
  obtain t1 s1 where rest: "rest t1 s1 = (Inr v, s')" and phase: "cl_history s1 = cl_history s"
    using run
    by (cases "all_verification_attempts (lp_env L) (lr_tool_calls r)")
      (auto simp: run_batch_def plan rest_def [symmetric] lift_cmd_def enter_phase_def emit_def split: if_splits)
  from rest obtain s2 obs s3 t2 s4 where
    reject: "reject_calls L (length sel) rej s1 = (Inr (), s2)"
    and exec: "execute_selected_calls L sel s2 = (Inr obs, s3)"
    and persist: "persist_observations L obs t1 (s3\<lparr>cl_history := sync_calls obs (cl_history s3)\<rparr>) = (Inr t2, s4)"
    and last: "check_observations L obs t2 (s4\<lparr>cl_history := trim_history L (cl_history s4)\<rparr>) = (Inr v, s')"
    unfolding rest_def trim_session_def by (elim mbind_Inr_E) auto
  define rejected where "rejected = map (\<lambda>(i, c).
    tool_message (lp_env L) c (policy_denial (policy_reason_for_rejected L c (length sel)))) rej"
  define answers where "answers = map (\<lambda>(i, c, ob). tool_message (lp_env L) c ob) obs"
  define changed where "changed = map (\<lambda>(i, c, ob). (i, c)) obs"
  define m' where "m' = m\<lparr>lm_tool_calls := map (updated_call changed) (enumerate 0 (lm_tool_calls m))\<rparr>"
  have sets: "mset sel + mset rej = mset (enumerate 0 (lr_tool_calls r))" using plan by (rule plan_cli_mset)
  then have sub: "set sel \<subseteq> set (enumerate 0 (lr_tool_calls r))" by (metis set_mset_mset set_mset_union Un_upper1)
  have ids: "map (\<lambda>(i, c, ob). (i, tc_id c)) obs = map indexed_id sel"
    by (rule execute_ids [OF inj_on_subset [OF inj_on_enumerate sub] exec])
  have tools: "\<forall>t \<in> set rejected. lm_role t = MR_tool" "\<forall>t \<in> set answers. lm_role t = MR_tool"
    by (auto simp: rejected_def answers_def tool_message_def message_def)
  have quiet: "\<forall>t \<in> set (rejected @ answers). lm_tool_calls t = []"
    by (auto simp: rejected_def answers_def tool_message_def message_def)
  have m': "lm_role m' = MR_assistant" by (simp add: m'_def h(3))
  have "cl_history s3 = pre @ m # rejected"
    using execute_same_history [of L sel s2] exec reject_history [OF reject] phase h(1) by (simp add: rejected_def)
  then have s4: "cl_history s4 = pre @ m' # rejected @ answers"
    using persist_history [OF persist] sync_calls_shape [OF h(3) tools(1), of obs pre]
    by (simp add: m'_def changed_def answers_def)
  have "indexed_id ` set changed = set (map indexed_id sel)"
    unfolding ids [symmetric] changed_def by (force simp: indexed_id_def)
  then have "indexed_id ` set changed \<subseteq> indexed_id ` set (enumerate 0 (lr_tool_calls r))" using sub by auto
  then have "map tc_id (lm_tool_calls m') = map (\<lambda>c. tc_id (snd c)) (enumerate 0 (lr_tool_calls r))"
    using updated_call_id [OF _ inj_on_enumerate, of changed "lr_tool_calls r"]
    by (auto simp: m'_def h(4) simp del: enumerate_simps)
  then have m'_ids: "mset (map tc_id (lm_tool_calls m')) = mset (map (\<lambda>c. tc_id (snd c)) rej) + mset (map (\<lambda>c. tc_id (snd c)) sel)"
    using sets by (metis add.commute mset_append map_append mset_map)
  have obs_ids: "map (\<lambda>(i, c, ob). tc_id c) obs = map (\<lambda>c. tc_id (snd c)) sel"
    using arg_cong [OF ids, of "map snd"] by (simp add: comp_def case_prod_unfold indexed_id_def)
  have "conversation_ok (mset (map tc_id (lm_tool_calls m'))) (rejected @ answers)"
    unfolding m'_ids
    by (rule answers_conversing [where ids = "map (\<lambda>c. tc_id (snd c)) rej @ map (\<lambda>c. tc_id (snd c)) sel"])
      (use tools in \<open>auto simp: obs_ids [symmetric] rejected_def answers_def tool_message_def message_def case_prod_unfold\<close>)
  then have "conversation_ok {#} (m' # rejected @ answers)" using m' by simp
  moreover have "asks_as_assistant (m' # rejected @ answers)"
    using quiet m' by (auto simp: asks_as_assistant_def)
  ultimately have "conversing (m' # rejected @ answers)" by (simp add: conversing_def)
  with h(2) have "conversing (cl_history s4)" unfolding s4 by (rule conversing_append)
  then show ?thesis
    using respD [OF talk_check last] by (simp add: keeps_talk_def trim_history_conversing)
qed

section \<open>A turn\<close>

definition talks :: "('w, 'a) cmd \<Rightarrow> bool" where
  "talks m \<longleftrightarrow> (\<forall>s r s'. conversing (cl_history s) \<longrightarrow> m s = (Inr r, s') \<longrightarrow> conversing (cl_history s'))"

lemma talks_resp: "resp keeps_talk m \<Longrightarrow> talks m"
  by (auto simp: talks_def keeps_talk_def dest: respD)

lemma talks_mbind: "talks m \<Longrightarrow> (\<And>a. talks (f a)) \<Longrightarrow> talks (mbind m f)"
  unfolding talks_def by (blast elim: mbind_Inr_E)

text \<open>What follows an answer of the model within its step.\<close>

definition after_plan :: "'w loop \<Rightarrow> task_contract \<Rightarrow> llm_response \<Rightarrow> bool \<Rightarrow> turn \<Rightarrow> ('w, turn verdict) cmd" where
  "after_plan L c response planning t =
     (if lr_tool_calls response = []
      then if planning then ret (Go t) else finalize L c response t
      else mseq (case lr_content response of
                   Some text \<Rightarrow> mwhen (text \<noteq> [] \<and> \<not> planning) (emit (AssistantMessage text)) | None \<Rightarrow> ret ())
             (run_batch L response t))"

lemma after_plan_conversing:
  assumes h: "cl_history s = pre @ [m]" "conversing pre" "lm_role m = MR_assistant" "lm_tool_calls m = lr_tool_calls r"
    and run: "after_plan L c r planning t s = (Inr v, s')"
  shows "conversing (cl_history s')"
proof (cases "lr_tool_calls r = []")
  case True
  with h have "conversing (cl_history s)"
    by (simp add: conversing_append [of pre "[m]"] conversing_def [of "[m]"] asks_as_assistant_def)
  with run True show ?thesis
    using respD [OF talk_finalize, of L c r t s] by (cases planning) (auto simp: keeps_talk_def after_plan_def)
next
  case False
  define s2 where "s2 = (case lr_content r of
      Some text \<Rightarrow> if text \<noteq> [] \<and> \<not> planning then s\<lparr>cl_events := cl_events s @ [AssistantMessage text]\<rparr> else s
    | None \<Rightarrow> s)"
  have "cl_history s2 = cl_history s" "run_batch L r t s2 = (Inr v, s')"
    using run False by (auto simp: s2_def after_plan_def emit_def mwhen_def split: option.splits if_splits)
  with batch_conversing [of L r t s2 v s' pre m] h show ?thesis by simp
qed

lemma talks_asked:
  "talks (mseq (append_history (assistant_message r))
     (mbind (if planning then adopt_plan L u c r t else ret t) (after_plan L c r planning)))"
  unfolding talks_def
proof (intro allI impI)
  fix s v s'
  assume s: "conversing (cl_history s)"
    and run: "mseq (append_history (assistant_message r))
     (mbind (if planning then adopt_plan L u c r t else ret t) (after_plan L c r planning)) s = (Inr v, s')"
  define m where "m = assistant_message r"
  have m: "lm_role m = MR_assistant" "lm_tool_calls m = lr_tool_calls r"
    by (simp_all add: m_def assistant_message_def message_def)
  have "\<exists>t2 s1 m'. cl_history s1 = cl_history s @ [m'] \<and> lm_role m' = MR_assistant
      \<and> lm_tool_calls m' = lr_tool_calls r \<and> after_plan L c r planning t2 s1 = (Inr v, s')"
  proof (cases planning)
    case True
    define plan where "plan = (case lr_content r of
      Some text \<Rightarrow> if lp_is_structured_plan L text then text else default_plan u c | None \<Rightarrow> default_plan u c)"
    define s1 where "s1 = s\<lparr>cl_active_plan := Some plan, cl_history := cl_history s @ [m\<lparr>lm_content := Some plan\<rparr>],
      cl_active_phase := PH_implement, cl_events := cl_events s @ [AssistantMessage plan, TodoUpdated]\<rparr>"
    define t2 where "t2 = t\<lparr>tn_plan_shown := True, tn_tracker := advance PH_implement ''Execute the plan'' (tn_tracker t)\<rparr>"
    have "after_plan L c r planning t2 s1 = (Inr v, s')"
      using run True
      by (cases s) (simp add: append_history_def adopt_plan_def enter_phase_def emit_def Let_def mbind_assoc
          set_last_content_def m_def [symmetric] plan_def [symmetric] s1_def t2_def)
    then show ?thesis
      by (intro exI [of _ t2] exI [of _ s1] exI [of _ "m\<lparr>lm_content := Some plan\<rparr>"]) (simp add: s1_def m)
  next
    case False
    with run m show ?thesis
      by (intro exI [of _ t] exI [of _ "s\<lparr>cl_history := cl_history s @ [m]\<rparr>"] exI [of _ m])
        (simp add: append_history_def m_def [symmetric])
  qed
  with s show "conversing (cl_history s')" by (auto intro: after_plan_conversing)
qed

lemma turn_step_talks: "talks (turn_step L u c t)"
proof -
  have "talks (case w of Stop \<Rightarrow> ret Stop | Go (t1, None) \<Rightarrow> ret (Go t1)
    | Go (t1, Some r) \<Rightarrow> mseq (append_history (assistant_message r))
        (mbind (if planning then adopt_plan L u c r t1 else ret t1) (after_plan L c r planning)))"
    for planning and w :: "(turn \<times> llm_response option) verdict"
    by (auto simp: talks_asked intro!: talks_resp [OF talk.resp_ret]
        split: verdict.split option.split prod.split split del: if_split)
  then show ?thesis
    unfolding turn_step_def after_plan_def [symmetric] Let_def
    by (auto intro!: talks_mbind talks_resp [OF talk_prepare] talks_resp [OF talk_consult]
        talks_resp [OF talk.resp_ret] split: verdict.split)
qed

lemma turn_loop_talks: "talks (turn_loop n L u c t)"
proof (induction n arbitrary: t)
  case 0
  show ?case unfolding turn_loop.simps by (intro talks_resp talk_ops) simp
next
  case (Suc n)
  then show ?case
    by (auto intro!: talks_mbind turn_step_talks talks_resp [OF talk.resp_ret] split: verdict.split)
qed

text \<open>C24. The transcript stays one the provider accepts: a turn that returns leaves every call the
  model made followed by exactly its results, and only assistant messages make calls, whatever was
  trimmed, folded, rejected, answered from the cache or asked again.\<close>

theorem turn_keeps_conversation:
  assumes "run_turn L user_input contract s = (Inr (), s')"
    and "conversation_ok {#} (cl_history s)" and "asks_as_assistant (cl_history s)"
  shows "conversation_ok {#} (cl_history s') \<and> asks_as_assistant (cl_history s')"
proof -
  obtain t s1 where turn: "run_turn L user_input contract s
      = turn_loop (lp_max_steps L) L user_input (turn_contract L user_input contract) t s1"
    and start: "cl_history s1 = cl_history s @ [message MR_user (Some user_input)]"
    by (rule run_turn_starts)
  have "conversing (cl_history s1)"
    using assms(2,3) unfolding start by (intro conversing_append) (simp_all add: conversing_def [of "cl_history s"])
  with turn_loop_talks [of "lp_max_steps L" L user_input "turn_contract L user_input contract" t]
  have "conversing (cl_history s')"
    using assms(1) unfolding turn talks_def by blast
  then show ?thesis by (simp add: conversing_def)
qed

end
