(* ===== verification/CliExamples.thy ===== *)
theory CliExamples
  imports CliHistory
begin

text \<open>
  A concrete session for the witnesses: a model that calls the named tool at a new world and
  answers otherwise, a user who says yes, and two tools. The session starts in a world where it
  answers.
\<close>

definition quiet_intents :: intents where
  "quiet_intents = \<lparr>in_search = (\<lambda>_ _. False), in_blank_negated_change = id, in_blank_plan_only_change = id\<rparr>"

definition reader :: "nat tool" where
  "reader = \<lparr>tl_name = ''read_file'', tl_description = [], tl_parameters = [],
     tl_handler = (\<lambda>args w. (Inr (JObj [(''ok'', JBool True)]), w)), tl_risk_tier = RT_read_only,
     tl_idempotent = True, tl_mutates_workspace = False, tl_evidence_type = None, tl_volatile = False,
     tl_mcp_server_id = None\<rparr>"

definition writer :: "nat tool" where
  "writer = reader\<lparr>tl_name := ''write_file'', tl_risk_tier := RT_sensitive_write, tl_idempotent := False\<rparr>"

definition no_usage :: usage where
  "no_usage = \<lparr>u_prompt_tokens = 1, u_completion_tokens = 1, u_total_tokens = 2, u_source = US_provider,
     u_reasoning_tokens = 0\<rparr>"

definition answer :: "string \<Rightarrow> tool_call list \<Rightarrow> llm_response" where
  "answer t cs = \<lparr>lr_content = Some t, lr_tool_calls = cs, lr_finish_reason = [], lr_usage = no_usage,
     lr_model = [], lr_provider_fields = []\<rparr>"

text \<open>In a new world the model calls the named tool, in any other it answers.\<close>

definition scripted :: "string \<Rightarrow> nat stream_llm" where
  "scripted n = (\<lambda>ms specs opts w.
     ([], Inr (if w = 0 then answer [] [\<lparr>tc_id = ''1'', tc_name = n, tc_arguments = JObj []\<rparr>] else answer ''ok'' []), Suc w))"

definition sample_loop :: "string \<Rightarrow> nat loop" where
  "sample_loop n = \<lparr>lp_env = sample_env, lp_loads = (\<lambda>_. None), lp_dumps_sorted = json_text, lp_casefold = id,
     lp_is_structured_plan = (\<lambda>_. False), lp_intents = quiet_intents, lp_stream = scripted n,
     lp_complete = (\<lambda>ms specs opts w. (Inl (Failed []), w)), lp_confirm = (\<lambda>tk args w. (''yes'', w)),
     lp_tools = [(''read_file'', reader), (''write_file'', writer)], lp_all_tool_specs = [],
     lp_reasoning_effort = EF_auto, lp_max_completion_tokens = None, lp_reasoning_budget_tokens = None,
     lp_max_steps = 3, lp_result_max_chars = 4000, lp_max_history_messages = 20, lp_max_total_tokens = None,
     lp_history_summary_enabled = True, lp_mode = AM_agent, lp_context_window_tokens = 100,
     lp_compact_threshold_percent = 80, lp_compact_target_percent = 50, lp_max_consecutive_tool_failures = 3,
     lp_max_safe_tool_retries = 1, lp_llm_recovery_timeout = ''30'', lp_max_argument_repairs = 2,
     lp_max_finalization_repairs = 2, lp_max_parallel_read_only = 4\<rparr>"

definition sample_contract :: task_contract where
  "sample_contract = \<lparr>tk_kind = TK_explain, tk_response_mode = RM_agentic, tk_capabilities = [CP_workspace_read],
     tk_requires_plan = False, tk_verification_policy = VP_none\<rparr>"

definition new_session :: "nat cli" where
  "new_session = \<lparr>cl_history = [message MR_system (Some ''s'')], cl_always_allowed = {}, cl_last_turn_input = None,
     cl_last_turn_guardrail = None, cl_active_contract = None, cl_active_plan = None, cl_active_phase = PH_analyze,
     cl_workspace_revision = 0, cl_unverified_revision = None, cl_verification_evidence = None,
     cl_active_process_ids = {}, cl_tool_result_cache = [],
     cl_usage = \<lparr>st_prompt_tokens = 0, st_completion_tokens = 0, st_total_tokens = 0, st_llm_calls = 0,
       st_last_prompt_tokens = 0, st_last_completion_tokens = 0, st_compactions = 0\<rparr>,
     cl_events = [], cl_trace = [], cl_world = 1\<rparr>"

text \<open>Evaluation unfolds an operation only where it has its state.\<close>

lemmas cli_code [code] =
  mbind_def [THEN fun_cong] modify_def [THEN fun_cong] gets_def [THEN fun_cong]
  emit_def [THEN fun_cong] log_action_def [THEN fun_cong] append_history_def [THEN fun_cong]
  compact_history_def [THEN fun_cong] trim_session_def [THEN fun_cong] clear_history_def [THEN fun_cong]
  handle_def [THEN fun_cong] attempts.simps [THEN fun_cong] fail_call_def [THEN fun_cong]
  invoke_tool_handler_def [THEN fun_cong] ask_user_def [THEN fun_cong]
  process_tool_call_def [THEN fun_cong] run_read_only_call_def [THEN fun_cong]
  run_read_only_calls.simps [THEN fun_cong] run_mutation_calls.simps [THEN fun_cong]
  lift_cmd_def [THEN fun_cong] execute_selected_calls_def [THEN fun_cong]
  complete_stream_def [THEN fun_cong] complete_plain_def [THEN fun_cong] ask_model_def [THEN fun_cong]
  stop_turn_def [THEN fun_cong] enter_phase_def [THEN fun_cong]
  consult_model_def [THEN fun_cong] adopt_plan_def [THEN fun_cong] finalize_def [THEN fun_cong]
  reject_calls_def [THEN fun_cong] note_process_def [THEN fun_cong] note_mutation_def [THEN fun_cong]
  note_verification_def [THEN fun_cong] persist_observations.simps [THEN fun_cong]
  recover_repeated_def [THEN fun_cong] check_observations.simps [THEN fun_cong]
  run_batch_def [THEN fun_cong] turn_step_def [THEN fun_cong] turn_loop.simps [THEN fun_cong]
  run_turn_def [THEN fun_cong]

lemma prepare_context_run [code]:
  "prepare_context L s =
     (let s1 = s\<lparr>cl_history := trim_history L (cl_history s)\<rparr>;
          s2 = (if of_int (lp_compact_threshold_percent L) \<le> context_percent L (cl_history s1)
                then snd (compact_history L s1) else s1)
      in if lp_context_window_tokens L \<le> context_tokens L (cl_history s2)
         then (Inr Stop, snd (emit (GuardrailStop ''retained context exceeds the configured context window; use /compact or /clear'') s2))
         else case lp_max_total_tokens L of
                None \<Rightarrow> (Inr (Go ()), s2)
              | Some m \<Rightarrow>
                  if m \<le> st_total_tokens (cl_usage s2)
                  then (Inr Stop, snd (emit (GuardrailStop (''session token budget exceeded ('' @ str_of_int m @ '')'')) s2))
                  else (Inr (Go ()), s2))"
  by (auto simp: prepare_context_def trim_session_def compact_history_def emit_def Let_def split: option.split)

definition answered :: "(exn + unit) \<times> nat cli \<Rightarrow> bool" where
  "answered x = (case x of (Inr _, s) \<Rightarrow> FinalAnswer ''ok'' \<in> set (cl_events s) | _ \<Rightarrow> False)"

definition started :: "nat cli" where
  "started = new_session\<lparr>cl_events := [TurnStarted, TodoUpdated, TodoUpdated], cl_active_phase := PH_analyze,
     cl_history := [message MR_system (Some ''s''), message MR_user (Some ''hi'')],
     cl_active_contract := Some sample_contract\<rparr>"

lemma turn_start:
  "run_turn (sample_loop n) ''hi'' (Some sample_contract) new_session
   = turn_loop 3 (sample_loop n) ''hi'' sample_contract
       (first_turn (advance PH_analyze ''Classify the request and tool scope'' new_tracker) False) started"
  by (simp add: run_turn_def Let_def emit_def mwhen_def started_def new_session_def sample_contract_def
      sample_loop_def)

lemma answering_loop:
  "answered (turn_loop 3 (sample_loop ''read_file'') ''hi'' sample_contract
     (first_turn (advance PH_analyze ''Classify the request and tool scope'' new_tracker) False) started)"
  by code_simp

lemma answering_turn:
  "answered (run_turn (sample_loop ''read_file'') ''hi'' (Some sample_contract) new_session)"
  unfolding turn_start by (rule answering_loop)


theorem permission_witness:
  "\<exists>es. cl_trace (snd (run_turn (sample_loop ''write_file'') ''hi'' (Some sample_contract) new_session)) = [] @ es
     \<and> permitted (sample_loop ''write_file'') {} None es"
proof -
  have "plain_readers (sample_loop ''write_file'')"
    by (simp add: plain_readers_def tool_tier_def sample_loop_def)
  from tools_run_as_permitted [OF this, of "''hi''" "Some sample_contract" new_session] show ?thesis
    by (simp add: new_session_def)
qed

theorem conversation_witness:
  "\<exists>s'. run_turn (sample_loop ''read_file'') ''hi'' (Some sample_contract) new_session = (Inr (), s')
     \<and> conversation_ok {#} (cl_history s')"
proof -
  obtain s' where r: "run_turn (sample_loop ''read_file'') ''hi'' (Some sample_contract) new_session = (Inr (), s')"
    using answering_turn by (auto simp: answered_def split: prod.splits sum.splits)
  have "conversation_ok {#} (cl_history new_session)" and "asks_as_assistant (cl_history new_session)"
    by (simp_all add: new_session_def message_def asks_as_assistant_def)
  from turn_keeps_conversation [OF r this] r show ?thesis by simp
qed

end
