(* ===== verification/Urls.thy ===== *)
theory Urls
  imports Tools "HOL-Library.Word"
begin

unbundle bit_operations_syntax

text \<open>
  Which URLs the tools may fetch: what \<open>urlparse\<close> reads of a URL (scheme, host and port), which
  addresses are global, and harness/runtime/url_validation.py. Whether the host in brackets is a
  valid IPv6 address is a parameter, and so is the resolver, which answers the addresses of a host.
\<close>

section \<open>Parts of a URL\<close>

text \<open>The number of bytes of a text in UTF-8.\<close>

fun utf8_length :: "string \<Rightarrow> nat" where
  "utf8_length [] = 0"
| "utf8_length (c # cs) = (if (of_char c :: nat) < 128 then 1 else 2) + utf8_length cs"

text \<open>\<open>s.partition(c)\<close>: what is before the first \<open>c\<close>, whether there is one, and what is after it.\<close>

definition partition_at :: "char \<Rightarrow> string \<Rightarrow> string \<times> bool \<times> string" where
  "partition_at c s = (takeWhile (\<lambda>d. d \<noteq> c) s, c \<in> set s, drop 1 (dropWhile (\<lambda>d. d \<noteq> c) s))"

definition after_last :: "char \<Rightarrow> string \<Rightarrow> string" where
  "after_last c s = rev (takeWhile (\<lambda>d. d \<noteq> c) (rev s))"

definition is_letter :: "char \<Rightarrow> bool" where
  "is_letter c = (let n = (of_char c :: nat) in 65 \<le> n \<and> n \<le> 90 \<or> 97 \<le> n \<and> n \<le> 122)"

definition scheme_char :: "char \<Rightarrow> bool" where
  "scheme_char c = (is_letter c \<or> is_digit c \<or> c \<in> set ''+-.'')"

record url =
  ur_scheme :: string
  ur_netloc :: string

definition cleaned_url :: "string \<Rightarrow> string" where
  "cleaned_url s =
     filter (\<lambda>c. c \<notin> {CHR 9, CHR 13, CHR 10}) (dropWhile (\<lambda>c. (of_char c :: nat) \<le> 32) s)"

definition split_scheme :: "string \<Rightarrow> string \<times> string" where
  "split_scheme s =
     (let (before, found, rest) = partition_at CHR '':'' s in
      if found \<and> before \<noteq> [] \<and> is_letter (hd before) \<and> list_all scheme_char before
      then (str_lower before, rest) else ([], s))"

text \<open>The host and the port after the user information; no port is an empty one.\<close>

definition host_port :: "string \<Rightarrow> string \<times> string" where
  "host_port netloc =
     (let hostinfo = after_last CHR ''@'' netloc; (before, bracket, bracketed) = partition_at CHR ''['' hostinfo in
      if bracket
      then (let (host, closed, rest) = partition_at CHR '']'' bracketed in (host, snd (snd (partition_at CHR '':'' rest))))
      else (let (host, colon, port) = partition_at CHR '':'' hostinfo in (host, port)))"

definition urlparse :: "(string \<Rightarrow> bool) \<Rightarrow> string \<Rightarrow> exn + url" where
  "urlparse valid_ipv6 s =
     (let (scheme, rest) = split_scheme (cleaned_url s);
          netloc = (if str_startswith rest ''//'' then takeWhile (\<lambda>c. c \<notin> set ''/?#'') (drop 2 rest) else []);
          opening = CHR ''['' \<in> set netloc; closing = CHR '']'' \<in> set netloc
      in if opening \<noteq> closing then Inl (PyError ''ValueError'' ''Invalid IPv6 URL'')
         else if opening \<and> \<not> valid_ipv6 (fst (host_port netloc))
         then Inl (PyError ''ValueError'' ''An IPv6 address was expected'')
         else Inr \<lparr>ur_scheme = scheme, ur_netloc = netloc\<rparr>)"

text \<open>The host in lower case up to a zone; None when there is none.\<close>

definition hostname :: "url \<Rightarrow> string option" where
  "hostname u =
     (let host = fst (host_port (ur_netloc u)); (address, zoned, zone) = partition_at CHR ''%'' host in
      if host = [] then None else Some (str_lower address @ (if zoned then ''%'' @ zone else [])))"

definition port_of :: "url \<Rightarrow> exn + nat option" where
  "port_of u =
     (let p = snd (host_port (ur_netloc u)) in
      if p = [] then Inr None
      else if \<not> list_all is_digit p
      then Inl (PyError ''ValueError'' (''Port could not be cast to integer value as '' @ str_repr p))
      else if 65535 < nat_of_str p then Inl (PyError ''ValueError'' ''Port out of range 0-65535'')
      else Inr (Some (nat_of_str p)))"

section \<open>Addresses\<close>

datatype address = V4 "32 word" | V6 "128 word"

definition ip4 :: "nat list \<Rightarrow> 32 word" where
  "ip4 bs = foldl (\<lambda>w b. push_bit 8 w OR of_nat b) 0 bs"

text \<open>An IPv6 address from its leading groups, the rest being zero.\<close>

definition ip6 :: "nat list \<Rightarrow> 128 word" where
  "ip6 gs = push_bit (16 * (8 - length gs)) (foldl (\<lambda>w g. push_bit 16 w OR of_nat g) 0 gs)"

definition in_net4 :: "32 word \<Rightarrow> 32 word \<times> nat \<Rightarrow> bool" where
  "in_net4 a net = (drop_bit (32 - snd net) a = drop_bit (32 - snd net) (fst net))"

definition in_net6 :: "128 word \<Rightarrow> 128 word \<times> nat \<Rightarrow> bool" where
  "in_net6 a net = (drop_bit (128 - snd net) a = drop_bit (128 - snd net) (fst net))"

definition PRIVATE4 :: "(32 word \<times> nat) list" where
  "PRIVATE4 =
     [(ip4 [0, 0, 0, 0], 8), (ip4 [10, 0, 0, 0], 8), (ip4 [127, 0, 0, 0], 8), (ip4 [169, 254, 0, 0], 16),
      (ip4 [172, 16, 0, 0], 12), (ip4 [192, 0, 0, 0], 24), (ip4 [192, 0, 0, 170], 31), (ip4 [192, 0, 2, 0], 24),
      (ip4 [192, 168, 0, 0], 16), (ip4 [198, 18, 0, 0], 15), (ip4 [198, 51, 100, 0], 24),
      (ip4 [203, 0, 113, 0], 24), (ip4 [240, 0, 0, 0], 4), (ip4 [255, 255, 255, 255], 32)]"

definition PUBLIC4 :: "(32 word \<times> nat) list" where
  "PUBLIC4 = [(ip4 [192, 0, 0, 9], 32), (ip4 [192, 0, 0, 10], 32)]"

definition SHARED4 :: "32 word \<times> nat" where
  "SHARED4 = (ip4 [100, 64, 0, 0], 10)"

definition PRIVATE6 :: "(128 word \<times> nat) list" where
  "PRIVATE6 =
     [(ip6 [0, 0, 0, 0, 0, 0, 0, 1], 128), (ip6 [], 128), (ip6 [0, 0, 0, 0, 0, 0xffff], 96),
      (ip6 [0x64, 0xff9b, 1], 48), (ip6 [0x100], 64), (ip6 [0x2001], 23), (ip6 [0x2001, 0xdb8], 32),
      (ip6 [0x2002], 16), (ip6 [0xfc00], 7), (ip6 [0xfe80], 10)]"

definition PUBLIC6 :: "(128 word \<times> nat) list" where
  "PUBLIC6 =
     [(ip6 [0x2001, 1, 0, 0, 0, 0, 0, 1], 128), (ip6 [0x2001, 1, 0, 0, 0, 0, 0, 2], 128), (ip6 [0x2001, 3], 32),
      (ip6 [0x2001, 4, 0x112], 48), (ip6 [0x2001, 0x20], 28), (ip6 [0x2001, 0x30], 28)]"

definition ipv4_mapped :: "128 word \<Rightarrow> 32 word option" where
  "ipv4_mapped a = (if drop_bit 32 a = 0xffff then Some (ucast a) else None)"

definition is_private4 :: "32 word \<Rightarrow> bool" where
  "is_private4 a = (list_ex (in_net4 a) PRIVATE4 \<and> \<not> list_ex (in_net4 a) PUBLIC4)"

fun is_global :: "address \<Rightarrow> bool" where
  "is_global (V4 a) = (\<not> in_net4 a SHARED4 \<and> \<not> is_private4 a)"
| "is_global (V6 a) =
     (case ipv4_mapped a of
        Some b \<Rightarrow> \<not> is_private4 b
      | None \<Rightarrow> \<not> (list_ex (in_net6 a) PRIVATE6 \<and> \<not> list_ex (in_net6 a) PUBLIC6))"

section \<open>Validation (url_validation.py)\<close>

record 'w resolver =
  rs_valid_ipv6 :: "string \<Rightarrow> bool"
  rs_getaddrinfo :: "string \<Rightarrow> nat \<Rightarrow> 'w \<Rightarrow> address list option \<times> 'w"

definition value_error :: "string \<Rightarrow> exn" where
  "value_error m = PyError ''ValueError'' m"

definition not_public :: exn where
  "not_public = value_error ''fetch_url only supports public http(s) URLs''"

text \<open>The host and the port that are looked up; port 0 counts as none.\<close>

definition lookup_target :: "(string \<Rightarrow> bool) \<Rightarrow> string \<Rightarrow> exn + string \<times> nat" where
  "lookup_target valid_ipv6 url =
     (case urlparse valid_ipv6 url of
        Inl e \<Rightarrow> Inl e
      | Inr u \<Rightarrow>
          (case hostname u of
             None \<Rightarrow> Inl not_public
           | Some host \<Rightarrow>
               if ur_scheme u \<notin> {''http'', ''https''} then Inl not_public
               else (case port_of u of
                       Inl e \<Rightarrow> Inl e
                     | Inr p \<Rightarrow>
                         let standard = (if ur_scheme u = ''https'' then 443 else 80)
                         in Inr (host, if p \<in> {None, Some 0} then standard else the p))))"

definition check_addresses :: "string \<Rightarrow> address list option \<Rightarrow> exn + unit" where
  "check_addresses host r =
     (case r of
        None \<Rightarrow> Inl (value_error (''could not resolve URL host: '' @ host))
      | Some xs \<Rightarrow>
          (case remdups xs of
             [] \<Rightarrow> Inl (value_error ''URL host has no addresses'')
           | [a] \<Rightarrow> if is_global a then Inr ()
                    else Inl (value_error ''fetch_url refuses loopback, private, link-local, or reserved addresses'')
           | _ \<Rightarrow> Inl (value_error ''fetch_url refuses hosts with multiple DNS addresses'')))"

definition validate_public_url :: "'w resolver \<Rightarrow> string \<Rightarrow> 'w \<Rightarrow> (exn + unit) \<times> 'w" where
  "validate_public_url R url w =
     (case lookup_target (rs_valid_ipv6 R) url of
        Inl e \<Rightarrow> (Inl e, w)
      | Inr (host, port) \<Rightarrow> let (r, w') = rs_getaddrinfo R host port w in (check_addresses host r, w'))"

section \<open>What it guarantees\<close>

lemma check_addresses_global:
  "check_addresses host r = Inr () \<longleftrightarrow> (\<exists>xs a. r = Some xs \<and> set xs = {a} \<and> is_global a)"
proof
  have one: "set xs = {a}" if "remdups xs = [a]" for xs and a :: address
    using arg_cong [OF that, of set] by simp
  assume "check_addresses host r = Inr ()"
  then show "\<exists>xs a. r = Some xs \<and> set xs = {a} \<and> is_global a"
    by (auto simp: check_addresses_def dest: one split: option.splits list.splits if_splits)
next
  assume "\<exists>xs a. r = Some xs \<and> set xs = {a} \<and> is_global a"
  then obtain xs a where r: "r = Some xs" "set xs = {a}" "is_global a" by blast
  have "remdups xs = [a]"
  proof -
    have "set (remdups xs) = {a}" "distinct (remdups xs)" using r(2) by simp_all
    then show ?thesis by (cases "remdups xs") (auto simp: subset_singleton_iff insert_eq_iff)
  qed
  with r show "check_addresses host r = Inr ()" by (simp add: check_addresses_def)
qed

lemma lookup_target_http:
  "lookup_target v url = Inr (host, port) \<Longrightarrow>
   \<exists>u. urlparse v url = Inr u \<and> ur_scheme u \<in> {''http'', ''https''} \<and> hostname u = Some host"
  by (auto simp: lookup_target_def Let_def split: sum.splits option.splits if_splits)

text \<open>Loopback, private and link-local addresses are not global, in either notation.\<close>

lemma loopback_not_global:
  "\<not> is_global (V4 (ip4 [127, 0, 0, 1]))" "\<not> is_global (V4 (ip4 [169, 254, 169, 254]))"
  "\<not> is_global (V6 (ip6 [0, 0, 0, 0, 0, 0, 0, 1]))" "\<not> is_global (V6 (ip6 [0, 0, 0, 0, 0, 0xffff, 0x7f00, 1]))"
  "is_global (V4 (ip4 [93, 184, 216, 34]))"
  by (simp_all add: is_private4_def in_net4_def in_net6_def PRIVATE4_def PUBLIC4_def SHARED4_def PRIVATE6_def
      PUBLIC6_def ip4_def ip6_def ipv4_mapped_def)

end
