(* ===== verification/Files.thy ===== *)
theory Files
  imports Redact Urls "HOL-Library.Sublist"
begin

text \<open>
  The file tools of the command line agent: harness/runtime/path_utils.py and file_writes.py, and
  read_file, write_file and edit_file of marcus_code/tools/base.py. The file system is a map from
  absolute paths (lists of names) to files, directories and symbolic links; a file's text is what its
  UTF-8 content decodes to. A handler's world holds the file system; the names \<open>mkstemp\<close> tries and
  the hash function are parameters.
\<close>

section \<open>Paths\<close>

datatype node = File string | Dir | Link string

type_synonym path = "string list"
type_synonym fs = "path \<Rightarrow> node option"

definition path_parts :: "string \<Rightarrow> path" where
  "path_parts s = filter (\<lambda>c. c \<noteq> [] \<and> c \<noteq> ''.'') (split_on CHR ''/'' s)"

definition path_str :: "path \<Rightarrow> string" where
  "path_str p = ''/'' @ str_join ''/'' p"

text \<open>
  \<open>realpath\<close>: the components of a path are walked from a path that has no links, and a link is
  replaced by its target. A cycle of links is walked for ever, which is the value None.
\<close>

definition link_at :: "fs \<Rightarrow> path \<Rightarrow> string option" where
  "link_at fs p = (case fs p of Some (Link t) \<Rightarrow> Some t | _ \<Rightarrow> None)"

partial_function (option) walk :: "(path \<Rightarrow> string option) \<Rightarrow> path \<Rightarrow> path \<Rightarrow> path option" where
  "walk links here cs =
     (case cs of
        [] \<Rightarrow> Some here
      | c # cs' \<Rightarrow>
          if c = ''..'' then walk links (butlast here) cs'
          else (case links (here @ [c]) of
                  Some t \<Rightarrow> walk links (if str_startswith t ''/'' then [] else here) (path_parts t @ cs')
                | None \<Rightarrow> walk links (here @ [c]) cs'))"

declare walk.simps [code]

definition real_path :: "fs \<Rightarrow> path \<Rightarrow> path option" where
  "real_path fs p = walk (link_at fs) [] p"

definition is_relative_to :: "path \<Rightarrow> path \<Rightarrow> bool" where
  "is_relative_to base p = prefix base p"

text \<open>\<open>base / relative_path\<close> is the second path when that is absolute.\<close>

definition joined :: "path \<Rightarrow> string \<Rightarrow> path" where
  "joined base rel = (if str_startswith rel ''/'' then path_parts rel else base @ path_parts rel)"

definition symlink_loop :: "path \<Rightarrow> exn" where
  "symlink_loop p = PyError ''RuntimeError'' (''Symlink loop from '' @ str_repr (path_str p))"

definition resolve_scoped_path :: "fs \<Rightarrow> path \<Rightarrow> string \<Rightarrow> exn + path" where
  "resolve_scoped_path fs ws rel =
     (case real_path fs ws of
        None \<Rightarrow> Inl (symlink_loop ws)
      | Some base \<Rightarrow>
          (case real_path fs (joined base rel) of
             None \<Rightarrow> Inl (symlink_loop (joined base rel))
           | Some candidate \<Rightarrow>
               if is_relative_to base candidate then Inr candidate
               else Inl (PyError ''ValueError'' (''path '' @ str_repr rel @ '' escapes the scoped directory''))))"

section \<open>Writing (file_writes.py)\<close>

record 'o host =
  hs_fs :: fs
  hs_outside :: 'o

record 'o externals =
  ex_sha256 :: "string \<Rightarrow> string"
  ex_temp_names :: "'o \<Rightarrow> string list \<times> 'o"

definition is_dir :: "fs \<Rightarrow> path \<Rightarrow> bool" where
  "is_dir fs p \<longleftrightarrow> p = [] \<or> fs p = Some Dir"

text \<open>\<open>mkdir(parents=True, exist_ok=True)\<close> of a directory, the missing ones from the top.\<close>

definition make_dirs :: "fs \<Rightarrow> path \<Rightarrow> exn + fs" where
  "make_dirs fs d =
     (if list_all (\<lambda>q. is_dir fs q \<or> fs q = None) (prefixes d)
      then Inr (fold (\<lambda>q f. if is_dir f q then f else f(q \<mapsto> Dir)) (prefixes d) fs)
      else if list_all (\<lambda>q. is_dir fs q \<or> fs q = None) (butlast (prefixes d))
      then Inl (PyError ''FileExistsError'' (''[Errno 17] File exists: '' @ str_repr (path_str d)))
      else Inl (PyError ''NotADirectoryError'' (''[Errno 20] Not a directory: '' @ str_repr (path_str d))))"

definition file_text :: "fs \<Rightarrow> path \<Rightarrow> string option" where
  "file_text fs p = (case fs p of Some (File t) \<Rightarrow> Some t | _ \<Rightarrow> None)"

definition temp_path :: "fs \<Rightarrow> path \<Rightarrow> string list \<Rightarrow> path option" where
  "temp_path fs p names =
     find (\<lambda>q. fs q = None) (map (\<lambda>n. butlast p @ [''.'' @ last p @ ''.'' @ n]) names)"

definition write_report :: "'o externals \<Rightarrow> string option \<Rightarrow> string \<Rightarrow> dict" where
  "write_report X previous content =
     [(''bytes_written'', JInt (int (utf8_length content))),
      (''pre_image_hash'', case previous of None \<Rightarrow> JNull | Some t \<Rightarrow> JStr (ex_sha256 X t)),
      (''post_image_hash'', JStr (ex_sha256 X content))]"

text \<open>
  The file systems an atomic write goes through, the last one left, and the exception or the
  report. The temporary file is removed when the replacement fails.
\<close>

definition atomic_write_steps ::
  "'o externals \<Rightarrow> fs \<Rightarrow> path \<Rightarrow> string \<Rightarrow> string list \<Rightarrow> fs list \<times> (exn + dict)" where
  "atomic_write_steps X fs p content names =
     (let previous = file_text fs p in
      case make_dirs fs (butlast p) of
        Inl e \<Rightarrow> ([], Inl e)
      | Inr f0 \<Rightarrow>
          (case temp_path f0 p names of
             None \<Rightarrow> ([f0], Inl (PyError ''FileExistsError'' ''[Errno 17] No usable temporary file name found''))
           | Some t \<Rightarrow>
               let f1 = f0(t \<mapsto> File []); f2 = f0(t \<mapsto> File content) in
               if is_dir f0 p
               then ([f0, f1, f2, f0], Inl (PyError ''IsADirectoryError'' (''[Errno 21] Is a directory: ''
                       @ str_repr (path_str t) @ '' -> '' @ str_repr (path_str p))))
               else ([f0, f1, f2, f0(p \<mapsto> File content)], Inr (write_report X previous content))))"

definition atomic_write_text :: "'o externals \<Rightarrow> path \<Rightarrow> string \<Rightarrow> 'o host \<Rightarrow> (exn + dict) \<times> 'o host" where
  "atomic_write_text X p content w =
     (let (names, o') = ex_temp_names X (hs_outside w);
          (states, r) = atomic_write_steps X (hs_fs w) p content names
      in (r, \<lparr>hs_fs = last (hs_fs w # states), hs_outside = o'\<rparr>))"

section \<open>The tools (base.py)\<close>

text \<open>\<open>read_text\<close> reads both \<open>CR LF\<close> and \<open>CR\<close> as a line feed.\<close>

fun newlines :: "bool \<Rightarrow> string \<Rightarrow> string" where
  "newlines after_cr [] = []"
| "newlines after_cr (c # cs) =
     (if after_cr \<and> c = CHR 10 then newlines False cs
      else (if c = CHR 13 then CHR 10 else c) # newlines (c = CHR 13) cs)"

definition universal_newlines :: "string \<Rightarrow> string" where
  "universal_newlines s = newlines False s"

fun keep_lines :: "string \<Rightarrow> string list" where
  "keep_lines [] = []"
| "keep_lines (c # cs) =
     (if (of_char c :: nat) \<in> {10, 11, 12, 28, 29, 30, 133} then [c] # keep_lines cs
      else if c = CHR 13
      then (case cs of
              CHR 10 # ds \<Rightarrow> [c, CHR 10] # keep_lines ds
            | _ \<Rightarrow> [c] # keep_lines cs)
      else case keep_lines cs of [] \<Rightarrow> [[c]] | l # ls \<Rightarrow> (c # l) # ls)"

text \<open>A required text argument; the schema has refused values of another type before.\<close>

definition given :: "dict \<Rightarrow> string \<Rightarrow> json option" where
  "given args k = (case dict_get args k of Some JNull \<Rightarrow> None | v \<Rightarrow> v)"

definition type_error :: exn where
  "type_error = PyError ''TypeError'' ''unsupported argument type''"

fun py_int :: "json \<Rightarrow> exn + int" where
  "py_int (JInt i) = Inr i"
| "py_int (JBool b) = Inr (if b then 1 else 0)"
| "py_int (JFloat r) = Inr (if r < 0 then \<lceil>r\<rceil> else \<lfloor>r\<rfloor>)"
| "py_int (JStr t) = Inl (value_error (''invalid literal for int() with base 10: '' @ str_repr t))"
| "py_int _ = Inl type_error"

definition count_newlines :: "string \<Rightarrow> nat" where
  "count_newlines t = length (filter (\<lambda>c. c = CHR 10) t)"

text \<open>The lines from a one-based offset, at most a limit; without either, the whole text.\<close>

definition chunk :: "string \<Rightarrow> int \<Rightarrow> int option \<Rightarrow> string \<times> nat" where
  "chunk raw offset limit =
     (if limit \<noteq> None \<or> 1 < offset
      then
        let lines = keep_lines raw; from_offset = drop (nat (offset - 1)) lines;
            selected = (case limit of None \<Rightarrow> from_offset | Some n \<Rightarrow> take (nat n) from_offset)
        in (concat selected, length selected)
      else (raw, count_newlines raw + 1))"

definition read_result :: "string \<Rightarrow> string \<Rightarrow> int \<Rightarrow> int option \<Rightarrow> int \<Rightarrow> dict" where
  "read_result path raw offset limit max_chars =
     (let (content, chunk_lines) = chunk raw offset limit;
          (safe, redactions) = redact_secrets path content;
          truncated = (max_chars < int (length safe))
      in [(''path'', JStr path), (''content'', JStr (if truncated then take (nat max_chars) safe else safe)),
          (''lines'', JInt (int chunk_lines)), (''total_lines'', JInt (int (count_newlines raw + 1))),
          (''offset'', JInt offset), (''redacted'', JBool (0 < redactions)), (''truncated'', JBool truncated)]
         @ (case limit of None \<Rightarrow> [] | Some n \<Rightarrow> [(''limit'', JInt n)]))"

definition existing_file :: "fs \<Rightarrow> path \<Rightarrow> string \<Rightarrow> exn + path \<times> string" where
  "existing_file fs ws path =
     (case resolve_scoped_path fs ws path of
        Inl e \<Rightarrow> Inl e
      | Inr p \<Rightarrow>
          (case file_text fs p of
             None \<Rightarrow> Inl (value_error (''file not found: '' @ path))
           | Some t \<Rightarrow> Inr (p, universal_newlines t)))"

definition optional_int :: "dict \<Rightarrow> string \<Rightarrow> exn + int option" where
  "optional_int args k =
     (case given args k of None \<Rightarrow> Inr None
      | Some v \<Rightarrow> (case py_int v of Inl e \<Rightarrow> Inl e | Inr n \<Rightarrow> Inr (Some (max 1 n))))"

definition read_file :: "path \<Rightarrow> int \<Rightarrow> dict \<Rightarrow> fs \<Rightarrow> exn + dict" where
  "read_file ws max_chars args fs =
     (case dict_get args ''path'' of
        Some (JStr path) \<Rightarrow>
          if path = [] then Inl (value_error (''read_file requires a '' @ str_repr ''path'' @ '' field''))
          else (case existing_file fs ws path of
                  Inl e \<Rightarrow> Inl e
                | Inr (p, raw) \<Rightarrow>
                    (case py_int (case dict_get args ''offset'' of None \<Rightarrow> JInt 1 | Some v \<Rightarrow> v) of
                       Inl e \<Rightarrow> Inl e
                     | Inr offset \<Rightarrow>
                         (case optional_int args ''limit'' of
                            Inl e \<Rightarrow> Inl e
                          | Inr limit \<Rightarrow> Inr (read_result path raw (max 1 offset) limit max_chars))))
      | Some v \<Rightarrow> if truthy v then Inl type_error
                  else Inl (value_error (''read_file requires a '' @ str_repr ''path'' @ '' field''))
      | None \<Rightarrow> Inl (value_error (''read_file requires a '' @ str_repr ''path'' @ '' field'')))"

definition write_requires :: string where
  "write_requires = ''write_file requires '' @ str_repr ''path'' @ '' and '' @ str_repr ''content'' @ '' fields''"

definition write_file :: "'o externals \<Rightarrow> path \<Rightarrow> dict \<Rightarrow> 'o host \<Rightarrow> (exn + dict) \<times> 'o host" where
  "write_file X ws args w =
     (case (dict_get args ''path'', given args ''content'') of
        (Some (JStr path), Some (JStr content)) \<Rightarrow>
          if path = [] then (Inl (value_error write_requires), w)
          else (case resolve_scoped_path (hs_fs w) ws path of
                  Inl e \<Rightarrow> (Inl e, w)
                | Inr p \<Rightarrow>
                    let (r, w') = atomic_write_text X p content w in
                    (case r of Inl e \<Rightarrow> Inl e | Inr d \<Rightarrow> Inr ((''path'', JStr path) # d), w'))
      | (Some v, Some c) \<Rightarrow> if truthy v then (Inl type_error, w) else (Inl (value_error write_requires), w)
      | _ \<Rightarrow> (Inl (value_error write_requires), w))"

text \<open>\<open>count\<close> of occurrences that do not overlap, and \<open>replace\<close> of the first one.\<close>

function count_text :: "string \<Rightarrow> string \<Rightarrow> nat" where
  "count_text old [] = (if old = [] then 1 else 0)"
| "count_text old (c # cs) =
     (if old = [] then Suc (count_text old cs)
      else if str_startswith (c # cs) old then Suc (count_text old (drop (length old) (c # cs)))
      else count_text old cs)"
  by pat_completeness auto

termination
  by (relation "measure (\<lambda>(old, t). length t)") (auto simp: less_Suc_eq_le neq_Nil_conv)

fun replace_first :: "string \<Rightarrow> string \<Rightarrow> string \<Rightarrow> string" where
  "replace_first old new [] = (if old = [] then new else [])"
| "replace_first old new (c # cs) =
     (if str_startswith (c # cs) old then new @ drop (length old) (c # cs)
      else c # replace_first old new cs)"

definition edit_requires :: string where
  "edit_requires = ''edit_file requires '' @ str_repr ''path'' @ '', '' @ str_repr ''old_string'' @ '', and ''
     @ str_repr ''new_string'' @ '' fields''"

definition not_unique :: "nat \<Rightarrow> string" where
  "not_unique n = ''old_string is not unique in file ('' @ str_of_int (int n) @ '' occurrences) ''
     @ [CHR 0xE2, CHR 0x80, CHR 0x94] @ '' include more surrounding context to make it unique''"

definition edit_text :: "string \<Rightarrow> string \<Rightarrow> string \<Rightarrow> exn + string" where
  "edit_text original old new =
     (let n = count_text old original in
      if n = 0 then Inl (value_error ''old_string not found in file'')
      else if 1 < n then Inl (value_error (not_unique n))
      else Inr (replace_first old new original))"

definition edit_file :: "'o externals \<Rightarrow> path \<Rightarrow> dict \<Rightarrow> 'o host \<Rightarrow> (exn + dict) \<times> 'o host" where
  "edit_file X ws args w =
     (case (dict_get args ''path'', given args ''old_string'', given args ''new_string'') of
        (Some (JStr path), Some (JStr old), Some (JStr new)) \<Rightarrow>
          if path = [] then (Inl (value_error edit_requires), w)
          else (case existing_file (hs_fs w) ws path of
                  Inl e \<Rightarrow> (Inl e, w)
                | Inr (p, original) \<Rightarrow>
                    (case edit_text original old new of
                       Inl e \<Rightarrow> (Inl e, w)
                     | Inr updated \<Rightarrow>
                         let (r, w') = atomic_write_text X p updated w in
                         (case r of Inl e \<Rightarrow> Inl e
                          | Inr d \<Rightarrow> Inr ([(''path'', JStr path), (''old_string'', JStr old),
                                          (''new_string'', JStr new)] @ d), w')))
      | (Some v, Some _, Some _) \<Rightarrow>
          if truthy v then (Inl type_error, w) else (Inl (value_error edit_requires), w)
      | _ \<Rightarrow> (Inl (value_error edit_requires), w))"

end
