(* ===== verification/FileTools.thy ===== *)
theory FileTools
  imports Files
begin

text \<open>
  What the file tools guarantee: the links of a path are gone once it is resolved, an atomic write
  shows the old text or the new one and nothing in between, a tool leaves the files outside the
  workspace alone, what is written is read back, and an edit replaces the one occurrence.
\<close>

section \<open>Resolved paths\<close>

definition unlinked :: "(path \<Rightarrow> string option) \<Rightarrow> path \<Rightarrow> bool" where
  "unlinked links p \<longleftrightarrow> (\<forall>q. prefix q p \<longrightarrow> q \<noteq> [] \<longrightarrow> links q = None)"

lemma unlinked_Nil [simp]: "unlinked links []"
  by (simp add: unlinked_def)

lemma unlinked_snoc [simp]: "unlinked links (p @ [c]) \<longleftrightarrow> unlinked links p \<and> links (p @ [c]) = None"
  by (auto simp: unlinked_def)

lemma unlinked_butlast [simp]: "unlinked links p \<Longrightarrow> unlinked links (butlast p)"
  by (cases p rule: rev_cases) auto

lemma walk_unlinked:
  assumes "walk links here cs = Some r" and "unlinked links here"
  shows "unlinked links r"
proof -
  have "unlinked links here \<longrightarrow> unlinked links r"
    by (rule walk.raw_induct [where P = "\<lambda>links here cs r. unlinked links here \<longrightarrow> unlinked links r", OF _ assms(1)])
      (auto split: list.splits if_splits option.splits)
  with assms(2) show ?thesis by blast
qed

lemma resolved_unlinked:
  assumes "resolve_scoped_path fs ws rel = Inr p"
  shows "unlinked (link_at fs) p"
  using assms walk_unlinked [OF _ unlinked_Nil]
  by (auto simp: resolve_scoped_path_def real_path_def split: option.splits if_splits)

lemma resolved_inside:
  "resolve_scoped_path fs ws rel = Inr p \<Longrightarrow> \<exists>base. real_path fs ws = Some base \<and> is_relative_to base p"
  by (auto simp: resolve_scoped_path_def split: option.splits if_splits)

lemma resolve_cong: "link_at fs' = link_at fs \<Longrightarrow> resolve_scoped_path fs' ws rel = resolve_scoped_path fs ws rel"
  by (simp add: resolve_scoped_path_def real_path_def cong: option.case_cong)

section \<open>Atomic writes\<close>

lemma fold_make_dir:
  "fold (\<lambda>q f. if is_dir f q then f else f(q \<mapsto> Dir)) qs fs
   = (\<lambda>q. if q \<in> set qs \<and> \<not> is_dir fs q then Some Dir else fs q)"
proof (induction qs arbitrary: fs)
  case (Cons q qs)
  then show ?case by (auto simp: fun_eq_iff is_dir_def)
qed simp

text \<open>What a write makes besides its target: directories above it where there was nothing.\<close>

definition grown :: "fs \<Rightarrow> path \<Rightarrow> path \<Rightarrow> fs \<Rightarrow> bool" where
  "grown fs d q fs' \<longleftrightarrow> fs' q = fs q \<or> fs q = None \<and> q \<noteq> [] \<and> fs' q = Some Dir \<and> prefix q d"

lemma make_dirs_grown: "make_dirs fs d = Inr fs' \<Longrightarrow> grown fs d q fs'"
  unfolding make_dirs_def fold_make_dir
  by (auto simp: grown_def is_dir_def list_all_iff split: if_splits)

lemma temp_path_fresh:
  assumes "temp_path fs p names = Some t"
  shows "fs t = None" and "t \<noteq> p" and "butlast t = butlast p" and "t \<noteq> []"
proof -
  obtain n where t: "t = butlast p @ [''.'' @ last p @ ''.'' @ n]" and f: "fs t = None"
    using assms by (auto simp: temp_path_def find_Some_iff)
  show "fs t = None" by (fact f)
  show "t \<noteq> p"
  proof
    assume "t = p"
    then have "last p = ''.'' @ last p @ ''.'' @ n" using t by (metis last_snoc)
    then have "length (last p) = length (''.'' @ last p @ ''.'' @ n)" by simp
    then show False by simp
  qed
qed (use assms in \<open>auto simp: temp_path_def find_Some_iff\<close>)

lemma not_prefix_butlast: "p \<noteq> [] \<Longrightarrow> \<not> prefix p (butlast p)"
  using prefix_length_le [of p "butlast p"] by (auto simp: neq_Nil_conv)

text \<open>Every state a write goes through, and how it ends.\<close>

lemma write_steps:
  assumes "f \<in> set (fst (atomic_write_steps X fs p content names))"
  shows "f p = fs p \<or> f p = Some (File content)"
    and "q \<noteq> p \<Longrightarrow> fs q \<noteq> None \<Longrightarrow> f q = fs q"
proof -
  obtain f0 where f0: "make_dirs fs (butlast p) = Inr f0" and
    f: "f = f0 \<or> f = f0(p \<mapsto> File content) \<or>
        (\<exists>t x. temp_path f0 p names = Some t \<and> f = f0(t \<mapsto> File x))"
    using assms by (auto simp: atomic_write_steps_def Let_def split: sum.splits option.splits if_splits)
  note g = make_dirs_grown [OF f0, unfolded grown_def]
  have "f0 p = fs p" using g [of p] not_prefix_butlast [of p] by auto
  then show "f p = fs p \<or> f p = Some (File content)"
    using f by (auto dest: temp_path_fresh(2))
  assume "q \<noteq> p" "fs q \<noteq> None"
  then have "f0 q = fs q" using g [of q] by auto
  with f \<open>q \<noteq> p\<close> \<open>fs q \<noteq> None\<close> show "f q = fs q"
    using temp_path_fresh(1) by fastforce
qed

lemma write_steps_end:
  assumes "atomic_write_steps X fs p content names = (states, r)" and "fs' = last (fs # states)"
  shows "(\<exists>e. r = Inl e \<and> (\<forall>q. grown fs (butlast p) q fs'))
       \<or> r = Inr (write_report X (file_text fs p) content) \<and> \<not> is_dir fs p
         \<and> fs' p = Some (File content) \<and> (\<forall>q. q \<noteq> p \<longrightarrow> grown fs (butlast p) q fs')"
proof (cases "make_dirs fs (butlast p)")
  case (Inl e)
  then show ?thesis
    using assms by (auto simp: atomic_write_steps_def grown_def)
next
  case (Inr f0)
  have g: "grown fs (butlast p) q f0" for q by (rule make_dirs_grown [OF Inr])
  have d: "is_dir f0 p = is_dir fs p"
    using g [of p] not_prefix_butlast [of p] by (auto simp: grown_def is_dir_def)
  show ?thesis
  proof (cases "temp_path f0 p names = None \<or> is_dir f0 p")
    case True
    then have "\<exists>e. r = Inl e" and "fs' = f0"
      using assms Inr by (auto simp: atomic_write_steps_def Let_def split: option.splits)
    with g show ?thesis by blast
  next
    case False
    then have "r = Inr (write_report X (file_text fs p) content)" and "fs' = f0(p \<mapsto> File content)"
      using assms Inr by (auto simp: atomic_write_steps_def Let_def)
    with g d False show ?thesis by (simp add: grown_def)
  qed
qed

lemma atomic_write_ends:
  assumes "atomic_write_text X p content w = (r, w')"
  shows "(\<exists>e. r = Inl e \<and> (\<forall>q. grown (hs_fs w) (butlast p) q (hs_fs w')))
       \<or> r = Inr (write_report X (file_text (hs_fs w) p) content) \<and> \<not> is_dir (hs_fs w) p
         \<and> hs_fs w' p = Some (File content) \<and> (\<forall>q. q \<noteq> p \<longrightarrow> grown (hs_fs w) (butlast p) q (hs_fs w'))"
proof -
  obtain names o' states where "atomic_write_steps X (hs_fs w) p content names = (states, r)"
    and "hs_fs w' = last (hs_fs w # states)"
    using assms by (fastforce simp: atomic_write_text_def split: prod.splits)
  then show ?thesis by (rule write_steps_end)
qed

section \<open>The tools\<close>

lemma write_file_ends:
  assumes "write_file X ws args w = (r, w')"
  shows "(\<exists>e. r = Inl e \<and> w' = w)
       \<or> (\<exists>path content p r'. dict_get args ''path'' = Some (JStr path) \<and> path \<noteq> []
           \<and> given args ''content'' = Some (JStr content) \<and> resolve_scoped_path (hs_fs w) ws path = Inr p
           \<and> atomic_write_text X p content w = (r', w') \<and> (\<exists>d. r' = Inr d) = (\<exists>d. r = Inr d))"
  using assms
  by (auto simp: write_file_def split: prod.splits option.splits json.splits if_splits sum.splits)

lemma edit_file_ends:
  assumes "edit_file X ws args w = (r, w')"
  shows "(\<exists>e. r = Inl e \<and> w' = w)
       \<or> (\<exists>path p updated r'. resolve_scoped_path (hs_fs w) ws path = Inr p
           \<and> atomic_write_text X p updated w = (r', w'))"
  using assms
  by (auto simp: edit_file_def existing_file_def split: prod.splits option.splits json.splits if_splits sum.splits)

text \<open>A write inside an existing workspace makes nothing outside it.\<close>

lemma atomic_write_inside:
  assumes "atomic_write_text X p content w = (r, w')" and "prefix base p"
    and "\<forall>q. prefix q base \<longrightarrow> is_dir (hs_fs w) q" and "\<not> prefix base q"
  shows "hs_fs w' q = hs_fs w q"
proof -
  have "\<not> grown (hs_fs w) (butlast p) q (hs_fs w') \<or> hs_fs w' q = hs_fs w q"
  proof (cases "prefix q (butlast p)")
    case True
    then have "prefix q p" using prefixeq_butlast prefix_order.trans by blast
    then have "prefix q base" using assms(2,4) prefix_same_cases by blast
    then show ?thesis using assms(3) by (auto simp: grown_def is_dir_def)
  qed (auto simp: grown_def)
  moreover have "q \<noteq> p" using assms(2,4) by blast
  ultimately show ?thesis using atomic_write_ends [OF assms(1)] by blast
qed

lemma same_links:
  assumes "\<forall>q. q \<noteq> p \<longrightarrow> grown fs d q fs'" and "link_at fs p = None" and "fs' p = Some (File t)"
  shows "link_at fs' = link_at fs"
proof
  fix q
  show "link_at fs' q = link_at fs q"
    using assms by (cases "q = p") (auto simp: link_at_def grown_def)
qed

section \<open>Occurrences\<close>

lemma startswith_iff: "str_startswith s p \<longleftrightarrow> (\<exists>b. s = p @ b)"
  by (metis append_take_drop_id str_startswith_append str_startswith_def)

lemma count_text_zero: "old \<noteq> [] \<Longrightarrow> count_text old t = 0 \<longleftrightarrow> \<not> (\<exists>a b. t = a @ old @ b)"
proof (induction old t rule: count_text.induct)
  case (2 old c cs)
  show ?case
  proof (cases "str_startswith (c # cs) old")
    case True
    then obtain b where "c # cs = [] @ old @ b" by (auto simp: startswith_iff)
    then have "\<exists>a b. c # cs = a @ old @ b" by blast
    with True 2 show ?thesis by simp
  next
    case False
    then have "(\<exists>a b. c # cs = a @ old @ b) \<longleftrightarrow> (\<exists>a b. cs = a @ old @ b)"
      unfolding startswith_iff by (metis append_Cons append_Nil neq_Nil_conv list.sel(3))
    with False 2 show ?thesis by simp
  qed
qed simp

definition first_at :: "string \<Rightarrow> string \<Rightarrow> string \<Rightarrow> bool" where
  "first_at old a t \<longleftrightarrow> (\<exists>b. t = a @ old @ b) \<and> (\<forall>a' b'. t = a' @ old @ b' \<longrightarrow> length a \<le> length a')"

lemma first_at_Cons:
  assumes "first_at old (c # a) (c # t)"
  shows "first_at old a t" and "\<not> str_startswith (c # t) old"
proof -
  show "first_at old a t"
    unfolding first_at_def
  proof (intro conjI allI impI)
    show "\<exists>b. t = a @ old @ b" using assms by (auto simp: first_at_def)
    fix a' b'
    assume "t = a' @ old @ b'"
    then have "c # t = (c # a') @ old @ b'" by simp
    with assms have "length (c # a) \<le> length (c # a')" unfolding first_at_def by blast
    then show "length a \<le> length a'" by simp
  qed
  show "\<not> str_startswith (c # t) old"
  proof
    assume "str_startswith (c # t) old"
    then obtain b where "c # t = [] @ old @ b" by (auto simp: startswith_iff)
    with assms have "length (c # a) \<le> length ([] :: string)" unfolding first_at_def by blast
    then show False by simp
  qed
qed

lemma count_first:
  "old \<noteq> [] \<Longrightarrow> first_at old a (a @ old @ b)
   \<Longrightarrow> count_text old (a @ old @ b) = Suc (count_text old b) \<and> replace_first old new (a @ old @ b) = a @ new @ b"
proof (induction a)
  case Nil
  then show ?case by (cases old) (auto simp: str_startswith_def)
next
  case (Cons c a)
  from first_at_Cons [of old c a "a @ old @ b"] Cons show ?case by simp
qed

lemma first_occurrence:
  assumes "t = x @ old @ y"
  shows "\<exists>a b. t = a @ old @ b \<and> first_at old a t"
proof -
  let ?P = "\<lambda>n. \<exists>a b. t = a @ old @ b \<and> length a = n"
  have "?P (length x)" using assms by blast
  then have "?P (LEAST n. ?P n)" by (rule LeastI)
  then obtain a b where a: "t = a @ old @ b" "length a = (LEAST n. ?P n)" by blast
  have "length a \<le> length a'" if "t = a' @ old @ b'" for a' b'
    unfolding a(2) using that by (intro Least_le) blast
  with a show ?thesis unfolding first_at_def by blast
qed

section \<open>Properties\<close>

text \<open>
  C28. An atomic write goes through states in each of which the target has its old text or the new
  one, and every other file that existed is as it was; it reports success only if the new text is
  in place, and after a failure the old one is.
\<close>

theorem write_is_atomic:
  assumes "atomic_write_steps X fs p content names = (states, r)"
  shows "list_all (\<lambda>f. (f p = fs p \<or> f p = Some (File content))
           \<and> (\<forall>q. q \<noteq> p \<longrightarrow> fs q \<noteq> None \<longrightarrow> f q = fs q)) states
       \<and> last (fs # states) p = (case r of Inl e \<Rightarrow> fs p | Inr d \<Rightarrow> Some (File content))"
proof -
  have "last (fs # states) p = (case r of Inl e \<Rightarrow> fs p | Inr d \<Rightarrow> Some (File content))"
    using write_steps_end [OF assms refl] not_prefix_butlast [of p] by (auto simp: grown_def)
  then show ?thesis
    using assms write_steps [of _ X fs p content names] by (auto simp: list_all_iff)
qed

text \<open>
  C27. The file tools stay in the workspace: when it exists, writing and editing leave everything
  outside it as it was, whatever the path and however they end, and what read_file answers does not
  depend on the files outside, links apart.
\<close>

theorem file_tools_confined:
  assumes "real_path (hs_fs w) ws = Some base" and "\<forall>q. prefix q base \<longrightarrow> is_dir (hs_fs w) q"
    and "\<forall>q. is_relative_to base q \<longrightarrow> fs' q = hs_fs w q" and "link_at fs' = link_at (hs_fs w)"
  shows "(\<forall>q. \<not> is_relative_to base q \<longrightarrow>
            hs_fs (snd (write_file X ws args w)) q = hs_fs w q \<and> hs_fs (snd (edit_file X ws args w)) q = hs_fs w q)
       \<and> read_file ws n args fs' = read_file ws n args (hs_fs w)"
proof (intro conjI allI impI)
  fix q
  assume q: "\<not> is_relative_to base q"
  have inside: "prefix base p" if "resolve_scoped_path (hs_fs w) ws path = Inr p" for path p
    using resolved_inside [OF that] assms(1) by (simp add: is_relative_to_def)
  note unchanged = atomic_write_inside [OF _ inside assms(2) q [unfolded is_relative_to_def]]
  obtain r w' where "write_file X ws args w = (r, w')" by fastforce
  with write_file_ends [OF this] show "hs_fs (snd (write_file X ws args w)) q = hs_fs w q"
    by (auto intro: unchanged)
  obtain r w' where "edit_file X ws args w = (r, w')" by fastforce
  with edit_file_ends [OF this] show "hs_fs (snd (edit_file X ws args w)) q = hs_fs w q"
    by (auto intro: unchanged)
next
  have "existing_file fs' ws path = existing_file (hs_fs w) ws path" for path
    using resolved_inside [of "hs_fs w" ws path] assms(1,3)
    by (auto simp: existing_file_def resolve_cong [OF assms(4)] file_text_def split: sum.split)
  then show "read_file ws n args fs' = read_file ws n args (hs_fs w)" 
    by (simp add: read_file_def cong: option.case_cong json.case_cong if_cong)
qed

text \<open>
  C29. What write_file has written, read_file reads back: the text with its line ends normalized
  and its secrets redacted, so a text without carriage returns and secrets that fits the limit
  comes back as it is.
\<close>

theorem read_after_write:
  assumes "write_file X ws args w = (Inr d, w')"
    and "dict_get args ''path'' = Some (JStr path)" and "dict_get args ''content'' = Some (JStr content)"
  shows "read_file ws n [(''path'', JStr path)] (hs_fs w')
           = Inr (read_result path (universal_newlines content) 1 None n)
       \<and> (CHR 13 \<notin> set content \<and> fst (redact_secrets path content) = content \<and> int (length content) \<le> n
          \<longrightarrow> dict_get (read_result path (universal_newlines content) 1 None n) ''content'' = Some (JStr content))"
proof
  obtain p r' where path: "path \<noteq> []" and p: "resolve_scoped_path (hs_fs w) ws path = Inr p"
    and wr: "atomic_write_text X p content w = (r', w')" "\<exists>d. r' = Inr d"
    using write_file_ends [OF assms(1)] assms(2,3) by (auto simp: given_def)
  from atomic_write_ends [OF wr(1)] wr(2)
  have here: "hs_fs w' p = Some (File content)" and others: "\<forall>q. q \<noteq> p \<longrightarrow> grown (hs_fs w) (butlast p) q (hs_fs w')"
    and "\<not> is_dir (hs_fs w) p"
    by auto
  then have "link_at (hs_fs w) p = None"
    using resolved_unlinked [OF p] by (auto simp: unlinked_def is_dir_def)
  from resolve_cong [OF same_links [OF others this here]] p
  have "resolve_scoped_path (hs_fs w') ws path = Inr p" by simp
  then show "read_file ws n [(''path'', JStr path)] (hs_fs w')
      = Inr (read_result path (universal_newlines content) 1 None n)"
    using path here by (simp add: read_file_def existing_file_def file_text_def optional_int_def given_def)
  have "newlines False t = t" if "CHR 13 \<notin> set t" for t
    using that by (induction t) auto
  then show "CHR 13 \<notin> set content \<and> fst (redact_secrets path content) = content \<and> int (length content) \<le> n
      \<longrightarrow> dict_get (read_result path (universal_newlines content) 1 None n) ''content'' = Some (JStr content)"
    by (cases "redact_secrets path content") (auto simp: universal_newlines_def read_result_def chunk_def)
qed

text \<open>
  An edit succeeds exactly when the old text occurs in the file and not again after its first
  occurrence, and then replaces that one.
\<close>

theorem edit_replaces_unique:
  assumes "old \<noteq> []"
  shows "edit_text t old new = Inr u \<longleftrightarrow>
      (\<exists>a b. t = a @ old @ b \<and> u = a @ new @ b \<and> first_at old a t \<and> \<not> (\<exists>x y. b = x @ old @ y))"
proof
  assume ed: "edit_text t old new = Inr u"
  then have one: "count_text old t = 1" and u: "u = replace_first old new t"
    by (auto simp: edit_text_def Let_def split: if_splits)
  then have "\<exists>a b. t = a @ old @ b" using count_text_zero [OF assms, of t] by simp
  then obtain a b where t: "t = a @ old @ b" "first_at old a t" using first_occurrence by blast
  with count_first [OF assms, of a b new] one u count_text_zero [OF assms, of b]
  show "\<exists>a b. t = a @ old @ b \<and> u = a @ new @ b \<and> first_at old a t \<and> \<not> (\<exists>x y. b = x @ old @ y)" by auto
next
  assume "\<exists>a b. t = a @ old @ b \<and> u = a @ new @ b \<and> first_at old a t \<and> \<not> (\<exists>x y. b = x @ old @ y)"
  then obtain a b where t: "t = a @ old @ b" "u = a @ new @ b" "first_at old a t" "\<not> (\<exists>x y. b = x @ old @ y)"
    by blast
  with count_first [OF assms, of a b new] count_text_zero [OF assms, of b]
  show "edit_text t old new = Inr u" by (simp add: edit_text_def)
qed

section \<open>Examples\<close>

definition sample_files :: fs where
  "sample_files = [[''home''] \<mapsto> Dir, [''home'', ''w''] \<mapsto> Dir, [''home'', ''w'', ''a''] \<mapsto> File [CHR ''x'', CHR 13, CHR 10, CHR ''y''],
     [''home'', ''w'', ''up''] \<mapsto> Link ''../..'']"

definition sample_host :: "nat host" where
  "sample_host = \<lparr>hs_fs = sample_files, hs_outside = 0\<rparr>"

definition sample_externals :: "nat externals" where
  "sample_externals = \<lparr>ex_sha256 = id, ex_temp_names = (\<lambda>n. ([''t''], Suc n))\<rparr>"

definition sample_workspace :: path where
  "sample_workspace = [''home'', ''w'']"

definition sample_write :: dict where
  "sample_write = [(''path'', JStr ''d/b''), (''content'', JStr ''hello'')]"

definition sample_update :: dict where
  "sample_update = [(''path'', JStr ''a''), (''content'', JStr ''new'')]"

lemma sample_base: "real_path (hs_fs sample_host) sample_workspace = Some [''home'', ''w'']"
  by code_simp

lemma sample_base_dirs: "\<forall>q. prefix q [''home'', ''w''] \<longrightarrow> is_dir (hs_fs sample_host) q"
  by (auto simp: prefix_Cons is_dir_def sample_host_def sample_files_def)

theorem confined_witness:
  "hs_fs (snd (write_file sample_externals sample_workspace sample_update sample_host)) [''etc''] = None
   \<and> read_file sample_workspace 100 sample_update (sample_files([''etc''] \<mapsto> File ''secret''))
     = read_file sample_workspace 100 sample_update sample_files"
proof -
  have outside: "\<not> is_relative_to [''home'', ''w''] [''etc'']" by (simp add: is_relative_to_def)
  have "\<forall>q. is_relative_to [''home'', ''w''] q \<longrightarrow> (sample_files([''etc''] \<mapsto> File ''secret'')) q = hs_fs sample_host q"
    by (auto simp: is_relative_to_def sample_host_def)
  moreover have "link_at (sample_files([''etc''] \<mapsto> File ''secret'')) = link_at (hs_fs sample_host)"
    by (auto simp: link_at_def sample_host_def sample_files_def fun_eq_iff)
  ultimately show ?thesis
    using file_tools_confined [OF sample_base sample_base_dirs,
        of "sample_files([''etc''] \<mapsto> File ''secret'')" sample_externals sample_update 100] outside
    by (auto simp: sample_host_def sample_files_def)
qed

lemma sample_written:
  "fst (write_file sample_externals sample_workspace sample_write sample_host)
   = Inr [(''path'', JStr ''d/b''), (''bytes_written'', JInt 5), (''pre_image_hash'', JNull), (''post_image_hash'', JStr ''hello'')]"
  by code_simp

theorem read_back_witness:
  "\<exists>r. read_file sample_workspace 100 [(''path'', JStr ''d/b'')]
          (hs_fs (snd (write_file sample_externals sample_workspace sample_write sample_host))) = Inr r
       \<and> dict_get r ''content'' = Some (JStr ''hello'')"
proof -
  have "write_file sample_externals sample_workspace sample_write sample_host
      = (Inr [(''path'', JStr ''d/b''), (''bytes_written'', JInt 5), (''pre_image_hash'', JNull), (''post_image_hash'', JStr ''hello'')],
         snd (write_file sample_externals sample_workspace sample_write sample_host))"
    by (subst sample_written [symmetric]) simp
  note again = read_after_write [OF this, of "''d/b''" "''hello''" 100]
  moreover have "fst (redact_secrets ''d/b'' ''hello'') = ''hello''" by code_simp
  ultimately show ?thesis by (simp add: sample_write_def)
qed

theorem atomic_witness:
  "list_all (\<lambda>f. f [''home'', ''w'', ''a''] \<in> {sample_files [''home'', ''w'', ''a''], Some (File ''new'')})
     (fst (atomic_write_steps sample_externals sample_files [''home'', ''w'', ''a''] ''new'' [''t'']))"
proof -
  obtain states r where st: "atomic_write_steps sample_externals sample_files [''home'', ''w'', ''a''] ''new'' [''t''] = (states, r)"
    by fastforce
  from write_is_atomic [OF st] st show ?thesis by (auto simp: list_all_iff)
qed

theorem edit_witness: "edit_text ''a b c'' ''b'' ''d'' = Inr ''a d c''"
proof -
  have "edit_text ''a b c'' ''b'' ''d'' = Inr ''a d c'' \<longleftrightarrow>
      (\<exists>a b. ''a b c'' = a @ ''b'' @ b \<and> ''a d c'' = a @ ''d'' @ b \<and> first_at ''b'' a ''a b c'' \<and> \<not> (\<exists>x y. b = x @ ''b'' @ y))"
    by (rule edit_replaces_unique) simp
  moreover have "edit_text ''a b c'' ''b'' ''d'' = Inr ''a d c''" by code_simp
  ultimately show ?thesis by blast
qed

text \<open>An edit rewrites the line ends of the whole file, since the text is read with normalized ones
  and written as it is.\<close>

lemma edit_normalizes_line_ends:
  "hs_fs (snd (edit_file sample_externals sample_workspace
      [(''path'', JStr ''a''), (''old_string'', JStr ''y''), (''new_string'', JStr ''z'')] sample_host)) [''home'', ''w'', ''a'']
   = Some (File [CHR ''x'', CHR 10, CHR ''z''])"
  by code_simp

text \<open>Writing to the workspace itself fails, but its temporary file is for a moment in the directory above.\<close>

lemma temporary_file_outside:
  "map (\<lambda>f. f [''home'', ''.w.t'']) (fst (atomic_write_steps sample_externals sample_files sample_workspace ''new'' [''t'']))
   = [None, Some (File []), Some (File ''new''), None]"
  by code_simp

lemma link_out_refused:
  "resolve_scoped_path sample_files sample_workspace ''up/etc''
   = Inl (PyError ''ValueError'' ''path 'up/etc' escapes the scoped directory'')"
  by code_simp

end
