(* ===== verification/Providers.thy ===== *)
theory Providers
  imports CliLoop Urls Redact
begin

text \<open>
  harness/llm/providers.py: which provider an endpoint and a model belong to, and how a request is
  adapted to it, its output limit and its reasoning controls, with the request to fall back on when
  the provider refuses those. A payload is a JSON object; deep copies are values here.
\<close>

section \<open>Adapters\<close>

datatype provider = PV_openai | PV_openrouter | PV_ollama | PV_nvidia | PV_compatible

record gateway_options = llm_options +
  op_extra_body :: dict

record adapted_request =
  ad_payload :: dict
  ad_fallback_payload :: dict
  ad_provider :: provider
  ad_reasoning_fields :: "string list"
  ad_effective_effort :: "string option"

definition CORE_REQUEST_FIELDS :: "string list" where
  "CORE_REQUEST_FIELDS = [''model'', ''messages'', ''tools'', ''stream'', ''stream_options'', ''temperature'']"

fun message_fields :: "provider \<Rightarrow> string list" where
  "message_fields PV_openrouter = [''reasoning'', ''reasoning_content'', ''reasoning_details'']"
| "message_fields PV_nvidia = [''reasoning'', ''reasoning_content'']"
| "message_fields _ = []"

fun apply_output_limit :: "provider \<Rightarrow> int \<Rightarrow> dict \<Rightarrow> dict" where
  "apply_output_limit PV_openai v payload = dict_set ''max_completion_tokens'' (JInt v) payload"
| "apply_output_limit _ v payload = dict_set ''max_tokens'' (JInt v) payload"

definition requested_effort :: "('a llm_options_scheme) \<Rightarrow> effort option" where
  "requested_effort opts =
     (if op_thinking_enabled opts = Some False then Some EF_off
      else if op_reasoning_effort opts \<noteq> EF_auto then Some (op_reasoning_effort opts)
      else if op_thinking_enabled opts = Some True then Some EF_medium else None)"

definition mapping_of :: "json option \<Rightarrow> dict" where
  "mapping_of v = (case v of Some (JObj d) \<Rightarrow> d | _ \<Rightarrow> [])"

definition dict_pop :: "string \<Rightarrow> dict \<Rightarrow> dict" where
  "dict_pop k d = filter (\<lambda>p. fst p \<noteq> k) d"

text \<open>OpenAI: the models that reason, and the effort they take.\<close>

definition model_name :: "string \<Rightarrow> string" where
  "model_name model = after_last CHR ''/'' (str_lower model)"

definition is_openai_reasoning_model :: "string \<Rightarrow> bool" where
  "is_openai_reasoning_model model =
     re_search (RAlt
       [RSeq [RStart, lit ''o'', RClass (\<lambda>c. c \<in> set ''134''), RAlt [lit ''-'', REnd]],
        RSeq [RStart, lit ''gpt-'', RClass (\<lambda>c. c \<in> set ''56789''), RAlt [RClass (\<lambda>c. c \<in> set ''.-''), REnd]]])
       (model_name model)"

text \<open>The version after \<open>gpt-\<close>: the major number, and the minor one or zero.\<close>

definition gpt_version :: "string \<Rightarrow> (nat \<times> nat) option" where
  "gpt_version name =
     (let t = drop 4 name; major = takeWhile is_digit t; rest = drop (length major) t;
          minor = (case rest of c # r \<Rightarrow> if c = CHR ''.'' then takeWhile is_digit r else [] | [] \<Rightarrow> [])
      in if str_startswith name ''gpt-'' \<and> major \<noteq> []
         then Some (nat_of_str major, if minor = [] then 0 else nat_of_str minor) else None)"

definition openai_effort :: "string \<Rightarrow> effort \<Rightarrow> string option" where
  "openai_effort model e =
     (if str_contains ''-pro'' (model_name model) then (if e = EF_high then Some ''high'' else None)
      else if e \<noteq> EF_off then Some (effort_str e)
      else case gpt_version (model_name model) of
             Some (major, minor) \<Rightarrow>
               if 5 < major \<or> major = 5 \<and> 1 \<le> minor then Some ''none'' else Some ''minimal''
           | None \<Rightarrow> Some ''low'')"

definition nemotron_budget :: "string \<Rightarrow> int \<Rightarrow> dict \<Rightarrow> dict \<Rightarrow> dict \<times> dict" where
  "nemotron_budget model budget payload template =
     (let name = str_lower model in
      if str_contains ''9b-v2'' name
      then (dict_set ''nvext'' (JObj (dict_set ''max_thinking_tokens'' (JInt budget)
              (mapping_of (dict_get payload ''nvext'')))) payload, template)
      else if str_contains ''ultra'' name \<or> str_contains ''omni'' name
      then (dict_set ''thinking_token_budget'' (JInt budget) payload, template)
      else if str_contains ''nano-30b'' name
      then (dict_set ''max_thinking_tokens'' (JInt budget) payload, template)
      else (payload, dict_set ''reasoning_budget'' (JInt budget) template))"

definition openai_reasoning :: "dict \<Rightarrow> string \<Rightarrow> ('a llm_options_scheme) \<Rightarrow> dict \<times> string list \<times> string option" where
  "openai_reasoning payload model opts =
     (case requested_effort opts of
        Some e \<Rightarrow>
          if \<not> is_openai_reasoning_model model then (payload, [], None)
          else (case openai_effort model e of
                  None \<Rightarrow> (payload, [], None)
                | Some t \<Rightarrow> (dict_set ''reasoning_effort'' (JStr t) payload, [''reasoning_effort''], Some t))
      | None \<Rightarrow> (payload, [], None))"

definition openrouter_reasoning :: "dict \<Rightarrow> ('a llm_options_scheme) \<Rightarrow> dict \<times> string list \<times> string option" where
  "openrouter_reasoning payload opts =
     (let e = requested_effort opts; reasoning = mapping_of (dict_get payload ''reasoning'') in
      case (op_reasoning_budget_tokens opts, e) of
        (Some b, _) \<Rightarrow>
          if e = Some EF_off
          then (dict_set ''reasoning'' (JObj (dict_set ''effort'' (JStr ''none'') reasoning)) payload, [''reasoning''], Some ''none'')
          else (dict_set ''reasoning'' (JObj (dict_set ''max_tokens'' (JInt b) (dict_pop ''effort'' reasoning))) payload,
                [''reasoning''], None)
      | (None, Some f) \<Rightarrow>
          let t = (if f = EF_off then ''none'' else effort_str f)
          in (dict_set ''reasoning'' (JObj (dict_set ''effort'' (JStr t) reasoning)) payload, [''reasoning''], Some t)
      | (None, None) \<Rightarrow> (payload, [], None))"

definition ollama_reasoning :: "dict \<Rightarrow> string \<Rightarrow> ('a llm_options_scheme) \<Rightarrow> dict \<times> string list \<times> string option" where
  "ollama_reasoning payload model opts =
     (case requested_effort opts of
        None \<Rightarrow> (payload, [], None)
      | Some e \<Rightarrow>
          let t = (if e = EF_off then (if str_contains ''gpt-oss'' (str_lower model) then ''low'' else ''none'')
                   else effort_str e)
          in (dict_set ''reasoning_effort'' (JStr t) payload, [''reasoning_effort''], Some t))"

text \<open>The payload and its chat template with the thinking switch, the effort and the budget.\<close>

definition nvidia_template :: "dict \<Rightarrow> string \<Rightarrow> ('a llm_options_scheme) \<Rightarrow> dict \<times> dict" where
  "nvidia_template payload model opts =
     (let e = requested_effort opts; template = mapping_of (dict_get payload ''chat_template_kwargs'') in
      if e = Some EF_off
      then (payload, dict_pop ''low_effort'' (dict_set ''enable_thinking'' (JBool False) template))
      else
        let t = dict_set ''low_effort'' (JBool (e = Some EF_low)) (dict_set ''enable_thinking'' (JBool True) template)
        in case op_reasoning_budget_tokens opts of
             None \<Rightarrow> (payload, t)
           | Some b \<Rightarrow> nemotron_budget model b payload t)"

definition nvidia_fields :: "dict \<Rightarrow> string list" where
  "nvidia_fields payload =
     ''chat_template_kwargs'' # filter (dict_has payload) [''thinking_token_budget'', ''max_thinking_tokens'', ''nvext'']"

definition nvidia_reasoning :: "dict \<Rightarrow> string \<Rightarrow> ('a llm_options_scheme) \<Rightarrow> dict \<times> string list \<times> string option" where
  "nvidia_reasoning payload model opts =
     (if \<not> str_contains ''nemotron'' (str_lower model)
         \<or> requested_effort opts = None \<and> op_reasoning_budget_tokens opts = None
      then (payload, [], None)
      else
        let (payload1, template) = nvidia_template payload model opts;
            payload2 = dict_set ''chat_template_kwargs'' (JObj template) payload1
        in (payload2, nvidia_fields payload2, map_option effort_str (requested_effort opts)))"

fun apply_reasoning :: "provider \<Rightarrow> dict \<Rightarrow> string \<Rightarrow> ('a llm_options_scheme) \<Rightarrow> dict \<times> string list \<times> string option" where
  "apply_reasoning PV_openai payload model opts = openai_reasoning payload model opts"
| "apply_reasoning PV_openrouter payload model opts = openrouter_reasoning payload opts"
| "apply_reasoning PV_ollama payload model opts = ollama_reasoning payload model opts"
| "apply_reasoning PV_nvidia payload model opts = nvidia_reasoning payload model opts"
| "apply_reasoning PV_compatible payload model opts = (payload, [], None)"

section \<open>Choosing and adapting\<close>

definition in_domain :: "string \<Rightarrow> string \<Rightarrow> bool" where
  "in_domain host domain = (host = domain \<or> str_endswith host (''.'' @ domain))"

text \<open>A configured provider is None when it is left to be found from the endpoint and the model.\<close>

definition resolve_provider :: "(string \<Rightarrow> bool) \<Rightarrow> string \<Rightarrow> string \<Rightarrow> provider option \<Rightarrow> exn + provider" where
  "resolve_provider valid_ipv6 base_url model configured =
     (case configured of
        Some p \<Rightarrow> Inr p
      | None \<Rightarrow>
          (case urlparse valid_ipv6 base_url of
             Inl e \<Rightarrow> Inl e
           | Inr u \<Rightarrow>
               let host = str_lower (case hostname u of None \<Rightarrow> [] | Some h \<Rightarrow> h);
                   rest = Inr (if str_endswith host ''.openai.com'' then PV_openai
                               else if str_contains ''nvidia'' host \<or> str_endswith host ''.nvcf.nvidia.com''
                                       \<or> str_contains ''nemotron'' (str_lower model) then PV_nvidia
                               else PV_compatible)
               in if in_domain host ''openrouter.ai'' then Inr PV_openrouter
                  else if in_domain host ''ollama.com'' then Inr PV_ollama
                  else if host \<in> {''localhost'', ''127.0.0.1'', ''::1''}
                  then (case port_of u of
                          Inl e \<Rightarrow> Inl e
                        | Inr p \<Rightarrow> if p = Some 11434 then Inr PV_ollama else rest)
                  else rest))"

definition merge_extra :: "dict \<Rightarrow> dict \<Rightarrow> dict" where
  "merge_extra extra payload =
     fold (\<lambda>(k, v) acc. if k \<in> set CORE_REQUEST_FIELDS then acc else dict_set k v acc) extra payload"

definition adapt_request ::
  "(string \<Rightarrow> bool) \<Rightarrow> string \<Rightarrow> provider option \<Rightarrow> string \<Rightarrow> gateway_options option \<Rightarrow> dict \<Rightarrow> exn + adapted_request" where
  "adapt_request valid_ipv6 base_url configured model options payload =
     (case resolve_provider valid_ipv6 base_url model configured of
        Inl e \<Rightarrow> Inl e
      | Inr pv \<Rightarrow>
          (case options of
             None \<Rightarrow> Inr \<lparr>ad_payload = payload, ad_fallback_payload = payload, ad_provider = pv,
                         ad_reasoning_fields = [], ad_effective_effort = None\<rparr>
           | Some opts \<Rightarrow>
               let extended = merge_extra (op_extra_body opts) payload;
                   limited = (case op_max_completion_tokens opts of
                                None \<Rightarrow> extended | Some n \<Rightarrow> apply_output_limit pv n extended);
                   (reasoned, fields, e) = apply_reasoning pv limited model opts
               in Inr \<lparr>ad_payload = reasoned, ad_fallback_payload = limited, ad_provider = pv,
                       ad_reasoning_fields = fields, ad_effective_effort = e\<rparr>))"

end
