(* ===== verification/Gateway.thy ===== *)
theory Gateway
  imports Providers
begin

text \<open>
  harness/llm/gateway.py: a chat completion with its retries, its fallback from reasoning controls
  and its errors, the parsing of a complete response, and the assembling of a streamed one. The
  endpoint is a parameter: what it answers to a payload in a world. A state keeps what the gateway
  has learned of the model, the payloads it has sent and the text it has passed on.
\<close>

section \<open>The endpoint and the state\<close>

datatype gateway_error = GE_transient string | GE_no_tools string | GE_no_reasoning string | GE_failed string
  | GE_transport string | GE_python exn

text \<open>What crosses the gateway as an LLMError.\<close>

fun is_llm_error :: "gateway_error \<Rightarrow> bool" where
  "is_llm_error (GE_transport m) = False"
| "is_llm_error (GE_python e) = False"
| "is_llm_error _ = True"

record http_response =
  hr_status :: int
  hr_text :: string

text \<open>A streamed response: its lines, and how the connection broke after them, if it did.\<close>

record http_stream = http_response +
  hs_lines :: "string list"
  hs_cut :: "string option"

record 'w endpoint =
  ep_post :: "dict \<Rightarrow> 'w \<Rightarrow> (string + http_response) \<times> 'w"
  ep_stream :: "dict \<Rightarrow> 'w \<Rightarrow> (string + http_stream) \<times> 'w"
  ep_loads :: "string \<Rightarrow> json option"
  ep_dumps :: "json \<Rightarrow> string"
  ep_jitter :: "'w \<Rightarrow> rat \<times> 'w"
  ep_sleep :: "rat \<Rightarrow> 'w \<Rightarrow> 'w"
  ep_valid_ipv6 :: "string \<Rightarrow> bool"
  ep_base_url :: string
  ep_model :: string
  ep_provider :: "provider option"

type_synonym capability_key = "provider \<times> string \<times> string list \<times> string option"

record 'w gateway =
  gw_tool_capable :: "bool option"
  gw_reasoning_capable :: "(capability_key \<times> bool) list"
  gw_sent :: "dict list"
  gw_deltas :: "string list"
  gw_world :: 'w

type_synonym ('w, 'a) gop = "('w gateway, gateway_error, 'a) prog"

definition RETRYABLE_STATUS_CODES :: "int set" where
  "RETRYABLE_STATUS_CODES = {429, 500, 502, 503, 504}"

definition mentions :: "string list \<Rightarrow> string \<Rightarrow> bool" where
  "mentions phrases t = list_ex (\<lambda>p. str_contains p t) phrases"

definition looks_like_tool_unsupported :: "int \<Rightarrow> string \<Rightarrow> bool" where
  "looks_like_tool_unsupported status body =
     (status = 400
      \<and> mentions [''does not support tools'', ''tools are not supported'', ''tool calling is not supported'',
                  ''function calling'', ''function_call''] (str_lower body))"

definition looks_like_reasoning_unsupported :: "int \<Rightarrow> string \<Rightarrow> string list \<Rightarrow> bool" where
  "looks_like_reasoning_unsupported status body controls =
     (if status \<notin> {400, 422} \<or> controls = [] then False
      else mentions [''unknown'', ''unsupported'', ''unrecognized'', ''not permitted'', ''extra inputs'',
                     ''invalid parameter'', ''unexpected keyword''] (str_lower body)
           \<and> (mentions (map str_lower controls) (str_lower body)
              \<or> mentions [''reasoning'', ''thinking'', ''chat_template_kwargs'', ''nvext''] (str_lower body)))"

section \<open>Retries\<close>

definition backoff_delay :: "rat \<Rightarrow> nat \<Rightarrow> rat" where
  "backoff_delay jitter attempt = (let base = of_nat (min (2 ^ attempt) 30) in base + jitter * (base / 10))"

definition backoff :: "'w endpoint \<Rightarrow> nat \<Rightarrow> 'w gateway \<Rightarrow> 'w gateway" where
  "backoff T attempt s =
     (let (j, w) = ep_jitter T (gw_world s) in s\<lparr>gw_world := ep_sleep T (backoff_delay j attempt) w\<rparr>)"

definition attempts_text :: "nat \<Rightarrow> string" where
  "attempts_text attempt = str_of_int (int (Suc attempt)) @ '' attempts''"

definition status_text :: "http_response \<Rightarrow> string" where
  "status_text r = str_of_int (hr_status r) @ '': '' @ take 500 (hr_text r)"

definition payload_model :: "dict \<Rightarrow> string" where
  "payload_model payload = (case dict_get payload ''model'' of Some (JStr m) \<Rightarrow> m | _ \<Rightarrow> [])"

definition send_post :: "'w endpoint \<Rightarrow> dict \<Rightarrow> 'w gateway \<Rightarrow> (string + http_response) \<times> 'w gateway" where
  "send_post T payload s =
     (let (r, w) = ep_post T payload (gw_world s) in (r, s\<lparr>gw_world := w, gw_sent := gw_sent s @ [payload]\<rparr>))"

text \<open>The attempts from a number on; the last one is numbered \<open>max_retries\<close>.\<close>

function post_from ::
  "'w endpoint \<Rightarrow> nat \<Rightarrow> string list \<Rightarrow> dict \<Rightarrow> nat \<Rightarrow> 'w gateway \<Rightarrow> (gateway_error + http_response) \<times> 'w gateway" where
  "post_from T max_retries controls payload attempt s =
     (case send_post T payload s of
        (Inl e, s1) \<Rightarrow>
          if max_retries \<le> attempt
          then (Inl (GE_transient (''LLM request failed after '' @ attempts_text attempt @ '': '' @ e)), s1)
          else post_from T max_retries controls payload (Suc attempt) (backoff T attempt s1)
      | (Inr r, s1) \<Rightarrow>
          if hr_status r = 200 then (Inr r, s1)
          else if dict_has payload ''tools'' \<and> looks_like_tool_unsupported (hr_status r) (hr_text r)
          then (Inl (GE_no_tools (''model '' @ str_repr (payload_model payload) @ '' does not support tool-calling: ''
                  @ take 500 (hr_text r))), s1\<lparr>gw_tool_capable := Some False\<rparr>)
          else if looks_like_reasoning_unsupported (hr_status r) (hr_text r) controls
          then (Inl (GE_no_reasoning (take 500 (hr_text r))), s1)
          else if hr_status r \<in> RETRYABLE_STATUS_CODES
          then if attempt < max_retries
               then post_from T max_retries controls payload (Suc attempt) (backoff T attempt s1)
               else (Inl (GE_transient (''LLM request failed after '' @ attempts_text attempt @ '' with status ''
                       @ status_text r)), s1)
          else (Inl (GE_failed (''LLM request failed with status '' @ status_text r)), s1))"
  by pat_completeness auto

termination
  by (relation "measure (\<lambda>(T, m, fs, p, attempt, s). m - attempt)") auto

declare post_from.simps [simp del]

definition post_with_retry :: "'w endpoint \<Rightarrow> nat \<Rightarrow> string list \<Rightarrow> dict \<Rightarrow> ('w, http_response) gop" where
  "post_with_retry T max_retries controls payload = post_from T max_retries controls payload 0"

section \<open>Parsing a response\<close>

text \<open>
  Reading the parsed body: a subscript, \<open>get\<close> of an object, a list in its order. Identifiers, names
  and contents are texts and counts are integers; other JSON in their place is an error here.
\<close>

definition attribute_error :: exn where
  "attribute_error = PyError ''AttributeError'' ''not an object''"

definition type_error :: exn where
  "type_error = PyError ''TypeError'' ''unexpected type''"

definition as_object :: "json \<Rightarrow> exn + dict" where
  "as_object j = (case j of JObj d \<Rightarrow> Inr d | _ \<Rightarrow> Inl attribute_error)"

definition subscript :: "json \<Rightarrow> string \<Rightarrow> exn + json" where
  "subscript j k =
     (case j of
        JObj d \<Rightarrow> (case dict_get d k of Some v \<Rightarrow> Inr v | None \<Rightarrow> Inl (key_error k))
      | _ \<Rightarrow> Inl type_error)"

definition first_item :: "json \<Rightarrow> exn + json" where
  "first_item j =
     (case j of
        JList (x # xs) \<Rightarrow> Inr x
      | JList [] \<Rightarrow> Inl (PyError ''IndexError'' ''list index out of range'')
      | JStr (c # cs) \<Rightarrow> Inr (JStr [c])
      | JStr [] \<Rightarrow> Inl (PyError ''IndexError'' ''string index out of range'')
      | JObj d \<Rightarrow> Inl (key_error ''0'')
      | _ \<Rightarrow> Inl type_error)"

definition as_text :: "json \<Rightarrow> exn + string" where
  "as_text j = (case j of JStr t \<Rightarrow> Inr t | _ \<Rightarrow> Inl type_error)"

text \<open>The value of a key that is truthy, \<open>d.get(k) or ...\<close>.\<close>

definition get_truthy :: "dict \<Rightarrow> string \<Rightarrow> json option" where
  "get_truthy d k = (case dict_get d k of Some v \<Rightarrow> if truthy v then Some v else None | None \<Rightarrow> None)"

definition get_int :: "dict \<Rightarrow> string \<Rightarrow> exn + int" where
  "get_int d k = (case dict_get d k of None \<Rightarrow> Inr 0 | Some (JInt i) \<Rightarrow> Inr i | _ \<Rightarrow> Inl type_error)"

definition get_text :: "dict \<Rightarrow> string \<Rightarrow> string \<Rightarrow> exn + string" where
  "get_text d k standard =
     (case dict_get d k of None \<Rightarrow> Inr standard | Some JNull \<Rightarrow> Inr [] | Some v \<Rightarrow> as_text v)"

definition and_then :: "'e + 'a \<Rightarrow> ('a \<Rightarrow> 'e + 'b) \<Rightarrow> 'e + 'b" where
  "and_then r f = (case r of Inl e \<Rightarrow> Inl e | Inr x \<Rightarrow> f x)"

definition load_arguments :: "'w endpoint \<Rightarrow> json \<Rightarrow> exn + json" where
  "load_arguments T j =
     (let decode = (\<lambda>t. case ep_loads T t of Some v \<Rightarrow> Inr v | None \<Rightarrow> Inl (PyError ''JSONDecodeError'' t))
      in if \<not> truthy j then decode ''{}''
         else case j of JStr t \<Rightarrow> decode t | _ \<Rightarrow> Inl (PyError ''JSONDecodeError'' ''input must be text''))"

definition parse_call :: "'w endpoint \<Rightarrow> json \<Rightarrow> exn + tool_call" where
  "parse_call T call =
     and_then (and_then (subscript call ''id'') as_text) (\<lambda>i.
     and_then (subscript call ''function'') (\<lambda>f.
     and_then (and_then (subscript f ''name'') as_text) (\<lambda>n.
     and_then (and_then (subscript f ''arguments'') (load_arguments T)) (\<lambda>a.
       Inr \<lparr>tc_id = i, tc_name = n, tc_arguments = a\<rparr>))))"

fun parse_calls :: "'w endpoint \<Rightarrow> json list \<Rightarrow> exn + tool_call list" where
  "parse_calls T [] = Inr []"
| "parse_calls T (j # js) = and_then (parse_call T j) (\<lambda>c. and_then (parse_calls T js) (\<lambda>cs. Inr (c # cs)))"

definition items :: "json option \<Rightarrow> exn + json list" where
  "items j = (case j of None \<Rightarrow> Inr [] | Some (JList xs) \<Rightarrow> Inr xs | _ \<Rightarrow> Inl type_error)"

definition reasoning_tokens :: "dict \<Rightarrow> int" where
  "reasoning_tokens usage =
     (case get_truthy usage ''completion_tokens_details'' of
        Some (JObj details) \<Rightarrow>
          (case dict_get details ''reasoning_tokens'' of
             Some (JInt i) \<Rightarrow> if 0 \<le> i then i else 0
           | Some (JBool b) \<Rightarrow> if b then 1 else 0
           | _ \<Rightarrow> 0)
      | _ \<Rightarrow> 0)"

definition parse_usage :: "dict \<Rightarrow> exn + usage" where
  "parse_usage d =
     and_then (get_int d ''prompt_tokens'') (\<lambda>p.
     and_then (get_int d ''completion_tokens'') (\<lambda>c.
     and_then (get_int d ''total_tokens'') (\<lambda>t.
       Inr \<lparr>u_prompt_tokens = p, u_completion_tokens = c, u_total_tokens = t, u_source = US_provider,
            u_reasoning_tokens = reasoning_tokens d\<rparr>)))"

definition parse_content :: "dict \<Rightarrow> exn + string option" where
  "parse_content msg =
     (case dict_get msg ''content'' of
        None \<Rightarrow> Inr None | Some JNull \<Rightarrow> Inr None | Some v \<Rightarrow> map_sum id Some (as_text v))"

definition parse_response :: "'w endpoint \<Rightarrow> json \<Rightarrow> exn + llm_response" where
  "parse_response T body =
     and_then (and_then (subscript body ''choices'') first_item) (\<lambda>choice.
     and_then (subscript choice ''message'') (\<lambda>m.
     and_then (as_object m) (\<lambda>msg.
     and_then (and_then (items (get_truthy msg ''tool_calls'')) (parse_calls T)) (\<lambda>calls.
     and_then (as_object body) (\<lambda>b.
     and_then (and_then (as_object (case get_truthy b ''usage'' of None \<Rightarrow> JObj [] | Some u \<Rightarrow> u)) parse_usage) (\<lambda>usage.
     and_then (parse_content msg) (\<lambda>content.
     and_then (and_then (as_object choice) (\<lambda>c. get_text c ''finish_reason'' ''stop'')) (\<lambda>finish_reason.
     and_then (get_text b ''model'' []) (\<lambda>model.
       Inr \<lparr>lr_content = content, lr_tool_calls = calls, lr_finish_reason = finish_reason, lr_usage = usage,
            lr_model = model,
            lr_provider_fields = concat (map (\<lambda>k. case dict_get msg k of
              None \<Rightarrow> [] | Some JNull \<Rightarrow> [] | Some v \<Rightarrow> [(k, v)]) PROVIDER_MESSAGE_FIELDS)\<rparr>)))))))))"

text \<open>Usage is estimated from the sizes when the provider leaves it out.\<close>

definition json_bytes :: "'w endpoint \<Rightarrow> json \<Rightarrow> int" where
  "json_bytes T j = int (utf8_length (ep_dumps T j))"

definition estimated_tokens :: "int \<Rightarrow> int" where
  "estimated_tokens bytes = max 1 ((bytes + 3) div 4)"

definition ensure_usage :: "'w endpoint \<Rightarrow> dict \<Rightarrow> llm_response \<Rightarrow> llm_response" where
  "ensure_usage T payload r =
     (if 0 < u_total_tokens (lr_usage r) then r
      else
        let prompt_bytes = json_bytes T (case dict_get payload ''messages'' of None \<Rightarrow> JList [] | Some v \<Rightarrow> v)
              + (case get_truthy payload ''tools'' of None \<Rightarrow> 0 | Some v \<Rightarrow> json_bytes T v);
            completion_bytes = int (utf8_length (case lr_content r of None \<Rightarrow> [] | Some c \<Rightarrow> c))
              + sum_list (map (\<lambda>c. int (utf8_length (tc_name c)) + json_bytes T (tc_arguments c)) (lr_tool_calls r));
            p = estimated_tokens prompt_bytes; c = estimated_tokens completion_bytes
        in r\<lparr>lr_usage := \<lparr>u_prompt_tokens = p, u_completion_tokens = c, u_total_tokens = p + c,
                          u_source = US_estimated, u_reasoning_tokens = 0\<rparr>\<rparr>)"

section \<open>Assembling a stream\<close>

record call_parts =
  cp_id :: string
  cp_name :: string
  cp_arguments :: string

record stream =
  sm_content :: "string list"
  sm_reasoning :: "string list"
  sm_reasoning_content :: "string list"
  sm_details :: "json list"
  sm_calls :: "(json \<times> call_parts) list"
  sm_usage :: usage
  sm_finish_reason :: string

definition empty_stream :: stream where
  "empty_stream = \<lparr>sm_content = [], sm_reasoning = [], sm_reasoning_content = [], sm_details = [], sm_calls = [],
     sm_usage = \<lparr>u_prompt_tokens = 0, u_completion_tokens = 0, u_total_tokens = 0, u_source = US_provider,
                 u_reasoning_tokens = 0\<rparr>,
     sm_finish_reason = ''stop''\<rparr>"

type_synonym 'a assembly = "(stream, gateway_error, 'a) prog"

definition lifted :: "exn + 'a \<Rightarrow> 'a assembly" where
  "lifted r = (\<lambda>s. (map_sum GE_python id r, s))"

text \<open>\<open>d.get(k) or ""\<close> added to a text.\<close>

definition text_piece :: "dict \<Rightarrow> string \<Rightarrow> exn + string" where
  "text_piece d k = (case get_truthy d k of None \<Rightarrow> Inr [] | Some v \<Rightarrow> as_text v)"

definition truthy_object :: "dict \<Rightarrow> string \<Rightarrow> exn + dict" where
  "truthy_object d k = (case get_truthy d k of None \<Rightarrow> Inr [] | Some v \<Rightarrow> as_object v)"

definition reasoning_piece :: "dict \<Rightarrow> string \<Rightarrow> string list" where
  "reasoning_piece delta k = (case dict_get delta k of Some (JStr t) \<Rightarrow> if t = [] then [] else [t] | _ \<Rightarrow> [])"

text \<open>The parts of the call at an index, changed; a new index is added at the end.\<close>

fun update_call :: "json \<Rightarrow> (call_parts \<Rightarrow> call_parts) \<Rightarrow> (json \<times> call_parts) list \<Rightarrow> (json \<times> call_parts) list" where
  "update_call i f [] = [(i, f \<lparr>cp_id = [], cp_name = [], cp_arguments = []\<rparr>)]"
| "update_call i f ((j, c) # cs) = (if py_eq j i then (j, f c) # cs else (j, c) # update_call i f cs)"

definition hashable :: "json \<Rightarrow> bool" where
  "hashable j = (case j of JList _ \<Rightarrow> False | JObj _ \<Rightarrow> False | _ \<Rightarrow> True)"

definition add_piece :: "json \<Rightarrow> (string \<Rightarrow> call_parts \<Rightarrow> call_parts) \<Rightarrow> exn + string \<Rightarrow> unit assembly" where
  "add_piece i f r = mbind (lifted r) (\<lambda>t. modify (\<lambda>s. s\<lparr>sm_calls := update_call i (f t) (sm_calls s)\<rparr>))"

definition take_fragment :: "json \<Rightarrow> unit assembly" where
  "take_fragment fragment =
     mbind (lifted (as_object fragment)) (\<lambda>d.
       let i = (case dict_get d ''index'' of None \<Rightarrow> JInt 0 | Some v \<Rightarrow> v) in
       mseq (if hashable i then ret () else raise (GE_python type_error))
       (mseq (modify (\<lambda>s. s\<lparr>sm_calls := update_call i id (sm_calls s)\<rparr>))
       (mseq (add_piece i (\<lambda>t. cp_id_update (\<lambda>x. x @ t)) (text_piece d ''id''))
       (mbind (lifted (truthy_object d ''function'')) (\<lambda>f.
         mseq (add_piece i (\<lambda>t. cp_name_update (\<lambda>x. x @ t)) (text_piece f ''name''))
              (add_piece i (\<lambda>t. cp_arguments_update (\<lambda>x. x @ t)) (text_piece f ''arguments'')))))))"

definition take_chunk :: "json \<Rightarrow> unit assembly" where
  "take_chunk j =
     mbind (lifted (as_object j)) (\<lambda>chunk.
     mbind (lifted (and_then (first_item (case get_truthy chunk ''choices'' of None \<Rightarrow> JList [JObj []] | Some v \<Rightarrow> v))
              as_object)) (\<lambda>choice.
     mbind (lifted (text_piece choice ''finish_reason'')) (\<lambda>reason.
     mseq (modify (\<lambda>s. if reason = [] then s else s\<lparr>sm_finish_reason := reason\<rparr>))
     (mbind (lifted (truthy_object choice ''delta'')) (\<lambda>delta.
     mbind (lifted (text_piece delta ''content'')) (\<lambda>t.
     mseq (modify (\<lambda>s. if t = [] then s else s\<lparr>sm_content := sm_content s @ [t]\<rparr>))
     (mseq (modify (\<lambda>s. s\<lparr>
         sm_reasoning := sm_reasoning s @ reasoning_piece delta ''reasoning'',
         sm_reasoning_content := sm_reasoning_content s @ reasoning_piece delta ''reasoning_content'',
         sm_details := sm_details s @ (case dict_get delta ''reasoning_details'' of Some (JList ds) \<Rightarrow> ds | _ \<Rightarrow> [])\<rparr>))
     (mbind (lifted (items (get_truthy delta ''tool_calls''))) (\<lambda>fragments.
     mseq (for_each fragments take_fragment)
     (mbind (lifted (truthy_object chunk ''usage'')) (\<lambda>u.
       if u = [] then ret ()
       else mbind (lifted (parse_usage u)) (\<lambda>v. modify (\<lambda>s. s\<lparr>sm_usage := v\<rparr>)))))))))))))"

definition data_of :: "string \<Rightarrow> string option" where
  "data_of line = (if str_startswith line ''data:'' then Some (str_strip (drop 5 line)) else None)"

fun take_lines :: "'w endpoint \<Rightarrow> string option \<Rightarrow> string list \<Rightarrow> unit assembly" where
  "take_lines T broken [] = (case broken of None \<Rightarrow> ret () | Some e \<Rightarrow> raise (GE_transport e))"
| "take_lines T broken (l # ls) =
     (case data_of l of
        None \<Rightarrow> take_lines T broken ls
      | Some raw \<Rightarrow>
          if raw = ''[DONE]'' then ret ()
          else (case ep_loads T raw of
                  None \<Rightarrow> raise (GE_transient ''LLM stream returned malformed JSON'')
                | Some chunk \<Rightarrow> mseq (take_chunk chunk) (take_lines T broken ls)))"

definition finished_call :: "'w endpoint \<Rightarrow> call_parts \<Rightarrow> exn + tool_call" where
  "finished_call T c =
     and_then (load_arguments T (JStr (cp_arguments c))) (\<lambda>a.
       Inr \<lparr>tc_id = cp_id c, tc_name = cp_name c, tc_arguments = a\<rparr>)"

fun finished_calls :: "'w endpoint \<Rightarrow> call_parts list \<Rightarrow> exn + tool_call list" where
  "finished_calls T [] = Inr []"
| "finished_calls T (c # cs) =
     and_then (finished_call T c) (\<lambda>x. and_then (finished_calls T cs) (\<lambda>xs. Inr (x # xs)))"

definition optional_text :: "string \<Rightarrow> string option" where
  "optional_text t = (if t = [] then None else Some t)"

definition finished_stream :: "'w endpoint \<Rightarrow> string \<Rightarrow> stream \<Rightarrow> exn + llm_response" where
  "finished_stream T model st =
     and_then (finished_calls T (map snd (sm_calls st))) (\<lambda>calls.
       Inr \<lparr>lr_content = optional_text (concat (sm_content st)), lr_tool_calls = calls,
            lr_finish_reason = sm_finish_reason st, lr_usage = sm_usage st, lr_model = model,
            lr_provider_fields =
              (if sm_reasoning st = [] then [] else [(''reasoning'', JStr (concat (sm_reasoning st)))])
              @ (if sm_reasoning_content st = [] then []
                 else [(''reasoning_content'', JStr (concat (sm_reasoning_content st)))])
              @ (if sm_details st = [] then [] else [(''reasoning_details'', JList (sm_details st))])\<rparr>)"

section \<open>Completions\<close>

definition chosen_model :: "'w endpoint \<Rightarrow> string option \<Rightarrow> string" where
  "chosen_model T model = (case model of None \<Rightarrow> ep_model T | Some m \<Rightarrow> if m = [] then ep_model T else m)"

definition base_payload :: "'w endpoint \<Rightarrow> string \<Rightarrow> provider \<Rightarrow> llm_message list \<Rightarrow> tool_spec list \<Rightarrow> dict \<Rightarrow> dict" where
  "base_payload T model pv ms tools settings =
     [(''model'', JStr model),
      (''messages'', JList (map (\<lambda>m. JObj (message_to_openai (ep_dumps T) (Some (message_fields pv)) m)) ms))]
     @ settings
     @ (if tools = [] then [] else [(''tools'', JList (map (\<lambda>t. JObj (spec_to_openai t)) tools))])"

text \<open>The request in its adapted form, for the settings of a complete or of a streamed response.\<close>

definition prepare ::
  "'w endpoint \<Rightarrow> string \<Rightarrow> llm_message list \<Rightarrow> tool_spec list \<Rightarrow> gateway_options option \<Rightarrow> dict \<Rightarrow> exn + adapted_request" where
  "prepare T model ms tools opts settings =
     and_then (resolve_provider (ep_valid_ipv6 T) (ep_base_url T) model (ep_provider T)) (\<lambda>pv.
       adapt_request (ep_valid_ipv6 T) (ep_base_url T) (ep_provider T) model opts
         (base_payload T model pv ms tools settings))"

definition complete_settings :: "rat \<Rightarrow> dict" where
  "complete_settings temperature = [(''temperature'', JFloat temperature)]"

definition stream_settings :: dict where
  "stream_settings = [(''temperature'', JFloat 0), (''stream'', JBool True),
     (''stream_options'', JObj [(''include_usage'', JBool True)])]"

definition capability_key :: "adapted_request \<Rightarrow> string \<Rightarrow> capability_key" where
  "capability_key ad model = (ad_provider ad, model, ad_reasoning_fields ad, ad_effective_effort ad)"

text \<open>The latest entry of a key counts.\<close>

definition remember :: "capability_key \<Rightarrow> bool \<Rightarrow> 'w gateway \<Rightarrow> 'w gateway" where
  "remember k b s = s\<lparr>gw_reasoning_capable := (k, b) # gw_reasoning_capable s\<rparr>"

definition select_adapted_payload :: "adapted_request \<Rightarrow> string \<Rightarrow> 'w gateway \<Rightarrow> dict \<times> string list" where
  "select_adapted_payload ad model s =
     (if map_of (gw_reasoning_capable s) (capability_key ad model) = Some False
      then (ad_fallback_payload ad, []) else (ad_payload ad, ad_reasoning_fields ad))"

definition read_answer :: "'w endpoint \<Rightarrow> tool_spec list \<Rightarrow> dict \<Rightarrow> http_response \<Rightarrow> ('w, llm_response) gop" where
  "read_answer T tools payload r s =
     (case ep_loads T (hr_text r) of
        None \<Rightarrow> (Inl (GE_python (PyError ''JSONDecodeError'' (hr_text r))), s)
      | Some body \<Rightarrow>
          (map_sum GE_python (ensure_usage T payload) (parse_response T body),
           if tools = [] then s else s\<lparr>gw_tool_capable := Some True\<rparr>))"

definition complete ::
  "'w endpoint \<Rightarrow> llm_message list \<Rightarrow> tool_spec list \<Rightarrow> string option \<Rightarrow> gateway_options option \<Rightarrow> rat \<Rightarrow> nat
     \<Rightarrow> ('w, llm_response) gop" where
  "complete T ms tools model opts temperature max_retries s =
     (if tools \<noteq> [] \<and> gw_tool_capable s = Some False
      then (Inl (GE_no_tools (''model '' @ str_repr (chosen_model T model)
              @ '' was already found to not support tool-calling in a prior call'')), s)
      else
        case prepare T (chosen_model T model) ms tools opts (complete_settings temperature) of
          Inl e \<Rightarrow> (Inl (GE_python e), s)
        | Inr ad \<Rightarrow>
            let key = capability_key ad (chosen_model T model);
                (payload, controls) = select_adapted_payload ad (chosen_model T model) s
            in case post_with_retry T max_retries controls payload s of
                 (Inr r, s1) \<Rightarrow> read_answer T tools payload r (if controls = [] then s1 else remember key True s1)
               | (Inl e, s1) \<Rightarrow>
                   (case e of
                      GE_no_reasoning m \<Rightarrow>
                        (case post_with_retry T max_retries [] (ad_fallback_payload ad) (remember key False s1) of
                           (Inr r, s2) \<Rightarrow> read_answer T tools (ad_fallback_payload ad) r s2
                         | (Inl e', s2) \<Rightarrow> (Inl e', s2))
                    | _ \<Rightarrow> (Inl e, s1)))"

text \<open>One streamed request; the text it has passed on stays passed on when it fails.\<close>

definition complete_stream_once :: "'w endpoint \<Rightarrow> string \<Rightarrow> string list \<Rightarrow> dict \<Rightarrow> ('w, llm_response) gop" where
  "complete_stream_once T model controls payload s =
     (let (answer, w) = ep_stream T payload (gw_world s); s1 = s\<lparr>gw_world := w, gw_sent := gw_sent s @ [payload]\<rparr> in
      case answer of
        Inl e \<Rightarrow> (Inl (GE_transport e), s1)
      | Inr r \<Rightarrow>
          if hr_status r \<noteq> 200
          then (Inl (if hr_status r \<in> RETRYABLE_STATUS_CODES
                     then GE_transient (''status '' @ str_of_int (hr_status r) @ '': '' @ take 500 (hr_text r))
                     else if looks_like_reasoning_unsupported (hr_status r) (hr_text r) controls
                     then GE_no_reasoning (take 500 (hr_text r))
                     else GE_failed (''LLM streaming request failed with status '' @ str_of_int (hr_status r) @ '': ''
                            @ take 500 (hr_text r))), s1)
          else
            let (done_reading, st) = take_lines T (hs_cut r) (hs_lines r) empty_stream;
                s2 = s1\<lparr>gw_deltas := gw_deltas s1 @ sm_content st\<rparr>
            in (and_then done_reading (\<lambda>_. map_sum GE_python (ensure_usage T payload) (finished_stream T model st)), s2))"

function stream_from ::
  "'w endpoint \<Rightarrow> nat \<Rightarrow> string \<Rightarrow> adapted_request \<Rightarrow> string list \<Rightarrow> dict \<Rightarrow> bool \<Rightarrow> nat \<Rightarrow> 'w gateway
     \<Rightarrow> (gateway_error + llm_response) \<times> 'w gateway" where
  "stream_from T max_retries model ad controls payload fell_back attempt s =
     (case complete_stream_once T model controls payload s of
        (Inr r, s1) \<Rightarrow> (Inr r, if controls = [] then s1 else remember (capability_key ad model) True s1)
      | (Inl e, s1) \<Rightarrow>
          (case e of
             GE_no_reasoning m \<Rightarrow>
               if fell_back then (Inl e, s1)
               else stream_from T max_retries model ad [] (ad_fallback_payload ad) True attempt
                      (remember (capability_key ad model) False s1)
           | GE_transport m \<Rightarrow>
               if max_retries \<le> attempt
               then (Inl (GE_transient (''LLM streaming request failed after '' @ attempts_text attempt @ '': '' @ m)), s1)
               else stream_from T max_retries model ad controls payload fell_back (Suc attempt) (backoff T attempt s1)
           | GE_transient m \<Rightarrow>
               if max_retries \<le> attempt
               then (Inl (GE_transient (''LLM streaming request failed after '' @ attempts_text attempt @ '': '' @ m)), s1)
               else stream_from T max_retries model ad controls payload fell_back (Suc attempt) (backoff T attempt s1)
           | _ \<Rightarrow> (Inl e, s1)))"
  by pat_completeness auto

termination
  by (relation "measure (\<lambda>(T, m, model, ad, c, p, fell_back, attempt, s). (m - attempt) + (if fell_back then 0 else 1))")
    auto

declare stream_from.simps [simp del]

definition complete_stream ::
  "'w endpoint \<Rightarrow> llm_message list \<Rightarrow> tool_spec list \<Rightarrow> string option \<Rightarrow> gateway_options option \<Rightarrow> nat
     \<Rightarrow> ('w, llm_response) gop" where
  "complete_stream T ms tools model opts max_retries s =
     (case prepare T (chosen_model T model) ms tools opts stream_settings of
        Inl e \<Rightarrow> (Inl (GE_python e), s)
      | Inr ad \<Rightarrow>
          let (payload, controls) = select_adapted_payload ad (chosen_model T model) s
          in stream_from T max_retries (chosen_model T model) ad controls payload
               (controls = [] \<and> ad_reasoning_fields ad \<noteq> []) 0 s)"

end
