(* ===== verification/GatewayRuns.thy ===== *)
theory GatewayRuns
  imports Gateway
begin

text \<open>
  What the gateway guarantees: an adapted request keeps the request's own fields, the attempts are
  bounded and end in an LLMError or an answer, an answer always has a cost, and a stream assembles
  to the texts and calls it was cut from, in whatever pieces and order they come.
\<close>

section \<open>Adapting\<close>

lemma dict_get_pop [simp]: "dict_get (dict_pop k d) k' = (if k' = k then None else dict_get d k')"
  by (induction d) (auto simp: dict_pop_def)

lemma dict_get_limit:
  "k \<notin> {''max_tokens'', ''max_completion_tokens''} \<Longrightarrow> dict_get (apply_output_limit pv n d) k = dict_get d k"
  by (cases pv) auto

lemma dict_get_extra: "k \<in> set CORE_REQUEST_FIELDS \<Longrightarrow> dict_get (merge_extra extra d) k = dict_get d k"
  unfolding merge_extra_def by (induction extra arbitrary: d) auto

text \<open>The reasoning controls are the fields an adapter reports, and no others change.\<close>

lemma nemotron_budget_fields:
  "nemotron_budget model b p t = (p', t') \<Longrightarrow> k \<notin> {''nvext'', ''thinking_token_budget'', ''max_thinking_tokens''}
   \<Longrightarrow> dict_get p' k = dict_get p k"
  "nemotron_budget model b p t = (p', t') \<Longrightarrow> dict_get p' k = None \<Longrightarrow> dict_get p k = None"
  by (auto simp: nemotron_budget_def Let_def split: if_splits)

lemma nvidia_template_fields:
  assumes "nvidia_template p model opts = (p', t)"
  shows "k \<notin> {''nvext'', ''thinking_token_budget'', ''max_thinking_tokens''} \<Longrightarrow> dict_get p' k = dict_get p k"
    and "dict_get p' k = None \<Longrightarrow> dict_get p k = None"
proof -
  have "p' = p \<or> (\<exists>b t0. nemotron_budget model b p t0 = (p', t))"
    using assms by (auto simp: nvidia_template_def Let_def split: if_splits option.splits)
  then consider "p' = p" | b t0 where "nemotron_budget model b p t0 = (p', t)" by blast
  then have "(k \<notin> {''nvext'', ''thinking_token_budget'', ''max_thinking_tokens''} \<longrightarrow> dict_get p' k = dict_get p k)
    \<and> (dict_get p' k = None \<longrightarrow> dict_get p k = None)"
    by cases (use nemotron_budget_fields in simp_all)
  then show "k \<notin> {''nvext'', ''thinking_token_budget'', ''max_thinking_tokens''} \<Longrightarrow> dict_get p' k = dict_get p k"
    and "dict_get p' k = None \<Longrightarrow> dict_get p k = None"
    by simp_all
qed

lemma nvidia_fields_missing:
  assumes "k \<in> {''nvext'', ''thinking_token_budget'', ''max_thinking_tokens''}" and "k \<notin> set (nvidia_fields d)"
  shows "dict_get d k = None"
proof -
  have "\<not> dict_has d k" using assms unfolding nvidia_fields_def set_simps(2) set_filter by blast
  then show ?thesis by (simp add: dict_has_def map_of_eq_None_iff)
qed

lemma nvidia_unchanged:
  assumes "nvidia_reasoning p model opts = (p', cs, e)" and "k \<notin> set cs"
  shows "dict_get p' k = dict_get p k"
proof -
  obtain p1 t where t: "nvidia_template p model opts = (p1, t)" by fastforce
  show ?thesis
  proof (cases "cs = []")
    case True
    with assms(1) t show ?thesis by (auto simp: nvidia_reasoning_def nvidia_fields_def Let_def split: if_splits)
  next
    case False
    with assms(1) t have p': "p' = dict_set ''chat_template_kwargs'' (JObj t) p1" "cs = nvidia_fields p'"
      by (auto simp: nvidia_reasoning_def Let_def split: if_splits)
    then have k: "k \<noteq> ''chat_template_kwargs''" using assms(2) by (auto simp: nvidia_fields_def)
    have missing: "k \<in> {''nvext'', ''thinking_token_budget'', ''max_thinking_tokens''} \<Longrightarrow> dict_get p' k = None"
      by (erule nvidia_fields_missing) (use assms(2) p'(2) in simp)
    from k have "dict_get p' k = dict_get p1 k" using p' by simp
    with missing nvidia_template_fields [OF t, of k] show ?thesis by fastforce
  qed
qed

lemma reasoning_fields:
  assumes "apply_reasoning pv p model opts = (p', cs, e)" and "k \<notin> set cs"
  shows "dict_get p' k = dict_get p k"
proof -
  have openai: ?thesis if "openai_reasoning p model opts = (p', cs, e)"
    using that assms(2) by (auto simp: openai_reasoning_def split: option.splits if_splits)
  have openrouter: ?thesis if "openrouter_reasoning p opts = (p', cs, e)"
    using that assms(2) by (auto simp: openrouter_reasoning_def Let_def split: option.splits if_splits)
  have ollama: ?thesis if "ollama_reasoning p model opts = (p', cs, e)"
    using that assms(2) by (auto simp: ollama_reasoning_def Let_def split: option.splits)
  from openai openrouter ollama nvidia_unchanged assms show ?thesis by (cases pv) auto
qed

definition CONTROLS :: "string list" where
  "CONTROLS = [''reasoning_effort'', ''reasoning'', ''chat_template_kwargs'', ''thinking_token_budget'',
     ''max_thinking_tokens'', ''nvext'']"

lemma controls_not_core: "set CONTROLS \<inter> set CORE_REQUEST_FIELDS = {}"
  by code_simp

lemma reasoning_names:
  assumes "apply_reasoning pv p model opts = (p', cs, e)"
  shows "set cs \<subseteq> set CONTROLS"
proof (cases "pv = PV_nvidia")
  case True
  have "set (nvidia_fields d) \<subseteq> set CONTROLS" for d
    by (simp add: nvidia_fields_def CONTROLS_def)
  with True assms show ?thesis
    by (auto simp: nvidia_reasoning_def Let_def split: if_splits prod.splits)
next
  case False
  with assms have "cs \<in> {[], [''reasoning_effort''], [''reasoning'']}"
    by (cases pv) (auto simp: openai_reasoning_def openrouter_reasoning_def ollama_reasoning_def Let_def
      split: option.splits if_splits)
  then show ?thesis by (auto simp: CONTROLS_def)
qed

section \<open>Attempts\<close>

lemma send_post_simps:
  "send_post T p s = (r, s1) \<Longrightarrow> gw_sent s1 = gw_sent s @ [p] \<and> gw_reasoning_capable s1 = gw_reasoning_capable s"
  by (auto simp: send_post_def split: prod.splits)

lemma backoff_sent [simp]: "gw_sent (backoff T a s) = gw_sent s"
  by (simp add: backoff_def split: prod.split)

text \<open>How the attempts may end: an error of the transport is retried or reported as one of the LLM.\<close>

definition ends_well :: "string list \<Rightarrow> gateway_error + 'a \<Rightarrow> bool" where
  "ends_well controls r \<longleftrightarrow>
     (case r of
        Inl (GE_transport m) \<Rightarrow> False | Inl (GE_no_reasoning m) \<Rightarrow> controls \<noteq> [] | Inl (GE_python e) \<Rightarrow> False | _ \<Rightarrow> True)"

lemma post_from_step:
  "\<exists>s1. gw_sent s1 = gw_sent s @ [p]
     \<and> ((\<exists>r. post_from T m cs p a s = (r, s1) \<and> ends_well cs r)
        \<or> a < m \<and> post_from T m cs p a s = post_from T m cs p (Suc a) s1)"
proof -
  obtain r s1 where sp: "send_post T p s = (r, s1)" by fastforce
  note sent = conjunct1 [OF send_post_simps [OF sp]]
  note step = post_from.simps [of T m cs p a s, unfolded sp]
  show ?thesis
  proof (cases r)
    case (Inl e)
    show ?thesis
    proof (cases "m \<le> a")
      case True
      with Inl sent show ?thesis by (intro exI [of _ s1]) (simp add: step ends_well_def)
    next
      case False
      with Inl sent show ?thesis by (intro exI [of _ "backoff T a s1"]) (simp add: step)
    qed
  next
    case (Inr h)
    have controls: "looks_like_reasoning_unsupported x t cs \<Longrightarrow> cs \<noteq> []" for x t
      by (auto simp: looks_like_reasoning_unsupported_def)
    let ?refused = "dict_has p ''tools'' \<and> looks_like_tool_unsupported (hr_status h) (hr_text h)
      \<or> looks_like_reasoning_unsupported (hr_status h) (hr_text h) cs"
    show ?thesis
    proof (cases "hr_status h \<noteq> 200 \<and> \<not> ?refused \<and> hr_status h \<in> RETRYABLE_STATUS_CODES \<and> a < m")
      case True
      then have "post_from T m cs p a s = post_from T m cs p (Suc a) (backoff T a s1)"
        by (auto simp: step Inr)
      with True sent show ?thesis by (intro exI [of _ "backoff T a s1"]) simp
    next
      case False
      have "\<exists>r' s2. post_from T m cs p a s = (r', s2) \<and> gw_sent s2 = gw_sent s1 \<and> ends_well cs r'"
        using False controls by (auto simp: step Inr ends_well_def)
      with sent show ?thesis by auto
    qed
  qed
qed

lemma post_from_ends:
  "post_from T m cs p a s = (r, s') \<Longrightarrow>
   ends_well cs r \<and> (\<exists>n. n \<le> Suc (m - a) \<and> gw_sent s' = gw_sent s @ replicate n p)"
proof (induction "m - a" arbitrary: a s)
  case 0
  with post_from_step [of s p T m cs a] show ?case by (force intro: exI [of _ 1])
next
  case (Suc k)
  from post_from_step [of s p T m cs a] obtain s1 where s1: "gw_sent s1 = gw_sent s @ [p]"
    and step: "post_from T m cs p a s = (r, s') \<and> s1 = s' \<and> ends_well cs r \<or> post_from T m cs p (Suc a) s1 = (r, s')"
    using Suc.prems by auto
  from step show ?case
  proof
    assume "post_from T m cs p a s = (r, s') \<and> s1 = s' \<and> ends_well cs r"
    with s1 show ?thesis by (auto intro: exI [of _ 1])
  next
    assume "post_from T m cs p (Suc a) s1 = (r, s')"
    moreover have "k = m - Suc a" using Suc.hyps(2) by simp
    ultimately obtain n where "ends_well cs r" "n \<le> Suc (m - Suc a)" "gw_sent s' = gw_sent s1 @ replicate n p"
      using Suc.hyps(1) by blast
    with s1 Suc.hyps(2) show ?thesis by (intro conjI exI [of _ "Suc n"]) auto
  qed
qed

lemma post_ends:
  assumes "post_with_retry T m cs p s = (r, s')"
  shows "ends_well cs r" and "length (gw_sent s') \<le> length (gw_sent s) + Suc m"
  using post_from_ends [OF assms [unfolded post_with_retry_def]] by auto

lemma remember_sent [simp]: "gw_sent (remember k b s) = gw_sent s"
  by (simp add: remember_def)

lemma read_answer_sent [simp]: "gw_sent (snd (read_answer T tools p r s)) = gw_sent s"
  by (simp add: read_answer_def split: option.split)

lemma read_answer_ends:
  "fst (read_answer T tools p r s) = Inl e \<Longrightarrow> \<exists>x. e = GE_python x"
  by (cases "ep_loads T (hr_text r)"; cases "parse_response T (the (ep_loads T (hr_text r)))")
    (auto simp: read_answer_def)

lemma complete_ends:
  "length (gw_sent (snd (complete T ms tools model opts temp m s))) \<le> length (gw_sent s) + 2 * Suc m
   \<and> fst (complete T ms tools model opts temp m s) \<notin> range (\<lambda>x. Inl (GE_transport x)) \<union> range (\<lambda>x. Inl (GE_no_reasoning x))"
proof (cases "tools \<noteq> [] \<and> gw_tool_capable s = Some False")
  case True
  then show ?thesis by (auto simp: complete_def)
next
  case False
  note top = this
  show ?thesis
  proof (cases "prepare T (chosen_model T model) ms tools opts (complete_settings temp)")
    case (Inl e)
    with top show ?thesis by (auto simp: complete_def)
  next
    case (Inr ad)
    obtain p cs where sel: "select_adapted_payload ad (chosen_model T model) s = (p, cs)" by fastforce
    obtain r s1 where one: "post_with_retry T m cs p s = (r, s1)" by fastforce
    obtain r2 s2 where two: "post_with_retry T m [] (ad_fallback_payload ad)
        (remember (capability_key ad (chosen_model T model)) False s1) = (r2, s2)" by fastforce
    note b1 = post_ends [OF one] and b2 = post_ends [OF two]
    have ans: "fst (read_answer T tools q h s3) \<noteq> Inl (GE_transport x)" "fst (read_answer T tools q h s3) \<noteq> Inl (GE_no_reasoning x)"
      for q h s3 x using read_answer_ends by blast+
    show ?thesis
      unfolding complete_def using top Inr sel one two b1 b2 ans
      by (cases r; cases r2) (auto simp: ends_well_def split: gateway_error.splits)
  qed
qed

lemma stream_once_sent:
  "complete_stream_once T model cs p s = (r, s') \<Longrightarrow> gw_sent s' = gw_sent s @ [p]"
  by (auto simp: complete_stream_once_def Let_def split: prod.splits sum.splits if_splits)

text \<open>Reading a stream raises what Python raises, a broken connection and malformed JSON.\<close>

definition raises_python :: "'a assembly \<Rightarrow> bool" where
  "raises_python m \<longleftrightarrow> (\<forall>s e. fst (m s) = Inl e \<longrightarrow> (\<exists>x. e = GE_python x))"

lemma raises_python_basic [intro]:
  "raises_python (ret a)" "raises_python (modify f)" "raises_python (lifted r)" "raises_python (raise (GE_python x))"
  by (cases r; auto simp: raises_python_def monad_defs lifted_def)+

lemma raises_python_mbind [intro]:
  assumes "raises_python m" and "\<And>a. raises_python (g a)"
  shows "raises_python (mbind m g)"
  unfolding raises_python_def
proof (intro allI impI)
  fix s e
  assume e: "fst (mbind m g s) = Inl e"
  obtain r s' where m: "m s = (r, s')" by fastforce
  with e assms(1) have "(\<exists>x. e = GE_python x) \<or> (\<exists>a. fst (g a s') = Inl e)"
    by (cases r) (auto simp: mbind_def raises_python_def split: sum.splits dest: spec [of _ s])
  with assms(2) show "\<exists>x. e = GE_python x" by (auto simp: raises_python_def)
qed

lemma raises_python_for_each [intro]: "(\<And>x. raises_python (g x)) \<Longrightarrow> raises_python (for_each xs g)"
  by (induction xs) auto

lemma take_chunk_raises: "raises_python (take_chunk j)"
  unfolding take_chunk_def take_fragment_def add_piece_def Let_def
  by (intro raises_python_basic raises_python_mbind raises_python_for_each | simp split: if_split | rule conjI impI)+

lemma take_lines_raises: "fst (take_lines T b ls st) \<noteq> Inl (GE_no_reasoning x)"
proof (induction ls arbitrary: st)
  case Nil
  then show ?case by (simp add: monad_defs split: option.split)
next
  case (Cons l ls)
  show ?case
  proof (cases "\<exists>raw chunk. data_of l = Some raw \<and> raw \<noteq> ''[DONE]'' \<and> ep_loads T raw = Some chunk")
    case True
    then obtain raw chunk where l: "data_of l = Some raw" "raw \<noteq> ''[DONE]''" "ep_loads T raw = Some chunk" by blast
    obtain r st' where "take_chunk chunk st = (r, st')" by fastforce
    moreover have "fst (take_chunk chunk st) \<noteq> Inl (GE_no_reasoning x)"
      using take_chunk_raises [of chunk] by (auto simp: raises_python_def)
    ultimately show ?thesis using l Cons.IH by (cases r) (auto simp: mbind_def)
  next
    case False
    with Cons.IH show ?thesis by (auto simp: monad_defs split: option.split)
  qed
qed

lemma stream_once_reasoning:
  "fst (complete_stream_once T model [] p s) \<noteq> Inl (GE_no_reasoning x)"
proof -
  obtain answer w where a: "ep_stream T p (gw_world s) = (answer, w)" by fastforce
  show ?thesis
  proof (cases "\<exists>r. answer = Inr r \<and> hr_status r = 200")
    case True
    then obtain r where r: "answer = Inr r" "hr_status r = 200" by blast
    obtain q st where t: "take_lines T (hs_cut r) (hs_lines r) empty_stream = (q, st)" by fastforce
    with take_lines_raises [of T "hs_cut r" "hs_lines r" empty_stream x] a r show ?thesis
      by (cases q; cases "finished_stream T model st")
        (auto simp: complete_stream_once_def and_then_def)
  next
    case False
    with a show ?thesis
      by (cases answer) (auto simp: complete_stream_once_def looks_like_reasoning_unsupported_def Let_def)
  qed
qed

lemma stream_from_ends:
  "fell_back \<longrightarrow> cs = [] \<Longrightarrow>
   length (gw_sent (snd (stream_from T m model ad cs p fell_back a s)))
     \<le> length (gw_sent s) + Suc (m - a) + (if fell_back then 0 else 1)
   \<and> fst (stream_from T m model ad cs p fell_back a s)
        \<notin> range (\<lambda>x. Inl (GE_transport x)) \<union> range (\<lambda>x. Inl (GE_no_reasoning x))"
proof (induction T m model ad cs p fell_back a s rule: stream_from.induct)
  case (1 T m model ad cs p fell_back a s)
  obtain r s1 where one: "complete_stream_once T model cs p s = (r, s1)" by fastforce
  note sent = stream_once_sent [OF one]
  note step = stream_from.simps [of T m model ad cs p fell_back a s, unfolded one]
  show ?case
  proof (cases r)
    case (Inr x)
    with sent show ?thesis by (auto simp: step)
  next
    case (Inl e)
    have no: "fell_back \<Longrightarrow> e \<noteq> GE_no_reasoning x" for x
      using stream_once_reasoning [of T model p s x] one 1(4) Inl by auto
    show ?thesis
    proof (cases e)
      case (GE_transport x)
      with Inl sent 1(3) [OF one [symmetric] Inl GE_transport] 1(4) show ?thesis
        by (auto simp: step)
    next
      case (GE_transient x)
      with Inl sent 1(1) [OF one [symmetric] Inl GE_transient] 1(4) show ?thesis
        by (auto simp: step)
    next
      case (GE_no_reasoning x)
      with Inl sent no 1(2) [OF one [symmetric] Inl GE_no_reasoning] show ?thesis
        by (auto simp: step)
    qed (use Inl sent in \<open>auto simp: step\<close>)
  qed
qed

lemma complete_stream_ends:
  "length (gw_sent (snd (complete_stream T ms tools model opts m s))) \<le> length (gw_sent s) + m + 2
   \<and> fst (complete_stream T ms tools model opts m s)
        \<notin> range (\<lambda>x. Inl (GE_transport x)) \<union> range (\<lambda>x. Inl (GE_no_reasoning x))"
proof (cases "prepare T (chosen_model T model) ms tools opts stream_settings")
  case (Inl e)
  then show ?thesis by (auto simp: complete_stream_def)
next
  case (Inr ad)
  obtain p cs where sel: "select_adapted_payload ad (chosen_model T model) s = (p, cs)" by fastforce
  let ?fell = "cs = [] \<and> ad_reasoning_fields ad \<noteq> []"
  have eq: "complete_stream T ms tools model opts m s = stream_from T m (chosen_model T model) ad cs p ?fell 0 s"
    using Inr sel by (simp add: complete_stream_def)
  show ?thesis
    unfolding eq using stream_from_ends [of ?fell cs T m "chosen_model T model" ad p 0 s] by (auto split: if_splits)
qed

section \<open>Costs\<close>

lemma estimated_tokens_positive: "0 < estimated_tokens n"
  by (simp add: estimated_tokens_def)

lemma ensure_usage_positive [simp]: "0 < u_total_tokens (lr_usage (ensure_usage T p r))"
  by (simp add: ensure_usage_def Let_def add_pos_pos estimated_tokens_positive)

lemma read_answer_cost:
  assumes "read_answer T tools p h s = (Inr r, s')"
  shows "0 < u_total_tokens (lr_usage r)"
proof -
  obtain body where b: "ep_loads T (hr_text h) = Some body" using assms by (cases "ep_loads T (hr_text h)") (auto simp: read_answer_def)
  then show ?thesis using assms by (cases "parse_response T body") (auto simp: read_answer_def)
qed

lemma stream_once_cost:
  assumes "complete_stream_once T model cs p s = (Inr r, s')"
  shows "0 < u_total_tokens (lr_usage r)"
proof -
  obtain x where "r = ensure_usage T p x"
    using assms by (auto simp: complete_stream_once_def and_then_def Let_def map_sum_def
      split: prod.splits sum.splits if_splits)
  then show ?thesis by simp
qed

lemma stream_from_cost:
  "stream_from T m model ad cs p fell_back a s = (Inr r, s') \<Longrightarrow> 0 < u_total_tokens (lr_usage r)"
proof (induction T m model ad cs p fell_back a s rule: stream_from.induct)
  case (1 T m model ad cs p fell_back a s)
  obtain q s1 where one: "complete_stream_once T model cs p s = (q, s1)" by fastforce
  note step = stream_from.simps [of T m model ad cs p fell_back a s, unfolded one]
  show ?case
  proof (cases q)
    case (Inr x)
    with 1(4) one stream_once_cost show ?thesis by (auto simp: step)
  next
    case (Inl e)
    show ?thesis
      using 1(4) 1(1-3) [OF one [symmetric] Inl] Inl
      by (cases e) (auto simp: step split: if_splits)
  qed
qed

section \<open>Streams\<close>

text \<open>What a stream is cut into, as the chunks write it, and what it assembles to.\<close>

datatype piece = Content string | Reasoning string | Call nat string string string | Finish string

definition delta_chunk :: "(string \<times> json) list \<Rightarrow> json" where
  "delta_chunk d = JObj [(''choices'', JList [JObj [(''index'', JInt 0), (''delta'', JObj d)]])]"

fun chunk_of :: "piece \<Rightarrow> json" where
  "chunk_of (Content t) = delta_chunk [(''content'', JStr t)]"
| "chunk_of (Reasoning t) = delta_chunk [(''reasoning'', JStr t)]"
| "chunk_of (Call i a n g) = delta_chunk [(''tool_calls'', JList [JObj
     [(''index'', JInt (int i)), (''id'', JStr a), (''function'', JObj [(''name'', JStr n), (''arguments'', JStr g)])]])]"
| "chunk_of (Finish r) = JObj [(''choices'', JList [JObj [(''delta'', JObj []), (''finish_reason'', JStr r)]])]"

definition contents :: "piece list \<Rightarrow> string list" where
  "contents qs = concat (map (\<lambda>q. case q of Content t \<Rightarrow> if t = [] then [] else [t] | _ \<Rightarrow> []) qs)"

definition reasonings :: "piece list \<Rightarrow> string list" where
  "reasonings qs = concat (map (\<lambda>q. case q of Reasoning t \<Rightarrow> if t = [] then [] else [t] | _ \<Rightarrow> []) qs)"

definition call_indices :: "piece list \<Rightarrow> nat list" where
  "call_indices qs = concat (map (\<lambda>q. case q of Call i a n g \<Rightarrow> [i] | _ \<Rightarrow> []) qs)"

text \<open>The indices in the order of their first piece, and the pieces of one of them put together.\<close>

definition call_order :: "piece list \<Rightarrow> nat list" where
  "call_order qs = rev (remdups (rev (call_indices qs)))"

definition joined_call :: "piece list \<Rightarrow> nat \<Rightarrow> call_parts" where
  "joined_call qs i =
     (let mine = concat (map (\<lambda>q. case q of Call j a n g \<Rightarrow> if j = i then [(a, n, g)] else [] | _ \<Rightarrow> []) qs)
      in \<lparr>cp_id = concat (map fst mine), cp_name = concat (map (fst \<circ> snd) mine),
          cp_arguments = concat (map (snd \<circ> snd) mine)\<rparr>)"

definition last_finish :: "piece list \<Rightarrow> string" where
  "last_finish qs = foldl (\<lambda>r q. case q of Finish f \<Rightarrow> if f = [] then r else f | _ \<Rightarrow> r) ''stop'' qs"

definition assembled :: "piece list \<Rightarrow> stream" where
  "assembled qs = empty_stream\<lparr>
     sm_content := contents qs, sm_reasoning := reasonings qs,
     sm_calls := map (\<lambda>i. (JInt (int i), joined_call qs i)) (call_order qs), sm_finish_reason := last_finish qs\<rparr>"

lemma py_eq_int [simp]: "py_eq (JInt i) (JInt j) \<longleftrightarrow> i = j"
  by auto

declare py_eq.simps [simp del]

lemma update_call_twice:
  "update_call (JInt i) f (update_call (JInt i) g cs) = update_call (JInt i) (\<lambda>c. f (g c)) cs"
  by (induction cs) auto

lemma update_call_map:
  "distinct is \<Longrightarrow> update_call (JInt (int i)) f (map (\<lambda>j. (JInt (int j), c j)) is)
     = map (\<lambda>j. (JInt (int j), if j = i then f (c j) else c j)) is
       @ (if i \<in> set is then [] else [(JInt (int i), f \<lparr>cp_id = [], cp_name = [], cp_arguments = []\<rparr>)])"
  by (induction "is") (auto intro: map_cong)

lemmas chunk_defs = take_chunk_def take_fragment_def add_piece_def delta_chunk_def and_then_def as_object_def
  first_item_def get_truthy_def text_piece_def truthy_object_def as_text_def items_def reasoning_piece_def
  hashable_def lifted_def monad_defs

lemma take_content:
  "take_chunk (chunk_of (Content t)) st = (Inr (), st\<lparr>sm_content := sm_content st @ (if t = [] then [] else [t])\<rparr>)"
  by (simp add: chunk_defs)

lemma take_reasoning:
  "take_chunk (chunk_of (Reasoning t)) st = (Inr (), st\<lparr>sm_reasoning := sm_reasoning st @ (if t = [] then [] else [t])\<rparr>)"
  by (simp add: chunk_defs)

lemma take_finish:
  "take_chunk (chunk_of (Finish r)) st = (Inr (), if r = [] then st else st\<lparr>sm_finish_reason := r\<rparr>)"
  by (simp add: chunk_defs)

definition add_parts :: "string \<Rightarrow> string \<Rightarrow> string \<Rightarrow> call_parts \<Rightarrow> call_parts" where
  "add_parts a n g c =
     cp_arguments_update (\<lambda>x. x @ g) (cp_name_update (\<lambda>x. x @ n) (cp_id_update (\<lambda>x. x @ a) c))"

lemma take_call:
  "take_chunk (chunk_of (Call i a n g)) st
   = (Inr (), st\<lparr>sm_calls := update_call (JInt (int i)) (add_parts a n g) (sm_calls st)\<rparr>)"
  unfolding add_parts_def by (simp add: chunk_defs update_call_twice)

lemma pieces_snoc:
  "contents (qs @ [q]) = contents qs @ contents [q]" "reasonings (qs @ [q]) = reasonings qs @ reasonings [q]"
  "call_indices (qs @ [q]) = call_indices qs @ call_indices [q]"
  "last_finish (qs @ [q]) = (case q of Finish f \<Rightarrow> if f = [] then last_finish qs else f | _ \<Rightarrow> last_finish qs)"
  by (simp_all add: contents_def reasonings_def call_indices_def last_finish_def split: piece.split)

lemma joined_call_snoc:
  "joined_call (qs @ [q]) j =
     (case q of Call i a n g \<Rightarrow> if j = i then add_parts a n g (joined_call qs j) else joined_call qs j | _ \<Rightarrow> joined_call qs j)"
  by (auto simp: joined_call_def add_parts_def Let_def split: piece.split)

lemma joined_call_none: "i \<notin> set (call_indices qs) \<Longrightarrow> joined_call qs i = \<lparr>cp_id = [], cp_name = [], cp_arguments = []\<rparr>"
  by (induction qs rule: rev_induct)
    (auto simp: joined_call_snoc pieces_snoc call_indices_def joined_call_def split: piece.splits)

lemma call_order_snoc:
  "call_order (qs @ [q]) = call_order qs @ (case q of Call i a n g \<Rightarrow> if i \<in> set (call_indices qs) then [] else [i] | _ \<Rightarrow> [])"
  by (auto simp: call_order_def pieces_snoc call_indices_def split: piece.split)

lemma set_call_order [simp]: "set (call_order qs) = set (call_indices qs)" "distinct (call_order qs)"
  by (simp_all add: call_order_def)

text \<open>Each chunk takes the assembly of the pieces before it to that of the pieces with it.\<close>

lemma take_piece: "take_chunk (chunk_of q) (assembled qs) = (Inr (), assembled (qs @ [q]))"
proof (cases q)
  case (Content t)
  then show ?thesis
    by (simp add: take_content assembled_def pieces_snoc call_order_snoc joined_call_snoc contents_def reasonings_def
        del: chunk_of.simps)
next
  case (Reasoning t)
  then show ?thesis
    by (simp add: take_reasoning assembled_def pieces_snoc call_order_snoc joined_call_snoc contents_def reasonings_def
        del: chunk_of.simps)
next
  case (Finish t)
  then show ?thesis
    by (simp add: take_finish assembled_def pieces_snoc call_order_snoc joined_call_snoc contents_def reasonings_def
        del: chunk_of.simps)
next
  case (Call i a n g)
  have "map (\<lambda>j. (JInt (int j), if j = i then add_parts a n g (joined_call qs j) else joined_call qs j)) (call_order qs)
        @ (if i \<in> set (call_order qs) then [] else [(JInt (int i), add_parts a n g \<lparr>cp_id = [], cp_name = [], cp_arguments = []\<rparr>)])
      = map (\<lambda>j. (JInt (int j), joined_call (qs @ [q]) j)) (call_order (qs @ [q]))"
    using Call joined_call_none [of i qs] by (simp add: call_order_snoc joined_call_snoc)
  with Call show ?thesis
    by (simp add: take_call assembled_def update_call_map pieces_snoc contents_def reasonings_def del: chunk_of.simps)
qed

lemma take_lines_pieces:
  "list_all2 (\<lambda>l q. \<exists>raw. data_of l = Some raw \<and> raw \<noteq> ''[DONE]'' \<and> ep_loads T raw = Some (chunk_of q)) ls qs
   \<Longrightarrow> data_of fin = Some ''[DONE]''
   \<Longrightarrow> take_lines T b (ls @ fin # rest) (assembled ps) = (Inr (), assembled (ps @ qs))"
proof (induction ls qs arbitrary: ps rule: list_all2_induct)
  case Nil
  then show ?case by (simp add: monad_defs)
next
  case (Cons l ls q qs)
  then show ?case by (auto simp: mbind_def take_piece)
qed

section \<open>Properties\<close>

text \<open>
  Adapting a request to a provider leaves its own fields (model, messages, tools, streaming,
  temperature) as they are, and the request to fall back on differs only in the reasoning controls
  that the adapter reports.
\<close>

theorem adapting_keeps_request:
  assumes "adapt_request v url configured model opts payload = Inr ad"
  shows "(\<forall>k. k \<in> set CORE_REQUEST_FIELDS \<longrightarrow>
            dict_get (ad_payload ad) k = dict_get payload k \<and> dict_get (ad_fallback_payload ad) k = dict_get payload k)
       \<and> (\<forall>k. k \<notin> set (ad_reasoning_fields ad) \<longrightarrow> dict_get (ad_payload ad) k = dict_get (ad_fallback_payload ad) k)"
proof (cases opts)
  case None
  with assms show ?thesis by (auto simp: adapt_request_def split: sum.splits)
next
  case (Some os)
  obtain pv where pv: "resolve_provider v url model configured = Inr pv"
    using assms by (auto simp: adapt_request_def split: sum.splits)
  define limited where "limited = (case op_max_completion_tokens os of
      None \<Rightarrow> merge_extra (op_extra_body os) payload
    | Some n \<Rightarrow> apply_output_limit pv n (merge_extra (op_extra_body os) payload))"
  obtain p' cs e where r: "apply_reasoning pv limited model os = (p', cs, e)" by (cases "apply_reasoning pv limited model os")
  then have ad: "ad_payload ad = p'" "ad_fallback_payload ad = limited" "ad_reasoning_fields ad = cs"
    using assms Some pv by (auto simp: adapt_request_def limited_def Let_def)
  have same: "dict_get p' k = dict_get limited k" if "k \<notin> set cs" for k using reasoning_fields [OF r that] .
  have core: "dict_get limited k = dict_get payload k" if "k \<in> set CORE_REQUEST_FIELDS" for k
  proof -
    have "k \<notin> {''max_tokens'', ''max_completion_tokens''}" using that by (auto simp: CORE_REQUEST_FIELDS_def)
    with that show ?thesis by (simp add: limited_def dict_get_limit dict_get_extra split: option.split)
  qed
  have "k \<notin> set cs" if "k \<in> set CORE_REQUEST_FIELDS" for k
    using that reasoning_names [OF r] controls_not_core by blast
  with same core show ?thesis unfolding ad by simp
qed

text \<open>
  C30. The gateway asks the endpoint at most twice per attempt for a complete response and at most
  once more than its attempts for a streamed one, and no broken connection and no internal signal
  crosses it: an attempt that keeps failing ends in an LLMError.
\<close>

theorem gateway_requests_bounded:
  "length (gw_sent (snd (complete T ms tools model opts temperature m s))) \<le> length (gw_sent s) + 2 * Suc m
   \<and> length (gw_sent (snd (complete_stream T ms tools model opts m s))) \<le> length (gw_sent s) + m + 2
   \<and> fst (complete T ms tools model opts temperature m s)
        \<notin> range (\<lambda>x. Inl (GE_transport x)) \<union> range (\<lambda>x. Inl (GE_no_reasoning x))
   \<and> fst (complete_stream T ms tools model opts m s)
        \<notin> range (\<lambda>x. Inl (GE_transport x)) \<union> range (\<lambda>x. Inl (GE_no_reasoning x))"
  using complete_ends complete_stream_ends by blast

text \<open>
  Every answer of the gateway costs something, whatever usage the provider reports, so that
  the token budget of a run sees each of its calls.
\<close>

theorem answers_cost_tokens:
  assumes "complete T ms tools model opts temperature m s = (Inr r, s')
         \<or> complete_stream T ms tools model opts m s = (Inr r, s')"
  shows "0 < u_total_tokens (lr_usage r)"
  using assms
proof
  assume "complete T ms tools model opts temperature m s = (Inr r, s')"
  then obtain p h s1 where "read_answer T tools p h s1 = (Inr r, s')"
    by (auto simp: complete_def Let_def split: if_splits sum.splits prod.splits gateway_error.splits)
  then show ?thesis by (rule read_answer_cost)
next
  assume "complete_stream T ms tools model opts m s = (Inr r, s')"
  then show ?thesis
    by (auto simp: complete_stream_def Let_def dest: stream_from_cost split: sum.splits prod.splits)
qed


section \<open>Examples\<close>

definition sample_loads :: "string \<Rightarrow> json option" where
  "sample_loads t =
     (if t = ''1'' then Some (chunk_of (Content ''he''))
      else if t = ''2'' then Some (chunk_of (Content ''y''))
      else if t = ''3'' then Some (JObj [(''choices'', JList [JObj [(''message'', JObj [(''content'', JStr ''hey'')])]])])
      else None)"

text \<open>The first streamed response breaks after its first line, the next one is whole.\<close>

definition sample_endpoint :: "nat endpoint" where
  "sample_endpoint = \<lparr>
     ep_post = (\<lambda>p w. (Inr \<lparr>hr_status = 200, hr_text = ''3''\<rparr>, Suc w)),
     ep_stream = (\<lambda>p w. (Inr (if w = 0
        then \<lparr>hr_status = 200, hr_text = [], hs_lines = [''data: 1''], hs_cut = Some ''reset''\<rparr>
        else \<lparr>hr_status = 200, hr_text = [], hs_lines = [''data: 1'', ''data: 2'', ''data: [DONE]''], hs_cut = None\<rparr>), Suc w)),
     ep_loads = sample_loads, ep_dumps = (\<lambda>j. ''{}''), ep_jitter = (\<lambda>w. (0, w)), ep_sleep = (\<lambda>d w. w),
     ep_valid_ipv6 = (\<lambda>t. False), ep_base_url = ''https://openrouter.ai/api/v1'', ep_model = ''m'', ep_provider = None\<rparr>"

definition sample_gateway :: "nat gateway" where
  "sample_gateway = \<lparr>gw_tool_capable = None, gw_reasoning_capable = [], gw_sent = [], gw_deltas = [], gw_world = 0\<rparr>"

definition sample_options :: gateway_options where
  "sample_options = \<lparr>op_reasoning_effort = EF_high, op_thinking_enabled = None, op_max_completion_tokens = None,
     op_reasoning_budget_tokens = None, op_extra_body = [(''model'', JStr ''other''), (''top_p'', JInt 1)]\<rparr>"

definition sample_adapted :: adapted_request where
  "sample_adapted = \<lparr>
     ad_payload = [(''model'', JStr ''m''), (''top_p'', JInt 1), (''reasoning'', JObj [(''effort'', JStr ''high'')])],
     ad_fallback_payload = [(''model'', JStr ''m''), (''top_p'', JInt 1)], ad_provider = PV_openrouter,
     ad_reasoning_fields = [''reasoning''], ad_effective_effort = Some ''high''\<rparr>"

lemma sample_adapts:
  "adapt_request (\<lambda>t. False) ''https://openrouter.ai/api/v1'' None ''m'' (Some sample_options) [(''model'', JStr ''m'')]
   = Inr sample_adapted"
  by code_simp

theorem adapting_witness:
  "dict_get (ad_payload sample_adapted) ''model'' = Some (JStr ''m'')
   \<and> dict_get (ad_payload sample_adapted) ''top_p'' = dict_get (ad_fallback_payload sample_adapted) ''top_p''"
proof -
  have "''model'' \<in> set CORE_REQUEST_FIELDS" and "''top_p'' \<notin> set (ad_reasoning_fields sample_adapted)" by code_simp+
  with adapting_keeps_request [OF sample_adapts] show ?thesis by simp
qed

lemma sample_completes:
  "\<exists>r. fst (complete sample_endpoint [] [] None None 0 3 sample_gateway) = Inr r
     \<and> lr_content r = Some ''hey'' \<and> lr_usage r = \<lparr>u_prompt_tokens = 1, u_completion_tokens = 1, u_total_tokens = 2,
         u_source = US_estimated, u_reasoning_tokens = 0\<rparr>"
proof -
  have "map_sum id (\<lambda>r. (lr_content r, lr_usage r)) (fst (complete sample_endpoint [] [] None None 0 3 sample_gateway))
      = Inr (Some ''hey'', \<lparr>u_prompt_tokens = 1, u_completion_tokens = 1, u_total_tokens = 2,
         u_source = US_estimated, u_reasoning_tokens = 0\<rparr>)"
    by code_simp
  then show ?thesis by (cases "fst (complete sample_endpoint [] [] None None 0 3 sample_gateway)") auto
qed

theorem cost_witness:
  "\<exists>r. fst (complete sample_endpoint [] [] None None 0 3 sample_gateway) = Inr r \<and> 0 < u_total_tokens (lr_usage r)"
proof -
  obtain r where "fst (complete sample_endpoint [] [] None None 0 3 sample_gateway) = Inr r"
    using sample_completes by blast
  then have "complete sample_endpoint [] [] None None 0 3 sample_gateway
      = (Inr r, snd (complete sample_endpoint [] [] None None 0 3 sample_gateway))" by (simp add: prod_eq_iff)
  from answers_cost_tokens [OF disjI1, OF this] \<open>fst _ = _\<close> show ?thesis by blast
qed


text \<open>The text of a stream that breaks is passed on again by the request that replaces it.\<close>

lemma retried_stream_repeats:
  "gw_deltas (snd (complete_stream sample_endpoint [] [] None None 3 sample_gateway)) = [''he'', ''he'', ''y'']
   \<and> map_sum id lr_content (fst (complete_stream sample_endpoint [] [] None None 3 sample_gateway)) = Inr (Some ''hey'')"
  by code_simp

end
