(* ===== verification/Processes.thy ===== *)
theory Processes
  imports Redact "HOL-Library.Sublist"
begin

text \<open>
  The background processes of a command line session: BackgroundProcessManager of
  marcus_code/tools/base.py and the handlers of start_process, read_process_output and
  stop_process. What the operating system does is an argument of the operation that sees it: the
  process it spawns, the lines it prints and the code it exits with. The readers of the two streams
  run between the operations, so a session is a list of events.
\<close>

section \<open>The manager\<close>

record managed =
  mp_command :: string
  mp_pid :: int
  mp_exit_code :: "int option"
  mp_stdout :: "string list"
  mp_stderr :: "string list"
  mp_output_chars :: int

record manager =
  mg_root :: string
  mg_max_output_chars :: int
  mg_processes :: "(string \<times> managed) list"

definition new_manager :: "string \<Rightarrow> int \<Rightarrow> manager" where
  "new_manager root_dir max_chars = \<lparr>mg_root = root_dir, mg_max_output_chars = max_chars, mg_processes = []\<rparr>"

definition status_of :: "managed \<Rightarrow> string" where
  "status_of p = (if mp_exit_code p = None then ''running'' else ''exited'')"

definition code_json :: "int option \<Rightarrow> json" where
  "code_json c = (case c of None \<Rightarrow> JNull | Some n \<Rightarrow> JInt n)"

definition rstrip_dots :: "string \<Rightarrow> string" where
  "rstrip_dots s = rev (dropWhile (\<lambda>c. c = CHR ''.'') (rev s))"

text \<open>A process by its identifier, or by a prefix of six characters or more that only it has.\<close>

definition find_process :: "(string \<times> 'a) list \<Rightarrow> string \<Rightarrow> exn + string \<times> 'a" where
  "find_process ps i =
     (case dict_get ps i of
        Some p \<Rightarrow> Inr (i, p)
      | None \<Rightarrow>
          (let pre = rstrip_dots i;
               matches = filter (\<lambda>(k, p). 6 \<le> length pre \<and> str_startswith k pre) ps
           in case matches of
                [] \<Rightarrow> Inl (PyError ''ValueError'' (''unknown process_id: '' @ i))
              | [(k, p)] \<Rightarrow> Inr (k, p)
              | _ \<Rightarrow> Inl (PyError ''ValueError'' (''ambiguous process_id prefix: '' @ i))))"

definition start :: "(string \<Rightarrow> string) \<Rightarrow> string \<Rightarrow> (exn + int \<times> int option) \<Rightarrow> string \<Rightarrow> manager \<Rightarrow> (exn + dict) \<times> manager" where
  "start sha256 command spawned i m =
     (case inspect_shell_command sha256 command of
        Inl e \<Rightarrow> (Inl e, m)
      | Inr metadata \<Rightarrow>
          (case spawned of
             Inl e \<Rightarrow> (Inl e, m)
           | Inr (pid, code) \<Rightarrow>
               let p = \<lparr>mp_command = command, mp_pid = pid, mp_exit_code = code, mp_stdout = [], mp_stderr = [],
                        mp_output_chars = 0\<rparr>
               in (Inr ([(''process_id'', JStr i), (''pid'', JInt pid), (''command'', JStr command),
                         (''cwd'', JStr (mg_root m)), (''status'', JStr (status_of p))] @ metadata_dict metadata),
                   m\<lparr>mg_processes := dict_set i p (mg_processes m)\<rparr>)))"

text \<open>The oldest lines go first, those of stdout before those of stderr.\<close>

fun evict :: "int \<Rightarrow> managed \<Rightarrow> string list \<Rightarrow> string list \<Rightarrow> managed" where
  "evict limit p (l # out) err =
     (if limit < mp_output_chars p
      then evict limit (p\<lparr>mp_output_chars := mp_output_chars p - int (length l)\<rparr>) out err
      else p\<lparr>mp_stdout := l # out, mp_stderr := err\<rparr>)"
| "evict limit p [] (l # err) =
     (if limit < mp_output_chars p
      then evict limit (p\<lparr>mp_output_chars := mp_output_chars p - int (length l)\<rparr>) [] err
      else p\<lparr>mp_stdout := [], mp_stderr := l # err\<rparr>)"
| "evict limit p [] [] = p\<lparr>mp_stdout := [], mp_stderr := []\<rparr>"

datatype channel = Stdout | Stderr

definition captured :: "int \<Rightarrow> channel \<Rightarrow> string \<Rightarrow> managed \<Rightarrow> managed" where
  "captured limit ch t p =
     (let p' = p\<lparr>mp_output_chars := mp_output_chars p + int (length t)\<rparr> in
      case ch of
        Stdout \<Rightarrow> evict limit p' (mp_stdout p @ [t]) (mp_stderr p)
      | Stderr \<Rightarrow> evict limit p' (mp_stdout p) (mp_stderr p @ [t]))"

definition change_process :: "string \<Rightarrow> (managed \<Rightarrow> managed) \<Rightarrow> manager \<Rightarrow> manager" where
  "change_process i f m =
     m\<lparr>mg_processes := map (\<lambda>(k, p). if k = i then (k, f p) else (k, p)) (mg_processes m)\<rparr>"

definition capture :: "string \<Rightarrow> channel \<Rightarrow> string \<Rightarrow> manager \<Rightarrow> manager" where
  "capture i ch t m = change_process i (captured (mg_max_output_chars m) ch t) m"

definition output_of :: "string \<Rightarrow> manager \<Rightarrow> exn + dict" where
  "output_of i m =
     (case find_process (mg_processes m) i of
        Inl e \<Rightarrow> Inl e
      | Inr (k, p) \<Rightarrow> Inr [(''process_id'', JStr k), (''status'', JStr (status_of p)),
          (''exit_code'', code_json (mp_exit_code p)), (''stdout'', JStr (concat (mp_stdout p))),
          (''stderr'', JStr (concat (mp_stderr p)))])"

text \<open>The process is killed and its readers finish: the lines they still read, and the code it leaves.\<close>

definition stop :: "string \<Rightarrow> (channel \<times> string) list \<Rightarrow> int option \<Rightarrow> manager \<Rightarrow> (exn + dict) \<times> manager" where
  "stop i lines code m =
     (case find_process (mg_processes m) i of
        Inl e \<Rightarrow> (Inl e, m)
      | Inr (k, p) \<Rightarrow>
          let left = (case mp_exit_code p of None \<Rightarrow> code | Some c \<Rightarrow> Some c);
              m' = fold (\<lambda>(ch, t). capture k ch t) lines m
          in (Inr [(''process_id'', JStr k), (''status'', JStr ''stopped''), (''exit_code'', code_json left)],
              change_process k (mp_exit_code_update (\<lambda>_. left)) m'))"

definition close_manager :: "manager \<Rightarrow> manager" where
  "close_manager m = m\<lparr>mg_processes := []\<rparr>"

section \<open>The handlers\<close>

definition required_text :: "string \<Rightarrow> string \<Rightarrow> dict \<Rightarrow> exn + string" where
  "required_text tool k args =
     (let missing = Inl (PyError ''ValueError'' (tool @ '' requires a '' @ str_repr k @ '' field'')) in
      case dict_get args k of
        Some (JStr t) \<Rightarrow> if t = [] then missing else Inr t
      | Some v \<Rightarrow> if truthy v then Inl (PyError ''TypeError'' ''unsupported argument type'') else missing
      | None \<Rightarrow> missing)"

definition start_handler :: "(string \<Rightarrow> string) \<Rightarrow> dict \<Rightarrow> (exn + int \<times> int option) \<Rightarrow> string \<Rightarrow> manager \<Rightarrow> (exn + dict) \<times> manager" where
  "start_handler sha256 args spawned i m =
     (case required_text ''start_process'' ''command'' args of
        Inl e \<Rightarrow> (Inl e, m) | Inr command \<Rightarrow> start sha256 command spawned i m)"

definition output_handler :: "dict \<Rightarrow> manager \<Rightarrow> exn + dict" where
  "output_handler args m =
     (case required_text ''read_process_output'' ''process_id'' args of Inl e \<Rightarrow> Inl e | Inr i \<Rightarrow> output_of i m)"

definition stop_handler :: "dict \<Rightarrow> (channel \<times> string) list \<Rightarrow> int option \<Rightarrow> manager \<Rightarrow> (exn + dict) \<times> manager" where
  "stop_handler args lines code m =
     (case required_text ''stop_process'' ''process_id'' args of
        Inl e \<Rightarrow> (Inl e, m) | Inr i \<Rightarrow> stop i lines code m)"

section \<open>Sessions\<close>

datatype event =
    Started string "exn + int \<times> int option" string
  | Printed string channel string
  | Exited string int
  | Stopped string "(channel \<times> string) list" "int option"

definition happen :: "(string \<Rightarrow> string) \<Rightarrow> event \<Rightarrow> manager \<Rightarrow> manager" where
  "happen sha256 ev m =
     (case ev of
        Started command spawned i \<Rightarrow> snd (start sha256 command spawned i m)
      | Printed i ch t \<Rightarrow> capture i ch t m
      | Exited i code \<Rightarrow> change_process i (mp_exit_code_update (\<lambda>_. Some code)) m
      | Stopped i lines code \<Rightarrow> snd (stop i lines code m))"

definition session :: "(string \<Rightarrow> string) \<Rightarrow> event list \<Rightarrow> manager \<Rightarrow> manager" where
  "session sha256 evs m = fold (happen sha256) evs m"

section \<open>What a session shows\<close>

text \<open>The abstract session keeps every line that was printed, per process and channel.\<close>

type_synonym logs = "(string \<times> string list \<times> string list) list"

fun logged :: "channel \<Rightarrow> string \<Rightarrow> string list \<times> string list \<Rightarrow> string list \<times> string list" where
  "logged Stdout t (out, err) = (out @ [t], err)"
| "logged Stderr t (out, err) = (out, err @ [t])"

definition log_line :: "string \<Rightarrow> channel \<Rightarrow> string \<Rightarrow> logs \<Rightarrow> logs" where
  "log_line i ch t ls = map (\<lambda>(k, l). if k = i then (k, logged ch t l) else (k, l)) ls"

definition log_event :: "(string \<Rightarrow> string) \<Rightarrow> event \<Rightarrow> logs \<Rightarrow> logs" where
  "log_event sha256 ev ls =
     (case ev of
        Started command spawned i \<Rightarrow>
          (case (inspect_shell_command sha256 command, spawned) of
             (Inr _, Inr _) \<Rightarrow> dict_set i ([], []) ls | _ \<Rightarrow> ls)
      | Printed i ch t \<Rightarrow> log_line i ch t ls
      | Exited i code \<Rightarrow> ls
      | Stopped i lines code \<Rightarrow>
          (case find_process ls i of Inl e \<Rightarrow> ls | Inr (k, l) \<Rightarrow> fold (\<lambda>(ch, t). log_line k ch t) lines ls))"

definition log_session :: "(string \<Rightarrow> string) \<Rightarrow> event list \<Rightarrow> logs" where
  "log_session sha256 evs = fold (log_event sha256) evs []"

text \<open>A process keeps the latest lines of each channel, and counts their characters.\<close>

definition chars :: "string list \<Rightarrow> int" where
  "chars ls = int (length (concat ls))"

definition keeps :: "int \<Rightarrow> managed \<Rightarrow> string list \<times> string list \<Rightarrow> bool" where
  "keeps limit p l \<longleftrightarrow> suffix (mp_stdout p) (fst l) \<and> suffix (mp_stderr p) (snd l)
     \<and> mp_output_chars p = chars (mp_stdout p) + chars (mp_stderr p) \<and> mp_output_chars p \<le> limit"

definition implements :: "int \<Rightarrow> (string \<times> managed) list \<Rightarrow> logs \<Rightarrow> bool" where
  "implements limit ps ls \<longleftrightarrow> list_all2 (\<lambda>(k, p) (k', l). k = k' \<and> keeps limit p l) ps ls"

lemma chars_simps [simp]: "chars [] = 0" "chars (l # ls) = int (length l) + chars ls" "chars (xs @ ys) = chars xs + chars ys"
  by (simp_all add: chars_def)

lemma evict_keeps:
  "0 \<le> limit \<Longrightarrow> mp_output_chars p = chars out + chars err \<Longrightarrow> suffix out (fst l) \<Longrightarrow> suffix err (snd l)
   \<Longrightarrow> keeps limit (evict limit p out err) l"
proof (induction limit p out err rule: evict.induct)
  case (1 limit p t out err)
  have "suffix out (fst l)" using 1(4) by (rule suffix_ConsD)
  then show ?case using 1(1) [OF _ 1(2)] 1(2-5) by (cases "limit < mp_output_chars p") (simp_all add: keeps_def)
next
  case (2 limit p t err)
  have "suffix err (snd l)" using 2(5) by (rule suffix_ConsD)
  then show ?case using 2(1) [OF _ 2(2)] 2(2-5) by (cases "limit < mp_output_chars p") (simp_all add: keeps_def)
qed (simp add: keeps_def)

lemma suffix_snoc: "suffix xs ys \<Longrightarrow> suffix (xs @ [t]) (ys @ [t])"
  by (auto simp: suffix_def)

lemma captured_keeps:
  assumes "0 \<le> limit" and "keeps limit p l"
  shows "keeps limit (captured limit ch t p) (logged ch t l)"
proof -
  obtain out err where l: "l = (out, err)" by fastforce
  have k: "suffix (mp_stdout p) out" "suffix (mp_stderr p) err" "mp_output_chars p = chars (mp_stdout p) + chars (mp_stderr p)"
    using assms(2) l by (simp_all add: keeps_def)
  show ?thesis
  proof (cases ch)
    case Stdout
    show ?thesis
      unfolding captured_def l Stdout Let_def channel.case logged.simps
      by (rule evict_keeps) (use assms(1) k in \<open>simp_all add: suffix_snoc\<close>)
  next
    case Stderr
    show ?thesis
      unfolding captured_def l Stderr Let_def channel.case logged.simps
      by (rule evict_keeps) (use assms(1) k in \<open>simp_all add: suffix_snoc\<close>)
  qed
qed

section \<open>The refinement\<close>

lemma implements_update:
  assumes "implements n ps ls" and "keeps n p l"
  shows "implements n (dict_set k p ps) (dict_set k l ls)"
  using assms unfolding implements_def
  by (induction ps ls rule: list_all2_induct) auto

lemma implements_change:
  assumes "implements n ps ls" and "\<And>p l. keeps n p l \<Longrightarrow> keeps n (f p) (g l)"
  shows "implements n (map (\<lambda>(k, p). if k = i then (k, f p) else (k, p)) ps)
           (map (\<lambda>(k, l). if k = i then (k, g l) else (k, l)) ls)"
  using assms(1) unfolding implements_def
  by (induction ps ls rule: list_all2_induct) (use assms(2) in \<open>fastforce split: if_splits\<close>)+

lemma implements_get:
  assumes "implements n ps ls"
  shows "rel_option (keeps n) (dict_get ps k) (dict_get ls k)"
  using assms unfolding implements_def
  by (induction ps ls rule: list_all2_induct) auto

lemma implements_filter:
  assumes "implements n ps ls"
  shows "implements n (filter (\<lambda>(k, p). P k) ps) (filter (\<lambda>(k, l). P k) ls)"
  using assms unfolding implements_def
  by (induction ps ls rule: list_all2_induct) auto

lemma implements_find:
  assumes "implements n ps ls"
  shows "rel_sum (=) (\<lambda>(k, p) (k', l). k = k' \<and> keeps n p l) (find_process ps i) (find_process ls i)"
proof (cases "dict_get ps i")
  case (Some p)
  with implements_get [OF assms, of i] obtain l where "dict_get ls i = Some l" "keeps n p l"
    by (auto simp: option_rel_Some1)
  with Some show ?thesis by (simp add: find_process_def)
next
  case None
  with implements_get [OF assms, of i] have "dict_get ls i = None" by (cases "dict_get ls i") simp_all
  moreover have "implements n (filter (\<lambda>(k, p). 6 \<le> length (rstrip_dots i) \<and> str_startswith k (rstrip_dots i)) ps)
      (filter (\<lambda>(k, l). 6 \<le> length (rstrip_dots i) \<and> str_startswith k (rstrip_dots i)) ls)"
    by (rule implements_filter [OF assms])
  ultimately show ?thesis
    using None by (auto simp: find_process_def Let_def implements_def list_all2_Cons1 list_all2_Cons2 split: list.splits)
qed

definition good :: "int \<Rightarrow> manager \<Rightarrow> logs \<Rightarrow> bool" where
  "good limit m ls \<longleftrightarrow> mg_max_output_chars m = limit \<and> implements limit (mg_processes m) ls"

lemma good_capture:
  assumes "0 \<le> limit" and "good limit m ls"
  shows "good limit (capture i ch t m) (log_line i ch t ls)"
  using assms(2) implements_change [OF _ captured_keeps [OF assms(1)]]
  by (simp add: good_def capture_def change_process_def log_line_def)

lemma good_lines:
  "0 \<le> limit \<Longrightarrow> good limit m ls
   \<Longrightarrow> good limit (fold (\<lambda>(ch, t). capture i ch t) lines m) (fold (\<lambda>(ch, t). log_line i ch t) lines ls)"
  by (induction lines arbitrary: m ls) (auto simp: good_capture)

lemma keeps_exit: "keeps n p l \<Longrightarrow> keeps n (mp_exit_code_update f p) l"
  by (simp add: keeps_def)

lemma good_exit: "good limit m ls \<Longrightarrow> good limit (change_process i (mp_exit_code_update f) m) ls"
proof -
  have "implements n ps ls \<Longrightarrow> implements n (map (\<lambda>(k, p). if k = i then (k, mp_exit_code_update f p) else (k, p)) ps) ls"
    for n ps
    unfolding implements_def by (induction ps ls rule: list_all2_induct) (auto simp: keeps_exit split: if_splits)
  then show "good limit m ls \<Longrightarrow> good limit (change_process i (mp_exit_code_update f) m) ls"
    by (simp add: good_def change_process_def)
qed

lemma good_start:
  assumes "0 \<le> limit" and "good limit m ls"
  shows "good limit (snd (start sha256 command spawned i m)) (log_event sha256 (Started command spawned i) ls)"
proof -
  have "keeps limit \<lparr>mp_command = command, mp_pid = pid, mp_exit_code = code, mp_stdout = [],
      mp_stderr = [], mp_output_chars = 0\<rparr> ([], [])" for pid code
    using assms(1) by (simp add: keeps_def)
  from implements_update [OF _ this] assms(2) show ?thesis
    by (auto simp: good_def start_def log_event_def Let_def split: sum.split)
qed

lemma good_stop:
  assumes "0 \<le> limit" and "good limit m ls"
  shows "good limit (snd (stop i lines code m)) (log_event sha256 (Stopped i lines code) ls)"
proof -
  have found: "rel_sum (=) (\<lambda>(k, p) (k', l). k = k' \<and> keeps limit p l) (find_process (mg_processes m) i) (find_process ls i)"
    using assms(2) by (intro implements_find) (simp add: good_def)
  show ?thesis
  proof (cases "find_process (mg_processes m) i")
    case (Inl e)
    with found obtain e' where "find_process ls i = Inl e'" by (cases "find_process ls i") auto
    with Inl assms(2) show ?thesis by (simp add: log_event_def stop_def)
  next
    case (Inr q)
    then obtain k p where q: "find_process (mg_processes m) i = Inr (k, p)" by (cases q) auto
    with found obtain l where l: "find_process ls i = Inr (k, l)" by (cases "find_process ls i") auto
    from good_exit [OF good_lines [OF assms]] q l show ?thesis by (simp add: log_event_def stop_def Let_def)
  qed
qed

lemma good_happen:
  assumes "0 \<le> limit" and "good limit m ls"
  shows "good limit (happen sha256 ev m) (log_event sha256 ev ls)"
proof (cases ev)
  case (Started command spawned i)
  with good_start [OF assms] show ?thesis by (simp add: happen_def)
next
  case (Printed i ch t)
  with good_capture [OF assms] show ?thesis by (simp add: happen_def log_event_def)
next
  case (Exited i code)
  with good_exit [OF assms(2)] show ?thesis by (simp add: happen_def log_event_def)
next
  case (Stopped i lines code)
  with good_stop [OF assms] show ?thesis by (simp add: happen_def)
qed


definition sample_session :: "event list" where
  "sample_session = [Started ''serve'' (Inr (7, None)) ''abcdef123456'', Printed ''abcdef123456'' Stdout ''one'',
     Printed ''abcdef123456'' Stderr ''two'', Stopped ''abcdef...'' [(Stdout, ''six'')] (Some 0)]"


text \<open>Here the error channel is what fills the buffer, and the line of stdout is what goes.\<close>

lemma stdout_goes_first:
  "map (\<lambda>(k, p). (mp_stdout p, mp_stderr p, mp_exit_code p))
     (mg_processes (session id
       [Started ''serve'' (Inr (7, None)) ''abcdef123456'', Printed ''abcdef123456'' Stdout ''one'',
        Printed ''abcdef123456'' Stderr ''twotwo''] (new_manager ''/w'' 7)))
   = [([], [''twotwo''], None)]"
  by code_simp

end
