(* ===== verification/Web.thy ===== *)
theory Web
  imports Urls Redact
begin

text \<open>
  The tools that make HTTP requests: fetch_url and wait_for_http of marcus_code/tools/base.py and
  check_url_health of marcus_code/tools/extra.py. The resolver, the HTTP client, the clock and the
  library functions on texts (joining URLs, decoding, stripping HTML, printing a number) are
  parameters; a trace keeps which URLs were validated and which were requested.
\<close>

section \<open>The network\<close>

record reply =
  rp_url :: string
  rp_status :: int
  rp_location :: "string option"
  rp_content_type :: string
  rp_content :: string
  rp_elapsed :: rat

datatype request = Validated string | Requested string

record 'w net =
  nt_trace :: "request list"
  nt_world :: 'w

text \<open>One request without redirects; Inl is the message of an httpx.HTTPError.\<close>

record 'w web = "'w resolver" +
  wb_send :: "string \<Rightarrow> string \<Rightarrow> 'w \<Rightarrow> (string + reply) \<times> 'w"
  wb_urljoin :: "string \<Rightarrow> string \<Rightarrow> string"
  wb_decode :: "reply \<Rightarrow> string \<Rightarrow> string"
  wb_strip_html :: "string \<Rightarrow> string"
  wb_clock :: "'w \<Rightarrow> rat"
  wb_sleep :: "rat \<Rightarrow> 'w \<Rightarrow> 'w"
  wb_format :: "rat \<Rightarrow> string"

definition http_error :: "string \<Rightarrow> exn" where
  "http_error m = PyError ''HTTPError'' m"

definition validate :: "'w web \<Rightarrow> string \<Rightarrow> 'w net \<Rightarrow> (exn + unit) \<times> 'w net" where
  "validate W url s =
     (let (r, w) = validate_public_url (resolver.truncate W) url (nt_world s) in
      (r, s\<lparr>nt_world := w, nt_trace := nt_trace s @ (case r of Inr _ \<Rightarrow> [Validated url] | Inl _ \<Rightarrow> [])\<rparr>))"

definition send :: "'w web \<Rightarrow> string \<Rightarrow> string \<Rightarrow> 'w net \<Rightarrow> (string + reply) \<times> 'w net" where
  "send W verb url s =
     (let (r, w) = wb_send W verb url (nt_world s) in
      (r, s\<lparr>nt_world := w, nt_trace := nt_trace s @ [Requested url]\<rparr>))"

definition url_of :: "string \<Rightarrow> dict \<Rightarrow> exn + string" where
  "url_of tool args =
     (let missing = Inl (value_error (tool @ '' requires a '' @ str_repr ''url'' @ '' field'')) in
      case dict_get args ''url'' of
        Some (JStr t) \<Rightarrow> if t = [] then missing else Inr t
      | Some v \<Rightarrow> if truthy v then Inl (PyError ''TypeError'' ''unsupported argument type'') else missing
      | None \<Rightarrow> missing)"

section \<open>fetch_url\<close>

definition redirects :: "reply \<Rightarrow> bool" where
  "redirects r = (rp_status r \<in> {301, 302, 303, 307, 308})"

definition next_url :: "'w web \<Rightarrow> string \<Rightarrow> reply \<Rightarrow> string option" where
  "next_url W url r =
     (if redirects r
      then (case rp_location r of None \<Rightarrow> None | Some l \<Rightarrow> if l = [] then None else Some (wb_urljoin W url l))
      else None)"

text \<open>The request of a validated URL, and at most the given number of redirects after it.\<close>

fun fetch_from :: "'w web \<Rightarrow> nat \<Rightarrow> string \<Rightarrow> 'w net \<Rightarrow> (exn + reply) \<times> 'w net" where
  "fetch_from W n url s =
     (case send W ''GET'' url s of
        (Inl e, s1) \<Rightarrow> (Inl (http_error e), s1)
      | (Inr r, s1) \<Rightarrow>
          (case next_url W url r of
             None \<Rightarrow> (Inr r, s1)
           | Some url' \<Rightarrow>
               (case validate W url' s1 of
                  (Inl e, s2) \<Rightarrow> (Inl e, s2)
                | (Inr _, s2) \<Rightarrow> (case n of 0 \<Rightarrow> (Inr r, s2) | Suc k \<Rightarrow> fetch_from W k url' s2))))"

definition fetch_result :: "'w web \<Rightarrow> int \<Rightarrow> reply \<Rightarrow> exn + dict" where
  "fetch_result W max_bytes r =
     (if rp_status r < 200 \<or> 300 \<le> rp_status r
      then Inl (http_error (''status '' @ str_of_int (rp_status r)))
      else
        let decoded = wb_decode W r (take (nat max_bytes) (rp_content r));
            t = (if str_contains ''html'' (rp_content_type r) then wb_strip_html W decoded else decoded)
        in Inr [(''url'', JStr (rp_url r)), (''status'', JInt (rp_status r)), (''content_type'', JStr (rp_content_type r)),
                (''text'', JStr t), (''truncated'', JBool (max_bytes < int (length (rp_content r))))])"

definition fetch_url :: "'w web \<Rightarrow> int \<Rightarrow> dict \<Rightarrow> 'w net \<Rightarrow> (exn + dict) \<times> 'w net" where
  "fetch_url W max_bytes args s =
     (case url_of ''fetch_url'' args of
        Inl e \<Rightarrow> (Inl e, s)
      | Inr url \<Rightarrow>
          (case validate W url s of
             (Inl e, s1) \<Rightarrow> (Inl e, s1)
           | (Inr _, s1) \<Rightarrow>
               (case fetch_from W 4 url s1 of
                  (Inl e, s2) \<Rightarrow> (Inl e, s2)
                | (Inr r, s2) \<Rightarrow> (fetch_result W max_bytes r, s2))))"

section \<open>check_url_health\<close>

definition LOCAL_HOSTS :: "string set" where
  "LOCAL_HOSTS = {''localhost'', ''127.0.0.1'', ''::1''}"

fun py_float :: "json \<Rightarrow> exn + rat" where
  "py_float (JInt i) = Inr (of_int i)"
| "py_float (JFloat r) = Inr r"
| "py_float (JBool b) = Inr (if b then 1 else 0)"
| "py_float (JStr t) = Inl (value_error (''could not convert string to float: '' @ str_repr t))"
| "py_float _ = Inl (PyError ''TypeError'' ''unsupported argument type'')"

definition timeout_of :: "dict \<Rightarrow> rat \<Rightarrow> rat \<Rightarrow> exn + rat" where
  "timeout_of args standard limit =
     (case py_float (case dict_get args ''timeout_seconds'' of None \<Rightarrow> JFloat standard | Some v \<Rightarrow> v) of
        Inl e \<Rightarrow> Inl e | Inr t \<Rightarrow> Inr (max (1 / 10) (min t limit)))"

text \<open>The client follows redirects itself, up to twenty, without asking.\<close>

fun follow :: "'w web \<Rightarrow> nat \<Rightarrow> string \<Rightarrow> string \<Rightarrow> 'w net \<Rightarrow> (string + reply) \<times> 'w net" where
  "follow W n verb url s =
     (case send W verb url s of
        (Inl e, s1) \<Rightarrow> (Inl e, s1)
      | (Inr r, s1) \<Rightarrow>
          (case next_url W url r of
             None \<Rightarrow> (Inr r, s1)
           | Some url' \<Rightarrow>
               (case n of
                  0 \<Rightarrow> (Inl ''Exceeded maximum allowed redirects.'', s1)
                | Suc k \<Rightarrow> follow W k verb url' s1)))"

definition str_upper :: "string \<Rightarrow> string" where
  "str_upper s = map (\<lambda>c. if 97 \<le> (of_char c :: nat) \<and> (of_char c :: nat) \<le> 122
                          then char_of (of_char c - 32 :: nat) else c) s"

definition health_target :: "'w web \<Rightarrow> string \<Rightarrow> 'w net \<Rightarrow> (exn + unit) \<times> 'w net" where
  "health_target W url s =
     (case urlparse (rs_valid_ipv6 W) url of
        Inl e \<Rightarrow> (Inl e, s)
      | Inr u \<Rightarrow>
          if ur_scheme u \<notin> {''http'', ''https''} then (Inl (value_error ''only http(s) URLs supported''), s)
          else (case hostname u of
                  Some h \<Rightarrow> if h \<in> LOCAL_HOSTS then (Inr (), s) else validate W url s
                | None \<Rightarrow> validate W url s))"

definition check_url_health :: "'w web \<Rightarrow> dict \<Rightarrow> 'w net \<Rightarrow> (exn + dict) \<times> 'w net" where
  "check_url_health W args s =
     (case url_of ''check_url_health'' args of
        Inl e \<Rightarrow> (Inl e, s)
      | Inr url \<Rightarrow>
          (case health_target W url s of
             (Inl e, s1) \<Rightarrow> (Inl e, s1)
           | (Inr _, s1) \<Rightarrow>
               (case (timeout_of args 10 60, dict_get args ''method'') of
                  (Inl e, _) \<Rightarrow> (Inl e, s1)
                | (Inr _, m) \<Rightarrow>
                    (case (case m of None \<Rightarrow> Some ''HEAD'' | Some (JStr t) \<Rightarrow> Some (str_upper t) | _ \<Rightarrow> None) of
                       None \<Rightarrow> (Inl (PyError ''AttributeError'' ''upper''), s1)
                     | Some verb \<Rightarrow>
                         if verb \<notin> {''GET'', ''HEAD''} then (Inl (value_error ''method must be GET or HEAD''), s1)
                         else (case follow W 20 verb url s1 of
                                 (Inl e, s2) \<Rightarrow>
                                   (Inr [(''url'', JStr url), (''status'', JNull), (''healthy'', JBool False),
                                         (''error'', JStr e)], s2)
                               | (Inr r, s2) \<Rightarrow>
                                   (Inr [(''url'', JStr (rp_url r)), (''status'', JInt (rp_status r)),
                                         (''healthy'', JBool (rp_status r < 500)),
                                         (''response_time_ms'', JInt \<lfloor>rp_elapsed r * 1000\<rfloor>)], s2))))))"

section \<open>wait_for_http\<close>

text \<open>
  Until a deadline, a request every tenth of a second. The loop has fuel, None being that it has
  run out.
\<close>

fun wait_until :: "'w web \<Rightarrow> nat \<Rightarrow> string \<Rightarrow> rat \<Rightarrow> string \<Rightarrow> 'w net \<Rightarrow> ((string + dict) \<times> 'w net) option" where
  "wait_until W 0 url deadline last_error s = None"
| "wait_until W (Suc n) url deadline last_error s =
     (if wb_clock W (nt_world s) < deadline
      then
        (case send W ''GET'' url s of
           (Inl e, s1) \<Rightarrow> wait_until W n url deadline e (s1\<lparr>nt_world := wb_sleep W (1 / 10) (nt_world s1)\<rparr>)
         | (Inr r, s1) \<Rightarrow>
             if rp_status r < 500
             then Some (Inr [(''url'', JStr url), (''ready'', JBool True), (''status'', JInt (rp_status r))], s1)
             else wait_until W n url deadline (''HTTP '' @ str_of_int (rp_status r))
                    (s1\<lparr>nt_world := wb_sleep W (1 / 10) (nt_world s1)\<rparr>))
      else Some (Inl last_error, s))"

definition wait_for_http :: "'w web \<Rightarrow> nat \<Rightarrow> dict \<Rightarrow> 'w net \<Rightarrow> ((exn + dict) \<times> 'w net) option" where
  "wait_for_http W fuel args s =
     (case url_of ''wait_for_http'' args of
        Inl e \<Rightarrow> Some (Inl e, s)
      | Inr url \<Rightarrow>
          (case urlparse (rs_valid_ipv6 W) url of
             Inl e \<Rightarrow> Some (Inl e, s)
           | Inr u \<Rightarrow>
               if ur_scheme u \<notin> {''http'', ''https''} \<or> hostname u \<notin> Some ` LOCAL_HOSTS
               then Some (Inl (value_error ''wait_for_http only permits localhost HTTP(S) URLs''), s)
               else
                 (case timeout_of args 30 120 of
                    Inl e \<Rightarrow> Some (Inl e, s)
                  | Inr timeout \<Rightarrow>
                      map_option (\<lambda>(r, s'). (case r of
                          Inr d \<Rightarrow> Inr d
                        | Inl last_error \<Rightarrow> Inl (value_error (''service was not ready after '' @ wb_format W timeout
                            @ ''s: '' @ last_error)), s'))
                        (wait_until W fuel url (wb_clock W (nt_world s) + timeout) ''service not ready'' s))))"

section \<open>What may be requested\<close>

text \<open>A URL that validates at some moment.\<close>

definition public_url :: "'w web \<Rightarrow> string \<Rightarrow> bool" where
  "public_url W url \<longleftrightarrow> (\<exists>w. fst (validate_public_url (resolver.truncate W) url w) = Inr ())"

text \<open>Requests each of which comes right after the validation of its URL, and what may follow the last.\<close>

definition vetted :: "'w web \<Rightarrow> nat \<Rightarrow> request list \<Rightarrow> bool" where
  "vetted W n tr \<longleftrightarrow> (\<exists>us tail. tr = concat (map (\<lambda>u. [Validated u, Requested u]) us) @ tail
     \<and> length us \<le> n \<and> list_all (public_url W) us \<and> (tail = [] \<or> (\<exists>u. tail = [Validated u])))"

lemma validate_trace:
  "validate W url s = (r, s') \<Longrightarrow>
   (\<exists>e. r = Inl e \<and> nt_trace s' = nt_trace s) \<or> r = Inr () \<and> nt_trace s' = nt_trace s @ [Validated url] \<and> public_url W url"
  (is "_ \<Longrightarrow> ?thesis")
proof -
  obtain q w where v: "validate_public_url (resolver.truncate W) url (nt_world s) = (q, w)" by fastforce
  then have "q = Inr () \<Longrightarrow> public_url W url" unfolding public_url_def by (metis fst_conv)
  moreover assume "validate W url s = (r, s')"
  ultimately show ?thesis using v by (cases q) (auto simp: validate_def)
qed

lemma send_trace: "send W verb url s = (r, s') \<Longrightarrow> nt_trace s' = nt_trace s @ [Requested url]"
  by (auto simp: send_def split: prod.splits)

lemma vetted_Cons:
  assumes "public_url W u" and "vetted W n tr"
  shows "vetted W (Suc n) (Validated u # Requested u # tr)"
proof -
  obtain us tail where "tr = concat (map (\<lambda>u. [Validated u, Requested u]) us) @ tail"
    "length us \<le> n" "list_all (public_url W) us" "tail = [] \<or> (\<exists>u. tail = [Validated u])"
    using assms(2) by (auto simp: vetted_def)
  with assms(1) show ?thesis unfolding vetted_def
    by (intro exI [of _ "u # us"] exI [of _ tail]) simp
qed

lemma vetted_short: "vetted W n []" "vetted W n [Validated u]"
  unfolding vetted_def by (rule exI [of _ "[]"], simp)+

lemma fetch_from_vetted:
  "fetch_from W n url s = (r, s') \<Longrightarrow> public_url W url
   \<Longrightarrow> \<exists>tr. nt_trace s' = nt_trace s @ Requested url # tr \<and> vetted W (Suc n) (Validated url # Requested url # tr)"
proof (induction n arbitrary: url s)
  case 0
  show ?case
    using 0 vetted_Cons [OF 0(2) vetted_short(1) [of W 0]] vetted_Cons [OF 0(2) vetted_short(2) [of W 0]]
    by (auto split: prod.splits sum.splits option.splits dest!: send_trace validate_trace)
next
  case (Suc n)
  obtain q s1 where one: "send W ''GET'' url s = (q, s1)" by fastforce
  note t1 = send_trace [OF one]
  show ?case
  proof (cases "\<exists>h u. q = Inr h \<and> next_url W url h = Some u")
    case False
    then have "s' = s1" using Suc.prems(1) one by (auto split: sum.splits option.splits)
    with t1 vetted_Cons [OF Suc.prems(2) vetted_short(1)] show ?thesis by auto
  next
    case True
    then obtain h u where h: "q = Inr h" "next_url W url h = Some u" by blast
    obtain v s2 where two: "validate W u s1 = (v, s2)" by fastforce
    show ?thesis
    proof (cases v)
      case (Inl e)
      with Suc.prems(1) one h two have "s' = s2" by simp
      with validate_trace [OF two] Inl t1 vetted_Cons [OF Suc.prems(2) vetted_short(1)] show ?thesis by auto
    next
      case (Inr x)
      with validate_trace [OF two] have t2: "nt_trace s2 = nt_trace s1 @ [Validated u]" "public_url W u" by auto
      from Suc.prems(1) one h two Inr have "fetch_from W n u s2 = (r, s')" by simp
      from Suc.IH [OF this t2(2)] obtain tr where "nt_trace s' = nt_trace s2 @ Requested u # tr"
        "vetted W (Suc n) (Validated u # Requested u # tr)" by blast
      with t1 t2 vetted_Cons [OF Suc.prems(2)] show ?thesis by auto
    qed
  qed
qed

text \<open>
  C33. fetch_url requests at most five URLs, each right after it has been validated: an http(s) URL
  whose host resolved to one address, a global one. Redirects are no exception.
\<close>

theorem fetch_requests_vetted:
  "\<exists>tr. nt_trace (snd (fetch_url W max_bytes args s)) = nt_trace s @ tr \<and> vetted W 5 tr"
proof (cases "url_of ''fetch_url'' args")
  case (Inl e)
  with vetted_short(1) show ?thesis by (simp add: fetch_url_def)
next
  case (Inr url)
  obtain v s1 where one: "validate W url s = (v, s1)" by fastforce
  show ?thesis
  proof (cases v)
    case (Inl e)
    with Inr one validate_trace [OF one] vetted_short(1) show ?thesis by (simp add: fetch_url_def)
  next
    case (Inr x)
    with validate_trace [OF one] have t: "nt_trace s1 = nt_trace s @ [Validated url]" "public_url W url" by auto
    obtain r s2 where two: "fetch_from W 4 url s1 = (r, s2)" by fastforce
    from fetch_from_vetted [OF two t(2)] obtain tr where
      "nt_trace s2 = nt_trace s1 @ Requested url # tr" "vetted W 5 (Validated url # Requested url # tr)"
      by (auto simp: eval_nat_numeral)
    moreover have "snd (fetch_url W max_bytes args s) = s2"
      using \<open>url_of _ _ = _\<close> one Inr two by (simp add: fetch_url_def split: sum.split)
    ultimately show ?thesis using t by auto
  qed
qed

text \<open>
  wait_for_http ends: as the clock goes on by the tenth of a second it sleeps between two
  requests, 1,202 rounds are enough for the longest wait it accepts.
\<close>

theorem waiting_ends:
  assumes "\<And>w. wb_clock W w + 1 / 10 \<le> wb_clock W (wb_sleep W (1 / 10) w)"
    and "\<And>w verb u. wb_clock W w \<le> wb_clock W (snd (wb_send W verb u w))"
  shows "wait_for_http W 1202 args s \<noteq> None"
proof -
  have later: "wb_clock W (nt_world s) \<le> wb_clock W (nt_world (snd (send W verb u s)))" for verb u s
    using assms(2) [of "nt_world s" verb u] by (auto simp: send_def split: prod.split)
  have ends: "wait_until W n url deadline e s \<noteq> None"
    if "10 * (deadline - wb_clock W (nt_world s)) + 1 \<le> of_nat n" and "0 < n" for n url deadline e s
    using that
  proof (induction n arbitrary: e s)
    case (Suc n)
    obtain q s1 where one: "send W ''GET'' url s = (q, s1)" by fastforce
    let ?s2 = "s1\<lparr>nt_world := wb_sleep W (1 / 10) (nt_world s1)\<rparr>"
    show ?case
    proof (cases "wb_clock W (nt_world s) < deadline")
      case True
      have "wb_clock W (nt_world s) + 1 / 10 \<le> wb_clock W (nt_world ?s2)"
        using later [of s "''GET''" url] one assms(1) [of "nt_world s1"] by simp
      then have "10 * (deadline - wb_clock W (nt_world ?s2)) + 1 \<le> of_nat n" using Suc.prems(1) by simp
      moreover have "0 < n" using Suc.prems(1) True by (cases n) simp_all
      ultimately have "wait_until W n url deadline e' ?s2 \<noteq> None" for e' by (rule Suc.IH)
      with True one show ?thesis by (auto split: sum.split)
    qed simp
  qed simp
  have short: "t \<le> 120" if "timeout_of args 30 120 = Inr t" for t
    using that by (auto simp: timeout_of_def split: sum.splits)
  have enough: "\<exists>r s'. wait_until W 1202 url (wb_clock W (nt_world s) + t) e s = Some (r, s')"
    if "timeout_of args 30 120 = Inr t" for t url e
    using ends [of "wb_clock W (nt_world s) + t" s 1202 url e] short [OF that] by auto
  show ?thesis
    by (auto simp: wait_for_http_def split: sum.split dest!: enough)
qed

section \<open>Examples\<close>

text \<open>
  A network whose clock is its world: a public host redirects to an address of the link-local
  range, and nothing listens on the local port.
\<close>

definition metadata_url :: string where
  "metadata_url = ''http://169.254.169.254/''"

definition sample_web :: "rat web" where
  "sample_web = \<lparr>
     rs_valid_ipv6 = (\<lambda>t. False),
     rs_getaddrinfo = (\<lambda>host port w. (Some (if host = ''example.com'' then [V4 (ip4 [93, 184, 216, 34])]
        else [V4 (ip4 [169, 254, 169, 254])]), w)),
     wb_send = (\<lambda>verb url w. (if url = ''http://example.com/''
        then Inr \<lparr>rp_url = url, rp_status = 302, rp_location = Some metadata_url, rp_content_type = [], rp_content = [], rp_elapsed = 0\<rparr>
        else if url = metadata_url
        then Inr \<lparr>rp_url = url, rp_status = 200, rp_location = None, rp_content_type = [], rp_content = ''key'', rp_elapsed = 0\<rparr>
        else Inl ''refused'', w)),
     wb_urljoin = (\<lambda>base l. l), wb_decode = (\<lambda>r t. t), wb_strip_html = id, wb_clock = id,
     wb_sleep = (\<lambda>d w. w + d), wb_format = (\<lambda>r. [])\<rparr>"

definition offline :: "rat net" where
  "offline = \<lparr>nt_trace = [], nt_world = 0\<rparr>"

theorem waiting_witness: "wait_for_http sample_web 1202 [(''url'', JStr ''http://localhost:8000'')] offline \<noteq> None"
  by (rule waiting_ends) (simp_all add: sample_web_def)

definition example_args :: dict where
  "example_args = [(''url'', JStr ''http://example.com/'')]"

text \<open>fetch_url stops at the redirect; check_url_health follows it.\<close>

lemma fetch_stops_at_redirect:
  "nt_trace (snd (fetch_url sample_web 100 example_args offline))
   = [Validated ''http://example.com/'', Requested ''http://example.com/'']"
  by code_simp

lemma health_check_follows_redirect:
  "nt_trace (snd (check_url_health sample_web example_args offline))
   = [Validated ''http://example.com/'', Requested ''http://example.com/'', Requested metadata_url]"
  by code_simp

end
