(* ===== verification/Json.thy ===== *)
theory Json
  imports Tools
begin

text \<open>
  The standard library's json module as the note tools of marcus_code/tools/extra.py use it:
  \<open>json.dumps(value, ensure_ascii=False, indent=2)\<close> and \<open>json.loads\<close>. How a float is written and read
  (\<open>float.__repr__\<close> and \<open>float\<close>) is a parameter. An escape of a character outside the texts of the
  model (beyond code 255) is not read, nor are NaN and the infinities, which are no JSON values.
\<close>

section \<open>Writing\<close>

record float_format =
  ff_repr :: "rat \<Rightarrow> string"
  ff_float :: "string \<Rightarrow> rat"

definition escaped :: "char \<Rightarrow> string" where
  "escaped c =
     (if c = CHR 34 then [CHR 92, CHR 34]
      else if c = CHR 92 then [CHR 92, CHR 92]
      else if c = CHR 10 then [CHR 92, CHR ''n'']
      else if c = CHR 13 then [CHR 92, CHR ''r'']
      else if c = CHR 9 then [CHR 92, CHR ''t'']
      else if c = CHR 12 then [CHR 92, CHR ''f'']
      else if c = CHR 8 then [CHR 92, CHR ''b'']
      else if (of_char c :: nat) < 32
      then [CHR 92, CHR ''u''] @ map hex_char (hex_digits 4 (of_char c))
      else [c])"

definition quoted :: "string \<Rightarrow> string" where
  "quoted s = [CHR 34] @ concat (map escaped s) @ [CHR 34]"

text \<open>The line break before a value at a level of nesting.\<close>

definition new_line :: "nat \<Rightarrow> string" where
  "new_line n = CHR 10 # replicate (2 * n) CHR '' ''"

fun dump :: "float_format \<Rightarrow> nat \<Rightarrow> json \<Rightarrow> string"
  and dump_items :: "float_format \<Rightarrow> nat \<Rightarrow> json list \<Rightarrow> string"
  and dump_members :: "float_format \<Rightarrow> nat \<Rightarrow> dict \<Rightarrow> string" where
  "dump F n JNull = ''null''"
| "dump F n (JBool b) = (if b then ''true'' else ''false'')"
| "dump F n (JInt i) = str_of_int i"
| "dump F n (JFloat r) = ff_repr F r"
| "dump F n (JStr s) = quoted s"
| "dump F n (JList xs) =
     (if xs = [] then ''[]'' else ''['' @ new_line (Suc n) @ dump_items F (Suc n) xs @ new_line n @ '']'')"
| "dump F n (JObj d) =
     (if d = [] then ''{}'' else ''{'' @ new_line (Suc n) @ dump_members F (Suc n) d @ new_line n @ ''}'')"
| "dump_items F n [] = []"
| "dump_items F n (x # xs) =
     dump F n x @ (if xs = [] then [] else '','' @ new_line n @ dump_items F n xs)"
| "dump_members F n [] = []"
| "dump_members F n ((k, x) # d) =
     quoted k @ '': '' @ dump F n x @ (if d = [] then [] else '','' @ new_line n @ dump_members F n d)"

definition dumps :: "float_format \<Rightarrow> json \<Rightarrow> string" where
  "dumps F v = dump F 0 v"

section \<open>Reading\<close>

definition json_space :: "char \<Rightarrow> bool" where
  "json_space c = (c = CHR '' '' \<or> c = CHR 9 \<or> c = CHR 10 \<or> c = CHR 13)"

definition skip_space :: "string \<Rightarrow> string" where
  "skip_space s = dropWhile json_space s"

definition hex_value :: "char \<Rightarrow> nat option" where
  "hex_value c =
     (let k = of_char c :: nat in
      if 48 \<le> k \<and> k \<le> 57 then Some (k - 48)
      else if 97 \<le> k \<and> k \<le> 102 then Some (k - 87)
      else if 65 \<le> k \<and> k \<le> 70 then Some (k - 55)
      else None)"

definition unescape :: "char \<Rightarrow> char option" where
  "unescape c = map_of
     [(CHR 34, CHR 34), (CHR 92, CHR 92), (CHR ''/'', CHR ''/''), (CHR ''b'', CHR 8), (CHR ''f'', CHR 12),
      (CHR ''n'', CHR 10), (CHR ''r'', CHR 13), (CHR ''t'', CHR 9)] c"

definition coded_char :: "char \<Rightarrow> char \<Rightarrow> char \<Rightarrow> char \<Rightarrow> char option" where
  "coded_char a b c d =
     (case (hex_value a, hex_value b, hex_value c, hex_value d) of
        (Some w, Some x, Some y, Some z) \<Rightarrow>
          (let k = ((w * 16 + x) * 16 + y) * 16 + z in if k < 256 then Some (char_of k) else None)
      | _ \<Rightarrow> None)"

definition read_escape :: "string \<Rightarrow> (char \<times> string) option" where
  "read_escape cs =
     (case cs of
        [] \<Rightarrow> None
      | e # ds \<Rightarrow>
          if e = CHR ''u''
          then (case ds of
                  h1 # h2 # h3 # h4 # r \<Rightarrow> map_option (\<lambda>x. (x, r)) (coded_char h1 h2 h3 h4)
                | _ \<Rightarrow> None)
          else map_option (\<lambda>x. (x, ds)) (unescape e))"

text \<open>The rest of a string after its opening quote; an escape always takes characters.\<close>

fun read_string :: "string \<Rightarrow> (string \<times> string) option" where
  "read_string [] = None"
| "read_string (c # cs) =
     (if c = CHR 34 then Some ([], cs)
      else if c = CHR 92
      then (case read_escape cs of
              None \<Rightarrow> None
            | Some (x, ds) \<Rightarrow>
                if length ds < length cs then map_option (apfst ((#) x)) (read_string ds) else None)
      else if (of_char c :: nat) < 32 then None
      else map_option (apfst ((#) c)) (read_string cs))"

text \<open>A number's text, whether it is a float, and the rest.\<close>

definition digits_of :: "string \<Rightarrow> string \<times> string" where
  "digits_of s = (takeWhile is_digit s, dropWhile is_digit s)"

definition int_part :: "string \<Rightarrow> (string \<times> string) option" where
  "int_part s =
     (case s of
        [] \<Rightarrow> None
      | c # cs \<Rightarrow>
          if c = CHR ''0'' then Some ([c], cs)
          else if is_digit c then Some (digits_of s)
          else None)"

definition frac_part :: "string \<Rightarrow> string \<times> string" where
  "frac_part s =
     (case s of
        p # c # cs \<Rightarrow>
          if p = CHR ''.'' \<and> is_digit c
          then (let (d, r) = digits_of (c # cs) in (p # d, r)) else ([], s)
      | _ \<Rightarrow> ([], s))"

definition sign_part :: "string \<Rightarrow> string \<times> string" where
  "sign_part s =
     (case s of c # cs \<Rightarrow> if c = CHR ''+'' \<or> c = CHR ''-'' then ([c], cs) else ([], s) | [] \<Rightarrow> ([], s))"

definition exp_part :: "string \<Rightarrow> string \<times> string" where
  "exp_part s =
     (case s of
        e # cs \<Rightarrow>
          if e = CHR ''e'' \<or> e = CHR ''E''
          then (let (g, ds) = sign_part cs; (d, r) = digits_of ds in
                if d = [] then ([], s) else (e # g @ d, r))
          else ([], s)
      | [] \<Rightarrow> ([], s))"

definition scan_number :: "string \<Rightarrow> (string \<times> bool \<times> string) option" where
  "scan_number s =
     (let (g, s1) = (if str_startswith s ''-'' then (''-'', tl s) else ([], s)) in
      case int_part s1 of
        None \<Rightarrow> None
      | Some (i, s2) \<Rightarrow>
          (let (f, s3) = frac_part s2; (e, s4) = exp_part s3 in
           Some (g @ i @ f @ e, f \<noteq> [] \<or> e \<noteq> [], s4)))"

definition int_of_str :: "string \<Rightarrow> int" where
  "int_of_str t =
     (if str_startswith t ''-'' then - int (nat_of_str (tl t)) else int (nat_of_str t))"

definition read_number :: "float_format \<Rightarrow> string \<Rightarrow> (json \<times> string) option" where
  "read_number F s =
     (case scan_number s of
        None \<Rightarrow> None
      | Some (t, is_float, r) \<Rightarrow> Some (if is_float then JFloat (ff_float F t) else JInt (int_of_str t), r))"

text \<open>
  A value, the items of a list up to its bracket, the members of an object up to its brace. Every
  call has one unit less of fuel; \<open>fuel_for\<close> is enough for a text.
\<close>

fun read_value :: "float_format \<Rightarrow> nat \<Rightarrow> string \<Rightarrow> (json \<times> string) option"
  and read_items :: "float_format \<Rightarrow> nat \<Rightarrow> string \<Rightarrow> (json list \<times> string) option"
  and read_members :: "float_format \<Rightarrow> nat \<Rightarrow> dict \<Rightarrow> string \<Rightarrow> (dict \<times> string) option" where
  "read_value F 0 s = None"
| "read_value F (Suc n) s =
     (case s of
        [] \<Rightarrow> None
      | c # cs \<Rightarrow>
          if c = CHR 34 then map_option (apfst JStr) (read_string cs)
          else if c = CHR ''{''
          then (let r = skip_space cs in
                if str_startswith r ''}'' then Some (JObj [], tl r)
                else map_option (apfst JObj) (read_members F n [] r))
          else if c = CHR ''[''
          then (let r = skip_space cs in
                if str_startswith r '']'' then Some (JList [], tl r)
                else map_option (apfst JList) (read_items F n r))
          else if str_startswith s ''null'' then Some (JNull, drop 4 s)
          else if str_startswith s ''true'' then Some (JBool True, drop 4 s)
          else if str_startswith s ''false'' then Some (JBool False, drop 5 s)
          else read_number F s)"
| "read_items F 0 s = None"
| "read_items F (Suc n) s =
     (case read_value F n s of
        None \<Rightarrow> None
      | Some (v, r) \<Rightarrow>
          (case skip_space r of
             c # cs \<Rightarrow>
               if c = CHR '']'' then Some ([v], cs)
               else if c = CHR '','' then map_option (apfst ((#) v)) (read_items F n (skip_space cs))
               else None
           | [] \<Rightarrow> None))"
| "read_members F 0 d s = None"
| "read_members F (Suc n) d s =
     (case s of
        [] \<Rightarrow> None
      | c # cs \<Rightarrow>
          if c \<noteq> CHR 34 then None
          else (case read_string cs of
                  None \<Rightarrow> None
                | Some (k, r) \<Rightarrow>
                    (case skip_space r of
                       [] \<Rightarrow> None
                     | c1 # r1 \<Rightarrow>
                         if c1 \<noteq> CHR '':'' then None
                         else (case read_value F n (skip_space r1) of
                                 None \<Rightarrow> None
                               | Some (v, r2) \<Rightarrow>
                                   (case skip_space r2 of
                                      [] \<Rightarrow> None
                                    | c3 # r3 \<Rightarrow>
                                        if c3 = CHR ''}'' then Some (dict_set k v d, r3)
                                        else if c3 = CHR '',''
                                        then read_members F n (dict_set k v d) (skip_space r3)
                                        else None)))))"

definition fuel_for :: "string \<Rightarrow> nat" where
  "fuel_for s = Suc (2 * length s)"

definition loads :: "float_format \<Rightarrow> string \<Rightarrow> json option" where
  "loads F s =
     (let t = skip_space s in
      case read_value F (fuel_for t) t of
        Some (v, r) \<Rightarrow> if skip_space r = [] then Some v else None
      | None \<Rightarrow> None)"

section \<open>What is read leaves less\<close>

lemma length_skip_space: "length (skip_space s) \<le> length s"
  by (simp add: skip_space_def length_dropWhile_le)

lemma skip_space_Cons: "skip_space s = c # cs \<Longrightarrow> Suc (length cs) \<le> length s"
  using length_skip_space [of s] by simp

lemma read_string_less: "read_string s = Some (t, r) \<Longrightarrow> length r < length s"
proof (induction s arbitrary: t r rule: read_string.induct)
  case (2 c cs)
  then show ?case
    by (fastforce split: if_splits option.splits)
qed simp

lemma length_digits: "digits_of s = (d, r) \<Longrightarrow> length d + length r = length s"
  by (auto simp: digits_of_def length_dropWhile_le simp flip: length_append)

lemma int_part_less: "int_part s = Some (i, r) \<Longrightarrow> length r < length s"
  by (auto simp: int_part_def digits_of_def length_dropWhile_le less_Suc_eq_le split: list.splits if_splits)

lemma frac_part_le: "frac_part s = (f, r) \<Longrightarrow> length r \<le> length s"
  by (auto simp: frac_part_def digits_of_def length_dropWhile_le le_SucI split: list.splits if_splits)

lemma sign_part_le: "sign_part s = (g, r) \<Longrightarrow> length r \<le> length s"
  by (auto simp: sign_part_def split: list.splits if_splits)

lemma exp_part_le: "exp_part s = (e, r) \<Longrightarrow> length r \<le> length s"
proof (cases s)
  case (Cons c cs)
  moreover obtain g ds where g: "sign_part cs = (g, ds)" by (cases "sign_part cs")
  ultimately show "exp_part s = (e, r) \<Longrightarrow> length r \<le> length s"
    using sign_part_le [OF g] length_dropWhile_le [of is_digit ds]
    by (auto simp: exp_part_def digits_of_def split: if_splits)
qed (simp add: exp_part_def)

lemma scan_number_less:
  assumes "scan_number s = Some (t, b, r)"
  shows "length r < length s"
proof -
  obtain g s1 where g: "(if str_startswith s ''-'' then (''-'', tl s) else ([], s)) = (g, s1)"
    by (cases "str_startswith s ''-''") auto
  then have le: "length s1 \<le> length s" by (auto split: if_splits)
  obtain i s2 where i: "int_part s1 = Some (i, s2)"
    using assms g by (cases "int_part s1") (auto simp: scan_number_def)
  obtain f s3 where f: "frac_part s2 = (f, s3)" by (cases "frac_part s2")
  obtain e s4 where e: "exp_part s3 = (e, s4)" by (cases "exp_part s3")
  have "r = s4" using assms g i f e by (simp add: scan_number_def)
  then show ?thesis
    using le int_part_less [OF i] frac_part_le [OF f] exp_part_le [OF e] by simp
qed

lemma read_number_less: "read_number F s = Some (v, r) \<Longrightarrow> length r < length s"
  by (auto simp: read_number_def dest: scan_number_less split: option.splits)

lemma read_items_cases:
  assumes "read_items F (Suc n) s = Some (xs, r)"
  obtains v r1 c cs where "read_value F n s = Some (v, r1)" "skip_space r1 = c # cs"
    "xs = [v] \<and> r = cs \<or> (\<exists>ys. read_items F n (skip_space cs) = Some (ys, r) \<and> xs = v # ys)"
proof -
  obtain v r1 where v: "read_value F n s = Some (v, r1)"
    using assms by (auto split: option.splits)
  obtain c cs where c: "skip_space r1 = c # cs"
    using assms v by (auto split: list.splits)
  show thesis
    using assms v c by (intro that [OF v c]) (auto split: if_splits)
qed

lemma read_members_cases:
  assumes "read_members F (Suc n) d s = Some (d', r)"
  obtains c cs k r1 r1' v r2 c3 r3 where "s = c # cs" "read_string cs = Some (k, r1)"
    "skip_space r1 = CHR '':'' # r1'" "read_value F n (skip_space r1') = Some (v, r2)"
    "skip_space r2 = c3 # r3"
    "d' = dict_set k v d \<and> r = r3 \<or> read_members F n (dict_set k v d) (skip_space r3) = Some (d', r)"
proof -
  obtain c cs where s: "s = c # cs" using assms by (cases s) auto
  obtain k r1 where k: "read_string cs = Some (k, r1)"
    using assms s by (auto split: if_splits option.splits)
  obtain r1' where r1': "skip_space r1 = CHR '':'' # r1'"
    using assms s k by (auto split: if_splits list.splits)
  obtain v r2 where v: "read_value F n (skip_space r1') = Some (v, r2)"
    using assms s k r1' by (auto split: if_splits option.splits)
  obtain c3 r3 where r3: "skip_space r2 = c3 # r3"
    using assms s k r1' v by (auto split: if_splits list.splits)
  show thesis
    using assms s k r1' v r3 by (intro that [OF s k r1' v r3]) (auto split: if_splits)
qed

lemma read_value_cases:
  assumes "read_value F (Suc n) s = Some (v, r)"
  obtains (string) cs t where "s = CHR 34 # cs" "read_string cs = Some (t, r)"
  | (none) c cs where "s = c # cs" "r = tl (skip_space cs)"
  | (object) c cs d where "s = c # cs" "read_members F n [] (skip_space cs) = Some (d, r)"
  | (items) c cs xs where "s = c # cs" "read_items F n (skip_space cs) = Some (xs, r)"
  | (word) k where "s \<noteq> []" "r = drop (Suc k) s"
  | (number) "read_number F s = Some (v, r)"
proof -
  obtain c cs where s: "s = c # cs" using assms by (cases s) auto
  have word: "str_startswith s w \<Longrightarrow> r = drop (Suc k) s \<Longrightarrow> thesis" for w k
    using s by (intro that(5)) simp_all
  show thesis
  proof (cases "c = CHR 34 \<or> c = CHR ''{'' \<or> c = CHR ''[''")
    case True
    then show ?thesis
      using assms s that(1) [of cs] that(2) [of c cs] that(3) [of c cs] that(4) [of c cs]
      by (auto simp: Let_def split: if_splits)
  next
    case False
    then show ?thesis
      using assms s that(6) word [of "''null''" 3] word [of "''true''" 3] word [of "''false''" 4]
      by (auto simp: numeral_eq_Suc split: if_splits)
  qed
qed

lemma read_less:
  "read_value F n s = Some (v, r) \<Longrightarrow> length r < length s"
  "read_items F n s = Some (xs, r) \<Longrightarrow> length r < length s"
  "read_members F n d s = Some (d', r) \<Longrightarrow> length r < length s"
proof (induction n arbitrary: s v r xs d d')
  case (Suc n)
  have val: "length r < length s" if "read_value F (Suc n) s = Some (v, r)" for s v r
    using that
  proof (cases rule: read_value_cases)
    case (none c cs)
    then show ?thesis using length_skip_space [of cs] by (cases "skip_space cs") simp_all
  next
    case (object c cs d)
    then show ?thesis using Suc.IH(3) [OF object(2)] length_skip_space [of cs] by simp
  next
    case (items c cs xs)
    then show ?thesis using Suc.IH(2) [OF items(2)] length_skip_space [of cs] by simp
  qed (auto dest: read_string_less read_number_less)
  have items: "length r < length s" if "read_items F (Suc n) s = Some (xs, r)" for s xs r
    using that
  proof (cases rule: read_items_cases)
    case (1 v r1 c cs)
    show ?thesis
      using Suc.IH(1) [OF 1(1)] skip_space_Cons [OF 1(2)] 1(3) length_skip_space [of cs]
        Suc.IH(2) [of "skip_space cs" _ r] by fastforce
  qed
  have members: "length r < length s" if "read_members F (Suc n) d s = Some (d', r)" for d s d' r
    using that
  proof (cases rule: read_members_cases)
    case (1 c cs k r1 r1' v r2 c3 r3)
    have "length r3 < length s"
      using read_string_less [OF 1(2)] skip_space_Cons [OF 1(3)] length_skip_space [of r1']
        Suc.IH(1) [OF 1(4)] skip_space_Cons [OF 1(5)] by (simp add: 1(1))
    moreover have "length r \<le> length r3"
      using 1(6) length_skip_space [of r3] Suc.IH(3) [of _ "skip_space r3" d' r] by fastforce
    ultimately show ?thesis by simp
  qed
  { case 1 then show ?case by (rule val) next
    case 2 then show ?case by (rule items) next
    case 3 then show ?case by (rule members) }
qed simp_all

text \<open>The fuel is enough: more of it does not change what is read.\<close>

lemma enough_fuel:
  "2 * length s < n \<Longrightarrow> 2 * length s < m \<Longrightarrow> read_value F n s = read_value F m s"
  "2 * length s + 1 < n \<Longrightarrow> 2 * length s + 1 < m \<Longrightarrow> read_items F n s = read_items F m s"
  "2 * length s < n \<Longrightarrow> 2 * length s < m \<Longrightarrow> read_members F n d s = read_members F m d s"
proof (induction n arbitrary: m s d)
  case (Suc n)
  have val: "read_value F (Suc n) s = read_value F m s" if less: "2 * length s < Suc n" "2 * length s < m" for s m
  proof -
    obtain k where m: "m = Suc k" using less(2) by (cases m) auto
    show ?thesis
    proof (cases s)
      case (Cons c cs)
      have "length (skip_space cs) \<le> length cs" by (rule length_skip_space)
      then have "read_items F n (skip_space cs) = read_items F k (skip_space cs)"
        and "read_members F n [] (skip_space cs) = read_members F k [] (skip_space cs)"
        using less m Cons by (auto intro!: Suc.IH(2,3))
      then show ?thesis by (simp add: m Cons Let_def)
    qed (simp add: m)
  qed
  have items: "read_items F (Suc n) s = read_items F m s"
    if less: "2 * length s + 1 < Suc n" "2 * length s + 1 < m" for s m
  proof -
    obtain k where m: "m = Suc k" using less(2) by (cases m) auto
    have v: "read_value F n s = read_value F k s" using less m by (intro Suc.IH(1)) auto
    have "read_items F n (skip_space cs) = read_items F k (skip_space cs)"
      if "read_value F k s = Some (v, r)" "skip_space r = c # cs" for v r c cs
      using less m read_less(1) [OF that(1)] skip_space_Cons [OF that(2)] length_skip_space [of cs]
      by (intro Suc.IH(2)) auto
    then show ?thesis by (auto simp: m v split: option.splits list.splits)
  qed
  have members: "read_members F (Suc n) d s = read_members F m d s"
    if less: "2 * length s < Suc n" "2 * length s < m" for s m d
  proof -
    obtain k where m: "m = Suc k" using less(2) by (cases m) auto
    have v: "read_value F n (skip_space r') = read_value F k (skip_space r')"
      if "s = c # cs" "read_string cs = Some (w, r)" "skip_space r = c' # r'" for c cs w r c' r'
      using less m that(1) read_string_less [OF that(2)] skip_space_Cons [OF that(3)] length_skip_space [of r']
      by (intro Suc.IH(1)) auto
    have rest: "read_members F n d' (skip_space r3) = read_members F k d' (skip_space r3)"
      if "s = c # cs" "read_string cs = Some (w, r)" "skip_space r = c' # r'"
        "read_value F k (skip_space r') = Some (x, r2)" "skip_space r2 = c3 # r3" for c cs w r c' r' x r2 c3 r3 d'
      using less m that(1) read_string_less [OF that(2)] skip_space_Cons [OF that(3)] length_skip_space [of r']
        read_less(1) [OF that(4)] skip_space_Cons [OF that(5)] length_skip_space [of r3]
      by (intro Suc.IH(3)) auto
    show ?thesis
    proof (cases s)
      case (Cons c cs)
      show ?thesis
      proof (cases "read_string cs")
        case (Some p)
        then obtain w r where p: "read_string cs = Some (w, r)" by (cases p) auto
        show ?thesis
        proof (cases "skip_space r")
          case r': (Cons c' r')
          show ?thesis
            using v [OF Cons p r'] rest [OF Cons p r']
            by (auto simp: m Cons p r' split: option.splits list.splits)
        qed (simp add: m Cons p)
      qed (simp add: m Cons)
    qed (simp add: m)
  qed
  { case 1 then show ?case by (rule val) next
    case 2 then show ?case by (rule items) next
    case 3 then show ?case by (rule members) }
qed simp_all

section \<open>What is written is read back\<close>

lemma hex_value_char: "d < 16 \<Longrightarrow> hex_value (hex_char d) = Some d"
  by (auto simp: hex_value_def hex_char_code Let_def)

lemma four_digits: "hex_digits 4 n = [n div 4096 mod 16, n div 256 mod 16, n div 16 mod 16, n mod 16]"
proof -
  have "hex_digits (Suc (Suc (Suc (Suc 0)))) n =
      [n div 4096 mod 16, n div 256 mod 16, n div 16 mod 16, n mod 16]"
    by (simp add: div_mult2_eq [symmetric])
  moreover have "(4::nat) = Suc (Suc (Suc (Suc 0)))" by simp
  ultimately show ?thesis by (simp only:)
qed

lemma coded_control:
  assumes "(of_char c :: nat) < 32"
  shows "coded_char (hex_char (of_char c div 4096 mod 16)) (hex_char (of_char c div 256 mod 16))
    (hex_char (of_char c div 16 mod 16)) (hex_char (of_char c mod 16)) = Some c"
proof -
  have "(of_char c :: nat) div 4096 = 0" "(of_char c :: nat) div 256 = 0" "(of_char c :: nat) div 16 < 16"
    using assms by auto
  moreover have "(of_char c :: nat) div 16 * 16 + of_char c mod 16 = of_char c" by simp
  ultimately show ?thesis
    using assms by (simp add: coded_char_def hex_value_char Let_def)
qed

lemma read_escaped: "read_string (escaped c @ t) = map_option (apfst ((#) c)) (read_string t)"
proof (cases "c \<in> {CHR 34, CHR 92, CHR 10, CHR 13, CHR 9, CHR 12, CHR 8}")
  case True
  then show ?thesis
    by (auto simp: escaped_def read_escape_def unescape_def)
next
  case False
  show ?thesis
  proof (cases "(of_char c :: nat) < 32")
    case True
    with False show ?thesis
      using coded_control [OF True]
      by (simp add: escaped_def four_digits read_escape_def)
  next
    case hi: False
    with False show ?thesis by (simp add: escaped_def)
  qed
qed

lemma read_quoted: "read_string (concat (map escaped s) @ CHR 34 # r) = Some (s, r)"
  by (induction s) (simp_all add: read_escaped)

lemma escaped_no_cr: "CHR 13 \<notin> set (escaped c)"
proof -
  have "CHR 13 \<noteq> hex_char d" if "d < 16" for d
  proof
    assume "CHR 13 = hex_char d"
    then have "hex_value (CHR 13) = Some d" using hex_value_char [OF that] by simp
    then show False by (simp add: hex_value_def)
  qed
  then show ?thesis
    by (auto simp: escaped_def four_digits)
qed

lemma quoted_no_cr: "CHR 13 \<notin> set (quoted s)"
  by (auto simp: quoted_def escaped_no_cr)

text \<open>A text before which a number ends.\<close>

definition stops :: "string \<Rightarrow> bool" where
  "stops s = (case s of [] \<Rightarrow> True | c # _ \<Rightarrow> \<not> is_digit c \<and> c \<notin> set ''.eE+-'')"

lemma digits_of_append: "stops r \<Longrightarrow> digits_of (s @ r) = apsnd (\<lambda>q. q @ r) (digits_of s)"
  by (induction s) (auto simp: digits_of_def stops_def split: list.splits)

lemma int_part_append:
  "stops r \<Longrightarrow> int_part s = Some (i, q) \<Longrightarrow> int_part (s @ r) = Some (i, q @ r)"
  using digits_of_append [of r s]
  by (auto simp: int_part_def split: list.splits if_splits)

lemma frac_part_append: "stops r \<Longrightarrow> frac_part s = (f, q) \<Longrightarrow> frac_part (s @ r) = (f, q @ r)"
proof (cases s)
  case Nil
  then show "stops r \<Longrightarrow> frac_part s = (f, q) \<Longrightarrow> ?thesis"
    by (auto simp: frac_part_def stops_def split: list.splits)
next
  case (Cons p cs)
  show "stops r \<Longrightarrow> frac_part s = (f, q) \<Longrightarrow> ?thesis"
  proof (cases cs)
    case Nil
    then show "stops r \<Longrightarrow> frac_part s = (f, q) \<Longrightarrow> ?thesis"
      using Cons by (auto simp: frac_part_def stops_def split: list.splits)
  next
    case (Cons c ds)
    assume "stops r" "frac_part s = (f, q)"
    then show ?thesis
      using Cons \<open>s = p # cs\<close> digits_of_append [of r "c # ds"]
      by (auto simp: frac_part_def split: prod.splits if_splits)
  qed
qed

lemma sign_part_append: "stops r \<Longrightarrow> sign_part (s @ r) = apsnd (\<lambda>q. q @ r) (sign_part s)"
  by (auto simp: sign_part_def stops_def split: list.splits)

lemma exp_part_append: "stops r \<Longrightarrow> exp_part s = (e, q) \<Longrightarrow> exp_part (s @ r) = (e, q @ r)"
  by (cases s) (auto simp: exp_part_def stops_def sign_part_append digits_of_append split: list.splits prod.splits if_splits)

lemma scan_number_append:
  assumes "stops r" "scan_number s = Some (t, b, [])"
  shows "scan_number (s @ r) = Some (t, b, r)"
proof -
  have "s \<noteq> []" using scan_number_less [OF assms(2)] by auto
  then have start: "str_startswith (s @ r) ''-'' = str_startswith s ''-''"
    by (cases s) (simp_all add: str_startswith_def)
  define s1 where "s1 = (if str_startswith s ''-'' then tl s else s)"
  obtain i s2 where i: "int_part s1 = Some (i, s2)"
    using assms(2) by (cases "int_part s1") (auto simp: scan_number_def s1_def split: if_splits)
  obtain f s3 where f: "frac_part s2 = (f, s3)" by (cases "frac_part s2")
  obtain e s4 where e: "exp_part s3 = (e, s4)" by (cases "exp_part s3")
  note parts = int_part_append [OF assms(1) i] frac_part_append [OF assms(1) f] exp_part_append [OF assms(1) e]
  show ?thesis
    using assms(2) i f e parts \<open>s \<noteq> []\<close> start
    by (auto simp: scan_number_def s1_def split: if_splits)
qed

lemma nat_text_zero: "hd (str_of_nat n) = CHR ''0'' \<Longrightarrow> n = 0"
proof (induction n rule: str_of_nat.induct)
  case (1 n)
  show ?case
  proof (cases "n < 10")
    case True
    have "(of_char (char_of (48 + n) :: char) :: nat) = 48 + n" using True by (rule of_char_digit)
    moreover have "str_of_nat n = [char_of (48 + n)]" using True by (subst str_of_nat.simps) simp
    with 1(2) have "char_of (48 + n) = CHR ''0''" by (simp only: list.sel)
    ultimately have "(of_char (CHR ''0'') :: nat) = 48 + n" by (simp only:)
    then show ?thesis by simp
  next
    case False
    have "hd (str_of_nat n) = hd (str_of_nat (n div 10))"
      using False by (subst str_of_nat.simps) simp
    then show ?thesis using 1 False by simp
  qed
qed

lemma int_part_nat: "int_part (str_of_nat n) = Some (str_of_nat n, [])"
proof -
  obtain c cs where c: "str_of_nat n = c # cs" by (cases "str_of_nat n") auto
  have digits: "takeWhile is_digit (str_of_nat n) = str_of_nat n"
    using str_of_nat_digits [of n] by (simp add: list_all_iff takeWhile_eq_all_conv)
  show ?thesis
  proof (cases "c = CHR ''0''")
    case True
    then have "n = 0" using c nat_text_zero [of n] by simp
    moreover have "str_of_nat 0 = ''0''" by code_simp
    ultimately show ?thesis by (simp add: int_part_def)
  next
    case False
    moreover have "is_digit c" using str_of_nat_digits [of n] c by simp
    ultimately show ?thesis
      using c digits by (simp add: int_part_def digits_of_def)
  qed
qed

lemma nat_text_no_sign:
  "\<not> str_startswith (str_of_nat n) ''-''" "str_startswith (c # cs) ''-'' \<longleftrightarrow> c = CHR ''-''"
  using minus_not_digit str_of_nat_digits [of n]
  by (cases "str_of_nat n"; force simp: str_startswith_def)+

lemma scan_int: "scan_number (str_of_int i) = Some (str_of_int i, False, [])"
  by (simp add: scan_number_def str_of_int_def int_part_nat frac_part_def exp_part_def
      nat_text_no_sign)

lemma int_of_str_of_int [simp]: "int_of_str (str_of_int i) = i"
  by (simp add: int_of_str_def str_of_int_def nat_text_no_sign)

text \<open>
  A value the module writes and reads back: the keys of its objects are distinct, and its floats are
  written as float texts that read as the same float.
\<close>

definition float_ok :: "float_format \<Rightarrow> rat \<Rightarrow> bool" where
  "float_ok F r \<longleftrightarrow>
     scan_number (ff_repr F r) = Some (ff_repr F r, True, []) \<and> ff_float F (ff_repr F r) = r"

fun writable :: "float_format \<Rightarrow> json \<Rightarrow> bool" where
  "writable F (JFloat r) = float_ok F r"
| "writable F (JList xs) = list_all (writable F) xs"
| "writable F (JObj d) = (distinct (map fst d) \<and> list_all (\<lambda>p. writable F (snd p)) d)"
| "writable F _ = True"

lemma skip_new_line [simp]: "skip_space (new_line n @ s) = skip_space s"
proof -
  have "dropWhile json_space (replicate m CHR '' '' @ s) = dropWhile json_space s" for m
    by (induction m) (simp_all add: json_space_def)
  then show ?thesis by (simp add: new_line_def skip_space_def json_space_def)
qed

lemma skip_others [simp]:
  "skip_space (CHR '','' # s) = CHR '','' # s" "skip_space (CHR '']'' # s) = CHR '']'' # s"
  "skip_space (CHR ''}'' # s) = CHR ''}'' # s" "skip_space (CHR '':'' # s) = CHR '':'' # s"
  "skip_space (CHR '' '' # s) = skip_space s" "skip_space (CHR 34 # s) = CHR 34 # s"
  by (simp_all add: skip_space_def json_space_def)

lemma stops_new_line [simp]: "stops (new_line n @ s)" "stops (CHR '','' # s)"
  by (simp_all add: stops_def new_line_def is_digit_def)

text \<open>A written value begins with a character that is no space and no closing bracket.\<close>

definition starts_value :: "string \<Rightarrow> bool" where
  "starts_value s \<longleftrightarrow> s \<noteq> [] \<and> \<not> json_space (hd s) \<and> hd s \<noteq> CHR '']'' \<and> hd s \<noteq> CHR ''}''"

lemma starts_value_append:
  "starts_value s \<Longrightarrow> starts_value (s @ t)" "starts_value s \<Longrightarrow> skip_space (s @ t) = s @ t"
  "starts_value s \<Longrightarrow> \<not> str_startswith (s @ t) '']''"
  by (cases s; auto simp: starts_value_def skip_space_def str_startswith_def)+

lemma scan_number_head:
  assumes "scan_number s = Some (t, b, r)"
  shows "s \<noteq> [] \<and> (hd s = CHR ''-'' \<or> is_digit (hd s))"
proof (cases s)
  case Nil
  then show ?thesis using scan_number_less [OF assms] by simp
next
  case (Cons c cs)
  then show ?thesis
    using assms
    by (auto simp: scan_number_def nat_text_no_sign int_part_def is_digit_def split: option.splits if_splits)
qed

lemma starts_number:
  assumes "scan_number s = Some (t, b, r)"
  shows "starts_value s" "hd s \<notin> {CHR 34, CHR ''{'', CHR ''['', CHR ''n'', CHR ''t'', CHR ''f''}"
  using scan_number_head [OF assms] by (auto simp: starts_value_def json_space_def is_digit_def)

lemma starts_dump: "writable F v \<Longrightarrow> starts_value (dump F n v)"
proof (cases v)
  case (JInt i)
  then show ?thesis using starts_number(1) [OF scan_int] by simp
next
  case (JFloat r)
  then show "writable F v \<Longrightarrow> ?thesis" by (auto simp: float_ok_def intro: starts_number(1))
qed (auto simp: starts_value_def json_space_def quoted_def)

lemma read_value_number:
  assumes "stops r" "scan_number s = Some (s, b, [])" "k > 0"
  shows "read_value F k (s @ r) = Some (if b then JFloat (ff_float F s) else JInt (int_of_str s), r)"
proof -
  obtain j where k: "k = Suc j" using assms(3) by (cases k) auto
  obtain c cs where s: "s = c # cs" using starts_number(1) [OF assms(2)] by (cases s) (auto simp: starts_value_def)
  have c: "c \<notin> {CHR 34, CHR ''{'', CHR ''['', CHR ''n'', CHR ''t'', CHR ''f''}"
    using starts_number(2) [OF assms(2)] by (simp add: s)
  have "read_value F k (s @ r) = read_number F (s @ r)"
    using c by (simp add: k s str_startswith_def)
  then show ?thesis
    using scan_number_append [OF assms(1,2)] by (simp add: read_number_def)
qed

lemma update_append_new: "k \<notin> fst ` set d \<Longrightarrow> AList.update k v d = d @ [(k, v)]"
  by (induction d) auto

lemma read_dump:
  "writable F v \<Longrightarrow> stops r \<Longrightarrow> \<exists>k. \<forall>m>k. read_value F m (dump F n v @ r) = Some (v, r)"
  "list_all (writable F) xs \<Longrightarrow> xs \<noteq> [] \<Longrightarrow>
     \<exists>k. \<forall>m>k. read_items F m (dump_items F n xs @ new_line j @ CHR '']'' # r) = Some (xs, r)"
  "list_all (\<lambda>p. writable F (snd p)) d \<Longrightarrow> distinct (map fst d0 @ map fst d) \<Longrightarrow> d \<noteq> [] \<Longrightarrow>
     \<exists>k. \<forall>m>k. read_members F m d0 (dump_members F n d @ new_line j @ CHR ''}'' # r) = Some (d0 @ d, r)"
proof (induction F n v and F n xs and F n d arbitrary: r and j r and d0 j r
    rule: dump_dump_items_dump_members.induct)
  case (1 F n)
  then show ?case by (intro exI [of _ 0]) (auto simp: str_startswith_def gr0_conv_Suc)
next
  case (2 F n b)
  then show ?case by (intro exI [of _ 0]) (auto simp: str_startswith_def gr0_conv_Suc)
next
  case (3 F n i)
  then show ?case by (intro exI [of _ 0]) (simp add: read_value_number [OF _ scan_int])
next
  case (4 F n x)
  then show ?case
    by (intro exI [of _ 0]) (simp add: float_ok_def read_value_number [where s = "ff_repr F x"])
next
  case (5 F n s)
  then show ?case by (intro exI [of _ 0]) (auto simp: quoted_def gr0_conv_Suc read_quoted)
next
  case (6 F n xs)
  show ?case
  proof (cases "xs = []")
    case True
    then show ?thesis by (intro exI [of _ 0]) (auto simp: str_startswith_def gr0_conv_Suc)
  next
    case False
    then obtain k where k: "read_items F m (dump_items F (Suc n) xs @ new_line n @ CHR '']'' # r) = Some (xs, r)"
      if "m > k" for m
      using 6 by fastforce
    have "starts_value (dump_items F (Suc n) xs)"
      using False 6(2) starts_dump [of F "hd xs" "Suc n"]
      by (cases xs) (auto intro: starts_value_append)
    then show ?thesis
      using False k by (intro exI [of _ "Suc k"]) (auto simp: starts_value_append Suc_less_eq2)
  qed
next
  case (7 F n d)
  show ?case
  proof (cases "d = []")
    case True
    then show ?thesis by (intro exI [of _ 0]) (auto simp: str_startswith_def gr0_conv_Suc)
  next
    case False
    then obtain k where k: "read_members F m [] (dump_members F (Suc n) d @ new_line n @ CHR ''}'' # r) = Some (d, r)"
      if "m > k" for m
      using 7(1) [of "[]" n r] 7(2) by fastforce
    obtain s where "dump_members F (Suc n) d = CHR 34 # s"
      using False by (cases d) (auto simp: quoted_def)
    then show ?thesis
      using False k
      by (intro exI [of _ "Suc k"]) (auto simp: str_startswith_def Suc_less_eq2)
  qed
next
  case (8 F n)
  then show ?case by simp
next
  case (9 F n x xs)
  have start: "starts_value (dump_items F n (y # ys))" if "writable F y" for y ys
    using starts_dump [OF that, of n] by (auto intro: starts_value_append)
  have "stops ((if xs = [] then [] else '','' @ new_line n @ dump_items F n xs) @ new_line j @ CHR '']'' # r)"
    by simp
  from 9(1) [OF _ this] 9(3) obtain k where k: "m > k \<Longrightarrow>
      read_value F m (dump_items F n (x # xs) @ new_line j @ CHR '']'' # r) =
        Some (x, (if xs = [] then [] else '','' @ new_line n @ dump_items F n xs) @ new_line j @ CHR '']'' # r)" for m
    by auto
  show ?case
  proof (cases xs)
    case Nil
    then show ?thesis using k by (intro exI [of _ "Suc k"]) (auto simp: Suc_less_eq2)
  next
    case (Cons y ys)
    then obtain l where l: "m > l \<Longrightarrow> read_items F m (dump_items F n xs @ new_line j @ CHR '']'' # r) = Some (xs, r)" for m
      using 9(2) [of j r] 9(3) by auto
    have skip: "skip_space (dump_items F n xs @ s) = dump_items F n xs @ s" for s
      using start [of y ys] 9(3) Cons by (intro starts_value_append(2)) (simp del: dump_items.simps)
    show ?thesis
      using k l Cons
      by (intro exI [of _ "Suc (max k l)"]) (auto simp: Suc_less_eq2 skip [unfolded Cons] simp del: dump_items.simps)
  qed
next
  case (10 F n)
  then show ?case by simp
next
  case (11 F n key x d)
  define t where "t = (if d = [] then [] else '','' @ new_line n @ dump_members F n d) @ new_line j @ CHR ''}'' # r"
  have "stops t" by (simp add: t_def)
  then obtain k where k: "m > k \<Longrightarrow> read_value F m (dump F n x @ t) = Some (x, t)" for m
    using 11(1) [of t] 11(3) by auto
  have whole: "dump_members F n ((key, x) # d) @ new_line j @ CHR ''}'' # r =
      CHR 34 # concat (map escaped key) @ CHR 34 # CHR '':'' # CHR '' '' # dump F n x @ t"
    by (simp add: t_def quoted_def)
  have skip: "skip_space (dump F n x @ t) = dump F n x @ t"
    using starts_dump [of F x n] 11(3) by (simp add: starts_value_append(2))
  have key: "dict_set key x d0 = d0 @ [(key, x)]"
    using 11(4) by (simp add: update_append_new)
  show ?case
  proof (cases d)
    case Nil
    then have "t = new_line j @ CHR ''}'' # r" by (simp add: t_def)
    then show ?thesis
      using k Nil skip unfolding whole
      by (intro exI [of _ "Suc k"]) (auto simp: Suc_less_eq2 read_quoted key)
  next
    case (Cons p ps)
    then obtain l where l: "m > l \<Longrightarrow> read_members F m (d0 @ [(key, x)])
        (dump_members F n d @ new_line j @ CHR ''}'' # r) = Some (d0 @ (key, x) # d, r)" for m
      using 11(2) [of "d0 @ [(key, x)]" j r] 11(3,4) by auto
    have t: "t = CHR '','' # new_line n @ dump_members F n d @ new_line j @ CHR ''}'' # r"
      using Cons by (simp add: t_def)
    have skip': "skip_space (dump_members F n d @ s) = dump_members F n d @ s" for s
      using Cons by (cases p) (simp add: quoted_def)
    show ?thesis
      using k l unfolding whole
      by (intro exI [of _ "Suc (max k l)"])
        (auto simp: Suc_less_eq2 read_quoted skip [unfolded t] skip' key t simp del: dump_members.simps)
  qed
qed

lemma loads_dumps:
  assumes "writable F v"
  shows "loads F (dumps F v) = Some v"
proof -
  obtain k where k: "m > k \<Longrightarrow> read_value F m (dump F 0 v @ []) = Some (v, [])" for m
    using read_dump(1) [OF assms, of "[]" 0] by (auto simp: stops_def)
  have "skip_space (dump F 0 v) = dump F 0 v"
    using starts_value_append(2) [OF starts_dump [OF assms], of 0 "[]"] by simp
  moreover have "read_value F (fuel_for (dump F 0 v)) (dump F 0 v) = read_value F (Suc (k + fuel_for (dump F 0 v))) (dump F 0 v)"
    by (rule enough_fuel(1)) (simp_all add: fuel_for_def)
  ultimately show ?thesis
    using k [of "Suc (k + fuel_for (dump F 0 v))"] by (simp add: loads_def dumps_def skip_space_def)
qed

text \<open>No carriage return is written, so reading in text mode changes nothing.\<close>

lemma scan_number_no_cr:
  assumes "scan_number s = Some (t, b, r)"
  shows "CHR 13 \<notin> set t"
proof -
  have digits: "CHR 13 \<notin> set (takeWhile is_digit q)" for q
    by (auto dest!: set_takeWhileD simp: is_digit_def)
  have "int_part q = Some (i, q') \<Longrightarrow> CHR 13 \<notin> set i" for q i q'
    by (auto simp: int_part_def digits_of_def is_digit_def digits split: list.splits if_splits
        dest!: set_takeWhileD)
  moreover have "frac_part q = (f, q') \<Longrightarrow> CHR 13 \<notin> set f" for q f q'
    by (auto simp: frac_part_def digits_of_def digits is_digit_def split: list.splits if_splits
        dest!: set_takeWhileD)
  moreover have "exp_part q = (e, q') \<Longrightarrow> CHR 13 \<notin> set e" for q e q'
    by (auto simp: exp_part_def sign_part_def digits_of_def digits is_digit_def [of "CHR 13"] split: list.splits if_splits prod.splits)
  ultimately show ?thesis
    using assms by (auto simp: scan_number_def split: option.splits if_splits prod.splits)
qed

lemma dump_no_cr:
  "writable F v \<Longrightarrow> CHR 13 \<notin> set (dump F n v)"
  "list_all (writable F) xs \<Longrightarrow> CHR 13 \<notin> set (dump_items F n xs)"
  "list_all (\<lambda>p. writable F (snd p)) d \<Longrightarrow> CHR 13 \<notin> set (dump_members F n d)"
proof (induction F n v and F n xs and F n d rule: dump_dump_items_dump_members.induct)
  case (3 F n i)
  then show ?case using scan_number_no_cr [OF scan_int] by simp
next
  case (4 F n r)
  then show ?case by (auto simp: float_ok_def dest: scan_number_no_cr)
qed (auto simp: quoted_no_cr new_line_def)

end
