(* ===== verification/Notes.thy ===== *)
theory Notes
  imports FileTools Json
begin

text \<open>
  The note tools of marcus_code/tools/extra.py: the memory of keyed JSON values and the todo list,
  both kept as JSON files under .marcus in the workspace. The paths are opened as they are, links
  followed, not resolved into the workspace. \<open>uuid4\<close>, the clock, the float
  format, the text of a JSON error and \<open>str\<close> of a value that is no text are parameters.
\<close>

section \<open>Files opened by their paths\<close>

record 'o services = "'o externals" +
  sv_float :: float_format
  sv_uuid4 :: "'o \<Rightarrow> uuid \<times> 'o"
  sv_now :: "'o \<Rightarrow> string \<times> 'o"
  sv_str :: "json \<Rightarrow> string"
  sv_decode_error :: "string \<Rightarrow> string"

definition os_error :: "string \<Rightarrow> string \<Rightarrow> path \<Rightarrow> exn" where
  "os_error kind reason p = PyError kind (reason @ '': '' @ str_repr (path_str p))"

definition not_found :: "path \<Rightarrow> exn" where
  "not_found p = os_error ''FileNotFoundError'' ''[Errno 2] No such file or directory'' p"

definition dir_at :: "fs \<Rightarrow> path \<Rightarrow> bool" where
  "dir_at fs p = (case real_path fs p of Some q \<Rightarrow> is_dir fs q | None \<Rightarrow> False)"

text \<open>\<open>path.is_file()\<close> and \<open>path.read_text()\<close>\<close>

definition text_at :: "fs \<Rightarrow> path \<Rightarrow> string option" where
  "text_at fs p =
     (case real_path fs p of Some q \<Rightarrow> map_option universal_newlines (file_text fs q) | None \<Rightarrow> None)"

text \<open>\<open>os.mkdir\<close>: the path above is followed, the last name is not.\<close>

definition make_dir :: "fs \<Rightarrow> path \<Rightarrow> exn + fs" where
  "make_dir fs p =
     (if p = [] then Inl (os_error ''FileExistsError'' ''[Errno 17] File exists'' p)
      else case real_path fs (butlast p) of
        None \<Rightarrow> Inl (os_error ''OSError'' ''[Errno 40] Too many levels of symbolic links'' p)
      | Some d \<Rightarrow>
          if is_dir fs d
          then (if fs (d @ [last p]) = None then Inr (fs(d @ [last p] \<mapsto> Dir))
                else Inl (os_error ''FileExistsError'' ''[Errno 17] File exists'' p))
          else if fs d = None then Inl (not_found p)
          else Inl (os_error ''NotADirectoryError'' ''[Errno 20] Not a directory'' p))"

definition exist_ok :: "fs \<Rightarrow> path \<Rightarrow> exn + fs \<Rightarrow> exn + fs" where
  "exist_ok fs p r = (case r of Inl e \<Rightarrow> if dir_at fs p then Inr fs else Inl e | Inr f \<Rightarrow> Inr f)"

text \<open>\<open>path.mkdir(parents=True, exist_ok=True)\<close>, the path read from its end.\<close>

primrec make_parents :: "fs \<Rightarrow> path \<Rightarrow> exn + fs" where
  "make_parents fs [] = exist_ok fs [] (make_dir fs [])"
| "make_parents fs (c # up) =
     (let p = rev (c # up) in
      case make_dir fs p of
        Inr f \<Rightarrow> Inr f
      | Inl e \<Rightarrow>
          if e = not_found p
          then (case make_parents fs up of
                  Inl e' \<Rightarrow> Inl e'
                | Inr f \<Rightarrow> exist_ok f p (make_dir f p))
          else exist_ok fs p (Inl e))"

text \<open>\<open>path.write_text(text)\<close>\<close>

definition put_text :: "fs \<Rightarrow> path \<Rightarrow> string \<Rightarrow> exn + fs" where
  "put_text fs p t =
     (case real_path fs p of
        None \<Rightarrow> Inl (os_error ''OSError'' ''[Errno 40] Too many levels of symbolic links'' p)
      | Some q \<Rightarrow>
          if is_dir fs q then Inl (os_error ''IsADirectoryError'' ''[Errno 21] Is a directory'' p)
          else if is_dir fs (butlast q) then Inr (fs(q \<mapsto> File t))
          else if fs (butlast q) = None then Inl (not_found p)
          else Inl (os_error ''NotADirectoryError'' ''[Errno 20] Not a directory'' p))"

definition in_marcus :: "path \<Rightarrow> string list \<Rightarrow> path" where
  "in_marcus ws names = ws @ ''.marcus'' # names"

text \<open>The directory is made, then the value is written as text.\<close>

definition save_json :: "'o services \<Rightarrow> path \<Rightarrow> json \<Rightarrow> fs \<Rightarrow> (exn + unit) \<times> fs" where
  "save_json X p v fs =
     (case make_parents fs (rev (butlast p)) of
        Inl e \<Rightarrow> (Inl e, fs)
      | Inr f \<Rightarrow> (case put_text f p (dumps (sv_float X) v) of Inl e \<Rightarrow> (Inl e, f) | Inr f' \<Rightarrow> (Inr (), f')))"

section \<open>Memory\<close>

definition memory_file :: "path \<Rightarrow> string \<Rightarrow> path" where
  "memory_file ws key = in_marcus ws [''memory'', key @ ''.json'']"

definition memory_key :: "exn \<Rightarrow> dict \<Rightarrow> exn + string" where
  "memory_key missing args =
     (case dict_get args ''key'' of
        Some (JStr k) \<Rightarrow>
          if k = [] then Inl missing
          else if str_contains ''/'' k \<or> str_contains [CHR 92] k \<or> str_contains ''..'' k
          then Inl (value_error ''invalid memory key'')
          else Inr k
      | Some v \<Rightarrow> if truthy v then Inl type_error else Inl missing
      | None \<Rightarrow> Inl missing)"

definition memory_read :: "'o services \<Rightarrow> path \<Rightarrow> dict \<Rightarrow> fs \<Rightarrow> exn + dict" where
  "memory_read X ws args fs =
     (case memory_key (value_error (''memory_read requires a '' @ str_repr ''key'' @ '' field'')) args of
        Inl e \<Rightarrow> Inl e
      | Inr key \<Rightarrow>
          (case text_at fs (memory_file ws key) of
             None \<Rightarrow> Inr [(''key'', JStr key), (''exists'', JBool False), (''value'', JNull)]
           | Some t \<Rightarrow>
               (case loads (sv_float X) t of
                  None \<Rightarrow> Inl (PyError ''RuntimeError'' (''failed to read memory: '' @ sv_decode_error X t))
                | Some v \<Rightarrow> Inr [(''key'', JStr key), (''exists'', JBool True), (''value'', v)])))"

definition write_missing :: exn where
  "write_missing =
     value_error (''memory_write requires '' @ str_repr ''key'' @ '' and '' @ str_repr ''value'' @ '' fields'')"

definition memory_write :: "'o services \<Rightarrow> path \<Rightarrow> dict \<Rightarrow> fs \<Rightarrow> (exn + dict) \<times> fs" where
  "memory_write X ws args fs =
     (case given args ''value'' of
        None \<Rightarrow> (Inl write_missing, fs)
      | Some v \<Rightarrow>
          (case memory_key write_missing args of
             Inl e \<Rightarrow> (Inl e, fs)
           | Inr key \<Rightarrow>
               (case save_json X (memory_file ws key) v fs of
                  (Inl e, f) \<Rightarrow> (Inl e, f)
                | (Inr _, f) \<Rightarrow> (Inr [(''key'', JStr key), (''written'', JBool True)], f))))"

section \<open>Todos\<close>

definition todo_file :: "path \<Rightarrow> path" where
  "todo_file ws = in_marcus ws [''todos.json'']"

definition load_todos :: "'o services \<Rightarrow> path \<Rightarrow> fs \<Rightarrow> json list" where
  "load_todos X ws fs =
     (case text_at fs (todo_file ws) of
        None \<Rightarrow> []
      | Some t \<Rightarrow> (case loads (sv_float X) t of Some (JList xs) \<Rightarrow> xs | _ \<Rightarrow> []))"

definition save_todos :: "'o services \<Rightarrow> path \<Rightarrow> json list \<Rightarrow> fs \<Rightarrow> (exn + unit) \<times> fs" where
  "save_todos X ws todos = save_json X (todo_file ws) (JList todos)"

definition hex_text :: "uuid \<Rightarrow> string" where
  "hex_text u = map hex_char (hex_digits 32 (unat u))"

definition new_todo :: "'o services \<Rightarrow> dict \<Rightarrow> json \<Rightarrow> 'o \<Rightarrow> json \<times> 'o" where
  "new_todo X args title s =
     (let (u, s1) = sv_uuid4 X s; (stamp, s2) = sv_now X s1 in
      (JObj [(''id'', JStr (take 12 (hex_text u))), (''title'', title),
             (''status'', case dict_get args ''status'' of None \<Rightarrow> JStr ''pending'' | Some v \<Rightarrow> v),
             (''created_at'', JStr stamp)], s2))"

definition given_truthy :: "dict \<Rightarrow> string \<Rightarrow> json option" where
  "given_truthy args k = (case dict_get args k of Some v \<Rightarrow> if truthy v then Some v else None | None \<Rightarrow> None)"

definition saved :: "(exn + unit) \<times> fs \<Rightarrow> json \<Rightarrow> 'o \<Rightarrow> (exn + dict) \<times> 'o host" where
  "saved r todo s =
     (case fst r of Inl e \<Rightarrow> Inl e | Inr _ \<Rightarrow> Inr [(''todo'', todo)], \<lparr>hs_fs = snd r, hs_outside = s\<rparr>)"

definition todo_create :: "'o services \<Rightarrow> path \<Rightarrow> dict \<Rightarrow> 'o host \<Rightarrow> (exn + dict) \<times> 'o host" where
  "todo_create X ws args w =
     (case given_truthy args ''title'' of
        None \<Rightarrow> (Inl (value_error (''todo_create requires a '' @ str_repr ''title'' @ '' field'')), w)
      | Some title \<Rightarrow>
          (let todos = load_todos X ws (hs_fs w); (todo, s) = new_todo X args title (hs_outside w) in
           saved (save_todos X ws (todos @ [todo]) (hs_fs w)) todo s))"

text \<open>
  The first todo with an id, in the list changed; \<open>get\<close> of a todo that is no object fails. \<open>None\<close>
  is no todo with the id.
\<close>

definition no_get :: exn where
  "no_get = PyError ''AttributeError'' ''object has no attribute get''"

fun update_todo :: "json \<Rightarrow> (dict \<Rightarrow> dict) \<Rightarrow> json list \<Rightarrow> exn + (json \<times> json list) option" where
  "update_todo todo_id f [] = Inr None"
| "update_todo todo_id f (t # ts) =
     (case t of
        JObj d \<Rightarrow>
          if py_eq (case dict_get d ''id'' of None \<Rightarrow> JNull | Some v \<Rightarrow> v) todo_id
          then Inr (Some (JObj (f d), JObj (f d) # ts))
          else (case update_todo todo_id f ts of
                  Inr (Some (u, us)) \<Rightarrow> Inr (Some (u, t # us))
                | r \<Rightarrow> r)
      | _ \<Rightarrow> Inl no_get)"

definition set_status :: "json \<Rightarrow> string \<Rightarrow> dict \<Rightarrow> dict" where
  "set_status status stamp d = dict_set ''updated_at'' (JStr stamp) (dict_set ''status'' status d)"

definition todo_not_found :: "'o services \<Rightarrow> json \<Rightarrow> exn" where
  "todo_not_found X v = value_error (''todo not found: '' @ (case v of JStr t \<Rightarrow> t | _ \<Rightarrow> sv_str X v))"

definition todo_update :: "'o services \<Rightarrow> path \<Rightarrow> dict \<Rightarrow> 'o host \<Rightarrow> (exn + dict) \<times> 'o host" where
  "todo_update X ws args w =
     (case (given_truthy args ''id'', given_truthy args ''status'') of
        (Some todo_id, Some status) \<Rightarrow>
          (let (stamp, s) = sv_now X (hs_outside w) in
           case update_todo todo_id (set_status status stamp) (load_todos X ws (hs_fs w)) of
             Inl e \<Rightarrow> (Inl e, w)
           | Inr None \<Rightarrow> (Inl (todo_not_found X todo_id), w)
           | Inr (Some (todo, todos)) \<Rightarrow> saved (save_todos X ws todos (hs_fs w)) todo s)
      | _ \<Rightarrow> (Inl (value_error (''todo_update requires '' @ str_repr ''id'' @ '' and '' @ str_repr ''status'' @ '' fields'')), w))"

fun with_status :: "json \<Rightarrow> json list \<Rightarrow> exn + json list" where
  "with_status status [] = Inr []"
| "with_status status (t # ts) =
     (case t of
        JObj d \<Rightarrow>
          (case with_status status ts of
             Inl e \<Rightarrow> Inl e
           | Inr us \<Rightarrow> Inr (if py_eq (case dict_get d ''status'' of None \<Rightarrow> JNull | Some v \<Rightarrow> v) status
                           then t # us else us))
      | _ \<Rightarrow> Inl no_get)"

definition listed :: "dict \<Rightarrow> json list \<Rightarrow> exn + dict" where
  "listed args todos =
     (case (case given_truthy args ''status'' of None \<Rightarrow> Inr todos | Some st \<Rightarrow> with_status st todos) of
        Inl e \<Rightarrow> Inl e
      | Inr ts \<Rightarrow> Inr [(''todos'', JList ts), (''count'', JInt (int (length ts)))])"

definition todo_list :: "'o services \<Rightarrow> path \<Rightarrow> dict \<Rightarrow> fs \<Rightarrow> exn + dict" where
  "todo_list X ws args fs = listed args (load_todos X ws fs)"

section \<open>A store whose way is plain\<close>

text \<open>
  No link and no dotted component leads to the file, what is above it are directories or nothing,
  nothing is below a missing one, and it is no directory itself.
\<close>

definition plain_dir :: "fs \<Rightarrow> path \<Rightarrow> bool" where
  "plain_dir fs d \<longleftrightarrow> ''..'' \<notin> set d
     \<and> list_all (\<lambda>q. is_dir fs q \<or> fs q = None) (prefixes d)
     \<and> list_all (\<lambda>q. q = [] \<or> is_dir fs (butlast q) \<or> fs q = None) (prefixes d)"

definition ready :: "fs \<Rightarrow> path \<Rightarrow> bool" where
  "ready fs p \<longleftrightarrow> p \<noteq> [] \<and> last p \<noteq> ''..'' \<and> plain_dir fs (butlast p)
     \<and> (fs p = None \<or> is_dir fs (butlast p) \<and> file_text fs p \<noteq> None)"

lemma walk_plain:
  assumes "''..'' \<notin> set cs" and "\<And>q. prefix q (here @ cs) \<Longrightarrow> q \<noteq> [] \<Longrightarrow> links q = None"
  shows "walk links here cs = Some (here @ cs)"
  using assms
proof (induction cs arbitrary: here)
  case Nil
  then show ?case by (simp add: walk.simps)
next
  case (Cons c cs)
  have "links (here @ [c]) = None" by (rule Cons.prems(2)) (simp_all add: prefix_def)
  then show ?case
    using Cons.IH [of "here @ [c]"] Cons.prems by (subst walk.simps) auto
qed

lemma real_path_plain:
  "''..'' \<notin> set p \<Longrightarrow> (\<And>q. prefix q p \<Longrightarrow> q \<noteq> [] \<Longrightarrow> link_at fs q = None) \<Longrightarrow> real_path fs p = Some p"
  using walk_plain [of p "[]" "link_at fs"] by (simp add: real_path_def)

lemma is_dir_no_link: "is_dir fs q \<or> fs q = None \<Longrightarrow> q \<noteq> [] \<Longrightarrow> link_at fs q = None"
  by (auto simp: is_dir_def link_at_def)

lemma plain_dir_snoc:
  "plain_dir fs (d @ [c]) \<longleftrightarrow> plain_dir fs d \<and> c \<noteq> ''..''
     \<and> (is_dir fs d \<and> is_dir fs (d @ [c]) \<or> fs (d @ [c]) = None)"
  by (auto simp: plain_dir_def prefixes_snoc is_dir_def)

lemma plain_dir_real: "plain_dir fs d \<Longrightarrow> real_path fs d = Some d"
  by (rule real_path_plain) (auto simp: plain_dir_def list_all_iff in_set_prefixes intro: is_dir_no_link)

lemma dir_at_plain: "plain_dir fs d \<Longrightarrow> dir_at fs d = is_dir fs d"
  by (simp add: dir_at_def plain_dir_real)

definition with_dirs :: "fs \<Rightarrow> path \<Rightarrow> fs" where
  "with_dirs fs d = (\<lambda>q. if prefix q d \<and> \<not> is_dir fs q then Some Dir else fs q)"

lemma with_dirs_Nil [simp]: "with_dirs fs [] = fs"
  by (auto simp: with_dirs_def is_dir_def)

lemma with_dirs_there: "plain_dir fs d \<Longrightarrow> is_dir fs d \<Longrightarrow> with_dirs fs d = fs"
proof (induction d rule: rev_induct)
  case (snoc c d)
  then have "is_dir fs d" "plain_dir fs d" by (auto simp: plain_dir_snoc is_dir_def)
  with snoc have "with_dirs fs d = fs" by simp
  moreover have "with_dirs fs (d @ [c]) q = with_dirs fs d q" for q
    using snoc.prems(2) by (auto simp: with_dirs_def)
  ultimately show ?case by (intro ext) simp
qed simp

lemma with_dirs_snoc:
  "\<not> is_dir fs (d @ [c]) \<Longrightarrow> with_dirs fs (d @ [c]) = (with_dirs fs d)(d @ [c] \<mapsto> Dir)"
  by (auto simp: with_dirs_def fun_eq_iff)

lemma with_dirs_dir [simp]: "prefix q d \<Longrightarrow> is_dir (with_dirs fs d) q"
  by (auto simp: with_dirs_def is_dir_def)

lemma with_dirs_other: "\<not> prefix q d \<Longrightarrow> with_dirs fs d q = fs q"
  by (simp add: with_dirs_def)

lemma plain_with_dirs:
  assumes "plain_dir fs d"
  shows "plain_dir (with_dirs fs d) d"
proof -
  have "prefix (butlast q) d" if "prefix q d" for q
    using that prefixeq_butlast prefix_order.trans by blast
  then show ?thesis using assms by (simp add: plain_dir_def list_all_iff)
qed

lemma make_parents_plain: "plain_dir fs d \<Longrightarrow> make_parents fs (rev d) = Inr (with_dirs fs d)"
proof (induction d rule: rev_induct)
  case Nil
  then show ?case by (simp add: make_dir_def exist_ok_def dir_at_plain is_dir_def)
next
  case (snoc c d)
  then have d: "plain_dir fs d" and c: "is_dir fs d \<and> is_dir fs (d @ [c]) \<or> fs (d @ [c]) = None"
    by (simp_all add: plain_dir_snoc)
  have missing: "make_dir f (d @ [c]) = Inr (f(d @ [c] \<mapsto> Dir))"
    if "plain_dir f d" "is_dir f d" "f (d @ [c]) = None" for f
    using that by (simp add: make_dir_def plain_dir_real)
  show ?case
  proof (cases "is_dir fs d")
    case True
    show ?thesis
    proof (cases "is_dir fs (d @ [c])")
      case there: True
      then have "make_dir fs (d @ [c]) = Inl (os_error ''FileExistsError'' ''[Errno 17] File exists'' (d @ [c]))"
        using d True by (simp add: make_dir_def plain_dir_real is_dir_def)
      then show ?thesis
        using there snoc.prems
        by (simp add: exist_ok_def dir_at_plain with_dirs_there os_error_def not_found_def)
    next
      case False
      then have "with_dirs fs (d @ [c]) = fs(d @ [c] \<mapsto> Dir)"
        using d True by (simp add: with_dirs_snoc with_dirs_there)
      then show ?thesis using c False missing [OF d True] by (simp add: exist_ok_def fun_upd_def)
    qed
  next
    case False
    then have none: "fs d = None" "fs (d @ [c]) = None" "\<not> is_dir fs (d @ [c])"
      using c d by (auto simp: plain_dir_def list_all_iff is_dir_def)
    then have "make_dir fs (d @ [c]) = Inl (not_found (d @ [c]))"
      using d False by (simp add: make_dir_def plain_dir_real)
    moreover have "with_dirs fs d (d @ [c]) = None"
      using none by (simp add: with_dirs_other)
    ultimately show ?thesis
      using snoc.IH [OF d] missing [OF plain_with_dirs [OF d]] none
      by (simp add: exist_ok_def with_dirs_snoc fun_upd_def)
  qed
qed

lemma ready_real: "ready fs p \<Longrightarrow> real_path fs p = Some p"
proof -
  assume p: "ready fs p"
  then obtain d c where e: "p = d @ [c]" by (cases p rule: rev_cases) (auto simp: ready_def)
  have "link_at fs q = None" if "prefix q (d @ [c])" "q \<noteq> []" for q
    using that p plain_dir_def [of fs d]
    by (auto simp: e ready_def list_all_iff file_text_def link_at_def is_dir_def split: option.splits node.splits)
  then show "real_path fs p = Some p"
    using p by (intro real_path_plain) (auto simp: e ready_def plain_dir_def)
qed

lemma text_at_ready: "ready fs p \<Longrightarrow> text_at fs p = map_option universal_newlines (file_text fs p)"
  by (simp add: text_at_def ready_real)

lemma plain_dir_kept:
  assumes "plain_dir fs e" and "\<And>q. prefix q e \<Longrightarrow> f q = with_dirs fs d q"
  shows "plain_dir f e"
proof -
  have up: "prefix (butlast q) b" if "prefix q b" for q b
    using that prefixeq_butlast prefix_order.trans by blast
  have same: "is_dir f q = is_dir (with_dirs fs d) q" if "prefix q e" for q
    using assms(2) [OF that] by (simp add: is_dir_def)
  have grow: "is_dir fs q \<Longrightarrow> is_dir (with_dirs fs d) q" for q
    by (auto simp: with_dirs_def is_dir_def)
  show ?thesis
    unfolding plain_dir_def list_all_iff in_set_prefixes
  proof (intro conjI allI impI ballI; (unfold in_set_prefixes)?)
    show "''..'' \<notin> set e" using assms(1) by (simp add: plain_dir_def)
    fix q assume q: "prefix q e"
    then have old: "is_dir fs q \<or> fs q = None" "q = [] \<or> is_dir fs (butlast q) \<or> fs q = None"
      using assms(1) by (auto simp: plain_dir_def list_all_iff)
    have cases: "with_dirs fs d q = fs q \<or> prefix q d" by (simp add: with_dirs_def)
    show "is_dir f q \<or> f q = None"
      using old(1) cases same [OF q] assms(2) [OF q] grow by auto
    show "q = [] \<or> is_dir f (butlast q) \<or> f q = None"
      using old(2) cases same [OF up [OF q]] assms(2) [OF q] grow up [of q d] by auto
  qed
qed

lemma dumps_newlines: "writable F v \<Longrightarrow> universal_newlines (dumps F v) = dumps F v"
proof -
  have "newlines False t = t" if "CHR 13 \<notin> set t" for t
    using that by (induction t) auto
  then show "writable F v \<Longrightarrow> ?thesis"
    by (simp add: universal_newlines_def dumps_def dump_no_cr)
qed

lemma save_json_ready:
  assumes p: "ready fs p" and v: "writable (sv_float X) v"
  obtains f where "save_json X p v fs = (Inr (), f)" "ready f p"
    "text_at f p = Some (dumps (sv_float X) v)"
    "\<And>q. ready fs q \<Longrightarrow> q \<noteq> p \<Longrightarrow> length q = length p \<Longrightarrow> ready f q \<and> text_at f q = text_at fs q"
proof -
  obtain d c where e: "p = d @ [c]" using p by (cases p rule: rev_cases) (auto simp: ready_def)
  have d: "plain_dir fs d" using p by (simp add: e ready_def)
  define f where "f = with_dirs fs d"
  define f' where "f' = f(p \<mapsto> File (dumps (sv_float X) v))"
  have agree: "f' q = f q" if "prefix q d" for q
    using that prefix_length_le by (fastforce simp: f'_def e)
  have fp: "f p = fs p" by (simp add: f_def e with_dirs_other)
  have "plain_dir f d" unfolding f_def by (rule plain_with_dirs [OF d])
  moreover have "is_dir f d" by (simp add: f_def)
  ultimately have rf: "ready f p" and nd: "\<not> is_dir f p"
    using p fp by (auto simp: ready_def e is_dir_def file_text_def split: option.splits node.splits)
  have rf': "ready f' p"
    using d agree \<open>is_dir f d\<close> p plain_dir_kept [OF d, of f' d]
    by (simp add: ready_def e f_def is_dir_def f'_def file_text_def)
  have saved: "save_json X p v fs = (Inr (), f')"
    using make_parents_plain [OF d] nd \<open>is_dir f d\<close> ready_real [OF rf]
    by (simp add: save_json_def e put_text_def f'_def f_def)
  have content: "text_at f' p = Some (dumps (sv_float X) v)"
  proof -
    have "file_text f' p = Some (dumps (sv_float X) v)" by (simp add: f'_def file_text_def)
    then show ?thesis by (simp add: text_at_ready [OF rf'] dumps_newlines [OF v])
  qed
  have others: "ready f' q \<and> text_at f' q = text_at fs q"
    if q: "ready fs q" "q \<noteq> p" "length q = length p" for q
  proof -
    have keep: "f' r = with_dirs fs d r" if "prefix r (butlast q)" for r
      using that prefix_length_le [OF that] q(3) by (auto simp: f'_def f_def e)
    have fq: "f' q = fs q"
      using q prefix_length_le [of q d] by (auto simp: f'_def f_def e with_dirs_def)
    have "is_dir f' (butlast q)" if "is_dir fs (butlast q)"
      using keep [of "butlast q"] that by (auto simp: is_dir_def with_dirs_def)
    then have "ready f' q"
      using q(1) plain_dir_kept [of fs "butlast q" f' d] keep fq
      by (auto simp: ready_def file_text_def)
    then show ?thesis using q(1) fq by (simp add: text_at_ready file_text_def)
  qed
  show thesis by (rule that [OF saved rf' content others])
qed

section \<open>The todo list as a list\<close>

datatype todo_call = Create dict | Update dict | Listing dict

fun call_arguments :: "todo_call \<Rightarrow> dict" where
  "call_arguments (Create a) = a"
| "call_arguments (Update a) = a"
| "call_arguments (Listing a) = a"

definition run_call :: "'o services \<Rightarrow> path \<Rightarrow> todo_call \<Rightarrow> 'o host \<Rightarrow> (exn + dict) \<times> 'o host" where
  "run_call X ws c w =
     (case c of
        Create a \<Rightarrow> todo_create X ws a w
      | Update a \<Rightarrow> todo_update X ws a w
      | Listing a \<Rightarrow> (todo_list X ws a (hs_fs w), w))"

text \<open>The same tools on a list kept in memory, with what lies outside.\<close>

definition list_call :: "'o services \<Rightarrow> todo_call \<Rightarrow> json list \<times> 'o \<Rightarrow> (exn + dict) \<times> json list \<times> 'o" where
  "list_call X c t =
     (let (todos, s) = t in
      case c of
        Create a \<Rightarrow>
          (case given_truthy a ''title'' of
             None \<Rightarrow> (Inl (value_error (''todo_create requires a '' @ str_repr ''title'' @ '' field'')), t)
           | Some title \<Rightarrow>
               let (todo, s') = new_todo X a title s in (Inr [(''todo'', todo)], todos @ [todo], s'))
      | Update a \<Rightarrow>
          (case (given_truthy a ''id'', given_truthy a ''status'') of
             (Some i, Some st) \<Rightarrow>
               (let (stamp, s') = sv_now X s in
                case update_todo i (set_status st stamp) todos of
                  Inl e \<Rightarrow> (Inl e, t)
                | Inr None \<Rightarrow> (Inl (todo_not_found X i), t)
                | Inr (Some (todo, todos')) \<Rightarrow> (Inr [(''todo'', todo)], todos', s'))
           | _ \<Rightarrow> (Inl (value_error (''todo_update requires '' @ str_repr ''id'' @ '' and ''
                     @ str_repr ''status'' @ '' fields'')), t))
      | Listing a \<Rightarrow> (listed a todos, t))"

primrec session :: "('c \<Rightarrow> 's \<Rightarrow> 'r \<times> 's) \<Rightarrow> 'c list \<Rightarrow> 's \<Rightarrow> 'r list \<times> 's" where
  "session run [] s = ([], s)"
| "session run (c # cs) s = (let (r, s') = run c s; (rs, s'') = session run cs s' in (r # rs, s''))"

definition todo_view :: "'o services \<Rightarrow> path \<Rightarrow> 'o host \<Rightarrow> json list \<times> 'o" where
  "todo_view X ws w = (load_todos X ws (hs_fs w), hs_outside w)"

definition todos_ready :: "'o services \<Rightarrow> path \<Rightarrow> 'o host \<Rightarrow> bool" where
  "todos_ready X ws w \<longleftrightarrow>
     ready (hs_fs w) (todo_file ws) \<and> list_all (writable (sv_float X)) (load_todos X ws (hs_fs w))"

lemma save_todos_ready:
  assumes "todos_ready X ws w" "list_all (writable (sv_float X)) ts"
  shows "\<exists>f. save_todos X ws ts (hs_fs w) = (Inr (), f)
    \<and> (\<forall>s. todos_ready X ws \<lparr>hs_fs = f, hs_outside = s\<rparr> \<and> todo_view X ws \<lparr>hs_fs = f, hs_outside = s\<rparr> = (ts, s))"
proof -
  have ts: "writable (sv_float X) (JList ts)" using assms(2) by simp
  obtain f where f: "save_json X (todo_file ws) (JList ts) (hs_fs w) = (Inr (), f)" "ready f (todo_file ws)"
      "text_at f (todo_file ws) = Some (dumps (sv_float X) (JList ts))"
    using save_json_ready [OF _ ts, of "hs_fs w" "todo_file ws"] assms(1) by (auto simp: todos_ready_def)
  have "load_todos X ws f = ts" by (simp add: load_todos_def f(3) loads_dumps [OF ts])
  then show ?thesis
    using f assms(2) by (intro exI [of _ f]) (simp add: save_todos_def todos_ready_def todo_view_def)
qed

lemma writable_get: "writable F (JObj d) \<Longrightarrow> dict_get d k = Some v \<Longrightarrow> writable F v"
  by (auto simp: list_all_iff dest: map_of_SomeD)

lemma writable_set: "writable F (JObj d) \<Longrightarrow> writable F v \<Longrightarrow> writable F (JObj (dict_set k v d))"
  by (induction d) (auto simp: dom_update)

lemma given_truthy_get: "given_truthy a k = Some v \<Longrightarrow> dict_get a k = Some v"
  by (auto simp: given_truthy_def split: option.splits if_splits)

lemma new_todo_writable:
  "writable F (JObj a) \<Longrightarrow> writable F title \<Longrightarrow> writable F (fst (new_todo X a title s))"
proof -
  assume a: "writable F (JObj a)" and t: "writable F title"
  have "writable F (case dict_get a ''status'' of None \<Rightarrow> JStr ''pending'' | Some v \<Rightarrow> v)"
    using writable_get [OF a] by (simp split: option.splits)
  with t show ?thesis by (simp add: new_todo_def split: prod.splits)
qed

lemma update_todo_writable:
  assumes "\<And>d. writable F (JObj d) \<Longrightarrow> writable F (JObj (f d))"
  shows "update_todo i f ts = Inr (Some (u, us)) \<Longrightarrow> list_all (writable F) ts \<Longrightarrow> list_all (writable F) us"
  using assms
  by (induction ts arbitrary: u us)
    (auto split: json.splits if_splits sum.splits option.splits prod.splits simp del: writable.simps(3))

lemma set_status_writable:
  "writable F st \<Longrightarrow> writable F (JObj d) \<Longrightarrow> writable F (JObj (set_status st stamp d))"
  by (simp add: set_status_def writable_set del: writable.simps(3))

lemma saved_view:
  assumes "todos_ready X ws w" "list_all (writable (sv_float X)) ts"
  shows "\<exists>w'. saved (save_todos X ws ts (hs_fs w)) todo s = (Inr [(''todo'', todo)], w')
    \<and> todos_ready X ws w' \<and> todo_view X ws w' = (ts, s)"
  using save_todos_ready [OF assms] by (auto simp: saved_def)

lemma run_call_view:
  assumes w: "todos_ready X ws w" and a: "writable (sv_float X) (JObj (call_arguments c))"
  shows "\<exists>w'. run_call X ws c w = (fst (list_call X c (todo_view X ws w)), w')
     \<and> todos_ready X ws w' \<and> todo_view X ws w' = snd (list_call X c (todo_view X ws w))"
proof -
  have old: "list_all (writable (sv_float X)) (load_todos X ws (hs_fs w))"
    using w by (simp add: todos_ready_def)
  show ?thesis
  proof (cases c)
    case (Create args)
    show ?thesis
    proof (cases "given_truthy args ''title''")
      case None
      then show ?thesis using w Create by (simp add: run_call_def list_call_def todo_create_def todo_view_def)
    next
      case (Some title)
      obtain todo s where n: "new_todo X args title (hs_outside w) = (todo, s)" by fastforce
      have "writable (sv_float X) title"
        using writable_get [OF _ given_truthy_get [OF Some]] a Create by (simp del: writable.simps(3))
      then have "writable (sv_float X) todo"
        using new_todo_writable [of _ args title X "hs_outside w"] a Create n by (simp del: writable.simps(3))
      then have "list_all (writable (sv_float X)) (load_todos X ws (hs_fs w) @ [todo])" using old by simp
      from saved_view [OF w this, of todo s] show ?thesis
        using Create Some n
        by (auto simp: run_call_def list_call_def todo_create_def todo_view_def)
    qed
  next
    case (Update args)
    show ?thesis
    proof (cases "given_truthy args ''id'' = None \<or> given_truthy args ''status'' = None")
      case True
      then show ?thesis
        using w Update
        by (auto simp: run_call_def list_call_def todo_update_def todo_view_def split: option.splits)
    next
      case False
      then obtain i st where some: "given_truthy args ''id'' = Some i" "given_truthy args ''status'' = Some st"
        by auto
      obtain stamp s where n: "sv_now X (hs_outside w) = (stamp, s)" by fastforce
      have st: "writable (sv_float X) st"
        using writable_get [OF _ given_truthy_get [OF some(2)]] a Update by (simp del: writable.simps(3))
      show ?thesis
      proof (cases "\<exists>u us. update_todo i (set_status st stamp) (load_todos X ws (hs_fs w)) = Inr (Some (u, us))")
        case True
        then obtain u us where u: "update_todo i (set_status st stamp) (load_todos X ws (hs_fs w)) = Inr (Some (u, us))"
          by blast
        have "list_all (writable (sv_float X)) us"
          by (rule update_todo_writable [OF set_status_writable [OF st] u old])
        from saved_view [OF w this, of u s] show ?thesis
          using Update some n u by (auto simp: run_call_def list_call_def todo_update_def todo_view_def)
      next
        case False
        then show ?thesis
          using w Update some n
          by (auto simp: run_call_def list_call_def todo_update_def todo_view_def split: sum.splits option.splits)
      qed
    qed
  next
    case (Listing args)
    then show ?thesis using w by (simp add: run_call_def list_call_def todo_list_def todo_view_def)
  qed
qed

text \<open>
  C36. The todo tools behave as a list kept in memory: over any sequence of calls, from a workspace
  in which nothing is linked on the way to the todo file, the answers and errors of the tools are
  those of the list, and the file holds the list at the end.
\<close>

theorem todos_implement_list:
  assumes "todos_ready X ws w" and "list_all (\<lambda>c. writable (sv_float X) (JObj (call_arguments c))) calls"
  shows "fst (session (run_call X ws) calls w) = fst (session (list_call X) calls (todo_view X ws w))
       \<and> todo_view X ws (snd (session (run_call X ws) calls w)) = snd (session (list_call X) calls (todo_view X ws w))"
  using assms
proof (induction calls arbitrary: w)
  case (Cons c calls)
  then obtain w' where "run_call X ws c w = (fst (list_call X c (todo_view X ws w)), w')" "todos_ready X ws w'"
      "todo_view X ws w' = snd (list_call X c (todo_view X ws w))"
    using run_call_view [of X ws w c] by (auto simp del: writable.simps(3))
  then show ?case
    using Cons.IH [of w'] Cons.prems(2) by (simp add: split_beta del: writable.simps(3))
qed simp

definition good_key :: "string \<Rightarrow> bool" where
  "good_key k \<longleftrightarrow> k \<noteq> [] \<and> \<not> str_contains ''/'' k \<and> \<not> str_contains [CHR 92] k \<and> \<not> str_contains ''..'' k"

lemma memory_key_text:
  "memory_key missing ((''key'', JStr k) # args) =
     (if good_key k then Inr k else Inl (if k = [] then missing else value_error ''invalid memory key''))"
  by (auto simp: memory_key_def good_key_def)

lemma memory_read_cong:
  "text_at fs' (memory_file ws k) = text_at fs (memory_file ws k) \<Longrightarrow>
     memory_read X ws [(''key'', JStr k)] fs' = memory_read X ws [(''key'', JStr k)] fs"
  by (simp add: memory_read_def memory_key_text)

text \<open>
  C37. What memory_write has stored under a key, memory_read finds there, and the values under other
  keys stay as they were.
\<close>

theorem memory_keeps_values:
  assumes "memory_write X ws [(''key'', JStr k), (''value'', v)] fs = (Inr answer, fs')"
    and "ready fs (memory_file ws k)" and "writable (sv_float X) v"
  shows "memory_read X ws [(''key'', JStr k)] fs' = Inr [(''key'', JStr k), (''exists'', JBool True), (''value'', v)]
       \<and> (\<forall>k'. k' \<noteq> k \<longrightarrow> ready fs (memory_file ws k') \<longrightarrow>
            memory_read X ws [(''key'', JStr k')] fs' = memory_read X ws [(''key'', JStr k')] fs)"
proof -
  obtain f where f: "save_json X (memory_file ws k) v fs = (Inr (), f)"
      "text_at f (memory_file ws k) = Some (dumps (sv_float X) v)"
      "\<And>q. ready fs q \<Longrightarrow> q \<noteq> memory_file ws k \<Longrightarrow> length q = length (memory_file ws k) \<Longrightarrow> text_at f q = text_at fs q"
    by (rule save_json_ready [OF assms(2,3)]) blast
  have "given [(''key'', JStr k), (''value'', v)] ''value'' = (if v = JNull then None else Some v)"
    by (simp add: given_def split: json.splits)
  then have key: "good_key k" and fs': "fs' = f"
    using assms(1) f(1) by (auto simp: memory_write_def memory_key_text split: if_splits)
  have "memory_read X ws [(''key'', JStr k')] f = memory_read X ws [(''key'', JStr k')] fs"
    if "k' \<noteq> k" "ready fs (memory_file ws k')" for k'
    using that by (intro memory_read_cong f(3)) (simp_all add: memory_file_def in_marcus_def)
  then show ?thesis
    using f(2) key by (simp add: fs' memory_read_def memory_key_text loads_dumps [OF assms(3)])
qed

section \<open>A sample session\<close>

definition sample_services :: "nat services" where
  "sample_services =
     \<lparr>ex_sha256 = (\<lambda>t. t), ex_temp_names = (\<lambda>n. ([''a''], n)),
      sv_float = \<lparr>ff_repr = (\<lambda>r. ''0.5''), ff_float = (\<lambda>t. 1 / 2)\<rparr>,
      sv_uuid4 = (\<lambda>n. (word_of_nat n, Suc n)), sv_now = (\<lambda>n. (''now'', Suc n)),
      sv_str = (\<lambda>v. ''?''), sv_decode_error = (\<lambda>t. ''bad JSON'')\<rparr>"

definition sample_store :: fs where
  "sample_store = [[''w''] \<mapsto> Dir, [''w'', ''a''] \<mapsto> File ''text'']"

definition sample_calls :: "todo_call list" where
  "sample_calls =
     [Create [(''title'', JStr ''tests'')], Create [(''title'', JStr ''docs''), (''status'', JStr ''in_progress'')],
      Update [(''id'', JStr ''000000000000''), (''status'', JStr ''done'')], Update [(''id'', JStr ''x''), (''status'', JStr ''done'')],
      Listing [(''status'', JStr ''done'')]]"

theorem todos_witness:
  "(let w = \<lparr>hs_fs = sample_store, hs_outside = 0\<rparr> in
    fst (session (run_call sample_services [''w'']) sample_calls w)
      = fst (session (list_call sample_services) sample_calls (todo_view sample_services [''w''] w)))"
proof -
  have "todos_ready sample_services [''w''] \<lparr>hs_fs = sample_store, hs_outside = 0\<rparr>" by code_simp
  moreover have "list_all (\<lambda>c. writable (sv_float sample_services) (JObj (call_arguments c))) sample_calls"
    by code_simp
  ultimately show ?thesis
    unfolding Let_def by (rule conjunct1 [OF todos_implement_list])
qed

theorem memory_witness:
  "\<exists>answer fs'. memory_write sample_services [''w''] [(''key'', JStr ''k''), (''value'', JList [JFloat (1 / 2)])] sample_store
      = (Inr answer, fs')
    \<and> memory_read sample_services [''w''] [(''key'', JStr ''k'')] fs'
      = Inr [(''key'', JStr ''k''), (''exists'', JBool True), (''value'', JList [JFloat (1 / 2)])]"
proof -
  have r: "ready sample_store (memory_file [''w''] ''k'')" by code_simp
  have v: "writable (sv_float sample_services) (JList [JFloat (1 / 2)])" by code_simp
  obtain f where "save_json sample_services (memory_file [''w''] ''k'') (JList [JFloat (1 / 2)]) sample_store = (Inr (), f)"
    by (rule save_json_ready [OF r v])
  moreover have "good_key ''k''" by code_simp
  ultimately have w: "memory_write sample_services [''w''] [(''key'', JStr ''k''), (''value'', JList [JFloat (1 / 2)])] sample_store
      = (Inr [(''key'', JStr ''k''), (''written'', JBool True)], f)"
    by (simp add: memory_write_def given_def memory_key_text)
  show ?thesis
    using w conjunct1 [OF memory_keeps_values [OF w r v]] by blast
qed

text \<open>The memory follows a link out of the workspace, where the file tools refuse.\<close>

definition linked_store :: fs where
  "linked_store = [[''w''] \<mapsto> Dir, [''w'', ''.marcus''] \<mapsto> Link ''/x'', [''x''] \<mapsto> Dir]"

lemma memory_leaves_workspace:
  "map_option (\<lambda>f. file_text f [''x'', ''memory'', ''k.json''])
     (case memory_write sample_services [''w''] [(''key'', JStr ''k''), (''value'', JBool True)] linked_store of
        (Inr _, f) \<Rightarrow> Some f | _ \<Rightarrow> None) = Some (Some ''true'')"
  "resolve_scoped_path linked_store [''w''] ''.marcus/memory/k.json''
     = Inl (PyError ''ValueError'' (''path '' @ str_repr ''.marcus/memory/k.json'' @ '' escapes the scoped directory''))"
  by code_simp+

end
