(* ===== verification/Diffs.thy ===== *)
theory Diffs
  imports Notes
begin

text \<open>
  The apply_diff tool of marcus_code/tools/extra.py and the copies of the diff, edit, memory and todo
  tools that harness/runtime/native_tools_extra.py keeps for the server, where the root is resolved
  before it is used.
\<close>

section \<open>Lines\<close>

text \<open>\<open>splitlines()\<close>: the lines without their ends.\<close>

definition line_end :: "char \<Rightarrow> bool" where
  "line_end c \<longleftrightarrow> (of_char c :: nat) \<in> {10, 11, 12, 13, 28, 29, 30, 133}"

definition bare_lines :: "string \<Rightarrow> string list" where
  "bare_lines s = map (takeWhile (\<lambda>c. \<not> line_end c)) (keep_lines s)"

text \<open>\<open>difflib.restore(lines, 2)\<close>: of a delta of \<open>ndiff\<close>, the lines of the second text.\<close>

definition restore_second :: "string list \<Rightarrow> string list" where
  "restore_second lines =
     map (drop 2) (filter (\<lambda>l. str_startswith l ''  '' \<or> str_startswith l ''+ '') lines)"

section \<open>Hunks\<close>

text \<open>A header is \<open>@@ ... @@\<close> at the start of a line; the rest of the text after the header.\<close>

fun after_mark :: "string \<Rightarrow> string option" where
  "after_mark [] = None"
| "after_mark (c # cs) =
     (if str_startswith (c # cs) '' @@'' then Some (drop 2 cs)
      else if c = CHR 10 then None
      else after_mark cs)"

definition after_header :: "string \<Rightarrow> string option" where
  "after_header s = (if str_startswith s ''@@ '' then after_mark (drop 3 s) else None)"

fun feed_lines :: "string \<Rightarrow> string list" where
  "feed_lines [] = []"
| "feed_lines (c # cs) =
     (if c = CHR 10 then [c] # feed_lines cs
      else case feed_lines cs of [] \<Rightarrow> [[c]] | l # ls \<Rightarrow> (c # l) # ls)"

text \<open>\<open>re.split(r"(?=^@@ .*? @@)", text, flags=re.M)\<close>\<close>

fun hunks_from :: "string \<Rightarrow> string list \<Rightarrow> string list" where
  "hunks_from acc [] = [acc]"
| "hunks_from acc (l # ls) =
     (if after_header l \<noteq> None then acc # hunks_from l ls else hunks_from (acc @ l) ls)"

definition hunks :: "string \<Rightarrow> string list" where
  "hunks s = hunks_from [] (feed_lines s)"

text \<open>\<open>re.sub(r"^@@ .*? @@\n?", "", hunk, flags=re.M)\<close>; only the first line of a hunk is a header.\<close>

definition hunk_body :: "string \<Rightarrow> string" where
  "hunk_body h =
     (case after_header h of
        None \<Rightarrow> h
      | Some r \<Rightarrow> (case r of c # cs \<Rightarrow> if c = CHR 10 then cs else r | [] \<Rightarrow> []))"

definition old_line :: "string \<Rightarrow> string" where
  "old_line l = (if str_startswith l ''-'' \<or> str_startswith l '' '' then tl l else [])"

definition new_line_of :: "string \<Rightarrow> string" where
  "new_line_of l = (if str_startswith l ''+'' \<or> str_startswith l '' '' then tl l else [])"

definition has_old :: "string list \<Rightarrow> bool" where
  "has_old ls = list_ex (\<lambda>l. str_startswith l ''-'' \<or> str_startswith l '' '') ls"

definition apply_hunk :: "string \<Rightarrow> string \<Rightarrow> string" where
  "apply_hunk h original =
     (if str_strip h = [] \<or> \<not> str_startswith h ''@@'' then original
      else
        (let ls = keep_lines (hunk_body h); old = concat (map old_line ls); new = concat (map new_line_of ls) in
         if has_old ls \<and> str_contains old original then replace_first old new original else original))"

definition apply_simple_hunks :: "string \<Rightarrow> string \<Rightarrow> string" where
  "apply_simple_hunks original diff = fold apply_hunk (hunks diff) original"

definition patched :: "string \<Rightarrow> string \<Rightarrow> string" where
  "patched original diff =
     (let ls = restore_second (bare_lines diff) in
      if ls = [] then apply_simple_hunks original diff else str_join [CHR 10] ls)"

section \<open>The tool\<close>

definition apply_unified_diff :: "'o externals \<Rightarrow> path \<Rightarrow> string \<Rightarrow> string \<Rightarrow> 'o host \<Rightarrow> (exn + dict) \<times> 'o host" where
  "apply_unified_diff X ws path diff w =
     (case existing_file (hs_fs w) ws path of
        Inl e \<Rightarrow> (Inl e, w)
      | Inr (p, original) \<Rightarrow>
          let (r, w') = atomic_write_text X p (patched original diff) w in
          (case r of Inl e \<Rightarrow> Inl e | Inr d \<Rightarrow> Inr ((''path'', JStr path) # d), w'))"

definition diff_requires :: string where
  "diff_requires = ''apply_diff requires '' @ str_repr ''path'' @ '' and '' @ str_repr ''diff'' @ '' fields''"

definition apply_diff :: "'o externals \<Rightarrow> path \<Rightarrow> dict \<Rightarrow> 'o host \<Rightarrow> (exn + dict) \<times> 'o host" where
  "apply_diff X ws args w =
     (case (dict_get args ''path'', given args ''diff'') of
        (Some (JStr path), Some (JStr diff)) \<Rightarrow>
          if path = [] then (Inl (value_error diff_requires), w) else apply_unified_diff X ws path diff w
      | (Some v, Some _) \<Rightarrow> if truthy v then (Inl type_error, w) else (Inl (value_error diff_requires), w)
      | _ \<Rightarrow> (Inl (value_error diff_requires), w))"

section \<open>The server's copies\<close>

definition server_edit_text :: "string \<Rightarrow> string \<Rightarrow> string \<Rightarrow> exn + string" where
  "server_edit_text original old new =
     (let n = count_text old original in
      if n = 0 then Inl (value_error ''old_string not found in file'')
      else if 1 < n
      then Inl (value_error (''old_string is not unique ('' @ str_of_int (int n) @ '' occurrences)''))
      else Inr (replace_first old new original))"

definition server_edit_file :: "'o externals \<Rightarrow> path \<Rightarrow> dict \<Rightarrow> 'o host \<Rightarrow> (exn + dict) \<times> 'o host" where
  "server_edit_file X ws args w =
     (case (dict_get args ''path'', given args ''old_string'', given args ''new_string'') of
        (Some (JStr path), Some (JStr old), Some (JStr new)) \<Rightarrow>
          if path = [] then (Inl (value_error edit_requires), w)
          else (case existing_file (hs_fs w) ws path of
                  Inl e \<Rightarrow> (Inl e, w)
                | Inr (p, original) \<Rightarrow>
                    (case server_edit_text original old new of
                       Inl e \<Rightarrow> (Inl e, w)
                     | Inr updated \<Rightarrow>
                         let (r, w') = atomic_write_text X p updated w in
                         (case r of Inl e \<Rightarrow> Inl e
                          | Inr d \<Rightarrow> Inr ([(''path'', JStr path), (''old_string'', JStr old),
                                          (''new_string'', JStr new)] @ d), w')))
      | (Some v, Some _, Some _) \<Rightarrow>
          if truthy v then (Inl type_error, w) else (Inl (value_error edit_requires), w)
      | _ \<Rightarrow> (Inl (value_error edit_requires), w))"

definition server_apply_diff :: "'o externals \<Rightarrow> path \<Rightarrow> dict \<Rightarrow> 'o host \<Rightarrow> (exn + dict) \<times> 'o host" where
  "server_apply_diff X ws args w =
     (case (dict_get args ''path'', given args ''diff'') of
        (Some (JStr path), Some (JStr diff)) \<Rightarrow>
          if path = [] then (Inl (value_error diff_requires), w)
          else (case existing_file (hs_fs w) ws path of
                  Inl e \<Rightarrow> (Inl e, w)
                | Inr (p, original) \<Rightarrow>
                    let ls = restore_second (bare_lines diff);
                        new = (if ls \<noteq> [] then str_join [CHR 10] ls else apply_simple_hunks original diff);
                        (r, w') = atomic_write_text X p new w in
                    (case r of Inl e \<Rightarrow> Inl e | Inr d \<Rightarrow> Inr ((''path'', JStr path) # d), w'))
      | (Some v, Some _) \<Rightarrow> if truthy v then (Inl type_error, w) else (Inl (value_error diff_requires), w)
      | _ \<Rightarrow> (Inl (value_error diff_requires), w))"

text \<open>\<open>Path(root).resolve()\<close> for a tool; a cycle of links raises.\<close>

definition at_root :: "path \<Rightarrow> 'o host \<Rightarrow> (path \<Rightarrow> (exn + dict) \<times> 'o host) \<Rightarrow> (exn + dict) \<times> 'o host" where
  "at_root dir w f =
     (case real_path (hs_fs w) dir of None \<Rightarrow> (Inl (symlink_loop dir), w) | Some r \<Rightarrow> f r)"

definition server_todo_create :: "'o services \<Rightarrow> path \<Rightarrow> dict \<Rightarrow> 'o host \<Rightarrow> (exn + dict) \<times> 'o host" where
  "server_todo_create X dir args w =
     (if given_truthy args ''title'' = None then todo_create X dir args w
      else at_root dir w (\<lambda>r. todo_create X r args w))"

definition server_todo_update :: "'o services \<Rightarrow> path \<Rightarrow> dict \<Rightarrow> 'o host \<Rightarrow> (exn + dict) \<times> 'o host" where
  "server_todo_update X dir args w =
     (if given_truthy args ''id'' = None \<or> given_truthy args ''status'' = None then todo_update X dir args w
      else at_root dir w (\<lambda>r. todo_update X r args w))"

definition server_todo_list :: "'o services \<Rightarrow> path \<Rightarrow> dict \<Rightarrow> 'o host \<Rightarrow> (exn + dict) \<times> 'o host" where
  "server_todo_list X dir args w = at_root dir w (\<lambda>r. (todo_list X r args (hs_fs w), w))"

definition with_fs :: "'o host \<Rightarrow> (exn + dict) \<times> fs \<Rightarrow> (exn + dict) \<times> 'o host" where
  "with_fs w p = (fst p, w\<lparr>hs_fs := snd p\<rparr>)"

definition server_memory_read :: "'o services \<Rightarrow> path \<Rightarrow> dict \<Rightarrow> 'o host \<Rightarrow> (exn + dict) \<times> 'o host" where
  "server_memory_read X dir args w =
     (case memory_key (value_error (''memory_read requires a '' @ str_repr ''key'' @ '' field'')) args of
        Inl e \<Rightarrow> (Inl e, w)
      | Inr _ \<Rightarrow> at_root dir w (\<lambda>r. (memory_read X r args (hs_fs w), w)))"

definition server_memory_write :: "'o services \<Rightarrow> path \<Rightarrow> dict \<Rightarrow> 'o host \<Rightarrow> (exn + dict) \<times> 'o host" where
  "server_memory_write X dir args w =
     (case (given args ''value'', memory_key write_missing args) of
        (Some _, Inr _) \<Rightarrow> at_root dir w (\<lambda>r. with_fs w (memory_write X r args (hs_fs w)))
      | _ \<Rightarrow> with_fs w (memory_write X dir args (hs_fs w)))"

section \<open>What happens to a file\<close>

text \<open>
  A hunk whose old lines occur replaces their first occurrence; a diff whose hunks do not occur
  leaves the file as it is, and the tool reports success all the same.
\<close>

lemma apply_hunk_old:
  assumes "str_strip h \<noteq> []" "str_startswith h ''@@''" "has_old (keep_lines (hunk_body h))"
  shows "apply_hunk h original =
    (let old = concat (map old_line (keep_lines (hunk_body h)));
         new = concat (map new_line_of (keep_lines (hunk_body h))) in
     if str_contains old original then replace_first old new original else original)"
  using assms by (simp add: apply_hunk_def Let_def)

definition one_hunk :: "string \<Rightarrow> string" where
  "one_hunk heading =
     concat (map (\<lambda>l. l @ [CHR 10])
       [''@@ -1,3 +1,3 @@'' @ heading, '' a'', ''-b'', ''+c'', '' d''])"

definition old_file :: string where
  "old_file = concat (map (\<lambda>l. l @ [CHR 10]) [''a'', ''b'', ''d''])"

definition new_file :: string where
  "new_file = concat (map (\<lambda>l. l @ [CHR 10]) [''a'', ''c'', ''d''])"

lemma diff_applies: "patched old_file (one_hunk []) = new_file"
  by code_simp

lemma headed_hunk_dropped: "patched old_file (one_hunk '' f'') = old_file"
  by code_simp

text \<open>A context line that is indented makes the tool take the diff for a delta of ndiff.\<close>

definition indented_diff :: string where
  "indented_diff = concat (map (\<lambda>l. l @ [CHR 10]) [''@@ -1,3 +1,3 @@'', '' if a:'', ''-    b'', ''+    c'', ''  d''])"

lemma indented_diff_loses_file: "patched old_file indented_diff = ''   c'' @ [CHR 10] @ ''d''"
  by code_simp

end
