(* ===== verification/CliTools.thy ===== *)
theory CliTools
  imports Tools
begin

text \<open>
  The tools of the command line agent as marcus_code/tools/base.py, tools/extra.py and
  runtime/skills.py declare them: name, description, parameter schema, risk tier and the flags the
  loop reads. The handlers are arguments, given by name. Characters outside ASCII are the bytes of
  their UTF-8 encoding.
\<close>

section \<open>base.py\<close>

definition read_file_tool :: "'w handler \<Rightarrow> 'w tool" where
  "read_file_tool h =
    make_tool ''read_file''
      (''Read a text file'' @ [CHR 39]
      @ ''s contents. Path is relative to the working directory. Use offset (1-based) and ''
      @ ''limit to read a specific chunk of a large file.'')
      [(''type'', JStr ''object''),
       (''properties'', JObj [(''path'', JObj [(''type'', JStr ''string''),
             (''description'', JStr ''Path relative to the working directory.'')]),
          (''offset'', JObj [(''type'', JStr ''integer''),
             (''minimum'', JInt 1),
             (''description'', JStr ''1-based starting line.'')]),
          (''limit'', JObj [(''type'', JStr ''integer''),
             (''minimum'', JInt 1),
             (''description'', JStr ''Maximum lines to return.'')])]),
       (''required'', JList [JStr ''path''])]
      h RT_read_only True"

definition write_file_tool :: "'w handler \<Rightarrow> 'w tool" where
  "write_file_tool h =
    (make_tool ''write_file''
      (''Create a new file or overwrite an existing one with the given content. Prefer ''
      @ ''edit_file for changes to an existing file '' @ [CHR 0xE2, CHR 0x80, CHR 0x94]
      @ '' write_file replaces the whole file. Path is relative to the working directory.'')
      [(''type'', JStr ''object''),
       (''properties'', JObj [(''path'', JObj [(''type'', JStr ''string''),
             (''description'', JStr ''Path relative to the working directory.'')]),
          (''content'', JObj [(''type'', JStr ''string''),
             (''description'', JStr ''Full file content to write.'')])]),
       (''required'', JList [JStr ''path'', JStr ''content''])]
      h RT_sensitive_write False)
      \<lparr>tl_mutates_workspace := True\<rparr>"

definition edit_file_tool :: "'w handler \<Rightarrow> 'w tool" where
  "edit_file_tool h =
    (make_tool ''edit_file''
      (''Replace one exact occurrence of old_string with new_string in an existing file. ''
      @ ''old_string must match exactly (including whitespace) and appear exactly once ''
      @ [CHR 0xE2, CHR 0x80, CHR 0x94]
      @ '' include enough surrounding context to make it unique. Path is relative to the ''
      @ ''working directory.'')
      [(''type'', JStr ''object''),
       (''properties'', JObj [(''path'', JObj [(''type'', JStr ''string''),
             (''description'', JStr ''Path relative to the working directory.'')]),
          (''old_string'', JObj [(''type'', JStr ''string''),
             (''description'', JStr ''Exact text to replace, must be unique in the file.'')]),
          (''new_string'', JObj [(''type'', JStr ''string''), (''description'', JStr ''Replacement text.'')])]),
       (''required'', JList [JStr ''path'', JStr ''old_string'', JStr ''new_string''])]
      h RT_sensitive_write False)
      \<lparr>tl_mutates_workspace := True\<rparr>"

definition list_files_tool :: "'w handler \<Rightarrow> 'w tool" where
  "list_files_tool h =
    make_tool ''list_files''
      ((''List files under the working directory matching a glob pattern (e.g. '' @ [CHR 39]
      @ ''**/*.py'' @ [CHR 39] @ '', '' @ [CHR 39] @ ''src/**/*'' @ [CHR 39]
      @ ''). Defaults to all files. Results capped at '')
      @ ''200''
      @ ''. Use max_depth to avoid deep scans.'')
      [(''type'', JStr ''object''),
       (''properties'', JObj [(''pattern'', JObj [(''type'', JStr ''string''),
             (''description'', JStr (''Glob pattern, default '' @ [CHR 39] @ ''**/*'' @ [CHR 39] @ ''.''))]),
          (''max_depth'', JObj [(''type'', JStr ''integer''),
             (''minimum'', JInt 1),
             (''description'', JStr ''Maximum directory depth to include.'')])]),
       (''required'', JList [])]
      h RT_read_only True"

definition grep_tool :: "'w handler \<Rightarrow> 'w tool" where
  "grep_tool h =
    make_tool ''grep''
      (''Search file contents for a regex pattern under the working directory. Skips binary ''
      @ ''files and common noise directories. Default max_results is 50; use max_results up ''
      @ ''to {_MAX_GREP_MATCHES}.'')
      [(''type'', JStr ''object''),
       (''properties'', JObj [(''pattern'', JObj [(''type'', JStr ''string''),
             (''description'', JStr ''Regular expression to search for.'')]),
          (''glob'', JObj [(''type'', JStr ''string''),
             (''description'', JStr (''Glob to restrict which files are searched, default '' @ [CHR 39] @ ''**/*'' @ [CHR 39]
               @ ''.''))]),
          (''max_results'', JObj [(''type'', JStr ''integer''),
             (''minimum'', JInt 1),
             (''maximum'', JInt 200),
             (''description'', JStr ''Maximum matches to return.'')])]),
       (''required'', JList [JStr ''pattern''])]
      h RT_read_only True"

definition run_cli_tool :: "'w handler \<Rightarrow> 'w tool" where
  "run_cli_tool h =
    (make_tool ''run_cli''
      (''Run a shell command in the working directory. DESTRUCTIVE ''
      @ [CHR 0xE2, CHR 0x80, CHR 0x94]
      @ '' requires approval every call. Prefer a narrower tool when one suffices. Optional ''
      @ ''timeout_seconds up to 300.'')
      [(''type'', JStr ''object''),
       (''properties'', JObj [(''command'', JObj [(''type'', JStr ''string''),
             (''description'', JStr ''The shell command to run.'')]),
          (''timeout_seconds'', JObj [(''type'', JStr ''number''),
             (''minimum'', JFloat (1 / 10)),
             (''maximum'', JInt 300),
             (''description'', JStr ''Optional timeout in seconds (default varies by command).'')])]),
       (''required'', JList [JStr ''command''])]
      h RT_destructive False)
      \<lparr>tl_mutates_workspace := True, tl_evidence_type := Some ''command''\<rparr>"

definition fetch_url_tool :: "'w handler \<Rightarrow> 'w tool" where
  "fetch_url_tool h =
    make_tool ''fetch_url''
      (''Fetch a web page or URL over HTTP(S) and return its text content (HTML tags ''
      @ ''stripped). Use for documentation, changelogs, or API docs.'')
      [(''type'', JStr ''object''),
       (''properties'', JObj [(''url'', JObj [(''type'', JStr ''string''),
             (''description'', JStr ''The absolute http(s) URL to fetch.'')])]),
       (''required'', JList [JStr ''url''])]
      h RT_read_only True"

definition load_skill_tool :: "'w handler \<Rightarrow> 'w tool" where
  "load_skill_tool h =
    make_tool ''load_skill''
      ''Load a local SKILL.md instruction set by exact name.''
      [(''type'', JStr ''object''),
       (''properties'', JObj [(''name'', JObj [(''type'', JStr ''string''), (''description'', JStr ''Exact skill name.'')])]),
       (''required'', JList [JStr ''name''])]
      h RT_read_only True"

definition start_process_tool :: "'w handler \<Rightarrow> 'w tool" where
  "start_process_tool h =
    (make_tool ''start_process''
      ''Start a long-running service in the background and return its process_id.''
      [(''type'', JStr ''object''),
       (''properties'', JObj [(''command'', JObj [(''type'', JStr ''string'')])]),
       (''required'', JList [JStr ''command''])]
      h RT_destructive False)
      \<lparr>tl_volatile := True\<rparr>"

definition read_process_output_tool :: "'w handler \<Rightarrow> 'w tool" where
  "read_process_output_tool h =
    (make_tool ''read_process_output''
      ''Read current stdout, stderr, and status of a background process.''
      [(''type'', JStr ''object''),
       (''properties'', JObj [(''process_id'', JObj [(''type'', JStr ''string'')])]),
       (''required'', JList [JStr ''process_id''])]
      h RT_read_only True)
      \<lparr>tl_volatile := True\<rparr>"

definition stop_process_tool :: "'w handler \<Rightarrow> 'w tool" where
  "stop_process_tool h =
    (make_tool ''stop_process''
      ''Stop a background process and all of its descendants.''
      [(''type'', JStr ''object''),
       (''properties'', JObj [(''process_id'', JObj [(''type'', JStr ''string'')])]),
       (''required'', JList [JStr ''process_id''])]
      h RT_sensitive_write True)
      \<lparr>tl_volatile := True\<rparr>"

definition wait_for_http_tool :: "'w handler \<Rightarrow> 'w tool" where
  "wait_for_http_tool h =
    (make_tool ''wait_for_http''
      ''Wait until a localhost HTTP service is ready to accept requests.''
      [(''type'', JStr ''object''),
       (''properties'', JObj [(''url'', JObj [(''type'', JStr ''string'')]),
          (''timeout_seconds'', JObj [(''type'', JStr ''number''),
             (''minimum'', JFloat (1 / 10)),
             (''maximum'', JInt 120)])]),
       (''required'', JList [JStr ''url''])]
      h RT_read_only True)
      \<lparr>tl_evidence_type := Some ''http'', tl_volatile := True\<rparr>"

section \<open>extra.py\<close>

definition search_web_tool :: "'w handler \<Rightarrow> 'w tool" where
  "search_web_tool h =
    make_tool ''search_web''
      (''Search the web with DuckDuckGo and return a list of result titles, URLs, and short ''
      @ ''snippets. Use when you need to discover documentation, articles, or current ''
      @ ''information rather than a known URL.'')
      [(''type'', JStr ''object''),
       (''properties'', JObj [(''query'', JObj [(''type'', JStr ''string''), (''description'', JStr ''Search query.'')]),
          (''max_results'', JObj [(''type'', JStr ''integer''),
             (''minimum'', JInt 1),
             (''maximum'', JInt 10),
             (''description'', JStr ''Maximum results to return (default 5).'')])]),
       (''required'', JList [JStr ''query''])]
      h RT_read_only True"

definition git_status_tool :: "'w handler \<Rightarrow> 'w tool" where
  "git_status_tool h =
    make_tool ''git_status''
      ''Show git working tree status (short format with branch).''
      [(''type'', JStr ''object''),
       (''properties'', JObj [(''repo_path'', JObj [(''type'', JStr ''string''),
             (''description'', JStr ''Path to repository root (default: working directory).'')])]),
       (''required'', JList [])]
      h RT_read_only True"

definition git_diff_tool :: "'w handler \<Rightarrow> 'w tool" where
  "git_diff_tool h =
    make_tool ''git_diff''
      ''Show git diff for the working tree or a specific path.''
      [(''type'', JStr ''object''),
       (''properties'', JObj [(''repo_path'', JObj [(''type'', JStr ''string''),
             (''description'', JStr ''Path to repository root (default: working directory).'')]),
          (''target'', JObj [(''type'', JStr ''string''),
             (''description'', JStr ''Specific file or directory to diff (default: all).'')])]),
       (''required'', JList [])]
      h RT_read_only True"

definition git_log_tool :: "'w handler \<Rightarrow> 'w tool" where
  "git_log_tool h =
    make_tool ''git_log''
      ''Show recent git commits in one-line format.''
      [(''type'', JStr ''object''),
       (''properties'', JObj [(''repo_path'', JObj [(''type'', JStr ''string''),
             (''description'', JStr ''Path to repository root (default: working directory).'')]),
          (''count'', JObj [(''type'', JStr ''integer''),
             (''minimum'', JInt 1),
             (''maximum'', JInt 50),
             (''description'', JStr ''Number of commits (default 10, max 50).'')])]),
       (''required'', JList [])]
      h RT_read_only True"

definition apply_diff_tool :: "'w handler \<Rightarrow> 'w tool" where
  "apply_diff_tool h =
    (make_tool ''apply_diff''
      (''Apply a unified diff to an existing file. Prefer edit_file for simple single ''
      @ ''replacements; use apply_diff for multi-hunk changes.'')
      [(''type'', JStr ''object''),
       (''properties'', JObj [(''path'', JObj [(''type'', JStr ''string''),
             (''description'', JStr ''File path relative to working directory.'')]),
          (''diff'', JObj [(''type'', JStr ''string''),
             (''description'', JStr ''Unified diff to apply.'')])]),
       (''required'', JList [JStr ''path'', JStr ''diff''])]
      h RT_sensitive_write False)
      \<lparr>tl_mutates_workspace := True\<rparr>"

definition read_directory_tree_tool :: "'w handler \<Rightarrow> 'w tool" where
  "read_directory_tree_tool h =
    make_tool ''read_directory_tree''
      ''Return a nested directory tree as JSON, skipping noise directories.''
      [(''type'', JStr ''object''),
       (''properties'', JObj [(''path'', JObj [(''type'', JStr ''string''),
             (''description'', JStr ''Directory path relative to working directory.'')]),
          (''max_depth'', JObj [(''type'', JStr ''integer''),
             (''minimum'', JInt 1),
             (''maximum'', JInt 8),
             (''description'', JStr ''Max depth (default 4).'')])]),
       (''required'', JList [])]
      h RT_read_only True"

definition run_tests_tool :: "'w handler \<Rightarrow> 'w tool" where
  "run_tests_tool h =
    (make_tool ''run_tests''
      (''Run the project test suite. Infers the command from project files (pyproject.toml, ''
      @ ''package.json, etc.) if not provided.'')
      [(''type'', JStr ''object''),
       (''properties'', JObj [(''command'', JObj [(''type'', JStr ''string''),
             (''description'', JStr ''Test command (optional, inferred if omitted).'')]),
          (''timeout_seconds'', JObj [(''type'', JStr ''number''),
             (''minimum'', JFloat (1 / 10)),
             (''maximum'', JInt 600),
             (''description'', JStr ''Timeout (default 300, max 600).'')])]),
       (''required'', JList [])]
      h RT_destructive False)
      \<lparr>tl_evidence_type := Some ''test''\<rparr>"

definition execute_python_tool :: "'w handler \<Rightarrow> 'w tool" where
  "execute_python_tool h =
    make_tool ''execute_python''
      (''Execute a snippet of Python code in an isolated subprocess. Use for calculations, ''
      @ ''data transformation, or quick prototyping.'')
      [(''type'', JStr ''object''),
       (''properties'', JObj [(''code'', JObj [(''type'', JStr ''string''),
             (''description'', JStr ''Python source code to execute.'')]),
          (''timeout_seconds'', JObj [(''type'', JStr ''number''),
             (''minimum'', JFloat (1 / 10)),
             (''maximum'', JInt 120),
             (''description'', JStr ''Timeout (default 30).'')])]),
       (''required'', JList [JStr ''code''])]
      h RT_destructive False"

definition memory_read_tool :: "'w handler \<Rightarrow> 'w tool" where
  "memory_read_tool h =
    make_tool ''memory_read''
      ''Read a value from the project-local memory store by key.''
      [(''type'', JStr ''object''),
       (''properties'', JObj [(''key'', JObj [(''type'', JStr ''string''), (''description'', JStr ''Memory key.'')])]),
       (''required'', JList [JStr ''key''])]
      h RT_read_only True"

definition memory_write_tool :: "'w handler \<Rightarrow> 'w tool" where
  "memory_write_tool h =
    make_tool ''memory_write''
      ''Write a JSON-serializable value to the project-local memory store.''
      [(''type'', JStr ''object''),
       (''properties'', JObj [(''key'', JObj [(''type'', JStr ''string''), (''description'', JStr ''Memory key.'')]),
          (''value'', JObj [(''type'', JStr ''object''), (''description'', JStr ''JSON value to store.'')])]),
       (''required'', JList [JStr ''key'', JStr ''value''])]
      h RT_sensitive_write False"

definition ask_user_choice_tool :: "'w handler \<Rightarrow> 'w tool" where
  "ask_user_choice_tool h =
    make_tool ''ask_user_choice''
      ''Ask the user to choose one option from a list.''
      [(''type'', JStr ''object''),
       (''properties'', JObj [(''question'', JObj [(''type'', JStr ''string'')]),
          (''options'', JObj [(''type'', JStr ''array''),
             (''items'', JObj [(''type'', JStr ''string'')]),
             (''minItems'', JInt 2)])]),
       (''required'', JList [JStr ''question'', JStr ''options''])]
      h RT_read_only True"

definition summarize_text_tool :: "'w handler \<Rightarrow> 'w tool" where
  "summarize_text_tool h =
    make_tool ''summarize_text''
      (''Summarize a long text into a few sentences. Useful for condensing tool output ''
      @ ''before feeding it back to the model.'')
      [(''type'', JStr ''object''),
       (''properties'', JObj [(''text'', JObj [(''type'', JStr ''string'')]),
          (''max_sentences'', JObj [(''type'', JStr ''integer''),
             (''minimum'', JInt 1),
             (''maximum'', JInt 20),
             (''description'', JStr ''Default 3.'')])]),
       (''required'', JList [JStr ''text''])]
      h RT_read_only True"

definition list_processes_tool :: "'w handler \<Rightarrow> 'w tool" where
  "list_processes_tool h =
    make_tool ''list_processes''
      ''List running OS processes (best-effort, truncated).''
      [(''type'', JStr ''object''),
       (''properties'', JObj []),
       (''required'', JList [])]
      h RT_read_only True"

definition kill_process_tool :: "'w handler \<Rightarrow> 'w tool" where
  "kill_process_tool h =
    make_tool ''kill_process''
      ''Kill a process by PID.''
      [(''type'', JStr ''object''),
       (''properties'', JObj [(''pid'', JObj [(''type'', JStr ''integer'')])]),
       (''required'', JList [JStr ''pid''])]
      h RT_destructive False"

definition check_url_health_tool :: "'w handler \<Rightarrow> 'w tool" where
  "check_url_health_tool h =
    (make_tool ''check_url_health''
      (''Check whether an HTTP(S) URL is reachable. Public URLs only; loopback is allowed. ''
      @ ''Uses HEAD by default.'')
      [(''type'', JStr ''object''),
       (''properties'', JObj [(''url'', JObj [(''type'', JStr ''string'')]),
          (''method'', JObj [(''type'', JStr ''string''),
             (''enum'', JList [JStr ''HEAD'', JStr ''GET'']),
             (''description'', JStr ''Default HEAD.'')]),
          (''timeout_seconds'', JObj [(''type'', JStr ''number''),
             (''minimum'', JFloat (1 / 10)),
             (''maximum'', JInt 60)])]),
       (''required'', JList [JStr ''url''])]
      h RT_read_only True)
      \<lparr>tl_evidence_type := Some ''http'', tl_volatile := True\<rparr>"

definition todo_create_tool :: "'w handler \<Rightarrow> 'w tool" where
  "todo_create_tool h =
    make_tool ''todo_create''
      ''Create a new todo item for the current session/project.''
      [(''type'', JStr ''object''),
       (''properties'', JObj [(''title'', JObj [(''type'', JStr ''string'')]),
          (''status'', JObj [(''type'', JStr ''string''),
             (''enum'', JList [JStr ''pending'', JStr ''in_progress'']),
             (''description'', JStr ''Default pending.'')])]),
       (''required'', JList [JStr ''title''])]
      h RT_sensitive_write False"

definition todo_update_tool :: "'w handler \<Rightarrow> 'w tool" where
  "todo_update_tool h =
    make_tool ''todo_update''
      ''Update the status of a todo item.''
      [(''type'', JStr ''object''),
       (''properties'', JObj [(''id'', JObj [(''type'', JStr ''string'')]),
          (''status'', JObj [(''type'', JStr ''string''),
             (''enum'', JList [JStr ''pending'', JStr ''in_progress'', JStr ''done'', JStr ''cancelled''])])]),
       (''required'', JList [JStr ''id'', JStr ''status''])]
      h RT_sensitive_write False"

definition todo_list_tool :: "'w handler \<Rightarrow> 'w tool" where
  "todo_list_tool h =
    make_tool ''todo_list''
      ''List todo items for the current project.''
      [(''type'', JStr ''object''),
       (''properties'', JObj [(''status'', JObj [(''type'', JStr ''string''),
             (''enum'', JList [JStr ''pending'', JStr ''in_progress'', JStr ''done'', JStr ''cancelled''])])]),
       (''required'', JList [])]
      h RT_read_only True"

definition compare_files_tool :: "'w handler \<Rightarrow> 'w tool" where
  "compare_files_tool h =
    make_tool ''compare_files''
      ''Compare two files and return a unified diff.''
      [(''type'', JStr ''object''),
       (''properties'', JObj [(''path_a'', JObj [(''type'', JStr ''string'')]),
          (''path_b'', JObj [(''type'', JStr ''string'')])]),
       (''required'', JList [JStr ''path_a'', JStr ''path_b''])]
      h RT_read_only True"

section \<open>The tables\<close>

definition build_marcus_extra_tools :: "(string \<Rightarrow> 'w handler) \<Rightarrow> 'w tool list" where
  "build_marcus_extra_tools h =
    [search_web_tool (h ''search_web''),
     git_status_tool (h ''git_status''),
     git_diff_tool (h ''git_diff''),
     git_log_tool (h ''git_log''),
     apply_diff_tool (h ''apply_diff''),
     read_directory_tree_tool (h ''read_directory_tree''),
     run_tests_tool (h ''run_tests''),
     execute_python_tool (h ''execute_python''),
     memory_read_tool (h ''memory_read''),
     memory_write_tool (h ''memory_write''),
     ask_user_choice_tool (h ''ask_user_choice''),
     summarize_text_tool (h ''summarize_text''),
     list_processes_tool (h ''list_processes''),
     kill_process_tool (h ''kill_process''),
     check_url_health_tool (h ''check_url_health''),
     todo_create_tool (h ''todo_create''),
     todo_update_tool (h ''todo_update''),
     todo_list_tool (h ''todo_list''),
     compare_files_tool (h ''compare_files'')]"

definition build_background_process_tools :: "(string \<Rightarrow> 'w handler) \<Rightarrow> 'w tool list" where
  "build_background_process_tools h =
    [start_process_tool (h ''start_process''),
     read_process_output_tool (h ''read_process_output''),
     stop_process_tool (h ''stop_process''),
     wait_for_http_tool (h ''wait_for_http'')]"

definition base_tools :: "(string \<Rightarrow> 'w handler) \<Rightarrow> 'w tool list" where
  "base_tools h =
    [read_file_tool (h ''read_file''),
     write_file_tool (h ''write_file''),
     edit_file_tool (h ''edit_file''),
     list_files_tool (h ''list_files''),
     grep_tool (h ''grep''),
     run_cli_tool (h ''run_cli''),
     fetch_url_tool (h ''fetch_url''),
     load_skill_tool (h ''load_skill'')]"

definition build_marcus_tools :: "(string \<Rightarrow> 'w handler) \<Rightarrow> 'w tool list" where
  "build_marcus_tools h = base_tools h @ build_background_process_tools h @ build_marcus_extra_tools h"

end
