(* ===== verification/ToolTypes.thy ===== *)
theory ToolTypes
  imports Diffs CliTools
begin

text \<open>
  The file, diff and note tools of the command line agent with their handlers in place
  (marcus_code/tools/base.py and extra.py), and what their schemas promise the handlers: arguments
  that harness/runtime/tool_validation.py lets through never have a type the handler fails on. Of
  jsonschema it is only used that it checks the required names and the types of the properties.
\<close>

section \<open>Tools with their handlers\<close>

definition as_handler :: "(dict \<Rightarrow> 'o host \<Rightarrow> (exn + dict) \<times> 'o host) \<Rightarrow> 'o host handler" where
  "as_handler f args w =
     (case args of
        JObj d \<Rightarrow> (case f d w of (Inl e, w') \<Rightarrow> (Inl e, w') | (Inr r, w') \<Rightarrow> (Inr (JObj r), w'))
      | _ \<Rightarrow> (Inl (PyError ''AttributeError'' ''object has no attribute get''), w))"

definition reading :: "(dict \<Rightarrow> fs \<Rightarrow> exn + dict) \<Rightarrow> dict \<Rightarrow> 'o host \<Rightarrow> (exn + dict) \<times> 'o host" where
  "reading f d w = (f d (hs_fs w), w)"

definition build_file_tools :: "'o services \<Rightarrow> path \<Rightarrow> int \<Rightarrow> 'o host tool list" where
  "build_file_tools X ws max_chars =
     [read_file_tool (as_handler (reading (read_file ws max_chars))),
      write_file_tool (as_handler (write_file (externals.truncate X) ws)),
      edit_file_tool (as_handler (edit_file (externals.truncate X) ws)),
      apply_diff_tool (as_handler (apply_diff (externals.truncate X) ws))]"

definition build_note_tools :: "'o services \<Rightarrow> path \<Rightarrow> 'o host tool list" where
  "build_note_tools X ws =
     [memory_read_tool (as_handler (reading (memory_read X ws))),
      memory_write_tool (as_handler (\<lambda>d w. with_fs w (memory_write X ws d (hs_fs w)))),
      todo_create_tool (as_handler (todo_create X ws)),
      todo_update_tool (as_handler (todo_update X ws)),
      todo_list_tool (as_handler (reading (todo_list X ws)))]"

section \<open>What a schema says of a property\<close>

definition has_type :: "string \<Rightarrow> json \<Rightarrow> bool" where
  "has_type t v =
     (if t = ''string'' then (case v of JStr _ \<Rightarrow> True | _ \<Rightarrow> False)
      else if t = ''integer'' then (case v of JInt _ \<Rightarrow> True | JFloat r \<Rightarrow> r = of_int \<lfloor>r\<rfloor> | _ \<Rightarrow> False)
      else if t = ''number'' then (case v of JInt _ \<Rightarrow> True | JFloat _ \<Rightarrow> True | _ \<Rightarrow> False)
      else if t = ''boolean'' then (case v of JBool _ \<Rightarrow> True | _ \<Rightarrow> False)
      else if t = ''array'' then (case v of JList _ \<Rightarrow> True | _ \<Rightarrow> False)
      else if t = ''object'' then (case v of JObj _ \<Rightarrow> True | _ \<Rightarrow> False)
      else True)"

definition schema_type :: "dict \<Rightarrow> string \<Rightarrow> string option" where
  "schema_type schema k =
     (case dict_get schema ''properties'' of
        Some (JObj ps) \<Rightarrow>
          (case dict_get ps k of
             Some (JObj p) \<Rightarrow> (case dict_get p ''type'' of Some (JStr t) \<Rightarrow> Some t | _ \<Rightarrow> None)
           | _ \<Rightarrow> None)
      | _ \<Rightarrow> None)"

definition required_names :: "dict \<Rightarrow> json list" where
  "required_names schema = (case dict_get schema ''required'' of Some (JList ks) \<Rightarrow> ks | _ \<Rightarrow> [])"

definition fits :: "dict \<Rightarrow> dict \<Rightarrow> bool" where
  "fits schema args \<longleftrightarrow>
     list_all (\<lambda>k. case k of JStr s \<Rightarrow> dict_has args s | _ \<Rightarrow> True) (required_names schema)
     \<and> list_all (\<lambda>k. case schema_type schema k of
                       Some t \<Rightarrow> has_type t (the (dict_get args k)) | None \<Rightarrow> True) (map fst args)"

definition checks_types :: "(dict \<Rightarrow> dict \<Rightarrow> (string \<times> string) list) \<Rightarrow> bool" where
  "checks_types errors \<longleftrightarrow> (\<forall>schema args. errors schema args = [] \<longrightarrow> fits schema args)"

lemma fits_type: "fits schema args \<Longrightarrow> schema_type schema k = Some t \<Longrightarrow> dict_get args k = Some v \<Longrightarrow> has_type t v"
  using domI [of "map_of args" k v]
  by (force simp: fits_def list_all_iff dom_map_of_conv_image_fst)

lemma has_type_simps [simp]:
  "has_type ''string'' v \<longleftrightarrow> (\<exists>s. v = JStr s)"
  "has_type ''integer'' v \<Longrightarrow> \<exists>i. py_int v = Inr i"
  by (auto simp: has_type_def split: json.splits if_splits)

section \<open>Handlers on typed arguments\<close>

named_theorems kinds \<open>the exceptions of the handlers, none of which is the type error\<close>

lemma kind_simps [kinds]:
  "value_error m \<noteq> type_error" "symlink_loop p \<noteq> type_error" "no_get \<noteq> type_error"
  "k \<noteq> ''TypeError'' \<Longrightarrow> os_error k m p \<noteq> type_error" "not_found p \<noteq> type_error"
  "k \<noteq> ''TypeError'' \<Longrightarrow> PyError k m \<noteq> type_error"
  by (simp_all add: value_error_def type_error_def symlink_loop_def no_get_def os_error_def not_found_def)

lemma existing_file_kind [kinds]: "existing_file fs ws path \<noteq> Inl type_error"
  by (auto simp: existing_file_def resolve_scoped_path_def kinds split: option.splits if_splits)

lemma resolve_kind [kinds]: "resolve_scoped_path fs ws path \<noteq> Inl type_error"
  by (auto simp: resolve_scoped_path_def kinds split: option.splits if_splits)

lemma edit_text_kind [kinds]: "edit_text original old new \<noteq> Inl type_error"
  by (auto simp: edit_text_def kinds Let_def)

lemma atomic_write_kind [kinds]: "fst (atomic_write_text X p content w) \<noteq> Inl type_error"
  by (auto simp: atomic_write_text_def atomic_write_steps_def make_dirs_def kinds Let_def
      split: sum.splits option.splits if_splits prod.splits)

lemma file_errors:
  "existing_file fs ws path = Inl e \<Longrightarrow> e \<noteq> type_error"
  "resolve_scoped_path fs ws path = Inl e \<Longrightarrow> e \<noteq> type_error"
  "edit_text original old new = Inl e \<Longrightarrow> e \<noteq> type_error"
  "atomic_write_text X p content w = (Inl e, w') \<Longrightarrow> e \<noteq> type_error"
  using existing_file_kind [of fs ws path] resolve_kind [of fs ws path] edit_text_kind [of original old new]
    atomic_write_kind [of X p content w]
  by auto

lemma given_type: "fits schema d \<Longrightarrow> schema_type schema k = Some t \<Longrightarrow> given d k = Some v \<Longrightarrow> has_type t v"
  by (auto simp: given_def dest: fits_type split: option.splits json.splits)

lemma read_file_kind:
  assumes d: "fits schema d" and t: "schema_type schema ''path'' = Some ''string''"
      "schema_type schema ''offset'' = Some ''integer''" "schema_type schema ''limit'' = Some ''integer''"
  shows "read_file ws n d fs \<noteq> Inl type_error"
proof -
  have "\<exists>i. py_int (case dict_get d ''offset'' of None \<Rightarrow> JInt 1 | Some v \<Rightarrow> v) = Inr i"
    using has_type_simps(2) [OF fits_type [OF d t(2)]] by (simp split: option.splits)
  then obtain i where i: "py_int (case dict_get d ''offset'' of None \<Rightarrow> JInt 1 | Some v \<Rightarrow> v) = Inr i" ..
  have "\<exists>l. optional_int d ''limit'' = Inr l"
    using has_type_simps(2) [OF given_type [OF d t(3)]] by (auto simp: optional_int_def split: option.splits)
  then obtain l where l: "optional_int d ''limit'' = Inr l" ..
  show ?thesis
  proof (cases "dict_get d ''path''")
    case None
    then show ?thesis by (simp add: read_file_def kinds)
  next
    case (Some v)
    then obtain path where "v = JStr path" using fits_type [OF d t(1)] by auto
    with Some i l show ?thesis
      by (cases "existing_file fs ws path") (auto simp: read_file_def kinds existing_file_kind [of fs ws path, simplified])
  qed
qed

lemma write_file_kind:
  assumes d: "fits schema d" and t: "schema_type schema ''path'' = Some ''string''" "schema_type schema ''content'' = Some ''string''"
  shows "fst (write_file X ws d w) \<noteq> Inl type_error"
proof (cases "dict_get d ''path'' = None \<or> given d ''content'' = None")
  case True
  then show ?thesis by (auto simp: write_file_def kinds split: option.splits json.splits)
next
  case False
  then obtain path content where p: "dict_get d ''path'' = Some (JStr path)" "given d ''content'' = Some (JStr content)"
    using fits_type [OF d t(1)] given_type [OF d t(2)] by auto
  then show ?thesis
    by (auto simp: write_file_def kinds dest: file_errors split: sum.splits prod.splits)
qed

lemma edit_file_kind:
  assumes d: "fits schema d" and t: "schema_type schema ''path'' = Some ''string''"
      "schema_type schema ''old_string'' = Some ''string''" "schema_type schema ''new_string'' = Some ''string''"
  shows "fst (edit_file X ws d w) \<noteq> Inl type_error"
proof (cases "dict_get d ''path'' = None \<or> given d ''old_string'' = None \<or> given d ''new_string'' = None")
  case True
  then show ?thesis by (auto simp: edit_file_def kinds split: option.splits json.splits)
next
  case False
  then obtain path old new where p: "dict_get d ''path'' = Some (JStr path)" "given d ''old_string'' = Some (JStr old)"
      "given d ''new_string'' = Some (JStr new)"
    using fits_type [OF d t(1)] given_type [OF d t(2)] given_type [OF d t(3)] by auto
  then show ?thesis
    by (auto simp: edit_file_def kinds dest: file_errors split: sum.splits prod.splits)
qed

lemma apply_diff_kind:
  assumes d: "fits schema d" and t: "schema_type schema ''path'' = Some ''string''" "schema_type schema ''diff'' = Some ''string''"
  shows "fst (apply_diff X ws d w) \<noteq> Inl type_error"
proof (cases "dict_get d ''path'' = None \<or> given d ''diff'' = None")
  case True
  then show ?thesis by (auto simp: apply_diff_def kinds split: option.splits json.splits)
next
  case False
  then obtain path diff where p: "dict_get d ''path'' = Some (JStr path)" "given d ''diff'' = Some (JStr diff)"
    using fits_type [OF d t(1)] given_type [OF d t(2)] by auto
  then show ?thesis
    by (auto simp: apply_diff_def apply_unified_diff_def kinds dest: file_errors split: sum.splits prod.splits)
qed

lemma memory_key_kind:
  assumes d: "fits schema d" and t: "schema_type schema ''key'' = Some ''string''" and m: "missing \<noteq> type_error"
  shows "memory_key missing d \<noteq> Inl type_error"
proof (cases "dict_get d ''key''")
  case None
  with m show ?thesis by (simp add: memory_key_def)
next
  case (Some v)
  then obtain k where "v = JStr k" using fits_type [OF d t] by auto
  with Some m show ?thesis by (simp add: memory_key_def kinds)
qed

lemma make_parents_kind: "make_parents fs up \<noteq> Inl type_error"
proof (induction up arbitrary: fs)
  case Nil
  then show ?case by (auto simp: exist_ok_def make_dir_def kinds split: if_splits)
next
  case (Cons c up)
  have dir: "make_dir f p = Inl e \<Longrightarrow> e \<noteq> type_error" for f p e
    by (auto simp: make_dir_def kinds split: option.splits if_splits)
  have "exist_ok f p r \<noteq> Inl type_error" if "r \<noteq> Inl type_error" for f p r
    using that by (auto simp: exist_ok_def split: sum.splits)
  moreover have "make_dir f p \<noteq> Inl type_error" for f p using dir [of f p type_error] by auto
  ultimately show ?case
    using Cons dir by (auto simp: Let_def split: sum.splits)
qed

lemma save_json_kind: "save_json X p v fs = (Inl e, f) \<Longrightarrow> e \<noteq> type_error"
  using make_parents_kind [of fs "rev (butlast p)"]
  by (auto simp: save_json_def put_text_def kinds split: sum.splits option.splits if_splits)

lemma saved_kind: "fst (saved (save_json X p v fs) todo s) \<noteq> Inl type_error"
  using save_json_kind [of X p v fs] by (cases "save_json X p v fs") (auto simp: saved_def split: sum.splits)

lemma update_todo_kind: "update_todo i f ts \<noteq> Inl type_error"
proof (induction ts)
  case (Cons t ts)
  then show ?case
    by (cases t; cases "update_todo i f ts") (auto simp: kinds split: option.split)
qed simp

lemma with_status_kind: "with_status st ts \<noteq> Inl type_error"
proof (induction ts)
  case (Cons t ts)
  then show ?case
    by (cases t; cases "with_status st ts") (auto simp: kinds)
qed simp

lemma note_tool_kinds:
  assumes d: "fits schema d"
  shows "schema_type schema ''key'' = Some ''string'' \<Longrightarrow> memory_read X ws d fs \<noteq> Inl type_error"
    and "schema_type schema ''key'' = Some ''string'' \<Longrightarrow> fst (memory_write X ws d fs) \<noteq> Inl type_error"
    and "fst (todo_create X ws d w) \<noteq> Inl type_error" "fst (todo_update X ws d w) \<noteq> Inl type_error"
    and "todo_list X ws d fs \<noteq> Inl type_error"
proof -
  show "memory_read X ws d fs \<noteq> Inl type_error" if "schema_type schema ''key'' = Some ''string''"
    using memory_key_kind [OF d that, of "value_error (''memory_read requires a '' @ str_repr ''key'' @ '' field'')"]
    by (auto simp: memory_read_def kinds split: sum.splits option.splits)
  show "fst (memory_write X ws d fs) \<noteq> Inl type_error" if "schema_type schema ''key'' = Some ''string''"
    using memory_key_kind [OF d that, of write_missing]
    by (auto simp: memory_write_def write_missing_def kinds dest: save_json_kind split: sum.splits option.splits prod.splits)
  show "fst (todo_create X ws d w) \<noteq> Inl type_error"
    by (auto simp: todo_create_def save_todos_def kinds saved_kind split: option.splits prod.splits)
  show "fst (todo_update X ws d w) \<noteq> Inl type_error"
    using update_todo_kind
    by (auto simp: todo_update_def save_todos_def todo_not_found_def kinds saved_kind
        split: option.splits prod.splits sum.splits)
  show "todo_list X ws d fs \<noteq> Inl type_error"
    using with_status_kind by (auto simp: todo_list_def listed_def split: option.splits sum.splits)
qed

section \<open>Accepted arguments\<close>

lemma as_handler_error: "fst (as_handler f (JObj d) w) = Inl type_error \<Longrightarrow> fst (f d w) = Inl type_error"
  by (auto simp: as_handler_def split: prod.splits sum.splits)

lemma tool_record [simp]:
  "tl_handler (t\<lparr>tl_mutates_workspace := b\<rparr>) = tl_handler t" "tl_parameters (t\<lparr>tl_mutates_workspace := b\<rparr>) = tl_parameters t"
  by (cases t; simp)+

lemma file_schemas:
  "schema_type (tl_parameters (read_file_tool h)) ''path'' = Some ''string''"
  "schema_type (tl_parameters (read_file_tool h)) ''offset'' = Some ''integer''"
  "schema_type (tl_parameters (read_file_tool h)) ''limit'' = Some ''integer''"
  "schema_type (tl_parameters (write_file_tool h)) ''path'' = Some ''string''"
  "schema_type (tl_parameters (write_file_tool h)) ''content'' = Some ''string''"
  "schema_type (tl_parameters (edit_file_tool h)) ''path'' = Some ''string''"
  "schema_type (tl_parameters (edit_file_tool h)) ''old_string'' = Some ''string''"
  "schema_type (tl_parameters (edit_file_tool h)) ''new_string'' = Some ''string''"
  "schema_type (tl_parameters (apply_diff_tool h)) ''path'' = Some ''string''"
  "schema_type (tl_parameters (apply_diff_tool h)) ''diff'' = Some ''string''"
  by (simp_all add: schema_type_def read_file_tool_def write_file_tool_def edit_file_tool_def apply_diff_tool_def)

lemma note_schemas:
  "schema_type (tl_parameters (memory_read_tool h)) ''key'' = Some ''string''"
  "schema_type (tl_parameters (memory_write_tool h)) ''key'' = Some ''string''"
  by (simp_all add: schema_type_def memory_read_tool_def memory_write_tool_def)

lemma tool_fits:
  "fits (tl_parameters (read_file_tool h)) d \<Longrightarrow> fst (reading (read_file ws n) d w) \<noteq> Inl type_error"
  "fits (tl_parameters (write_file_tool h)) d \<Longrightarrow> fst (write_file Y ws d w) \<noteq> Inl type_error"
  "fits (tl_parameters (edit_file_tool h)) d \<Longrightarrow> fst (edit_file Y ws d w) \<noteq> Inl type_error"
  "fits (tl_parameters (apply_diff_tool h)) d \<Longrightarrow> fst (apply_diff Y ws d w) \<noteq> Inl type_error"
  "fits (tl_parameters (memory_read_tool h)) d \<Longrightarrow> fst (reading (memory_read X ws) d w) \<noteq> Inl type_error"
  "fits (tl_parameters (memory_write_tool h)) d \<Longrightarrow> fst (with_fs w (memory_write X ws d (hs_fs w))) \<noteq> Inl type_error"
  "fits (tl_parameters (todo_list_tool h)) d \<Longrightarrow> fst (reading (todo_list X ws) d w) \<noteq> Inl type_error"
  unfolding reading_def with_fs_def fst_conv
  by (erule read_file_kind write_file_kind edit_file_kind apply_diff_kind note_tool_kinds; rule file_schemas note_schemas)+

lemma table_handlers [simp]:
  "tl_handler (read_file_tool h) = h" "tl_handler (write_file_tool h) = h" "tl_handler (edit_file_tool h) = h"
  "tl_handler (apply_diff_tool h) = h" "tl_handler (memory_read_tool h) = h" "tl_handler (memory_write_tool h) = h"
  "tl_handler (todo_create_tool h) = h" "tl_handler (todo_update_tool h) = h" "tl_handler (todo_list_tool h) = h"
  by (simp_all add: read_file_tool_def write_file_tool_def edit_file_tool_def apply_diff_tool_def
      memory_read_tool_def memory_write_tool_def todo_create_tool_def todo_update_tool_def todo_list_tool_def)

lemma normalized_fits:
  assumes "checks_types errors" "normalize_and_validate_arguments errors schema args = Inr d"
  shows "fits schema d"
  using assms
  by (auto simp: checks_types_def normalize_and_validate_arguments_def split: json.splits sum.splits list.splits)

text \<open>
  C34. Well-typed calls: when the schema check reports wrong types and missing names, arguments that
  pass it never make a file, diff or note tool fail with a type error.
\<close>

theorem accepted_arguments_fit:
  assumes "checks_types errors" and "t \<in> set (build_file_tools X ws n @ build_note_tools X ws)"
    and "normalize_and_validate_arguments errors (tl_parameters t) args = Inr d"
  shows "fst (tl_handler t (JObj d) w) \<noteq> Inl type_error"
proof -
  have d: "fits (tl_parameters t) d" by (rule normalized_fits [OF assms(1,3)])
  consider "t \<in> set (build_file_tools X ws n)" | "t \<in> set (build_note_tools X ws)" using assms(2) by auto
  then show ?thesis
  proof cases
    case 1
    with d show ?thesis
      by (auto simp: build_file_tools_def dest!: as_handler_error elim: tool_fits [THEN notE])
  next
    case 2
    with d show ?thesis
      by (auto simp: build_note_tools_def dest!: as_handler_error
          elim: tool_fits [THEN notE] notE [OF note_tool_kinds(3)] notE [OF note_tool_kinds(4)])
  qed
qed

definition fit_errors :: "dict \<Rightarrow> dict \<Rightarrow> (string \<times> string) list" where
  "fit_errors schema args = (if fits schema args then [] else [(''wrong type'', '''')])"

theorem accepted_witness:
  "fst (tl_handler (read_file_tool (as_handler (reading (read_file [''w''] 4000))))
      (JObj [(''path'', JStr ''a''), (''offset'', JInt 2)]) \<lparr>hs_fs = sample_store, hs_outside = (0::nat)\<rparr>) \<noteq> Inl type_error"
proof -
  have "checks_types fit_errors" by (simp add: checks_types_def fit_errors_def)
  moreover have "normalize_and_validate_arguments fit_errors (tl_parameters (read_file_tool (\<lambda>a w. (Inl no_get, w))))
      (JObj [(''path'', JStr ''a''), (''offset'', JStr ''2'')]) = Inr [(''path'', JStr ''a''), (''offset'', JInt 2)]"
    by code_simp
  then have "normalize_and_validate_arguments fit_errors (tl_parameters (read_file_tool h))
      (JObj [(''path'', JStr ''a''), (''offset'', JStr ''2'')]) = Inr [(''path'', JStr ''a''), (''offset'', JInt 2)]" for h
    by (simp add: read_file_tool_def)
  ultimately show ?thesis
    by (intro accepted_arguments_fit [where X = sample_services and ws = "[''w'']" and n = 4000])
      (simp_all add: build_file_tools_def)
qed

end
