(* ===== verification/ServerTools.thy ===== *)
theory ServerTools
  imports Tools
begin

text \<open>
  The built-in capability tools of the server as harness/runtime/native_tools.py and
  native_tools_extra.py declare them. The handlers are arguments, given by name; \<open>fs_dir\<close> is the
  setting tools_fs_root, which the descriptions show.
\<close>

section \<open>native_tools.py\<close>

definition server_fetch_url_tool :: "'w handler \<Rightarrow> 'w tool" where
  "server_fetch_url_tool h =
    make_tool ''fetch_url''
      (''Fetch a public web page or URL over HTTP(S) and return its text content (HTML tags ''
      @ ''stripped). Use this to read documentation, articles, or API responses from the web. ''
      @ ''Loopback/private addresses are blocked.'')
      [(''type'', JStr ''object''),
       (''properties'', JObj [(''url'', JObj [(''type'', JStr ''string''),
             (''description'', JStr ''The absolute http(s) URL to fetch.'')])]),
       (''required'', JList [JStr ''url''])]
      h RT_read_only True"

definition server_read_file_tool :: "string \<Rightarrow> 'w handler \<Rightarrow> 'w tool" where
  "server_read_file_tool fs_dir h =
    make_tool ''read_file''
      (''Read a text file from the sandboxed tools directory (''
      @ fs_dir
      @ (''). The path is relative to that root and cannot escape it. Credentials and private ''
      @ ''keys are redacted from the returned content.''))
      [(''type'', JStr ''object''),
       (''properties'', JObj [(''path'', JObj [(''type'', JStr ''string''),
             (''description'', JStr ''File path relative to the sandboxed tools directory.'')])]),
       (''required'', JList [JStr ''path''])]
      h RT_read_only True"

definition server_write_file_tool :: "string \<Rightarrow> 'w handler \<Rightarrow> 'w tool" where
  "server_write_file_tool fs_dir h =
    make_tool ''write_file''
      (''Write a text file into the sandboxed tools directory (''
      @ fs_dir
      @ (''), creating parent directories as needed. Overwrites an existing file at that path. ''
      @ ''The path is relative to that root and cannot escape it. Requires human approval.''))
      [(''type'', JStr ''object''),
       (''properties'', JObj [(''path'', JObj [(''type'', JStr ''string''),
             (''description'', JStr ''File path relative to the sandboxed tools directory.'')]),
          (''content'', JObj [(''type'', JStr ''string''),
             (''description'', JStr ''Text content to write.'')])]),
       (''required'', JList [JStr ''path'', JStr ''content''])]
      h RT_sensitive_write False"

definition server_run_cli_tool :: "string \<Rightarrow> 'w handler \<Rightarrow> 'w tool" where
  "server_run_cli_tool fs_dir h =
    make_tool ''run_cli''
      (''Run a shell command in the sandboxed tools directory (''
      @ fs_dir
      @ (''). DESTRUCTIVE '' @ [CHR 0xE2, CHR 0x80, CHR 0x94]
      @ '' requires human approval every single call, and can affect anything the server ''
      @ ''process has permission to touch. Prefer a narrower tool (fetch_url, read_file, ''
      @ ''write_file) whenever one suffices.''))
      [(''type'', JStr ''object''),
       (''properties'', JObj [(''command'', JObj [(''type'', JStr ''string''),
             (''description'', JStr ''The shell command to run.'')])]),
       (''required'', JList [JStr ''command''])]
      h RT_destructive False"

section \<open>native_tools_extra.py\<close>

definition server_search_web_tool :: "'w handler \<Rightarrow> 'w tool" where
  "server_search_web_tool h =
    make_tool ''search_web''
      ''Search the web with DuckDuckGo and return result titles, URLs, and snippets.''
      [(''type'', JStr ''object''),
       (''properties'', JObj [(''query'', JObj [(''type'', JStr ''string'')]),
          (''max_results'', JObj [(''type'', JStr ''integer''), (''minimum'', JInt 1), (''maximum'', JInt 10)])]),
       (''required'', JList [JStr ''query''])]
      h RT_read_only True"

definition server_edit_file_tool :: "'w handler \<Rightarrow> 'w tool" where
  "server_edit_file_tool h =
    make_tool ''edit_file''
      (''Replace one exact occurrence of old_string with new_string in an existing file ''
      @ ''inside the sandboxed tools directory. Requires human approval.'')
      [(''type'', JStr ''object''),
       (''properties'', JObj [(''path'', JObj [(''type'', JStr ''string'')]),
          (''old_string'', JObj [(''type'', JStr ''string'')]),
          (''new_string'', JObj [(''type'', JStr ''string'')])]),
       (''required'', JList [JStr ''path'', JStr ''old_string'', JStr ''new_string''])]
      h RT_sensitive_write False"

definition server_apply_diff_tool :: "'w handler \<Rightarrow> 'w tool" where
  "server_apply_diff_tool h =
    make_tool ''apply_diff''
      ''Apply a unified diff to a sandboxed file. Requires human approval.''
      [(''type'', JStr ''object''),
       (''properties'', JObj [(''path'', JObj [(''type'', JStr ''string'')]),
          (''diff'', JObj [(''type'', JStr ''string'')])]),
       (''required'', JList [JStr ''path'', JStr ''diff''])]
      h RT_sensitive_write False"

definition server_read_directory_tree_tool :: "'w handler \<Rightarrow> 'w tool" where
  "server_read_directory_tree_tool h =
    make_tool ''read_directory_tree''
      ''Return a nested directory tree as JSON, skipping noise directories.''
      [(''type'', JStr ''object''),
       (''properties'', JObj [(''path'', JObj [(''type'', JStr ''string'')]),
          (''max_depth'', JObj [(''type'', JStr ''integer''), (''minimum'', JInt 1), (''maximum'', JInt 8)])]),
       (''required'', JList [])]
      h RT_read_only True"

definition server_run_tests_tool :: "'w handler \<Rightarrow> 'w tool" where
  "server_run_tests_tool h =
    make_tool ''run_tests''
      ''Run the project test suite, inferring the command from project files if needed.''
      [(''type'', JStr ''object''),
       (''properties'', JObj [(''command'', JObj [(''type'', JStr ''string'')]),
          (''timeout_seconds'', JObj [(''type'', JStr ''number''),
             (''minimum'', JFloat (1 / 10)),
             (''maximum'', JInt 600)])]),
       (''required'', JList [])]
      h RT_destructive False"

definition server_execute_python_tool :: "'w handler \<Rightarrow> 'w tool" where
  "server_execute_python_tool h =
    make_tool ''execute_python''
      ''Execute a Python snippet in an isolated subprocess inside the sandbox.''
      [(''type'', JStr ''object''),
       (''properties'', JObj [(''code'', JObj [(''type'', JStr ''string'')]),
          (''timeout_seconds'', JObj [(''type'', JStr ''number''),
             (''minimum'', JFloat (1 / 10)),
             (''maximum'', JInt 120)])]),
       (''required'', JList [JStr ''code''])]
      h RT_destructive False"

definition server_memory_read_tool :: "'w handler \<Rightarrow> 'w tool" where
  "server_memory_read_tool h =
    make_tool ''memory_read''
      ''Read a value from the sandbox-local memory store by key.''
      [(''type'', JStr ''object''),
       (''properties'', JObj [(''key'', JObj [(''type'', JStr ''string'')])]),
       (''required'', JList [JStr ''key''])]
      h RT_read_only True"

definition server_memory_write_tool :: "'w handler \<Rightarrow> 'w tool" where
  "server_memory_write_tool h =
    make_tool ''memory_write''
      ''Write a JSON-serializable value to the sandbox-local memory store.''
      [(''type'', JStr ''object''),
       (''properties'', JObj [(''key'', JObj [(''type'', JStr ''string'')]),
          (''value'', JObj [(''type'', JStr ''object'')])]),
       (''required'', JList [JStr ''key'', JStr ''value''])]
      h RT_sensitive_write False"

definition server_ask_user_choice_tool :: "'w handler \<Rightarrow> 'w tool" where
  "server_ask_user_choice_tool h =
    make_tool ''ask_user_choice''
      ''Ask the user to choose one option from a list.''
      [(''type'', JStr ''object''),
       (''properties'', JObj [(''question'', JObj [(''type'', JStr ''string'')]),
          (''options'', JObj [(''type'', JStr ''array''),
             (''items'', JObj [(''type'', JStr ''string'')]),
             (''minItems'', JInt 2)])]),
       (''required'', JList [JStr ''question'', JStr ''options''])]
      h RT_read_only True"

definition server_summarize_text_tool :: "'w handler \<Rightarrow> 'w tool" where
  "server_summarize_text_tool h =
    make_tool ''summarize_text''
      ''Summarize a long text into a few sentences.''
      [(''type'', JStr ''object''),
       (''properties'', JObj [(''text'', JObj [(''type'', JStr ''string'')]),
          (''max_sentences'', JObj [(''type'', JStr ''integer''), (''minimum'', JInt 1), (''maximum'', JInt 20)])]),
       (''required'', JList [JStr ''text''])]
      h RT_read_only True"

definition server_list_processes_tool :: "'w handler \<Rightarrow> 'w tool" where
  "server_list_processes_tool h =
    make_tool ''list_processes''
      ''List running OS processes (best-effort, truncated).''
      [(''type'', JStr ''object''),
       (''properties'', JObj []),
       (''required'', JList [])]
      h RT_read_only True"

definition server_kill_process_tool :: "'w handler \<Rightarrow> 'w tool" where
  "server_kill_process_tool h =
    make_tool ''kill_process''
      ''Kill a process by PID.''
      [(''type'', JStr ''object''),
       (''properties'', JObj [(''pid'', JObj [(''type'', JStr ''integer'')])]),
       (''required'', JList [JStr ''pid''])]
      h RT_destructive False"

definition server_check_url_health_tool :: "'w handler \<Rightarrow> 'w tool" where
  "server_check_url_health_tool h =
    make_tool ''check_url_health''
      ''Check whether an HTTP(S) URL is reachable. Public URLs only; loopback allowed.''
      [(''type'', JStr ''object''),
       (''properties'', JObj [(''url'', JObj [(''type'', JStr ''string'')]),
          (''method'', JObj [(''type'', JStr ''string''), (''enum'', JList [JStr ''HEAD'', JStr ''GET''])]),
          (''timeout_seconds'', JObj [(''type'', JStr ''number''),
             (''minimum'', JFloat (1 / 10)),
             (''maximum'', JInt 60)])]),
       (''required'', JList [JStr ''url''])]
      h RT_read_only True"

definition server_todo_create_tool :: "'w handler \<Rightarrow> 'w tool" where
  "server_todo_create_tool h =
    make_tool ''todo_create''
      ''Create a new todo item in the sandbox-local todo list.''
      [(''type'', JStr ''object''),
       (''properties'', JObj [(''title'', JObj [(''type'', JStr ''string'')]),
          (''status'', JObj [(''type'', JStr ''string''),
             (''enum'', JList [JStr ''pending'', JStr ''in_progress''])])]),
       (''required'', JList [JStr ''title''])]
      h RT_sensitive_write False"

definition server_todo_update_tool :: "'w handler \<Rightarrow> 'w tool" where
  "server_todo_update_tool h =
    make_tool ''todo_update''
      ''Update the status of a sandbox-local todo item.''
      [(''type'', JStr ''object''),
       (''properties'', JObj [(''id'', JObj [(''type'', JStr ''string'')]),
          (''status'', JObj [(''type'', JStr ''string''),
             (''enum'', JList [JStr ''pending'', JStr ''in_progress'', JStr ''done'', JStr ''cancelled''])])]),
       (''required'', JList [JStr ''id'', JStr ''status''])]
      h RT_sensitive_write False"

definition server_todo_list_tool :: "'w handler \<Rightarrow> 'w tool" where
  "server_todo_list_tool h =
    make_tool ''todo_list''
      ''List sandbox-local todo items.''
      [(''type'', JStr ''object''),
       (''properties'', JObj [(''status'', JObj [(''type'', JStr ''string''),
             (''enum'', JList [JStr ''pending'', JStr ''in_progress'', JStr ''done'', JStr ''cancelled''])])]),
       (''required'', JList [])]
      h RT_read_only True"

definition server_compare_files_tool :: "'w handler \<Rightarrow> 'w tool" where
  "server_compare_files_tool h =
    make_tool ''compare_files''
      ''Compare two sandboxed files and return a unified diff.''
      [(''type'', JStr ''object''),
       (''properties'', JObj [(''path_a'', JObj [(''type'', JStr ''string'')]),
          (''path_b'', JObj [(''type'', JStr ''string'')])]),
       (''required'', JList [JStr ''path_a'', JStr ''path_b''])]
      h RT_read_only True"

section \<open>The tables\<close>

definition build_native_extra_tools :: "(string \<Rightarrow> 'w handler) \<Rightarrow> 'w tool list" where
  "build_native_extra_tools h =
    [server_search_web_tool (h ''search_web''),
     server_edit_file_tool (h ''edit_file''),
     server_apply_diff_tool (h ''apply_diff''),
     server_read_directory_tree_tool (h ''read_directory_tree''),
     server_run_tests_tool (h ''run_tests''),
     server_execute_python_tool (h ''execute_python''),
     server_memory_read_tool (h ''memory_read''),
     server_memory_write_tool (h ''memory_write''),
     server_ask_user_choice_tool (h ''ask_user_choice''),
     server_summarize_text_tool (h ''summarize_text''),
     server_list_processes_tool (h ''list_processes''),
     server_kill_process_tool (h ''kill_process''),
     server_check_url_health_tool (h ''check_url_health''),
     server_todo_create_tool (h ''todo_create''),
     server_todo_update_tool (h ''todo_update''),
     server_todo_list_tool (h ''todo_list''),
     server_compare_files_tool (h ''compare_files'')]"

definition build_builtin_tools :: "bool \<Rightarrow> string \<Rightarrow> (string \<Rightarrow> 'w handler) \<Rightarrow> 'w tool list" where
  "build_builtin_tools run_cli_enabled fs_dir h =
    [server_fetch_url_tool (h ''fetch_url''), server_read_file_tool fs_dir (h ''read_file''),
     server_write_file_tool fs_dir (h ''write_file'')]
    @ (if run_cli_enabled then [server_run_cli_tool fs_dir (h ''run_cli'')] else [])
    @ build_native_extra_tools h"

end
