(* ===== verification/ToolTables.thy ===== *)
theory ToolTables
  imports Recovery CliRuns CliTools ServerTools
begin

text \<open>
  What the tools the program ships with mean for the executor of the server and for the loop of the
  command line: no two share a name, the server's tools that change anything are never retried, and
  the command line's shells ask.
\<close>

lemma marcus_tool_names:
  "map tl_name (build_marcus_tools h) =
     [''read_file'', ''write_file'', ''edit_file'', ''list_files'', ''grep'', ''run_cli'', ''fetch_url'', ''load_skill'',
      ''start_process'', ''read_process_output'', ''stop_process'', ''wait_for_http'', ''search_web'', ''git_status'',
      ''git_diff'', ''git_log'', ''apply_diff'', ''read_directory_tree'', ''run_tests'', ''execute_python'', ''memory_read'',
      ''memory_write'', ''ask_user_choice'', ''summarize_text'', ''list_processes'', ''kill_process'', ''check_url_health'',
      ''todo_create'', ''todo_update'', ''todo_list'', ''compare_files'']"
  by code_simp

lemma marcus_names_distinct: "distinct (map tl_name (build_marcus_tools h))"
  unfolding marcus_tool_names by code_simp

lemma builtin_names_distinct: "distinct (map tl_name (build_builtin_tools run_cli_enabled fs_dir h))"
proof -
  have "distinct (map tl_name (build_builtin_tools True fs_dir h))"
    "distinct (map tl_name (build_builtin_tools False fs_dir h))"
    by code_simp+
  then show ?thesis by (cases run_cli_enabled) simp_all
qed

lemma builtin_tool_tiers:
  "list_all (\<lambda>t. tl_idempotent t = (tl_risk_tier t = RT_read_only) \<and> tl_risk_tier t \<noteq> RT_low_risk_write)
     (build_builtin_tools run_cli_enabled fs_dir h)" (is "list_all ?P _")
proof -
  have "list_all ?P (build_builtin_tools True fs_dir h)" "list_all ?P (build_builtin_tools False fs_dir h)"
    by code_simp+
  then show ?thesis by (cases run_cli_enabled) simp_all
qed

lemma builtin_unsafe:
  assumes "tk \<in> set (build_builtin_tools run_cli_enabled fs_dir h)" "tl_risk_tier tk \<noteq> RT_read_only"
  shows "\<not> safe_tool tk" "requires_approval (tl_risk_tier tk)"
  using assms builtin_tool_tiers [of run_cli_enabled fs_dir h]
  by (cases "tl_risk_tier tk"; auto simp: safe_tool_def list_all_iff)+

text \<open>A shipped tool that changes anything has its handler called at most once for a call.\<close>

lemma builtin_changes_at_most_once:
  assumes "tk \<in> set (build_builtin_tools run_cli_enabled fs_dir h)" "tl_risk_tier tk \<noteq> RT_read_only"
    and "(attempt_call E i n c tk)\<^sup>*\<^sup>* s s'" and "once_inv (execution_key i n c) s"
  shows "times_invoked (execution_key i n c) s' \<le> 1"
  using attempts_once [OF assms(3,4) builtin_unsafe(1) [OF assms(1,2)]] by (auto simp: once_inv_def)

lemma shells_ask:
  "list_all (\<lambda>t. tl_name t = ''run_cli'' \<or> tl_name t = ''start_process'' \<longrightarrow> tl_risk_tier t \<noteq> RT_read_only)
     (build_marcus_tools h)"
  by code_simp

lemma marcus_plain_readers:
  assumes "lp_tools L = map (\<lambda>t. (tl_name t, t)) (build_marcus_tools h)"
  shows "plain_readers L"
proof -
  have "tl_risk_tier t \<noteq> RT_read_only"
    if "dict_get (lp_tools L) n = Some t" "n = ''run_cli'' \<or> n = ''start_process''" for n t
  proof -
    have "tl_name t = n" "t \<in> set (build_marcus_tools h)"
      using map_of_SomeD [OF that(1)] by (auto simp: assms)
    then show ?thesis using shells_ask [of h] that(2) by (auto simp: list_all_iff)
  qed
  then show ?thesis by (auto simp: plain_readers_def tool_tier_def)
qed

end
