(* ===== verification/Commands.thy ===== *)
theory Commands
  imports Diffs Web Processes "HOL-Library.List_Lexorder" "HOL-Library.Char_ord"
begin

text \<open>
  The tools that run programs, and the small ones: run_cli, list_files and grep of
  marcus_code/tools/base.py, run_tests, execute_python, list_processes, kill_process,
  read_directory_tree, ask_user_choice and summarize_text of marcus_code/tools/extra.py, the server's
  variants in harness/runtime/native_tools.py and native_tools_extra.py, and html_utils.py. Programs,
  the glob and the regular expressions of the user, the decoding of bytes and the tokens of an HTML
  text are parameters; a trace keeps which program was started, waited for and terminated.
\<close>

section \<open>Programs\<close>

datatype program_event = Spawned nat | Collected nat | Terminated nat

record 'o shell =
  sh_events :: "program_event list"
  sh_host :: "'o host"

datatype kill_result = Killed | No_such_process | Kill_failed string

record 'o programs =
  pg_spawn :: "string list \<Rightarrow> path \<Rightarrow> 'o host \<Rightarrow> (exn + nat) \<times> 'o host"
  pg_communicate :: "nat \<Rightarrow> rat option \<Rightarrow> 'o host \<Rightarrow> (int \<times> string \<times> string) option \<times> 'o host"
  pg_terminate :: "nat \<Rightarrow> 'o host \<Rightarrow> 'o host"
  pg_kill :: "int \<Rightarrow> 'o host \<Rightarrow> kill_result \<times> 'o host"
  pg_temp_names :: "'o \<Rightarrow> string list \<times> 'o"
  pg_decode :: "string \<Rightarrow> string"
  pg_format :: "rat \<Rightarrow> string"
  pg_sha256 :: "string \<Rightarrow> string"
  pg_python :: string

definition spawn :: "'o programs \<Rightarrow> string list \<Rightarrow> path \<Rightarrow> 'o shell \<Rightarrow> (exn + nat) \<times> 'o shell" where
  "spawn P argv cwd s =
     (let (r, w) = pg_spawn P argv cwd (sh_host s) in
      (r, s\<lparr>sh_host := w, sh_events := sh_events s @ (case r of Inr i \<Rightarrow> [Spawned i] | Inl _ \<Rightarrow> [])\<rparr>))"

text \<open>\<open>communicate\<close>, with a timeout or without; None is the timeout.\<close>

definition communicate :: "'o programs \<Rightarrow> nat \<Rightarrow> rat option \<Rightarrow> 'o shell \<Rightarrow> (int \<times> string \<times> string) option \<times> 'o shell" where
  "communicate P i t s =
     (let (r, w) = pg_communicate P i t (sh_host s) in
      (r, s\<lparr>sh_host := w, sh_events := sh_events s @ (case r of Some _ \<Rightarrow> [Collected i] | None \<Rightarrow> [])\<rparr>))"

definition terminate_process_tree :: "'o programs \<Rightarrow> nat \<Rightarrow> 'o shell \<Rightarrow> 'o shell" where
  "terminate_process_tree P i s =
     s\<lparr>sh_host := pg_terminate P i (sh_host s), sh_events := sh_events s @ [Terminated i]\<rparr>"

definition program_report :: "'o programs \<Rightarrow> int \<Rightarrow> int \<times> string \<times> string \<Rightarrow> dict" where
  "program_report P max_bytes r =
     (let (code, out, err) = r in
      [(''exit_code'', JInt code), (''stdout'', JStr (pg_decode P (take (nat max_bytes) out))),
       (''stderr'', JStr (pg_decode P (take (nat max_bytes) err)))])"

section \<open>run_cli\<close>

definition SLOW_MARKERS :: "string list" where
  "SLOW_MARKERS = [''pytest'', ''npm test'', ''dotnet build'', ''cargo test'', ''mvn '', ''gradle '']"

definition BUILD_MARKERS :: "string list" where
  "BUILD_MARKERS = [''build'', ''compile'', ''webpack'', ''tsc'', ''npm run build'']"

definition run_cli_timeout_for :: "string \<Rightarrow> rat \<Rightarrow> rat" where
  "run_cli_timeout_for command standard =
     (if list_ex (\<lambda>m. str_contains m (str_lower command)) SLOW_MARKERS then max standard 180
      else if list_ex (\<lambda>m. str_contains m (str_lower command)) BUILD_MARKERS then max standard 120
      else standard)"

definition cli_timeout :: "dict \<Rightarrow> string \<Rightarrow> rat \<Rightarrow> exn + rat" where
  "cli_timeout args command standard =
     (case given args ''timeout_seconds'' of
        None \<Rightarrow> Inr (run_cli_timeout_for command standard)
      | Some v \<Rightarrow> (case py_float v of Inl e \<Rightarrow> Inl e | Inr t \<Rightarrow> Inr (max (1 / 10) (min t 300))))"

definition on_host :: "'o host \<Rightarrow> 'o shell \<Rightarrow> 'o shell" where
  "on_host w s = s\<lparr>sh_host := w\<rparr>"

text \<open>A program that is terminated when it does not end in time, and one that is left alone then.\<close>

definition run_or_terminate :: "'o programs \<Rightarrow> string list \<Rightarrow> path \<Rightarrow> rat \<Rightarrow> exn \<Rightarrow> 'o shell \<Rightarrow>
    (exn + int \<times> string \<times> string) \<times> 'o shell" where
  "run_or_terminate P argv cwd t late s =
     (case spawn P argv cwd s of
        (Inl e, s1) \<Rightarrow> (Inl e, s1)
      | (Inr i, s1) \<Rightarrow>
          (case communicate P i (Some t) s1 of
             (None, s2) \<Rightarrow> (Inl late, terminate_process_tree P i s2)
           | (Some r, s2) \<Rightarrow> (Inr r, s2)))"

definition run_or_leave :: "'o programs \<Rightarrow> string list \<Rightarrow> path \<Rightarrow> rat \<Rightarrow> exn \<Rightarrow> 'o shell \<Rightarrow>
    (exn + int \<times> string \<times> string) \<times> 'o shell" where
  "run_or_leave P argv cwd t late s =
     (case spawn P argv cwd s of
        (Inl e, s1) \<Rightarrow> (Inl e, s1)
      | (Inr i, s1) \<Rightarrow>
          (case communicate P i (Some t) s1 of (None, s2) \<Rightarrow> (Inl late, s2) | (Some r, s2) \<Rightarrow> (Inr r, s2)))"

definition run_cli :: "'o programs \<Rightarrow> path \<Rightarrow> rat \<Rightarrow> int \<Rightarrow> dict \<Rightarrow> 'o shell \<Rightarrow> (exn + dict) \<times> 'o shell" where
  "run_cli P ws standard max_bytes args s =
     (case required_text ''run_cli'' ''command'' args of
        Inl e \<Rightarrow> (Inl e, s)
      | Inr command \<Rightarrow>
          (case inspect_shell_command (pg_sha256 P) command of
             Inl e \<Rightarrow> (Inl e, s)
           | Inr m \<Rightarrow>
               (case cli_timeout args command standard of
                  Inl e \<Rightarrow> (Inl e, s)
                | Inr t \<Rightarrow>
                    (case real_path (hs_fs (sh_host s)) ws of
                       None \<Rightarrow> (Inl (symlink_loop ws), s)
                     | Some cwd \<Rightarrow>
                         (case run_or_terminate P [command] cwd t
                                 (value_error (''command timed out after '' @ pg_format P t @ ''s'')) s of
                            (Inl e, s') \<Rightarrow> (Inl e, s')
                          | (Inr r, s') \<Rightarrow>
                              (Inr ([(''command'', JStr command), (''cwd'', JStr (path_str cwd))]
                                    @ program_report P max_bytes r @ metadata_dict m
                                    @ [(''timeout_seconds'', JFloat t)]), s'))))))"

text \<open>The server's run_cli: a switch, one timeout, and the directory is made.\<close>

definition server_run_cli :: "'o programs \<Rightarrow> bool \<Rightarrow> path \<Rightarrow> rat \<Rightarrow> int \<Rightarrow> dict \<Rightarrow> 'o shell \<Rightarrow> (exn + dict) \<times> 'o shell" where
  "server_run_cli P enabled dir limit max_bytes args s =
     (if \<not> enabled then (Inl (value_error ''run_cli is disabled on this deployment''), s)
      else case required_text ''run_cli'' ''command'' args of
        Inl e \<Rightarrow> (Inl e, s)
      | Inr command \<Rightarrow>
          (case inspect_shell_command (pg_sha256 P) command of
             Inl e \<Rightarrow> (Inl e, s)
           | Inr m \<Rightarrow>
               (case real_path (hs_fs (sh_host s)) dir of
                  None \<Rightarrow> (Inl (symlink_loop dir), s)
                | Some cwd \<Rightarrow>
                    (case make_parents (hs_fs (sh_host s)) (rev cwd) of
                       Inl e \<Rightarrow> (Inl e, s)
                     | Inr f \<Rightarrow>
                         (case run_or_terminate P [command] cwd limit
                                 (value_error (''command timed out after '' @ pg_format P limit @ ''s''))
                                 (on_host ((sh_host s)\<lparr>hs_fs := f\<rparr>) s) of
                            (Inl e, s') \<Rightarrow> (Inl e, s')
                          | (Inr r, s') \<Rightarrow>
                              (Inr ([(''command'', JStr command), (''cwd'', JStr (path_str cwd))]
                                    @ program_report P max_bytes r @ metadata_dict m), s'))))))"

section \<open>run_tests and execute_python\<close>

definition file_there :: "fs \<Rightarrow> path \<Rightarrow> string \<Rightarrow> bool" where
  "file_there fs ws name \<longleftrightarrow> text_at fs (ws @ [name]) \<noteq> None"

definition infer_test_command :: "fs \<Rightarrow> path \<Rightarrow> string option" where
  "infer_test_command fs ws =
     (if file_there fs ws ''pyproject.toml'' then Some ''uv run pytest -q''
      else if file_there fs ws ''pytest.ini'' \<or> file_there fs ws ''setup.py'' then Some ''pytest -q''
      else if file_there fs ws ''package.json'' then Some ''npm test''
      else if file_there fs ws ''Cargo.toml'' then Some ''cargo test''
      else if file_there fs ws ''go.mod'' then Some ''go test ./...''
      else None)"

definition server_infer_test_command :: "fs \<Rightarrow> path \<Rightarrow> string option" where
  "server_infer_test_command fs ws =
     (if file_there fs ws ''pyproject.toml'' then Some ''uv run pytest -q''
      else if file_there fs ws ''package.json'' then Some ''npm test''
      else if file_there fs ws ''Cargo.toml'' then Some ''cargo test''
      else if file_there fs ws ''go.mod'' then Some ''go test ./...''
      else None)"

definition tests_with :: "'o programs \<Rightarrow> int \<Rightarrow> exn + string \<Rightarrow> exn + path \<Rightarrow> dict \<Rightarrow> 'o shell \<Rightarrow>
    (exn + dict) \<times> 'o shell" where
  "tests_with P max_bytes command dir args s =
     (case command of
        Inl e \<Rightarrow> (Inl e, s)
      | Inr c \<Rightarrow>
          (case timeout_of args 300 600 of
             Inl e \<Rightarrow> (Inl e, s)
           | Inr t \<Rightarrow>
               (case (inspect_shell_command (pg_sha256 P) c, dir) of
                  (Inl e, _) \<Rightarrow> (Inl e, s)
                | (Inr _, Inl e) \<Rightarrow> (Inl e, s)
                | (Inr m, Inr cwd) \<Rightarrow>
                    (case run_or_leave P [c] cwd t (value_error (''tests timed out after '' @ pg_format P t @ ''s'')) s of
                       (Inl e, s') \<Rightarrow> (Inl e, s')
                     | (Inr r, s') \<Rightarrow>
                         (Inr ([(''command'', JStr c)] @ program_report P max_bytes r @ metadata_dict m
                               @ [(''timeout_seconds'', JFloat t)]), s')))))"

definition command_or :: "dict \<Rightarrow> exn + string \<Rightarrow> exn + string" where
  "command_or args inferred =
     (case given_truthy args ''command'' of
        None \<Rightarrow> inferred
      | Some (JStr c) \<Rightarrow> Inr c
      | Some _ \<Rightarrow> Inl type_error)"

definition run_tests :: "'o programs \<Rightarrow> path \<Rightarrow> int \<Rightarrow> dict \<Rightarrow> 'o shell \<Rightarrow> (exn + dict) \<times> 'o shell" where
  "run_tests P ws max_bytes args s =
     (let fs = hs_fs (sh_host s);
          command = command_or args (case infer_test_command fs ws of
            None \<Rightarrow> Inl (value_error ''could not infer test command; provide one explicitly'') | Some c \<Rightarrow> Inr c);
          dir = (case real_path fs ws of None \<Rightarrow> Inl (symlink_loop ws) | Some cwd \<Rightarrow> Inr cwd)
      in tests_with P max_bytes command dir args s)"

definition server_run_tests :: "'o programs \<Rightarrow> path \<Rightarrow> int \<Rightarrow> dict \<Rightarrow> 'o shell \<Rightarrow> (exn + dict) \<times> 'o shell" where
  "server_run_tests P dir max_bytes args s =
     (case real_path (hs_fs (sh_host s)) dir of
        None \<Rightarrow> (Inl (symlink_loop dir), s)
      | Some cwd \<Rightarrow>
          (case make_parents (hs_fs (sh_host s)) (rev cwd) of
             Inl e \<Rightarrow> (Inl e, s)
           | Inr f \<Rightarrow>
               tests_with P max_bytes
                 (command_or args (case server_infer_test_command f cwd of
                    None \<Rightarrow> Inl (value_error ''could not infer test command'') | Some c \<Rightarrow> Inr c))
                 (Inr cwd) args (on_host ((sh_host s)\<lparr>hs_fs := f\<rparr>) s)))"

text \<open>The code is written to a fresh file of the directory, which is removed however the run ends.\<close>

definition python_path :: "fs \<Rightarrow> path \<Rightarrow> string list \<Rightarrow> path option" where
  "python_path fs cwd names =
     find (\<lambda>q. fs q = None) (map (\<lambda>n. cwd @ [''marcus_python_'' @ n @ ''.py'']) names)"

definition unlink :: "path \<Rightarrow> 'o shell \<Rightarrow> 'o shell" where
  "unlink p s =
     (let w = sh_host s in
      if is_dir (hs_fs w) p then s else on_host (w\<lparr>hs_fs := (hs_fs w)(p := None)\<rparr>) s)"

definition python_in :: "'o programs \<Rightarrow> string \<Rightarrow> rat \<Rightarrow> path \<Rightarrow> 'o shell \<Rightarrow> (exn + dict) \<times> 'o shell" where
  "python_in P code t cwd s =
     (let w = sh_host s; (names, o') = pg_temp_names P (hs_outside w) in
      if \<not> is_dir (hs_fs w) cwd then (Inl (not_found cwd), s)
      else case python_path (hs_fs w) cwd names of
        None \<Rightarrow> (Inl (PyError ''FileExistsError'' ''[Errno 17] No usable temporary file name found''),
                  on_host (w\<lparr>hs_outside := o'\<rparr>) s)
      | Some p \<Rightarrow>
          (case run_or_leave P [pg_python P, ''-I'', path_str p] cwd t
                  (value_error (''python execution timed out after '' @ pg_format P t @ ''s''))
                  (on_host \<lparr>hs_fs = (hs_fs w)(p \<mapsto> File code), hs_outside = o'\<rparr> s) of
             (Inl e, s') \<Rightarrow> (Inl e, unlink p s')
           | (Inr r, s') \<Rightarrow> (Inr (program_report P 50000 r), unlink p s')))"

definition execute_python :: "'o programs \<Rightarrow> path \<Rightarrow> dict \<Rightarrow> 'o shell \<Rightarrow> (exn + dict) \<times> 'o shell" where
  "execute_python P ws args s =
     (case required_text ''execute_python'' ''code'' args of
        Inl e \<Rightarrow> (Inl e, s)
      | Inr code \<Rightarrow>
          (case timeout_of args 30 120 of
             Inl e \<Rightarrow> (Inl e, s)
           | Inr t \<Rightarrow>
               (case real_path (hs_fs (sh_host s)) ws of
                  None \<Rightarrow> (Inl (symlink_loop ws), s)
                | Some cwd \<Rightarrow> python_in P code t cwd s)))"

definition server_execute_python :: "'o programs \<Rightarrow> path \<Rightarrow> dict \<Rightarrow> 'o shell \<Rightarrow> (exn + dict) \<times> 'o shell" where
  "server_execute_python P dir args s =
     (case required_text ''execute_python'' ''code'' args of
        Inl e \<Rightarrow> (Inl e, s)
      | Inr code \<Rightarrow>
          (case timeout_of args 30 120 of
             Inl e \<Rightarrow> (Inl e, s)
           | Inr t \<Rightarrow>
               (case real_path (hs_fs (sh_host s)) dir of
                  None \<Rightarrow> (Inl (symlink_loop dir), s)
                | Some cwd \<Rightarrow>
                    (case make_parents (hs_fs (sh_host s)) (rev cwd) of
                       Inl e \<Rightarrow> (Inl e, s)
                     | Inr f \<Rightarrow> python_in P code t cwd (on_host ((sh_host s)\<lparr>hs_fs := f\<rparr>) s)))))"

section \<open>Processes of the system\<close>

definition list_processes :: "'o programs \<Rightarrow> path \<Rightarrow> 'o shell \<Rightarrow> (exn + dict) \<times> 'o shell" where
  "list_processes P cwd s =
     (case spawn P [''ps -eo pid,comm,args''] cwd s of
        (Inl e, s1) \<Rightarrow> (Inl e, s1)
      | (Inr i, s1) \<Rightarrow>
          (let (r, s2) = communicate P i None s1;
               out = (case r of Some (_, t, _) \<Rightarrow> t | None \<Rightarrow> [])
           in (Inr [(''processes'', JList (map JStr (take 100 (bare_lines (pg_decode P (take 50000 out))))))], s2)))"

definition kill_process :: "'o programs \<Rightarrow> dict \<Rightarrow> 'o host \<Rightarrow> (exn + dict) \<times> 'o host" where
  "kill_process P args w =
     (case given args ''pid'' of
        None \<Rightarrow> (Inl (value_error (''kill_process requires a '' @ str_repr ''pid'' @ '' field'')), w)
      | Some v \<Rightarrow>
          (case py_int v of
             Inl e \<Rightarrow> (Inl e, w)
           | Inr pid \<Rightarrow>
               (case pg_kill P pid w of
                  (Killed, w') \<Rightarrow> (Inr [(''pid'', v), (''killed'', JBool True)], w')
                | (No_such_process, w') \<Rightarrow>
                    (Inr [(''pid'', v), (''killed'', JBool False), (''reason'', JStr ''process not found'')], w')
                | (Kill_failed m, w') \<Rightarrow> (Inl (PyError ''RuntimeError'' (''failed to kill process: '' @ m)), w'))))"

section \<open>Questions and summaries\<close>

definition ask_user_choice :: "string \<Rightarrow> dict \<Rightarrow> exn + dict" where
  "ask_user_choice note args =
     (case (given_truthy args ''question'', given_truthy args ''options'') of
        (Some question, Some options) \<Rightarrow>
          (case options of
             JList xs \<Rightarrow>
               if length xs < 2 then Inl (value_error ''options must be a list with at least 2 items'')
               else Inr [(''question'', question), (''options'', options), (''note'', JStr note)]
           | _ \<Rightarrow> Inl (value_error ''options must be a list with at least 2 items''))
      | _ \<Rightarrow> Inl (value_error (''ask_user_choice requires '' @ str_repr ''question'' @ '' and ''
                @ str_repr ''options'' @ '' fields'')))"

definition cli_ask_user_choice :: "dict \<Rightarrow> exn + dict" where
  "cli_ask_user_choice = ask_user_choice ''waiting for user selection (render in UI)''"

definition server_ask_user_choice :: "dict \<Rightarrow> exn + dict" where
  "server_ask_user_choice = ask_user_choice ''waiting for user selection''"

text \<open>\<open>re.split(r"(?<=[.!?])\s+", text)\<close>: the sentence so far, reversed, and whether it just ended.\<close>

function sentences :: "bool \<Rightarrow> string \<Rightarrow> string \<Rightarrow> string list" where
  "sentences ended acc [] = [rev acc]"
| "sentences ended acc (c # cs) =
     (if ended \<and> is_space c then rev acc # sentences False [] (dropWhile is_space cs)
      else sentences (c \<in> set ''.!?'') (c # acc) cs)"
  by pat_completeness auto

termination
  by (relation "measure (\<lambda>(e, a, s). length s)") (auto simp: length_dropWhile_le less_Suc_eq_le)

definition simple_summarize :: "string \<Rightarrow> int \<Rightarrow> string" where
  "simple_summarize t n =
     str_join '' '' (take (nat n) (sentences False [] (str_strip (map (\<lambda>c. if c = CHR 10 then CHR '' '' else c) t))))"

definition summarize_text :: "dict \<Rightarrow> exn + dict" where
  "summarize_text args =
     (case required_text ''summarize_text'' ''text'' args of
        Inl e \<Rightarrow> Inl e
      | Inr t \<Rightarrow>
          (case py_int (case dict_get args ''max_sentences'' of None \<Rightarrow> JInt 3 | Some v \<Rightarrow> v) of
             Inl e \<Rightarrow> Inl e
           | Inr n \<Rightarrow>
               (let m = max 1 (min n 20) in
                Inr [(''summary'', JStr (simple_summarize t m)), (''max_sentences'', JInt m),
                     (''original_length'', JInt (int (length t)))])))"

section \<open>The directory tree\<close>

definition SKIP_DIR_NAMES :: "string list" where
  "SKIP_DIR_NAMES = [''.git'', ''__pycache__'', ''node_modules'', ''.venv'', ''venv'', ''.mypy_cache'', ''.ruff_cache'', ''.pytest_cache'']"

definition rel_str :: "path \<Rightarrow> string" where
  "rel_str rel = (if rel = [] then ''.'' else str_join ''/'' rel)"

text \<open>The names of a directory, as \<open>iterdir\<close> gives them, are a parameter; links are followed.\<close>

definition tree_order :: "fs \<Rightarrow> path \<Rightarrow> string list \<Rightarrow> string list" where
  "tree_order fs d names = sort_key (\<lambda>n. \<not> dir_at fs (d @ [n])) (sort_key str_lower names)"

fun all_right :: "('e + 'a) list \<Rightarrow> 'e + 'a list" where
  "all_right [] = Inr []"
| "all_right (x # xs) =
     (case x of
        Inl e \<Rightarrow> Inl e
      | Inr y \<Rightarrow> (case all_right xs of Inl e \<Rightarrow> Inl e | Inr ys \<Rightarrow> Inr (y # ys)))"

definition tree_entry :: "path \<Rightarrow> path \<Rightarrow> string \<Rightarrow> json list option \<Rightarrow> json" where
  "tree_entry base rel kind children =
     JObj ([(''name'', JStr (if base @ rel = [] then [] else last (base @ rel))), (''path'', JStr (rel_str rel)),
            (''type'', JStr kind)]
           @ (case children of None \<Rightarrow> [] | Some cs \<Rightarrow> [(''children'', JList cs)]))"

text \<open>What is no file counts as a directory; \<open>iterdir\<close> fails when it is none.\<close>

primrec build_tree :: "(fs \<Rightarrow> path \<Rightarrow> string list) \<Rightarrow> fs \<Rightarrow> path \<Rightarrow> nat \<Rightarrow> path \<Rightarrow> exn + json" where
  "build_tree names fs base 0 rel =
     Inr (if text_at fs (base @ rel) \<noteq> None then tree_entry base rel ''file'' None
          else tree_entry base rel ''directory'' (Some []))"
| "build_tree names fs base (Suc k) rel =
     (if text_at fs (base @ rel) \<noteq> None then Inr (tree_entry base rel ''file'' None)
      else if \<not> dir_at fs (base @ rel) then Inl (not_found (base @ rel))
      else case all_right (map (\<lambda>n. build_tree names fs base k (rel @ [n]))
                 (filter (\<lambda>n. n \<notin> set SKIP_DIR_NAMES) (tree_order fs (base @ rel) (names fs (base @ rel))))) of
             Inl e \<Rightarrow> Inl e
           | Inr cs \<Rightarrow> Inr (tree_entry base rel ''directory'' (Some cs)))"

definition read_directory_tree :: "(fs \<Rightarrow> path \<Rightarrow> string list) \<Rightarrow> path \<Rightarrow> dict \<Rightarrow> fs \<Rightarrow> exn + dict" where
  "read_directory_tree names ws args fs =
     (case py_int (case dict_get args ''max_depth'' of None \<Rightarrow> JInt 4 | Some v \<Rightarrow> v) of
        Inl e \<Rightarrow> Inl e
      | Inr n \<Rightarrow>
          (case (case dict_get args ''path'' of None \<Rightarrow> Inr ''.'' | Some (JStr t) \<Rightarrow> Inr t | Some _ \<Rightarrow> Inl type_error) of
             Inl e \<Rightarrow> Inl e
           | Inr target \<Rightarrow>
               (case resolve_scoped_path fs ws target of
                  Inl e \<Rightarrow> Inl e
                | Inr d \<Rightarrow>
                    if \<not> is_dir fs d then Inl (value_error (''directory not found: '' @ target))
                    else
                      (case build_tree names fs d (nat (max 1 (min n 8))) [] of
                         Inl e \<Rightarrow> Inl e
                       | Inr t \<Rightarrow>
                           Inr [(''root'', JStr ''.''), (''max_depth'', JInt (max 1 (min n 8))), (''tree'', t)]))))"

section \<open>list_files and grep\<close>

text \<open>
  The candidates of a glob are the paths relative to the working directory in the order of the
  search; compiling a regular expression gives an error's text or the test of a line.
\<close>

record searches =
  sc_glob :: "fs \<Rightarrow> path \<Rightarrow> string \<Rightarrow> path list"
  sc_compile :: "string \<Rightarrow> string + (string \<Rightarrow> bool)"

definition MAX_LIST_RESULTS :: nat where
  "MAX_LIST_RESULTS = 200"

definition MAX_GREP_MATCHES :: int where
  "MAX_GREP_MATCHES = 200"

definition MAX_GREP_FILE_BYTES :: nat where
  "MAX_GREP_FILE_BYTES = 2000000"

definition should_skip_dir :: "path \<Rightarrow> bool" where
  "should_skip_dir rel = list_ex (\<lambda>p. p \<in> set SKIP_DIR_NAMES) rel"

definition text_or :: "dict \<Rightarrow> string \<Rightarrow> string \<Rightarrow> exn + string" where
  "text_or args k standard =
     (case given_truthy args k of None \<Rightarrow> Inr standard | Some (JStr t) \<Rightarrow> Inr t | Some _ \<Rightarrow> Inl type_error)"

definition listed_files :: "fs \<Rightarrow> path \<Rightarrow> int option \<Rightarrow> path list \<Rightarrow> string list" where
  "listed_files fs base max_depth rels =
     take MAX_LIST_RESULTS (map rel_str
       (filter (\<lambda>rel. \<not> should_skip_dir rel
                   \<and> (case max_depth of None \<Rightarrow> True | Some n \<Rightarrow> int (length rel) \<le> n)
                   \<and> text_at fs (base @ rel) \<noteq> None) rels))"

definition list_files :: "searches \<Rightarrow> path \<Rightarrow> dict \<Rightarrow> fs \<Rightarrow> exn + dict" where
  "list_files G ws args fs =
     (case text_or args ''pattern'' ''**/*'' of
        Inl e \<Rightarrow> Inl e
      | Inr pattern \<Rightarrow>
          (case optional_int args ''max_depth'' of
             Inl e \<Rightarrow> Inl e
           | Inr depth \<Rightarrow>
               (case real_path fs ws of
                  None \<Rightarrow> Inl (symlink_loop ws)
                | Some base \<Rightarrow>
                    (let files = listed_files fs base depth (sc_glob G fs base pattern) in
                     Inr [(''pattern'', JStr pattern),
                          (''max_depth'', case depth of None \<Rightarrow> JNull | Some n \<Rightarrow> JInt n),
                          (''files'', JList (map JStr (sort files))),
                          (''truncated'', JBool (MAX_LIST_RESULTS \<le> length files))]))))"

fun utf8_bytes :: "string \<Rightarrow> nat list" where
  "utf8_bytes [] = []"
| "utf8_bytes (c # cs) =
     (let k = of_char c :: nat in
      (if k < 128 then [k] else [192 + k div 64, 128 + k mod 64]) @ utf8_bytes cs)"

definition is_text_file :: "string \<Rightarrow> bool" where
  "is_text_file t =
     (let sample = take 8192 (utf8_bytes t);
          non_text = filter (\<lambda>b. b < 9 \<or> 13 < b \<and> b < 32) sample
      in sample = [] \<or> 0 \<notin> set sample \<and> 10 * length non_text \<le> 3 * length sample)"

text \<open>A match: the parts of the path, its number and its line.\<close>

type_synonym found_line = "path \<times> nat \<times> string"

definition file_matches :: "(string \<Rightarrow> bool) \<Rightarrow> fs \<Rightarrow> path \<Rightarrow> path \<Rightarrow> found_line list" where
  "file_matches test fs base rel =
     (case (real_path fs (base @ rel), text_at fs (base @ rel)) of
        (Some q, Some t) \<Rightarrow>
          (let raw = the (file_text fs q) in
           if should_skip_dir rel \<or> MAX_GREP_FILE_BYTES < utf8_length raw \<or> \<not> is_text_file raw then []
           else map (\<lambda>(n, l). (rel, Suc n, take 300 (str_strip l)))
                  (filter (\<lambda>(n, l). test l) (enumerate 0 (bare_lines t))))
      | _ \<Rightarrow> [])"

definition sort_matches :: "found_line list \<Rightarrow> found_line list" where
  "sort_matches ms =
     sort_key (\<lambda>(rel, n, l). max 1 (length rel)) (sort_key (\<lambda>(rel, n, l). rel_str rel) (sort_key (\<lambda>(rel, n, l). n) ms))"

definition found_json :: "found_line \<Rightarrow> json" where
  "found_json m = (case m of (rel, n, l) \<Rightarrow>
     JObj [(''path'', JStr (rel_str rel)), (''line'', JInt (int n)), (''text'', JStr l)])"

definition grep_limit :: "dict \<Rightarrow> exn + int" where
  "grep_limit args =
     (case given args ''max_results'' of
        None \<Rightarrow> Inr 50
      | Some v \<Rightarrow> (case py_int v of Inl e \<Rightarrow> Inl e | Inr n \<Rightarrow> Inr (max 1 (min n MAX_GREP_MATCHES))))"

definition grep_matches :: "(string \<Rightarrow> bool) \<Rightarrow> fs \<Rightarrow> path \<Rightarrow> int \<Rightarrow> path list \<Rightarrow> found_line list" where
  "grep_matches test fs base limit rels = take (nat limit) (concat (map (file_matches test fs base) rels))"

definition grep :: "searches \<Rightarrow> path \<Rightarrow> dict \<Rightarrow> fs \<Rightarrow> exn + dict" where
  "grep G ws args fs =
     (case (required_text ''grep'' ''pattern'' args, text_or args ''glob'' ''**/*'', grep_limit args) of
        (Inl e, _) \<Rightarrow> Inl e
      | (Inr _, Inl e, _) \<Rightarrow> Inl e
      | (Inr _, Inr _, Inl e) \<Rightarrow> Inl e
      | (Inr pattern, Inr glob, Inr limit) \<Rightarrow>
          (case (sc_compile G pattern, real_path fs ws) of
             (Inl m, _) \<Rightarrow> Inl (value_error (''invalid regex: '' @ m))
           | (Inr _, None) \<Rightarrow> Inl (symlink_loop ws)
           | (Inr test, Some base) \<Rightarrow>
               (let ms = grep_matches test fs base limit (sc_glob G fs base glob) in
                Inr [(''pattern'', JStr pattern), (''matches'', JList (map found_json (sort_matches ms))),
                     (''truncated'', JBool (limit \<le> int (length ms)))])))"

section \<open>git and compare_files\<close>

text \<open>
  A run of git in a directory gives its exit code and both outputs, or None when there is no git;
  \<open>difflib.unified_diff\<close> of two texts is a parameter too.
\<close>

type_synonym git = "path \<Rightarrow> string list \<Rightarrow> (int \<times> string \<times> string) option"

definition git_command :: "git \<Rightarrow> path \<Rightarrow> string list \<Rightarrow> exn + int \<times> string \<times> string" where
  "git_command git repo argv =
     (case git repo argv of
        None \<Rightarrow> Inl (PyError ''RuntimeError'' ''git executable not found'') | Some r \<Rightarrow> Inr r)"

definition git_output :: "git \<Rightarrow> path \<Rightarrow> string list \<Rightarrow> string \<Rightarrow> exn + string" where
  "git_output git repo argv failed =
     (case git_command git repo argv of
        Inl e \<Rightarrow> Inl e
      | Inr (code, out, err) \<Rightarrow>
          if code \<noteq> 0 then Inl (PyError ''RuntimeError'' (if err = [] then failed else err)) else Inr out)"

definition ensure_git_repo :: "git \<Rightarrow> path \<Rightarrow> exn + unit" where
  "ensure_git_repo git repo =
     (case git_command git repo [''rev-parse'', ''--git-dir''] of
        Inl e \<Rightarrow> Inl e
      | Inr (code, _) \<Rightarrow>
          if code \<noteq> 0 then Inl (value_error (''not a git repository: '' @ path_str repo)) else Inr ())"

definition git_repo :: "git \<Rightarrow> path \<Rightarrow> dict \<Rightarrow> fs \<Rightarrow> exn + path" where
  "git_repo git ws args fs =
     (case dict_get args ''repo_path'' of
        Some (JStr t) \<Rightarrow>
          (case resolve_scoped_path fs ws t of
             Inl e \<Rightarrow> Inl e
           | Inr p \<Rightarrow> (case ensure_git_repo git p of Inl e \<Rightarrow> Inl e | Inr _ \<Rightarrow> Inr p))
      | Some _ \<Rightarrow> Inl type_error
      | None \<Rightarrow>
          (case resolve_scoped_path fs ws ''.'' of
             Inl e \<Rightarrow> Inl e
           | Inr p \<Rightarrow> (case ensure_git_repo git p of Inl e \<Rightarrow> Inl e | Inr _ \<Rightarrow> Inr p)))"

definition git_status :: "git \<Rightarrow> path \<Rightarrow> dict \<Rightarrow> fs \<Rightarrow> exn + dict" where
  "git_status git ws args fs =
     (case git_repo git ws args fs of
        Inl e \<Rightarrow> Inl e
      | Inr p \<Rightarrow>
          (case git_output git p [''status'', ''--short'', ''--branch''] ''git status failed'' of
             Inl e \<Rightarrow> Inl e
           | Inr out \<Rightarrow> Inr [(''repo_path'', JStr (path_str p)), (''status'', JStr (str_strip out))]))"

definition git_diff :: "git \<Rightarrow> path \<Rightarrow> dict \<Rightarrow> fs \<Rightarrow> exn + dict" where
  "git_diff git ws args fs =
     (case git_repo git ws args fs of
        Inl e \<Rightarrow> Inl e
      | Inr p \<Rightarrow>
          (case text_or args ''target'' [] of
             Inl e \<Rightarrow> Inl e
           | Inr target \<Rightarrow>
               (case git_output git p ([''diff'', ''--no-color''] @ (if target = [] then [] else [''--'', target])) ''git diff failed'' of
                  Inl e \<Rightarrow> Inl e
                | Inr out \<Rightarrow>
                    Inr [(''repo_path'', JStr (path_str p)), (''target'', JStr (if target = [] then ''all'' else target)),
                         (''diff'', JStr (take 50000 out)), (''truncated'', JBool (50000 < int (length out)))])))"

definition git_log :: "git \<Rightarrow> path \<Rightarrow> dict \<Rightarrow> fs \<Rightarrow> exn + dict" where
  "git_log git ws args fs =
     (case git_repo git ws args fs of
        Inl e \<Rightarrow> Inl e
      | Inr p \<Rightarrow>
          (case py_int (case dict_get args ''count'' of None \<Rightarrow> JInt 10 | Some v \<Rightarrow> v) of
             Inl e \<Rightarrow> Inl e
           | Inr n \<Rightarrow>
               (let count = max 1 (min n 50) in
                case git_output git p [''log'', ''-'' @ str_of_int count, ''--oneline'', ''--no-decorate''] ''git log failed'' of
                  Inl e \<Rightarrow> Inl e
                | Inr out \<Rightarrow>
                    Inr [(''repo_path'', JStr (path_str p)), (''count'', JInt count),
                         (''log'', JList (map JStr (bare_lines (str_strip out))))])))"

definition two_paths :: "dict \<Rightarrow> exn + string \<times> string" where
  "two_paths args =
     (let missing = value_error (''compare_files requires '' @ str_repr ''path_a'' @ '' and '' @ str_repr ''path_b'' @ '' fields'') in
      case (given_truthy args ''path_a'', given_truthy args ''path_b'') of
        (Some (JStr a), Some (JStr b)) \<Rightarrow> Inr (a, b)
      | (Some _, Some _) \<Rightarrow> Inl type_error
      | _ \<Rightarrow> Inl missing)"

definition compare_files :: "(string list \<Rightarrow> string list \<Rightarrow> string \<Rightarrow> string \<Rightarrow> string list) \<Rightarrow> path \<Rightarrow> dict \<Rightarrow> fs \<Rightarrow> exn + dict" where
  "compare_files unified_diff ws args fs =
     (case two_paths args of
        Inl e \<Rightarrow> Inl e
      | Inr (a, b) \<Rightarrow>
          (case (resolve_scoped_path fs ws a, resolve_scoped_path fs ws b) of
             (Inl e, _) \<Rightarrow> Inl e
           | (Inr _, Inl e) \<Rightarrow> Inl e
           | (Inr p, Inr q) \<Rightarrow>
               (case (text_at fs p, text_at fs q) of
                  (None, _) \<Rightarrow> Inl (value_error (''file not found: '' @ a))
                | (Some _, None) \<Rightarrow> Inl (value_error (''file not found: '' @ b))
                | (Some t, Some u) \<Rightarrow>
                    (let ls = bare_lines t; ms = bare_lines u in
                     Inr [(''path_a'', JStr a), (''path_b'', JStr b), (''identical'', JBool (ls = ms)),
                          (''diff'', JStr (str_join [CHR 10] (unified_diff ls ms a b))),
                          (''lines_a'', JInt (int (length ls))), (''lines_b'', JInt (int (length ms)))]))))"

section \<open>The server's other tools\<close>

text \<open>The bytes of the file are cut and decoded, which is a parameter.\<close>

definition server_read_file :: "(nat list \<Rightarrow> string) \<Rightarrow> path \<Rightarrow> nat \<Rightarrow> dict \<Rightarrow> fs \<Rightarrow> exn + dict" where
  "server_read_file decode dir max_bytes args fs =
     (case required_text ''read_file'' ''path'' args of
        Inl e \<Rightarrow> Inl e
      | Inr path \<Rightarrow>
          (case resolve_scoped_path fs dir path of
             Inl e \<Rightarrow> Inl e
           | Inr p \<Rightarrow>
               (case file_text fs p of
                  None \<Rightarrow> Inl (value_error (''file not found: '' @ path))
                | Some t \<Rightarrow>
                    (let bytes = utf8_bytes t; (safe, redactions) = redact_secrets path (decode (take max_bytes bytes)) in
                     Inr [(''path'', JStr path), (''content'', JStr safe),
                          (''truncated'', JBool (max_bytes < length bytes)), (''redacted'', JBool (0 < redactions))]))))"

text \<open>These are the same code as the command line's, on the server's directory.\<close>

definition server_write_file :: "'o externals \<Rightarrow> path \<Rightarrow> dict \<Rightarrow> 'o host \<Rightarrow> (exn + dict) \<times> 'o host" where
  "server_write_file X dir args w = write_file X dir args w"

definition server_fetch_url :: "'w web \<Rightarrow> int \<Rightarrow> dict \<Rightarrow> 'w net \<Rightarrow> (exn + dict) \<times> 'w net" where
  "server_fetch_url W max_bytes args s = fetch_url W max_bytes args s"

definition server_check_url_health :: "'w web \<Rightarrow> dict \<Rightarrow> 'w net \<Rightarrow> (exn + dict) \<times> 'w net" where
  "server_check_url_health W args s = check_url_health W args s"

definition server_read_directory_tree :: "(fs \<Rightarrow> path \<Rightarrow> string list) \<Rightarrow> path \<Rightarrow> dict \<Rightarrow> fs \<Rightarrow> exn + dict" where
  "server_read_directory_tree names dir args fs = read_directory_tree names dir args fs"

definition server_compare_files :: "(string list \<Rightarrow> string list \<Rightarrow> string \<Rightarrow> string \<Rightarrow> string list) \<Rightarrow> path \<Rightarrow> dict \<Rightarrow> fs \<Rightarrow> exn + dict" where
  "server_compare_files unified_diff dir args fs = compare_files unified_diff dir args fs"

definition server_kill_process :: "'o programs \<Rightarrow> dict \<Rightarrow> 'o host \<Rightarrow> (exn + dict) \<times> 'o host" where
  "server_kill_process P args w = kill_process P args w"

definition server_summarize_text :: "dict \<Rightarrow> exn + dict" where
  "server_summarize_text args = summarize_text args"

section \<open>html_utils.py\<close>

datatype html_token = Start_tag string | End_tag string | Text_data string

record extractor =
  xt_skipping :: nat
  xt_chunks :: "string list"

definition SKIP_TAGS :: "string list" where
  "SKIP_TAGS = [''script'', ''style'', ''noscript'']"

definition feed :: "html_token \<Rightarrow> extractor \<Rightarrow> extractor" where
  "feed tok x =
     (case tok of
        Start_tag t \<Rightarrow> if t \<in> set SKIP_TAGS then x\<lparr>xt_skipping := Suc (xt_skipping x)\<rparr> else x
      | End_tag t \<Rightarrow> if t \<in> set SKIP_TAGS \<and> xt_skipping x \<noteq> 0 then x\<lparr>xt_skipping := xt_skipping x - 1\<rparr> else x
      | Text_data t \<Rightarrow>
          if xt_skipping x = 0 \<and> str_strip t \<noteq> [] then x\<lparr>xt_chunks := xt_chunks x @ [str_strip t]\<rparr> else x)"

definition strip_html :: "html_token list \<Rightarrow> string" where
  "strip_html tokens = str_join [CHR 10] (xt_chunks (fold feed tokens \<lparr>xt_skipping = 0, xt_chunks = []\<rparr>))"

section \<open>What they guarantee\<close>

text \<open>The programs started and neither waited for to their end nor terminated.\<close>

definition running :: "program_event list \<Rightarrow> nat list" where
  "running es = fold (\<lambda>e r. case e of Spawned i \<Rightarrow> i # r | Collected i \<Rightarrow> remove1 i r | Terminated i \<Rightarrow> remove1 i r) es []"

lemma running_snoc [simp]:
  "running (es @ [Spawned i]) = i # running es" "running (es @ [Collected i]) = remove1 i (running es)"
  "running (es @ [Terminated i]) = remove1 i (running es)"
  by (simp_all add: running_def)

lemma running_ended [simp]:
  "running (es @ [Spawned i, Collected i]) = running es" "running (es @ [Spawned i, Terminated i]) = running es"
  by (simp_all add: running_def)

lemma run_or_terminate_running:
  "run_or_terminate P argv cwd t late s = (r, s') \<Longrightarrow> running (sh_events s') = running (sh_events s)"
  by (auto simp: run_or_terminate_def spawn_def communicate_def terminate_process_tree_def
      split: prod.splits sum.splits option.splits)


text \<open>run_tests and execute_python leave a program that takes too long running.\<close>

definition slow_programs :: "nat programs" where
  "slow_programs =
     \<lparr>pg_spawn = (\<lambda>argv cwd w. (Inr (hs_outside w), w\<lparr>hs_outside := Suc (hs_outside w)\<rparr>)),
      pg_communicate = (\<lambda>i t w. (None, w)), pg_terminate = (\<lambda>i w. w), pg_kill = (\<lambda>i w. (Killed, w)),
      pg_temp_names = (\<lambda>n. ([''a''], n)), pg_decode = (\<lambda>t. t), pg_format = (\<lambda>t. ''1''),
      pg_sha256 = (\<lambda>t. t), pg_python = ''python''\<rparr>"

definition idle_shell :: "nat shell" where
  "idle_shell = \<lparr>sh_events = [], sh_host = \<lparr>hs_fs = [[''w''] \<mapsto> Dir], hs_outside = 7\<rparr>\<rparr>"

lemma late_programs_run_on:
  "running (sh_events (snd (run_tests slow_programs [''w''] 100 [(''command'', JStr ''make test'')] idle_shell))) = [7]"
  "running (sh_events (snd (execute_python slow_programs [''w''] [(''code'', JStr ''1'')] idle_shell))) = [7]"
  by code_simp+

text \<open>Every match of grep is a line of a candidate that the expression finds, and they are bounded.\<close>

lemma file_matches_sound:
  assumes "(r, n, l) \<in> set (file_matches test fs base rel)"
  shows "r = rel \<and> (\<exists>t. text_at fs (base @ rel) = Some t \<and> 0 < n \<and> n \<le> length (bare_lines t)
     \<and> test (bare_lines t ! (n - 1)) \<and> l = take 300 (str_strip (bare_lines t ! (n - 1))))"
proof (cases "text_at fs (base @ rel)")
  case (Some t)
  then show ?thesis
    using assms by (auto simp: file_matches_def in_set_enumerate_eq Let_def split: option.splits if_splits)
qed (use assms in \<open>auto simp: file_matches_def split: option.splits\<close>)

lemma grep_matches_sound:
  "length (grep_matches test fs base limit rels) \<le> nat limit"
  "(rel, n, l) \<in> set (grep_matches test fs base limit rels) \<Longrightarrow> rel \<in> set rels \<and>
     (\<exists>t. text_at fs (base @ rel) = Some t \<and> 0 < n \<and> n \<le> length (bare_lines t)
        \<and> test (bare_lines t ! (n - 1)) \<and> l = take 300 (str_strip (bare_lines t ! (n - 1))))"
proof -
  show "length (grep_matches test fs base limit rels) \<le> nat limit" by (simp add: grep_matches_def)
  assume "(rel, n, l) \<in> set (grep_matches test fs base limit rels)"
  then obtain r where "r \<in> set rels" "(rel, n, l) \<in> set (file_matches test fs base r)"
    by (auto simp: grep_matches_def dest!: in_set_takeD)
  then show "rel \<in> set rels \<and> (\<exists>t. text_at fs (base @ rel) = Some t \<and> 0 < n \<and> n \<le> length (bare_lines t)
        \<and> test (bare_lines t ! (n - 1)) \<and> l = take 300 (str_strip (bare_lines t ! (n - 1))))"
    using file_matches_sound [of rel n l test fs base r] by auto
qed

lemma grep_limit_bounds: "grep_limit args = Inr n \<Longrightarrow> 1 \<le> n \<and> n \<le> 200"
  by (auto simp: grep_limit_def MAX_GREP_MATCHES_def split: option.splits sum.splits)

text \<open>
  A glob that climbs shows lines from outside the workspace, secrets included, where read_file
  refuses the path; and a link that leads nowhere makes the directory tree fail.
\<close>

definition secret_store :: fs where
  "secret_store = [[''w''] \<mapsto> Dir, [''secret''] \<mapsto> File ''api_key = 12345678'', [''w'', ''l''] \<mapsto> Link ''gone'']"

definition climbing :: searches where
  "climbing = \<lparr>sc_glob = (\<lambda>fs base p. [[''..'', ''secret'']]), sc_compile = (\<lambda>p. Inr (str_contains p))\<rparr>"

lemma climbing_facts:
  "real_path secret_store [''w''] = Some [''w'']"
  "real_path secret_store [''w'', ''..'', ''secret''] = Some [''secret'']"
  "text_at secret_store [''w'', ''..'', ''secret''] = Some ''api_key = 12345678''"
  "bare_lines ''api_key = 12345678'' = [''api_key = 12345678'']" "str_strip ''api_key = 12345678'' = ''api_key = 12345678''"
  "str_contains ''key'' ''api_key = 12345678''" "should_skip_dir [''..'', ''secret''] = False"
  "rel_str [''..'', ''secret''] = ''../secret''" "utf8_length ''api_key = 12345678'' = 18"
  "file_text secret_store [''secret''] = Some ''api_key = 12345678''"
  "utf8_bytes ''api_key = 12345678'' = map of_char ''api_key = 12345678''"
  by code_simp+

lemma grep_leaves_workspace:
  "grep climbing [''w''] [(''pattern'', JStr ''key''), (''glob'', JStr ''../secret'')] secret_store =
     Inr [(''pattern'', JStr ''key''),
          (''matches'', JList [JObj [(''path'', JStr ''../secret''), (''line'', JInt 1), (''text'', JStr ''api_key = 12345678'')]]),
          (''truncated'', JBool False)]"
  "resolve_scoped_path secret_store [''w''] ''../secret'' =
     Inl (PyError ''ValueError'' (''path '' @ str_repr ''../secret'' @ '' escapes the scoped directory''))"
proof -
  have "is_text_file ''api_key = 12345678''"
    by (simp add: is_text_file_def climbing_facts Let_def)
  then have "file_matches (str_contains ''key'') secret_store [''w''] [''..'', ''secret''] =
      [([''..'', ''secret''], 1, ''api_key = 12345678'')]"
    by (simp add: file_matches_def climbing_facts MAX_GREP_FILE_BYTES_def Let_def del: str_contains.simps)
  then show "grep climbing [''w''] [(''pattern'', JStr ''key''), (''glob'', JStr ''../secret'')] secret_store =
     Inr [(''pattern'', JStr ''key''),
          (''matches'', JList [JObj [(''path'', JStr ''../secret''), (''line'', JInt 1), (''text'', JStr ''api_key = 12345678'')]]),
          (''truncated'', JBool False)]"
    by (simp add: grep_def required_text_def text_or_def given_truthy_def grep_limit_def given_def climbing_def
        climbing_facts grep_matches_def sort_matches_def found_json_def del: str_contains.simps)
  show "resolve_scoped_path secret_store [''w''] ''../secret'' =
     Inl (PyError ''ValueError'' (''path '' @ str_repr ''../secret'' @ '' escapes the scoped directory''))"
    by code_simp
qed

lemma broken_link_fails_tree:
  "read_directory_tree (\<lambda>fs p. [''l'']) [''w''] [] secret_store = Inl (not_found [''w'', ''l''])"
  by code_simp

text \<open>Nothing between a tag that is skipped and its end is shown.\<close>

lemma skipped_text:
  assumes "t \<in> set SKIP_TAGS" and "list_all (\<lambda>tok. \<exists>d. tok = Text_data d) texts"
  shows "fold feed (Start_tag t # texts @ [End_tag t]) x = x"
proof -
  have "fold feed texts y = y" if "xt_skipping y \<noteq> 0" for y
    using assms(2) that by (induction texts) (auto simp: feed_def)
  with assms(1) show ?thesis by (simp add: feed_def)
qed

end
