(* ===== verification/Spec2Isabelle.thy ===== *)
theory Spec2Isabelle
  imports RunStore Recovery Routes SlackRuns SchedulerRuns CliExamples FileTools GatewayRuns Processes Web ToolTypes ToolTables Commands
begin

text \<open>
  A verification library of the harness: a server that runs tool-using agents with durable state
  (src/harness), and a command line coding agent on the same tool abstraction (src/marcus_code).

  \<^bold>\<open>The program.\<close> A client creates a run through the API (harness/api/routes/runs.py). A worker
  (harness/workers/main.py) takes it from the queue, acquires its lease, and the engine
  (harness/runtime/engine.py) advances it step by step: guardrails, a call of the model, the plan of
  which of its tool calls run now, their execution through the tool executor
  (harness/runtime/tool_executor.py), a checkpoint. Everything is written to one database through
  the run repository, whose versioned update fences writers that have lost their lease; a sensitive
  call waits for an approval; a reaper takes runs back from dead workers and expires approvals. The
  command line agent (marcus_code/runtime/agent.py) has no database: a turn asks the model, checks
  its calls against mode and permissions, runs them, keeps the history a valid conversation, trims
  it, and delivers an answer only with the evidence its contract asks for. Both share tools, their
  validation, truncation and redaction, the file and URL guards, and the LLM gateway
  (harness/llm/gateway.py) with its provider adapters.

  \<^bold>\<open>The theories and what they model.\<close>
  \<^item> Prelude, Effects: Python values and texts; the state-and-exception monad, its Hoare triples and
    the relations an operation respects. Samples: a concrete outside for the witnesses.
  \<^item> Enums (harness/db/enums.py, runtime/state_machine.py), Config (harness/config.py), Store
    (harness/db/models.py: the rows as records, a session with what it sees and what is durable).
  \<^item> Repository (runtime/repository.py); RunStore: workers whose operations interleave in any order,
    the state machine, the fence and the lease.
  \<^item> Tools (tools.py, tool_validation.py, result_pipeline.py), Guardrails (guardrails.py), Executor
    (tool_executor.py); Recovery: the life of a call over crashes and replays.
  \<^item> Skills (skills/registry.py, usage.py), Context (context.py, compaction.py, llm/types.py,
    llm/usage.py), NativeTools (native_tools.py, mcp/tools.py, the reads of mcp/registry.py), Engine
    (engine.py); EngineRuns: termination, budgets, why a run stops.
  \<^item> Lifecycle (routes runs.py and approvals.py, quotas.py, reaper.py, auth.py); Approvals, Worker
    (workers/main.py) and Routes: what holds of approvals, of a worker's message and of the API.
  \<^item> Accounts (auth.py, deps.py, routes/api_keys.py): the tables beside the runs, the session over
    both groups of tables, who a request is. Scheduler (scheduler.py, routes/scheduled_jobs.py) and
    Slack (slack/service.py, client.py, signing.py, routes/slack.py, slack_settings.py): jobs and
    events that create runs. Access, SchedulerRuns, SlackRuns: what holds of each.
  \<^item> Trim (token_utils.py), Policy (modes.py, task_contract.py, effort_router.py, todo_tracker.py,
    events.py, event_bus.py), CliLoop (agent.py); CliRuns, CliHistory, CliExamples: permissions,
    evidence, bounds and the conversation of a turn.
  \<^item> Redact (redaction.py, command_policy.py), Urls (url_validation.py with \<open>urlparse\<close> and the
    address tables), Files (path_utils.py, file_writes.py and the file tools of tools/base.py);
    FileTools: confinement, atomic writes, reading back.
  \<^item> Providers, Gateway (harness/llm/providers.py, gateway.py); GatewayRuns: bounded attempts, errors,
    the assembly of a stream.
  \<^item> Processes and Web (background processes, fetch_url, wait_for_http, check_url_health), Commands
    (run_cli, run_tests, execute_python, grep, list_files, git, the tree, html_utils.py and the server's
    variants), Json (the standard library's json), Notes and Diffs (memory, todos, apply_diff and the
    server's copies).
  \<^item> CliTools, ServerTools: every shipped tool as it is declared, with its schema and flags;
    ToolTables and ToolTypes: what the declarations mean for the executor, the loop and the handlers.

  A definition has the name of the function it translates; a record's fields have the names of the
  class behind a prefix. Exceptions are values of \<open>exn\<close>; an operation on the database is a program
  of the monad, a handler without one a function from a world to a result and a world.

  \<^bold>\<open>What the lemmas show.\<close> Per component: the cases of every operation, that it keeps what it must
  (\<open>leaves\<close>, \<open>keeps\<close>, \<open>grown\<close>, \<open>ready\<close>), and an abstract contract where there is one: the locale
  \<open>lifecycle\<close> for status graphs, \<open>fenced\<close> for a store with versions, \<open>trimming\<close> for a trim of the
  history, \<open>turn_frame\<close> and \<open>model_frame\<close> for a turn, each interpreted on the code's model. The
  properties, in the order of their importance, are marked with their numbers in the theories.

  \<^bold>\<open>Bounds and fuel.\<close> The engine's loop ends with any fuel above the steps the run has left, by
  \<open>engine_terminates\<close>. The command line loop makes its maximum of steps. Retries of the gateway are
  bounded by its setting, redirects by five and twenty. wait_for_http needs 1,202 rounds when the clock
  moves on as it sleeps. The JSON reader's fuel is twice the text's length and one, enough by
  \<open>enough_fuel\<close>. Resolving a path whose links run in a circle is the value None.

  \<^bold>\<open>Parameters.\<close> The model, the tools' own effects, the HTTP endpoint, the resolver, MCP servers, the
  message broker, Redis, Slack's endpoint, the cron trigger, the operating system's processes, the clock,
  \<open>uuid4\<close>, temporary names, SHA-256, the
  third-party orjson and jsonschema, the decoding of bytes, joining of URLs, globbing, a user's
  regular expressions, git, the comparison of texts. What is used of them is a named hypothesis of the
  property that needs it.

  \<^bold>\<open>Conventions.\<close> A character is a byte read as Latin-1, and a constant outside ASCII stands as its
  UTF-8 bytes; floats are exact rationals; dictionaries are association lists in insertion order. Calls
  the code gathers concurrently run one after the other. The limits of the interpreter (recursion,
  digits of a number) and the error of a text with a NUL are not modelled.

  \<^bold>\<open>Not modelled.\<close> Terminal output and its applications (marcus_code/ui, cli): printing and argument
  parsing. The HTTP schemas and the routes that only store a setting; the MCP transport and the
  cryptography: clients of packages outside the repository. Metrics, traces, migrations and the queue.
  The search of the web: a scrape of a page of another service.
\<close>

end
